(* ===== verification/Uprava_Prelude.thy ===== *)
theory Uprava_Prelude
  imports Main "HOL-Library.Word" "HOL-Library.AList" "HOL-Library.Char_ord"
    "HOL-Library.List_Lexorder" "HOL-Library.Product_Lexorder"
begin

text \<open>
  Shared material of the development: Rust's \<open>Result\<close> and its question-mark operator,
  the string functions of the standard library the program uses, JSON values, SQL tables
  as lists of rows, hash maps as association lists, and saturating machine integers.

  Conventions used by every component theory:
  \<^item> an identifier (\<open>NodeId\<close>, \<open>CommandId\<close>, \dots) is a newtype over \<open>String\<close> and is a
    \<open>string\<close> here; one Isabelle character stands for one Rust \<open>char\<close> (Unicode scalar
    value) below 256, so \<open>length\<close> is \<open>chars().count()\<close> and \<open>utf8_len\<close> is \<open>len()\<close>;
  \<^item> \<open>DateTime<Utc>\<close> is an integer number of nanoseconds, and \<open>Utc::now()\<close> and fresh
    UUIDs are arguments of the operations that draw them;
  \<^item> a SQL table is the list of its rows in insertion order; a \<open>*_json\<close> column holds the
    value it serializes;
  \<^item> a \<open>HashMap\<close> is an association list with distinct keys whose order stands for the
    unspecified iteration order.
\<close>

named_theorems result_simps \<open>inversion of the question-mark operator\<close>
named_theorems table_simps \<open>look-ups after table updates\<close>

section \<open>Results\<close>

definition and_then :: "'e + 'a \<Rightarrow> ('a \<Rightarrow> 'e + 'b) \<Rightarrow> 'e + 'b" where
  "and_then r f = (case r of Inl e \<Rightarrow> Inl e | Inr x \<Rightarrow> f x)"

definition ensure :: "bool \<Rightarrow> 'e \<Rightarrow> 'e + unit" where
  "ensure b e = (if b then Inr () else Inl e)"

definition ok_or :: "'a option \<Rightarrow> 'e \<Rightarrow> 'e + 'a" where
  "ok_or x e = (case x of None \<Rightarrow> Inl e | Some v \<Rightarrow> Inr v)"

definition is_ok :: "'e + 'a \<Rightarrow> bool" where
  "is_ok r = (case r of Inl _ \<Rightarrow> False | Inr _ \<Rightarrow> True)"

lemma and_then_Inl [simp]: "and_then (Inl e) f = Inl e"
  by (simp add: and_then_def)

lemma and_then_Inr [simp]: "and_then (Inr x) f = f x"
  by (simp add: and_then_def)

lemma and_then_eq_Inr [result_simps]:
  "and_then r f = Inr y \<longleftrightarrow> (\<exists>x. r = Inr x \<and> f x = Inr y)"
  by (cases r) auto

lemma and_then_eq_Inl [result_simps]:
  "and_then r f = Inl e \<longleftrightarrow> r = Inl e \<or> (\<exists>x. r = Inr x \<and> f x = Inl e)"
  by (cases r) auto

lemma ensure_eq_Inr [simp]: "ensure b e = Inr u \<longleftrightarrow> b"
  by (simp add: ensure_def)

lemma ensure_eq_Inl [simp]: "ensure b e = Inl e' \<longleftrightarrow> \<not> b \<and> e' = e"
  by (auto simp: ensure_def)

lemma ensure_True [simp]: "ensure True e = Inr ()"
  by (simp add: ensure_def)

lemma ensure_False [simp]: "ensure False e = Inl e"
  by (simp add: ensure_def)

lemma ok_or_eq_Inr [simp]: "ok_or x e = Inr v \<longleftrightarrow> x = Some v"
  by (cases x) (auto simp: ok_or_def)

lemma ok_or_eq_Inl [simp]: "ok_or x e = Inl e' \<longleftrightarrow> x = None \<and> e' = e"
  by (cases x) (auto simp: ok_or_def)

lemma ok_or_Some [simp]: "ok_or (Some v) e = Inr v"
  by (simp add: ok_or_def)

lemma ok_or_None [simp]: "ok_or None e = Inl e"
  by (simp add: ok_or_def)

lemma is_ok_Inl [simp]: "\<not> is_ok (Inl e)"
  by (simp add: is_ok_def)

lemma is_ok_Inr [simp]: "is_ok (Inr x)"
  by (simp add: is_ok_def)

lemma is_ok_ensure [simp]: "is_ok (ensure b e) = b"
  by (simp add: ensure_def)

lemma is_ok_and_then: "is_ok (and_then r f) \<longleftrightarrow> (\<exists>x. r = Inr x \<and> is_ok (f x))"
  by (cases r) auto

text \<open>A loop whose body returns a result: \<open>for x in xs { body(x)?; }\<close> over a state.\<close>

fun try_fold :: "('a \<Rightarrow> 's \<Rightarrow> 'e + 's) \<Rightarrow> 'a list \<Rightarrow> 's \<Rightarrow> 'e + 's" where
  "try_fold f [] s = Inr s"
| "try_fold f (x # xs) s = and_then (f x s) (try_fold f xs)"

lemma try_fold_append:
  "try_fold f (xs @ ys) s = and_then (try_fold f xs s) (try_fold f ys)"
proof (induction xs arbitrary: s)
  case (Cons x xs)
  then show ?case by (cases "f x s") auto
qed simp

lemma try_fold_invariant:
  assumes "\<And>x s s'. x \<in> set xs \<Longrightarrow> P s \<Longrightarrow> f x s = Inr s' \<Longrightarrow> P s'"
    and "P s" and "try_fold f xs s = Inr s'"
  shows "P s'"
  using assms
proof (induction xs arbitrary: s)
  case (Cons x xs)
  from Cons.prems(3) obtain t where t: "f x s = Inr t" "try_fold f xs t = Inr s'"
    by (auto simp: result_simps)
  have "P t" using Cons.prems(1)[of x s t] Cons.prems(2) t(1) by simp
  then show ?case using Cons.IH[of t] Cons.prems(1) t(2) by auto
qed simp

section \<open>Strings\<close>

definition is_whitespace :: "char \<Rightarrow> bool" where
  "is_whitespace c = (let n = (of_char c :: nat) in (9 \<le> n \<and> n \<le> 13) \<or> n = 32 \<or> n = 133 \<or> n = 160)"

definition trim :: "string \<Rightarrow> string" where
  "trim s = rev (dropWhile is_whitespace (rev (dropWhile is_whitespace s)))"

definition utf8_len :: "string \<Rightarrow> nat" where
  "utf8_len s = sum_list (map (\<lambda>c. if (of_char c :: nat) < 128 then 1 else 2) s)"

definition is_ascii_digit :: "char \<Rightarrow> bool" where
  "is_ascii_digit c = (let n = (of_char c :: nat) in 48 \<le> n \<and> n \<le> 57)"

definition is_ascii_hexdigit :: "char \<Rightarrow> bool" where
  "is_ascii_hexdigit c = (let n = (of_char c :: nat) in
     (48 \<le> n \<and> n \<le> 57) \<or> (65 \<le> n \<and> n \<le> 70) \<or> (97 \<le> n \<and> n \<le> 102))"

definition is_ascii_alphanumeric :: "char \<Rightarrow> bool" where
  "is_ascii_alphanumeric c = (let n = (of_char c :: nat) in
     (48 \<le> n \<and> n \<le> 57) \<or> (65 \<le> n \<and> n \<le> 90) \<or> (97 \<le> n \<and> n \<le> 122))"

lemma dropWhile_eq_Nil_all: "dropWhile P xs = [] \<longleftrightarrow> (\<forall>x\<in>set xs. P x)"
  by (induction xs) auto

lemma dropWhile_set_neq:
  assumes "\<exists>x\<in>set xs. \<not> P x" shows "\<exists>x\<in>set (dropWhile P xs). \<not> P x"
  using assms by (induction xs) auto

lemma trim_empty_iff: "trim s = [] \<longleftrightarrow> (\<forall>c\<in>set s. is_whitespace c)"
  unfolding trim_def
  by (metis (no_types, opaque_lifting) dropWhile_eq_Nil_all dropWhile_set_neq list.set_intros(1)
      rev_is_Nil_conv set_rev list.exhaust empty_iff list.set(1))

lemma length_trim_le: "length (trim s) \<le> length s"
  unfolding trim_def
  by (metis length_dropWhile_le length_rev order_trans)

lemma dropWhile_idem [simp]: "dropWhile P (dropWhile P xs) = dropWhile P xs"
  by (induction xs) auto

lemma dropWhile_rev_dropWhile:
  assumes "dropWhile P xs = xs"
  shows "dropWhile P (rev (dropWhile P (rev xs))) = rev (dropWhile P (rev xs))"
proof (cases "rev (dropWhile P (rev xs))")
  case Nil
  then show ?thesis by (simp only: dropWhile.simps)
next
  case (Cons y ys)
  have "rev xs = takeWhile P (rev xs) @ dropWhile P (rev xs)" by simp
  then have "xs = rev (dropWhile P (rev xs)) @ rev (takeWhile P (rev xs))"
    by (metis rev_append rev_rev_ident)
  with Cons have xs: "xs = y # (ys @ rev (takeWhile P (rev xs)))" by simp
  have "\<not> P y"
  proof
    assume "P y"
    then have "length (dropWhile P xs) < length xs"
      using length_dropWhile_le[of P "ys @ rev (takeWhile P (rev xs))"]
      by (subst xs, subst (2) xs) simp
    with assms show False by simp
  qed
  then show ?thesis using Cons by simp
qed

lemma trim_idem [simp]: "trim (trim s) = trim s"
proof -
  let ?a = "dropWhile is_whitespace s"
  have "dropWhile is_whitespace (trim s) = trim s"
    unfolding trim_def by (rule dropWhile_rev_dropWhile) simp
  then show ?thesis by (subst (1) trim_def) (simp add: trim_def)
qed

section \<open>JSON values\<close>

text \<open>\<open>serde_json::Value\<close> with integral numbers; an object is the list of its members.\<close>

datatype json = JNull | JBool bool | JNum int | JStr string
  | JArr "json list" | JObj "(string \<times> json) list"

definition json_get :: "json \<Rightarrow> string \<Rightarrow> json option" where
  "json_get v k = (case v of JObj ms \<Rightarrow> map_of ms k | _ \<Rightarrow> None)"

definition json_as_str :: "json \<Rightarrow> string option" where
  "json_as_str v = (case v of JStr s \<Rightarrow> Some s | _ \<Rightarrow> None)"

definition json_as_bool :: "json \<Rightarrow> bool option" where
  "json_as_bool v = (case v of JBool b \<Rightarrow> Some b | _ \<Rightarrow> None)"

definition json_get_str :: "json \<Rightarrow> string \<Rightarrow> string option" where
  "json_get_str v k = Option.bind (json_get v k) json_as_str"

definition json_get_bool :: "json \<Rightarrow> string \<Rightarrow> bool option" where
  "json_get_bool v k = Option.bind (json_get v k) json_as_bool"

section \<open>Tables\<close>

text \<open>
  \<open>select\<close> by primary key, \<open>update \<dots> where\<close>, \<open>delete \<dots> where\<close> and the number of rows a
  condition affects. \<open>key\<close> is the primary-key column.
\<close>

definition select_by :: "('r \<Rightarrow> 'k) \<Rightarrow> 'k \<Rightarrow> 'r list \<Rightarrow> 'r option" where
  "select_by key k t = find (\<lambda>r. key r = k) t"

definition update_where :: "('r \<Rightarrow> bool) \<Rightarrow> ('r \<Rightarrow> 'r) \<Rightarrow> 'r list \<Rightarrow> 'r list" where
  "update_where p f t = map (\<lambda>r. if p r then f r else r) t"

definition delete_where :: "('r \<Rightarrow> bool) \<Rightarrow> 'r list \<Rightarrow> 'r list" where
  "delete_where p t = filter (\<lambda>r. \<not> p r) t"

definition rows_affected :: "('r \<Rightarrow> bool) \<Rightarrow> 'r list \<Rightarrow> nat" where
  "rows_affected p t = length (filter p t)"

definition unique_key :: "('r \<Rightarrow> 'k) \<Rightarrow> 'r list \<Rightarrow> bool" where
  "unique_key key t \<longleftrightarrow> distinct (map key t)"

lemma select_by_Nil [simp]: "select_by key k [] = None"
  by (simp add: select_by_def)

lemma select_by_Cons [simp]:
  "select_by key k (r # t) = (if key r = k then Some r else select_by key k t)"
  by (simp add: select_by_def)

lemma select_by_Some_key: "select_by key k t = Some r \<Longrightarrow> key r = k \<and> r \<in> set t"
  by (induction t) (auto split: if_splits)

lemma select_by_None_iff: "select_by key k t = None \<longleftrightarrow> k \<notin> key ` set t"
  by (induction t) auto

lemma select_by_append:
  "select_by key k (t @ u) = (case select_by key k t of None \<Rightarrow> select_by key k u | Some r \<Rightarrow> Some r)"
  by (induction t) auto

lemma select_by_unique:
  "unique_key key t \<Longrightarrow> r \<in> set t \<Longrightarrow> select_by key (key r) t = Some r"
  by (induction t) (auto simp: unique_key_def)

lemma update_where_Nil [simp]: "update_where p f [] = []"
  by (simp add: update_where_def)

lemma update_where_Cons [simp]:
  "update_where p f (r # t) = (if p r then f r else r) # update_where p f t"
  by (simp add: update_where_def)

lemma keys_update_where: "(\<And>r. key (f r) = key r) \<Longrightarrow> key ` set (update_where p f t) = key ` set t"
  by (induction t) auto

lemma length_update_where [simp]: "length (update_where p f t) = length t"
  by (simp add: update_where_def)

lemma delete_where_Nil [simp]: "delete_where p [] = []"
  by (simp add: delete_where_def)

lemma delete_where_Cons [simp]:
  "delete_where p (r # t) = (if p r then delete_where p t else r # delete_where p t)"
  by (simp add: delete_where_def)

lemma set_delete_where [simp]: "set (delete_where p t) = {r \<in> set t. \<not> p r}"
  by (auto simp: delete_where_def)

lemma rows_affected_0_iff: "rows_affected p t = 0 \<longleftrightarrow> (\<forall>r\<in>set t. \<not> p r)"
  by (auto simp: rows_affected_def filter_empty_conv)

lemma unique_key_Nil [simp]: "unique_key key []"
  by (simp add: unique_key_def)

lemma unique_key_snoc:
  "unique_key key (t @ [r]) \<longleftrightarrow> unique_key key t \<and> select_by key (key r) t = None"
  by (auto simp: unique_key_def select_by_None_iff)

lemma unique_key_delete_where: "unique_key key t \<Longrightarrow> unique_key key (delete_where p t)"
  by (simp add: unique_key_def delete_where_def distinct_map_filter)

text \<open>
  The contract every \<open>update\<close> statement of the program meets: it never assigns the
  primary key. From it follow the look-up laws and that uniqueness of the key is kept.
\<close>

locale keyed_update =
  fixes key :: "'r \<Rightarrow> 'k" and assign :: "'r \<Rightarrow> 'r"
  assumes key_assign: "key (assign r) = key r"
begin

lemma map_key_update: "map key (update_where p assign t) = map key t"
  by (induction t) (auto simp: key_assign)

lemma unique_update: "unique_key key (update_where p assign t) \<longleftrightarrow> unique_key key t"
  by (simp add: unique_key_def map_key_update)

lemma select_update:
  "select_by key k (update_where p assign t)
   = map_option (\<lambda>r. if p r then assign r else r) (select_by key k t)"
  by (induction t) (auto simp: key_assign)

lemma select_update_key:
  "select_by key k (update_where (\<lambda>r. key r = k' \<and> q r) assign t)
   = (if k = k' then map_option (\<lambda>r. if q r then assign r else r) (select_by key k t)
      else select_by key k t)"
  by (induction t) (auto simp: key_assign)

lemma select_update_at:
  "select_by key k (update_where (\<lambda>r. key r = k') assign t)
   = (if k = k' then map_option assign (select_by key k t) else select_by key k t)"
  by (induction t) (auto simp: key_assign)

lemma keys_update: "key ` set (update_where p assign t) = key ` set t"
  by (metis map_key_update set_map)

end

lemma select_delete_other:
  "(\<And>r. key r = k \<Longrightarrow> \<not> p r) \<Longrightarrow> select_by key k (delete_where p t) = select_by key k t"
  by (induction t) auto

lemma select_delete_key:
  "select_by key k (delete_where (\<lambda>r. key r = k') t) = (if k = k' then None else select_by key k t)"
  by (induction t) auto

text \<open>\<open>select max(col)\<close>: \<open>NULL\<close> on an empty selection.\<close>

definition col_max :: "int list \<Rightarrow> int option" where
  "col_max xs = (case xs of [] \<Rightarrow> None | x # xs' \<Rightarrow> Some (fold max xs' x))"

definition next_after :: "int list \<Rightarrow> int" where
  "next_after xs = (case col_max xs of None \<Rightarrow> 0 | Some m \<Rightarrow> m) + 1"

lemma col_max_Max: "xs \<noteq> [] \<Longrightarrow> col_max xs = Some (Max (set xs))"
  by (cases xs) (simp_all add: col_max_def Max.set_eq_fold[symmetric] del: Max_insert)

lemma next_after_Nil [simp]: "next_after [] = 1"
  by (simp add: next_after_def col_max_def)

lemma next_after_greater: "x \<in> set xs \<Longrightarrow> x < next_after xs"
  by (cases "xs = []") (auto simp: next_after_def col_max_Max intro: le_imp_less_Suc
      dest!: Max_ge[OF finite_set])

lemma next_after_snoc:
  assumes "xs = [] \<Longrightarrow> x \<ge> 0" and "x \<ge> next_after xs - 1"
  shows "next_after (xs @ [x]) = x + 1"
  using assms by (cases xs) (auto simp: next_after_def col_max_def max_def)

section \<open>Hash maps\<close>

abbreviation hm_get :: "('k \<times> 'v) list \<Rightarrow> 'k \<Rightarrow> 'v option" where
  "hm_get \<equiv> map_of"

abbreviation hm_insert :: "'k \<Rightarrow> 'v \<Rightarrow> ('k \<times> 'v) list \<Rightarrow> ('k \<times> 'v) list" where
  "hm_insert \<equiv> AList.update"

abbreviation hm_remove :: "'k \<Rightarrow> ('k \<times> 'v) list \<Rightarrow> ('k \<times> 'v) list" where
  "hm_remove \<equiv> AList.delete"

definition hm_wf :: "('k \<times> 'v) list \<Rightarrow> bool" where
  "hm_wf m \<longleftrightarrow> distinct (map fst m)"

lemma hm_wf_Nil [simp, intro]: "hm_wf []"
  by (simp add: hm_wf_def)

lemma hm_wf_insert [simp, intro]: "hm_wf m \<Longrightarrow> hm_wf (hm_insert k v m)"
  by (simp add: hm_wf_def distinct_update)

lemma hm_wf_remove [simp, intro]: "hm_wf m \<Longrightarrow> hm_wf (hm_remove k m)"
  by (simp add: hm_wf_def distinct_delete)

lemma hm_get_insert [simp]: "hm_get (hm_insert k v m) k' = (if k' = k then Some v else hm_get m k')"
  by (simp add: update_conv')

lemma hm_get_remove [simp]: "hm_get (hm_remove k m) k' = (if k' = k then None else hm_get m k')"
  by (simp add: delete_conv')

lemma hm_wf_filter: "hm_wf m \<Longrightarrow> hm_wf (filter p m)"
  by (simp add: hm_wf_def distinct_map_filter)

section \<open>Saturating unsigned integers\<close>

type_synonym u64 = "64 word"

definition saturating_add :: "u64 \<Rightarrow> u64 \<Rightarrow> u64" where
  "saturating_add a b = (if unat a + unat b < 2 ^ 64 then a + b else - 1)"

lemma unat_saturating_add: "unat (saturating_add a b) = min (unat a + unat b) (2 ^ 64 - 1)"
proof (cases "unat a + unat b < 2 ^ 64")
  case True
  then show ?thesis by (simp add: saturating_add_def unat_word_ariths)
next
  case False
  have "unat (- 1 :: u64) = 2 ^ 64 - 1" by (simp add: unsigned_minus_1_eq_mask mask_eq_exp_minus_1)
  with False show ?thesis by (simp add: saturating_add_def)
qed

end
