(* ===== verification/Domain_Types.thy ===== *)
theory Domain_Types
  imports Uprava_Prelude
begin

text \<open>
  The domain types of the crate \<open>uprava-protocol\<close>: the enumerations of \<open>domain.rs\<close>, the
  references of \<open>reference.rs\<close> and \<open>projection.rs\<close>, and the workspace and task structures
  the commands and events carry (\<open>workspace.rs\<close>, \<open>task.rs\<close>, \<open>api.rs\<close>).

  The enumerations of the source share constructor names (\<open>Failed\<close>, \<open>Stopped\<close>, \dots), so a
  constructor carries the initials of its type: \<open>TaskRunState::Failed\<close> is \<open>TS_Failed\<close>.
  The \<open>ToolScope\<close> of a tool call and the trace steps and evidence of a deduction package are
  carried as their JSON encoding: nothing modelled here looks inside them.
\<close>

section \<open>Domain enumerations\<close>

type_synonym id = string
type_synonym time = int

datatype (plugins only: code size) enrollment_state = ES_Unregistered | ES_PendingUserApproval | ES_Approved
  | ES_Registered | ES_Expired | ES_Rejected | ES_Revoked

datatype (plugins only: code size) sleep_hint = SH_Unknown | SH_Awake | SH_Suspending | SH_Sleeping | SH_Woke

datatype (plugins only: code size) node_presence = NP_Reachable | NP_Stale | NP_Offline | NP_Revoked

datatype (plugins only: code size) control_channel_state = CC_Closed | CC_Requested | CC_Connecting | CC_Open | CC_Closing | CC_Lost

datatype (plugins only: code size) placement_state = PS_Pending | PS_Validated | PS_Missing | PS_ReadOnly | PS_Error

datatype (plugins only: code size) session_thread_state = SS_Created | SS_Active | SS_Detached | SS_Stopped | SS_Degraded

datatype (plugins only: code size) runtime_session_state = RS_Starting | RS_Ready | RS_Running | RS_Blocked | RS_Stopping
  | RS_Stopped | RS_Interrupted | RS_Resuming | RS_Stale | RS_Error | RS_Expired

datatype (plugins only: code size) turn_state = TN_Created | TN_Dispatched | TN_Running | TN_BlockedOnApproval
  | TN_Completed | TN_Interrupted | TN_Failed

datatype (plugins only: code size) scheduled_message_state = SM_Scheduled | SM_Sending | SM_Sent | SM_Failed | SM_Cancelled

datatype (plugins only: code size) job_run_state = JR_Queued | JR_Starting | JR_Running | JR_Succeeded | JR_Failed
  | JR_Cancelled | JR_TimedOut | JR_Skipped

datatype (plugins only: code size) job_run_trigger = JT_Manual | JT_Scheduled

datatype (plugins only: code size) job_overlap_policy = OP_Skip

datatype (plugins only: code size) job_schedule = JS_Interval "32 word" | JS_Daily "8 word" "8 word"
  | JS_Weekly "8 word" "8 word" "8 word"

datatype (plugins only: code size) task_run_state = TS_Queued | TS_PreparingWorkspace | TS_StartingRuntime | TS_Running
  | TS_Checking | TS_CollectingEvidence | TS_Succeeded | TS_Failed | TS_Cancelling
  | TS_Cancelled | TS_TimedOut

definition is_terminal :: "task_run_state \<Rightarrow> bool" where
  "is_terminal s \<longleftrightarrow> (case s of TS_Succeeded \<Rightarrow> True | TS_Failed \<Rightarrow> True
     | TS_Cancelled \<Rightarrow> True | TS_TimedOut \<Rightarrow> True | _ \<Rightarrow> False)"

datatype (plugins only: code size) task_cleanup_state = TC_Pending | TC_Completed | TC_Failed

datatype (plugins only: code size) command_state = CS_Recorded | CS_PendingDispatch | CS_Dispatched | CS_Acknowledged
  | CS_Completed | CS_Failed | CS_Blocked | CS_Expired

datatype (plugins only: code size) approval_state = AS_Requested | AS_Resolved | AS_Expired | AS_Cancelled

datatype (plugins only: code size) warning_severity = WS_Info | WS_Warning | WS_HardBlock

datatype (plugins only: code size) command_kind = CK_StartRuntime | CK_ResumeRuntime | CK_SendTurn | CK_ResolveApproval
  | CK_InterruptRuntime | CK_StopRuntime | CK_ValidateWorkspace | CK_RefreshResourceSnapshot
  | CK_ListWorkspaceTree | CK_ReadWorkspaceFile | CK_WriteWorkspaceFile | CK_RunWorkspaceCommand
  | CK_ReadWorkspaceDiff | CK_OpenWorkspaceTerminal | CK_AttachWorkspaceTerminal
  | CK_ResizeWorkspaceTerminal | CK_WriteWorkspaceTerminal | CK_CloseWorkspaceTerminal
  | CK_RequestDeduction | CK_CancelDeduction | CK_RunTask | CK_CancelTaskRun | CK_Tooling
  | CK_Extension

datatype (plugins only: code size) event_kind = EK_RuntimeStarting | EK_RuntimeReady | EK_RuntimeRunning | EK_RuntimeBlocked
  | EK_RuntimeExpired | EK_RuntimeResuming | EK_RuntimeStopped | EK_RuntimeError
  | EK_TurnStarted | EK_TurnCompleted | EK_TurnInterrupted | EK_ProviderActivity
  | EK_ProviderOutputDelta | EK_ProviderMessageCompleted | EK_ApprovalRequested
  | EK_ApprovalResolved | EK_CoordinationWarningAcknowledged | EK_WorkspaceValidated
  | EK_ResourceSnapshotUpdated | EK_WorkspaceFileWritten | EK_WorkspaceCommandCompleted
  | EK_WorkspaceCheckCompleted | EK_WorkspaceDiffObserved | EK_DeductionRequested
  | EK_DeductionCompleted | EK_DeductionInvalid | EK_DeductionFailed | EK_DeductionCancelled
  | EK_TaskRunStateChanged | EK_Extension

section \<open>References\<close>

datatype (plugins only: code size) actor_ref = AR_LocalUser "id option" | AR_System | AR_Node id | AR_Provider string | AR_Unknown

datatype (plugins only: code size) scope_ref = SR_Runtime id | SR_Session id | SR_Node id | SR_Placement id | SR_TaskRun id
  | SR_Unknown string

datatype (plugins only: code size) deduction_state = DS_Requested | DS_Running | DS_Completed | DS_Invalid
  | DS_Failed | DS_Cancelled

record text_range =
  tr_start_line :: "int option"
  tr_end_line :: "int option"
  tr_start_offset :: "int option"
  tr_end_offset :: "int option"

datatype (plugins only: code size) uprava_ref = UR_Node id | UR_Project id | UR_Placement id | UR_Workspace id
  | UR_Session id | UR_Runtime id | UR_TaskRun id | UR_Turn id | UR_Message id
  | UR_MessageRange id text_range | UR_Block id | UR_Artifact id | UR_ArtifactVersion id u64
  | UR_Deduction id | UR_Event id scope_ref int | UR_Command id | UR_Approval id
  | UR_Warning string "id option" | UR_ToolCall string | UR_File id string "string option"
  | UR_FileRange id string text_range "string option" | UR_Terminal string id
  | UR_TerminalCommand string "string option" | UR_TerminalOutputRange string text_range
  | UR_DiffHunk string string | UR_WorkspaceDiff string id
  | UR_CheckResult string "string option"
  | UR_WorkspaceEdit string "id option" "string option" | UR_TraceEvent string
  | UR_ExternalEntity string string | UR_Unknown string json

section \<open>Workspace and API structures\<close>

record resource_badge =
  rb_kind :: string
  rb_severity :: warning_severity
  rb_label :: string

datatype (plugins only: code size) git_repository_state = GR_Ready | GR_NotRepository | GR_Unavailable
datatype (plugins only: code size) git_head_state = GH_Branch | GH_Detached | GH_Unborn
datatype (plugins only: code size) git_worktree_kind = GW_Primary | GW_Linked
datatype (plugins only: code size) git_operation = GO_Merge | GO_Rebase | GO_CherryPick | GO_Revert | GO_Bisect
datatype (plugins only: code size) git_change_kind = GC_Added | GC_Modified | GC_Deleted | GC_Renamed | GC_Copied
  | GC_Untracked | GC_Unmerged | GC_TypeChanged | GC_Unknown

record git_changed_file =
  gf_path :: string
  gf_previous_path :: "string option"
  gf_index_status :: "git_change_kind option"
  gf_worktree_status :: "git_change_kind option"
  gf_conflicted :: bool
  gf_binary :: bool

record git_workspace_snapshot =
  gs_state :: git_repository_state
  gs_repo_id :: "string option"
  gs_head_state :: "git_head_state option"
  gs_branch :: "string option"
  gs_commit :: "string option"
  gs_upstream :: "string option"
  gs_ahead :: u64
  gs_behind :: u64
  gs_worktree_kind :: "git_worktree_kind option"
  gs_operation :: "git_operation option"
  gs_changed_files :: "git_changed_file list"
  gs_staged_count :: u64
  gs_unstaged_count :: u64
  gs_untracked_count :: u64
  gs_conflicted_count :: u64
  gs_truncated :: bool
  gs_generated_at :: time

record scheduled_message_failure =
  smf_code :: string
  smf_message :: string

datatype (plugins only: code size) message_role = MR_User | MR_Assistant | MR_System | MR_Runtime | MR_Approval

datatype (plugins only: code size) workspace_command_intent = WI_Command | WI_Check
datatype (plugins only: code size) workspace_diff_scope = WD_All | WD_Staged | WD_Unstaged
datatype (plugins only: code size) workspace_terminal_state = WT_Opening | WT_Running | WT_Detached
  | WT_Exited | WT_Closed | WT_Error

record workspace_file_write_request =
  wfw_path :: string
  wfw_content :: string
  wfw_expected_content :: "string option"

record workspace_command_run_request =
  wcr_command :: string
  wcr_args :: "string list"
  wcr_intent :: workspace_command_intent
  wcr_label :: "string option"
  wcr_timeout_seconds :: "u64 option"

record workspace_diff_request =
  wdr_scope :: workspace_diff_scope
  wdr_path :: "string option"

record workspace_terminal_open_request =
  wto_shell_profile :: "string option"
  wto_cols :: "16 word"
  wto_rows :: "16 word"

record workspace_terminal_resize_request =
  wtr_terminal_id :: id
  wtr_cols :: "16 word"
  wtr_rows :: "16 word"

record workspace_terminal_write_request =
  wtw_terminal_id :: id
  wtw_data :: string

section \<open>Task structures\<close>

record task_check_spec =
  tk_label :: string
  tk_command :: string
  tk_args :: "string list"
  tk_timeout_seconds :: u64

record task_resource_limits =
  tl_cpu :: string
  tl_memory :: string

record create_task_run_request =
  ctr_project_placement_id :: id
  ctr_prompt :: string
  ctr_base_revision :: "string option"
  ctr_checks :: "task_check_spec list"
  ctr_artifact_paths :: "string list"
  ctr_timeout_seconds :: u64
  ctr_ttl_seconds :: u64
  ctr_resource_limits :: task_resource_limits
  ctr_runtime_image :: "string option"

record task_run_spec =
  trs_task_run_id :: id
  trs_project_placement_id :: id
  trs_provider :: string
  trs_prompt :: string
  trs_base_revision :: string
  trs_branch :: string
  trs_checks :: "task_check_spec list"
  trs_artifact_paths :: "string list"
  trs_timeout_seconds :: u64
  trs_ttl_seconds :: u64
  trs_resource_limits :: task_resource_limits
  trs_runtime_image :: string

record task_check_result =
  tcr_label :: string
  tcr_command :: string
  tcr_success :: bool
  tcr_exit_code :: "int option"
  tcr_stdout :: string
  tcr_stderr :: string
  tcr_stdout_truncated :: bool
  tcr_stderr_truncated :: bool
  tcr_duration_ms :: u64

record task_artifact_evidence =
  tae_path :: string
  tae_size_bytes :: u64
  tae_sha256 :: string

record task_run_result_package =
  trp_task_run_id :: id
  trp_state :: task_run_state
  trp_cleanup_state :: task_cleanup_state
  trp_summary :: string
  trp_base_revision :: string
  trp_final_revision :: "string option"
  trp_branch :: string
  trp_worktree_path :: string
  trp_runtime_image :: string
  trp_diff :: string
  trp_diff_truncated :: bool
  trp_checks :: "task_check_result list"
  trp_artifacts :: "task_artifact_evidence list"
  trp_unresolved_risks :: "string list"
  trp_terminal_reason :: "scheduled_message_failure option"

section \<open>Capabilities\<close>

datatype (plugins only: code size) capability_value =
    CV_Provider bool bool string "u64 option" "string option"
  | CV_WorkspaceValidation string
  | CV_Extension string json

record capability_summary =
  cs_key :: string
  cs_value :: capability_value

section \<open>Tooling commands\<close>

datatype (plugins only: code size) integration_desired_state = ID_Enabled | ID_Disabled

datatype (plugins only: code size) tooling_command_payload =
    TP_BeginIntegrationAuthorization id id string string string
  | TP_ExecuteExternalTool id id string id id json json time u64
  | TP_CancelToolCall id "string option"
  | TP_UpdateDependencyDesiredState id id integration_desired_state "string option" string string string

record tooling_command =
  tc_contract_version :: "16 word"
  tc_payload :: tooling_command_payload

section \<open>Deduction packages\<close>

record deduction_input_package =
  dip_deduction_id :: id
  dip_session_thread_id :: id
  dip_scope_ref :: uprava_ref
  dip_question :: string
  dip_evidence_snapshot_hash :: string
  dip_trace_steps :: "json list"
  dip_events :: "json list"
  dip_allowed_refs :: "uprava_ref list"
  dip_truncated :: bool
  dip_generated_at :: time

datatype (plugins only: code size) deduction_classification = DC_Observed | DC_Inference | DC_Assumption | DC_Unknown
  | DC_Alternative

datatype (plugins only: code size) deduction_certainty = DT_High | DT_Medium | DT_Low | DT_Unknown

record deduction_step =
  ds_step_id :: string
  ds_classification :: deduction_classification
  ds_summary :: string
  ds_support_refs :: "uprava_ref list"

record deduction_provider_result =
  dr_title :: string
  dr_conclusion :: string
  dr_certainty :: deduction_certainty
  dr_steps :: "deduction_step list"
  dr_assumptions :: "string list"
  dr_unknowns :: "string list"
  dr_alternatives :: "string list"

record deduction_provider_output =
  do_deduction_id :: id
  do_provider :: string
  do_model :: "string option"
  do_schema_version :: string
  do_evidence_snapshot_hash :: string
  do_result :: "deduction_provider_result option"
  do_raw_text :: string
  do_raw_truncated :: bool
  do_error_code :: "string option"
  do_error_message :: "string option"

record deduction_provenance =
  dv_provider :: string
  dv_model :: "string option"
  dv_session_thread_id :: id
  dv_schema_version :: string
  dv_evidence_snapshot_hash :: string
  dv_generated_at :: time

record deduction_block =
  bl_deduction_id :: id
  bl_scope_ref :: uprava_ref
  bl_result :: deduction_provider_result
  bl_provenance :: deduction_provenance

end
