(* ===== verification/Control.thy ===== *)
theory Control
  imports Domain_Types
begin

text \<open>
  The control protocol of \<open>uprava-protocol/src/control.rs\<close>: command envelopes, payloads
  and targets, event envelopes and payloads, and the frames of the Core--Node channel.
  \<open>command_matches_kind\<close> and \<open>event_matches_kind\<close> are the two \<open>matches_kind\<close> tables; the lemmas
  show that each is the graph of a function from payloads to kinds.

  An \<open>EventPayload\<close> keeps its JSON encoding beside the typed value. The encoding is a
  JSON object whose members are the fields of the variant behind a \<open>type\<close> tag;
  \<open>payload_members\<close> lists them, and \<open>payload_str\<close> is \<open>payload.0.get(key).and_then(as_str)\<close>.
\<close>

section \<open>Protocol version\<close>

definition CURRENT_PROTOCOL_VERSION :: string where
  "CURRENT_PROTOCOL_VERSION = ''v2''"

definition SUPPORTED_PROTOCOL_VERSIONS :: "string list" where
  "SUPPORTED_PROTOCOL_VERSIONS = [CURRENT_PROTOCOL_VERSION]"

definition is_supported_protocol_version :: "string \<Rightarrow> bool" where
  "is_supported_protocol_version version \<longleftrightarrow> version \<in> set SUPPORTED_PROTOCOL_VERSIONS"

section \<open>Commands\<close>

datatype (plugins only: code size) command_payload =
    CP_StartRuntime (cps_provider: string) (cps_workspace_path: string)
  | CP_ResumeRuntime (cpr_provider: string) (cpr_workspace_path: string) (cpr_provider_resume_ref: "json option")
  | CP_SendTurn (cpt_content: string) (cpt_turn_id: id)
  | CP_ResolveApproval (cpa_approval_id: id) (cpa_approved: bool) (cpa_message: "string option")
  | CP_InterruptRuntime
  | CP_StopRuntime
  | CP_ValidateWorkspace string string
  | CP_RefreshResourceSnapshot string string
  | CP_ListWorkspaceTree string string
  | CP_ReadWorkspaceFile string string
  | CP_WriteWorkspaceFile string workspace_file_write_request
  | CP_RunWorkspaceCommand string workspace_command_run_request
  | CP_ReadWorkspaceDiff string workspace_diff_request
  | CP_OpenWorkspaceTerminal string workspace_terminal_open_request
  | CP_AttachWorkspaceTerminal id
  | CP_ResizeWorkspaceTerminal workspace_terminal_resize_request
  | CP_WriteWorkspaceTerminal workspace_terminal_write_request
  | CP_CloseWorkspaceTerminal id
  | CP_RequestDeduction deduction_input_package
  | CP_CancelDeduction id
  | CP_RunTask string task_run_spec
  | CP_CancelTaskRun id
  | CP_Tooling tooling_command
  | CP_Extension string json

definition command_matches_kind :: "command_payload \<Rightarrow> command_kind \<Rightarrow> bool" where
  "command_matches_kind p kind = (case kind of
     CK_StartRuntime \<Rightarrow> is_CP_StartRuntime p
   | CK_ResumeRuntime \<Rightarrow> is_CP_ResumeRuntime p
   | CK_SendTurn \<Rightarrow> is_CP_SendTurn p
   | CK_ResolveApproval \<Rightarrow> is_CP_ResolveApproval p
   | CK_InterruptRuntime \<Rightarrow> p = CP_InterruptRuntime
   | CK_StopRuntime \<Rightarrow> p = CP_StopRuntime
   | CK_ValidateWorkspace \<Rightarrow> is_CP_ValidateWorkspace p
   | CK_RefreshResourceSnapshot \<Rightarrow> is_CP_RefreshResourceSnapshot p
   | CK_ListWorkspaceTree \<Rightarrow> is_CP_ListWorkspaceTree p
   | CK_ReadWorkspaceFile \<Rightarrow> is_CP_ReadWorkspaceFile p
   | CK_WriteWorkspaceFile \<Rightarrow> is_CP_WriteWorkspaceFile p
   | CK_RunWorkspaceCommand \<Rightarrow> is_CP_RunWorkspaceCommand p
   | CK_ReadWorkspaceDiff \<Rightarrow> is_CP_ReadWorkspaceDiff p
   | CK_OpenWorkspaceTerminal \<Rightarrow> is_CP_OpenWorkspaceTerminal p
   | CK_AttachWorkspaceTerminal \<Rightarrow> is_CP_AttachWorkspaceTerminal p
   | CK_ResizeWorkspaceTerminal \<Rightarrow> is_CP_ResizeWorkspaceTerminal p
   | CK_WriteWorkspaceTerminal \<Rightarrow> is_CP_WriteWorkspaceTerminal p
   | CK_CloseWorkspaceTerminal \<Rightarrow> is_CP_CloseWorkspaceTerminal p
   | CK_RequestDeduction \<Rightarrow> is_CP_RequestDeduction p
   | CK_CancelDeduction \<Rightarrow> is_CP_CancelDeduction p
   | CK_RunTask \<Rightarrow> is_CP_RunTask p
   | CK_CancelTaskRun \<Rightarrow> is_CP_CancelTaskRun p
   | CK_Tooling \<Rightarrow> is_CP_Tooling p
   | CK_Extension \<Rightarrow> is_CP_Extension p)"

definition cp_provider :: "command_payload \<Rightarrow> string option" where
  "cp_provider p = (case p of CP_StartRuntime provider _ \<Rightarrow> Some provider
     | CP_ResumeRuntime provider _ _ \<Rightarrow> Some provider | _ \<Rightarrow> None)"

definition cp_workspace_path :: "command_payload \<Rightarrow> string option" where
  "cp_workspace_path p = (case p of
     CP_StartRuntime _ w \<Rightarrow> Some w
   | CP_ResumeRuntime _ w _ \<Rightarrow> Some w
   | CP_ValidateWorkspace _ w \<Rightarrow> Some w
   | CP_RefreshResourceSnapshot _ w \<Rightarrow> Some w
   | CP_ListWorkspaceTree w _ \<Rightarrow> Some w
   | CP_ReadWorkspaceFile w _ \<Rightarrow> Some w
   | CP_WriteWorkspaceFile w _ \<Rightarrow> Some w
   | CP_RunWorkspaceCommand w _ \<Rightarrow> Some w
   | CP_ReadWorkspaceDiff w _ \<Rightarrow> Some w
   | CP_OpenWorkspaceTerminal w _ \<Rightarrow> Some w
   | CP_RunTask w _ \<Rightarrow> Some w
   | _ \<Rightarrow> None)"

definition cp_display_name :: "command_payload \<Rightarrow> string option" where
  "cp_display_name p = (case p of CP_ValidateWorkspace d _ \<Rightarrow> Some d
     | CP_RefreshResourceSnapshot d _ \<Rightarrow> Some d | _ \<Rightarrow> None)"

definition cp_path :: "command_payload \<Rightarrow> string option" where
  "cp_path p = (case p of CP_ListWorkspaceTree _ path \<Rightarrow> Some path
     | CP_ReadWorkspaceFile _ path \<Rightarrow> Some path
     | CP_WriteWorkspaceFile _ request \<Rightarrow> Some (wfw_path request) | _ \<Rightarrow> None)"

definition cp_provider_resume_ref :: "command_payload \<Rightarrow> json option" where
  "cp_provider_resume_ref p = (case p of CP_ResumeRuntime _ _ r \<Rightarrow> r | _ \<Rightarrow> None)"

datatype (plugins only: code size) command_target =
    CT_Node id
  | CT_Placement id id
  | CT_SessionRuntime id id id id
  | CT_TaskRun id id id

fun target_node_id :: "command_target \<Rightarrow> id" where
  "target_node_id (CT_Node n) = n"
| "target_node_id (CT_Placement n _) = n"
| "target_node_id (CT_SessionRuntime n _ _ _) = n"
| "target_node_id (CT_TaskRun n _ _) = n"

fun target_placement_id :: "command_target \<Rightarrow> id option" where
  "target_placement_id (CT_Node _) = None"
| "target_placement_id (CT_Placement _ p) = Some p"
| "target_placement_id (CT_SessionRuntime _ p _ _) = Some p"
| "target_placement_id (CT_TaskRun _ p _) = Some p"

fun target_session_id :: "command_target \<Rightarrow> id option" where
  "target_session_id (CT_SessionRuntime _ _ s _) = Some s"
| "target_session_id (CT_Node _) = None"
| "target_session_id (CT_Placement _ _) = None"
| "target_session_id (CT_TaskRun _ _ _) = None"

fun target_runtime_id :: "command_target \<Rightarrow> id option" where
  "target_runtime_id (CT_SessionRuntime _ _ _ r) = Some r"
| "target_runtime_id (CT_Node _) = None"
| "target_runtime_id (CT_Placement _ _) = None"
| "target_runtime_id (CT_TaskRun _ _ _) = None"

definition target_task_run_id :: "command_target \<Rightarrow> id option" where
  "target_task_run_id t = (case t of CT_TaskRun _ _ r \<Rightarrow> Some r | _ \<Rightarrow> None)"

record command_envelope =
  ce_command_id :: id
  ce_kind :: command_kind
  ce_target :: command_target
  ce_actor_ref :: actor_ref
  ce_source_refs :: "uprava_ref list"
  ce_cause_refs :: "uprava_ref list"
  ce_issued_at :: time
  ce_correlation_id :: id
  ce_payload :: command_payload

section \<open>Events\<close>

record runtime_state_event_data =
  rd_provider :: "string option"
  rd_mode :: "string option"
  rd_resume_source :: "string option"
  rd_provider_resume_ref :: "json option"
  rd_transcript_messages :: "u64 option"
  rd_reason :: "string option"
  rd_code :: "string option"
  rd_message :: "string option"
  rd_expiry_seconds :: "int option"

record provider_activity_event_data =
  pa_provider :: "string option"
  pa_source :: "string option"
  pa_provider_event_type :: "string option"
  pa_provider_item_id :: "string option"
  pa_provider_item_type :: "string option"
  pa_phase :: "string option"
  pa_status :: "string option"
  pa_summary :: "string option"
  pa_raw_event :: "json option"
  pa_raw_event_truncated :: "bool option"
  pa_raw_event_original_chars :: "u64 option"
  pa_raw_event_preview :: "string option"
  pa_dropped_count :: "u64 option"
  pa_stream :: "string option"
  pa_limit_bytes :: "u64 option"
  pa_stdout_truncated :: "bool option"
  pa_stderr_truncated :: "bool option"
  pa_dropped_activity_count :: "u64 option"
  pa_max_process_output_bytes :: "u64 option"
  pa_max_activity_events :: "u64 option"
  pa_extension :: "json option"

datatype (discs_sels, plugins only: code size) event_payload_kind =
    EP_RuntimeStarting runtime_state_event_data
  | EP_RuntimeReady runtime_state_event_data
  | EP_RuntimeRunning runtime_state_event_data
  | EP_RuntimeBlocked runtime_state_event_data
  | EP_RuntimeExpired runtime_state_event_data
  | EP_RuntimeResuming runtime_state_event_data
  | EP_RuntimeStopped runtime_state_event_data
  | EP_RuntimeError string string
  | EP_TurnStarted
  | EP_TurnCompleted
  | EP_TurnInterrupted "string option" "string option" "string option"
  | EP_ProviderActivity provider_activity_event_data
  | EP_ProviderOutputDelta string
  | EP_ProviderMessageCompleted string
  | EP_ApprovalRequested id string "string option" "string option" "string option"
  | EP_ApprovalResolved id bool string
  | EP_CoordinationWarningAcknowledged string "string option" "uprava_ref list"
  | EP_WorkspaceValidated id string string placement_state "resource_badge list" "git_workspace_snapshot option"
  | EP_ResourceSnapshotUpdated id string string placement_state "resource_badge list" "git_workspace_snapshot option"
  | EP_WorkspaceFileWritten id string string
  | EP_WorkspaceCommandCompleted id string bool "int option" bool bool
  | EP_WorkspaceCheckCompleted id string bool "int option" bool bool
  | EP_WorkspaceDiffObserved id string bool bool
  | EP_DeductionRequested id uprava_ref string
  | EP_DeductionCompleted id
  | EP_DeductionInvalid id string string
  | EP_DeductionFailed id string string
  | EP_DeductionCancelled id
  | EP_TaskRunStateChanged id task_run_state task_cleanup_state "string option"
  | EP_Extension string json

definition event_matches_kind :: "event_payload_kind \<Rightarrow> event_kind \<Rightarrow> bool" where
  "event_matches_kind p kind = (case kind of
     EK_RuntimeStarting \<Rightarrow> is_EP_RuntimeStarting p
   | EK_RuntimeReady \<Rightarrow> is_EP_RuntimeReady p
   | EK_RuntimeRunning \<Rightarrow> is_EP_RuntimeRunning p
   | EK_RuntimeBlocked \<Rightarrow> is_EP_RuntimeBlocked p
   | EK_RuntimeExpired \<Rightarrow> is_EP_RuntimeExpired p
   | EK_RuntimeResuming \<Rightarrow> is_EP_RuntimeResuming p
   | EK_RuntimeStopped \<Rightarrow> is_EP_RuntimeStopped p
   | EK_RuntimeError \<Rightarrow> is_EP_RuntimeError p
   | EK_TurnStarted \<Rightarrow> p = EP_TurnStarted
   | EK_TurnCompleted \<Rightarrow> p = EP_TurnCompleted
   | EK_TurnInterrupted \<Rightarrow> is_EP_TurnInterrupted p
   | EK_ProviderActivity \<Rightarrow> is_EP_ProviderActivity p
   | EK_ProviderOutputDelta \<Rightarrow> is_EP_ProviderOutputDelta p
   | EK_ProviderMessageCompleted \<Rightarrow> is_EP_ProviderMessageCompleted p
   | EK_ApprovalRequested \<Rightarrow> is_EP_ApprovalRequested p
   | EK_ApprovalResolved \<Rightarrow> is_EP_ApprovalResolved p
   | EK_CoordinationWarningAcknowledged \<Rightarrow> is_EP_CoordinationWarningAcknowledged p
   | EK_WorkspaceValidated \<Rightarrow> is_EP_WorkspaceValidated p
   | EK_ResourceSnapshotUpdated \<Rightarrow> is_EP_ResourceSnapshotUpdated p
   | EK_WorkspaceFileWritten \<Rightarrow> is_EP_WorkspaceFileWritten p
   | EK_WorkspaceCommandCompleted \<Rightarrow> is_EP_WorkspaceCommandCompleted p
   | EK_WorkspaceCheckCompleted \<Rightarrow> is_EP_WorkspaceCheckCompleted p
   | EK_WorkspaceDiffObserved \<Rightarrow> is_EP_WorkspaceDiffObserved p
   | EK_DeductionRequested \<Rightarrow> is_EP_DeductionRequested p
   | EK_DeductionCompleted \<Rightarrow> is_EP_DeductionCompleted p
   | EK_DeductionInvalid \<Rightarrow> is_EP_DeductionInvalid p
   | EK_DeductionFailed \<Rightarrow> is_EP_DeductionFailed p
   | EK_DeductionCancelled \<Rightarrow> is_EP_DeductionCancelled p
   | EK_TaskRunStateChanged \<Rightarrow> is_EP_TaskRunStateChanged p
   | EK_Extension \<Rightarrow> is_EP_Extension p)"

record event_envelope =
  ev_event_id :: id
  ev_command_id :: "id option"
  ev_correlation_id :: "id option"
  ev_actor_ref :: actor_ref
  ev_scope_ref :: scope_ref
  ev_node_id :: "id option"
  ev_runtime_session_id :: "id option"
  ev_session_thread_id :: "id option"
  ev_turn_id :: "id option"
  ev_seq :: int
  ev_session_projection_seq :: "int option"
  ev_kind :: event_kind
  ev_happened_at :: time
  ev_source_refs :: "uprava_ref list"
  ev_evidence_refs :: "uprava_ref list"
  ev_cause_refs :: "uprava_ref list"
  ev_result_refs :: "uprava_ref list"
  ev_payload :: event_payload_kind

text \<open>
  The members of the JSON encoding of a payload. Absent optional fields are encoded as
  \<open>null\<close>; nested typed values (badges, Git snapshots, references) are members that are
  not strings and are kept typed.
\<close>

datatype (plugins only: code size) member = M_Null | M_Str string | M_Bool bool | M_Num int | M_Json json
  | M_Badges "resource_badge list" | M_Git git_workspace_snapshot | M_Refs "uprava_ref list"
  | M_Ref uprava_ref

definition m_opt :: "('a \<Rightarrow> member) \<Rightarrow> 'a option \<Rightarrow> member" where
  "m_opt f x = (case x of None \<Rightarrow> M_Null | Some v \<Rightarrow> f v)"

definition m_u64 :: "u64 option \<Rightarrow> member" where
  "m_u64 = m_opt (\<lambda>w. M_Num (uint w))"

definition runtime_members :: "runtime_state_event_data \<Rightarrow> (string \<times> member) list" where
  "runtime_members d = [
     (''provider'', m_opt M_Str (rd_provider d)), (''mode'', m_opt M_Str (rd_mode d)),
     (''resume_source'', m_opt M_Str (rd_resume_source d)),
     (''provider_resume_ref'', m_opt M_Json (rd_provider_resume_ref d)),
     (''transcript_messages'', m_u64 (rd_transcript_messages d)),
     (''reason'', m_opt M_Str (rd_reason d)), (''code'', m_opt M_Str (rd_code d)),
     (''message'', m_opt M_Str (rd_message d)),
     (''expiry_seconds'', m_opt M_Num (rd_expiry_seconds d))]"

definition activity_members :: "provider_activity_event_data \<Rightarrow> (string \<times> member) list" where
  "activity_members d = [
     (''provider'', m_opt M_Str (pa_provider d)), (''source'', m_opt M_Str (pa_source d)),
     (''provider_event_type'', m_opt M_Str (pa_provider_event_type d)),
     (''provider_item_id'', m_opt M_Str (pa_provider_item_id d)),
     (''provider_item_type'', m_opt M_Str (pa_provider_item_type d)),
     (''phase'', m_opt M_Str (pa_phase d)), (''status'', m_opt M_Str (pa_status d)),
     (''summary'', m_opt M_Str (pa_summary d)), (''raw_event'', m_opt M_Json (pa_raw_event d)),
     (''raw_event_truncated'', m_opt M_Bool (pa_raw_event_truncated d)),
     (''raw_event_original_chars'', m_u64 (pa_raw_event_original_chars d)),
     (''raw_event_preview'', m_opt M_Str (pa_raw_event_preview d)),
     (''dropped_count'', m_u64 (pa_dropped_count d)), (''stream'', m_opt M_Str (pa_stream d)),
     (''limit_bytes'', m_u64 (pa_limit_bytes d)),
     (''stdout_truncated'', m_opt M_Bool (pa_stdout_truncated d)),
     (''stderr_truncated'', m_opt M_Bool (pa_stderr_truncated d)),
     (''dropped_activity_count'', m_u64 (pa_dropped_activity_count d)),
     (''max_process_output_bytes'', m_u64 (pa_max_process_output_bytes d)),
     (''max_activity_events'', m_u64 (pa_max_activity_events d)),
     (''extension'', m_opt M_Json (pa_extension d))]"

fun placement_state_name :: "placement_state \<Rightarrow> string" where
  "placement_state_name PS_Pending = ''pending''"
| "placement_state_name PS_Validated = ''validated''"
| "placement_state_name PS_Missing = ''missing''"
| "placement_state_name PS_ReadOnly = ''read_only''"
| "placement_state_name PS_Error = ''error''"

fun task_run_state_name :: "task_run_state \<Rightarrow> string" where
  "task_run_state_name TS_Queued = ''queued''"
| "task_run_state_name TS_PreparingWorkspace = ''preparing_workspace''"
| "task_run_state_name TS_StartingRuntime = ''starting_runtime''"
| "task_run_state_name TS_Running = ''running''"
| "task_run_state_name TS_Checking = ''checking''"
| "task_run_state_name TS_CollectingEvidence = ''collecting_evidence''"
| "task_run_state_name TS_Succeeded = ''succeeded''"
| "task_run_state_name TS_Failed = ''failed''"
| "task_run_state_name TS_Cancelling = ''cancelling''"
| "task_run_state_name TS_Cancelled = ''cancelled''"
| "task_run_state_name TS_TimedOut = ''timed_out''"

fun task_cleanup_state_name :: "task_cleanup_state \<Rightarrow> string" where
  "task_cleanup_state_name TC_Pending = ''pending''"
| "task_cleanup_state_name TC_Completed = ''completed''"
| "task_cleanup_state_name TC_Failed = ''failed''"

definition workspace_members ::
  "id \<Rightarrow> string \<Rightarrow> string \<Rightarrow> placement_state \<Rightarrow> resource_badge list \<Rightarrow> git_workspace_snapshot option
   \<Rightarrow> (string \<times> member) list" where
  "workspace_members pid name path st badges git = [(''placement_id'', M_Str pid),
     (''display_name'', M_Str name), (''workspace_path'', M_Str path),
     (''state'', M_Str (placement_state_name st)), (''resource_badges'', M_Badges badges),
     (''git_snapshot'', m_opt M_Git git)]"

definition payload_members :: "event_payload_kind \<Rightarrow> (string \<times> member) list" where
  "payload_members p = (case p of
     EP_RuntimeStarting d \<Rightarrow> (''type'', M_Str ''runtime_starting'') # runtime_members d
   | EP_RuntimeReady d \<Rightarrow> (''type'', M_Str ''runtime_ready'') # runtime_members d
   | EP_RuntimeRunning d \<Rightarrow> (''type'', M_Str ''runtime_running'') # runtime_members d
   | EP_RuntimeBlocked d \<Rightarrow> (''type'', M_Str ''runtime_blocked'') # runtime_members d
   | EP_RuntimeExpired d \<Rightarrow> (''type'', M_Str ''runtime_expired'') # runtime_members d
   | EP_RuntimeResuming d \<Rightarrow> (''type'', M_Str ''runtime_resuming'') # runtime_members d
   | EP_RuntimeStopped d \<Rightarrow> (''type'', M_Str ''runtime_stopped'') # runtime_members d
   | EP_RuntimeError code message \<Rightarrow>
       [(''type'', M_Str ''runtime_error''), (''code'', M_Str code), (''message'', M_Str message)]
   | EP_TurnStarted \<Rightarrow> [(''type'', M_Str ''turn_started'')]
   | EP_TurnCompleted \<Rightarrow> [(''type'', M_Str ''turn_completed'')]
   | EP_TurnInterrupted provider code message \<Rightarrow>
       [(''type'', M_Str ''turn_interrupted''), (''provider'', m_opt M_Str provider),
        (''code'', m_opt M_Str code), (''message'', m_opt M_Str message)]
   | EP_ProviderActivity d \<Rightarrow> (''type'', M_Str ''provider_activity'') # activity_members d
   | EP_ProviderOutputDelta content \<Rightarrow>
       [(''type'', M_Str ''provider_output_delta''), (''content'', M_Str content)]
   | EP_ProviderMessageCompleted content \<Rightarrow>
       [(''type'', M_Str ''provider_message_completed''), (''content'', M_Str content)]
   | EP_ApprovalRequested aid prompt provider ptype source \<Rightarrow>
       [(''type'', M_Str ''approval_requested''), (''approval_id'', M_Str aid),
        (''prompt'', M_Str prompt), (''provider'', m_opt M_Str provider),
        (''provider_event_type'', m_opt M_Str ptype), (''source'', m_opt M_Str source)]
   | EP_ApprovalResolved aid approved message \<Rightarrow>
       [(''type'', M_Str ''approval_resolved''), (''approval_id'', M_Str aid),
        (''approved'', M_Bool approved), (''message'', M_Str message)]
   | EP_CoordinationWarningAcknowledged kind message refs \<Rightarrow>
       [(''type'', M_Str ''coordination_warning_acknowledged''), (''warning_kind'', M_Str kind),
        (''message'', m_opt M_Str message), (''affected_refs'', M_Refs refs)]
   | EP_WorkspaceValidated pid name path st badges git \<Rightarrow>
       (''type'', M_Str ''workspace_validated'') # workspace_members pid name path st badges git
   | EP_ResourceSnapshotUpdated pid name path st badges git \<Rightarrow>
       (''type'', M_Str ''resource_snapshot_updated'') # workspace_members pid name path st badges git
   | EP_WorkspaceFileWritten pid path edit \<Rightarrow>
       [(''type'', M_Str ''workspace_file_written''), (''placement_id'', M_Str pid),
        (''path'', M_Str path), (''edit_id'', M_Str edit)]
   | EP_WorkspaceCommandCompleted pid cid success code out err \<Rightarrow>
       [(''type'', M_Str ''workspace_command_completed''), (''placement_id'', M_Str pid),
        (''terminal_command_id'', M_Str cid), (''success'', M_Bool success),
        (''exit_code'', m_opt M_Num code), (''stdout_truncated'', M_Bool out),
        (''stderr_truncated'', M_Bool err)]
   | EP_WorkspaceCheckCompleted pid cid success code out err \<Rightarrow>
       [(''type'', M_Str ''workspace_check_completed''), (''placement_id'', M_Str pid),
        (''check_run_id'', M_Str cid), (''success'', M_Bool success),
        (''exit_code'', m_opt M_Num code), (''stdout_truncated'', M_Bool out),
        (''stderr_truncated'', M_Bool err)]
   | EP_WorkspaceDiffObserved pid did summary diff \<Rightarrow>
       [(''type'', M_Str ''workspace_diff_observed''), (''placement_id'', M_Str pid),
        (''diff_id'', M_Str did), (''summary_truncated'', M_Bool summary),
        (''diff_truncated'', M_Bool diff)]
   | EP_DeductionRequested did scope question \<Rightarrow>
       [(''type'', M_Str ''deduction_requested''), (''deduction_id'', M_Str did),
        (''scope_ref'', M_Ref scope), (''question'', M_Str question)]
   | EP_DeductionCompleted did \<Rightarrow>
       [(''type'', M_Str ''deduction_completed''), (''deduction_id'', M_Str did)]
   | EP_DeductionInvalid did code message \<Rightarrow>
       [(''type'', M_Str ''deduction_invalid''), (''deduction_id'', M_Str did),
        (''code'', M_Str code), (''message'', M_Str message)]
   | EP_DeductionFailed did code message \<Rightarrow>
       [(''type'', M_Str ''deduction_failed''), (''deduction_id'', M_Str did),
        (''code'', M_Str code), (''message'', M_Str message)]
   | EP_DeductionCancelled did \<Rightarrow>
       [(''type'', M_Str ''deduction_cancelled''), (''deduction_id'', M_Str did)]
   | EP_TaskRunStateChanged tid st cleanup message \<Rightarrow>
       [(''type'', M_Str ''task_run_state_changed''), (''task_run_id'', M_Str tid),
        (''state'', M_Str (task_run_state_name st)),
        (''cleanup_state'', M_Str (task_cleanup_state_name cleanup)),
        (''message'', m_opt M_Str message)]
   | EP_Extension name value \<Rightarrow>
       [(''type'', M_Str ''extension''), (''name'', M_Str name), (''value'', M_Json value)])"

definition payload_get :: "event_payload_kind \<Rightarrow> string \<Rightarrow> member option" where
  "payload_get p k = map_of (payload_members p) k"

definition member_as_str :: "member \<Rightarrow> string option" where
  "member_as_str m = (case m of M_Str s \<Rightarrow> Some s | M_Json (JStr s) \<Rightarrow> Some s | _ \<Rightarrow> None)"

definition payload_str :: "event_payload_kind \<Rightarrow> string \<Rightarrow> string option" where
  "payload_str p k = Option.bind (payload_get p k) member_as_str"

section \<open>Frames\<close>

text \<open>Every frame carries a frame id, a protocol version and a time stamp.\<close>

record frame_meta =
  fm_frame_id :: string
  fm_protocol_version :: string
  fm_sent_at :: time

record api_error =
  ae_error_code :: string
  ae_message :: string
  ae_details :: json
  ae_retryable :: bool
  ae_correlation_id :: id

datatype (plugins only: code size) control_frame =
    CF_Hello frame_meta id string "id list"
  | CF_HelloAck frame_meta
  | CF_CommandDispatch frame_meta command_envelope
  | CF_CommandAck frame_meta id command_state
  | CF_CommandResult frame_meta id command_state json
  | CF_EventBatch frame_meta "event_envelope list"
  | CF_EventBatchAck frame_meta "id list"
  | CF_WorkspaceTerminalAttach frame_meta id
  | CF_WorkspaceTerminalInput frame_meta id string
  | CF_WorkspaceTerminalResize frame_meta id "16 word" "16 word"
  | CF_WorkspaceTerminalClose frame_meta id
  | CF_WorkspaceTerminalOutput frame_meta id u64 string
  | CF_WorkspaceTerminalStatus frame_meta id workspace_terminal_state "int option" "string option"
  | CF_Ping frame_meta
  | CF_Pong frame_meta
  | CF_ControlError frame_meta api_error

section \<open>The two kind tables are functions\<close>

fun command_payload_tag :: "command_payload \<Rightarrow> command_kind" where
  "command_payload_tag (CP_StartRuntime _ _) = CK_StartRuntime"
| "command_payload_tag (CP_ResumeRuntime _ _ _) = CK_ResumeRuntime"
| "command_payload_tag (CP_SendTurn _ _) = CK_SendTurn"
| "command_payload_tag (CP_ResolveApproval _ _ _) = CK_ResolveApproval"
| "command_payload_tag (CP_InterruptRuntime) = CK_InterruptRuntime"
| "command_payload_tag (CP_StopRuntime) = CK_StopRuntime"
| "command_payload_tag (CP_ValidateWorkspace _ _) = CK_ValidateWorkspace"
| "command_payload_tag (CP_RefreshResourceSnapshot _ _) = CK_RefreshResourceSnapshot"
| "command_payload_tag (CP_ListWorkspaceTree _ _) = CK_ListWorkspaceTree"
| "command_payload_tag (CP_ReadWorkspaceFile _ _) = CK_ReadWorkspaceFile"
| "command_payload_tag (CP_WriteWorkspaceFile _ _) = CK_WriteWorkspaceFile"
| "command_payload_tag (CP_RunWorkspaceCommand _ _) = CK_RunWorkspaceCommand"
| "command_payload_tag (CP_ReadWorkspaceDiff _ _) = CK_ReadWorkspaceDiff"
| "command_payload_tag (CP_OpenWorkspaceTerminal _ _) = CK_OpenWorkspaceTerminal"
| "command_payload_tag (CP_AttachWorkspaceTerminal _) = CK_AttachWorkspaceTerminal"
| "command_payload_tag (CP_ResizeWorkspaceTerminal _) = CK_ResizeWorkspaceTerminal"
| "command_payload_tag (CP_WriteWorkspaceTerminal _) = CK_WriteWorkspaceTerminal"
| "command_payload_tag (CP_CloseWorkspaceTerminal _) = CK_CloseWorkspaceTerminal"
| "command_payload_tag (CP_RequestDeduction _) = CK_RequestDeduction"
| "command_payload_tag (CP_CancelDeduction _) = CK_CancelDeduction"
| "command_payload_tag (CP_RunTask _ _) = CK_RunTask"
| "command_payload_tag (CP_CancelTaskRun _) = CK_CancelTaskRun"
| "command_payload_tag (CP_Tooling _) = CK_Tooling"
| "command_payload_tag (CP_Extension _ _) = CK_Extension"

fun event_payload_tag :: "event_payload_kind \<Rightarrow> event_kind" where
  "event_payload_tag (EP_RuntimeStarting _) = EK_RuntimeStarting"
| "event_payload_tag (EP_RuntimeReady _) = EK_RuntimeReady"
| "event_payload_tag (EP_RuntimeRunning _) = EK_RuntimeRunning"
| "event_payload_tag (EP_RuntimeBlocked _) = EK_RuntimeBlocked"
| "event_payload_tag (EP_RuntimeExpired _) = EK_RuntimeExpired"
| "event_payload_tag (EP_RuntimeResuming _) = EK_RuntimeResuming"
| "event_payload_tag (EP_RuntimeStopped _) = EK_RuntimeStopped"
| "event_payload_tag (EP_RuntimeError _ _) = EK_RuntimeError"
| "event_payload_tag (EP_TurnStarted) = EK_TurnStarted"
| "event_payload_tag (EP_TurnCompleted) = EK_TurnCompleted"
| "event_payload_tag (EP_TurnInterrupted _ _ _) = EK_TurnInterrupted"
| "event_payload_tag (EP_ProviderActivity _) = EK_ProviderActivity"
| "event_payload_tag (EP_ProviderOutputDelta _) = EK_ProviderOutputDelta"
| "event_payload_tag (EP_ProviderMessageCompleted _) = EK_ProviderMessageCompleted"
| "event_payload_tag (EP_ApprovalRequested _ _ _ _ _) = EK_ApprovalRequested"
| "event_payload_tag (EP_ApprovalResolved _ _ _) = EK_ApprovalResolved"
| "event_payload_tag (EP_CoordinationWarningAcknowledged _ _ _) = EK_CoordinationWarningAcknowledged"
| "event_payload_tag (EP_WorkspaceValidated _ _ _ _ _ _) = EK_WorkspaceValidated"
| "event_payload_tag (EP_ResourceSnapshotUpdated _ _ _ _ _ _) = EK_ResourceSnapshotUpdated"
| "event_payload_tag (EP_WorkspaceFileWritten _ _ _) = EK_WorkspaceFileWritten"
| "event_payload_tag (EP_WorkspaceCommandCompleted _ _ _ _ _ _) = EK_WorkspaceCommandCompleted"
| "event_payload_tag (EP_WorkspaceCheckCompleted _ _ _ _ _ _) = EK_WorkspaceCheckCompleted"
| "event_payload_tag (EP_WorkspaceDiffObserved _ _ _ _) = EK_WorkspaceDiffObserved"
| "event_payload_tag (EP_DeductionRequested _ _ _) = EK_DeductionRequested"
| "event_payload_tag (EP_DeductionCompleted _) = EK_DeductionCompleted"
| "event_payload_tag (EP_DeductionInvalid _ _ _) = EK_DeductionInvalid"
| "event_payload_tag (EP_DeductionFailed _ _ _) = EK_DeductionFailed"
| "event_payload_tag (EP_DeductionCancelled _) = EK_DeductionCancelled"
| "event_payload_tag (EP_TaskRunStateChanged _ _ _ _) = EK_TaskRunStateChanged"
| "event_payload_tag (EP_Extension _ _) = EK_Extension"

lemma command_matches_kind_iff: "command_matches_kind p k \<longleftrightarrow> k = command_payload_tag p"
  unfolding command_matches_kind_def by (cases k; cases p; simp)

lemma event_matches_kind_iff: "event_matches_kind p k \<longleftrightarrow> k = event_payload_tag p"
  unfolding event_matches_kind_def by (cases k; cases p; simp)

end
