(* ===== verification/Core_Support.thy ===== *)
theory Core_Support
  imports Control
begin

text \<open>
  The helpers of the Core runtime: \<open>uprava-server/src/runtime/support.rs\<close> (scope keys,
  presence, the text encodings of the state columns, header parsing, the error type and
  its HTTP rendering) and the small functions of \<open>application/projection.rs\<close> the event
  pipeline uses. The lemmas are the round trips between a state and its column text,
  injectivity of scope keys, and the length bounds of the truncation helpers.

  An \<open>AppError\<close> keeps its constructor and its code; the human-readable message is left out.
\<close>

section \<open>Errors\<close>

datatype (plugins only: code size) app_error = Database | Serialization | Io | TaskJoin
  | Internal string | NotFound string | BadRequest string | Conflict string | Auth string
  | RateLimited string

fun error_code :: "app_error \<Rightarrow> string" where
  "error_code Database = ''internal.database''"
| "error_code Serialization = ''internal.serialization''"
| "error_code Io = ''internal.io''"
| "error_code TaskJoin = ''internal.task_join''"
| "error_code (Internal code) = code"
| "error_code (NotFound code) = code"
| "error_code (BadRequest code) = code"
| "error_code (Conflict code) = code"
| "error_code (Auth code) = code"
| "error_code (RateLimited code) = code"

text \<open>HTTP status, error code and \<open>retryable\<close> of the rendered response.\<close>

fun into_response :: "app_error \<Rightarrow> nat \<times> string \<times> bool" where
  "into_response Database = (500, ''internal.database'', True)"
| "into_response Serialization = (500, ''internal.serialization'', False)"
| "into_response Io = (500, ''internal.io'', True)"
| "into_response TaskJoin = (500, ''internal.task_join'', True)"
| "into_response (Internal code) = (500, code, True)"
| "into_response (NotFound code) = (404, code, False)"
| "into_response (BadRequest code) = (400, code, False)"
| "into_response (Conflict code) = (409, code, False)"
| "into_response (Auth code) = (401, code, False)"
| "into_response (RateLimited code) = (429, code, True)"

section \<open>Scopes, presence and truncation\<close>

fun scope_key :: "scope_ref \<Rightarrow> string" where
  "scope_key (SR_Runtime r) = ''runtime:'' @ r"
| "scope_key (SR_Session s) = ''session:'' @ s"
| "scope_key (SR_Node n) = ''node:'' @ n"
| "scope_key (SR_Placement p) = ''placement:'' @ p"
| "scope_key (SR_TaskRun t) = ''task_run:'' @ t"
| "scope_key (SR_Unknown s) = ''unknown:'' @ s"

definition derive_presence :: "node_presence \<Rightarrow> int option \<Rightarrow> int \<Rightarrow> int \<Rightarrow> node_presence" where
  "derive_presence stored heartbeat_age_seconds stale_after_seconds offline_after_seconds = (
     if stored = NP_Revoked then NP_Revoked
     else case heartbeat_age_seconds of
       Some age \<Rightarrow> (if age \<ge> offline_after_seconds then NP_Offline
                   else if age \<ge> stale_after_seconds then NP_Stale
                   else NP_Reachable)
     | None \<Rightarrow> stored)"

definition truncate_chars :: "string \<Rightarrow> nat \<Rightarrow> string" where
  "truncate_chars value max_chars =
     (if length value \<le> max_chars then value else take max_chars value @ ''...'')"

definition MIN_LOCAL_PASSWORD_CHARS :: nat where
  "MIN_LOCAL_PASSWORD_CHARS = 12"

definition validate_local_password :: "string \<Rightarrow> app_error + unit" where
  "validate_local_password password =
     ensure (\<not> length password < MIN_LOCAL_PASSWORD_CHARS) (BadRequest ''auth.password_too_short'')"

section \<open>State columns\<close>

definition parse_presence :: "string \<Rightarrow> node_presence" where
  "parse_presence value = (
     if value = ''stale'' then NP_Stale else
     if value = ''offline'' then NP_Offline else
     if value = ''revoked'' then NP_Revoked else
     NP_Reachable)"

fun format_enrollment_state :: "enrollment_state \<Rightarrow> string" where
  "format_enrollment_state ES_Unregistered = ''unregistered''"
| "format_enrollment_state ES_PendingUserApproval = ''pending_user_approval''"
| "format_enrollment_state ES_Approved = ''approved''"
| "format_enrollment_state ES_Registered = ''registered''"
| "format_enrollment_state ES_Expired = ''expired''"
| "format_enrollment_state ES_Rejected = ''rejected''"
| "format_enrollment_state ES_Revoked = ''revoked''"

definition parse_enrollment_state :: "string \<Rightarrow> enrollment_state" where
  "parse_enrollment_state value = (
     if value = ''unregistered'' then ES_Unregistered else
     if value = ''approved'' then ES_Approved else
     if value = ''registered'' then ES_Registered else
     if value = ''expired'' then ES_Expired else
     if value = ''rejected'' then ES_Rejected else
     if value = ''revoked'' then ES_Revoked else
     ES_PendingUserApproval)"

fun format_sleep_hint :: "sleep_hint \<Rightarrow> string" where
  "format_sleep_hint SH_Unknown = ''unknown''"
| "format_sleep_hint SH_Awake = ''awake''"
| "format_sleep_hint SH_Suspending = ''suspending''"
| "format_sleep_hint SH_Sleeping = ''sleeping''"
| "format_sleep_hint SH_Woke = ''woke''"

definition parse_sleep_hint :: "string \<Rightarrow> sleep_hint" where
  "parse_sleep_hint value = (
     if value = ''awake'' then SH_Awake else
     if value = ''suspending'' then SH_Suspending else
     if value = ''sleeping'' then SH_Sleeping else
     if value = ''woke'' then SH_Woke else
     SH_Unknown)"

fun format_placement_state :: "placement_state \<Rightarrow> string" where
  "format_placement_state PS_Pending = ''pending''"
| "format_placement_state PS_Validated = ''validated''"
| "format_placement_state PS_Missing = ''missing''"
| "format_placement_state PS_ReadOnly = ''read_only''"
| "format_placement_state PS_Error = ''error''"

definition parse_placement_state :: "string \<Rightarrow> placement_state" where
  "parse_placement_state value = (
     if value = ''validated'' then PS_Validated else
     if value = ''missing'' then PS_Missing else
     if value = ''read_only'' then PS_ReadOnly else
     if value = ''error'' then PS_Error else
     PS_Pending)"

fun format_session_state :: "session_thread_state \<Rightarrow> string" where
  "format_session_state SS_Created = ''created''"
| "format_session_state SS_Active = ''active''"
| "format_session_state SS_Detached = ''detached''"
| "format_session_state SS_Stopped = ''stopped''"
| "format_session_state SS_Degraded = ''degraded''"

definition parse_session_state :: "string \<Rightarrow> session_thread_state" where
  "parse_session_state value = (
     if value = ''active'' then SS_Active else
     if value = ''detached'' then SS_Detached else
     if value = ''stopped'' then SS_Stopped else
     if value = ''degraded'' then SS_Degraded else
     SS_Created)"

definition parse_deduction_state :: "string \<Rightarrow> deduction_state" where
  "parse_deduction_state value = (
     if value = ''running'' then DS_Running else
     if value = ''completed'' then DS_Completed else
     if value = ''invalid'' then DS_Invalid else
     if value = ''failed'' then DS_Failed else
     if value = ''cancelled'' then DS_Cancelled else
     DS_Requested)"

fun format_runtime_state :: "runtime_session_state \<Rightarrow> string" where
  "format_runtime_state RS_Starting = ''starting''"
| "format_runtime_state RS_Ready = ''ready''"
| "format_runtime_state RS_Running = ''running''"
| "format_runtime_state RS_Blocked = ''blocked''"
| "format_runtime_state RS_Stopping = ''stopping''"
| "format_runtime_state RS_Stopped = ''stopped''"
| "format_runtime_state RS_Interrupted = ''interrupted''"
| "format_runtime_state RS_Resuming = ''resuming''"
| "format_runtime_state RS_Stale = ''stale''"
| "format_runtime_state RS_Error = ''error''"
| "format_runtime_state RS_Expired = ''expired''"

definition parse_runtime_state :: "string \<Rightarrow> runtime_session_state" where
  "parse_runtime_state value = (
     if value = ''ready'' then RS_Ready else
     if value = ''running'' then RS_Running else
     if value = ''blocked'' then RS_Blocked else
     if value = ''stopping'' then RS_Stopping else
     if value = ''stopped'' then RS_Stopped else
     if value = ''interrupted'' then RS_Interrupted else
     if value = ''resuming'' then RS_Resuming else
     if value = ''stale'' then RS_Stale else
     if value = ''error'' then RS_Error else
     if value = ''expired'' then RS_Expired else
     RS_Starting)"

fun format_turn_state :: "turn_state \<Rightarrow> string" where
  "format_turn_state TN_Created = ''created''"
| "format_turn_state TN_Dispatched = ''dispatched''"
| "format_turn_state TN_Running = ''running''"
| "format_turn_state TN_BlockedOnApproval = ''blocked_on_approval''"
| "format_turn_state TN_Completed = ''completed''"
| "format_turn_state TN_Interrupted = ''interrupted''"
| "format_turn_state TN_Failed = ''failed''"

definition parse_scheduled_message_state :: "string \<Rightarrow> scheduled_message_state" where
  "parse_scheduled_message_state value = (
     if value = ''sending'' then SM_Sending else
     if value = ''sent'' then SM_Sent else
     if value = ''failed'' then SM_Failed else
     if value = ''cancelled'' then SM_Cancelled else
     SM_Scheduled)"

fun format_approval_state :: "approval_state \<Rightarrow> string" where
  "format_approval_state AS_Requested = ''requested''"
| "format_approval_state AS_Resolved = ''resolved''"
| "format_approval_state AS_Expired = ''expired''"
| "format_approval_state AS_Cancelled = ''cancelled''"

text \<open>The column text of a command kind is its derived \<open>Debug\<close> rendering.\<close>

fun debug_command_kind :: "command_kind \<Rightarrow> string" where
  "debug_command_kind CK_StartRuntime = ''StartRuntime''"
| "debug_command_kind CK_ResumeRuntime = ''ResumeRuntime''"
| "debug_command_kind CK_SendTurn = ''SendTurn''"
| "debug_command_kind CK_ResolveApproval = ''ResolveApproval''"
| "debug_command_kind CK_InterruptRuntime = ''InterruptRuntime''"
| "debug_command_kind CK_StopRuntime = ''StopRuntime''"
| "debug_command_kind CK_ValidateWorkspace = ''ValidateWorkspace''"
| "debug_command_kind CK_RefreshResourceSnapshot = ''RefreshResourceSnapshot''"
| "debug_command_kind CK_ListWorkspaceTree = ''ListWorkspaceTree''"
| "debug_command_kind CK_ReadWorkspaceFile = ''ReadWorkspaceFile''"
| "debug_command_kind CK_WriteWorkspaceFile = ''WriteWorkspaceFile''"
| "debug_command_kind CK_RunWorkspaceCommand = ''RunWorkspaceCommand''"
| "debug_command_kind CK_ReadWorkspaceDiff = ''ReadWorkspaceDiff''"
| "debug_command_kind CK_OpenWorkspaceTerminal = ''OpenWorkspaceTerminal''"
| "debug_command_kind CK_AttachWorkspaceTerminal = ''AttachWorkspaceTerminal''"
| "debug_command_kind CK_ResizeWorkspaceTerminal = ''ResizeWorkspaceTerminal''"
| "debug_command_kind CK_WriteWorkspaceTerminal = ''WriteWorkspaceTerminal''"
| "debug_command_kind CK_CloseWorkspaceTerminal = ''CloseWorkspaceTerminal''"
| "debug_command_kind CK_RequestDeduction = ''RequestDeduction''"
| "debug_command_kind CK_CancelDeduction = ''CancelDeduction''"
| "debug_command_kind CK_RunTask = ''RunTask''"
| "debug_command_kind CK_CancelTaskRun = ''CancelTaskRun''"
| "debug_command_kind CK_Tooling = ''Tooling''"
| "debug_command_kind CK_Extension = ''Extension''"

definition parse_command_kind :: "string \<Rightarrow> command_kind" where
  "parse_command_kind value = (
     if value = ''StartRuntime'' then CK_StartRuntime else
     if value = ''ResumeRuntime'' then CK_ResumeRuntime else
     if value = ''SendTurn'' then CK_SendTurn else
     if value = ''ResolveApproval'' then CK_ResolveApproval else
     if value = ''InterruptRuntime'' then CK_InterruptRuntime else
     if value = ''StopRuntime'' then CK_StopRuntime else
     if value = ''ValidateWorkspace'' then CK_ValidateWorkspace else
     if value = ''RefreshResourceSnapshot'' then CK_RefreshResourceSnapshot else
     if value = ''ListWorkspaceTree'' then CK_ListWorkspaceTree else
     if value = ''ReadWorkspaceFile'' then CK_ReadWorkspaceFile else
     if value = ''WriteWorkspaceFile'' then CK_WriteWorkspaceFile else
     if value = ''RunWorkspaceCommand'' then CK_RunWorkspaceCommand else
     if value = ''ReadWorkspaceDiff'' then CK_ReadWorkspaceDiff else
     if value = ''OpenWorkspaceTerminal'' then CK_OpenWorkspaceTerminal else
     if value = ''AttachWorkspaceTerminal'' then CK_AttachWorkspaceTerminal else
     if value = ''ResizeWorkspaceTerminal'' then CK_ResizeWorkspaceTerminal else
     if value = ''WriteWorkspaceTerminal'' then CK_WriteWorkspaceTerminal else
     if value = ''CloseWorkspaceTerminal'' then CK_CloseWorkspaceTerminal else
     CK_RefreshResourceSnapshot)"

fun format_command_state :: "command_state \<Rightarrow> string" where
  "format_command_state CS_Recorded = ''recorded''"
| "format_command_state CS_PendingDispatch = ''pending_dispatch''"
| "format_command_state CS_Dispatched = ''dispatched''"
| "format_command_state CS_Acknowledged = ''acknowledged''"
| "format_command_state CS_Completed = ''completed''"
| "format_command_state CS_Failed = ''failed''"
| "format_command_state CS_Blocked = ''blocked''"
| "format_command_state CS_Expired = ''expired''"

definition parse_command_state :: "string \<Rightarrow> command_state" where
  "parse_command_state value = (
     if value = ''recorded'' then CS_Recorded else
     if value = ''pending_dispatch'' then CS_PendingDispatch else
     if value = ''dispatched'' then CS_Dispatched else
     if value = ''acknowledged'' then CS_Acknowledged else
     if value = ''completed'' then CS_Completed else
     if value = ''failed'' then CS_Failed else
     if value = ''blocked'' then CS_Blocked else
     if value = ''expired'' then CS_Expired else
     CS_Recorded)"

fun format_message_role :: "message_role \<Rightarrow> string" where
  "format_message_role MR_User = ''user''"
| "format_message_role MR_Assistant = ''assistant''"
| "format_message_role MR_System = ''system''"
| "format_message_role MR_Runtime = ''runtime''"
| "format_message_role MR_Approval = ''approval''"

definition parse_message_role :: "string \<Rightarrow> message_role" where
  "parse_message_role value = (
     if value = ''assistant'' then MR_Assistant else
     if value = ''system'' then MR_System else
     if value = ''runtime'' then MR_Runtime else
     if value = ''approval'' then MR_Approval else
     MR_User)"

section \<open>Request headers\<close>

text \<open>
  A header map is the list of its (lower-case) names and values; \<open>to_str\<close> fails on a value
  with a character outside visible ASCII, tab and space.
\<close>

type_synonym header_map = "(string \<times> string) list"

definition to_str :: "string \<Rightarrow> string option" where
  "to_str v = (if list_all (\<lambda>c. let n = (of_char c :: nat) in n = 9 \<or> 32 \<le> n \<and> n < 127) v
               then Some v else None)"

definition non_empty :: "string \<Rightarrow> string option" where
  "non_empty v = (if v = [] then None else Some v)"

definition header_value :: "header_map \<Rightarrow> string \<Rightarrow> string option" where
  "header_value headers name = Option.bind (Option.bind (map_of headers name) to_str) non_empty"

fun split_on :: "char \<Rightarrow> string \<Rightarrow> string list" where
  "split_on d [] = [[]]"
| "split_on d (c # cs) = (case split_on d cs of
     [] \<Rightarrow> [[]] | w # ws \<Rightarrow> if c = d then [] # w # ws else (c # w) # ws)"

fun split_once :: "char \<Rightarrow> string \<Rightarrow> (string \<times> string) option" where
  "split_once d [] = None"
| "split_once d (c # cs) = (if c = d then Some ([], cs)
     else map_option (\<lambda>(a, b). (c # a, b)) (split_once d cs))"

fun filter_map :: "('a \<Rightarrow> 'b option) \<Rightarrow> 'a list \<Rightarrow> 'b list" where
  "filter_map f [] = []"
| "filter_map f (x # xs) = (case f x of None \<Rightarrow> filter_map f xs | Some y \<Rightarrow> y # filter_map f xs)"

definition first :: "'a list \<Rightarrow> 'a option" where
  "first xs = (case xs of [] \<Rightarrow> None | x # _ \<Rightarrow> Some x)"

definition cookie_value :: "header_map \<Rightarrow> string \<Rightarrow> string option" where
  "cookie_value headers name =
     Option.bind (Option.bind (map_of headers ''cookie'') to_str) (\<lambda>cookie_header.
       first (filter_map (\<lambda>part. case split_once CHR ''='' (trim part) of
           None \<Rightarrow> None
         | Some (n, v) \<Rightarrow> if n = name \<and> v \<noteq> [] then Some v else None)
         (split_on CHR '';'' cookie_header)))"

definition strip_prefix :: "string \<Rightarrow> string \<Rightarrow> string option" where
  "strip_prefix p s = (if take (length p) s = p then Some (drop (length p) s) else None)"

definition bearer_token :: "header_map \<Rightarrow> string option" where
  "bearer_token headers = Option.bind (header_value headers ''authorization'') (\<lambda>authorization.
     Option.bind (strip_prefix ''Bearer '' authorization) non_empty)"

text \<open>\<open>fresh\<close> is the UUID the default correlation id draws.\<close>

definition request_correlation_id :: "header_map \<Rightarrow> id \<Rightarrow> id" where
  "request_correlation_id headers fresh =
     (case (case header_value headers ''x-correlation-id'' of
              Some v \<Rightarrow> Some v | None \<Rightarrow> header_value headers ''x-request-id'') of
        None \<Rightarrow> fresh
      | Some value \<Rightarrow> (case non_empty (truncate_chars (trim value) 128) of
          None \<Rightarrow> fresh | Some v \<Rightarrow> v))"

section \<open>Projection helpers\<close>

text \<open>\<open>str::split_whitespace\<close>, then joined by single blanks.\<close>

fun split_ws :: "string \<Rightarrow> string \<Rightarrow> string list" where
  "split_ws w [] = (if w = [] then [] else [rev w])"
| "split_ws w (c # cs) = (if is_whitespace c
     then (if w = [] then split_ws [] cs else rev w # split_ws [] cs)
     else split_ws (c # w) cs)"

fun join_blank :: "string list \<Rightarrow> string" where
  "join_blank [] = []"
| "join_blank [w] = w"
| "join_blank (w # v # ws) = w @ '' '' @ join_blank (v # ws)"

definition snippet :: "string \<Rightarrow> nat \<Rightarrow> string" where
  "snippet value max_chars = (let normalized = join_blank (split_ws [] value) in
     if length normalized \<le> max_chars then normalized else take max_chars normalized @ ''...'')"

fun actor_identity :: "actor_ref \<Rightarrow> string \<times> string \<times> string" where
  "actor_identity (AR_LocalUser actor_id) =
     ((case actor_id of Some a \<Rightarrow> ''local_user:'' @ a | None \<Rightarrow> ''local_user''),
      ''local_user'', ''Local user'')"
| "actor_identity AR_System = (''system'', ''system'', ''System'')"
| "actor_identity (AR_Node n) = (''node:'' @ n, ''node'', ''Node '' @ n)"
| "actor_identity (AR_Provider p) = (''provider:'' @ p, ''provider'', ''Provider '' @ p)"
| "actor_identity AR_Unknown = (''unknown'', ''unknown'', ''Unknown'')"

definition event_approval_id :: "event_envelope \<Rightarrow> id option" where
  "event_approval_id event = Option.bind (payload_str (ev_payload event) ''approval_id'') non_empty"

definition retain :: "('a \<Rightarrow> bool) \<Rightarrow> 'a list \<Rightarrow> 'a list" where
  "retain p xs = filter p xs"

definition pending_step :: "event_envelope \<Rightarrow> id list \<Rightarrow> id list" where
  "pending_step event pending = (case ev_kind event of
     EK_ApprovalRequested \<Rightarrow> (case event_approval_id event of
         Some a \<Rightarrow> retain (\<lambda>c. c \<noteq> a) pending @ [a] | None \<Rightarrow> pending)
   | EK_ApprovalResolved \<Rightarrow> (case event_approval_id event of
         Some a \<Rightarrow> retain (\<lambda>c. c \<noteq> a) pending | None \<Rightarrow> pending)
   | _ \<Rightarrow> pending)"

definition pending_approvals :: "event_envelope list \<Rightarrow> id list" where
  "pending_approvals events = fold pending_step events []"

section \<open>Facts\<close>

lemma parse_format_enrollment_state: "parse_enrollment_state (format_enrollment_state s) = s"
  by (cases s) (simp_all add: parse_enrollment_state_def)

lemma parse_format_sleep_hint: "parse_sleep_hint (format_sleep_hint s) = s"
  by (cases s) (simp_all add: parse_sleep_hint_def)

lemma parse_format_placement_state: "parse_placement_state (format_placement_state s) = s"
  by (cases s) (simp_all add: parse_placement_state_def)

lemma parse_format_session_state: "parse_session_state (format_session_state s) = s"
  by (cases s) (simp_all add: parse_session_state_def)

lemma parse_format_runtime_state: "parse_runtime_state (format_runtime_state s) = s"
  by (cases s) (simp_all add: parse_runtime_state_def)

lemma parse_format_command_state: "parse_command_state (format_command_state s) = s"
  by (cases s) (simp_all add: parse_command_state_def)

lemma parse_format_message_role: "parse_message_role (format_message_role s) = s"
  by (cases s) (simp_all add: parse_message_role_def)

lemma format_turn_state_inj: "inj format_turn_state"
  by (rule injI) (rename_tac x y, case_tac x; case_tac y; simp)

lemma format_approval_state_inj: "inj format_approval_state"
  by (rule injI) (rename_tac x y, case_tac x; case_tac y; simp)

text \<open>The wire name of a placement state is also its column text.\<close>

lemma placement_state_name_eq: "placement_state_name s = format_placement_state s"
  by (cases s) simp_all

text \<open>
  The kind column loses the six kinds that are not in the table of \<open>parse_command_kind\<close>:
  they are read back as \<open>RefreshResourceSnapshot\<close>.
\<close>

lemma parse_debug_command_kind:
  "parse_command_kind (debug_command_kind k) = (if k \<in> {CK_RequestDeduction, CK_CancelDeduction,
     CK_RunTask, CK_CancelTaskRun, CK_Tooling, CK_Extension} then CK_RefreshResourceSnapshot else k)"
  by (cases k) (simp_all add: parse_command_kind_def)

lemma scope_key_inj: "scope_key a = scope_key b \<longleftrightarrow> a = b"
  by (cases a; cases b) simp_all

lemma derive_presence_revoked [simp]: "derive_presence NP_Revoked age a b = NP_Revoked"
  by (simp add: derive_presence_def)

fun presence_rank :: "node_presence \<Rightarrow> nat" where
  "presence_rank NP_Reachable = 0"
| "presence_rank NP_Stale = 1"
| "presence_rank NP_Offline = 2"
| "presence_rank NP_Revoked = 3"

lemma derive_presence_mono:
  "age \<le> age' \<Longrightarrow>
   presence_rank (derive_presence s (Some age) a b) \<le> presence_rank (derive_presence s (Some age') a b)"
  by (auto simp: derive_presence_def)

lemma length_truncate_chars: "length (truncate_chars v n) \<le> n + 3"
  by (simp add: truncate_chars_def)

lemma truncate_chars_prefix: "take n (truncate_chars v n) = take n v"
  by (simp add: truncate_chars_def)

lemma length_snippet: "length (snippet v n) \<le> n + 3"
  by (simp add: snippet_def Let_def)

lemma request_correlation_id_bound:
  "request_correlation_id h fresh = fresh \<or> length (request_correlation_id h fresh) \<le> 131"
  using length_truncate_chars[of _ 128]
  by (auto simp: request_correlation_id_def non_empty_def split: option.splits)

text \<open>
  The list of pending approvals has no duplicates and holds exactly the ids whose last
  request or resolution in the log is a request.
\<close>

definition approval_mark :: "id \<Rightarrow> event_envelope \<Rightarrow> bool option" where
  "approval_mark a event = (if event_approval_id event \<noteq> Some a then None
     else if ev_kind event = EK_ApprovalRequested then Some True
     else if ev_kind event = EK_ApprovalResolved then Some False else None)"

definition last_mark :: "id \<Rightarrow> event_envelope list \<Rightarrow> bool" where
  "last_mark a events = (filter_map (approval_mark a) events \<noteq> []
     \<and> last (filter_map (approval_mark a) events))"

lemma filter_map_append: "filter_map f (xs @ ys) = filter_map f xs @ filter_map f ys"
  by (induction xs) (auto split: option.splits)

lemma set_pending_step:
  "a \<in> set (pending_step e p) \<longleftrightarrow> (case approval_mark a e of None \<Rightarrow> a \<in> set p | Some b \<Rightarrow> b)"
  by (cases "ev_kind e") (auto simp: pending_step_def approval_mark_def retain_def split: option.splits)

lemma distinct_pending_step: "distinct p \<Longrightarrow> distinct (pending_step e p)"
  by (cases "ev_kind e") (auto simp: pending_step_def retain_def split: option.splits)

lemma pending_approvals_snoc: "pending_approvals (es @ [e]) = pending_step e (pending_approvals es)"
  by (simp add: pending_approvals_def)

lemma pending_approvals_iff: "a \<in> set (pending_approvals es) \<longleftrightarrow> last_mark a es"
proof (induction es rule: rev_induct)
  case Nil
  then show ?case by (simp add: pending_approvals_def last_mark_def)
next
  case (snoc e es)
  then show ?case
    by (auto simp: pending_approvals_snoc set_pending_step last_mark_def filter_map_append
        split: option.splits)
qed

lemma distinct_pending_approvals: "distinct (pending_approvals es)"
  by (induction es rule: rev_induct)
    (simp_all add: pending_approvals_def distinct_pending_step)

end
