(* ===== verification/Core_Db.thy ===== *)
theory Core_Db
  imports Core_Support
begin

text \<open>
  The Core database: one record per table of \<open>uprava-server/src/persistence/migrations.rs\<close>
  the modelled operations read or write, and the insert statements with the primary keys,
  unique indices and foreign keys of those tables. A violated constraint is
  \<open>AppError::Database\<close>, which aborts the enclosing transaction.

  A \<open>*_json\<close> column that only repeats a field of the stored envelope is that field; the
  envelope column (\<open>command_json\<close>, \<open>event_json\<close>) holds the envelope. State columns hold the
  state (\<open>Core_Support\<close> proves the encodings faithful).
\<close>

section \<open>Rows\<close>

record node_row =
  nd_node_id :: id
  nd_display_name :: string
  nd_presence :: node_presence
  nd_sleep_hint :: sleep_hint
  nd_last_heartbeat_at :: "time option"
  nd_daemon_version :: string
  nd_active_runtime_count :: int
  nd_capabilities :: "capability_summary list"
  nd_diagnostics :: string
  nd_credential_hash :: "string option"
  nd_created_at :: time
  nd_updated_at :: time

record capability_row =
  cap_node_id :: id
  cap_capability_key :: string
  cap_value :: capability_value
  cap_updated_at :: time

record placement_row =
  pl_project_placement_id :: id
  pl_project_id :: "id option"
  pl_node_id :: id
  pl_display_name :: string
  pl_workspace_path :: string
  pl_state :: placement_state
  pl_resource_badges :: "resource_badge list"
  pl_git_snapshot :: "git_workspace_snapshot option"
  pl_last_validated_at :: "time option"
  pl_created_at :: time
  pl_updated_at :: time

record session_row =
  st_session_thread_id :: id
  st_project_placement_id :: id
  st_runtime_session_id :: id
  st_title :: string
  st_state :: session_thread_state
  st_provider :: string
  st_created_at :: time
  st_updated_at :: time

record runtime_row =
  rt_runtime_session_id :: id
  rt_session_thread_id :: id
  rt_provider :: string
  rt_state :: runtime_session_state
  rt_resume_supported :: bool
  rt_provider_resume_ref :: "json option"
  rt_degraded_reason :: "string option"
  rt_last_runtime_step_at :: "time option"
  rt_created_at :: time
  rt_updated_at :: time

record turn_row =
  tn_turn_id :: id
  tn_session_thread_id :: id
  tn_command_id :: id
  tn_turn_index :: int
  tn_state :: turn_state
  tn_content :: string
  tn_blocked_approval_id :: "id option"
  tn_created_at :: time
  tn_updated_at :: time
  tn_completed_at :: "time option"

record approval_row =
  ap_approval_id :: id
  ap_session_thread_id :: id
  ap_runtime_session_id :: "id option"
  ap_turn_id :: "id option"
  ap_state :: approval_state
  ap_request_payload :: "event_payload_kind option"
  ap_response_payload :: "event_payload_kind option"
  ap_request_command_id :: "id option"
  ap_resolve_command_id :: "id option"
  ap_requested_event_id :: "id option"
  ap_resolved_event_id :: "id option"
  ap_created_at :: time
  ap_updated_at :: time
  ap_resolved_at :: "time option"

record message_row =
  ms_message_id :: id
  ms_session_thread_id :: id
  ms_turn_id :: "id option"
  ms_role :: message_role
  ms_content :: string
  ms_created_at :: time
  ms_completed_at :: "time option"
  ms_source_event_id :: "id option"

record command_row =
  cm_command_id :: id
  cm_kind :: command_kind
  cm_state :: command_state
  cm_target_node_id :: id
  cm_session_thread_id :: "id option"
  cm_runtime_session_id :: "id option"
  cm_project_placement_id :: "id option"
  cm_result_payload :: "json option"
  cm_command :: command_envelope
  cm_created_at :: time
  cm_completed_at :: "time option"

record dispatch_row =
  dp_command_id :: id
  dp_target_node_id :: id
  dp_command :: command_envelope
  dp_attempts :: nat
  dp_enqueued_at :: time
  dp_last_attempt_at :: "time option"

datatype (plugins only: code size) projection_state = PJ_Pending | PJ_Projected

record event_row =
  er_event_id :: id
  er_scope_key :: string
  er_seq :: int
  er_session_thread_id :: "id option"
  er_session_projection_seq :: "int option"
  er_event :: event_envelope
  er_projection_state :: projection_state
  er_projection_attempts :: nat
  er_projected_at :: "time option"

record publication_row =
  po_event_id :: id
  po_event :: event_envelope
  po_attempts :: nat
  po_enqueued_at :: time
  po_published_at :: "time option"

record actor_row =
  ac_actor_key :: string
  ac_actor_kind :: string
  ac_display_name :: string
  ac_actor_ref :: actor_ref
  ac_first_seen_at :: time
  ac_last_seen_at :: time

record warning_ack_row =
  wa_event_id :: id
  wa_session_thread_id :: id
  wa_actor_ref :: actor_ref
  wa_warning_kind :: string
  wa_affected_refs :: "uprava_ref list"
  wa_acknowledged_at :: time

record task_row =
  tr_task_run_id :: id
  tr_project_placement_id :: id
  tr_node_id :: id
  tr_provider :: string
  tr_state :: task_run_state
  tr_cleanup_state :: task_cleanup_state
  tr_prompt :: string
  tr_base_revision :: string
  tr_branch :: string
  tr_runtime_image :: string
  tr_checks :: "task_check_spec list"
  tr_artifact_paths :: "string list"
  tr_timeout_seconds :: u64
  tr_ttl_seconds :: u64
  tr_resource_limits :: task_resource_limits
  tr_command_id :: id
  tr_cancel_command_id :: "id option"
  tr_worktree_path :: "string option"
  tr_result :: "task_run_result_package option"
  tr_summary :: "string option"
  tr_terminal_code :: "string option"
  tr_terminal_message :: "string option"
  tr_queued_at :: time
  tr_started_at :: "time option"
  tr_finished_at :: "time option"
  tr_updated_at :: time

record deduction_row =
  dd_deduction_id :: id
  dd_session_thread_id :: id
  dd_scope_ref :: uprava_ref
  dd_question :: string
  dd_state :: deduction_state
  dd_command_id :: id
  dd_input_package :: deduction_input_package
  dd_block :: "deduction_block option"
  dd_raw_fallback :: "string option"
  dd_raw_truncated :: bool
  dd_error_code :: "string option"
  dd_error_message :: "string option"
  dd_updated_at :: time

record dependency_row =
  dy_dependency_instance_id :: id
  dy_node_id :: id
  dy_desired_enabled :: bool

record scheduled_message_row =
  sm_scheduled_message_id :: id
  sm_session_thread_id :: id
  sm_content :: string
  sm_due_at :: time
  sm_timezone :: string
  sm_state :: scheduled_message_state
  sm_created_at :: time
  sm_updated_at :: time
  sm_sending_at :: "time option"
  sm_sent_at :: "time option"
  sm_cancelled_at :: "time option"
  sm_command_id :: "id option"
  sm_turn_id :: "id option"
  sm_failure_code :: "string option"
  sm_failure_message :: "string option"

record job_row =
  jb_job_id :: id
  jb_project_placement_id :: id
  jb_name :: string
  jb_prompt :: string
  jb_provider :: string
  jb_schedule :: "job_schedule option"
  jb_timezone :: string
  jb_enabled :: bool
  jb_overlap_policy :: job_overlap_policy
  jb_continue_after_error :: bool
  jb_next_run_at :: "time option"
  jb_paused_reason :: "string option"
  jb_created_at :: time
  jb_updated_at :: time

text \<open>The configuration a job run was queued with, the column \<open>config_snapshot_json\<close>.\<close>

record job_run_config_snapshot =
  jc_name :: string
  jc_project_placement_id :: id
  jc_prompt :: string
  jc_provider :: string
  jc_schedule :: "job_schedule option"
  jc_timezone :: string
  jc_overlap_policy :: job_overlap_policy
  jc_continue_after_error :: bool

record job_run_row =
  jn_job_run_id :: id
  jn_job_id :: id
  jn_trigger_kind :: job_run_trigger
  jn_state :: job_run_state
  jn_scheduled_for :: "time option"
  jn_queued_at :: time
  jn_started_at :: "time option"
  jn_finished_at :: "time option"
  jn_session_thread_id :: "id option"
  jn_runtime_session_id :: "id option"
  jn_command_id :: "id option"
  jn_turn_id :: "id option"
  jn_summary :: "string option"
  jn_terminal_code :: "string option"
  jn_terminal_message :: "string option"
  jn_config_snapshot :: job_run_config_snapshot
  jn_force :: bool

record quota_row =
  qs_provider :: string
  qs_five_hour_remaining_percent :: "int option"
  qs_weekly_remaining_percent :: "int option"
  qs_observed_at :: time
  qs_reliable :: bool
  qs_source :: string

record audit_row =
  au_kind :: string
  au_node_id :: "id option"
  au_origin :: "string option"
  au_outcome :: string
  au_metadata :: json
  au_happened_at :: time

record mcp_access_lease_claims =
  lc_lease_id :: id
  lc_audience :: string
  lc_actor_ref :: actor_ref
  lc_session_thread_id :: id
  lc_project_id :: "id option"
  lc_project_placement_id :: id
  lc_node_id :: id
  lc_issued_at :: time
  lc_expires_at :: time
  lc_credential_version :: u64

record lease_row =
  le_lease_id :: id
  le_session_thread_id :: id
  le_claims :: mcp_access_lease_claims
  le_credential_version :: int
  le_issued_at :: time
  le_expires_at :: time
  le_revoked_at :: "time option"
  le_revocation_reason :: "string option"

section \<open>The database\<close>

record core_db =
  db_nodes :: "node_row list"
  db_capabilities :: "capability_row list"
  db_placements :: "placement_row list"
  db_sessions :: "session_row list"
  db_runtimes :: "runtime_row list"
  db_turns :: "turn_row list"
  db_approvals :: "approval_row list"
  db_messages :: "message_row list"
  db_commands :: "command_row list"
  db_dispatch_outbox :: "dispatch_row list"
  db_events :: "event_row list"
  db_publication_outbox :: "publication_row list"
  db_actors :: "actor_row list"
  db_warning_acks :: "warning_ack_row list"
  db_task_runs :: "task_row list"
  db_deductions :: "deduction_row list"
  db_dependencies :: "dependency_row list"
  db_scheduled_messages :: "scheduled_message_row list"
  db_jobs :: "job_row list"
  db_job_runs :: "job_run_row list"
  db_quotas :: "quota_row list"
  db_audit :: "audit_row list"
  db_leases :: "lease_row list"

definition empty_db :: core_db where
  "empty_db = \<lparr>db_nodes = [], db_capabilities = [], db_placements = [], db_sessions = [],
     db_runtimes = [], db_turns = [], db_approvals = [], db_messages = [], db_commands = [],
     db_dispatch_outbox = [], db_events = [], db_publication_outbox = [], db_actors = [],
     db_warning_acks = [], db_task_runs = [], db_deductions = [], db_dependencies = [],
     db_scheduled_messages = [], db_jobs = [], db_job_runs = [], db_quotas = [], db_audit = [],
     db_leases = []\<rparr>"

abbreviation find_session :: "core_db \<Rightarrow> id \<Rightarrow> session_row option" where
  "find_session db s \<equiv> select_by st_session_thread_id s (db_sessions db)"

abbreviation find_runtime :: "core_db \<Rightarrow> id \<Rightarrow> runtime_row option" where
  "find_runtime db r \<equiv> select_by rt_runtime_session_id r (db_runtimes db)"

abbreviation find_placement :: "core_db \<Rightarrow> id \<Rightarrow> placement_row option" where
  "find_placement db p \<equiv> select_by pl_project_placement_id p (db_placements db)"

abbreviation find_command :: "core_db \<Rightarrow> id \<Rightarrow> command_row option" where
  "find_command db c \<equiv> select_by cm_command_id c (db_commands db)"

abbreviation find_event :: "core_db \<Rightarrow> id \<Rightarrow> event_row option" where
  "find_event db e \<equiv> select_by er_event_id e (db_events db)"

abbreviation find_turn :: "core_db \<Rightarrow> id \<Rightarrow> turn_row option" where
  "find_turn db t \<equiv> select_by tn_turn_id t (db_turns db)"

abbreviation find_approval :: "core_db \<Rightarrow> id \<Rightarrow> approval_row option" where
  "find_approval db a \<equiv> select_by ap_approval_id a (db_approvals db)"

abbreviation find_task :: "core_db \<Rightarrow> id \<Rightarrow> task_row option" where
  "find_task db t \<equiv> select_by tr_task_run_id t (db_task_runs db)"

abbreviation find_node :: "core_db \<Rightarrow> id \<Rightarrow> node_row option" where
  "find_node db n \<equiv> select_by nd_node_id n (db_nodes db)"

abbreviation find_dispatch :: "core_db \<Rightarrow> id \<Rightarrow> dispatch_row option" where
  "find_dispatch db c \<equiv> select_by dp_command_id c (db_dispatch_outbox db)"

abbreviation find_job :: "core_db \<Rightarrow> id \<Rightarrow> job_row option" where
  "find_job db j \<equiv> select_by jb_job_id j (db_jobs db)"

abbreviation find_job_run :: "core_db \<Rightarrow> id \<Rightarrow> job_run_row option" where
  "find_job_run db j \<equiv> select_by jn_job_run_id j (db_job_runs db)"

end
