(* ===== verification/Connection_Registry.thy ===== *)
theory Connection_Registry
  imports Core_Support
begin

text \<open>
  The process-local registry of Node control connections,
  \<open>uprava-server/src/runtime/transport/live.rs\<close>. Every socket draws a generation; a hello
  activates its generation unless a newer one is active, and frames of any other
  generation are refused (\<open>require_active_generation\<close> in \<open>transport/node.rs\<close>).

  A sender of a bounded channel is the identity of that channel. The life of the registry
  is the step relation \<open>reg_step\<close>; \<open>reg_inv\<close> is its invariant. Generations come from a
  64-bit counter that wraps, so the invariant is stated for fewer than \<open>2^64 - 1\<close> sockets.
\<close>

record node_context =
  nc_node_id :: id
  nc_generation :: u64
  nc_sender :: nat

record control_connection =
  cn_generation :: u64
  cn_sender :: nat

record connection_registry =
  entries :: "(id \<times> control_connection) list"
  next_generation :: u64

definition registry_new :: connection_registry where
  "registry_new = \<lparr>entries = [], next_generation = 1\<rparr>"

definition registry_context :: "connection_registry \<Rightarrow> id \<Rightarrow> nat \<Rightarrow> node_context \<times> connection_registry" where
  "registry_context reg node_id sender =
     (\<lparr>nc_node_id = node_id, nc_generation = next_generation reg, nc_sender = sender\<rparr>,
      reg\<lparr>next_generation := next_generation reg + 1\<rparr>)"

definition activate :: "connection_registry \<Rightarrow> node_context \<Rightarrow> bool \<times> connection_registry" where
  "activate reg context =
     (if (case hm_get (entries reg) (nc_node_id context) of
            Some connection \<Rightarrow> cn_generation connection > nc_generation context | None \<Rightarrow> False)
      then (False, reg)
      else (True, reg\<lparr>entries := hm_insert (nc_node_id context)
              \<lparr>cn_generation = nc_generation context, cn_sender = nc_sender context\<rparr> (entries reg)\<rparr>))"

definition is_active :: "connection_registry \<Rightarrow> node_context \<Rightarrow> bool" where
  "is_active reg context = (case hm_get (entries reg) (nc_node_id context) of
     Some connection \<Rightarrow> cn_generation connection = nc_generation context | None \<Rightarrow> False)"

definition registry_sender :: "connection_registry \<Rightarrow> id \<Rightarrow> nat option" where
  "registry_sender reg node_id = map_option cn_sender (hm_get (entries reg) node_id)"

definition registry_contains :: "connection_registry \<Rightarrow> id \<Rightarrow> bool" where
  "registry_contains reg node_id \<longleftrightarrow> hm_get (entries reg) node_id \<noteq> None"

definition remove_if_active :: "connection_registry \<Rightarrow> node_context \<Rightarrow> bool \<times> connection_registry" where
  "remove_if_active reg context =
     (if is_active reg context
      then (True, reg\<lparr>entries := hm_remove (nc_node_id context) (entries reg)\<rparr>)
      else (False, reg))"

definition remove_node :: "connection_registry \<Rightarrow> id \<Rightarrow> connection_registry" where
  "remove_node reg node_id = reg\<lparr>entries := hm_remove node_id (entries reg)\<rparr>"

definition require_active_generation :: "connection_registry \<Rightarrow> node_context \<Rightarrow> app_error + unit" where
  "require_active_generation reg context =
     ensure (is_active reg context) (Auth ''control.stale_generation'')"

section \<open>Fencing\<close>

lemma activate_active: "activate reg c = (True, reg') \<Longrightarrow> is_active reg' c"
  by (auto simp: activate_def is_active_def split: if_splits option.splits)

lemma activate_fences:
  assumes "activate reg c = (True, reg')" "nc_node_id d = nc_node_id c"
    "nc_generation d \<noteq> nc_generation c"
  shows "\<not> is_active reg' d"
  using assms by (auto simp: activate_def is_active_def split: if_splits option.splits)

lemma activate_other_node:
  assumes "activate reg c = (b, reg')" "nc_node_id d \<noteq> nc_node_id c"
  shows "is_active reg' d = is_active reg d"
  using assms by (auto simp: activate_def is_active_def split: if_splits option.splits)

lemma activate_refused_iff:
  "fst (activate reg c) = False \<longleftrightarrow>
   (\<exists>cn. hm_get (entries reg) (nc_node_id c) = Some cn \<and> cn_generation cn > nc_generation c)"
  by (auto simp: activate_def split: if_splits option.splits)

lemma activate_refused_id: "fst (activate reg c) = False \<Longrightarrow> snd (activate reg c) = reg"
  by (auto simp: activate_def split: if_splits option.splits)

lemma remove_if_active_stale:
  "\<not> is_active reg c \<Longrightarrow> remove_if_active reg c = (False, reg)"
  by (simp add: remove_if_active_def)

lemma remove_if_active_gone:
  "remove_if_active reg c = (True, reg') \<Longrightarrow> \<not> registry_contains reg' (nc_node_id c)"
  by (auto simp: remove_if_active_def registry_contains_def split: if_splits)

section \<open>The life of the registry\<close>

record registry_run =
  rr_reg :: connection_registry
  rr_issued :: "node_context list"

inductive reg_step :: "registry_run \<Rightarrow> registry_run \<Rightarrow> bool" where
  connect: "registry_context (rr_reg s) n tx = (c, reg') \<Longrightarrow>
     reg_step s (s\<lparr>rr_reg := reg', rr_issued := c # rr_issued s\<rparr>)"
| hello: "c \<in> set (rr_issued s) \<Longrightarrow> activate (rr_reg s) c = (b, reg') \<Longrightarrow>
     reg_step s (s\<lparr>rr_reg := reg'\<rparr>)"
| disconnect: "c \<in> set (rr_issued s) \<Longrightarrow> remove_if_active (rr_reg s) c = (b, reg') \<Longrightarrow>
     reg_step s (s\<lparr>rr_reg := reg'\<rparr>)"
| revoke: "reg_step s (s\<lparr>rr_reg := remove_node (rr_reg s) n\<rparr>)"

inductive reg_reachable :: "registry_run \<Rightarrow> bool" where
  start: "reg_reachable \<lparr>rr_reg = registry_new, rr_issued = []\<rparr>"
| step: "reg_reachable s \<Longrightarrow> reg_step s s' \<Longrightarrow> reg_reachable s'"

inductive_cases reg_stepE: "reg_step s s'"

definition ctx_of :: "id \<Rightarrow> control_connection \<Rightarrow> node_context" where
  "ctx_of n cn = \<lparr>nc_node_id = n, nc_generation = cn_generation cn, nc_sender = cn_sender cn\<rparr>"

lemma ctx_eta [simp]:
  "\<lparr>nc_node_id = nc_node_id c, nc_generation = nc_generation c, nc_sender = nc_sender c\<rparr> = c"
  by simp

definition reg_inv :: "registry_run \<Rightarrow> bool" where
  "reg_inv s \<longleftrightarrow> unat (next_generation (rr_reg s)) = Suc (length (rr_issued s))
     \<and> distinct (map nc_generation (rr_issued s))
     \<and> (\<forall>c\<in>set (rr_issued s). nc_generation c < next_generation (rr_reg s))
     \<and> hm_wf (entries (rr_reg s))
     \<and> (\<forall>n cn. hm_get (entries (rr_reg s)) n = Some cn \<longrightarrow> ctx_of n cn \<in> set (rr_issued s))"

lemma reg_inv_connect:
  assumes inv: "reg_inv s" and lt: "length (c # rr_issued s) < 2 ^ 64 - 1"
    and c: "registry_context (rr_reg s) n tx = (c, reg')"
  shows "reg_inv (s\<lparr>rr_reg := reg', rr_issued := c # rr_issued s\<rparr>)"
proof -
  let ?g = "next_generation (rr_reg s)"
  have eq: "c = \<lparr>nc_node_id = n, nc_generation = ?g, nc_sender = tx\<rparr>"
    "reg' = (rr_reg s)\<lparr>next_generation := ?g + 1\<rparr>"
    using c by (auto simp: registry_context_def)
  have ug: "unat ?g = Suc (length (rr_issued s))" using inv by (simp add: reg_inv_def)
  have u: "unat (?g + 1) = Suc (unat ?g)"
    using ug lt by (simp add: unat_word_ariths)
  have lt': "?g < ?g + 1" using u by (simp add: word_less_nat_alt)
  show ?thesis
    using inv eq ug u lt' unfolding reg_inv_def by (fastforce dest: less_trans)
qed

lemma reg_inv_hello:
  assumes "reg_inv s" "c \<in> set (rr_issued s)" "activate (rr_reg s) c = (b, reg')"
  shows "reg_inv (s\<lparr>rr_reg := reg'\<rparr>)"
  using assms unfolding reg_inv_def activate_def
  by (auto simp: ctx_of_def split: if_splits option.splits)

lemma reg_inv_remove:
  assumes "reg_inv s"
  shows "reg_inv (s\<lparr>rr_reg := (rr_reg s)\<lparr>entries := hm_remove n (entries (rr_reg s))\<rparr>\<rparr>)"
  using assms unfolding reg_inv_def by (auto split: if_splits)

lemma reg_step_issued_mono: "reg_step s s' \<Longrightarrow> length (rr_issued s) \<le> length (rr_issued s')"
  by (auto elim!: reg_stepE)

lemma reg_inv_step:
  assumes "reg_inv s" "reg_step s s'" "length (rr_issued s') < 2 ^ 64 - 1"
  shows "reg_inv s'"
  using assms(2)
proof (cases rule: reg_step.cases)
  case (connect n tx c reg')
  then show ?thesis using reg_inv_connect assms(1,3) by simp
next
  case (hello c b reg')
  then show ?thesis using reg_inv_hello assms(1) by blast
next
  case (disconnect c b reg')
  then show ?thesis using reg_inv_remove[OF assms(1), of "nc_node_id c"] assms(1)
    by (cases "is_active (rr_reg s) c") (auto simp: remove_if_active_def)
next
  case (revoke n)
  then show ?thesis using reg_inv_remove[OF assms(1)] by (simp add: remove_node_def)
qed

lemma reg_reachable_inv:
  "reg_reachable s \<Longrightarrow> length (rr_issued s) < 2 ^ 64 - 1 \<Longrightarrow> reg_inv s"
proof (induction rule: reg_reachable.induct)
  case start
  show ?case by (simp add: reg_inv_def registry_new_def)
next
  case (step s s')
  then show ?case using reg_step_issued_mono[OF step.hyps(2)] reg_inv_step[of s s'] by simp
qed

section \<open>Consequences\<close>

lemma issued_generation_inj:
  assumes "reg_inv s" "c \<in> set (rr_issued s)" "d \<in> set (rr_issued s)"
    "nc_generation c = nc_generation d"
  shows "c = d"
  using assms by (auto simp: reg_inv_def distinct_map inj_on_def)

lemma active_unique:
  assumes "reg_inv s" "c \<in> set (rr_issued s)" "d \<in> set (rr_issued s)"
    "is_active (rr_reg s) c" "is_active (rr_reg s) d" "nc_node_id c = nc_node_id d"
  shows "c = d"
  using issued_generation_inj[OF assms(1-3)] assms(4-6)
  by (auto simp: is_active_def split: option.splits)

lemma late_disconnect_active:
  assumes "reg_inv s" "c \<in> set (rr_issued s)" "d \<in> set (rr_issued s)" "c \<noteq> d"
    "is_active (rr_reg s) c"
  shows "is_active (snd (remove_if_active (rr_reg s) d)) c"
proof (cases "is_active (rr_reg s) d")
  case True
  then have "nc_node_id c \<noteq> nc_node_id d"
    using active_unique[OF assms(1-3) assms(5)] assms(4) by blast
  then show ?thesis using assms(5) True by (simp add: remove_if_active_def is_active_def)
next
  case False
  then show ?thesis using assms(5) by (simp add: remove_if_active_def)
qed

end
