(* ===== verification/Command_Journal.thy ===== *)
theory Command_Journal
  imports Core_Db Connection_Registry
begin

text \<open>
  The durable command journal and its dispatch outbox: \<open>record_command\<close> and
  \<open>record_turn_submission\<close> of \<open>persistence/event.rs\<close>, the dispatcher and the state updates of
  \<open>application/coordination.rs\<close>, and the bounded control channels commands are sent on.

  \<open>outbox_inv\<close> says that exactly the commands that are not in a terminal state wait in the
  outbox. Every operation of this theory keeps it; \<open>Node_Frames\<close> shows the same of the
  acknowledgement and result frames.
\<close>

section \<open>Control channels\<close>

definition CONTROL_QUEUE_CAPACITY :: nat where
  "CONTROL_QUEUE_CAPACITY = 256"

record channel =
  ch_queue :: "control_frame list"
  ch_closed :: bool

record terminal_entry =
  te_placement_id :: id
  te_state :: workspace_terminal_state
  te_exit_code :: "int option"
  te_updated_at :: time

datatype (plugins only: code size) terminal_notice = TO_Output id u64 string time
  | TO_Status id workspace_terminal_state "int option" "string option" time

text \<open>
  The process state of Core (\<open>AppState\<close>): the database, the connection registry, the
  bounded queues behind the senders, what has been broadcast on the event, command-result
  and terminal channels (in order), the waiters for command results and what they were
  given, the open terminals, and the counters.
\<close>

record core_state =
  co_db :: core_db
  co_registry :: connection_registry
  co_channels :: "(nat \<times> channel) list"
  co_published :: "event_envelope list"
  co_result_notices :: "(id \<times> command_state \<times> json) list"
  co_waiters :: "id list"
  co_waiter_replies :: "(id \<times> command_state \<times> json) list"
  co_terminals :: "(id \<times> terminal_entry) list"
  co_terminal_notices :: "terminal_notice list"
  co_accepted_events :: u64
  co_provider_truncations :: u64
  co_command_results :: u64
  co_pty_terminal_states :: u64
  co_control_queue_rejections :: u64

definition new_core :: "core_db \<Rightarrow> core_state" where
  "new_core db = \<lparr>co_db = db, co_registry = registry_new, co_channels = [], co_published = [],
     co_result_notices = [], co_waiters = [], co_waiter_replies = [], co_terminals = [],
     co_terminal_notices = [], co_accepted_events = 0, co_provider_truncations = 0,
     co_command_results = 0, co_pty_terminal_states = 0, co_control_queue_rejections = 0\<rparr>"

definition try_send :: "nat \<Rightarrow> control_frame \<Rightarrow> core_state \<Rightarrow> bool \<times> core_state" where
  "try_send tx frame st = (case hm_get (co_channels st) tx of
     None \<Rightarrow> (False, st)
   | Some ch \<Rightarrow> if ch_closed ch \<or> length (ch_queue ch) \<ge> CONTROL_QUEUE_CAPACITY then (False, st)
       else (True, st\<lparr>co_channels := hm_insert tx (ch\<lparr>ch_queue := ch_queue ch @ [frame]\<rparr>) (co_channels st)\<rparr>))"

definition send_control_frame :: "id \<Rightarrow> control_frame \<Rightarrow> core_state \<Rightarrow> bool \<times> core_state" where
  "send_control_frame node_id frame st = (case registry_sender (co_registry st) node_id of
     None \<Rightarrow> (False, st)
   | Some tx \<Rightarrow> (case try_send tx frame st of
       (True, st') \<Rightarrow> (True, st')
     | (False, st') \<Rightarrow> (False, st'\<lparr>co_control_queue_rejections := co_control_queue_rejections st' + 1\<rparr>)))"

section \<open>Recording\<close>

definition upsert_actor :: "actor_ref \<Rightarrow> time \<Rightarrow> core_db \<Rightarrow> core_db" where
  "upsert_actor actor seen_at db = (case actor_identity actor of (key, kind, name) \<Rightarrow>
     db\<lparr>db_actors := (if select_by ac_actor_key key (db_actors db) = None
        then db_actors db @ [\<lparr>ac_actor_key = key, ac_actor_kind = kind, ac_display_name = name,
               ac_actor_ref = actor, ac_first_seen_at = seen_at, ac_last_seen_at = seen_at\<rparr>]
        else update_where (\<lambda>r. ac_actor_key r = key)
               (\<lambda>r. r\<lparr>ac_actor_ref := actor, ac_display_name := name, ac_last_seen_at := seen_at\<rparr>)
               (db_actors db))\<rparr>)"

definition new_command_row :: "command_state \<Rightarrow> command_envelope \<Rightarrow> command_row" where
  "new_command_row st command = \<lparr>cm_command_id = ce_command_id command, cm_kind = ce_kind command,
     cm_state = st, cm_target_node_id = target_node_id (ce_target command),
     cm_session_thread_id = target_session_id (ce_target command),
     cm_runtime_session_id = target_runtime_id (ce_target command),
     cm_project_placement_id = target_placement_id (ce_target command),
     cm_result_payload = None, cm_command = command, cm_created_at = ce_issued_at command,
     cm_completed_at = None\<rparr>"

definition insert_command :: "command_state \<Rightarrow> command_envelope \<Rightarrow> core_db \<Rightarrow> app_error + core_db" where
  "insert_command st command db = and_then
     (ensure (find_command db (ce_command_id command) = None) Database)
     (\<lambda>_. Inr (db\<lparr>db_commands := db_commands db @ [new_command_row st command]\<rparr>))"

definition enqueue_dispatch :: "command_envelope \<Rightarrow> core_db \<Rightarrow> core_db" where
  "enqueue_dispatch command db =
     (if find_dispatch db (ce_command_id command) \<noteq> None then db
      else db\<lparr>db_dispatch_outbox := db_dispatch_outbox db @
        [\<lparr>dp_command_id = ce_command_id command, dp_target_node_id = target_node_id (ce_target command),
          dp_command = command, dp_attempts = 0, dp_enqueued_at = ce_issued_at command,
          dp_last_attempt_at = None\<rparr>]\<rparr>)"

definition record_command_on_connection :: "command_envelope \<Rightarrow> core_db \<Rightarrow> app_error + core_db" where
  "record_command_on_connection command db = and_then
     (ensure (command_matches_kind (ce_payload command) (ce_kind command))
       (BadRequest ''protocol.command_payload_mismatch''))
     (\<lambda>_. and_then (insert_command CS_Recorded command
              (upsert_actor (ce_actor_ref command) (ce_issued_at command) db))
       (\<lambda>db'. Inr (enqueue_dispatch command db')))"

definition record_command :: "command_envelope \<Rightarrow> core_db \<Rightarrow> app_error + core_db" where
  "record_command command db = record_command_on_connection command db"

definition insert_turn :: "turn_row \<Rightarrow> core_db \<Rightarrow> app_error + core_db" where
  "insert_turn t db = and_then (ensure
       (find_turn db (tn_turn_id t) = None
        \<and> find_session db (tn_session_thread_id t) \<noteq> None
        \<and> list_all (\<lambda>u. tn_command_id u \<noteq> tn_command_id t
             \<and> (tn_session_thread_id u, tn_turn_index u) \<noteq> (tn_session_thread_id t, tn_turn_index t))
             (db_turns db)) Database)
     (\<lambda>_. Inr (db\<lparr>db_turns := db_turns db @ [t]\<rparr>))"

definition insert_message :: "message_row \<Rightarrow> core_db \<Rightarrow> app_error + core_db" where
  "insert_message m db = and_then (ensure
       (select_by ms_message_id (ms_message_id m) (db_messages db) = None
        \<and> find_session db (ms_session_thread_id m) \<noteq> None
        \<and> (ms_source_event_id m \<noteq> None \<longrightarrow>
             list_all (\<lambda>n. ms_source_event_id n \<noteq> ms_source_event_id m) (db_messages db))) Database)
     (\<lambda>_. Inr (db\<lparr>db_messages := db_messages db @ [m]\<rparr>))"

definition turn_indices :: "id \<Rightarrow> core_db \<Rightarrow> int list" where
  "turn_indices session_id db =
     map tn_turn_index (filter (\<lambda>t. tn_session_thread_id t = session_id) (db_turns db))"

definition record_turn_submission ::
  "command_envelope \<Rightarrow> id \<Rightarrow> id \<Rightarrow> id \<Rightarrow> string \<Rightarrow> time \<Rightarrow> core_db \<Rightarrow> app_error + core_db" where
  "record_turn_submission command turn_id user_message_id session_id content now db =
     and_then (insert_command CS_PendingDispatch command
        (upsert_actor (ce_actor_ref command) (ce_issued_at command) db))
     (\<lambda>db1. let db2 = enqueue_dispatch command db1; turn_index = next_after (turn_indices session_id db2) in
     and_then (insert_turn \<lparr>tn_turn_id = turn_id, tn_session_thread_id = session_id,
        tn_command_id = ce_command_id command, tn_turn_index = turn_index, tn_state = TN_Created,
        tn_content = content, tn_blocked_approval_id = None, tn_created_at = now,
        tn_updated_at = now, tn_completed_at = None\<rparr> db2)
     (insert_message \<lparr>ms_message_id = user_message_id, ms_session_thread_id = session_id,
        ms_turn_id = Some turn_id, ms_role = MR_User, ms_content = content, ms_created_at = now,
        ms_completed_at = Some now, ms_source_event_id = None\<rparr>))"

section \<open>State updates\<close>

definition is_terminal_command_state :: "command_state \<Rightarrow> bool" where
  "is_terminal_command_state s \<longleftrightarrow> (case s of CS_Completed \<Rightarrow> True | CS_Failed \<Rightarrow> True
     | CS_Blocked \<Rightarrow> True | CS_Expired \<Rightarrow> True | _ \<Rightarrow> False)"

definition coalesce :: "'a option \<Rightarrow> 'a option \<Rightarrow> 'a option" where
  "coalesce a b = (case a of None \<Rightarrow> b | Some x \<Rightarrow> Some x)"

definition delete_dispatch :: "id \<Rightarrow> core_db \<Rightarrow> core_db" where
  "delete_dispatch command_id db =
     db\<lparr>db_dispatch_outbox := delete_where (\<lambda>r. dp_command_id r = command_id) (db_dispatch_outbox db)\<rparr>"

definition assign_command_state :: "command_state \<Rightarrow> time option \<Rightarrow> command_row \<Rightarrow> command_row" where
  "assign_command_state st completed_at r =
     r\<lparr>cm_state := st, cm_completed_at := coalesce completed_at (cm_completed_at r)\<rparr>"

definition update_command_state :: "id \<Rightarrow> command_state \<Rightarrow> time \<Rightarrow> core_db \<Rightarrow> core_db" where
  "update_command_state command_id command_state now db =
     (let completed_at = (if is_terminal_command_state command_state then Some now else None);
          db1 = db\<lparr>db_commands := update_where (\<lambda>r. cm_command_id r = command_id)
                  (assign_command_state command_state completed_at) (db_commands db)\<rparr>
      in if completed_at \<noteq> None then delete_dispatch command_id db1 else db1)"

definition assign_command_result :: "command_state \<Rightarrow> time option \<Rightarrow> json \<Rightarrow> command_row \<Rightarrow> command_row" where
  "assign_command_result st completed_at payload r = (assign_command_state st completed_at r)
     \<lparr>cm_result_payload := Some payload\<rparr>"

definition update_command_result :: "id \<Rightarrow> command_state \<Rightarrow> json \<Rightarrow> time \<Rightarrow> core_db \<Rightarrow> core_db" where
  "update_command_result command_id command_state result_payload now db =
     (let completed_at = (if is_terminal_command_state command_state then Some now else None);
          db1 = db\<lparr>db_commands := update_where (\<lambda>r. cm_command_id r = command_id)
                  (assign_command_result command_state completed_at result_payload) (db_commands db)\<rparr>
      in if is_terminal_command_state command_state then delete_dispatch command_id db1 else db1)"

section \<open>Dispatch\<close>

definition pending_rows :: "id \<Rightarrow> core_db \<Rightarrow> dispatch_row list" where
  "pending_rows node_id db = sort_key (\<lambda>r. (dp_enqueued_at r, dp_command_id r))
     (filter (\<lambda>row. dp_target_node_id row = node_id
        \<and> (case find_command db (dp_command_id row) of None \<Rightarrow> False
           | Some c \<Rightarrow> cm_state c \<in> {CS_Recorded, CS_PendingDispatch, CS_Dispatched, CS_Acknowledged}))
       (db_dispatch_outbox db))"

definition dispatch_frame :: "(id \<Rightarrow> string) \<Rightarrow> time \<Rightarrow> dispatch_row \<Rightarrow> control_frame" where
  "dispatch_frame frame_id now row = CF_CommandDispatch
     \<lparr>fm_frame_id = frame_id (dp_command_id row), fm_protocol_version = CURRENT_PROTOCOL_VERSION,
      fm_sent_at = now\<rparr> (dp_command row)"

definition mark_attempt :: "id \<Rightarrow> time \<Rightarrow> core_db \<Rightarrow> core_db" where
  "mark_attempt command_id now db = db\<lparr>db_dispatch_outbox :=
     update_where (\<lambda>r. dp_command_id r = command_id)
       (\<lambda>r. r\<lparr>dp_attempts := Suc (dp_attempts r), dp_last_attempt_at := Some now\<rparr>) (db_dispatch_outbox db)\<rparr>"

definition dispatch_row_step ::
  "(id \<Rightarrow> string) \<Rightarrow> time \<Rightarrow> nat \<Rightarrow> dispatch_row \<Rightarrow> core_state \<Rightarrow> core_state" where
  "dispatch_row_step frame_id now tx row st =
     (case try_send tx (dispatch_frame frame_id now row) st of
        (False, st') \<Rightarrow> st'
      | (True, st') \<Rightarrow> st'\<lparr>co_db := update_command_state (dp_command_id row) CS_Dispatched now
            (mark_attempt (dp_command_id row) now (co_db st'))\<rparr>)"

definition dispatch_pending_commands ::
  "(id \<Rightarrow> string) \<Rightarrow> time \<Rightarrow> id \<Rightarrow> core_state \<Rightarrow> core_state" where
  "dispatch_pending_commands frame_id now node_id st =
     (let rows = pending_rows node_id (co_db st) in
      case registry_sender (co_registry st) node_id of
        None \<Rightarrow> st
      | Some tx \<Rightarrow> fold (dispatch_row_step frame_id now tx) rows st)"

definition record_and_dispatch_command ::
  "(id \<Rightarrow> string) \<Rightarrow> time \<Rightarrow> command_envelope \<Rightarrow> core_state \<Rightarrow> app_error + core_state" where
  "record_and_dispatch_command frame_id now command st =
     and_then (record_command command (co_db st)) (\<lambda>db.
       Inr (dispatch_pending_commands frame_id now (target_node_id (ce_target command))
         (st\<lparr>co_db := update_command_state (ce_command_id command) CS_PendingDispatch now db\<rparr>)))"

definition should_open_control_channel :: "id \<Rightarrow> core_state \<Rightarrow> bool" where
  "should_open_control_channel node_id st =
     (if registry_contains (co_registry st) node_id then False
      else rows_affected (\<lambda>c. cm_target_node_id c = node_id
             \<and> cm_state c \<in> {CS_Recorded, CS_PendingDispatch, CS_Dispatched, CS_Acknowledged})
             (db_commands (co_db st)) > 0
         \<or> rows_affected (\<lambda>d. dy_node_id d = node_id \<and> dy_desired_enabled d) (db_dependencies (co_db st)) > 0)"

section \<open>Look-ups after updates\<close>

interpretation cmd_state: keyed_update cm_command_id "assign_command_state st t" for st t
  by unfold_locales (simp add: assign_command_state_def)

interpretation cmd_result: keyed_update cm_command_id "assign_command_result st t p" for st t p
  by unfold_locales (simp add: assign_command_result_def assign_command_state_def)

interpretation attempt: keyed_update dp_command_id
  "\<lambda>r. r\<lparr>dp_attempts := Suc (dp_attempts r), dp_last_attempt_at := Some now\<rparr>" for now
  by unfold_locales simp

lemma find_command_update_state [table_simps]:
  "find_command (update_command_state c st now db) k =
   (if k = c then map_option (assign_command_state st
        (if is_terminal_command_state st then Some now else None)) (find_command db k)
    else find_command db k)"
  by (simp add: update_command_state_def delete_dispatch_def Let_def cmd_state.select_update_at)

lemma find_dispatch_update_state [table_simps]:
  "find_dispatch (update_command_state c st now db) k =
   (if k = c \<and> is_terminal_command_state st then None else find_dispatch db k)"
  by (simp add: update_command_state_def delete_dispatch_def Let_def select_delete_key)

lemma find_command_update_result [table_simps]:
  "find_command (update_command_result c st p now db) k =
   (if k = c then map_option (assign_command_result st
        (if is_terminal_command_state st then Some now else None) p) (find_command db k)
    else find_command db k)"
  by (simp add: update_command_result_def delete_dispatch_def Let_def cmd_result.select_update_at)

lemma find_dispatch_update_result [table_simps]:
  "find_dispatch (update_command_result c st p now db) k =
   (if k = c \<and> is_terminal_command_state st then None else find_dispatch db k)"
  by (simp add: update_command_result_def delete_dispatch_def Let_def select_delete_key)

lemma find_command_mark_attempt [table_simps]:
  "find_command (mark_attempt c now db) k = find_command db k"
  by (simp add: mark_attempt_def)

lemma find_dispatch_mark_attempt [table_simps]:
  "(find_dispatch (mark_attempt c now db) k = None) = (find_dispatch db k = None)"
  by (simp add: mark_attempt_def attempt.select_update_at)

lemma upsert_actor_frame [simp]:
  "db_commands (upsert_actor a t db) = db_commands db"
  "db_dispatch_outbox (upsert_actor a t db) = db_dispatch_outbox db"
  "db_events (upsert_actor a t db) = db_events db"
  "db_sessions (upsert_actor a t db) = db_sessions db"
  "db_runtimes (upsert_actor a t db) = db_runtimes db"
  "db_turns (upsert_actor a t db) = db_turns db"
  "db_messages (upsert_actor a t db) = db_messages db"
  "db_approvals (upsert_actor a t db) = db_approvals db"
  "db_placements (upsert_actor a t db) = db_placements db"
  "db_task_runs (upsert_actor a t db) = db_task_runs db"
  "db_publication_outbox (upsert_actor a t db) = db_publication_outbox db"
  by (simp_all add: upsert_actor_def split: prod.splits)

section \<open>The outbox invariant\<close>

definition waiting :: "core_db \<Rightarrow> id \<Rightarrow> bool" where
  "waiting db c = (case find_command db c of None \<Rightarrow> False
     | Some r \<Rightarrow> \<not> is_terminal_command_state (cm_state r))"

definition outbox_inv :: "core_db \<Rightarrow> bool" where
  "outbox_inv db \<longleftrightarrow> (\<forall>c. find_dispatch db c \<noteq> None \<longleftrightarrow> waiting db c)"

lemma outbox_invD: "outbox_inv db \<Longrightarrow> (find_dispatch db c \<noteq> None) = waiting db c"
  by (simp add: outbox_inv_def)

lemma waiting_update_state:
  "waiting (update_command_state c st now db) k =
   (if k = c then find_command db k \<noteq> None \<and> \<not> is_terminal_command_state st else waiting db k)"
  by (auto simp: waiting_def table_simps assign_command_state_def split: option.splits)

lemma outbox_inv_update_state:
  assumes "outbox_inv db" "waiting db c \<or> is_terminal_command_state st"
  shows "outbox_inv (update_command_state c st now db)"
  using assms unfolding outbox_inv_def waiting_update_state find_dispatch_update_state
  by (auto simp: waiting_def split: option.splits if_splits)

lemma waiting_update_result:
  "waiting (update_command_result c st p now db) k =
   (if k = c then find_command db k \<noteq> None \<and> \<not> is_terminal_command_state st else waiting db k)"
  by (auto simp: waiting_def table_simps assign_command_result_def assign_command_state_def split: option.splits)

lemma outbox_inv_update_result:
  assumes "outbox_inv db" "waiting db c \<or> is_terminal_command_state st"
  shows "outbox_inv (update_command_result c st p now db)"
  using assms unfolding outbox_inv_def waiting_update_result find_dispatch_update_result
  by (auto simp: waiting_def split: option.splits if_splits)

lemma outbox_inv_mark_attempt: "outbox_inv (mark_attempt c now db) = outbox_inv db"
  by (simp add: outbox_inv_def waiting_def table_simps)

lemma find_command_insert:
  assumes "insert_command st command db = Inr db'"
  shows "find_command db' k = (if k = ce_command_id command then Some (new_command_row st command)
     else find_command db k)" "db_dispatch_outbox db' = db_dispatch_outbox db"
  using assms
  by (auto simp: insert_command_def result_simps select_by_append new_command_row_def split: option.splits)

lemma find_dispatch_enqueue:
  "(find_dispatch (enqueue_dispatch command db) k \<noteq> None) \<longleftrightarrow>
   (find_dispatch db k \<noteq> None \<or> k = ce_command_id command)"
  by (auto simp: enqueue_dispatch_def select_by_append split: option.splits)

lemma enqueue_dispatch_commands [simp]:
  "db_commands (enqueue_dispatch command db) = db_commands db"
  "db_sessions (enqueue_dispatch command db) = db_sessions db"
  "db_turns (enqueue_dispatch command db) = db_turns db"
  "db_messages (enqueue_dispatch command db) = db_messages db"
  by (simp_all add: enqueue_dispatch_def)

lemma outbox_inv_insert:
  assumes inv: "outbox_inv db" and ins: "insert_command st command db = Inr db'"
    and st: "\<not> is_terminal_command_state st"
  shows "outbox_inv (enqueue_dispatch command db')"
  using assms unfolding outbox_inv_def find_dispatch_enqueue
  by (auto simp: waiting_def find_command_insert[OF ins] new_command_row_def split: option.splits)

lemma insert_command_upsert:
  "insert_command st command (upsert_actor a t db) = Inr db' \<Longrightarrow> outbox_inv db \<Longrightarrow>
   \<not> is_terminal_command_state st \<Longrightarrow> outbox_inv (enqueue_dispatch command db')"
  by (rule outbox_inv_insert[of "upsert_actor a t db"]) (auto simp: outbox_inv_def waiting_def)

lemma outbox_inv_record_command:
  assumes "outbox_inv db" "record_command_on_connection command db = Inr db'"
  shows "outbox_inv db'"
  using assms insert_command_upsert[of CS_Recorded command _ _ db]
  by (auto simp: record_command_on_connection_def result_simps is_terminal_command_state_def)

lemma record_command_row:
  assumes "record_command_on_connection command db = Inr db'"
  shows "find_command db' (ce_command_id command) = Some (new_command_row CS_Recorded command)"
  using assms find_command_insert(1)
  by (fastforce simp: record_command_on_connection_def result_simps)

lemma outbox_inv_cong:
  "db_commands db' = db_commands db \<Longrightarrow> db_dispatch_outbox db' = db_dispatch_outbox db \<Longrightarrow>
   outbox_inv db' = outbox_inv db"
  by (simp add: outbox_inv_def waiting_def)

lemma outbox_inv_record_turn:
  assumes "outbox_inv db"
    "record_turn_submission command turn_id msg_id session_id content now db = Inr db'"
  shows "outbox_inv db'"
proof -
  from assms(2) obtain db1 where
    1: "insert_command CS_PendingDispatch command
          (upsert_actor (ce_actor_ref command) (ce_issued_at command) db) = Inr db1"
    and 2: "db_commands db' = db_commands (enqueue_dispatch command db1)"
    "db_dispatch_outbox db' = db_dispatch_outbox (enqueue_dispatch command db1)"
    by (auto simp: record_turn_submission_def result_simps Let_def insert_turn_def insert_message_def)
  show ?thesis
    using insert_command_upsert[OF 1 assms(1)] outbox_inv_cong[OF 2]
    by (simp add: is_terminal_command_state_def)
qed

section \<open>Dispatch keeps the invariant and delivers in order\<close>

lemma waiting_states:
  "\<not> is_terminal_command_state s \<longleftrightarrow> s \<in> {CS_Recorded, CS_PendingDispatch, CS_Dispatched, CS_Acknowledged}"
  by (cases s) (simp_all add: is_terminal_command_state_def)

lemma set_pending_rows:
  "row \<in> set (pending_rows n db) \<longleftrightarrow>
   row \<in> set (db_dispatch_outbox db) \<and> dp_target_node_id row = n \<and> waiting db (dp_command_id row)"
  by (auto simp: pending_rows_def waiting_def waiting_states split: option.splits)

lemma try_send_db [simp]: "co_db (snd (try_send tx f st)) = co_db st"
  and try_send_registry [simp]: "co_registry (snd (try_send tx f st)) = co_registry st"
  by (simp_all add: try_send_def split: option.splits)

lemma dispatch_row_step_db:
  "co_db (dispatch_row_step fid now tx row st) =
   (if fst (try_send tx (dispatch_frame fid now row) st)
    then update_command_state (dp_command_id row) CS_Dispatched now
           (mark_attempt (dp_command_id row) now (co_db st))
    else co_db st)"
  using try_send_db[of tx "dispatch_frame fid now row" st]
  by (cases "try_send tx (dispatch_frame fid now row) st")
    (auto simp: dispatch_row_step_def split: bool.splits)

lemma dispatch_row_step_inv:
  assumes "outbox_inv (co_db st)" "waiting (co_db st) (dp_command_id row)"
  shows "outbox_inv (co_db (dispatch_row_step fid now tx row st))"
    and "waiting (co_db (dispatch_row_step fid now tx row st)) k = waiting (co_db st) k"
proof -
  let ?db = "mark_attempt (dp_command_id row) now (co_db st)"
  have w: "waiting ?db = waiting (co_db st)" by (simp add: waiting_def table_simps fun_eq_iff)
  then have "outbox_inv (update_command_state (dp_command_id row) CS_Dispatched now ?db)"
    using assms by (intro outbox_inv_update_state) (simp_all add: outbox_inv_mark_attempt)
  then show "outbox_inv (co_db (dispatch_row_step fid now tx row st))"
    using assms(1) by (simp add: dispatch_row_step_db)
  have "waiting (update_command_state (dp_command_id row) CS_Dispatched now ?db) k = waiting ?db k"
    using assms(2) unfolding waiting_update_state
    by (auto simp: is_terminal_command_state_def table_simps waiting_def split: option.splits)
  then show "waiting (co_db (dispatch_row_step fid now tx row st)) k = waiting (co_db st) k"
    using w by (simp add: dispatch_row_step_db)
qed

lemma dispatch_fold_inv:
  assumes "outbox_inv (co_db st)" "\<forall>row\<in>set rows. waiting (co_db st) (dp_command_id row)"
  shows "outbox_inv (co_db (fold (dispatch_row_step fid now tx) rows st))
    \<and> (\<forall>k. waiting (co_db (fold (dispatch_row_step fid now tx) rows st)) k = waiting (co_db st) k)"
  using assms
proof (induction rows arbitrary: st)
  case (Cons row rows)
  then show ?case using dispatch_row_step_inv[of st row] by simp
qed simp

lemma dispatch_inv:
  assumes "outbox_inv (co_db st)"
  shows "outbox_inv (co_db (dispatch_pending_commands fid now n st))"
    and "waiting (co_db (dispatch_pending_commands fid now n st)) k = waiting (co_db st) k"
  using assms dispatch_fold_inv[OF assms, of "pending_rows n (co_db st)"]
  by (auto simp: dispatch_pending_commands_def Let_def set_pending_rows split: option.splits)

lemma dispatch_row_step_other:
  "k \<noteq> dp_command_id row \<Longrightarrow>
   find_command (co_db (dispatch_row_step fid now tx row st)) k = find_command (co_db st) k"
  by (simp add: dispatch_row_step_db table_simps)

lemma dispatch_fold_other:
  "k \<notin> dp_command_id ` set rows \<Longrightarrow>
   find_command (co_db (fold (dispatch_row_step fid now tx) rows st)) k = find_command (co_db st) k"
  by (induction rows arbitrary: st) (simp_all add: dispatch_row_step_other)

text \<open>A command the dispatcher does not find waiting keeps its row.\<close>

lemma dispatch_terminal_frame:
  "\<not> waiting (co_db st) k \<Longrightarrow>
   find_command (co_db (dispatch_pending_commands fid now n st)) k = find_command (co_db st) k"
  by (auto simp: dispatch_pending_commands_def Let_def set_pending_rows intro!: dispatch_fold_other
      split: option.splits)

lemma try_send_room:
  assumes "hm_get (co_channels st) tx = Some ch" "\<not> ch_closed ch"
    "length (ch_queue ch) < CONTROL_QUEUE_CAPACITY"
  shows "try_send tx f st = (True, st\<lparr>co_channels :=
     hm_insert tx (ch\<lparr>ch_queue := ch_queue ch @ [f]\<rparr>) (co_channels st)\<rparr>)"
  using assms by (simp add: try_send_def)

lemma dispatch_row_step_room:
  assumes "hm_get (co_channels st) tx = Some ch" "\<not> ch_closed ch"
    "length (ch_queue ch) < CONTROL_QUEUE_CAPACITY"
  shows "hm_get (co_channels (dispatch_row_step fid now tx row st)) tx =
      Some (ch\<lparr>ch_queue := ch_queue ch @ [dispatch_frame fid now row]\<rparr>)"
    and "map_option cm_state (find_command (co_db (dispatch_row_step fid now tx row st)) k) =
      (if k = dp_command_id row then map_option (\<lambda>_. CS_Dispatched) (find_command (co_db st) k)
       else map_option cm_state (find_command (co_db st) k))"
  using try_send_room[OF assms, of "dispatch_frame fid now row"]
  by (simp_all add: dispatch_row_step_def table_simps option.map_comp comp_def assign_command_state_def)

lemma dispatch_fold_room:
  assumes "hm_get (co_channels st) tx = Some ch" "\<not> ch_closed ch"
    "length (ch_queue ch) + length rows \<le> CONTROL_QUEUE_CAPACITY"
  shows "hm_get (co_channels (fold (dispatch_row_step fid now tx) rows st)) tx =
      Some (ch\<lparr>ch_queue := ch_queue ch @ map (dispatch_frame fid now) rows\<rparr>)
    \<and> (\<forall>k. map_option cm_state (find_command (co_db (fold (dispatch_row_step fid now tx) rows st)) k) =
        (if k \<in> dp_command_id ` set rows then map_option (\<lambda>_. CS_Dispatched) (find_command (co_db st) k)
         else map_option cm_state (find_command (co_db st) k)))"
  using assms
proof (induction rows arbitrary: st ch)
  case (Cons row rows)
  let ?st = "dispatch_row_step fid now tx row st"
  let ?ch = "ch\<lparr>ch_queue := ch_queue ch @ [dispatch_frame fid now row]\<rparr>"
  have room: "length (ch_queue ch) < CONTROL_QUEUE_CAPACITY" using Cons.prems(3) by simp
  note step = dispatch_row_step_room[OF Cons.prems(1,2) room, where fid = fid and now = now and row = row]
  have ne: "(find_command (co_db ?st) k = None) = (find_command (co_db st) k = None)" for k
    using step(2)[of k] by (cases "k = dp_command_id row") (auto dest: arg_cong[where f = "\<lambda>x. x = None"])
  have cst: "map_option (\<lambda>_. CS_Dispatched) (find_command (co_db ?st) k)
      = map_option (\<lambda>_. CS_Dispatched) (find_command (co_db st) k)" for k
    using ne[of k] by (cases "find_command (co_db ?st) k"; cases "find_command (co_db st) k") auto
  show ?case using Cons.IH[OF step(1)] Cons.prems(2,3) step(2) cst by auto
qed simp

end
