(* ===== verification/Task_Projection.thy ===== *)
theory Task_Projection
  imports Core_Db
begin

text \<open>
  The state machine of a Task Run as Core sees it (\<open>application/task.rs\<close>): the projection of
  \<open>task_run.state_changed\<close> events, the projection of the result of a \<open>RunTask\<close> command and
  the validation of immutable revisions. \<open>decode\<close> stands for
  \<open>serde_json::from_value::<TaskRunResultPackage>\<close>.

  The locale \<open>absorbing\<close> is the contract of a guarded state update: rows in a final state
  are left alone. It is interpreted here for the event projection.
\<close>

section \<open>Guarded updates\<close>

locale absorbing =
  fixes final :: "'s \<Rightarrow> bool" and state_of :: "'r \<Rightarrow> 's" and step :: "'e \<Rightarrow> 'r \<Rightarrow> 'r"
  assumes final_fixed: "final (state_of r) \<Longrightarrow> step e r = r"
begin

lemma final_forever: "final (state_of r) \<Longrightarrow> fold step es r = r"
  by (induction es arbitrary: r) (simp_all add: final_fixed)

text \<open>The first event that reaches a final state decides the outcome.\<close>

lemma first_final_wins: "final (state_of (step e r)) \<Longrightarrow> fold step (e # es) r = step e r"
  by (simp add: final_forever)

lemma final_keeps_state: "final (state_of r) \<Longrightarrow> state_of (fold step es r) = state_of r"
  by (simp add: final_forever)

end

section \<open>Revisions\<close>

definition validate_immutable_revision :: "string \<Rightarrow> app_error + unit" where
  "validate_immutable_revision revision =
     ensure (40 \<le> utf8_len revision \<and> utf8_len revision \<le> 64 \<and> list_all is_ascii_hexdigit revision)
       (BadRequest ''task_run.mutable_base_revision'')"

section \<open>State texts\<close>

text \<open>\<open>parse_task_state\<close> and \<open>parse_task_cleanup_state\<close> deserialize the snake-case names.\<close>

definition parse_task_state :: "string \<Rightarrow> app_error + task_run_state" where
  "parse_task_state v = ok_or (find (\<lambda>s. task_run_state_name s = v)
     [TS_Queued, TS_PreparingWorkspace, TS_StartingRuntime, TS_Running, TS_Checking,
      TS_CollectingEvidence, TS_Succeeded, TS_Failed, TS_Cancelling, TS_Cancelled, TS_TimedOut])
     Serialization"

definition parse_task_cleanup_state :: "string \<Rightarrow> app_error + task_cleanup_state" where
  "parse_task_cleanup_state v = ok_or (find (\<lambda>s. task_cleanup_state_name s = v)
     [TC_Pending, TC_Completed, TC_Failed]) Serialization"

lemma parse_task_state_name: "parse_task_state (task_run_state_name s) = Inr s"
  by (cases s) (simp_all add: parse_task_state_def)

lemma parse_task_cleanup_state_name: "parse_task_cleanup_state (task_cleanup_state_name s) = Inr s"
  by (cases s) (simp_all add: parse_task_cleanup_state_def)

section \<open>Event projection\<close>

text \<open>
  The columns \<open>state\<close> and \<open>cleanup_state\<close> have \<open>check\<close> constraints on their texts, so a text
  that is no state name is a database error.
\<close>

definition task_event_guard :: "task_run_state \<Rightarrow> task_run_state \<Rightarrow> bool" where
  "task_event_guard current new \<longleftrightarrow> \<not> is_terminal current \<and> (current \<noteq> TS_Cancelling \<or> is_terminal new)"

definition task_started :: "task_run_state \<Rightarrow> bool" where
  "task_started s \<longleftrightarrow> s \<in> {TS_PreparingWorkspace, TS_StartingRuntime, TS_Running, TS_Checking, TS_CollectingEvidence}"

definition apply_task_event :: "task_run_state \<times> task_cleanup_state \<times> time \<Rightarrow> task_row \<Rightarrow> task_row" where
  "apply_task_event e r = (case e of (st, cleanup, happened_at) \<Rightarrow>
     if task_event_guard (tr_state r) st then
       r\<lparr>tr_state := st, tr_cleanup_state := cleanup,
         tr_started_at := (if task_started st then
            (case tr_started_at r of None \<Rightarrow> Some happened_at | Some t \<Rightarrow> Some t) else tr_started_at r),
         tr_updated_at := happened_at\<rparr>
     else r)"

definition check_column :: "app_error + 'a \<Rightarrow> app_error + 'a" where
  "check_column r = (case r of Inl _ \<Rightarrow> Inl Database | Inr x \<Rightarrow> Inr x)"

lemma check_column_Inr [simp]: "check_column (Inr x) = Inr x"
  by (simp add: check_column_def)

definition project_task_event_on_connection :: "event_envelope \<Rightarrow> core_db \<Rightarrow> app_error + core_db" where
  "project_task_event_on_connection event db =
     (if ev_kind event \<noteq> EK_TaskRunStateChanged then Inr db
      else and_then (ok_or (payload_str (ev_payload event) ''task_run_id'')
                (BadRequest ''task_run.event_missing_id'')) (\<lambda>task_run_id.
           and_then (ok_or (payload_str (ev_payload event) ''state'')
                (BadRequest ''task_run.event_missing_state'')) (\<lambda>state_text.
           let cleanup_text = (case payload_str (ev_payload event) ''cleanup_state'' of
                 Some c \<Rightarrow> c | None \<Rightarrow> ''pending'') in
           and_then (check_column (parse_task_state state_text)) (\<lambda>st.
           and_then (check_column (parse_task_cleanup_state cleanup_text)) (\<lambda>cleanup.
             Inr (db\<lparr>db_task_runs := update_where (\<lambda>r. tr_task_run_id r = task_run_id)
                   (apply_task_event (st, cleanup, ev_happened_at event)) (db_task_runs db)\<rparr>))))))"

interpretation task_events: absorbing is_terminal tr_state apply_task_event
  by unfold_locales (simp add: apply_task_event_def task_event_guard_def split: prod.splits)

interpretation task_key: keyed_update tr_task_run_id "apply_task_event e" for e
  by unfold_locales (simp add: apply_task_event_def split: prod.splits)

lemma payload_task_event [simp]:
  "payload_str (EP_TaskRunStateChanged t st c m) ''task_run_id'' = Some t"
  "payload_str (EP_TaskRunStateChanged t st c m) ''state'' = Some (task_run_state_name st)"
  "payload_str (EP_TaskRunStateChanged t st c m) ''cleanup_state'' = Some (task_cleanup_state_name c)"
  by (simp_all add: payload_str_def payload_get_def payload_members_def member_as_str_def)

text \<open>On a well-typed event the projection is total and is the guarded update of one row.\<close>

lemma project_task_event_typed:
  assumes "ev_kind event = EK_TaskRunStateChanged" "ev_payload event = EP_TaskRunStateChanged t st c m"
  shows "project_task_event_on_connection event db = Inr (db\<lparr>db_task_runs :=
     update_where (\<lambda>r. tr_task_run_id r = t) (apply_task_event (st, c, ev_happened_at event)) (db_task_runs db)\<rparr>)"
  using assms by (simp add: project_task_event_on_connection_def Let_def parse_task_state_name
      parse_task_cleanup_state_name)

lemma project_task_event_frame:
  "project_task_event_on_connection event db = Inr db' \<Longrightarrow> db' = db\<lparr>db_task_runs := db_task_runs db'\<rparr>"
  by (auto simp: project_task_event_on_connection_def result_simps Let_def split: if_splits)

section \<open>Command results\<close>

definition task_result_contract ::
  "command_state \<Rightarrow> task_run_spec \<Rightarrow> task_run_result_package \<Rightarrow> bool" where
  "task_result_contract status spec result \<longleftrightarrow> \<not> (status \<noteq> CS_Completed
     \<or> \<not> is_terminal (trp_state result)
     \<or> trp_task_run_id result \<noteq> trs_task_run_id spec
     \<or> trp_base_revision result \<noteq> trs_base_revision spec
     \<or> trp_branch result \<noteq> trs_branch spec
     \<or> trp_runtime_image result \<noteq> trs_runtime_image spec
     \<or> (case trp_final_revision result of None \<Rightarrow> False
        | Some r \<Rightarrow> \<not> is_ok (validate_immutable_revision r)))"

definition apply_task_result :: "task_run_result_package \<Rightarrow> time \<Rightarrow> task_row \<Rightarrow> task_row" where
  "apply_task_result result now r = r\<lparr>tr_state := trp_state result,
     tr_cleanup_state := trp_cleanup_state result, tr_worktree_path := Some (trp_worktree_path result),
     tr_result := Some result, tr_summary := Some (trp_summary result),
     tr_terminal_code := map_option smf_code (trp_terminal_reason result),
     tr_terminal_message := map_option smf_message (trp_terminal_reason result),
     tr_started_at := (case tr_started_at r of None \<Rightarrow> Some now | Some t \<Rightarrow> Some t),
     tr_finished_at := Some now, tr_updated_at := now\<rparr>"

definition apply_task_failure :: "string \<Rightarrow> string \<Rightarrow> time \<Rightarrow> task_row \<Rightarrow> task_row" where
  "apply_task_failure code message now r = r\<lparr>tr_state := TS_Failed, tr_terminal_code := Some code,
     tr_terminal_message := Some message, tr_finished_at := Some now, tr_updated_at := now\<rparr>"

definition or_default :: "'a option \<Rightarrow> 'a \<Rightarrow> 'a" where
  "or_default x d = (case x of None \<Rightarrow> d | Some v \<Rightarrow> v)"

definition run_task_spec :: "command_payload \<Rightarrow> task_run_spec option" where
  "run_task_spec p = (case p of CP_RunTask _ spec \<Rightarrow> Some spec | _ \<Rightarrow> None)"

definition project_task_command_result ::
  "(json \<Rightarrow> task_run_result_package option) \<Rightarrow> id \<Rightarrow> command_state \<Rightarrow> json \<Rightarrow> time \<Rightarrow> core_db
   \<Rightarrow> app_error + core_db" where
  "project_task_command_result decode command_id status payload now db =
     (case find_command db command_id of
        None \<Rightarrow> Inr db
      | Some row \<Rightarrow> (case run_task_spec (ce_payload (cm_command row)) of
          None \<Rightarrow> Inr db
        | Some spec \<Rightarrow> (case decode payload of
              Some result \<Rightarrow> and_then (ensure (task_result_contract status spec result)
                    (BadRequest ''task_run.result_contract_mismatch''))
                  (\<lambda>_. Inr (db\<lparr>db_task_runs := update_where (\<lambda>r. tr_task_run_id r = trs_task_run_id spec)
                        (apply_task_result result now) (db_task_runs db)\<rparr>))
            | None \<Rightarrow> if status = CS_Failed then
                  Inr (db\<lparr>db_task_runs := update_where (\<lambda>r. tr_task_run_id r = trs_task_run_id spec)
                        (apply_task_failure
                           (or_default (json_get_str payload ''error_code'') ''task_run.execution_failed'')
                           (or_default (json_get_str payload ''message'')
                              ''Task Run command failed before evidence was produced'') now)
                        (db_task_runs db)\<rparr>)
                else Inr db)))"

interpretation task_result_key: keyed_update tr_task_run_id "apply_task_result result now" for result now
  by unfold_locales (simp add: apply_task_result_def)

interpretation task_failure_key: keyed_update tr_task_run_id "apply_task_failure code m now" for code m now
  by unfold_locales (simp add: apply_task_failure_def)

lemma project_task_command_result_frame:
  "project_task_command_result decode c st p now db = Inr db' \<Longrightarrow>
   db' = db\<lparr>db_task_runs := db_task_runs db'\<rparr>"
  by (auto simp: project_task_command_result_def result_simps split: option.splits if_splits)

text \<open>
  A result that is projected ends the run, and the run keeps the revision, branch and image
  it was dispatched with.
\<close>

lemma project_task_command_result_row:
  assumes "find_command db c = Some row" "run_task_spec (ce_payload (cm_command row)) = Some spec"
    "decode p = Some result" "project_task_command_result decode c st p now db = Inr db'"
    "find_task db (trs_task_run_id spec) = Some t"
  shows "find_task db' (trs_task_run_id spec) = Some (apply_task_result result now t)"
    and "task_result_contract st spec result"
  using assms by (auto simp: project_task_command_result_def result_simps task_result_key.select_update_at)

lemma is_terminal_iff: "is_terminal s \<longleftrightarrow> s \<in> {TS_Succeeded, TS_Failed, TS_Cancelled, TS_TimedOut}"
  by (cases s) (simp_all add: is_terminal_def)

end
