(* ===== verification/Delivery.thy ===== *)
theory Delivery
  imports Uprava_Prelude
begin

text \<open>
  The interface between a source that delivers at least once and a sink that remembers what
  it has accepted. \<open>idempotent_sink\<close> states what a sink promises; from it follows that
  redelivering accepted items, in any order and any number of times, changes nothing.
  \<open>Event_Ingest\<close> interprets it with Core's event transaction; the root theory composes it
  with the event outbox of the Node.
\<close>

locale idempotent_sink =
  fixes inv :: "'s \<Rightarrow> bool" and wf :: "'e \<Rightarrow> bool" and key :: "'e \<Rightarrow> 'k"
    and known :: "'s \<Rightarrow> 'k \<Rightarrow> bool" and accept :: "'e \<Rightarrow> 's \<Rightarrow> 'x + 's"
  assumes inv_accept: "inv s \<Longrightarrow> accept e s = Inr s' \<Longrightarrow> inv s'"
    and accept_wf: "inv s \<Longrightarrow> accept e s = Inr s' \<Longrightarrow> wf e"
    and accept_known: "inv s \<Longrightarrow> accept e s = Inr s' \<Longrightarrow> known s' (key e)"
    and known_mono: "inv s \<Longrightarrow> accept e s = Inr s' \<Longrightarrow> known s k \<Longrightarrow> known s' k"
    and accept_dup: "inv s \<Longrightarrow> wf e \<Longrightarrow> known s (key e) \<Longrightarrow> accept e s = Inr s"
begin

lemma inv_batch: "inv s \<Longrightarrow> try_fold accept es s = Inr s' \<Longrightarrow> inv s'"
  by (induction es arbitrary: s) (auto simp: result_simps dest: inv_accept)

lemma known_batch: "inv s \<Longrightarrow> try_fold accept es s = Inr s' \<Longrightarrow> known s k \<Longrightarrow> known s' k"
proof (induction es arbitrary: s)
  case (Cons e es)
  then show ?case by (auto simp: result_simps dest: inv_accept known_mono)
qed simp

lemma batch_known:
  "inv s \<Longrightarrow> try_fold accept es s = Inr s' \<Longrightarrow> e \<in> set es \<Longrightarrow> wf e \<and> known s' (key e)"
proof (induction es arbitrary: s)
  case (Cons x es)
  from Cons.prems(2) obtain t where t: "accept x s = Inr t" "try_fold accept es t = Inr s'"
    by (auto simp: result_simps)
  have "inv t" using inv_accept Cons.prems(1) t(1) by blast
  show ?case
  proof (cases "e = x")
    case True
    then show ?thesis
      using accept_wf accept_known known_batch[OF \<open>inv t\<close> t(2)] Cons.prems(1) t(1) by blast
  next
    case False
    then show ?thesis using Cons.IH[OF \<open>inv t\<close> t(2)] Cons.prems(3) by simp
  qed
qed simp

lemma redeliver_known:
  "inv s \<Longrightarrow> \<forall>e\<in>set es. wf e \<and> known s (key e) \<Longrightarrow> try_fold accept es s = Inr s"
  by (induction es) (simp_all add: accept_dup)

text \<open>At-least-once delivery to an idempotent sink is exactly-once.\<close>

lemma redeliver_absorbed:
  assumes "inv s" "try_fold accept es s = Inr s'" "key ` set es' \<subseteq> key ` set es" "\<forall>e\<in>set es'. wf e"
  shows "try_fold accept es' s' = Inr s'"
proof (rule redeliver_known)
  show "inv s'" using inv_batch assms(1,2) .
  show "\<forall>e\<in>set es'. wf e \<and> known s' (key e)"
    using batch_known[OF assms(1,2)] assms(3,4) by (metis image_iff subset_iff)
qed

text \<open>A batch that failed half-way can be retried from its start.\<close>

lemma retry_after_partial:
  assumes "inv s" "try_fold accept es s = Inr t" "try_fold accept fs t = Inr s'"
  shows "try_fold accept (es @ fs) t = Inr s'"
  using redeliver_absorbed[OF assms(1,2), of es] batch_known[OF assms(1,2)] assms(3)
  by (simp add: try_fold_append)

end

end
