(* ===== verification/Event_Ingest.thy ===== *)
theory Event_Ingest
  imports Command_Journal Task_Projection Delivery
begin

text \<open>
  Acceptance of events: \<open>accept_node_event\<close> of \<open>application/coordination.rs\<close> with the
  projections of \<open>persistence/event.rs\<close> it runs in one transaction (turns, approvals,
  runtimes, sessions, placements, task runs, durable messages), the publication outbox and
  its drain, and the warning acknowledgement of a user.

  \<open>ingest_inv\<close> is the invariant of the event log: unique ids, unique sequence numbers per
  scope, a dense session cursor, and every event projected and enqueued for publication.
\<close>

section \<open>Turns and approvals\<close>

definition turn_state_for_event :: "event_envelope \<Rightarrow> turn_state option" where
  "turn_state_for_event event = (case ev_kind event of
     EK_TurnStarted \<Rightarrow> Some TN_Running
   | EK_TurnCompleted \<Rightarrow> Some TN_Completed
   | EK_TurnInterrupted \<Rightarrow> Some TN_Interrupted
   | EK_ApprovalRequested \<Rightarrow> Some TN_BlockedOnApproval
   | EK_RuntimeError \<Rightarrow> Some TN_Failed
   | _ \<Rightarrow> None)"

definition assign_turn :: "turn_state \<Rightarrow> id option \<Rightarrow> time option \<Rightarrow> time \<Rightarrow> turn_row \<Rightarrow> turn_row" where
  "assign_turn st blocked completed_at updated_at r = r\<lparr>tn_state := st, tn_blocked_approval_id := blocked,
     tn_completed_at := coalesce completed_at (tn_completed_at r), tn_updated_at := updated_at\<rparr>"

definition update_turn_from_event :: "event_envelope \<Rightarrow> core_db \<Rightarrow> core_db" where
  "update_turn_from_event event db = (case ev_turn_id event of
     None \<Rightarrow> db
   | Some turn_id \<Rightarrow> (case turn_state_for_event event of
       None \<Rightarrow> db
     | Some turn_state \<Rightarrow>
         let completed_at = (if turn_state \<in> {TN_Completed, TN_Interrupted, TN_Failed}
                             then Some (ev_happened_at event) else None);
             blocked_approval_id = (if turn_state = TN_BlockedOnApproval then event_approval_id event else None)
         in db\<lparr>db_turns := update_where (\<lambda>r. tn_turn_id r = turn_id)
              (assign_turn turn_state blocked_approval_id completed_at (ev_happened_at event)) (db_turns db)\<rparr>))"

text \<open>
  \<open>approvals_ok\<close> is what an upsert into \<open>approvals\<close> must satisfy beside its conflict target:
  the session exists and no other approval has the same turn (\<open>approvals_turn_idx\<close>).
\<close>

definition approvals_ok :: "id \<Rightarrow> id \<Rightarrow> id option \<Rightarrow> core_db \<Rightarrow> bool" where
  "approvals_ok approval_id session_id turn_id db \<longleftrightarrow> find_session db session_id \<noteq> None
     \<and> (turn_id \<noteq> None \<longrightarrow>
          list_all (\<lambda>r. ap_approval_id r \<noteq> approval_id \<longrightarrow> ap_turn_id r \<noteq> turn_id) (db_approvals db))"

definition request_row :: "id \<Rightarrow> id \<Rightarrow> event_envelope \<Rightarrow> approval_row" where
  "request_row approval_id session_id event = \<lparr>ap_approval_id = approval_id,
     ap_session_thread_id = session_id, ap_runtime_session_id = ev_runtime_session_id event,
     ap_turn_id = ev_turn_id event, ap_state = AS_Requested, ap_request_payload = Some (ev_payload event),
     ap_response_payload = None, ap_request_command_id = ev_command_id event, ap_resolve_command_id = None,
     ap_requested_event_id = Some (ev_event_id event), ap_resolved_event_id = None,
     ap_created_at = ev_happened_at event, ap_updated_at = ev_happened_at event, ap_resolved_at = None\<rparr>"

definition assign_request :: "id \<Rightarrow> event_envelope \<Rightarrow> approval_row \<Rightarrow> approval_row" where
  "assign_request session_id event r = r\<lparr>ap_session_thread_id := session_id,
     ap_runtime_session_id := ev_runtime_session_id event, ap_turn_id := ev_turn_id event,
     ap_state := AS_Requested, ap_request_payload := Some (ev_payload event),
     ap_request_command_id := ev_command_id event, ap_requested_event_id := Some (ev_event_id event),
     ap_updated_at := ev_happened_at event\<rparr>"

definition record_approval_request :: "event_envelope \<Rightarrow> core_db \<Rightarrow> app_error + core_db" where
  "record_approval_request event db = (case event_approval_id event of
     None \<Rightarrow> Inr db
   | Some approval_id \<Rightarrow> (case ev_session_thread_id event of
       None \<Rightarrow> Inr db
     | Some session_id \<Rightarrow> and_then (ensure (approvals_ok approval_id session_id (ev_turn_id event) db) Database)
         (\<lambda>_. Inr (db\<lparr>db_approvals :=
            (if find_approval db approval_id = None then db_approvals db @ [request_row approval_id session_id event]
             else update_where (\<lambda>r. ap_approval_id r = approval_id) (assign_request session_id event)
                    (db_approvals db))\<rparr>))))"

definition resolution_row :: "id \<Rightarrow> id \<Rightarrow> event_envelope \<Rightarrow> approval_row" where
  "resolution_row approval_id session_id event = \<lparr>ap_approval_id = approval_id,
     ap_session_thread_id = session_id, ap_runtime_session_id = ev_runtime_session_id event,
     ap_turn_id = ev_turn_id event, ap_state = AS_Resolved, ap_request_payload = None,
     ap_response_payload = Some (ev_payload event), ap_request_command_id = None,
     ap_resolve_command_id = ev_command_id event, ap_requested_event_id = None,
     ap_resolved_event_id = Some (ev_event_id event), ap_created_at = ev_happened_at event,
     ap_updated_at = ev_happened_at event, ap_resolved_at = Some (ev_happened_at event)\<rparr>"

definition assign_resolution :: "id \<Rightarrow> event_envelope \<Rightarrow> approval_row \<Rightarrow> approval_row" where
  "assign_resolution session_id event r = r\<lparr>ap_session_thread_id := session_id,
     ap_runtime_session_id := ev_runtime_session_id event,
     ap_turn_id := coalesce (ev_turn_id event) (ap_turn_id r), ap_state := AS_Resolved,
     ap_response_payload := Some (ev_payload event), ap_resolve_command_id := ev_command_id event,
     ap_resolved_event_id := Some (ev_event_id event), ap_resolved_at := Some (ev_happened_at event),
     ap_updated_at := ev_happened_at event\<rparr>"

definition record_approval_resolution :: "event_envelope \<Rightarrow> core_db \<Rightarrow> app_error + core_db" where
  "record_approval_resolution event db = (case event_approval_id event of
     None \<Rightarrow> Inr db
   | Some approval_id \<Rightarrow> (case ev_session_thread_id event of
       None \<Rightarrow> Inr db
     | Some session_id \<Rightarrow> and_then (ensure (approvals_ok approval_id session_id (ev_turn_id event) db) Database)
         (\<lambda>_. Inr (db\<lparr>db_approvals :=
            (if find_approval db approval_id = None then db_approvals db @ [resolution_row approval_id session_id event]
             else update_where (\<lambda>r. ap_approval_id r = approval_id) (assign_resolution session_id event)
                    (db_approvals db))\<rparr>))))"

definition update_approval_from_event :: "event_envelope \<Rightarrow> core_db \<Rightarrow> app_error + core_db" where
  "update_approval_from_event event db = (case ev_kind event of
     EK_ApprovalRequested \<Rightarrow> record_approval_request event db
   | EK_ApprovalResolved \<Rightarrow> record_approval_resolution event db
   | _ \<Rightarrow> Inr db)"

section \<open>Runtimes and sessions\<close>

definition update_runtimes :: "id \<Rightarrow> (runtime_row \<Rightarrow> runtime_row) \<Rightarrow> core_db \<Rightarrow> core_db" where
  "update_runtimes rid f db =
     db\<lparr>db_runtimes := update_where (\<lambda>r. rt_runtime_session_id r = rid) f (db_runtimes db)\<rparr>"

definition touch_runtime_step :: "id \<Rightarrow> time \<Rightarrow> core_db \<Rightarrow> core_db" where
  "touch_runtime_step rid happened_at =
     update_runtimes rid (\<lambda>r. r\<lparr>rt_last_runtime_step_at := Some happened_at, rt_updated_at := happened_at\<rparr>)"

definition assign_runtime_state :: "runtime_session_state \<Rightarrow> time \<Rightarrow> runtime_row \<Rightarrow> runtime_row" where
  "assign_runtime_state st updated_at r =
     (if st \<in> {RS_Starting, RS_Ready, RS_Running, RS_Resuming}
      then r\<lparr>rt_state := st, rt_degraded_reason := None, rt_updated_at := updated_at\<rparr>
      else r\<lparr>rt_state := st, rt_updated_at := updated_at\<rparr>)"

definition update_runtime_state :: "id \<Rightarrow> runtime_session_state \<Rightarrow> time \<Rightarrow> core_db \<Rightarrow> core_db" where
  "update_runtime_state rid st updated_at = update_runtimes rid (assign_runtime_state st updated_at)"

text \<open>
  The column keeps the value the event carries, or an object built from the legacy members
  \<open>provider_session_id\<close> and \<open>resume_cursor\<close>.
\<close>

definition legacy_ref :: "event_envelope \<Rightarrow> string \<Rightarrow> (string \<times> json) list" where
  "legacy_ref event key = (case Option.bind (map_option trim (payload_str (ev_payload event) key)) non_empty of
     None \<Rightarrow> [] | Some v \<Rightarrow> [(key, JStr (snippet v 512))])"

definition provider_resume_ref_json :: "event_envelope \<Rightarrow> json option" where
  "provider_resume_ref_json event =
     (case payload_get (ev_payload event) ''provider_resume_ref'' of
        Some (M_Json v) \<Rightarrow> if v = JNull then
            (let refs = legacy_ref event ''provider_session_id'' @ legacy_ref event ''resume_cursor''
             in if refs = [] then None else Some (JObj refs))
          else Some v
      | _ \<Rightarrow> (let refs = legacy_ref event ''provider_session_id'' @ legacy_ref event ''resume_cursor''
             in if refs = [] then None else Some (JObj refs)))"

definition update_runtime_provider_resume_ref :: "id \<Rightarrow> event_envelope \<Rightarrow> core_db \<Rightarrow> core_db" where
  "update_runtime_provider_resume_ref rid event db = (case provider_resume_ref_json event of
     None \<Rightarrow> db
   | Some v \<Rightarrow> update_runtimes rid (\<lambda>r. r\<lparr>rt_provider_resume_ref := Some v,
         rt_updated_at := ev_happened_at event\<rparr>) db)"

definition set_session_state :: "id \<Rightarrow> session_thread_state \<Rightarrow> time \<Rightarrow> core_db \<Rightarrow> core_db" where
  "set_session_state sid st updated_at db = db\<lparr>db_sessions := update_where
     (\<lambda>r. st_session_thread_id r = sid) (\<lambda>r. r\<lparr>st_state := st, st_updated_at := updated_at\<rparr>) (db_sessions db)\<rparr>"

definition load_session_state :: "id \<Rightarrow> core_db \<Rightarrow> session_thread_state option" where
  "load_session_state sid db = map_option st_state (find_session db sid)"

definition update_session_state_from_event ::
  "event_envelope \<Rightarrow> session_thread_state \<Rightarrow> core_db \<Rightarrow> core_db" where
  "update_session_state_from_event event st db = (case ev_session_thread_id event of
     None \<Rightarrow> db
   | Some sid \<Rightarrow> if st = SS_Active \<and> load_session_state sid db = Some SS_Detached then db
       else set_session_state sid st (ev_happened_at event) db)"

definition update_session_attachment_state ::
  "id \<Rightarrow> session_thread_state \<Rightarrow> time \<Rightarrow> core_db \<Rightarrow> app_error + core_db" where
  "update_session_attachment_state sid target now db =
     and_then (ok_or (load_session_state sid db) (NotFound ''session.not_found'')) (\<lambda>current.
       if current = SS_Stopped then Inl (BadRequest ''session.stopped'')
       else if current = target then Inr db
       else Inr (set_session_state sid target now db))"

text \<open>\<open>gap_reason\<close> renders the two sequence numbers into the degraded reason.\<close>

fun digits :: "nat \<Rightarrow> string" where
  "digits n = (if n < 10 then [char_of (48 + n)] else digits (n div 10) @ [char_of (48 + n mod 10)])"

definition show_int :: "int \<Rightarrow> string" where
  "show_int i = (if i < 0 then ''-'' @ digits (nat (- i)) else digits (nat i))"

definition gap_reason :: "int \<Rightarrow> int \<Rightarrow> string" where
  "gap_reason expected received =
     ''event sequence gap: expected '' @ show_int expected @ '', received '' @ show_int received"

definition mark_event_stream_gap :: "event_envelope \<Rightarrow> int \<Rightarrow> core_db \<Rightarrow> core_db" where
  "mark_event_stream_gap event expected_seq db =
     (let db1 = (case ev_runtime_session_id event of None \<Rightarrow> db
          | Some rid \<Rightarrow> update_runtimes rid (\<lambda>r. r\<lparr>rt_state := RS_Stale,
              rt_degraded_reason := Some (gap_reason expected_seq (ev_seq event)),
              rt_updated_at := ev_happened_at event\<rparr>) db)
      in case ev_session_thread_id event of None \<Rightarrow> db1
         | Some sid \<Rightarrow> set_session_state sid SS_Degraded (ev_happened_at event) db1)"

section \<open>Placements\<close>

definition assign_placement ::
  "string option \<Rightarrow> string option \<Rightarrow> placement_state \<Rightarrow> resource_badge list \<Rightarrow> git_workspace_snapshot option
   \<Rightarrow> time \<Rightarrow> placement_row \<Rightarrow> placement_row" where
  "assign_placement name path st badges git happened_at r = r\<lparr>
     pl_display_name := or_default name (pl_display_name r),
     pl_workspace_path := or_default path (pl_workspace_path r), pl_state := st,
     pl_resource_badges := badges, pl_git_snapshot := git,
     pl_last_validated_at := Some happened_at, pl_updated_at := happened_at\<rparr>"

definition event_placement_id :: "event_envelope \<Rightarrow> app_error + id" where
  "event_placement_id event = (case ev_scope_ref event of
     SR_Placement pid \<Rightarrow> Inr pid
   | _ \<Rightarrow> ok_or (payload_str (ev_payload event) ''placement_id'') (BadRequest ''placement.missing_ref''))"

text \<open>
  The update may collide with another placement of the Node at the new path
  (\<open>project_placements_identity_idx\<close>).
\<close>

definition placement_identity_ok :: "id \<Rightarrow> string option \<Rightarrow> core_db \<Rightarrow> bool" where
  "placement_identity_ok pid path db = (case find_placement db pid of None \<Rightarrow> True
     | Some r \<Rightarrow> list_all (\<lambda>q. pl_project_placement_id q = pid
          \<or> (pl_node_id q, pl_workspace_path q) \<noteq> (pl_node_id r, or_default path (pl_workspace_path r)))
          (db_placements db))"

definition update_placement_from_workspace_event ::
  "event_envelope \<Rightarrow> core_db \<Rightarrow> app_error + core_db" where
  "update_placement_from_workspace_event event db =
     and_then (event_placement_id event) (\<lambda>pid.
       let p = ev_payload event;
           state_value = (case payload_str p ''state'' of None \<Rightarrow> PS_Validated
                          | Some v \<Rightarrow> parse_placement_state v);
           badges = (case payload_get p ''resource_badges'' of Some (M_Badges bs) \<Rightarrow> bs | _ \<Rightarrow> []);
           git = (case payload_get p ''git_snapshot'' of Some (M_Git g) \<Rightarrow> Some g | _ \<Rightarrow> None);
           path = payload_str p ''workspace_path''
       in and_then (ensure (placement_identity_ok pid path db) Database) (\<lambda>_.
          Inr (db\<lparr>db_placements := update_where (\<lambda>r. pl_project_placement_id r = pid)
             (assign_placement (payload_str p ''display_name'') path state_value badges git
                (ev_happened_at event)) (db_placements db)\<rparr>)))"

section \<open>Projection\<close>

text \<open>The runtime and session states each kind of event projects.\<close>

definition runtime_target :: "event_kind \<Rightarrow> (runtime_session_state \<times> session_thread_state) option" where
  "runtime_target kind = (case kind of
     EK_RuntimeStarting \<Rightarrow> Some (RS_Starting, SS_Active)
   | EK_RuntimeReady \<Rightarrow> Some (RS_Ready, SS_Active)
   | EK_RuntimeResuming \<Rightarrow> Some (RS_Resuming, SS_Active)
   | EK_RuntimeRunning \<Rightarrow> Some (RS_Running, SS_Active)
   | EK_RuntimeBlocked \<Rightarrow> Some (RS_Blocked, SS_Active)
   | EK_RuntimeExpired \<Rightarrow> Some (RS_Expired, SS_Degraded)
   | EK_RuntimeStopped \<Rightarrow> Some (RS_Stopped, SS_Stopped)
   | EK_RuntimeError \<Rightarrow> Some (RS_Error, SS_Degraded)
   | EK_TurnInterrupted \<Rightarrow> Some (RS_Interrupted, SS_Active)
   | EK_ApprovalRequested \<Rightarrow> Some (RS_Blocked, SS_Active)
   | _ \<Rightarrow> None)"

definition project_runtime :: "event_envelope \<Rightarrow> core_db \<Rightarrow> core_db" where
  "project_runtime event db = (case runtime_target (ev_kind event) of
     None \<Rightarrow> db
   | Some (rst, sst) \<Rightarrow>
       let db1 = (case ev_runtime_session_id event of None \<Rightarrow> db
             | Some rid \<Rightarrow>
                 let db' = update_runtime_state rid rst (ev_happened_at event) db in
                 if ev_kind event = EK_RuntimeReady
                 then update_runtime_provider_resume_ref rid event db' else db')
       in update_session_state_from_event event sst db1)"

definition apply_event_projection :: "event_envelope \<Rightarrow> core_db \<Rightarrow> app_error + core_db" where
  "apply_event_projection event db =
     (let db1 = (case ev_runtime_session_id event of None \<Rightarrow> db
                 | Some rid \<Rightarrow> touch_runtime_step rid (ev_happened_at event) db);
          db2 = update_turn_from_event event db1
      in and_then (update_approval_from_event event db2) (\<lambda>db3.
         and_then (project_task_event_on_connection event db3) (\<lambda>db4.
         if ev_kind event \<in> {EK_WorkspaceValidated, EK_ResourceSnapshotUpdated}
         then update_placement_from_workspace_event event db4
         else Inr (project_runtime event db4))))"

definition insert_event_record :: "string \<Rightarrow> event_envelope \<Rightarrow> core_db \<Rightarrow> app_error + core_db" where
  "insert_event_record skey event db = and_then (ensure
       (find_event db (ev_event_id event) = None
        \<and> list_all (\<lambda>r. (er_scope_key r, er_seq r) \<noteq> (skey, ev_seq event)
             \<and> (ev_session_thread_id event \<noteq> None \<and> ev_session_projection_seq event \<noteq> None \<longrightarrow>
                 (er_session_thread_id r, er_session_projection_seq r)
                   \<noteq> (ev_session_thread_id event, ev_session_projection_seq event))) (db_events db))
       Database)
     (\<lambda>_. Inr (db\<lparr>db_events := db_events db @ [\<lparr>er_event_id = ev_event_id event, er_scope_key = skey,
        er_seq = ev_seq event, er_session_thread_id = ev_session_thread_id event,
        er_session_projection_seq = ev_session_projection_seq event, er_event = event,
        er_projection_state = PJ_Pending, er_projection_attempts = 0, er_projected_at = None\<rparr>]\<rparr>))"

definition enqueue_event_publication :: "event_envelope \<Rightarrow> core_db \<Rightarrow> core_db" where
  "enqueue_event_publication event db =
     (if select_by po_event_id (ev_event_id event) (db_publication_outbox db) \<noteq> None then db
      else db\<lparr>db_publication_outbox := db_publication_outbox db @ [\<lparr>po_event_id = ev_event_id event,
        po_event = event, po_attempts = 0, po_enqueued_at = ev_happened_at event, po_published_at = None\<rparr>]\<rparr>)"

definition durable_message :: "event_envelope \<Rightarrow> (message_role \<times> string) option" where
  "durable_message event = (let text = (\<lambda>key d. or_default (payload_str (ev_payload event) key) d) in
     case ev_kind event of
       EK_ProviderMessageCompleted \<Rightarrow> Some (MR_Assistant, text ''content'' ''Provider completed a message'')
     | EK_RuntimeError \<Rightarrow> Some (MR_Runtime, text ''message'' ''Runtime error'')
     | EK_ApprovalRequested \<Rightarrow> Some (MR_Approval, text ''prompt'' ''Approval requested'')
     | EK_ApprovalResolved \<Rightarrow> Some (MR_Approval, text ''message'' ''Approval resolved'')
     | _ \<Rightarrow> None)"

text \<open>\<open>message_id\<close> is the fresh id of the durable message; \<open>on conflict do nothing\<close>.\<close>

definition insert_durable_message :: "id \<Rightarrow> event_envelope \<Rightarrow> core_db \<Rightarrow> app_error + core_db" where
  "insert_durable_message message_id event db =
     (case (durable_message event, ev_session_thread_id event) of
        (Some (role, content), Some sid) \<Rightarrow>
          if select_by ms_message_id message_id (db_messages db) \<noteq> None
             \<or> \<not> list_all (\<lambda>m. ms_source_event_id m \<noteq> Some (ev_event_id event)) (db_messages db)
          then Inr db
          else insert_message \<lparr>ms_message_id = message_id, ms_session_thread_id = sid,
             ms_turn_id = ev_turn_id event, ms_role = role, ms_content = content,
             ms_created_at = ev_happened_at event, ms_completed_at = Some (ev_happened_at event),
             ms_source_event_id = Some (ev_event_id event)\<rparr> db
      | _ \<Rightarrow> Inr db)"

definition mark_projected :: "time \<Rightarrow> event_row \<Rightarrow> event_row" where
  "mark_projected t r = (if er_projection_state r \<noteq> PJ_Projected
     then r\<lparr>er_projection_state := PJ_Projected, er_projected_at := Some t\<rparr> else r)"

definition complete_event_projection :: "id \<Rightarrow> event_envelope \<Rightarrow> core_db \<Rightarrow> app_error + core_db" where
  "complete_event_projection message_id event db =
     insert_durable_message message_id event (enqueue_event_publication event
       (db\<lparr>db_events := update_where (\<lambda>r. er_event_id r = ev_event_id event)
          (mark_projected (ev_happened_at event)) (db_events db)\<rparr>))"

section \<open>Acceptance\<close>

definition scope_seqs :: "string \<Rightarrow> core_db \<Rightarrow> int list" where
  "scope_seqs skey db = map er_seq (filter (\<lambda>r. er_scope_key r = skey) (db_events db))"

definition next_seq :: "string \<Rightarrow> core_db \<Rightarrow> int" where
  "next_seq skey db = next_after (scope_seqs skey db)"

definition session_seqs :: "id \<Rightarrow> core_db \<Rightarrow> int list" where
  "session_seqs sid db = filter_map er_session_projection_seq
     (filter (\<lambda>r. er_session_thread_id r = Some sid) (db_events db))"

definition next_session_projection_seq :: "id \<Rightarrow> core_db \<Rightarrow> int" where
  "next_session_projection_seq sid db = next_after (session_seqs sid db)"

definition command_correlation_id :: "id option \<Rightarrow> core_db \<Rightarrow> id option" where
  "command_correlation_id command_id db = Option.bind command_id (\<lambda>c.
     map_option (\<lambda>r. ce_correlation_id (cm_command r)) (find_command db c))"

definition is_task_scope :: "scope_ref \<Rightarrow> bool" where
  "is_task_scope s = (case s of SR_TaskRun _ \<Rightarrow> True | _ \<Rightarrow> False)"

definition stream_gap :: "event_envelope \<Rightarrow> core_db \<Rightarrow> int option" where
  "stream_gap event db = (let expected_seq = next_seq (scope_key (ev_scope_ref event)) db in
     if \<not> is_task_scope (ev_scope_ref event) \<and> ev_seq event > expected_seq then Some expected_seq else None)"

text \<open>The envelope as it is stored: correlation id from its command, next session cursor.\<close>

definition stamp_event :: "event_envelope \<Rightarrow> core_db \<Rightarrow> event_envelope" where
  "stamp_event event db = event\<lparr>
     ev_correlation_id := (if ev_correlation_id event = None
        then command_correlation_id (ev_command_id event) db else ev_correlation_id event),
     ev_session_projection_seq :=
        map_option (\<lambda>sid. next_session_projection_seq sid db) (ev_session_thread_id event)\<rparr>"

definition accept_new_event :: "id \<Rightarrow> event_envelope \<Rightarrow> core_db \<Rightarrow> app_error + core_db" where
  "accept_new_event message_id event0 db =
     (let skey = scope_key (ev_scope_ref event0); gap = stream_gap event0 db; event = stamp_event event0 db in
      and_then (ensure (list_all (\<lambda>r. (er_scope_key r, er_seq r) \<noteq> (skey, ev_seq event0)) (db_events db))
          (BadRequest ''event.seq_conflict'')) (\<lambda>_.
      and_then (insert_event_record skey event (upsert_actor (ev_actor_ref event) (ev_happened_at event) db)) (\<lambda>db1.
      and_then (apply_event_projection event db1) (\<lambda>db2.
      complete_event_projection message_id event
        (case gap of None \<Rightarrow> db2 | Some expected_seq \<Rightarrow> mark_event_stream_gap event expected_seq db2)))))"

definition retry_projection :: "id \<Rightarrow> event_row \<Rightarrow> core_db \<Rightarrow> app_error + core_db" where
  "retry_projection message_id row db =
     (let db1 = db\<lparr>db_events := update_where (\<lambda>r. er_event_id r = er_event_id row)
            (\<lambda>r. r\<lparr>er_projection_attempts := er_projection_attempts r + 1\<rparr>) (db_events db)\<rparr>
      in and_then (apply_event_projection (er_event row) db1) (complete_event_projection message_id (er_event row)))"

text \<open>
  The transaction of \<open>accept_node_event\<close>; the option is the event the counters advance for.
  The second existence check of the source (\<open>count(*) > 0\<close>) is unreachable: the same query
  found no row just before, in the same transaction.
\<close>

definition accept_transaction ::
  "id \<Rightarrow> event_envelope \<Rightarrow> core_db \<Rightarrow> app_error + (event_envelope option \<times> core_db)" where
  "accept_transaction message_id event db =
     and_then (ensure (event_matches_kind (ev_payload event) (ev_kind event))
        (BadRequest ''protocol.event_payload_mismatch'')) (\<lambda>_.
     case find_event db (ev_event_id event) of
       Some row \<Rightarrow>
         if er_projection_state row = PJ_Projected
         then Inr (None, enqueue_event_publication (er_event row) db)
         else and_then (retry_projection message_id row db) (\<lambda>db'. Inr (Some (er_event row), db'))
     | None \<Rightarrow> and_then (accept_new_event message_id event db) (\<lambda>db'. Inr (Some (stamp_event event db), db')))"

section \<open>Publication and the whole operation\<close>

text \<open>\<open>has_receivers\<close>: whether the broadcast channel has a subscriber, else \<open>send\<close> fails.\<close>

definition drain_row :: "bool \<Rightarrow> time \<Rightarrow> publication_row \<Rightarrow> core_state \<Rightarrow> core_state" where
  "drain_row has_receivers now row st =
     (let db = co_db st in
      if \<not> has_receivers then st\<lparr>co_db := db\<lparr>db_publication_outbox :=
          update_where (\<lambda>r. po_event_id r = po_event_id row)
            (\<lambda>r. r\<lparr>po_attempts := po_attempts r + 1\<rparr>) (db_publication_outbox db)\<rparr>\<rparr>
      else st\<lparr>co_published := co_published st @ [po_event row],
          co_db := db\<lparr>db_publication_outbox :=
            update_where (\<lambda>r. po_event_id r = po_event_id row \<and> po_published_at r = None)
              (\<lambda>r. r\<lparr>po_published_at := Some now\<rparr>) (db_publication_outbox db)\<rparr>\<rparr>)"

definition unpublished :: "core_db \<Rightarrow> publication_row list" where
  "unpublished db = sort_key (\<lambda>r. (po_enqueued_at r, po_event_id r))
     (filter (\<lambda>r. po_published_at r = None) (db_publication_outbox db))"

definition drain_event_publication_outbox :: "bool \<Rightarrow> time \<Rightarrow> core_state \<Rightarrow> core_state" where
  "drain_event_publication_outbox has_receivers now st =
     fold (drain_row has_receivers now) (unpublished (co_db st)) st"

definition record_event_metrics :: "event_envelope \<Rightarrow> core_state \<Rightarrow> core_state" where
  "record_event_metrics event st =
     (if ev_kind event = EK_ProviderActivity
         \<and> payload_str (ev_payload event) ''provider_event_type'' = Some ''output_truncated''
      then st\<lparr>co_provider_truncations := co_provider_truncations st + 1\<rparr> else st)"

definition accept_node_event ::
  "bool \<Rightarrow> time \<Rightarrow> id \<Rightarrow> event_envelope \<Rightarrow> core_state \<Rightarrow> app_error + core_state" where
  "accept_node_event has_receivers now message_id event st =
     and_then (accept_transaction message_id event (co_db st)) (\<lambda>(counted, db).
       let st1 = st\<lparr>co_db := db\<rparr>;
           st2 = (case counted of None \<Rightarrow> st1
                  | Some e \<Rightarrow> record_event_metrics e (st1\<lparr>co_accepted_events := co_accepted_events st1 + 1\<rparr>))
       in Inr (drain_event_publication_outbox has_receivers now st2))"

section \<open>What a projection leaves alone\<close>

text \<open>
  The tables no projection writes: the event log itself, the two outboxes, commands,
  messages, actors, nodes, deductions, and the tables that only requests and the scheduler
  write (\<open>request_tables\<close>).
\<close>

definition request_tables where
  "request_tables db = (db_scheduled_messages db, db_jobs db, db_job_runs db, db_quotas db, db_audit db, db_leases db)"

definition log_tables where
  "log_tables db = (db_events db, db_publication_outbox db, db_commands db, db_dispatch_outbox db,
     db_messages db, db_actors db, db_nodes db, db_deductions db, db_warning_acks db, request_tables db)"

lemma log_tables_cong:
  assumes "log_tables db = log_tables db'"
  shows "db_events db = db_events db'" "db_publication_outbox db = db_publication_outbox db'"
    "db_commands db = db_commands db'" "db_dispatch_outbox db = db_dispatch_outbox db'"
    "db_messages db = db_messages db'" "db_actors db = db_actors db'" "db_nodes db = db_nodes db'"
    "db_deductions db = db_deductions db'" "db_warning_acks db = db_warning_acks db'"
    "request_tables db = request_tables db'"
  using assms by (simp_all add: log_tables_def)

lemmas table_frames = log_tables_def request_tables_def

lemma log_update_runtimes [simp]: "log_tables (update_runtimes rid f db) = log_tables db"
  by (simp add: update_runtimes_def table_frames)

lemma log_set_session_state [simp]: "log_tables (set_session_state sid st t db) = log_tables db"
  by (simp add: set_session_state_def table_frames)

lemma log_touch [simp]: "log_tables (touch_runtime_step rid t db) = log_tables db"
  by (simp add: touch_runtime_step_def)

lemma log_runtime_state [simp]: "log_tables (update_runtime_state rid st t db) = log_tables db"
  by (simp add: update_runtime_state_def)

lemma log_resume_ref [simp]: "log_tables (update_runtime_provider_resume_ref rid e db) = log_tables db"
  by (simp add: update_runtime_provider_resume_ref_def split: option.splits)

lemma log_session_event [simp]: "log_tables (update_session_state_from_event e st db) = log_tables db"
  by (simp add: update_session_state_from_event_def split: option.splits)

lemma log_turn [simp]: "log_tables (update_turn_from_event e db) = log_tables db"
  by (simp add: update_turn_from_event_def table_frames Let_def split: option.splits)

lemma log_gap [simp]: "log_tables (mark_event_stream_gap e n db) = log_tables db"
  by (simp add: mark_event_stream_gap_def Let_def split: option.splits)

lemma log_project_runtime [simp]: "log_tables (project_runtime e db) = log_tables db"
  by (simp add: project_runtime_def Let_def split: option.splits prod.splits)

lemma log_approval_request: "record_approval_request e db = Inr db' \<Longrightarrow> log_tables db' = log_tables db"
  by (auto simp: record_approval_request_def result_simps table_frames split: option.splits)

lemma log_approval_resolution: "record_approval_resolution e db = Inr db' \<Longrightarrow> log_tables db' = log_tables db"
  by (auto simp: record_approval_resolution_def result_simps table_frames split: option.splits)

lemma update_approval_cases:
  "update_approval_from_event e db = (if ev_kind e = EK_ApprovalRequested then record_approval_request e db
     else if ev_kind e = EK_ApprovalResolved then record_approval_resolution e db else Inr db)"
  by (cases "ev_kind e") (simp_all add: update_approval_from_event_def)

lemma log_approval: "update_approval_from_event e db = Inr db' \<Longrightarrow> log_tables db' = log_tables db"
  by (auto simp: update_approval_cases log_approval_request log_approval_resolution split: if_splits)

lemma log_task_event: "project_task_event_on_connection e db = Inr db' \<Longrightarrow> log_tables db' = log_tables db"
  by (drule project_task_event_frame, erule ssubst) (simp add: table_frames)

lemma log_placement: "update_placement_from_workspace_event e db = Inr db' \<Longrightarrow> log_tables db' = log_tables db"
  by (auto simp: update_placement_from_workspace_event_def result_simps Let_def table_frames)

lemma log_apply:
  assumes "apply_event_projection e db = Inr db'"
  shows "log_tables db' = log_tables db"
proof -
  let ?db1 = "case ev_runtime_session_id e of None \<Rightarrow> db | Some rid \<Rightarrow> touch_runtime_step rid (ev_happened_at e) db"
  from assms obtain db3 db4 where
    3: "update_approval_from_event e (update_turn_from_event e ?db1) = Inr db3"
    and 4: "project_task_event_on_connection e db3 = Inr db4"
    and 5: "(if ev_kind e \<in> {EK_WorkspaceValidated, EK_ResourceSnapshotUpdated}
         then update_placement_from_workspace_event e db4 else Inr (project_runtime e db4)) = Inr db'"
    by (auto simp only: apply_event_projection_def Let_def result_simps)
  have "log_tables ?db1 = log_tables db" by (simp split: option.splits)
  moreover have "log_tables db' = log_tables db4" using 5 by (auto simp: log_placement split: if_splits)
  ultimately show ?thesis using log_approval[OF 3] log_task_event[OF 4] by simp
qed

lemma enqueue_publication_frame [simp]:
  "db_events (enqueue_event_publication e db) = db_events db"
  "db_messages (enqueue_event_publication e db) = db_messages db"
  "db_sessions (enqueue_event_publication e db) = db_sessions db"
  "db_commands (enqueue_event_publication e db) = db_commands db"
  "db_dispatch_outbox (enqueue_event_publication e db) = db_dispatch_outbox db"
  by (simp_all add: enqueue_event_publication_def)

lemma insert_durable_message_frame:
  assumes "insert_durable_message m e db = Inr db'"
  shows "db_events db' = db_events db" "db_publication_outbox db' = db_publication_outbox db"
    "db_commands db' = db_commands db" "db_dispatch_outbox db' = db_dispatch_outbox db"
    "db_runtimes db' = db_runtimes db" "db_sessions db' = db_sessions db"
    "db_turns db' = db_turns db" "db_approvals db' = db_approvals db"
    "db_placements db' = db_placements db" "db_task_runs db' = db_task_runs db"
  using assms
  by (auto simp: insert_durable_message_def insert_message_def result_simps split: option.splits if_splits)

section \<open>What acceptance appends\<close>

definition accepted_row :: "event_envelope \<Rightarrow> event_row" where
  "accepted_row event = \<lparr>er_event_id = ev_event_id event, er_scope_key = scope_key (ev_scope_ref event),
     er_seq = ev_seq event, er_session_thread_id = ev_session_thread_id event,
     er_session_projection_seq = ev_session_projection_seq event, er_event = event,
     er_projection_state = PJ_Projected, er_projection_attempts = 0,
     er_projected_at = Some (ev_happened_at event)\<rparr>"

lemma stamp_event_fields [simp]:
  "ev_event_id (stamp_event e db) = ev_event_id e" "ev_scope_ref (stamp_event e db) = ev_scope_ref e"
  "ev_seq (stamp_event e db) = ev_seq e" "ev_kind (stamp_event e db) = ev_kind e"
  "ev_session_thread_id (stamp_event e db) = ev_session_thread_id e"
  "ev_runtime_session_id (stamp_event e db) = ev_runtime_session_id e"
  "ev_turn_id (stamp_event e db) = ev_turn_id e" "ev_payload (stamp_event e db) = ev_payload e"
  "ev_happened_at (stamp_event e db) = ev_happened_at e" "ev_node_id (stamp_event e db) = ev_node_id e"
  "ev_command_id (stamp_event e db) = ev_command_id e" "ev_actor_ref (stamp_event e db) = ev_actor_ref e"
  by (simp_all add: stamp_event_def)

lemma update_where_fresh:
  "k \<notin> key ` set t \<Longrightarrow> update_where (\<lambda>r. key r = k) f t = t"
  by (induction t) auto

lemma complete_log:
  assumes "complete_event_projection m e db = Inr db'"
  shows "db_events db' = update_where (\<lambda>r. er_event_id r = ev_event_id e)
      (mark_projected (ev_happened_at e)) (db_events db)"
    and "db_publication_outbox db' = db_publication_outbox (enqueue_event_publication e db)"
    and "db_commands db' = db_commands db" and "db_dispatch_outbox db' = db_dispatch_outbox db"
    and "db_runtimes db' = db_runtimes db" and "db_sessions db' = db_sessions db"
  using insert_durable_message_frame[OF assms[unfolded complete_event_projection_def]]
  by (simp_all add: enqueue_event_publication_def)

lemma enqueue_publication_cong:
  "db_publication_outbox db = db_publication_outbox db' \<Longrightarrow>
   db_publication_outbox (enqueue_event_publication e db) = db_publication_outbox (enqueue_event_publication e db')"
  by (simp add: enqueue_event_publication_def)

lemma insert_event_record_log:
  assumes "insert_event_record k e db = Inr db'"
  shows "db_events db' = db_events db @ [\<lparr>er_event_id = ev_event_id e, er_scope_key = k,
        er_seq = ev_seq e, er_session_thread_id = ev_session_thread_id e,
        er_session_projection_seq = ev_session_projection_seq e, er_event = e,
        er_projection_state = PJ_Pending, er_projection_attempts = 0, er_projected_at = None\<rparr>]"
    and "find_event db (ev_event_id e) = None"
    and "db' = db\<lparr>db_events := db_events db'\<rparr>"
  using assms by (auto simp: insert_event_record_def result_simps)

lemma accept_new_event_steps:
  assumes "accept_new_event m e db = Inr db'"
  obtains db1 db2 where
    "\<forall>r\<in>set (db_events db). (er_scope_key r, er_seq r) \<noteq> (scope_key (ev_scope_ref e), ev_seq e)"
    "insert_event_record (scope_key (ev_scope_ref e)) (stamp_event e db)
       (upsert_actor (ev_actor_ref e) (ev_happened_at e) db) = Inr db1"
    "apply_event_projection (stamp_event e db) db1 = Inr db2"
    "complete_event_projection m (stamp_event e db)
       (case stream_gap e db of None \<Rightarrow> db2 | Some n \<Rightarrow> mark_event_stream_gap (stamp_event e db) n db2) = Inr db'"
  using assms by (auto simp: accept_new_event_def Let_def result_simps list_all_iff)

lemma accept_new_event_log:
  assumes "accept_new_event m e db = Inr db'"
  shows "db_events db' = db_events db @ [accepted_row (stamp_event e db)]"
    and "find_event db (ev_event_id e) = None"
    and "\<forall>r\<in>set (db_events db). (er_scope_key r, er_seq r) \<noteq> (scope_key (ev_scope_ref e), ev_seq e)"
    and "db_publication_outbox db' = db_publication_outbox (enqueue_event_publication (stamp_event e db) db)"
    and "db_commands db' = db_commands db" and "db_dispatch_outbox db' = db_dispatch_outbox db"
proof -
  from assms obtain db1 db2 where
    0: "\<forall>r\<in>set (db_events db). (er_scope_key r, er_seq r) \<noteq> (scope_key (ev_scope_ref e), ev_seq e)"
    and 1: "insert_event_record (scope_key (ev_scope_ref e)) (stamp_event e db)
       (upsert_actor (ev_actor_ref e) (ev_happened_at e) db) = Inr db1"
    and 2: "apply_event_projection (stamp_event e db) db1 = Inr db2"
    and 3: "complete_event_projection m (stamp_event e db)
       (case stream_gap e db of None \<Rightarrow> db2 | Some n \<Rightarrow> mark_event_stream_gap (stamp_event e db) n db2) = Inr db'"
    by (rule accept_new_event_steps)
  let ?db3 = "case stream_gap e db of None \<Rightarrow> db2 | Some n \<Rightarrow> mark_event_stream_gap (stamp_event e db) n db2"
  have lt: "log_tables ?db3 = log_tables db1" using log_apply[OF 2] by (simp split: option.splits)
  note i = insert_event_record_log[OF 1]
  note t = log_tables_cong[OF lt]
  show fresh: "find_event db (ev_event_id e) = None" using i(2) by simp
  have "ev_event_id e \<notin> er_event_id ` set (db_events db)" using fresh by (simp add: select_by_None_iff)
  then show "db_events db' = db_events db @ [accepted_row (stamp_event e db)]"
    using complete_log(1)[OF 3] t(1) i(1) update_where_fresh[of _ er_event_id "db_events db"]
    by (simp add: update_where_def accepted_row_def mark_projected_def)
  show "\<forall>r\<in>set (db_events db). (er_scope_key r, er_seq r) \<noteq> (scope_key (ev_scope_ref e), ev_seq e)"
    by (rule 0)
  have f: "db_publication_outbox db1 = db_publication_outbox db" "db_commands db1 = db_commands db"
    "db_dispatch_outbox db1 = db_dispatch_outbox db"
    using i(3) by (metis core_db.select_convs core_db.surjective core_db.update_convs upsert_actor_frame)+
  show "db_publication_outbox db' = db_publication_outbox (enqueue_event_publication (stamp_event e db) db)"
    using complete_log(2)[OF 3] enqueue_publication_cong[of ?db3 db] t(2) f(1) by simp
  show "db_commands db' = db_commands db" "db_dispatch_outbox db' = db_dispatch_outbox db"
    using complete_log(3,4)[OF 3] t(3,4) f(2,3) by simp_all
qed

section \<open>The invariant of the event log\<close>

definition row_wf :: "event_row \<Rightarrow> bool" where
  "row_wf r \<longleftrightarrow> er_event_id r = ev_event_id (er_event r)
     \<and> er_scope_key r = scope_key (ev_scope_ref (er_event r)) \<and> er_seq r = ev_seq (er_event r)
     \<and> er_session_thread_id r = ev_session_thread_id (er_event r)
     \<and> er_session_projection_seq r = ev_session_projection_seq (er_event r)
     \<and> (er_session_thread_id r = None \<longleftrightarrow> er_session_projection_seq r = None)
     \<and> er_projection_state r = PJ_Projected"

definition enqueued :: "core_db \<Rightarrow> id \<Rightarrow> bool" where
  "enqueued db e \<longleftrightarrow> select_by po_event_id e (db_publication_outbox db) \<noteq> None"

definition cursor_dense :: "core_db \<Rightarrow> bool" where
  "cursor_dense db \<longleftrightarrow> (\<forall>sid. session_seqs sid db = [1..int (length (session_seqs sid db))])"

definition ingest_inv :: "core_db \<Rightarrow> bool" where
  "ingest_inv db \<longleftrightarrow> unique_key er_event_id (db_events db)
     \<and> unique_key (\<lambda>r. (er_scope_key r, er_seq r)) (db_events db)
     \<and> (\<forall>r\<in>set (db_events db). row_wf r \<and> enqueued db (er_event_id r))
     \<and> cursor_dense db"

lemma next_after_upto: "next_after [1..int n] = int n + 1"
proof (cases n)
  case (Suc k)
  have "[1..int n] \<noteq> []" using Suc by simp
  moreover have "Max {1..int n} = int n" using Suc by (intro Max_eqI) auto
  ultimately show ?thesis by (simp add: next_after_def col_max_Max)
qed simp

lemma session_seqs_snoc:
  "db_events db' = db_events db @ [r] \<Longrightarrow>
   session_seqs sid db' = session_seqs sid db @
     (if er_session_thread_id r = Some sid then (case er_session_projection_seq r of None \<Rightarrow> [] | Some n \<Rightarrow> [n])
      else [])"
  by (auto simp: session_seqs_def filter_map_append split: option.splits)

lemma cursor_dense_accept:
  assumes "cursor_dense db" "db_events db' = db_events db @ [accepted_row (stamp_event e db)]"
  shows "cursor_dense db'"
  unfolding cursor_dense_def
proof
  fix sid
  have d: "session_seqs sid db = [1..int (length (session_seqs sid db))]"
    using assms(1) by (simp add: cursor_dense_def)
  show "session_seqs sid db' = [1..int (length (session_seqs sid db'))]"
  proof (cases "ev_session_thread_id e = Some sid")
    case True
    let ?n = "length (session_seqs sid db)"
    have "next_session_projection_seq sid db = int ?n + 1"
      using next_after_upto[of ?n] d by (simp add: next_session_projection_seq_def)
    then have "session_seqs sid db' = session_seqs sid db @ [int ?n + 1]"
      using session_seqs_snoc[OF assms(2), of sid] True by (simp add: accepted_row_def stamp_event_def)
    then show ?thesis using d upto_rec2[of 1 "int ?n + 1"] by (simp add: add.commute)
  next
    case False
    then show ?thesis using session_seqs_snoc[OF assms(2), of sid] d by (simp add: accepted_row_def)
  qed
qed

lemma enqueued_enqueue:
  "enqueued (enqueue_event_publication e db) k \<longleftrightarrow> enqueued db k \<or> k = ev_event_id e"
  by (auto simp: enqueued_def enqueue_event_publication_def select_by_append split: option.splits)

lemma row_wf_accepted: "row_wf (accepted_row (stamp_event e db))"
  by (simp add: row_wf_def accepted_row_def stamp_event_def)

lemma ingest_inv_new:
  assumes "ingest_inv db" "accept_new_event m e db = Inr db'"
  shows "ingest_inv db'"
proof -
  note log = accept_new_event_log[OF assms(2)]
  have enq: "enqueued db' k \<longleftrightarrow> enqueued db k \<or> k = ev_event_id e" for k
    using enqueued_enqueue[of "stamp_event e db" db k] log(4) by (simp add: enqueued_def)
  have 1: "unique_key er_event_id (db_events db')"
    using assms(1) log(1,2) by (simp add: ingest_inv_def unique_key_snoc accepted_row_def)
  have 2: "unique_key (\<lambda>r. (er_scope_key r, er_seq r)) (db_events db')"
    using assms(1) log(1,3) by (auto simp: ingest_inv_def unique_key_snoc accepted_row_def select_by_None_iff)
  have 3: "\<forall>r\<in>set (db_events db'). row_wf r \<and> enqueued db' (er_event_id r)"
    using assms(1) log(1) enq row_wf_accepted[of e db] by (auto simp: ingest_inv_def accepted_row_def)
  show ?thesis
    using 1 2 3 cursor_dense_accept[OF _ log(1)] assms(1) by (simp add: ingest_inv_def)
qed

text \<open>Under the invariant a known event is projected and enqueued: accepting it again is the identity.\<close>

lemma accept_duplicate:
  assumes "ingest_inv db" "find_event db (ev_event_id e) = Some row"
    "event_matches_kind (ev_payload e) (ev_kind e)"
  shows "accept_transaction m e db = Inr (None, db)"
proof -
  from assms(1,2) have "row_wf row" "enqueued db (er_event_id row)"
    by (auto simp: ingest_inv_def dest: select_by_Some_key)
  then have "enqueue_event_publication (er_event row) db = db"
    by (simp add: enqueue_event_publication_def enqueued_def row_wf_def)
  with \<open>row_wf row\<close> assms(2,3) show ?thesis by (simp add: accept_transaction_def row_wf_def)
qed

lemma accept_transaction_cases:
  assumes "ingest_inv db" "accept_transaction m e db = Inr (c, db')"
  shows "(find_event db (ev_event_id e) \<noteq> None \<and> c = None \<and> db' = db)
    \<or> (find_event db (ev_event_id e) = None \<and> c = Some (stamp_event e db)
       \<and> accept_new_event m e db = Inr db')"
proof (cases "find_event db (ev_event_id e)")
  case None
  then show ?thesis using assms(2) by (auto simp: accept_transaction_def result_simps)
next
  case (Some row)
  from assms(2) have "event_matches_kind (ev_payload e) (ev_kind e)"
    by (auto simp: accept_transaction_def result_simps)
  from accept_duplicate[OF assms(1) Some this, of m] show ?thesis using assms(2) Some by simp
qed

lemma ingest_inv_accept:
  "ingest_inv db \<Longrightarrow> accept_transaction m e db = Inr (c, db') \<Longrightarrow> ingest_inv db'"
  using accept_transaction_cases[of db m e c db'] ingest_inv_new[of db m e db'] by auto

lemma accept_transaction_known:
  "ingest_inv db \<Longrightarrow> accept_transaction m e db = Inr (c, db') \<Longrightarrow> find_event db' (ev_event_id e) \<noteq> None"
  using accept_transaction_cases[of db m e c db'] accept_new_event_log(1)[of m e db db']
  by (auto simp: select_by_append accepted_row_def)

lemma accept_transaction_appends:
  "ingest_inv db \<Longrightarrow> accept_transaction m e db = Inr (c, db') \<Longrightarrow>
   db_events db' = db_events db @
     (if find_event db (ev_event_id e) = None then [accepted_row (stamp_event e db)] else [])"
  using accept_transaction_cases[of db m e c db'] accept_new_event_log(1)[of m e db db'] by auto

section \<open>Acceptance as an idempotent sink\<close>

text \<open>A delivery is an event with the message id drawn for it.\<close>

definition ingest :: "id \<times> event_envelope \<Rightarrow> core_db \<Rightarrow> app_error + core_db" where
  "ingest d db = and_then (accept_transaction (fst d) (snd d) db) (\<lambda>(c, db'). Inr db')"

definition delivery_wf :: "id \<times> event_envelope \<Rightarrow> bool" where
  "delivery_wf d \<longleftrightarrow> event_matches_kind (ev_payload (snd d)) (ev_kind (snd d))"

definition event_known :: "core_db \<Rightarrow> id \<Rightarrow> bool" where
  "event_known db e \<longleftrightarrow> find_event db e \<noteq> None"

lemma ingest_Inr: "ingest d db = Inr db' \<longleftrightarrow> (\<exists>c. accept_transaction (fst d) (snd d) db = Inr (c, db'))"
  by (auto simp: ingest_def result_simps)

lemma accept_transaction_wf:
  "accept_transaction m e db = Inr r \<Longrightarrow> event_matches_kind (ev_payload e) (ev_kind e)"
  by (auto simp: accept_transaction_def result_simps)

interpretation sink: idempotent_sink ingest_inv delivery_wf "\<lambda>d. ev_event_id (snd d)" event_known ingest
proof unfold_locales
  fix db db' d k
  assume inv: "ingest_inv db" and acc: "ingest d db = Inr db'"
  then obtain c where c: "accept_transaction (fst d) (snd d) db = Inr (c, db')"
    by (auto simp: ingest_Inr)
  show "ingest_inv db'" using ingest_inv_accept[OF inv c] .
  show "delivery_wf d" using accept_transaction_wf[OF c] by (simp add: delivery_wf_def)
  show "event_known db' (ev_event_id (snd d))" using accept_transaction_known[OF inv c] by (simp add: event_known_def)
  show "event_known db k \<Longrightarrow> event_known db' k"
    using accept_transaction_appends[OF inv c] by (auto simp: event_known_def select_by_append)
next
  fix db d
  assume "ingest_inv db" "delivery_wf d" "event_known db (ev_event_id (snd d))"
  then show "ingest d db = Inr db"
    using accept_duplicate[of db "snd d"] by (auto simp: ingest_def event_known_def delivery_wf_def)
qed

lemma ingest_inv_empty: "ingest_inv empty_db"
  by (simp add: ingest_inv_def empty_db_def cursor_dense_def session_seqs_def)

section \<open>Effect on runtimes and sessions\<close>

interpretation rt_state_key: keyed_update rt_runtime_session_id "assign_runtime_state st t" for st t
  by unfold_locales (simp add: assign_runtime_state_def)

interpretation rt_touch_key: keyed_update rt_runtime_session_id
  "\<lambda>r. r\<lparr>rt_last_runtime_step_at := Some t, rt_updated_at := t\<rparr>" for t
  by unfold_locales simp

interpretation rt_ref_key: keyed_update rt_runtime_session_id
  "\<lambda>r. r\<lparr>rt_provider_resume_ref := Some v, rt_updated_at := t\<rparr>" for v t
  by unfold_locales simp

interpretation rt_gap_key: keyed_update rt_runtime_session_id
  "\<lambda>r. r\<lparr>rt_state := RS_Stale, rt_degraded_reason := Some reason, rt_updated_at := t\<rparr>" for reason t
  by unfold_locales simp

interpretation st_key: keyed_update st_session_thread_id "\<lambda>r. r\<lparr>st_state := st, st_updated_at := t\<rparr>" for st t
  by unfold_locales simp

lemmas runtime_selects = rt_state_key.select_update_at rt_touch_key.select_update_at
  rt_ref_key.select_update_at rt_gap_key.select_update_at

lemma sessions_update_runtimes [simp]: "db_sessions (update_runtimes rid f db) = db_sessions db"
  by (simp add: update_runtimes_def)

lemma runtimes_set_session [simp]: "db_runtimes (set_session_state sid st t db) = db_runtimes db"
  by (simp add: set_session_state_def)

lemma find_session_set [table_simps]:
  "find_session (set_session_state sid st t db) k =
   (if k = sid then map_option (\<lambda>r. r\<lparr>st_state := st, st_updated_at := t\<rparr>) (find_session db k)
    else find_session db k)"
  by (simp add: set_session_state_def st_key.select_update_at)

lemma runtimes_session_event [simp]: "db_runtimes (update_session_state_from_event e st db) = db_runtimes db"
  by (simp add: update_session_state_from_event_def split: option.splits)

lemma runtimes_turn [simp]: "db_runtimes (update_turn_from_event e db) = db_runtimes db"
  "db_sessions (update_turn_from_event e db) = db_sessions db"
  by (simp_all add: update_turn_from_event_def Let_def split: option.splits)

lemma runtimes_approval:
  "update_approval_from_event e db = Inr db' \<Longrightarrow> db_runtimes db' = db_runtimes db \<and> db_sessions db' = db_sessions db"
  by (auto simp: update_approval_cases record_approval_request_def record_approval_resolution_def result_simps
      split: if_splits option.splits)

lemma runtimes_task:
  "project_task_event_on_connection e db = Inr db' \<Longrightarrow> db_runtimes db' = db_runtimes db \<and> db_sessions db' = db_sessions db"
  by (auto simp: project_task_event_on_connection_def result_simps Let_def split: if_splits)

lemma runtimes_placement:
  "update_placement_from_workspace_event e db = Inr db' \<Longrightarrow> db_runtimes db' = db_runtimes db \<and> db_sessions db' = db_sessions db"
  by (auto simp: update_placement_from_workspace_event_def result_simps Let_def)

lemma runtime_state_project:
  "map_option rt_state (find_runtime (project_runtime e db) k) =
   (case runtime_target (ev_kind e) of
      Some (rst, _) \<Rightarrow> if ev_runtime_session_id e = Some k then map_option (\<lambda>_. rst) (find_runtime db k)
                       else map_option rt_state (find_runtime db k)
    | None \<Rightarrow> map_option rt_state (find_runtime db k))"
  by (auto simp: project_runtime_def Let_def update_runtime_state_def update_runtimes_def
      update_runtime_provider_resume_ref_def runtime_selects option.map_comp comp_def assign_runtime_state_def
      split: option.splits intro!: option.map_cong)

lemma sessions_project_runtime:
  "db_sessions (project_runtime e db) = (case runtime_target (ev_kind e) of None \<Rightarrow> db_sessions db
     | Some (_, sst) \<Rightarrow> db_sessions (update_session_state_from_event e sst db))"
  by (auto simp: project_runtime_def Let_def update_runtime_state_def update_runtime_provider_resume_ref_def
      update_session_state_from_event_def load_session_state_def set_session_state_def split: option.splits)

lemma sessions_event_cong:
  "db_sessions db = db_sessions db' \<Longrightarrow>
   db_sessions (update_session_state_from_event e st db) = db_sessions (update_session_state_from_event e st db')"
  by (cases "ev_session_thread_id e")
    (auto simp: update_session_state_from_event_def load_session_state_def set_session_state_def)

lemma runtime_target_not_workspace:
  "runtime_target k = Some x \<Longrightarrow> k \<notin> {EK_WorkspaceValidated, EK_ResourceSnapshotUpdated}"
  by (auto simp: runtime_target_def)

lemma apply_runtimes:
  assumes "apply_event_projection e db = Inr db'" "runtime_target (ev_kind e) = Some (rst, sst)"
  shows "map_option rt_state (find_runtime db' k) =
     (if ev_runtime_session_id e = Some k then map_option (\<lambda>_. rst) (find_runtime db k)
      else map_option rt_state (find_runtime db k))"
    and "db_sessions db' = db_sessions (update_session_state_from_event e sst db)"
proof -
  let ?db1 = "case ev_runtime_session_id e of None \<Rightarrow> db | Some rid \<Rightarrow> touch_runtime_step rid (ev_happened_at e) db"
  from assms obtain db3 db4 where
    3: "update_approval_from_event e (update_turn_from_event e ?db1) = Inr db3"
    and 4: "project_task_event_on_connection e db3 = Inr db4" and 5: "db' = project_runtime e db4"
    using runtime_target_not_workspace[OF assms(2)]
    by (auto simp: apply_event_projection_def Let_def result_simps)
  have s: "db_runtimes db4 = db_runtimes ?db1" "db_sessions db4 = db_sessions db"
    using runtimes_approval[OF 3] runtimes_task[OF 4]
    by (simp_all add: touch_runtime_step_def split: option.splits)
  have t: "map_option rt_state (find_runtime db4 k) = map_option rt_state (find_runtime db k)"
    "map_option (\<lambda>_. rst) (find_runtime db4 k) = map_option (\<lambda>_. rst) (find_runtime db k)"
    unfolding s
    by (simp_all add: touch_runtime_step_def update_runtimes_def runtime_selects option.map_comp comp_def
        split: option.splits)
  show "map_option rt_state (find_runtime db' k) =
     (if ev_runtime_session_id e = Some k then map_option (\<lambda>_. rst) (find_runtime db k)
      else map_option rt_state (find_runtime db k))"
    unfolding 5 runtime_state_project using t assms(2) by simp
  show "db_sessions db' = db_sessions (update_session_state_from_event e sst db)"
    unfolding 5 sessions_project_runtime using sessions_event_cong[OF s(2)] assms(2) by simp
qed

lemma accept_new_projects:
  assumes "accept_new_event m e db = Inr db'" "stream_gap e db = None"
    "runtime_target (ev_kind e) = Some (rst, sst)"
  shows "map_option rt_state (find_runtime db' k) =
     (if ev_runtime_session_id e = Some k then map_option (\<lambda>_. rst) (find_runtime db k)
      else map_option rt_state (find_runtime db k))"
    and "db_sessions db' = db_sessions (update_session_state_from_event e sst db)"
proof -
  from assms(1) obtain db1 db2 where
    1: "insert_event_record (scope_key (ev_scope_ref e)) (stamp_event e db)
       (upsert_actor (ev_actor_ref e) (ev_happened_at e) db) = Inr db1"
    and 2: "apply_event_projection (stamp_event e db) db1 = Inr db2"
    and 3: "complete_event_projection m (stamp_event e db) db2 = Inr db'"
    using assms(2) by (auto elim!: accept_new_event_steps)
  have same: "db_runtimes db1 = db_runtimes db" "db_sessions db1 = db_sessions db"
    using 1 by (auto simp: insert_event_record_def result_simps)
  note a = apply_runtimes[OF 2, of rst sst] complete_log(5,6)[OF 3]
  show "map_option rt_state (find_runtime db' k) =
     (if ev_runtime_session_id e = Some k then map_option (\<lambda>_. rst) (find_runtime db k)
      else map_option rt_state (find_runtime db k))"
    using a(1)[of k] a(3) assms(3) same by simp
  have "db_sessions (update_session_state_from_event (stamp_event e db) sst db1)
      = db_sessions (update_session_state_from_event e sst db1)"
    by (cases "ev_session_thread_id e") (simp_all add: update_session_state_from_event_def)
  then show "db_sessions db' = db_sessions (update_session_state_from_event e sst db)"
    using a(2,4) assms(3) sessions_event_cong[OF same(2)] by simp
qed

lemma keys_apply:
  assumes "apply_event_projection e db = Inr db'"
  shows "(find_runtime db' k = None) = (find_runtime db k = None)"
    and "(find_session db' k = None) = (find_session db k = None)"
proof -
  let ?db1 = "case ev_runtime_session_id e of None \<Rightarrow> db | Some rid \<Rightarrow> touch_runtime_step rid (ev_happened_at e) db"
  from assms obtain db3 db4 where
    3: "update_approval_from_event e (update_turn_from_event e ?db1) = Inr db3"
    and 4: "project_task_event_on_connection e db3 = Inr db4"
    and 5: "(if ev_kind e \<in> {EK_WorkspaceValidated, EK_ResourceSnapshotUpdated}
         then update_placement_from_workspace_event e db4 else Inr (project_runtime e db4)) = Inr db'"
    by (auto simp only: apply_event_projection_def Let_def result_simps)
  have r1: "(find_runtime db4 k = None) = (find_runtime db k = None)" and s1: "db_sessions db4 = db_sessions db"
    using runtimes_approval[OF 3] runtimes_task[OF 4]
    by (auto simp: touch_runtime_step_def update_runtimes_def runtime_selects split: option.splits)
  have r2: "(find_runtime (project_runtime e db4) k = None) = (find_runtime db4 k = None)"
    using arg_cong[OF runtime_state_project[where e = e and db = db4 and k = k], of "\<lambda>x. x = None"]
    by (auto split: option.splits if_splits)
  have s2: "(find_session (project_runtime e db4) k = None) = (find_session db4 k = None)"
    by (auto simp: sessions_project_runtime update_session_state_from_event_def table_simps split: option.splits)
  show "(find_runtime db' k = None) = (find_runtime db k = None)"
    using 5 r1 r2 runtimes_placement[of e db4 db'] by (auto split: if_splits)
  show "(find_session db' k = None) = (find_session db k = None)"
    using 5 s1 s2 runtimes_placement[of e db4 db'] by (auto split: if_splits)
qed

text \<open>A gap is accepted, and recorded on the runtime and its session.\<close>

lemma accept_new_gap:
  assumes "accept_new_event m e db = Inr db'" "stream_gap e db = Some n"
    "ev_runtime_session_id e = Some rid" "find_runtime db rid \<noteq> None"
    "ev_session_thread_id e = Some sid" "find_session db sid \<noteq> None"
  shows "\<exists>r. find_runtime db' rid = Some r \<and> rt_state r = RS_Stale
           \<and> rt_degraded_reason r = Some (gap_reason n (ev_seq e))"
    and "load_session_state sid db' = Some SS_Degraded"
proof -
  from assms(1) obtain db1 db2 where
    1: "insert_event_record (scope_key (ev_scope_ref e)) (stamp_event e db)
       (upsert_actor (ev_actor_ref e) (ev_happened_at e) db) = Inr db1"
    and 2: "apply_event_projection (stamp_event e db) db1 = Inr db2"
    and 3: "complete_event_projection m (stamp_event e db) (mark_event_stream_gap (stamp_event e db) n db2) = Inr db'"
    using assms(2) by (auto elim!: accept_new_event_steps)
  have same: "db_runtimes db1 = db_runtimes db" "db_sessions db1 = db_sessions db"
    using 1 by (auto simp: insert_event_record_def result_simps)
  have ex: "find_runtime db2 rid \<noteq> None" "find_session db2 sid \<noteq> None"
    using keys_apply[OF 2] same assms(4,6) by simp_all
  show "\<exists>r. find_runtime db' rid = Some r \<and> rt_state r = RS_Stale
           \<and> rt_degraded_reason r = Some (gap_reason n (ev_seq e))"
    using ex(1) assms(3,5) complete_log(5)[OF 3]
    by (auto simp: mark_event_stream_gap_def Let_def update_runtimes_def runtime_selects)
  show "load_session_state sid db' = Some SS_Degraded"
    using ex(2) assms(3,5) complete_log(6)[OF 3]
    by (auto simp: mark_event_stream_gap_def Let_def load_session_state_def table_simps)
qed

end
