(* ===== verification/Deductions.thy ===== *)
theory Deductions
  imports Event_Ingest
begin

text \<open>
  Deductions: the validation of a provider's structured answer against the evidence package
  it was asked about and the projection of the command result on the \<open>deductions\<close> table
  (\<open>transport/node.rs\<close>), with the Core-authored session events it appends
  (\<open>append_core_session_event\<close>, \<open>application/session.rs\<close>).

  A handler that commits several transactions is a state transformer with a result,
  \<open>core_state \<Rightarrow> (app_error + 'a) \<times> core_state\<close>: effects before an error persist.
\<close>

section \<open>Handlers\<close>

type_synonym ('s, 'a) stateful = "'s \<Rightarrow> (app_error + 'a) \<times> 's"

type_synonym 'a handler = "(core_state, 'a) stateful"

definition h_bind :: "('s, 'a) stateful \<Rightarrow> ('a \<Rightarrow> ('s, 'b) stateful) \<Rightarrow> ('s, 'b) stateful" where
  "h_bind f g st = (case f st of (Inl e, st') \<Rightarrow> (Inl e, st') | (Inr x, st') \<Rightarrow> g x st')"

definition h_ok :: "'a \<Rightarrow> ('s, 'a) stateful" where
  "h_ok x st = (Inr x, st)"

text \<open>A check reads the state; a transaction replaces the database or fails without effect.\<close>

definition h_check :: "('s \<Rightarrow> app_error + 'a) \<Rightarrow> ('s, 'a) stateful" where
  "h_check f st = (f st, st)"

definition h_txn :: "(core_db \<Rightarrow> app_error + core_db) \<Rightarrow> unit handler" where
  "h_txn f st = (case f (co_db st) of Inl e \<Rightarrow> (Inl e, st) | Inr db \<Rightarrow> (Inr (), st\<lparr>co_db := db\<rparr>))"

definition h_run :: "('s \<Rightarrow> app_error + 's) \<Rightarrow> ('s, unit) stateful" where
  "h_run f st = (case f st of Inl e \<Rightarrow> (Inl e, st) | Inr st' \<Rightarrow> (Inr (), st'))"

definition h_modify :: "('s \<Rightarrow> 's) \<Rightarrow> ('s, unit) stateful" where
  "h_modify f st = (Inr (), f st)"

lemma h_bind_Inr [result_simps]:
  "h_bind f g st = (Inr y, st'') \<longleftrightarrow> (\<exists>x st'. f st = (Inr x, st') \<and> g x st' = (Inr y, st''))"
  by (auto simp: h_bind_def split: prod.splits sum.splits)

lemma h_check_Inr [result_simps]: "h_check f st = (Inr x, st') \<longleftrightarrow> f st = Inr x \<and> st' = st"
  by (auto simp: h_check_def)

lemma h_txn_Inr [result_simps]:
  "h_txn f st = (Inr x, st') \<longleftrightarrow> (\<exists>db. f (co_db st) = Inr db \<and> st' = st\<lparr>co_db := db\<rparr>)"
  by (auto simp: h_txn_def split: sum.splits)

lemma h_modify_Inr [result_simps]: "h_modify f st = (Inr x, st') \<longleftrightarrow> st' = f st"
  by (auto simp: h_modify_def)

section \<open>Validation\<close>

definition DEDUCTION_SCHEMA_VERSION :: string where
  "DEDUCTION_SCHEMA_VERSION = ''uprava.deduction.v1''"

definition MAX_DEDUCTION_RAW_CHARS :: nat where
  "MAX_DEDUCTION_RAW_CHARS = 32000"

text \<open>
  The loop over the steps. References are compared by their JSON text in the source; the
  encoding is injective, so they are compared directly.
\<close>

fun check_steps :: "uprava_ref list \<Rightarrow> string list \<Rightarrow> deduction_step list \<Rightarrow> (string \<times> string) + unit" where
  "check_steps allowed step_ids [] = Inr ()"
| "check_steps allowed step_ids (step # steps) =
     (if trim (ds_step_id step) = [] \<or> ds_step_id step \<in> set step_ids
      then Inl (''deduction.step_id_invalid'', ''Deduction step ids must be non-empty and unique'')
      else if trim (ds_summary step) = [] \<or> length (ds_summary step) > 2000
      then Inl (''deduction.step_summary_invalid'', ''Deduction step summary is empty or too large'')
      else if ds_classification step = DC_Observed \<and> ds_support_refs step = []
      then Inl (''deduction.observed_step_unsupported'',
                ''Every observed Deduction step must carry a support reference'')
      else if \<exists>r\<in>set (ds_support_refs step). r \<notin> set allowed
      then Inl (''deduction.support_ref_invalid'',
                ''Deduction returned a reference outside its evidence package'')
      else check_steps allowed (ds_step_id step # step_ids) steps)"

definition validate_deduction_output ::
  "deduction_provider_output \<Rightarrow> deduction_input_package \<Rightarrow> (string \<times> string) + deduction_provider_result" where
  "validate_deduction_output output package =
     (if do_deduction_id output \<noteq> dip_deduction_id package
         \<or> do_evidence_snapshot_hash output \<noteq> dip_evidence_snapshot_hash package
         \<or> do_schema_version output \<noteq> DEDUCTION_SCHEMA_VERSION
      then Inl (''deduction.provenance_mismatch'',
                ''Deduction provenance does not match the requested evidence snapshot'')
      else case do_error_code output of
        Some code \<Rightarrow> Inl (''deduction.provider_reported_error'',
                          or_default (do_error_message output) (''Provider reported '' @ code))
      | None \<Rightarrow> (case do_result output of
          None \<Rightarrow> Inl (''deduction.result_missing'', ''Structured Deduction result is missing'')
        | Some result \<Rightarrow>
            if trim (dr_title result) = [] \<or> trim (dr_conclusion result) = []
            then Inl (''deduction.result_incomplete'', ''Deduction title and conclusion are required'')
            else if dr_steps result = [] \<or> length (dr_steps result) > 100
            then Inl (''deduction.steps_invalid'', ''Deduction must contain between 1 and 100 steps'')
            else and_then (check_steps (dip_allowed_refs package) [] (dr_steps result)) (\<lambda>_. Inr result)))"

definition bounded_deduction_raw :: "string \<Rightarrow> bool \<Rightarrow> string option \<times> bool" where
  "bounded_deduction_raw value provider_truncated =
     (if value = [] then (None, provider_truncated)
      else (Some (truncate_chars value MAX_DEDUCTION_RAW_CHARS),
            provider_truncated \<or> length value > MAX_DEDUCTION_RAW_CHARS))"

section \<open>Projection\<close>

definition active_deduction :: "deduction_row \<Rightarrow> bool" where
  "active_deduction r \<longleftrightarrow> dd_state r = DS_Requested \<or> dd_state r = DS_Running"

definition mark_deduction_running :: "id \<Rightarrow> time \<Rightarrow> core_db \<Rightarrow> core_db" where
  "mark_deduction_running command_id now db = db\<lparr>db_deductions :=
     update_where (\<lambda>r. dd_command_id r = command_id \<and> dd_state r = DS_Requested)
       (\<lambda>r. r\<lparr>dd_state := DS_Running, dd_updated_at := now\<rparr>) (db_deductions db)\<rparr>"

definition assign_deduction_failure ::
  "deduction_state \<Rightarrow> string \<Rightarrow> string \<Rightarrow> string option \<Rightarrow> bool \<Rightarrow> time \<Rightarrow> deduction_row \<Rightarrow> deduction_row" where
  "assign_deduction_failure st code message raw raw_truncated now r = r\<lparr>dd_state := st,
     dd_raw_fallback := map_option (\<lambda>v. truncate_chars v MAX_DEDUCTION_RAW_CHARS) raw,
     dd_raw_truncated := raw_truncated, dd_error_code := Some code, dd_error_message := Some message,
     dd_updated_at := now\<rparr>"

definition update_deduction_failure ::
  "id \<Rightarrow> deduction_state \<Rightarrow> string \<Rightarrow> string \<Rightarrow> string option \<Rightarrow> bool \<Rightarrow> time \<Rightarrow> core_db \<Rightarrow> core_db" where
  "update_deduction_failure did st code message raw raw_truncated now db = db\<lparr>db_deductions :=
     update_where (\<lambda>r. dd_deduction_id r = did \<and> active_deduction r)
       (assign_deduction_failure st code message raw raw_truncated now) (db_deductions db)\<rparr>"

definition complete_deduction ::
  "id \<Rightarrow> deduction_block \<Rightarrow> string option \<Rightarrow> bool \<Rightarrow> time \<Rightarrow> core_db \<Rightarrow> core_db" where
  "complete_deduction did block raw raw_truncated now db = db\<lparr>db_deductions :=
     update_where (\<lambda>r. dd_deduction_id r = did \<and> active_deduction r)
       (\<lambda>r. r\<lparr>dd_state := DS_Completed, dd_block := Some block, dd_raw_fallback := raw,
          dd_raw_truncated := raw_truncated, dd_error_code := None, dd_error_message := None,
          dd_updated_at := now\<rparr>) (db_deductions db)\<rparr>"

text \<open>The environment of a handler: fresh ids, the clock and whether anyone listens to events.\<close>

record env =
  en_now :: time
  en_event_id :: id
  en_message_id :: id
  en_has_receivers :: bool

definition append_core_session_event ::
  "env \<Rightarrow> id \<Rightarrow> id option \<Rightarrow> event_kind \<Rightarrow> event_payload_kind \<Rightarrow> uprava_ref list \<Rightarrow> uprava_ref list
   \<Rightarrow> uprava_ref list \<Rightarrow> unit handler" where
  "append_core_session_event env session_id command_id kind payload result_refs source_refs evidence_refs st =
     (let scope = SR_Session session_id;
          event = \<lparr>ev_event_id = en_event_id env, ev_command_id = command_id, ev_correlation_id = None,
            ev_actor_ref = AR_System, ev_scope_ref = scope, ev_node_id = None,
            ev_runtime_session_id = None, ev_session_thread_id = Some session_id, ev_turn_id = None,
            ev_seq = next_seq (scope_key scope) (co_db st), ev_session_projection_seq = None,
            ev_kind = kind, ev_happened_at = en_now env, ev_source_refs = source_refs,
            ev_evidence_refs = evidence_refs,
            ev_cause_refs = (case command_id of None \<Rightarrow> [] | Some c \<Rightarrow> [UR_Command c]),
            ev_result_refs = result_refs, ev_payload = payload\<rparr>
      in h_run (accept_node_event (en_has_receivers env) (en_now env) (en_message_id env) event) st)"

text \<open>
  \<open>decode\<close> stands for \<open>serde_json::from_value::<DeductionProviderOutput>\<close>. The fresh event
  carries the payload that \<open>EventPayload::from_json\<close> builds from the three text members.
\<close>

definition project_deduction_command_result ::
  "(json \<Rightarrow> deduction_provider_output option) \<Rightarrow> env \<Rightarrow> id \<Rightarrow> command_state \<Rightarrow> json \<Rightarrow> unit handler" where
  "project_deduction_command_result decode env command_id status payload st =
     (case select_by dd_command_id command_id (db_deductions (co_db st)) of
        None \<Rightarrow> (Inr (), st)
      | Some row \<Rightarrow>
          if \<not> active_deduction row then (Inr (), st)
          else let did = dd_deduction_id row; sid = dd_session_thread_id row; now = en_now env in
          if status \<noteq> CS_Completed then
            let code = or_default (json_get_str payload ''error_code'') ''deduction.provider_failed'';
                message = or_default (Option.bind
                   (case json_get payload ''error_message'' of Some v \<Rightarrow> Some v | None \<Rightarrow> json_get payload ''message'')
                   json_as_str) ''Deduction provider execution failed''
            in h_bind (h_modify (\<lambda>st. st\<lparr>co_db := update_deduction_failure did DS_Failed code message
                   (json_get_str payload ''raw_text'')
                   (or_default (json_get_bool payload ''raw_truncated'') False) now (co_db st)\<rparr>))
               (\<lambda>_. append_core_session_event env sid (Some command_id) EK_DeductionFailed
                   (EP_DeductionFailed did code message) [UR_Deduction did] [dd_scope_ref row] []) st
          else h_bind (h_check (\<lambda>_. ok_or (decode payload) Serialization)) (\<lambda>output.
            case validate_deduction_output output (dd_input_package row) of
              Inr result \<Rightarrow>
                let block = \<lparr>bl_deduction_id = did, bl_scope_ref = dd_scope_ref row, bl_result = result,
                      bl_provenance = \<lparr>dv_provider = do_provider output, dv_model = do_model output,
                        dv_session_thread_id = sid, dv_schema_version = do_schema_version output,
                        dv_evidence_snapshot_hash = do_evidence_snapshot_hash output,
                        dv_generated_at = now\<rparr>\<rparr>
                in case bounded_deduction_raw (do_raw_text output) (do_raw_truncated output) of (raw, trunc) \<Rightarrow>
                h_bind (h_modify (\<lambda>st. st\<lparr>co_db := complete_deduction did block raw trunc now (co_db st)\<rparr>))
                (\<lambda>_. append_core_session_event env sid (Some command_id) EK_DeductionCompleted
                   (EP_DeductionCompleted did) [UR_Deduction did] [dd_scope_ref row]
                   (concat (map ds_support_refs (dr_steps result))))
            | Inl (code, message) \<Rightarrow>
                (case bounded_deduction_raw (do_raw_text output) (do_raw_truncated output) of (raw, trunc) \<Rightarrow>
                h_bind (h_modify (\<lambda>st. st\<lparr>co_db := update_deduction_failure did DS_Invalid code message
                   raw trunc now (co_db st)\<rparr>))
                (\<lambda>_. append_core_session_event env sid (Some command_id) EK_DeductionInvalid
                   (EP_DeductionInvalid did code message) [UR_Deduction did] [dd_scope_ref row] []))) st)"

section \<open>Grounding\<close>

lemma check_steps_iff:
  "check_steps allowed ids steps = Inr () \<longleftrightarrow>
   distinct (map ds_step_id steps) \<and> set (map ds_step_id steps) \<inter> set ids = {}
   \<and> (\<forall>s\<in>set steps. trim (ds_step_id s) \<noteq> [] \<and> trim (ds_summary s) \<noteq> [] \<and> length (ds_summary s) \<le> 2000
        \<and> (ds_classification s = DC_Observed \<longrightarrow> ds_support_refs s \<noteq> [])
        \<and> set (ds_support_refs s) \<subseteq> set allowed)"
proof (induction steps arbitrary: ids)
  case (Cons s steps)
  show ?case by (auto simp: Cons.IH)
qed simp

end
