(* ===== verification/Node_Frames.thy ===== *)
theory Node_Frames
  imports Deductions
begin

text \<open>
  The control frames a Node sends to Core (\<open>transport/node.rs\<close>): the limits every frame must
  meet, the validation of acknowledgements, results and event ownership, and the handler
  \<open>handle_node_control_frame\<close> itself.

  Two things are parameters. \<open>wire\<close> bundles what \<open>serde_json\<close> computes: the JSON value and
  byte length of a frame and of an event, and the decoders of command results. \<open>tooling\<close>
  bundles the two calls into the tool registry (\<open>application/tooling.rs\<close>), which has its own
  tables: the reconciliation at hello and the projection of a tooling result.
\<close>

section \<open>Limits\<close>

definition MAX_CONTROL_FRAME_BYTES :: nat where "MAX_CONTROL_FRAME_BYTES = 1048576"
definition MAX_EVENT_BATCH_ITEMS :: nat where "MAX_EVENT_BATCH_ITEMS = 128"
definition MAX_TERMINAL_OUTPUT_CHARS :: nat where "MAX_TERMINAL_OUTPUT_CHARS = 65536"
definition MAX_CONTROL_JSON_DEPTH :: nat where "MAX_CONTROL_JSON_DEPTH = 32"
definition MAX_CONTROL_STRING_CHARS :: nat where "MAX_CONTROL_STRING_CHARS = 65536"

fun validate_control_json_value :: "json \<Rightarrow> nat \<Rightarrow> app_error + unit"
  and validate_control_json_values :: "json list \<Rightarrow> nat \<Rightarrow> app_error + unit"
  and validate_control_json_members :: "(string \<times> json) list \<Rightarrow> nat \<Rightarrow> app_error + unit" where
  "validate_control_json_value value depth =
     (if depth > MAX_CONTROL_JSON_DEPTH then Inl (BadRequest ''control.frame_too_deep'')
      else case value of
        JStr s \<Rightarrow> if length s > MAX_CONTROL_STRING_CHARS then Inl (BadRequest ''control.string_too_large'') else Inr ()
      | JArr values \<Rightarrow> validate_control_json_values values (depth + 1)
      | JObj members \<Rightarrow> validate_control_json_members members (depth + 1)
      | _ \<Rightarrow> Inr ())"
| "validate_control_json_values [] depth = Inr ()"
| "validate_control_json_values (v # vs) depth =
     and_then (validate_control_json_value v depth) (\<lambda>_. validate_control_json_values vs depth)"
| "validate_control_json_members [] depth = Inr ()"
| "validate_control_json_members ((k, v) # ms) depth =
     and_then (validate_control_json_value v depth) (\<lambda>_. validate_control_json_members ms depth)"

record wire =
  wi_frame_json :: "control_frame \<Rightarrow> json"
  wi_frame_bytes :: "control_frame \<Rightarrow> nat"
  wi_event_bytes :: "event_envelope \<Rightarrow> nat"
  wi_placement :: "command_kind \<Rightarrow> json \<Rightarrow> id option"
  wi_deduction :: "json \<Rightarrow> deduction_provider_output option"
  wi_task_result :: "json \<Rightarrow> task_run_result_package option"

record tooling =
  to_reconcile :: "id \<Rightarrow> unit handler"
  to_project :: "id \<Rightarrow> command_state \<Rightarrow> json \<Rightarrow> bool \<Rightarrow> unit handler"

definition validate_control_frame_limits :: "wire \<Rightarrow> control_frame \<Rightarrow> app_error + unit" where
  "validate_control_frame_limits w frame =
     and_then (ensure (wi_frame_bytes w frame \<le> MAX_CONTROL_FRAME_BYTES) (BadRequest ''control.frame_too_large''))
       (\<lambda>_. validate_control_json_value (wi_frame_json w frame) 0)"

fun frame_meta_of :: "control_frame \<Rightarrow> frame_meta" where
  "frame_meta_of (CF_Hello m _ _ _) = m"
| "frame_meta_of (CF_HelloAck m) = m"
| "frame_meta_of (CF_CommandDispatch m _) = m"
| "frame_meta_of (CF_CommandAck m _ _) = m"
| "frame_meta_of (CF_CommandResult m _ _ _) = m"
| "frame_meta_of (CF_EventBatch m _) = m"
| "frame_meta_of (CF_EventBatchAck m _) = m"
| "frame_meta_of (CF_WorkspaceTerminalAttach m _) = m"
| "frame_meta_of (CF_WorkspaceTerminalInput m _ _) = m"
| "frame_meta_of (CF_WorkspaceTerminalResize m _ _ _) = m"
| "frame_meta_of (CF_WorkspaceTerminalClose m _) = m"
| "frame_meta_of (CF_WorkspaceTerminalOutput m _ _ _) = m"
| "frame_meta_of (CF_WorkspaceTerminalStatus m _ _ _ _) = m"
| "frame_meta_of (CF_Ping m) = m"
| "frame_meta_of (CF_Pong m) = m"
| "frame_meta_of (CF_ControlError m _) = m"

definition control_frame_protocol_version :: "control_frame \<Rightarrow> string" where
  "control_frame_protocol_version frame = fm_protocol_version (frame_meta_of frame)"

definition durable_command_result_payload :: "json \<Rightarrow> json" where
  "durable_command_result_payload payload = (case payload of
     JObj ms \<Rightarrow> JObj (filter (\<lambda>(k, _). k \<noteq> ''authorization_url'') ms) | v \<Rightarrow> v)"

section \<open>Acknowledgements and results\<close>

definition validate_command_ack :: "id \<Rightarrow> id \<Rightarrow> command_state \<Rightarrow> core_db \<Rightarrow> app_error + unit" where
  "validate_command_ack node_id command_id status db =
     and_then (ok_or (find_command db command_id) (NotFound ''control.command_not_found'')) (\<lambda>row.
     and_then (ensure (cm_target_node_id row = node_id) (Auth ''control.command_owner_mismatch'')) (\<lambda>_.
     and_then (ensure (status = CS_Acknowledged) (BadRequest ''control.command_ack_state_invalid'')) (\<lambda>_.
     ensure (cm_state row \<in> {CS_Dispatched, CS_Acknowledged}) (BadRequest ''control.command_transition_invalid''))))"

text \<open>The kinds whose completed result names the placement it is about.\<close>

definition echoes_placement :: "command_kind \<Rightarrow> bool" where
  "echoes_placement kind \<longleftrightarrow> (case kind of CK_ListWorkspaceTree \<Rightarrow> True | CK_ReadWorkspaceFile \<Rightarrow> True
     | CK_WriteWorkspaceFile \<Rightarrow> True | CK_RunWorkspaceCommand \<Rightarrow> True | CK_ReadWorkspaceDiff \<Rightarrow> True
     | CK_OpenWorkspaceTerminal \<Rightarrow> True | _ \<Rightarrow> False)"

definition deduction_package :: "command_payload \<Rightarrow> deduction_input_package option" where
  "deduction_package p = (case p of CP_RequestDeduction package \<Rightarrow> Some package | _ \<Rightarrow> None)"

definition validate_command_result_echo ::
  "wire \<Rightarrow> command_envelope \<Rightarrow> command_state \<Rightarrow> json \<Rightarrow> app_error + unit" where
  "validate_command_result_echo w command status payload =
     (let invalid = BadRequest ''control.command_result_payload_invalid'';
          mismatch = BadRequest ''control.command_result_target_mismatch'' in
      if status \<noteq> CS_Completed then Inr ()
      else if echoes_placement (ce_kind command) then
        and_then (ok_or (wi_placement w (ce_kind command) payload) invalid) (\<lambda>actual.
          ensure (target_placement_id (ce_target command) = Some actual) mismatch)
      else if ce_kind command = CK_RequestDeduction then
        and_then (ok_or (wi_deduction w payload) invalid) (\<lambda>result.
        and_then (ok_or (deduction_package (ce_payload command)) invalid) (\<lambda>package.
          ensure (do_deduction_id result = dip_deduction_id package
             \<and> do_evidence_snapshot_hash result = dip_evidence_snapshot_hash package
             \<and> do_schema_version result = DEDUCTION_SCHEMA_VERSION) mismatch))
      else if ce_kind command = CK_RunTask then
        and_then (ok_or (wi_task_result w payload) invalid) (\<lambda>result.
          ensure (target_task_run_id (ce_target command) = Some (trp_task_run_id result)) mismatch)
      else Inr ())"

definition validate_command_result ::
  "wire \<Rightarrow> id \<Rightarrow> id \<Rightarrow> command_state \<Rightarrow> json \<Rightarrow> core_db \<Rightarrow> app_error + unit" where
  "validate_command_result w node_id command_id status payload db =
     and_then (ok_or (find_command db command_id) (NotFound ''control.command_not_found'')) (\<lambda>row.
     and_then (ensure (cm_target_node_id row = node_id) (Auth ''control.command_owner_mismatch'')) (\<lambda>_.
     and_then (ensure (is_terminal_command_state status) (BadRequest ''control.command_result_state_invalid'')) (\<lambda>_.
     and_then (validate_command_result_echo w (cm_command row) status payload) (\<lambda>_.
     if is_terminal_command_state (cm_state row)
     then ensure (cm_state row = status \<and> cm_result_payload row = Some payload)
            (BadRequest ''control.command_result_conflict'')
     else ensure (cm_state row \<in> {CS_PendingDispatch, CS_Dispatched, CS_Acknowledged})
            (BadRequest ''control.command_transition_invalid'')))))"

section \<open>Event ownership\<close>

definition session_owner :: "core_db \<Rightarrow> id \<Rightarrow> id option" where
  "session_owner db sid = Option.bind (find_session db sid) (\<lambda>s.
     map_option pl_node_id (find_placement db (st_project_placement_id s)))"

definition runtime_owner :: "core_db \<Rightarrow> id \<Rightarrow> id option" where
  "runtime_owner db rid = Option.bind (find_runtime db rid) (\<lambda>r. session_owner db (rt_session_thread_id r))"

definition placement_owner :: "core_db \<Rightarrow> id \<Rightarrow> id option" where
  "placement_owner db pid = map_option pl_node_id (find_placement db pid)"

definition validate_runtime_owner :: "id \<Rightarrow> id \<Rightarrow> core_db \<Rightarrow> app_error + unit" where
  "validate_runtime_owner node_id rid db =
     ensure (runtime_owner db rid = Some node_id) (Auth ''control.event_runtime_mismatch'')"

definition validate_placement_owner :: "id \<Rightarrow> id \<Rightarrow> core_db \<Rightarrow> app_error + unit" where
  "validate_placement_owner node_id pid db =
     ensure (placement_owner db pid = Some node_id) (Auth ''control.event_placement_mismatch'')"

definition event_scope_placement_id :: "event_envelope \<Rightarrow> id option" where
  "event_scope_placement_id event = (case ev_scope_ref event of SR_Placement p \<Rightarrow> Some p | _ \<Rightarrow> None)"

definition event_actor_ok :: "id \<Rightarrow> event_envelope \<Rightarrow> bool" where
  "event_actor_ok node_id event = (case ev_actor_ref event of AR_Node n \<Rightarrow> n = node_id | _ \<Rightarrow> True)"

definition event_command_ok :: "id \<Rightarrow> event_envelope \<Rightarrow> core_db \<Rightarrow> bool" where
  "event_command_ok node_id event db = (case ev_command_id event of
     None \<Rightarrow> True
   | Some command_id \<Rightarrow> (case find_command db command_id of
       None \<Rightarrow> False
     | Some row \<Rightarrow>
         cm_target_node_id row = node_id
         \<and> ev_session_thread_id event = cm_session_thread_id row
         \<and> ev_runtime_session_id event = cm_runtime_session_id row
         \<and> \<not> (cm_session_thread_id row = None \<and> cm_runtime_session_id row = None
               \<and> cm_project_placement_id row \<noteq> None \<and> \<not> is_task_scope (ev_scope_ref event)
               \<and> event_scope_placement_id event \<noteq> cm_project_placement_id row)
         \<and> (case ev_scope_ref event of SR_TaskRun t \<Rightarrow>
               rows_affected (\<lambda>r. tr_task_run_id r = t \<and> tr_command_id r = command_id) (db_task_runs db) \<noteq> 0
            | _ \<Rightarrow> True)))"

definition event_aggregate_ok :: "event_envelope \<Rightarrow> core_db \<Rightarrow> bool" where
  "event_aggregate_ok event db = (case (ev_runtime_session_id event, ev_session_thread_id event) of
     (Some rid, Some sid) \<Rightarrow> map_option rt_session_thread_id (find_runtime db rid) = Some sid
   | _ \<Rightarrow> True)"

definition validate_event_scope :: "id \<Rightarrow> event_envelope \<Rightarrow> core_db \<Rightarrow> app_error + unit" where
  "validate_event_scope node_id event db =
     (let mismatch = Auth ''control.event_scope_mismatch'' in
      case ev_scope_ref event of
        SR_Node n \<Rightarrow> ensure (n = node_id) mismatch
      | SR_Runtime rid \<Rightarrow> and_then (ensure (ev_runtime_session_id event = Some rid) mismatch)
          (\<lambda>_. validate_runtime_owner node_id rid db)
      | SR_Session sid \<Rightarrow> and_then (ensure (ev_session_thread_id event = Some sid) mismatch)
          (\<lambda>_. ensure (session_owner db sid = Some node_id) mismatch)
      | SR_Placement pid \<Rightarrow> validate_placement_owner node_id pid db
      | SR_TaskRun t \<Rightarrow> ensure (map_option tr_node_id (find_task db t) = Some node_id) mismatch
      | SR_Unknown _ \<Rightarrow> Inr ())"

definition validate_event_owner :: "id \<Rightarrow> event_envelope \<Rightarrow> core_db \<Rightarrow> app_error + unit" where
  "validate_event_owner node_id event db =
     and_then (ensure (ev_node_id event = Some node_id) (Auth ''control.event_node_mismatch'')) (\<lambda>_.
     and_then (ensure (event_actor_ok node_id event) (Auth ''control.event_actor_mismatch'')) (\<lambda>_.
     and_then (ensure (event_command_ok node_id event db) (Auth ''control.event_command_mismatch'')) (\<lambda>_.
     and_then (ensure (event_aggregate_ok event db) (Auth ''control.event_context_mismatch'')) (\<lambda>_.
     and_then (case ev_runtime_session_id event of None \<Rightarrow> Inr ()
               | Some rid \<Rightarrow> validate_runtime_owner node_id rid db) (\<lambda>_.
     and_then (case ev_session_thread_id event of None \<Rightarrow> Inr ()
               | Some sid \<Rightarrow> ensure (session_owner db sid = Some node_id) (Auth ''control.event_session_mismatch'')) (\<lambda>_.
     validate_event_scope node_id event db))))))"

definition validate_terminal_owner :: "id \<Rightarrow> id \<Rightarrow> core_state \<Rightarrow> app_error + unit" where
  "validate_terminal_owner node_id terminal_id st =
     and_then (ok_or (hm_get (co_terminals st) terminal_id) (NotFound ''control.terminal_not_found'')) (\<lambda>t.
       ensure (is_ok (validate_placement_owner node_id (te_placement_id t) (co_db st)))
         (Auth ''control.terminal_owner_mismatch''))"

section \<open>The handler\<close>

text \<open>
  What a handler draws: the clock, the id of the frame it answers with, the frame ids of
  dispatched commands, the message id for the n-th event of a batch, and the environment of
  an event Core appends itself.
\<close>

record frame_env =
  fe_now :: time
  fe_frame_id :: string
  fe_correlation_id :: id
  fe_dispatch_frame_id :: "id \<Rightarrow> string"
  fe_message_id :: "nat \<Rightarrow> id"
  fe_has_receivers :: bool
  fe_core_env :: env

definition own_meta :: "frame_env \<Rightarrow> frame_meta" where
  "own_meta fe = \<lparr>fm_frame_id = fe_frame_id fe, fm_protocol_version = CURRENT_PROTOCOL_VERSION,
     fm_sent_at = fe_now fe\<rparr>"

definition send_control_error :: "frame_env \<Rightarrow> node_context \<Rightarrow> string \<Rightarrow> string \<Rightarrow> bool \<Rightarrow> core_state \<Rightarrow> core_state" where
  "send_control_error fe ctx code message retryable st =
     (case try_send (nc_sender ctx) (CF_ControlError (own_meta fe)
        \<lparr>ae_error_code = code, ae_message = message, ae_details = JObj [], ae_retryable = retryable,
         ae_correlation_id = fe_correlation_id fe\<rparr>) st of
        (True, st') \<Rightarrow> st'
      | (False, st') \<Rightarrow> st'\<lparr>co_control_queue_rejections := co_control_queue_rejections st' + 1\<rparr>)"

definition reject_frame ::
  "frame_env \<Rightarrow> node_context \<Rightarrow> string \<Rightarrow> string \<Rightarrow> app_error \<Rightarrow> 'a handler" where
  "reject_frame fe ctx code message err st = (Inl err, send_control_error fe ctx code message False st)"

definition handle_hello :: "tooling \<Rightarrow> frame_env \<Rightarrow> node_context \<Rightarrow> string \<Rightarrow> id \<Rightarrow> unit handler" where
  "handle_hello tools fe ctx protocol_version hello_node_id =
     (if hello_node_id \<noteq> nc_node_id ctx
      then reject_frame fe ctx ''control.node_mismatch''
             ''Control hello node id does not match authenticated node'' (Auth ''control.node_mismatch'')
      else if \<not> is_supported_protocol_version protocol_version
      then reject_frame fe ctx ''control.protocol_incompatible''
             ''Control protocol version is incompatible'' (BadRequest ''control.protocol_incompatible'')
      else h_bind (\<lambda>st. case activate (co_registry st) ctx of
             (False, _) \<Rightarrow> (Inl (Auth ''control.stale_generation''), st)
           | (True, reg) \<Rightarrow> (Inr (), st\<lparr>co_registry := reg\<rparr>))
        (\<lambda>_. h_bind (h_modify (\<lambda>st. snd (send_control_frame (nc_node_id ctx) (CF_HelloAck (own_meta fe)) st)))
        (\<lambda>_. h_bind (to_reconcile tools (nc_node_id ctx))
        (\<lambda>_. h_modify (dispatch_pending_commands (fe_dispatch_frame_id fe) (fe_now fe) (nc_node_id ctx))))))"

definition handle_command_ack :: "frame_env \<Rightarrow> node_context \<Rightarrow> id \<Rightarrow> command_state \<Rightarrow> unit handler" where
  "handle_command_ack fe ctx command_id status =
     h_bind (h_check (\<lambda>st. require_active_generation (co_registry st) ctx)) (\<lambda>_.
     h_bind (h_check (\<lambda>st. validate_command_ack (nc_node_id ctx) command_id status (co_db st))) (\<lambda>_.
     h_bind (h_modify (\<lambda>st. st\<lparr>co_db := update_command_state command_id status (fe_now fe) (co_db st)\<rparr>)) (\<lambda>_.
     h_modify (\<lambda>st. st\<lparr>co_db := mark_deduction_running command_id (fe_now fe) (co_db st)\<rparr>))))"

text \<open>The durable payload is broadcast; a waiter gets the payload as it was sent.\<close>

definition notify_result :: "id \<Rightarrow> command_state \<Rightarrow> json \<Rightarrow> json \<Rightarrow> core_state \<Rightarrow> core_state" where
  "notify_result command_id status durable payload st =
     (let st1 = st\<lparr>co_result_notices := co_result_notices st @ [(command_id, status, durable)]\<rparr> in
      if command_id \<in> set (co_waiters st1)
      then st1\<lparr>co_waiters := filter (\<lambda>c. c \<noteq> command_id) (co_waiters st1),
               co_waiter_replies := co_waiter_replies st1 @ [(command_id, status, payload)]\<rparr>
      else st1)"

definition handle_command_result ::
  "wire \<Rightarrow> tooling \<Rightarrow> frame_env \<Rightarrow> node_context \<Rightarrow> id \<Rightarrow> command_state \<Rightarrow> json \<Rightarrow> unit handler" where
  "handle_command_result w tools fe ctx command_id status payload =
     (let durable = durable_command_result_payload payload in
     h_bind (h_check (\<lambda>st. require_active_generation (co_registry st) ctx)) (\<lambda>_.
     h_bind (h_check (\<lambda>st. validate_command_result w (nc_node_id ctx) command_id status durable (co_db st))) (\<lambda>_.
     h_bind (h_modify (\<lambda>st. st\<lparr>co_command_results := co_command_results st + 1,
        co_db := update_command_result command_id status durable (fe_now fe) (co_db st)\<rparr>)) (\<lambda>_.
     h_bind (h_txn (project_task_command_result (wi_task_result w) command_id status durable (fe_now fe))) (\<lambda>_.
     h_bind (project_deduction_command_result (wi_deduction w) (fe_core_env fe) command_id status durable) (\<lambda>_.
     h_bind (\<lambda>st. to_project tools command_id status durable (command_id \<notin> set (co_waiters st)) st) (\<lambda>_.
     h_modify (notify_result command_id status durable payload))))))))"

fun accept_batch :: "frame_env \<Rightarrow> id \<Rightarrow> nat \<Rightarrow> event_envelope list \<Rightarrow> id list \<Rightarrow> (id list) handler" where
  "accept_batch fe node_id i [] accepted = h_ok accepted"
| "accept_batch fe node_id i (event # events) accepted =
     h_bind (h_check (\<lambda>st. validate_event_owner node_id event (co_db st))) (\<lambda>_.
     h_bind (h_run (accept_node_event (fe_has_receivers fe) (fe_now fe) (fe_message_id fe i) event)) (\<lambda>_.
     accept_batch fe node_id (i + 1) events (accepted @ [ev_event_id event])))"

definition handle_event_batch :: "wire \<Rightarrow> frame_env \<Rightarrow> node_context \<Rightarrow> event_envelope list \<Rightarrow> unit handler" where
  "handle_event_batch w fe ctx events =
     h_bind (h_check (\<lambda>st. require_active_generation (co_registry st) ctx)) (\<lambda>_.
     h_bind (h_check (\<lambda>st. ensure (length events \<le> MAX_EVENT_BATCH_ITEMS)
        (BadRequest ''control.event_batch_too_large''))) (\<lambda>_.
     h_bind (h_check (\<lambda>st. ensure (sum_list (map (wi_event_bytes w) events) \<le> MAX_CONTROL_FRAME_BYTES)
        (BadRequest ''control.event_batch_bytes_too_large''))) (\<lambda>_.
     h_bind (accept_batch fe (nc_node_id ctx) 0 events []) (\<lambda>accepted_event_ids.
     h_modify (\<lambda>st. snd (send_control_frame (nc_node_id ctx)
        (CF_EventBatchAck (own_meta fe) accepted_event_ids) st))))))"

definition handle_terminal_output ::
  "node_context \<Rightarrow> id \<Rightarrow> u64 \<Rightarrow> string \<Rightarrow> time \<Rightarrow> unit handler" where
  "handle_terminal_output ctx terminal_id seq data sent_at =
     h_bind (h_check (\<lambda>st. require_active_generation (co_registry st) ctx)) (\<lambda>_.
     h_bind (h_check (\<lambda>st. ensure (length data \<le> MAX_TERMINAL_OUTPUT_CHARS)
        (BadRequest ''control.terminal_output_too_large''))) (\<lambda>_.
     h_bind (h_check (validate_terminal_owner (nc_node_id ctx) terminal_id)) (\<lambda>_.
     h_modify (\<lambda>st. st\<lparr>co_terminal_notices := co_terminal_notices st @ [TO_Output terminal_id seq data sent_at],
        co_pty_terminal_states := co_pty_terminal_states st + 1\<rparr>))))"

definition handle_terminal_status ::
  "node_context \<Rightarrow> id \<Rightarrow> workspace_terminal_state \<Rightarrow> int option \<Rightarrow> string option \<Rightarrow> time \<Rightarrow> unit handler" where
  "handle_terminal_status ctx terminal_id state exit_code message sent_at =
     h_bind (h_check (\<lambda>st. require_active_generation (co_registry st) ctx)) (\<lambda>_.
     h_bind (h_check (validate_terminal_owner (nc_node_id ctx) terminal_id)) (\<lambda>_.
     h_modify (\<lambda>st. st\<lparr>
        co_terminals := (case hm_get (co_terminals st) terminal_id of None \<Rightarrow> co_terminals st
          | Some t \<Rightarrow> hm_insert terminal_id (t\<lparr>te_state := state, te_exit_code := exit_code,
               te_updated_at := sent_at\<rparr>) (co_terminals st)),
        co_terminal_notices := co_terminal_notices st @ [TO_Status terminal_id state exit_code message sent_at]\<rparr>)))"

definition is_hello :: "control_frame \<Rightarrow> bool" where
  "is_hello frame = (case frame of CF_Hello _ _ _ _ \<Rightarrow> True | _ \<Rightarrow> False)"

definition handle_node_control_frame ::
  "wire \<Rightarrow> tooling \<Rightarrow> frame_env \<Rightarrow> node_context \<Rightarrow> control_frame \<Rightarrow> unit handler" where
  "handle_node_control_frame w tools fe ctx frame =
     h_bind (h_check (\<lambda>_. validate_control_frame_limits w frame)) (\<lambda>_.
     if \<not> is_hello frame \<and> \<not> is_supported_protocol_version (control_frame_protocol_version frame)
     then reject_frame fe ctx ''control.protocol_incompatible''
            ''Control protocol version is incompatible'' (BadRequest ''control.protocol_incompatible'')
     else case frame of
       CF_Hello meta hello_node_id _ _ \<Rightarrow> handle_hello tools fe ctx (fm_protocol_version meta) hello_node_id
     | CF_CommandAck _ command_id status \<Rightarrow> handle_command_ack fe ctx command_id status
     | CF_CommandResult _ command_id status payload \<Rightarrow> handle_command_result w tools fe ctx command_id status payload
     | CF_EventBatch _ events \<Rightarrow> handle_event_batch w fe ctx events
     | CF_WorkspaceTerminalOutput meta terminal_id seq data \<Rightarrow>
         handle_terminal_output ctx terminal_id seq data (fm_sent_at meta)
     | CF_WorkspaceTerminalStatus meta terminal_id state exit_code message \<Rightarrow>
         handle_terminal_status ctx terminal_id state exit_code message (fm_sent_at meta)
     | _ \<Rightarrow> h_ok ())"

section \<open>Handlers that keep a property\<close>

definition h_keeps :: "('s \<Rightarrow> bool) \<Rightarrow> ('s, 'a) stateful \<Rightarrow> bool" where
  "h_keeps P f \<longleftrightarrow> (\<forall>st. P st \<longrightarrow> P (snd (f st)))"

named_theorems keeps_intros

lemma h_keeps_bind [keeps_intros]:
  "h_keeps P f \<Longrightarrow> (\<And>x. h_keeps P (g x)) \<Longrightarrow> h_keeps P (h_bind f g)"
  unfolding h_keeps_def
proof (intro allI impI)
  fix st assume f: "\<forall>st. P st \<longrightarrow> P (snd (f st))" and g: "\<And>x. \<forall>st. P st \<longrightarrow> P (snd (g x st))" and P: "P st"
  obtain r st' where r: "f st = (r, st')" by (cases "f st")
  have "P st'" using f P r by (metis snd_conv)
  then show "P (snd (h_bind f g st))" using g r by (cases r) (simp_all add: h_bind_def)
qed

lemma h_keeps_check [keeps_intros]: "h_keeps P (h_check c)"
  by (simp add: h_keeps_def h_check_def)

lemma h_keeps_ok [keeps_intros]: "h_keeps P (h_ok x)"
  by (simp add: h_keeps_def h_ok_def)

lemma h_keeps_modify: "(\<And>st. P st \<Longrightarrow> P (f st)) \<Longrightarrow> h_keeps P (h_modify f)"
  by (simp add: h_keeps_def h_modify_def)

lemma h_keeps_txn: "(\<And>st db. P st \<Longrightarrow> f (co_db st) = Inr db \<Longrightarrow> P (st\<lparr>co_db := db\<rparr>)) \<Longrightarrow> h_keeps P (h_txn f)"
  by (auto simp: h_keeps_def h_txn_def split: sum.splits)

lemma h_keeps_run: "(\<And>st st'. P st \<Longrightarrow> f st = Inr st' \<Longrightarrow> P st') \<Longrightarrow> h_keeps P (h_run f)"
  by (auto simp: h_keeps_def h_run_def split: sum.splits)

text \<open>A check that guards an update.\<close>

lemma h_keeps_guarded:
  "(\<And>st x. P st \<Longrightarrow> c st = Inr x \<Longrightarrow> P (snd (g x st))) \<Longrightarrow> h_keeps P (h_bind (h_check c) g)"
  by (auto simp: h_keeps_def h_bind_def h_check_def split: sum.splits)

section \<open>Commands under the control frames\<close>

text \<open>
  \<open>settled c s p\<close>: command \<open>c\<close> has the terminal state \<open>s\<close> and the stored result \<open>p\<close>.
  Frames of any kind and from any Node keep it, and keep the outbox invariant, as long as
  the tool registry does (\<open>tooling_ok\<close>).
\<close>

definition settled :: "id \<Rightarrow> command_state \<Rightarrow> json option \<Rightarrow> core_state \<Rightarrow> bool" where
  "settled c s p st \<longleftrightarrow> is_terminal_command_state s \<and>
     (\<exists>r. find_command (co_db st) c = Some r \<and> cm_state r = s \<and> cm_result_payload r = p)"

definition journal_ok :: "core_state \<Rightarrow> bool" where
  "journal_ok st \<longleftrightarrow> outbox_inv (co_db st)"

definition tooling_ok :: "(core_state \<Rightarrow> bool) \<Rightarrow> tooling \<Rightarrow> bool" where
  "tooling_ok P tools \<longleftrightarrow> (\<forall>n. h_keeps P (to_reconcile tools n))
     \<and> (\<forall>c s p b. h_keeps P (to_project tools c s p b))"

definition same_commands :: "core_db \<Rightarrow> core_db \<Rightarrow> bool" where
  "same_commands db db' \<longleftrightarrow> db_commands db' = db_commands db \<and> db_dispatch_outbox db' = db_dispatch_outbox db"

text \<open>A property of the state that only reads the two command tables.\<close>

definition command_only :: "(core_state \<Rightarrow> bool) \<Rightarrow> bool" where
  "command_only P \<longleftrightarrow> (\<forall>st st'. same_commands (co_db st) (co_db st') \<longrightarrow> P st = P st')"

lemma command_onlyD: "command_only P \<Longrightarrow> same_commands (co_db st) (co_db st') \<Longrightarrow> P st \<Longrightarrow> P st'"
  by (auto simp: command_only_def)

lemma command_only_settled: "command_only (settled c s p)"
  by (simp add: command_only_def settled_def same_commands_def)

lemma command_only_journal: "command_only journal_ok"
  unfolding command_only_def journal_ok_def same_commands_def
  by (intro allI impI) (elim conjE, rule outbox_inv_cong[symmetric])

lemma complete_commands: "complete_event_projection m e db = Inr db' \<Longrightarrow> same_commands db db'"
  using complete_log(3,4)[of m e db db'] by (simp add: same_commands_def)

lemma accept_transaction_commands:
  assumes "accept_transaction m e db = Inr (c, db')"
  shows "same_commands db db'"
proof (cases "find_event db (ev_event_id e)")
  case None
  then show ?thesis using assms accept_new_event_log(5,6)[of m e db db']
    by (auto simp: accept_transaction_def result_simps same_commands_def)
next
  case (Some row)
  let ?db1 = "db\<lparr>db_events := update_where (\<lambda>r. er_event_id r = er_event_id row)
            (\<lambda>r. r\<lparr>er_projection_attempts := er_projection_attempts r + 1\<rparr>) (db_events db)\<rparr>"
  show ?thesis
  proof (cases "er_projection_state row = PJ_Projected")
    case True
    then show ?thesis using assms Some
      by (auto simp: accept_transaction_def result_simps same_commands_def)
  next
    case False
    then obtain db2 where 2: "apply_event_projection (er_event row) ?db1 = Inr db2"
      and 3: "complete_event_projection m (er_event row) db2 = Inr db'"
      using assms Some by (auto simp: accept_transaction_def result_simps retry_projection_def Let_def)
    show ?thesis using log_tables_cong(3,4)[OF log_apply[OF 2]] complete_commands[OF 3]
      by (simp add: same_commands_def)
  qed
qed

lemma drain_row_commands: "same_commands (co_db st) (co_db (drain_row b now row st))"
  by (simp add: drain_row_def Let_def same_commands_def)

lemma same_commands_refl [simp]: "same_commands db db"
  by (simp add: same_commands_def)

lemma same_commands_trans: "same_commands a b \<Longrightarrow> same_commands b c \<Longrightarrow> same_commands a c"
  by (simp add: same_commands_def)

lemma drain_commands: "same_commands (co_db st) (co_db (fold (drain_row b now) rows st))"
  by (induction rows arbitrary: st) (auto intro: same_commands_trans drain_row_commands)

lemma metrics_db [simp]: "co_db (record_event_metrics e st) = co_db st"
  by (simp add: record_event_metrics_def)

lemma accept_node_event_commands:
  assumes "accept_node_event b now m e st = Inr st'"
  shows "same_commands (co_db st) (co_db st')"
proof -
  from assms obtain c db where t: "accept_transaction m e (co_db st) = Inr (c, db)"
    and st': "st' = drain_event_publication_outbox b now (case c of None \<Rightarrow> st\<lparr>co_db := db\<rparr>
       | Some e' \<Rightarrow> record_event_metrics e' (st\<lparr>co_db := db,
           co_accepted_events := co_accepted_events (st\<lparr>co_db := db\<rparr>) + 1\<rparr>))"
    by (auto simp: accept_node_event_def result_simps Let_def)
  have "same_commands db (co_db st')"
    unfolding st' drain_event_publication_outbox_def
    by (rule same_commands_trans[OF _ drain_commands]) (simp split: option.splits)
  then show ?thesis using accept_transaction_commands[OF t] same_commands_trans by blast
qed

lemma keeps_accept [keeps_intros]: "command_only P \<Longrightarrow> h_keeps P (h_run (accept_node_event b now m e))"
  by (rule h_keeps_run) (blast dest: command_onlyD accept_node_event_commands)

lemma keeps_append_event [keeps_intros]:
  assumes "command_only P"
  shows "h_keeps P (append_core_session_event env sid c k pl a b d)"
proof -
  have "P (snd (h_run (accept_node_event x y z e) st))" if "P st" for x y z e st
    using keeps_accept[OF assms] that by (simp add: h_keeps_def)
  then show ?thesis by (simp add: h_keeps_def append_core_session_event_def Let_def)
qed

lemma keeps_modify_commands:
  "command_only P \<Longrightarrow> (\<And>st. same_commands (co_db st) (co_db (f st))) \<Longrightarrow> h_keeps P (h_modify f)"
  by (rule h_keeps_modify) (blast dest: command_onlyD)

lemma mark_running_commands [simp]: "same_commands db (mark_deduction_running c now db)"
  by (simp add: mark_deduction_running_def same_commands_def)

lemma failure_commands [simp]: "same_commands db (update_deduction_failure d s c m r t now db)"
  by (simp add: update_deduction_failure_def same_commands_def)

lemma complete_deduction_commands [simp]: "same_commands db (complete_deduction d b r t now db)"
  by (simp add: complete_deduction_def same_commands_def)

lemma task_result_commands:
  "project_task_command_result decode c s p now db = Inr db' \<Longrightarrow> same_commands db db'"
  by (auto simp: project_task_command_result_def result_simps same_commands_def split: option.splits if_splits)

lemma keeps_deduction_fail:
  assumes "command_only P"
  shows "h_keeps P (h_bind (h_modify (\<lambda>st. st\<lparr>co_db := update_deduction_failure d s code msg raw t now (co_db st)\<rparr>))
     (\<lambda>_. append_core_session_event env sid c k pl x y z))"
  using assms by (intro h_keeps_bind keeps_append_event keeps_modify_commands) simp_all

lemma keeps_deduction_complete:
  assumes "command_only P"
  shows "h_keeps P (h_bind (h_modify (\<lambda>st. st\<lparr>co_db := complete_deduction d b raw t now (co_db st)\<rparr>))
     (\<lambda>_. append_core_session_event env sid c k pl x y z))"
  using assms by (intro h_keeps_bind keeps_append_event keeps_modify_commands) simp_all

lemma keeps_project_deduction [keeps_intros]:
  assumes P: "command_only P"
  shows "h_keeps P (project_deduction_command_result decode env c s p)"
  unfolding h_keeps_def
proof (intro allI impI)
  fix st assume st: "P st"
  note f = keeps_deduction_fail[OF P, unfolded h_keeps_def, rule_format, OF st]
  note g = keeps_deduction_complete[OF P, unfolded h_keeps_def, rule_format, OF st]
  show "P (snd (project_deduction_command_result decode env c s p st))"
    unfolding project_deduction_command_result_def Let_def
    by (auto simp: st f g h_bind_def[of "h_check _"] h_check_def split: option.splits sum.splits prod.splits)
qed

lemma keeps_send [keeps_intros]:
  assumes "command_only P" shows "h_keeps P (h_modify (\<lambda>st. snd (send_control_frame n (f st) st)))"
proof (rule keeps_modify_commands[OF assms])
  show "same_commands (co_db st) (co_db (snd (send_control_frame n (f st) st)))" for st
  proof (cases "registry_sender (co_registry st) n")
    case (Some tx)
    then show ?thesis using try_send_db[of tx "f st" st]
      by (cases "try_send tx (f st) st") (auto simp: send_control_frame_def split: bool.splits)
  qed (simp add: send_control_frame_def)
qed

lemma keeps_reject [keeps_intros]:
  assumes "command_only P" shows "h_keeps P (reject_frame fe ctx code msg err)"
  unfolding h_keeps_def reject_frame_def
proof (intro allI impI)
  fix st assume "P st"
  let ?f = "CF_ControlError (own_meta fe) \<lparr>ae_error_code = code, ae_message = msg, ae_details = JObj [],
     ae_retryable = False, ae_correlation_id = fe_correlation_id fe\<rparr>"
  have "co_db (send_control_error fe ctx code msg False st) = co_db st"
    using try_send_db[of "nc_sender ctx" ?f st]
    by (cases "try_send (nc_sender ctx) ?f st") (auto simp: send_control_error_def split: bool.splits)
  then show "P (snd (Inl err, send_control_error fe ctx code msg False st))"
    using command_onlyD[OF assms _ \<open>P st\<close>] by simp
qed

lemma keeps_batch [keeps_intros]: "command_only P \<Longrightarrow> h_keeps P (accept_batch fe n i es acc)"
  by (induction es arbitrary: i acc) (auto intro!: keeps_intros)

lemma keeps_event_batch [keeps_intros]: "command_only P \<Longrightarrow> h_keeps P (handle_event_batch w fe ctx es)"
  unfolding handle_event_batch_def by (intro keeps_intros)

lemma keeps_terminal_output [keeps_intros]:
  "command_only P \<Longrightarrow> h_keeps P (handle_terminal_output ctx t n d s)"
  unfolding handle_terminal_output_def by (intro keeps_intros keeps_modify_commands) simp_all

lemma keeps_terminal_status [keeps_intros]:
  "command_only P \<Longrightarrow> h_keeps P (handle_terminal_status ctx t s c m at)"
  unfolding handle_terminal_status_def by (intro keeps_intros keeps_modify_commands) simp_all

section \<open>The contract of a command property\<close>

text \<open>
  What a property of the command tables must satisfy to survive every frame: dispatch keeps
  it, and so do the two updates behind their validations.
\<close>

locale command_property =
  fixes P :: "core_state \<Rightarrow> bool"
  assumes reads_commands: "command_only P"
    and dispatch_keeps: "P st \<Longrightarrow> P (dispatch_pending_commands f t n st)"
    and ack_keeps: "P st \<Longrightarrow> validate_command_ack n c s (co_db st) = Inr () \<Longrightarrow>
      P (st\<lparr>co_db := update_command_state c s t (co_db st)\<rparr>)"
    and result_keeps: "P st \<Longrightarrow> validate_command_result w n c s p (co_db st) = Inr () \<Longrightarrow>
      P (st\<lparr>co_command_results := k, co_db := update_command_result c s p t (co_db st)\<rparr>)"
begin

lemma send_keeps: "P st \<Longrightarrow> P (snd (send_control_frame n f st))"
  using keeps_send[OF reads_commands, of n "\<lambda>_. f"] by (simp add: h_keeps_def h_modify_def)

lemma keeps_hello: "tooling_ok P tools \<Longrightarrow> h_keeps P (handle_hello tools fe ctx v n)"
proof -
  assume tools: "tooling_ok P tools"
  have reg: "P (st\<lparr>co_registry := r\<rparr>)" if "P st" for st r
    using command_onlyD[OF reads_commands _ that, of "st\<lparr>co_registry := r\<rparr>"] by simp
  have act: "h_keeps P (\<lambda>st. case activate (co_registry st) ctx of
             (False, _) \<Rightarrow> (Inl (Auth ''control.stale_generation''), st)
           | (True, reg) \<Rightarrow> (Inr (), st\<lparr>co_registry := reg\<rparr>))"
    using reg by (auto simp: h_keeps_def split: prod.splits bool.splits)
  show ?thesis
    unfolding handle_hello_def using tools reads_commands act
    by (auto simp: tooling_ok_def intro!: h_keeps_bind keeps_reject h_keeps_modify send_keeps dispatch_keeps)
qed

lemma keeps_ack: "h_keeps P (handle_command_ack fe ctx c s)"
  unfolding handle_command_ack_def
proof (rule h_keeps_bind[OF h_keeps_check], rule h_keeps_guarded)
  fix st :: core_state and x
  let ?st = "st\<lparr>co_db := update_command_state c s (fe_now fe) (co_db st)\<rparr>"
  let ?g = "h_modify (\<lambda>st. st\<lparr>co_db := mark_deduction_running c (fe_now fe) (co_db st)\<rparr>)"
  assume "P st" "validate_command_ack (nc_node_id ctx) c s (co_db st) = Inr x"
  then have "P ?st" by (intro ack_keeps) simp_all
  moreover have "h_keeps P ?g" by (rule keeps_modify_commands[OF reads_commands]) simp
  ultimately have "P (snd (?g ?st))" unfolding h_keeps_def by blast
  then show "P (snd (h_bind (h_modify (\<lambda>st. st\<lparr>co_db := update_command_state c s (fe_now fe) (co_db st)\<rparr>))
       (\<lambda>_. ?g) st))"
    by (simp add: h_bind_def h_modify_def)
qed

lemma keeps_after_result:
  assumes "tooling_ok P tools"
  shows "h_keeps P (h_bind (h_txn (project_task_command_result dt c s d now)) (\<lambda>_.
     h_bind (project_deduction_command_result dd env c s d) (\<lambda>_.
     h_bind (\<lambda>st. to_project tools c s d (c \<notin> set (co_waiters st)) st) (\<lambda>_.
     h_modify (notify_result c s d p)))))"
proof (intro h_keeps_bind)
  show "h_keeps P (h_txn (project_task_command_result dt c s d now))"
    by (rule h_keeps_txn) (use command_onlyD[OF reads_commands] task_result_commands in fastforce)
  show "h_keeps P (project_deduction_command_result dd env c s d)"
    by (rule keeps_project_deduction[OF reads_commands])
  show "h_keeps P (\<lambda>st. to_project tools c s d (c \<notin> set (co_waiters st)) st)"
    using assms by (simp add: tooling_ok_def h_keeps_def)
  show "h_keeps P (h_modify (notify_result c s d p))"
    by (rule keeps_modify_commands[OF reads_commands]) (simp add: notify_result_def Let_def)
qed

lemma keeps_result:
  assumes "tooling_ok P tools"
  shows "h_keeps P (handle_command_result w tools fe ctx c s p)"
  unfolding handle_command_result_def Let_def
proof (rule h_keeps_bind[OF h_keeps_check], rule h_keeps_guarded)
  fix st :: core_state and x
  let ?d = "durable_command_result_payload p"
  let ?upd = "\<lambda>st. st\<lparr>co_command_results := co_command_results st + 1,
        co_db := update_command_result c s ?d (fe_now fe) (co_db st)\<rparr>"
  assume "P st" "validate_command_result w (nc_node_id ctx) c s ?d (co_db st) = Inr x"
  then have "P (?upd st)" by (intro result_keeps) simp_all
  then show "P (snd (h_bind (h_modify ?upd) (\<lambda>_.
     h_bind (h_txn (project_task_command_result (wi_task_result w) c s ?d (fe_now fe))) (\<lambda>_.
     h_bind (project_deduction_command_result (wi_deduction w) (fe_core_env fe) c s ?d) (\<lambda>_.
     h_bind (\<lambda>st. to_project tools c s ?d (c \<notin> set (co_waiters st)) st) (\<lambda>_.
     h_modify (notify_result c s ?d p))))) st))"
    using keeps_after_result[OF assms, unfolded h_keeps_def]
    by (simp add: h_bind_def[of "h_modify ?upd"] h_modify_def[of ?upd])
qed

lemma handler_keeps:
  assumes "tooling_ok P tools"
  shows "h_keeps P (handle_node_control_frame w tools fe ctx frame)"
  unfolding handle_node_control_frame_def
  by (cases frame)
    (auto intro!: keeps_intros reads_commands keeps_hello keeps_ack keeps_result assms)

end

interpretation outbox: command_property journal_ok
proof unfold_locales
  show "command_only journal_ok" by (rule command_only_journal)
next
  fix st f t n assume "journal_ok st"
  then show "journal_ok (dispatch_pending_commands f t n st)"
    using dispatch_inv(1) by (simp add: journal_ok_def)
next
  fix st n c s t assume "journal_ok st" "validate_command_ack n c s (co_db st) = Inr ()"
  then show "journal_ok (st\<lparr>co_db := update_command_state c s t (co_db st)\<rparr>)"
    by (auto simp: journal_ok_def validate_command_ack_def result_simps waiting_def
        is_terminal_command_state_def intro!: outbox_inv_update_state)
next
  fix st w n c s p k t assume "journal_ok st" "validate_command_result w n c s p (co_db st) = Inr ()"
  then show "journal_ok (st\<lparr>co_command_results := k, co_db := update_command_result c s p t (co_db st)\<rparr>)"
    by (auto simp: journal_ok_def validate_command_result_def result_simps intro!: outbox_inv_update_result)
qed

interpretation settled_cmd: command_property "settled c s p" for c s p
proof unfold_locales
  show "command_only (settled c s p)" by (rule command_only_settled)
next
  fix st f t n assume "settled c s p st"
  then show "settled c s p (dispatch_pending_commands f t n st)"
    using dispatch_terminal_frame[of st c] by (auto simp: settled_def waiting_def)
next
  fix st n c' s' t assume "settled c s p st" "validate_command_ack n c' s' (co_db st) = Inr ()"
  then show "settled c s p (st\<lparr>co_db := update_command_state c' s' t (co_db st)\<rparr>)"
    by (auto simp: settled_def validate_command_ack_def result_simps table_simps is_terminal_command_state_def)
next
  fix st w n c' s' p' k t
  assume "settled c s p st" "validate_command_result w n c' s' p' (co_db st) = Inr ()"
  then show "settled c s p (st\<lparr>co_command_results := k, co_db := update_command_result c' s' p' t (co_db st)\<rparr>)"
    by (auto simp: settled_def validate_command_result_def result_simps table_simps
        assign_command_result_def assign_command_state_def split: if_splits)
qed

end
