(* ===== verification/Log_Frames.thy ===== *)
theory Log_Frames
  imports Node_Frames
begin

text \<open>
  The event log under the control frames: every frame of every Node keeps the log invariant,
  forgets no event, and acknowledges only events that are in the log. \<open>log_ok K\<close> says all
  three for a set \<open>K\<close> of events known so far; the proof walks through the handler with the
  same \<open>h_keeps\<close> calculus as \<open>Node_Frames\<close>.
\<close>

section \<open>Acknowledgements in flight\<close>

definition frame_acks :: "control_frame \<Rightarrow> id set" where
  "frame_acks f = (case f of CF_EventBatchAck _ ids \<Rightarrow> set ids | _ \<Rightarrow> {})"

definition queued_acks :: "core_state \<Rightarrow> id set" where
  "queued_acks st = {i. \<exists>tx ch f. hm_get (co_channels st) tx = Some ch \<and> f \<in> set (ch_queue ch) \<and> i \<in> frame_acks f}"

definition log_ok :: "id set \<Rightarrow> core_state \<Rightarrow> bool" where
  "log_ok K st \<longleftrightarrow> ingest_inv (co_db st) \<and> K \<union> queued_acks st \<subseteq> {i. event_known (co_db st) i}"

text \<open>States with the same log and no new acknowledgement.\<close>

definition same_log :: "core_state \<Rightarrow> core_state \<Rightarrow> bool" where
  "same_log st st' \<longleftrightarrow> db_events (co_db st') = db_events (co_db st)
     \<and> enqueued (co_db st') = enqueued (co_db st) \<and> queued_acks st' \<subseteq> queued_acks st"

lemma ingest_inv_cong:
  "db_events db' = db_events db \<Longrightarrow> enqueued db' = enqueued db \<Longrightarrow> ingest_inv db' = ingest_inv db"
  by (simp add: ingest_inv_def cursor_dense_def session_seqs_def)

lemma log_ok_same: "same_log st st' \<Longrightarrow> log_ok K st \<Longrightarrow> log_ok K st'"
  unfolding log_ok_def same_log_def using ingest_inv_cong[of "co_db st'" "co_db st"]
  by (auto simp: event_known_def)

lemma same_log_refl [simp]: "same_log st st"
  by (simp add: same_log_def)

lemma same_log_trans: "same_log a b \<Longrightarrow> same_log b c \<Longrightarrow> same_log a c"
  by (auto simp: same_log_def)

lemma same_log_db:
  "db_events db = db_events (co_db st) \<Longrightarrow> db_publication_outbox db = db_publication_outbox (co_db st) \<Longrightarrow>
   same_log st (st\<lparr>co_db := db\<rparr>)"
  by (simp add: same_log_def enqueued_def queued_acks_def fun_eq_iff)

lemma queued_acks_cong: "co_channels st' = co_channels st \<Longrightarrow> queued_acks st' = queued_acks st"
  by (simp add: queued_acks_def)

section \<open>Sending\<close>

lemma try_send_acks:
  "queued_acks (snd (try_send tx f st)) \<subseteq> queued_acks st \<union> frame_acks f"
  by (auto simp: try_send_def queued_acks_def split: option.splits if_splits)

lemma same_log_try_send: "frame_acks f = {} \<Longrightarrow> same_log st (snd (try_send tx f st))"
  using try_send_acks[of tx f st] by (simp add: same_log_def)

lemma send_control_frame_snd:
  "co_db (snd (send_control_frame n f st)) = co_db st"
  "queued_acks (snd (send_control_frame n f st)) \<subseteq> queued_acks st \<union> frame_acks f"
proof -
  have "co_db (snd (send_control_frame n f st)) = co_db st
     \<and> queued_acks (snd (send_control_frame n f st)) \<subseteq> queued_acks st \<union> frame_acks f"
  proof (cases "registry_sender (co_registry st) n")
    case (Some tx)
    then show ?thesis using try_send_acks[of tx f st] try_send_db[of tx f st]
      by (cases "try_send tx f st")
        (auto simp: send_control_frame_def queued_acks_cong[of "_\<lparr>co_control_queue_rejections := _\<rparr>"] split: bool.splits)
  qed (simp add: send_control_frame_def)
  then show "co_db (snd (send_control_frame n f st)) = co_db st"
    "queued_acks (snd (send_control_frame n f st)) \<subseteq> queued_acks st \<union> frame_acks f" by simp_all
qed

lemma same_log_send: "frame_acks f = {} \<Longrightarrow> same_log st (snd (send_control_frame n f st))"
  using send_control_frame_snd[of n f st] by (simp add: same_log_def)

lemma same_log_error: "same_log st (send_control_error fe ctx code msg r st)"
proof -
  let ?f = "CF_ControlError (own_meta fe) \<lparr>ae_error_code = code, ae_message = msg, ae_details = JObj [],
     ae_retryable = r, ae_correlation_id = fe_correlation_id fe\<rparr>"
  have "same_log st (snd (try_send (nc_sender ctx) ?f st))"
    by (rule same_log_try_send) (simp add: frame_acks_def)
  then show ?thesis
    by (cases "try_send (nc_sender ctx) ?f st")
      (auto simp: send_control_error_def same_log_def queued_acks_def split: bool.splits)
qed

lemma update_command_state_log [simp]:
  "db_events (update_command_state c s t db) = db_events db"
  "db_publication_outbox (update_command_state c s t db) = db_publication_outbox db"
  "db_events (update_command_result c s p t db) = db_events db"
  "db_publication_outbox (update_command_result c s p t db) = db_publication_outbox db"
  "db_events (mark_attempt c t db) = db_events db"
  "db_publication_outbox (mark_attempt c t db) = db_publication_outbox db"
  by (simp_all add: update_command_state_def update_command_result_def mark_attempt_def delete_dispatch_def Let_def)

lemma same_log_dispatch_row: "same_log st (dispatch_row_step fid now tx row st)"
proof -
  let ?f = "dispatch_frame fid now row"
  obtain b st' where t: "try_send tx ?f st = (b, st')" by force
  have s: "same_log st st'" using same_log_try_send[of ?f st tx] t by (simp add: frame_acks_def dispatch_frame_def)
  show ?thesis
  proof (cases b)
    case True
    have "same_log st' (st'\<lparr>co_db := update_command_state (dp_command_id row) CS_Dispatched now
        (mark_attempt (dp_command_id row) now (co_db st'))\<rparr>)" by (rule same_log_db) simp_all
    then show ?thesis using s t True same_log_trans by (auto simp: dispatch_row_step_def)
  qed (use s t in \<open>simp add: dispatch_row_step_def\<close>)
qed

lemma same_log_dispatch: "same_log st (dispatch_pending_commands fid now n st)"
proof -
  have "same_log st (fold (dispatch_row_step fid now tx) rows st)" for tx rows
    by (induction rows arbitrary: st) (auto intro: same_log_trans same_log_dispatch_row)
  then show ?thesis by (auto simp: dispatch_pending_commands_def Let_def split: option.splits)
qed

section \<open>Accepting\<close>

lemma enqueued_update_where:
  assumes "\<And>r. po_event_id (f r) = po_event_id r"
  shows "enqueued (db\<lparr>db_publication_outbox := update_where p f (db_publication_outbox db)\<rparr>) = enqueued db"
proof -
  have "(select_by po_event_id e (update_where p f t) = None) = (select_by po_event_id e t = None)" for e t
    by (induction t) (simp_all add: assms)
  then show ?thesis by (simp add: enqueued_def fun_eq_iff)
qed

lemma same_log_drain_row: "same_log st (drain_row b now row st)"
  unfolding drain_row_def Let_def same_log_def
  by (simp add: enqueued_update_where queued_acks_def)

lemma same_log_drain: "same_log st (drain_event_publication_outbox b now st)"
proof -
  have "same_log st (fold (drain_row b now) rows st)" for rows
    by (induction rows arbitrary: st) (auto intro: same_log_trans same_log_drain_row)
  then show ?thesis by (simp add: drain_event_publication_outbox_def)
qed

lemma accept_node_event_log:
  assumes "log_ok K st" "accept_node_event b now m e st = Inr st'"
  shows "log_ok (insert (ev_event_id e) K) st'"
proof -
  from assms(2) obtain c db where t: "accept_transaction m e (co_db st) = Inr (c, db)"
    and st': "st' = drain_event_publication_outbox b now (case c of None \<Rightarrow> st\<lparr>co_db := db\<rparr>
       | Some e' \<Rightarrow> record_event_metrics e' (st\<lparr>co_db := db,
           co_accepted_events := co_accepted_events (st\<lparr>co_db := db\<rparr>) + 1\<rparr>))"
    by (auto simp: accept_node_event_def result_simps Let_def)
  have i: "ingest_inv (co_db st)" using assms(1) by (simp add: log_ok_def)
  note a = ingest_inv_accept[OF i t] accept_transaction_known[OF i t] accept_transaction_appends[OF i t]
  have "{i. event_known (co_db st) i} \<subseteq> {i. event_known db i}"
    using a(3) by (auto simp: event_known_def select_by_append)
  moreover have "queued_acks (st\<lparr>co_db := db\<rparr>) = queued_acks st" by (simp add: queued_acks_def)
  moreover have "event_known db (ev_event_id e)" using a(2) by (simp add: event_known_def)
  moreover have "K \<union> queued_acks st \<subseteq> {i. event_known (co_db st) i}" using assms(1) by (simp add: log_ok_def)
  ultimately have "log_ok (insert (ev_event_id e) K) (st\<lparr>co_db := db\<rparr>)"
    unfolding log_ok_def using a(1) by (simp del: mem_Collect_eq) blast
  moreover have "same_log (st\<lparr>co_db := db\<rparr>) st'"
    unfolding st' by (rule same_log_trans[OF _ same_log_drain])
      (simp add: same_log_def record_event_metrics_def queued_acks_def split: option.splits)
  ultimately show ?thesis using log_ok_same by blast
qed

lemma log_ok_mono: "log_ok K st \<Longrightarrow> K' \<subseteq> K \<Longrightarrow> log_ok K' st"
  by (auto simp: log_ok_def)

lemma accept_batch_log:
  "log_ok K st \<Longrightarrow> accept_batch fe n i es acc st = (r, st') \<Longrightarrow>
   log_ok K st' \<and> (\<forall>ids. r = Inr ids \<longrightarrow> ids = acc @ map ev_event_id es \<and> log_ok (K \<union> ev_event_id ` set es) st')"
proof (induction es arbitrary: i acc st K)
  case (Cons e es)
  let ?acc = "accept_node_event (fe_has_receivers fe) (fe_now fe) (fe_message_id fe i) e st"
  show ?case
  proof (cases "validate_event_owner n e (co_db st)")
    case (Inr u)
    show ?thesis
    proof (cases ?acc)
      case (Inr st1)
      have 1: "log_ok (insert (ev_event_id e) K) st1" using accept_node_event_log[OF Cons.prems(1) Inr] .
      have "accept_batch fe n (i + 1) es (acc @ [ev_event_id e]) st1 = (r, st')"
        using Cons.prems(2) Inr \<open>validate_event_owner n e (co_db st) = Inr u\<close>
        by (simp add: h_bind_def h_check_def h_run_def)
      from Cons.IH[OF 1 this] show ?thesis by (auto elim: log_ok_mono)
    qed (use Cons.prems Inr in \<open>auto simp: h_bind_def h_check_def h_run_def\<close>)
  qed (use Cons.prems in \<open>auto simp: h_bind_def h_check_def\<close>)
qed (auto simp: h_ok_def)

section \<open>The handler\<close>

lemma keeps_same: "(\<And>st. same_log st (f st)) \<Longrightarrow> h_keeps (log_ok K) (h_modify f)"
  by (rule h_keeps_modify) (blast intro: log_ok_same)

lemma h_keepsD: "h_keeps P f \<Longrightarrow> P st \<Longrightarrow> P (snd (f st))"
  by (simp add: h_keeps_def)

lemma log_keeps_append: "h_keeps (log_ok K) (append_core_session_event env sid c k pl a b d)"
proof -
  have "log_ok K (snd (h_run (accept_node_event x y z e) st))" if "log_ok K st" for x y z e st
    using that log_ok_mono[OF accept_node_event_log[OF that] subset_insertI]
    by (auto simp: h_run_def split: sum.splits)
  then show ?thesis by (simp add: h_keeps_def append_core_session_event_def Let_def)
qed

lemma log_keeps_db:
  assumes "\<And>db. db_events (g db) = db_events db" "\<And>db. db_publication_outbox (g db) = db_publication_outbox db"
  shows "h_keeps (log_ok K) (h_modify (\<lambda>st. st\<lparr>co_db := g (co_db st)\<rparr>))"
  by (rule keeps_same, rule same_log_db) (simp_all add: assms)

lemma deduction_updates_log [simp]:
  "db_events (update_deduction_failure d s c m r t n db) = db_events db"
  "db_publication_outbox (update_deduction_failure d s c m r t n db) = db_publication_outbox db"
  "db_events (complete_deduction d bl r t n db) = db_events db"
  "db_publication_outbox (complete_deduction d bl r t n db) = db_publication_outbox db"
  "db_events (mark_deduction_running c n db) = db_events db"
  "db_publication_outbox (mark_deduction_running c n db) = db_publication_outbox db"
  by (simp_all add: update_deduction_failure_def complete_deduction_def mark_deduction_running_def)

lemma log_keeps_deduction: "h_keeps (log_ok K) (project_deduction_command_result decode env c s p)"
  unfolding h_keeps_def
proof (intro allI impI)
  fix st assume st: "log_ok K st"
  have f: "log_ok K (snd (h_bind (h_modify (\<lambda>st. st\<lparr>co_db := update_deduction_failure d s code msg raw t now (co_db st)\<rparr>))
     (\<lambda>_. append_core_session_event env sid c k pl x y z) st))" for d s code msg raw t now sid c k pl x y z
    by (rule h_keepsD[where P = "log_ok K", OF _ st]) (intro h_keeps_bind log_keeps_db log_keeps_append; simp)
  have g: "log_ok K (snd (h_bind (h_modify (\<lambda>st. st\<lparr>co_db := complete_deduction d bl raw t now (co_db st)\<rparr>))
     (\<lambda>_. append_core_session_event env sid c k pl x y z) st))" for d bl raw t now sid c k pl x y z
    by (rule h_keepsD[where P = "log_ok K", OF _ st]) (intro h_keeps_bind log_keeps_db log_keeps_append; simp)
  show "log_ok K (snd (project_deduction_command_result decode env c s p st))"
    unfolding project_deduction_command_result_def Let_def
    by (auto simp: st f g h_bind_def[of "h_check _"] h_check_def split: option.splits sum.splits prod.splits)
qed

lemma log_keeps_reject: "h_keeps (log_ok K) (reject_frame fe ctx code msg err)"
  using log_ok_same[OF same_log_error] by (simp add: h_keeps_def reject_frame_def)

lemma log_keeps_hello: "tooling_ok (log_ok K) tools \<Longrightarrow> h_keeps (log_ok K) (handle_hello tools fe ctx v n)"
proof -
  assume tools: "tooling_ok (log_ok K) tools"
  have reg: "log_ok K (st\<lparr>co_registry := r\<rparr>)" if "log_ok K st" for st r
    using log_ok_same[OF _ that, of "st\<lparr>co_registry := r\<rparr>"] by (simp add: same_log_def queued_acks_def)
  have act: "h_keeps (log_ok K) (\<lambda>st. case activate (co_registry st) ctx of
             (False, _) \<Rightarrow> (Inl (Auth ''control.stale_generation''), st)
           | (True, reg) \<Rightarrow> (Inr (), st\<lparr>co_registry := reg\<rparr>))"
    using reg by (auto simp: h_keeps_def split: prod.splits bool.splits)
  show ?thesis
    unfolding handle_hello_def using tools act
    by (auto simp: tooling_ok_def frame_acks_def
        intro!: h_keeps_bind log_keeps_reject keeps_same same_log_send same_log_dispatch)
qed

lemma log_keeps_ack: "h_keeps (log_ok K) (handle_command_ack fe ctx c s)"
  unfolding handle_command_ack_def
  by (intro h_keeps_bind h_keeps_check log_keeps_db) simp_all

lemma task_result_log:
  "project_task_command_result decode c s p now db = Inr db' \<Longrightarrow>
   db_events db' = db_events db \<and> db_publication_outbox db' = db_publication_outbox db"
  by (auto simp: project_task_command_result_def result_simps split: option.splits if_splits)

lemma log_keeps_result:
  assumes "tooling_ok (log_ok K) tools"
  shows "h_keeps (log_ok K) (handle_command_result w tools fe ctx c s p)"
proof -
  have t: "h_keeps (log_ok K) (h_txn (project_task_command_result dt c s d now))" for dt d now
  proof (rule h_keeps_txn)
    fix st db assume "log_ok K st" "project_task_command_result dt c s d now (co_db st) = Inr db"
    then show "log_ok K (st\<lparr>co_db := db\<rparr>)"
      using log_ok_same[OF same_log_db] task_result_log by blast
  qed
  have u: "h_keeps (log_ok K) (h_modify (\<lambda>st. st\<lparr>co_command_results := co_command_results st + 1,
        co_db := update_command_result c s d (fe_now fe) (co_db st)\<rparr>))" for d
    by (rule keeps_same) (simp add: same_log_def queued_acks_def enqueued_def fun_eq_iff)
  have n: "h_keeps (log_ok K) (h_modify (notify_result c s d p))" for d
    by (rule keeps_same) (simp add: same_log_def queued_acks_def notify_result_def Let_def)
  have o: "h_keeps (log_ok K) (\<lambda>st. to_project tools c s d (c \<notin> set (co_waiters st)) st)" for d
    using assms by (simp add: tooling_ok_def h_keeps_def)
  show ?thesis
    unfolding handle_command_result_def Let_def
    by (intro h_keeps_bind h_keeps_check t u n o log_keeps_deduction)
qed

lemma log_keeps_batch: "h_keeps (log_ok K) (handle_event_batch w fe ctx es)"
  unfolding handle_event_batch_def
proof ((rule h_keeps_bind[OF h_keeps_check])+)
  let ?ack = "\<lambda>ids. h_modify (\<lambda>st. snd (send_control_frame (nc_node_id ctx) (CF_EventBatchAck (own_meta fe) ids) st))"
  show "h_keeps (log_ok K) (h_bind (accept_batch fe (nc_node_id ctx) 0 es []) ?ack)"
    unfolding h_keeps_def
  proof (intro allI impI)
    fix st assume st: "log_ok K st"
    obtain r st' where r: "accept_batch fe (nc_node_id ctx) 0 es [] st = (r, st')" by force
    note b = accept_batch_log[OF st r]
    show "log_ok K (snd (h_bind (accept_batch fe (nc_node_id ctx) 0 es []) ?ack st))"
    proof (cases r)
      case (Inr ids)
      let ?f = "CF_EventBatchAck (own_meta fe) ids"
      have "log_ok (K \<union> set ids) st'" using b Inr by simp
      then have "log_ok K (snd (send_control_frame (nc_node_id ctx) ?f st'))"
        using send_control_frame_snd[of "nc_node_id ctx" ?f st'] by (auto simp: log_ok_def frame_acks_def)
      then show ?thesis using r Inr by (simp add: h_bind_def h_modify_def)
    qed (use b r in \<open>simp add: h_bind_def\<close>)
  qed
qed

lemma log_keeps_terminal:
  "h_keeps (log_ok K) (handle_terminal_output ctx t q d sent)"
  "h_keeps (log_ok K) (handle_terminal_status ctx t ws c m sent)"
  unfolding handle_terminal_output_def handle_terminal_status_def
  by (intro h_keeps_bind h_keeps_check keeps_same, simp add: same_log_def queued_acks_def)+

lemma handler_keeps_log:
  assumes "tooling_ok (log_ok K) tools"
  shows "h_keeps (log_ok K) (handle_node_control_frame w tools fe ctx frame)"
  unfolding handle_node_control_frame_def
  by (cases frame)
    (auto intro!: h_keeps_bind h_keeps_check h_keeps_ok log_keeps_reject log_keeps_hello log_keeps_ack
      log_keeps_result log_keeps_batch log_keeps_terminal assms)

end
