(* ===== verification/Node_State.thy ===== *)
theory Node_State
  imports Core_Support
begin

text \<open>
  The durable state of the Node daemon, \<open>uprava-node/src/runtime/persistence/state.rs\<close>: the
  state struct, the three-way merge of a command's private snapshot into the owner's state,
  compaction, the SQLite encoding (\<open>save_async\<close>, \<open>load_async\<close>, \<open>hydrate_from_normalized_tables\<close>)
  and the single-owner store that applies mutations.

  The database file is the record \<open>node_disk\<close> of its tables; the JSON of the compatibility
  seed is the value it encodes. Whether the operating system lets a transaction through is
  the argument \<open>io_ok\<close> of a mutation; the \<open>chmod\<close> after the commit is taken to succeed. A \<open>HashSet\<close> is the list of its members.
\<close>

section \<open>State\<close>

record provider_transcript_message =
  ptm_role :: string
  ptm_content :: string

record provider_resume_ref =
  pr_provider_session_id :: "string option"
  pr_resume_cursor :: "string option"

record task_runtime_mapping =
  tm_task_run_id :: id
  tm_worktree_path :: string
  tm_branch :: string
  tm_sandbox_id :: "string option"
  tm_updated_at :: time

record node_local_state =
  nl_state_slot :: string
  nl_schema_version :: "32 word"
  nl_daemon_installation_id :: string
  nl_node_id :: "id option"
  nl_credential :: "string option"
  nl_enrollment_id :: "id option"
  nl_pairing_code :: "string option"
  nl_command_status :: "(id \<times> command_state) list"
  nl_command_result_payloads :: "(id \<times> json) list"
  nl_runtime_seqs :: "(id \<times> int) list"
  nl_event_outbox :: "event_envelope list"
  nl_runtime_providers :: "(id \<times> string) list"
  nl_runtime_workspace_paths :: "(id \<times> string) list"
  nl_runtime_states :: "(id \<times> runtime_session_state) list"
  nl_runtime_transcripts :: "(id \<times> provider_transcript_message list) list"
  nl_runtime_provider_resume_refs :: "(id \<times> provider_resume_ref) list"
  nl_cancelled_deductions :: "id list"
  nl_tool_dependencies :: "(id \<times> json) list"
  nl_task_runtime_mappings :: "(id \<times> task_runtime_mapping) list"
  nl_placement_seqs :: "(id \<times> int) list"
  nl_reconnect_attempts :: u64
  nl_dropped_event_count :: u64
  nl_heartbeat_failures :: u64

definition NODE_STATE_SLOT :: string where
  "NODE_STATE_SLOT = ''0.2.0''"

definition NODE_STATE_SCHEMA_VERSION :: "32 word" where
  "NODE_STATE_SCHEMA_VERSION = 1"

definition MAX_RETAINED_COMMANDS :: nat where
  "MAX_RETAINED_COMMANDS = 1024"

definition MAX_CANCELLED_DEDUCTION_TOMBSTONES :: nat where
  "MAX_CANCELLED_DEDUCTION_TOMBSTONES = 1024"

text \<open>\<open>Default\<close>; the installation id is freshly drawn.\<close>

definition default_node_state :: "string \<Rightarrow> node_local_state" where
  "default_node_state fresh = \<lparr>nl_state_slot = NODE_STATE_SLOT, nl_schema_version = NODE_STATE_SCHEMA_VERSION,
     nl_daemon_installation_id = fresh, nl_node_id = None, nl_credential = None, nl_enrollment_id = None,
     nl_pairing_code = None, nl_command_status = [], nl_command_result_payloads = [], nl_runtime_seqs = [],
     nl_event_outbox = [], nl_runtime_providers = [], nl_runtime_workspace_paths = [],
     nl_runtime_states = [], nl_runtime_transcripts = [], nl_runtime_provider_resume_refs = [],
     nl_cancelled_deductions = [], nl_tool_dependencies = [], nl_task_runtime_mappings = [],
     nl_placement_seqs = [], nl_reconnect_attempts = 0, nl_dropped_event_count = 0,
     nl_heartbeat_failures = 0\<rparr>"

definition is_enrolled :: "node_local_state \<Rightarrow> bool" where
  "is_enrolled s \<longleftrightarrow> nl_node_id s \<noteq> None \<and> nl_credential s \<noteq> None"

definition clear_core_registration :: "node_local_state \<Rightarrow> node_local_state" where
  "clear_core_registration s = s\<lparr>nl_node_id := None, nl_credential := None, nl_enrollment_id := None,
     nl_pairing_code := None\<rparr>"

definition clear_enrollment_attempt :: "node_local_state \<Rightarrow> node_local_state" where
  "clear_enrollment_attempt s = s\<lparr>nl_enrollment_id := None, nl_pairing_code := None\<rparr>"

section \<open>Merging a command snapshot\<close>

definition merge_key :: "('k \<times> 'v) list \<Rightarrow> ('k \<times> 'v) list \<Rightarrow> 'k \<Rightarrow> ('k \<times> 'v) list \<Rightarrow> ('k \<times> 'v) list" where
  "merge_key baseline candidate key owner = (case (hm_get baseline key, hm_get candidate key) of
     (Some previous, Some new) \<Rightarrow> if previous \<noteq> new then hm_insert key new owner else owner
   | (None, Some new) \<Rightarrow> hm_insert key new owner
   | (Some previous, None) \<Rightarrow> if hm_get owner key = Some previous then hm_remove key owner else owner
   | (None, None) \<Rightarrow> owner)"

definition merge_changed_map ::
  "('k \<times> 'v) list \<Rightarrow> ('k \<times> 'v) list \<Rightarrow> ('k \<times> 'v) list \<Rightarrow> ('k \<times> 'v) list" where
  "merge_changed_map owner baseline candidate =
     fold (merge_key baseline candidate) (remdups (map fst baseline @ map fst candidate)) owner"

text \<open>Sequence counters only move forward.\<close>

definition merge_seq :: "(id \<times> int) list \<Rightarrow> id \<times> int \<Rightarrow> (id \<times> int) list \<Rightarrow> (id \<times> int) list" where
  "merge_seq baseline entry owner = (case entry of (key, seq) \<Rightarrow>
     if hm_get baseline key \<noteq> Some seq
     then hm_insert key (max (case hm_get owner key of None \<Rightarrow> 0 | Some s \<Rightarrow> s) seq) owner else owner)"

definition merge_seqs :: "(id \<times> int) list \<Rightarrow> (id \<times> int) list \<Rightarrow> (id \<times> int) list \<Rightarrow> (id \<times> int) list" where
  "merge_seqs owner baseline candidate = fold (merge_seq baseline) candidate owner"

definition has_event :: "event_envelope list \<Rightarrow> id \<Rightarrow> bool" where
  "has_event outbox e \<longleftrightarrow> list_ex (\<lambda>old. ev_event_id old = e) outbox"

definition merge_event :: "event_envelope list \<Rightarrow> event_envelope \<Rightarrow> event_envelope list \<Rightarrow> event_envelope list" where
  "merge_event baseline event owner =
     (if \<not> has_event baseline (ev_event_id event) \<and> \<not> has_event owner (ev_event_id event)
      then owner @ [event] else owner)"

definition merge_outbox ::
  "event_envelope list \<Rightarrow> event_envelope list \<Rightarrow> event_envelope list \<Rightarrow> event_envelope list" where
  "merge_outbox owner baseline candidate = fold (merge_event baseline) candidate owner"

text \<open>At capacity some remembered id is forgotten: \<open>iter().next()\<close> of the hash set.\<close>

definition remember_cancelled_deduction :: "id \<Rightarrow> id list \<Rightarrow> id list" where
  "remember_cancelled_deduction deduction_id tombstones =
     (if deduction_id \<in> set tombstones then tombstones
      else if length tombstones \<ge> MAX_CANCELLED_DEDUCTION_TOMBSTONES
      then tl tombstones @ [deduction_id] else tombstones @ [deduction_id])"

definition merge_cancelled :: "id list \<Rightarrow> id list \<Rightarrow> id list \<Rightarrow> id list" where
  "merge_cancelled owner baseline candidate =
     fold removeAll (filter (\<lambda>d. d \<notin> set candidate) baseline)
       (fold remember_cancelled_deduction (filter (\<lambda>d. d \<notin> set baseline) candidate) owner)"

definition merge_command_state_from ::
  "node_local_state \<Rightarrow> node_local_state \<Rightarrow> node_local_state \<Rightarrow> node_local_state" where
  "merge_command_state_from s baseline command_state = s\<lparr>
     nl_command_status := merge_changed_map (nl_command_status s) (nl_command_status baseline)
        (nl_command_status command_state),
     nl_command_result_payloads := merge_changed_map (nl_command_result_payloads s)
        (nl_command_result_payloads baseline) (nl_command_result_payloads command_state),
     nl_event_outbox := merge_outbox (nl_event_outbox s) (nl_event_outbox baseline)
        (nl_event_outbox command_state),
     nl_runtime_seqs := merge_seqs (nl_runtime_seqs s) (nl_runtime_seqs baseline)
        (nl_runtime_seqs command_state),
     nl_runtime_providers := merge_changed_map (nl_runtime_providers s) (nl_runtime_providers baseline)
        (nl_runtime_providers command_state),
     nl_runtime_workspace_paths := merge_changed_map (nl_runtime_workspace_paths s)
        (nl_runtime_workspace_paths baseline) (nl_runtime_workspace_paths command_state),
     nl_runtime_states := merge_changed_map (nl_runtime_states s) (nl_runtime_states baseline)
        (nl_runtime_states command_state),
     nl_runtime_transcripts := merge_changed_map (nl_runtime_transcripts s)
        (nl_runtime_transcripts baseline) (nl_runtime_transcripts command_state),
     nl_runtime_provider_resume_refs := merge_changed_map (nl_runtime_provider_resume_refs s)
        (nl_runtime_provider_resume_refs baseline) (nl_runtime_provider_resume_refs command_state),
     nl_cancelled_deductions := merge_cancelled (nl_cancelled_deductions s)
        (nl_cancelled_deductions baseline) (nl_cancelled_deductions command_state),
     nl_tool_dependencies := merge_changed_map (nl_tool_dependencies s) (nl_tool_dependencies baseline)
        (nl_tool_dependencies command_state),
     nl_task_runtime_mappings := merge_changed_map (nl_task_runtime_mappings s)
        (nl_task_runtime_mappings baseline) (nl_task_runtime_mappings command_state),
     nl_placement_seqs := merge_seqs (nl_placement_seqs s) (nl_placement_seqs baseline)
        (nl_placement_seqs command_state),
     nl_dropped_event_count := max (nl_dropped_event_count s) (nl_dropped_event_count command_state),
     nl_heartbeat_failures := max (nl_heartbeat_failures s) (nl_heartbeat_failures command_state)\<rparr>"

section \<open>Compaction\<close>

definition terminal_status :: "command_state \<Rightarrow> bool" where
  "terminal_status s \<longleftrightarrow> (case s of CS_Completed \<Rightarrow> True | CS_Failed \<Rightarrow> True | CS_Blocked \<Rightarrow> True
     | CS_Expired \<Rightarrow> True | _ \<Rightarrow> False)"

definition removable_commands :: "node_local_state \<Rightarrow> id list" where
  "removable_commands s =
     (if length (nl_command_status s) > MAX_RETAINED_COMMANDS
      then take (length (nl_command_status s) - MAX_RETAINED_COMMANDS)
             (map fst (filter (\<lambda>(_, st). terminal_status st) (nl_command_status s)))
      else [])"

definition compact_for_persistence :: "node_local_state \<Rightarrow> node_local_state" where
  "compact_for_persistence s =
     (let status = fold hm_remove (removable_commands s) (nl_command_status s);
          payloads = fold hm_remove (removable_commands s) (nl_command_result_payloads s)
      in s\<lparr>nl_command_status := status,
           nl_command_result_payloads := filter (\<lambda>(c, _). hm_get status c \<noteq> None) payloads\<rparr>)"

section \<open>The database file\<close>

record runtime_metadata_row =
  rm_runtime_seq :: "int option"
  rm_provider :: "string option"
  rm_workspace_path :: "string option"
  rm_state :: "runtime_session_state option"
  rm_transcript :: "(provider_transcript_message list) option"
  rm_resume_ref :: "provider_resume_ref option"

record registration_row =
  rg_daemon_installation_id :: string
  rg_node_id :: "id option"
  rg_credential :: "string option"
  rg_enrollment_id :: "id option"
  rg_pairing_code :: "string option"

record node_disk =
  dk_state :: "(string \<times> 32 word \<times> node_local_state) option"
  dk_command_cache :: "(id \<times> string \<times> json option) list"
  dk_event_outbox :: "event_envelope list"
  dk_registration :: "registration_row option"
  dk_metrics :: "(int \<times> int \<times> int) option"
  dk_runtime_metadata :: "(id \<times> runtime_metadata_row) list"
  dk_placement_sequences :: "(id \<times> int) list"
  dk_task_mappings :: "task_runtime_mapping list"

datatype (plugins only: code size) node_error = NE_Io | NE_Constraint | NE_LegacyState | NE_Incompatible

definition command_state_storage :: "command_state \<Rightarrow> string" where
  "command_state_storage s = (case s of CS_Recorded \<Rightarrow> ''recorded'' | CS_PendingDispatch \<Rightarrow> ''pending_dispatch''
     | CS_Dispatched \<Rightarrow> ''dispatched'' | CS_Acknowledged \<Rightarrow> ''acknowledged'' | CS_Completed \<Rightarrow> ''completed''
     | CS_Failed \<Rightarrow> ''failed'' | CS_Blocked \<Rightarrow> ''blocked'' | CS_Expired \<Rightarrow> ''expired'')"

definition command_state_from_storage :: "string \<Rightarrow> command_state option" where
  "command_state_from_storage value = (
     if value = ''recorded'' then Some CS_Recorded else
     if value = ''pending_dispatch'' then Some CS_PendingDispatch else
     if value = ''dispatched'' then Some CS_Dispatched else
     if value = ''acknowledged'' then Some CS_Acknowledged else
     if value = ''completed'' then Some CS_Completed else
     if value = ''failed'' then Some CS_Failed else
     if value = ''blocked'' then Some CS_Blocked else
     if value = ''expired'' then Some CS_Expired else
     None)"

definition sqlite_compatibility_seed :: "node_local_state \<Rightarrow> node_local_state" where
  "sqlite_compatibility_seed s = (default_node_state (nl_daemon_installation_id s))\<lparr>
     nl_state_slot := nl_state_slot s, nl_schema_version := nl_schema_version s,
     nl_cancelled_deductions := nl_cancelled_deductions s,
     nl_tool_dependencies := nl_tool_dependencies s,
     nl_task_runtime_mappings := nl_task_runtime_mappings s\<rparr>"

definition runtime_ids :: "node_local_state \<Rightarrow> id list" where
  "runtime_ids s = remdups (map fst (nl_runtime_seqs s) @ map fst (nl_runtime_providers s)
     @ map fst (nl_runtime_workspace_paths s) @ map fst (nl_runtime_states s)
     @ map fst (nl_runtime_transcripts s) @ map fst (nl_runtime_provider_resume_refs s))"

definition runtime_metadata_of :: "node_local_state \<Rightarrow> id \<Rightarrow> runtime_metadata_row" where
  "runtime_metadata_of s r = \<lparr>rm_runtime_seq = hm_get (nl_runtime_seqs s) r,
     rm_provider = hm_get (nl_runtime_providers s) r,
     rm_workspace_path = hm_get (nl_runtime_workspace_paths s) r,
     rm_state = hm_get (nl_runtime_states s) r,
     rm_transcript = hm_get (nl_runtime_transcripts s) r,
     rm_resume_ref = hm_get (nl_runtime_provider_resume_refs s) r\<rparr>"

text \<open>\<open>as i64\<close>, and \<open>try_into::<u64>().unwrap_or_default()\<close> on the way back.\<close>

definition as_i64 :: "u64 \<Rightarrow> int" where
  "as_i64 w = sint w"

definition u64_of_i64 :: "int \<Rightarrow> u64" where
  "u64_of_i64 i = (if i < 0 then 0 else word_of_int i)"

text \<open>
  The transaction of \<open>save_async\<close> rewrites every table (\<open>disk_of\<close>). Two rows with the same
  primary key are a constraint violation.
\<close>

definition disk_of :: "node_local_state \<Rightarrow> node_disk" where
  "disk_of snapshot = \<lparr>
     dk_state = Some (NODE_STATE_SLOT, NODE_STATE_SCHEMA_VERSION, sqlite_compatibility_seed snapshot),
     dk_command_cache = map (\<lambda>(c, st). (c, command_state_storage st,
        hm_get (nl_command_result_payloads snapshot) c)) (nl_command_status snapshot),
     dk_event_outbox = nl_event_outbox snapshot,
     dk_registration = Some \<lparr>rg_daemon_installation_id = nl_daemon_installation_id snapshot,
        rg_node_id = nl_node_id snapshot, rg_credential = nl_credential snapshot,
        rg_enrollment_id = nl_enrollment_id snapshot, rg_pairing_code = nl_pairing_code snapshot\<rparr>,
     dk_metrics = Some (as_i64 (nl_reconnect_attempts snapshot), as_i64 (nl_dropped_event_count snapshot),
        as_i64 (nl_heartbeat_failures snapshot)),
     dk_runtime_metadata = map (\<lambda>r. (r, runtime_metadata_of snapshot r)) (runtime_ids snapshot),
     dk_placement_sequences = nl_placement_seqs snapshot,
     dk_task_mappings = map snd (nl_task_runtime_mappings snapshot)\<rparr>"

definition save_async :: "node_local_state \<Rightarrow> node_error + node_disk" where
  "save_async s = (let snapshot = compact_for_persistence s in
     and_then (ensure (distinct (map ev_event_id (nl_event_outbox snapshot))
        \<and> distinct (map (\<lambda>(_, m). tm_task_run_id m) (nl_task_runtime_mappings snapshot))) NE_Constraint)
     (\<lambda>_. Inr (disk_of snapshot)))"

text \<open>One \<open>insert\<close> per row whose column is not null, into a cleared map.\<close>

definition insert_rows :: "('r \<Rightarrow> 'v option) \<Rightarrow> ('k \<times> 'r) list \<Rightarrow> ('k \<times> 'v) list" where
  "insert_rows column rows = fold (\<lambda>(k, r) m. case column r of None \<Rightarrow> m | Some v \<Rightarrow> hm_insert k v m) rows []"

definition hydrate_registration :: "node_disk \<Rightarrow> node_local_state \<Rightarrow> node_local_state" where
  "hydrate_registration d s = (case dk_registration d of None \<Rightarrow> s
     | Some r \<Rightarrow> s\<lparr>nl_daemon_installation_id := rg_daemon_installation_id r, nl_node_id := rg_node_id r,
         nl_credential := rg_credential r, nl_enrollment_id := rg_enrollment_id r,
         nl_pairing_code := rg_pairing_code r\<rparr>)"

definition hydrate_metrics :: "node_disk \<Rightarrow> node_local_state \<Rightarrow> node_local_state" where
  "hydrate_metrics d s = (case dk_metrics d of None \<Rightarrow> s
     | Some (a, b, c) \<Rightarrow> s\<lparr>nl_reconnect_attempts := u64_of_i64 a, nl_dropped_event_count := u64_of_i64 b,
         nl_heartbeat_failures := u64_of_i64 c\<rparr>)"

definition hydrate_commands :: "node_disk \<Rightarrow> node_local_state \<Rightarrow> node_local_state" where
  "hydrate_commands d s = (if dk_command_cache d = [] then s
     else s\<lparr>nl_command_status := insert_rows (\<lambda>(st, _). command_state_from_storage st) (dk_command_cache d),
            nl_command_result_payloads := insert_rows (\<lambda>(_, p). p) (dk_command_cache d)\<rparr>)"

definition hydrate_runtimes :: "node_disk \<Rightarrow> node_local_state \<Rightarrow> node_local_state" where
  "hydrate_runtimes d s = (let rows = dk_runtime_metadata d in if rows = [] then s
     else s\<lparr>nl_runtime_seqs := insert_rows rm_runtime_seq rows,
            nl_runtime_providers := insert_rows rm_provider rows,
            nl_runtime_workspace_paths := insert_rows rm_workspace_path rows,
            nl_runtime_states := insert_rows rm_state rows,
            nl_runtime_transcripts := insert_rows rm_transcript rows,
            nl_runtime_provider_resume_refs := insert_rows rm_resume_ref rows\<rparr>)"

definition hydrate_from_normalized_tables :: "node_disk \<Rightarrow> node_local_state \<Rightarrow> node_local_state" where
  "hydrate_from_normalized_tables d s =
     (let s1 = hydrate_commands d (hydrate_metrics d (hydrate_registration d s));
          s2 = (if dk_event_outbox d = [] then s1 else s1\<lparr>nl_event_outbox := dk_event_outbox d\<rparr>);
          s3 = hydrate_runtimes d s2;
          s4 = (if dk_placement_sequences d = [] then s3
                else s3\<lparr>nl_placement_seqs := insert_rows Some (dk_placement_sequences d)\<rparr>)
      in if dk_task_mappings d = [] then s4
         else s4\<lparr>nl_task_runtime_mappings :=
                insert_rows Some (map (\<lambda>m. (tm_task_run_id m, m)) (dk_task_mappings d))\<rparr>)"

definition load_async :: "bool \<Rightarrow> string \<Rightarrow> node_disk option \<Rightarrow> node_error + node_local_state" where
  "load_async legacy_exists fresh file = (case file of
     None \<Rightarrow> if legacy_exists then Inl NE_LegacyState else Inr (default_node_state fresh)
   | Some d \<Rightarrow> (case dk_state d of
       None \<Rightarrow> Inr (default_node_state fresh)
     | Some (slot, version, seed) \<Rightarrow>
         if slot \<noteq> NODE_STATE_SLOT \<or> version \<noteq> NODE_STATE_SCHEMA_VERSION then Inl NE_Incompatible
         else Inr (hydrate_from_normalized_tables d seed)))"

section \<open>The single-owner store\<close>

record node_store =
  sr_state :: node_local_state
  sr_file :: "node_disk option"

datatype (plugins only: code size) node_state_mutation =
    PersistEnrollmentAttempt id string
  | ClearEnrollmentAttempt
  | PersistEnrollmentIdentity id string
  | ClearCoreRegistration
  | PersistReconnectAttempt
  | PersistHeartbeatFailure
  | PersistEventAck "id list"
  | MergeCommandState node_local_state node_local_state
  | UpsertTaskRuntimeMapping task_runtime_mapping
  | RemoveTaskRuntimeMapping id

datatype (plugins only: code size) node_state_mutation_result = NR_Unit | NR_RemovedEvents nat

definition remove_acked_events :: "id list \<Rightarrow> event_envelope list \<Rightarrow> nat \<times> event_envelope list" where
  "remove_acked_events accepted_event_ids outbox =
     (if outbox = [] \<or> accepted_event_ids = [] then (0, outbox)
      else let rest = filter (\<lambda>e. ev_event_id e \<notin> set accepted_event_ids) outbox
           in (length outbox - length rest, rest))"

text \<open>The change of the state in memory, which precedes the save.\<close>

definition mutate_state :: "node_state_mutation \<Rightarrow> node_local_state \<Rightarrow> node_local_state" where
  "mutate_state m s = (case m of
     PersistEnrollmentAttempt e code \<Rightarrow> s\<lparr>nl_enrollment_id := Some e, nl_pairing_code := Some code\<rparr>
   | ClearEnrollmentAttempt \<Rightarrow> clear_enrollment_attempt s
   | PersistEnrollmentIdentity n credential \<Rightarrow> s\<lparr>nl_node_id := Some n, nl_credential := Some credential,
       nl_enrollment_id := None, nl_pairing_code := None\<rparr>
   | ClearCoreRegistration \<Rightarrow> clear_core_registration s
   | PersistReconnectAttempt \<Rightarrow> s\<lparr>nl_reconnect_attempts := saturating_add (nl_reconnect_attempts s) 1\<rparr>
   | PersistHeartbeatFailure \<Rightarrow> s\<lparr>nl_heartbeat_failures := saturating_add (nl_heartbeat_failures s) 1\<rparr>
   | PersistEventAck ids \<Rightarrow> s\<lparr>nl_event_outbox := snd (remove_acked_events ids (nl_event_outbox s))\<rparr>
   | MergeCommandState baseline command_state \<Rightarrow> merge_command_state_from s baseline command_state
   | UpsertTaskRuntimeMapping mapping \<Rightarrow> s\<lparr>nl_task_runtime_mappings :=
       hm_insert (tm_task_run_id mapping) mapping (nl_task_runtime_mappings s)\<rparr>
   | RemoveTaskRuntimeMapping t \<Rightarrow> s\<lparr>nl_task_runtime_mappings := hm_remove t (nl_task_runtime_mappings s)\<rparr>)"

definition mutation_saves :: "node_state_mutation \<Rightarrow> node_local_state \<Rightarrow> bool" where
  "mutation_saves m s = (case m of
     PersistEventAck ids \<Rightarrow> fst (remove_acked_events ids (nl_event_outbox s)) > 0 | _ \<Rightarrow> True)"

definition mutation_result :: "node_state_mutation \<Rightarrow> node_local_state \<Rightarrow> node_state_mutation_result" where
  "mutation_result m s = (case m of
     PersistEventAck ids \<Rightarrow> NR_RemovedEvents (fst (remove_acked_events ids (nl_event_outbox s))) | _ \<Rightarrow> NR_Unit)"

definition apply_node_state_mutation ::
  "bool \<Rightarrow> node_state_mutation \<Rightarrow> node_store \<Rightarrow> (node_error + node_state_mutation_result) \<times> node_store" where
  "apply_node_state_mutation io_ok m st =
     (let s = mutate_state m (sr_state st); r = mutation_result m (sr_state st) in
      if \<not> mutation_saves m (sr_state st) then (Inr r, st\<lparr>sr_state := s\<rparr>)
      else if \<not> io_ok then (Inl NE_Io, st\<lparr>sr_state := s\<rparr>)
      else case save_async s of Inl e \<Rightarrow> (Inl e, st\<lparr>sr_state := s\<rparr>)
         | Inr d \<Rightarrow> (Inr r, st\<lparr>sr_state := s, sr_file := Some d\<rparr>))"

section \<open>The merge is a three-way merge\<close>

lemma hm_get_merge_key:
  "hm_get (merge_key b c k m) k' =
   (if k' = k \<and> hm_get b k \<noteq> hm_get c k
    then (case hm_get c k of Some v \<Rightarrow> Some v | None \<Rightarrow> if hm_get m k = hm_get b k then None else hm_get m k)
    else hm_get m k')"
  by (auto simp: merge_key_def split: option.splits)

lemma hm_get_merge_keys:
  "distinct ks \<Longrightarrow> hm_get (fold (merge_key b c) ks m) k =
   (if k \<in> set ks \<and> hm_get b k \<noteq> hm_get c k
    then (case hm_get c k of Some v \<Rightarrow> Some v | None \<Rightarrow> if hm_get m k = hm_get b k then None else hm_get m k)
    else hm_get m k)"
  by (induction ks arbitrary: m) (auto simp: hm_get_merge_key split: option.splits)

lemma hm_get_None_keys: "hm_get m k = None \<longleftrightarrow> k \<notin> set (map fst m)"
  by (simp add: map_of_eq_None_iff)

text \<open>
  What the snapshot changed wins, except that a deletion does not undo a concurrent change;
  what it left alone keeps the owner's value.
\<close>

lemma hm_get_merge_changed [table_simps]:
  "hm_get (merge_changed_map owner baseline candidate) k =
   (if hm_get baseline k = hm_get candidate k then hm_get owner k
    else case hm_get candidate k of Some v \<Rightarrow> Some v
         | None \<Rightarrow> if hm_get owner k = hm_get baseline k then None else hm_get owner k)"
proof -
  have d: "distinct (remdups (map fst baseline @ map fst candidate))" by simp
  have "hm_get baseline k \<noteq> hm_get candidate k \<Longrightarrow>
      k \<in> set (remdups (map fst baseline @ map fst candidate))"
    using hm_get_None_keys[of baseline k] hm_get_None_keys[of candidate k] by force
  then show ?thesis unfolding merge_changed_map_def hm_get_merge_keys[OF d] by auto
qed

lemma hm_wf_merge_key: "hm_wf m \<Longrightarrow> hm_wf (merge_key b c k m)"
  by (simp add: merge_key_def split: option.splits)

lemma hm_wf_merge_changed: "hm_wf m \<Longrightarrow> hm_wf (merge_changed_map m b c)"
  unfolding merge_changed_map_def
  by (rule fold_invariant[where Q = "\<lambda>_. True"]) (auto simp: hm_wf_merge_key)

lemma hm_get_merge_seq:
  "hm_get (merge_seq b (k, v) m) k' =
   (if k' = k \<and> hm_get b k \<noteq> Some v then Some (max (case hm_get m k of None \<Rightarrow> 0 | Some s \<Rightarrow> s) v)
    else hm_get m k')"
  by (simp add: merge_seq_def)

lemma hm_get_merge_seqs [table_simps]:
  "hm_wf candidate \<Longrightarrow> hm_get (merge_seqs owner baseline candidate) k =
   (case hm_get candidate k of None \<Rightarrow> hm_get owner k
    | Some v \<Rightarrow> if hm_get baseline k = Some v then hm_get owner k
        else Some (max (case hm_get owner k of None \<Rightarrow> 0 | Some s \<Rightarrow> s) v))"
  unfolding merge_seqs_def
proof (induction candidate arbitrary: owner)
  case (Cons e es)
  obtain k1 v1 where e: "e = (k1, v1)" by force
  have n: "hm_get es k1 = None" and w: "hm_wf es"
    using Cons.prems e by (auto simp: hm_wf_def map_of_eq_None_iff)
  show ?case using n Cons.IH[OF w, of "merge_seq baseline e owner"]
    by (simp add: e hm_get_merge_seq split: option.splits)
qed simp

lemma hm_get_merge_seqs_mono:
  "hm_get owner k = Some n \<Longrightarrow> \<exists>n'. hm_get (merge_seqs owner baseline candidate) k = Some n' \<and> n \<le> n'"
  unfolding merge_seqs_def
proof (induction candidate arbitrary: owner n)
  case (Cons e es)
  have "\<exists>m. hm_get (merge_seq baseline e owner) k = Some m \<and> n \<le> m"
    using Cons.prems by (cases e) (auto simp: hm_get_merge_seq)
  then obtain m where m: "hm_get (merge_seq baseline e owner) k = Some m" "n \<le> m" by blast
  then show ?case using Cons.IH[OF m(1)] by (auto intro: order_trans)
qed simp

lemma hm_wf_merge_seqs: "hm_wf m \<Longrightarrow> hm_wf (merge_seqs m b c)"
  unfolding merge_seqs_def
  by (rule fold_invariant[where Q = "\<lambda>_. True"]) (auto simp: merge_seq_def split: prod.splits)

lemma has_event_iff: "has_event es e \<longleftrightarrow> e \<in> ev_event_id ` set es"
  by (auto simp: has_event_def list_ex_iff)

lemma merge_event_cases:
  "merge_event baseline e owner = owner
   \<or> merge_event baseline e owner = owner @ [e] \<and> ev_event_id e \<notin> ev_event_id ` set baseline"
  by (auto simp: merge_event_def has_event_iff)

lemma merge_outbox_append:
  "\<exists>new. merge_outbox owner baseline candidate = owner @ new
     \<and> set new \<subseteq> set candidate
     \<and> (\<forall>e\<in>set new. ev_event_id e \<notin> ev_event_id ` set baseline)"
  unfolding merge_outbox_def
proof (induction candidate arbitrary: owner)
  case (Cons e es)
  obtain new where new: "fold (merge_event baseline) es (merge_event baseline e owner)
      = merge_event baseline e owner @ new" "set new \<subseteq> set es"
      "\<forall>e\<in>set new. ev_event_id e \<notin> ev_event_id ` set baseline"
    using Cons.IH by blast
  show ?case
    using merge_event_cases[of baseline e owner]
  proof (elim disjE conjE)
    assume "merge_event baseline e owner = owner"
    then show ?thesis using new by (intro exI[of _ new]) auto
  next
    assume "merge_event baseline e owner = owner @ [e]" "ev_event_id e \<notin> ev_event_id ` set baseline"
    then show ?thesis using new by (intro exI[of _ "e # new"]) auto
  qed
qed simp

lemma ids_merge_outbox:
  "ev_event_id ` set (merge_outbox owner baseline candidate) =
   ev_event_id ` set owner \<union> (ev_event_id ` set candidate - ev_event_id ` set baseline)"
  unfolding merge_outbox_def
proof (induction candidate arbitrary: owner)
  case (Cons e es)
  show ?case using Cons.IH[of "merge_event baseline e owner"]
    by (auto simp: merge_event_def has_event_iff split: if_splits)
qed simp

lemma distinct_merge_outbox:
  "distinct (map ev_event_id owner) \<Longrightarrow> distinct (map ev_event_id (merge_outbox owner baseline candidate))"
  unfolding merge_outbox_def
  by (rule fold_invariant[where Q = "\<lambda>_. True"]) (auto simp: merge_event_def has_event_iff)

lemma length_remember:
  "length t \<le> MAX_CANCELLED_DEDUCTION_TOMBSTONES \<Longrightarrow>
   length (remember_cancelled_deduction d t) \<le> MAX_CANCELLED_DEDUCTION_TOMBSTONES"
  by (cases t) (auto simp: remember_cancelled_deduction_def MAX_CANCELLED_DEDUCTION_TOMBSTONES_def)

lemma remember_member: "d \<in> set (remember_cancelled_deduction d t)"
  by (simp add: remember_cancelled_deduction_def)

section \<open>Compaction\<close>

lemma fold_remove_filter: "fold hm_remove ks m = filter (\<lambda>(k, _). k \<notin> set ks) m"
proof (induction ks arbitrary: m)
  case (Cons k ks)
  then show ?case by (simp add: AList.delete_eq case_prod_unfold) (rule filter_cong, auto)
qed (simp add: case_prod_unfold)

lemma hm_get_fold_remove [simp]:
  "hm_get (fold hm_remove ks m) k = (if k \<in> set ks then None else hm_get m k)"
  by (induction ks arbitrary: m) auto

lemma hm_wf_fold_remove: "hm_wf m \<Longrightarrow> hm_wf (fold hm_remove ks m)"
  by (simp add: fold_remove_filter hm_wf_filter)

lemma removable_terminal:
  assumes "hm_wf (nl_command_status s)" "c \<in> set (removable_commands s)"
  shows "\<exists>st. hm_get (nl_command_status s) c = Some st \<and> terminal_status st"
  using assms by (auto simp: removable_commands_def hm_wf_def split: if_splits dest!: in_set_takeD) blast

lemma compact_status:
  assumes "hm_wf (nl_command_status s)"
  shows "hm_get (nl_command_status (compact_for_persistence s)) c =
     (if c \<in> set (removable_commands s) then None else hm_get (nl_command_status s) c)"
    and "hm_get (nl_command_status s) c = Some st \<Longrightarrow> \<not> terminal_status st \<Longrightarrow>
       hm_get (nl_command_status (compact_for_persistence s)) c = Some st"
  using removable_terminal[OF assms, of c] by (auto simp: compact_for_persistence_def Let_def)

lemma compact_payload:
  "hm_get (nl_command_result_payloads (compact_for_persistence s)) c =
   (if hm_get (nl_command_status (compact_for_persistence s)) c = None then None
    else hm_get (nl_command_result_payloads s) c)"
proof -
  have f: "hm_get (filter (\<lambda>(c, _). P c) m) c = (if P c then hm_get m c else None)" for P m
    by (induction m) auto
  show ?thesis by (simp add: compact_for_persistence_def Let_def f)
qed

lemma length_filter_keys:
  assumes "distinct (map fst m)" "distinct ks" "set ks \<subseteq> set (map fst m)"
  shows "length (filter (\<lambda>(k, _). k \<notin> set ks) m) = length m - length ks"
proof -
  let ?in = "filter (\<lambda>(k, _). k \<in> set ks) m"
  have "set (map fst ?in) = set ks" using assms(3) by force
  moreover have "distinct (map fst ?in)" using assms(1) by (simp add: distinct_map_filter)
  ultimately have "length ?in = length ks" using assms(2) by (metis distinct_card length_map)
  moreover have "length ?in + length (filter (\<lambda>(k, _). k \<notin> set ks) m) = length m"
    using sum_length_filter_compl[of "\<lambda>(k, _). k \<in> set ks" m] by (simp add: case_prod_unfold)
  ultimately show ?thesis by simp
qed

lemma compact_bound:
  assumes wf: "hm_wf (nl_command_status s)"
  shows "length (nl_command_status (compact_for_persistence s)) \<le> MAX_RETAINED_COMMANDS
     \<or> (\<forall>(c, st)\<in>set (nl_command_status (compact_for_persistence s)). \<not> terminal_status st)"
proof -
  let ?m = "nl_command_status s"
  let ?t = "map fst (filter (\<lambda>(_, st). terminal_status st) ?m)"
  let ?k = "length ?m - MAX_RETAINED_COMMANDS"
  have dt: "distinct ?t" using wf by (simp add: hm_wf_def distinct_map_filter)
  have c: "nl_command_status (compact_for_persistence s) = filter (\<lambda>(k, _). k \<notin> set (removable_commands s)) ?m"
    by (simp add: compact_for_persistence_def Let_def fold_remove_filter)
  consider "length ?m \<le> MAX_RETAINED_COMMANDS" | "length ?m > MAX_RETAINED_COMMANDS" "length ?t \<le> ?k"
    | "length ?m > MAX_RETAINED_COMMANDS" "length ?t > ?k" by linarith
  then show ?thesis
  proof cases
    case 1
    then show ?thesis using c le_trans[OF length_filter_le] by metis
  next
    case 2
    then have "removable_commands s = ?t" by (simp add: removable_commands_def)
    then show ?thesis unfolding c by force
  next
    case 3
    then have r: "removable_commands s = take ?k ?t" by (simp add: removable_commands_def)
    have "set (take ?k ?t) \<subseteq> set (map fst ?m)" by (force dest: in_set_takeD)
    then have "length (filter (\<lambda>(k, _). k \<notin> set (take ?k ?t)) ?m) = length ?m - length (take ?k ?t)"
      using wf dt by (intro length_filter_keys) (simp_all add: hm_wf_def)
    then show ?thesis unfolding c r using 3 by simp
  qed
qed

section \<open>Saving and loading\<close>

lemma command_state_storage_roundtrip: "command_state_from_storage (command_state_storage s) = Some s"
  by (cases s) (simp_all add: command_state_storage_def command_state_from_storage_def)

lemma u64_i64_roundtrip:
  assumes "unat w < 2 ^ 63" shows "u64_of_i64 (as_i64 w) = w"
proof -
  have "uint w < 2 ^ 63" using assms by (simp add: uint_nat del: of_nat_unat)
  then have "sint w = uint w"
    unfolding sint_uint by (intro signed_take_bit_int_eq_self) (simp_all add: order_trans[OF _ uint_ge_0])
  then show ?thesis by (simp add: as_i64_def u64_of_i64_def)
qed

lemma hm_get_insert_rows_gen:
  "hm_wf rows \<Longrightarrow> hm_get (fold (\<lambda>(k, r) m. case col r of None \<Rightarrow> m | Some v \<Rightarrow> hm_insert k v m) rows m) k =
   (case Option.bind (hm_get rows k) col of None \<Rightarrow> hm_get m k | Some v \<Rightarrow> Some v)"
proof (induction rows arbitrary: m)
  case (Cons r rows)
  obtain k1 r1 where r: "r = (k1, r1)" by force
  have n: "hm_get rows k1 = None" and w: "hm_wf rows"
    using Cons.prems r by (auto simp: hm_wf_def map_of_eq_None_iff)
  show ?case using n Cons.IH[OF w] by (auto simp: r split: option.splits)
qed simp

lemma hm_get_insert_rows:
  "hm_wf rows \<Longrightarrow> hm_get (insert_rows col rows) k = Option.bind (hm_get rows k) col"
  unfolding insert_rows_def hm_get_insert_rows_gen by (simp split: option.splits)

text \<open>States that agree on every field, hash maps and sets compared by content.\<close>

definition state_eq :: "node_local_state \<Rightarrow> node_local_state \<Rightarrow> bool" where
  "state_eq s t \<longleftrightarrow> nl_state_slot s = nl_state_slot t \<and> nl_schema_version s = nl_schema_version t
     \<and> nl_daemon_installation_id s = nl_daemon_installation_id t \<and> nl_node_id s = nl_node_id t
     \<and> nl_credential s = nl_credential t \<and> nl_enrollment_id s = nl_enrollment_id t
     \<and> nl_pairing_code s = nl_pairing_code t
     \<and> hm_get (nl_command_status s) = hm_get (nl_command_status t)
     \<and> hm_get (nl_command_result_payloads s) = hm_get (nl_command_result_payloads t)
     \<and> hm_get (nl_runtime_seqs s) = hm_get (nl_runtime_seqs t)
     \<and> nl_event_outbox s = nl_event_outbox t
     \<and> hm_get (nl_runtime_providers s) = hm_get (nl_runtime_providers t)
     \<and> hm_get (nl_runtime_workspace_paths s) = hm_get (nl_runtime_workspace_paths t)
     \<and> hm_get (nl_runtime_states s) = hm_get (nl_runtime_states t)
     \<and> hm_get (nl_runtime_transcripts s) = hm_get (nl_runtime_transcripts t)
     \<and> hm_get (nl_runtime_provider_resume_refs s) = hm_get (nl_runtime_provider_resume_refs t)
     \<and> set (nl_cancelled_deductions s) = set (nl_cancelled_deductions t)
     \<and> hm_get (nl_tool_dependencies s) = hm_get (nl_tool_dependencies t)
     \<and> hm_get (nl_task_runtime_mappings s) = hm_get (nl_task_runtime_mappings t)
     \<and> hm_get (nl_placement_seqs s) = hm_get (nl_placement_seqs t)
     \<and> nl_reconnect_attempts s = nl_reconnect_attempts t
     \<and> nl_dropped_event_count s = nl_dropped_event_count t
     \<and> nl_heartbeat_failures s = nl_heartbeat_failures t"

text \<open>
  Well-formed states: hash maps have distinct keys, a task mapping is stored under its own
  id, and the three counters stay in the range of the columns they are stored in.
\<close>

definition node_state_wf :: "node_local_state \<Rightarrow> bool" where
  "node_state_wf s \<longleftrightarrow> hm_wf (nl_command_status s) \<and> hm_wf (nl_command_result_payloads s)
     \<and> hm_wf (nl_runtime_seqs s) \<and> hm_wf (nl_runtime_providers s) \<and> hm_wf (nl_runtime_workspace_paths s)
     \<and> hm_wf (nl_runtime_states s) \<and> hm_wf (nl_runtime_transcripts s)
     \<and> hm_wf (nl_runtime_provider_resume_refs s) \<and> hm_wf (nl_tool_dependencies s)
     \<and> hm_wf (nl_task_runtime_mappings s) \<and> hm_wf (nl_placement_seqs s)
     \<and> (\<forall>(t, m)\<in>set (nl_task_runtime_mappings s). tm_task_run_id m = t)
     \<and> distinct (map ev_event_id (nl_event_outbox s))"

definition metrics_in_range :: "node_local_state \<Rightarrow> bool" where
  "metrics_in_range s \<longleftrightarrow> unat (nl_reconnect_attempts s) < 2 ^ 63
     \<and> unat (nl_dropped_event_count s) < 2 ^ 63 \<and> unat (nl_heartbeat_failures s) < 2 ^ 63"

lemma compact_frame [simp]:
  "nl_state_slot (compact_for_persistence s) = nl_state_slot s"
  "nl_schema_version (compact_for_persistence s) = nl_schema_version s"
  "nl_daemon_installation_id (compact_for_persistence s) = nl_daemon_installation_id s"
  "nl_node_id (compact_for_persistence s) = nl_node_id s"
  "nl_credential (compact_for_persistence s) = nl_credential s"
  "nl_enrollment_id (compact_for_persistence s) = nl_enrollment_id s"
  "nl_pairing_code (compact_for_persistence s) = nl_pairing_code s"
  "nl_runtime_seqs (compact_for_persistence s) = nl_runtime_seqs s"
  "nl_event_outbox (compact_for_persistence s) = nl_event_outbox s"
  "nl_runtime_providers (compact_for_persistence s) = nl_runtime_providers s"
  "nl_runtime_workspace_paths (compact_for_persistence s) = nl_runtime_workspace_paths s"
  "nl_runtime_states (compact_for_persistence s) = nl_runtime_states s"
  "nl_runtime_transcripts (compact_for_persistence s) = nl_runtime_transcripts s"
  "nl_runtime_provider_resume_refs (compact_for_persistence s) = nl_runtime_provider_resume_refs s"
  "nl_cancelled_deductions (compact_for_persistence s) = nl_cancelled_deductions s"
  "nl_tool_dependencies (compact_for_persistence s) = nl_tool_dependencies s"
  "nl_task_runtime_mappings (compact_for_persistence s) = nl_task_runtime_mappings s"
  "nl_placement_seqs (compact_for_persistence s) = nl_placement_seqs s"
  "nl_reconnect_attempts (compact_for_persistence s) = nl_reconnect_attempts s"
  "nl_dropped_event_count (compact_for_persistence s) = nl_dropped_event_count s"
  "nl_heartbeat_failures (compact_for_persistence s) = nl_heartbeat_failures s"
  by (simp_all add: compact_for_persistence_def Let_def)

lemma node_state_wf_compact: "node_state_wf s \<Longrightarrow> node_state_wf (compact_for_persistence s)"
  by (auto simp: node_state_wf_def) (simp_all add: compact_for_persistence_def Let_def hm_wf_fold_remove hm_wf_filter)

text \<open>Each group of tables gives back the maps it was written from.\<close>

lemma command_cache_maps:
  fixes status :: "(id \<times> command_state) list" and payloads :: "(id \<times> json) list"
  defines "rows \<equiv> map (\<lambda>(c, st). (c, command_state_storage st, hm_get payloads c)) status"
  assumes "hm_wf status" "\<And>c. hm_get payloads c \<noteq> None \<Longrightarrow> hm_get status c \<noteq> None"
  shows "hm_get (insert_rows (\<lambda>(st, _). command_state_from_storage st) rows) = hm_get status"
    and "hm_get (insert_rows (\<lambda>(_, p). p) rows) = hm_get payloads"
proof -
  have w: "hm_wf rows" using assms(2) by (simp add: rows_def hm_wf_def comp_def case_prod_unfold)
  have g: "hm_get rows c = map_option (\<lambda>st. (command_state_storage st, hm_get payloads c)) (hm_get status c)" for c
    unfolding rows_def by (induction status) auto
  show "hm_get (insert_rows (\<lambda>(st, _). command_state_from_storage st) rows) = hm_get status"
    by (rule ext) (simp add: hm_get_insert_rows[OF w] g command_state_storage_roundtrip bind_map_option comp_def)
  show "hm_get (insert_rows (\<lambda>(_, p). p) rows) = hm_get payloads"
  proof
    fix c show "hm_get (insert_rows (\<lambda>(_, p). p) rows) c = hm_get payloads c"
      using assms(3)[of c]
      by (cases "hm_get status c"; cases "hm_get payloads c") (auto simp: hm_get_insert_rows[OF w] g)
  qed
qed

lemma runtime_metadata_maps:
  fixes s :: node_local_state
  defines "rows \<equiv> map (\<lambda>r. (r, runtime_metadata_of s r)) (runtime_ids s)"
  assumes "\<And>r. col (runtime_metadata_of s r) = hm_get m r" "set (map fst m) \<subseteq> set (runtime_ids s)"
  shows "hm_get (insert_rows col rows) = hm_get m"
proof
  fix k
  have w: "hm_wf rows" by (simp add: rows_def hm_wf_def comp_def runtime_ids_def)
  have "hm_get rows k = (if k \<in> set (runtime_ids s) then Some (runtime_metadata_of s k) else None)"
    by (simp add: rows_def map_of_map_restrict restrict_map_def)
  then show "hm_get (insert_rows col rows) k = hm_get m k"
    using assms(2,3) hm_get_None_keys[of m k] by (auto simp: hm_get_insert_rows[OF w])
qed

lemma save_async_wf:
  assumes "node_state_wf s" shows "save_async s = Inr (disk_of (compact_for_persistence s))"
proof -
  have k: "map (\<lambda>(_, m). tm_task_run_id m) (nl_task_runtime_mappings s) = map fst (nl_task_runtime_mappings s)"
    using assms by (auto simp: node_state_wf_def)
  then have "distinct (map (\<lambda>(_, m). tm_task_run_id m) (nl_task_runtime_mappings s))"
    using assms unfolding k by (simp add: node_state_wf_def hm_wf_def)
  then show ?thesis using assms by (simp add: save_async_def Let_def node_state_wf_def)
qed

lemma save_async_Inr: "save_async s = Inr d \<Longrightarrow> d = disk_of (compact_for_persistence s)"
  by (auto simp: save_async_def Let_def result_simps)

lemma hydrate_other_fields:
  fixes t :: node_local_state
  defines "h \<equiv> hydrate_from_normalized_tables (disk_of t) (sqlite_compatibility_seed t)"
  shows "nl_state_slot h = nl_state_slot t" "nl_schema_version h = nl_schema_version t"
    "nl_daemon_installation_id h = nl_daemon_installation_id t" "nl_node_id h = nl_node_id t"
    "nl_credential h = nl_credential t" "nl_enrollment_id h = nl_enrollment_id t"
    "nl_pairing_code h = nl_pairing_code t" "nl_event_outbox h = nl_event_outbox t"
    "nl_cancelled_deductions h = nl_cancelled_deductions t" "nl_tool_dependencies h = nl_tool_dependencies t"
    "nl_reconnect_attempts h = u64_of_i64 (as_i64 (nl_reconnect_attempts t))"
    "nl_dropped_event_count h = u64_of_i64 (as_i64 (nl_dropped_event_count t))"
    "nl_heartbeat_failures h = u64_of_i64 (as_i64 (nl_heartbeat_failures t))"
  by (simp_all add: h_def hydrate_from_normalized_tables_def hydrate_registration_def hydrate_metrics_def
      hydrate_commands_def hydrate_runtimes_def disk_of_def sqlite_compatibility_seed_def
      default_node_state_def Let_def)

lemma hydrate_map_fields:
  fixes t :: node_local_state
  defines "h \<equiv> hydrate_from_normalized_tables (disk_of t) (sqlite_compatibility_seed t)"
  shows "nl_command_status h = (if nl_command_status t = [] then []
      else insert_rows (\<lambda>(st, _). command_state_from_storage st) (dk_command_cache (disk_of t)))"
    "nl_command_result_payloads h = (if nl_command_status t = [] then []
      else insert_rows (\<lambda>(_, p). p) (dk_command_cache (disk_of t)))"
    "nl_runtime_seqs h = (if runtime_ids t = [] then []
      else insert_rows rm_runtime_seq (dk_runtime_metadata (disk_of t)))"
    "nl_runtime_providers h = (if runtime_ids t = [] then []
      else insert_rows rm_provider (dk_runtime_metadata (disk_of t)))"
    "nl_runtime_workspace_paths h = (if runtime_ids t = [] then []
      else insert_rows rm_workspace_path (dk_runtime_metadata (disk_of t)))"
    "nl_runtime_states h = (if runtime_ids t = [] then []
      else insert_rows rm_state (dk_runtime_metadata (disk_of t)))"
    "nl_runtime_transcripts h = (if runtime_ids t = [] then []
      else insert_rows rm_transcript (dk_runtime_metadata (disk_of t)))"
    "nl_runtime_provider_resume_refs h = (if runtime_ids t = [] then []
      else insert_rows rm_resume_ref (dk_runtime_metadata (disk_of t)))"
    "nl_placement_seqs h = (if nl_placement_seqs t = [] then [] else insert_rows Some (nl_placement_seqs t))"
    "nl_task_runtime_mappings h = (if nl_task_runtime_mappings t = [] then []
      else insert_rows Some (map (\<lambda>m. (tm_task_run_id m, m)) (map snd (nl_task_runtime_mappings t))))"
  by (simp_all add: h_def hydrate_from_normalized_tables_def hydrate_registration_def hydrate_metrics_def
      hydrate_commands_def hydrate_runtimes_def disk_of_def sqlite_compatibility_seed_def
      default_node_state_def Let_def)

lemma runtime_column_roundtrip:
  assumes "\<And>r. col (runtime_metadata_of t r) = hm_get m r" "set (map fst m) \<subseteq> set (runtime_ids t)"
  shows "hm_get (if runtime_ids t = [] then [] else insert_rows col (dk_runtime_metadata (disk_of t))) = hm_get m"
proof (cases "runtime_ids t = []")
  case True
  then show ?thesis using assms(2) by simp
next
  case False
  then show ?thesis using runtime_metadata_maps[of col t m, OF assms] by (simp add: disk_of_def)
qed

lemma runtime_ids_superset:
  "set (map fst (nl_runtime_seqs t)) \<subseteq> set (runtime_ids t)"
  "set (map fst (nl_runtime_providers t)) \<subseteq> set (runtime_ids t)"
  "set (map fst (nl_runtime_workspace_paths t)) \<subseteq> set (runtime_ids t)"
  "set (map fst (nl_runtime_states t)) \<subseteq> set (runtime_ids t)"
  "set (map fst (nl_runtime_transcripts t)) \<subseteq> set (runtime_ids t)"
  "set (map fst (nl_runtime_provider_resume_refs t)) \<subseteq> set (runtime_ids t)"
  by (auto simp: runtime_ids_def)

lemma insert_rows_Some: "hm_wf m \<Longrightarrow> hm_get (if m = [] then [] else insert_rows Some m) = hm_get m"
  by (rule ext) (simp add: hm_get_insert_rows)

lemma task_rows:
  "\<forall>(t, m)\<in>set ms. tm_task_run_id m = t \<Longrightarrow> map (\<lambda>m. (tm_task_run_id m, m)) (map snd ms) = ms"
  by (induction ms) auto

lemma hydrate_roundtrip:
  fixes t :: node_local_state
  defines "h \<equiv> hydrate_from_normalized_tables (disk_of t) (sqlite_compatibility_seed t)"
  assumes wf: "node_state_wf t" and m: "metrics_in_range t"
    and p: "\<And>c. hm_get (nl_command_result_payloads t) c \<noteq> None \<Longrightarrow> hm_get (nl_command_status t) c \<noteq> None"
  shows "state_eq h t"
proof -
  have c: "hm_wf (nl_command_status t)" using wf by (simp add: node_state_wf_def)
  have np: "nl_command_status t = [] \<Longrightarrow> hm_get (nl_command_result_payloads t) = Map.empty"
    using p by (intro ext) force
  note cmds = command_cache_maps[OF c p]
  have cs: "hm_get (nl_command_status h) = hm_get (nl_command_status t)"
    "hm_get (nl_command_result_payloads h) = hm_get (nl_command_result_payloads t)"
    using cmds np by (simp_all add: h_def hydrate_map_fields) (simp_all add: disk_of_def)
  have rt: "hm_get (nl_runtime_seqs h) = hm_get (nl_runtime_seqs t)"
    "hm_get (nl_runtime_providers h) = hm_get (nl_runtime_providers t)"
    "hm_get (nl_runtime_workspace_paths h) = hm_get (nl_runtime_workspace_paths t)"
    "hm_get (nl_runtime_states h) = hm_get (nl_runtime_states t)"
    "hm_get (nl_runtime_transcripts h) = hm_get (nl_runtime_transcripts t)"
    "hm_get (nl_runtime_provider_resume_refs h) = hm_get (nl_runtime_provider_resume_refs t)"
    unfolding h_def hydrate_map_fields
    by (rule runtime_column_roundtrip; simp add: runtime_metadata_of_def runtime_ids_superset del: set_map)+
  have "hm_get (nl_placement_seqs h) = hm_get (nl_placement_seqs t)"
    unfolding h_def hydrate_map_fields by (rule insert_rows_Some) (use wf in \<open>simp add: node_state_wf_def\<close>)
  moreover have "hm_get (nl_task_runtime_mappings h) = hm_get (nl_task_runtime_mappings t)"
    unfolding h_def hydrate_map_fields using wf
    by (subst task_rows) (auto simp: node_state_wf_def hm_get_insert_rows fun_eq_iff)
  ultimately show ?thesis
    using cs rt m unfolding state_eq_def h_def hydrate_other_fields
    by (simp add: metrics_in_range_def u64_i64_roundtrip)
qed

section \<open>The store\<close>

lemma save_load:
  assumes "node_state_wf s" "metrics_in_range s"
  shows "\<exists>t. load_async legacy fresh (Some (disk_of (compact_for_persistence s))) = Inr t
     \<and> state_eq t (compact_for_persistence s)"
proof -
  let ?t = "compact_for_persistence s"
  have "hm_get (nl_command_status ?t) c \<noteq> None" if "hm_get (nl_command_result_payloads ?t) c \<noteq> None" for c
    using that by (simp add: compact_payload split: if_splits)
  then have "state_eq (hydrate_from_normalized_tables (disk_of ?t) (sqlite_compatibility_seed ?t)) ?t"
    using hydrate_roundtrip[of ?t] node_state_wf_compact[OF assms(1)] assms(2)
    by (simp add: metrics_in_range_def)
  moreover have "load_async legacy fresh (Some (disk_of ?t)) =
      Inr (hydrate_from_normalized_tables (disk_of ?t) (sqlite_compatibility_seed ?t))"
    by (simp add: load_async_def) (simp add: disk_of_def)
  ultimately show ?thesis by blast
qed

lemma set_remove_acked:
  "set (snd (remove_acked_events ids outbox)) = {e \<in> set outbox. ev_event_id e \<notin> set ids}"
  by (auto simp: remove_acked_events_def Let_def)

lemma remove_acked_filter:
  "snd (remove_acked_events ids outbox) = filter (\<lambda>e. ev_event_id e \<notin> set ids) outbox"
  by (auto simp: remove_acked_events_def Let_def)

lemma remove_acked_count:
  "fst (remove_acked_events ids outbox) = length (filter (\<lambda>e. ev_event_id e \<in> set ids) outbox)"
  using sum_length_filter_compl[of "\<lambda>e. ev_event_id e \<in> set ids" outbox]
  by (auto simp: remove_acked_events_def Let_def)

lemma remove_acked_none: "fst (remove_acked_events ids outbox) = 0 \<Longrightarrow> snd (remove_acked_events ids outbox) = outbox"
  unfolding remove_acked_count remove_acked_filter by (simp add: filter_empty_conv)

text \<open>A merge takes its snapshots from the store, so they are well-formed states.\<close>

definition mutation_wf :: "node_state_mutation \<Rightarrow> bool" where
  "mutation_wf m = (case m of MergeCommandState _ c \<Rightarrow> node_state_wf c | _ \<Rightarrow> True)"

definition own_task_key :: "(id \<times> task_runtime_mapping) list \<Rightarrow> bool" where
  "own_task_key ms \<longleftrightarrow> (\<forall>t m. hm_get ms t = Some m \<longrightarrow> tm_task_run_id m = t)"

lemma own_task_key_iff: "hm_wf ms \<Longrightarrow> (\<forall>(t, m)\<in>set ms. tm_task_run_id m = t) = own_task_key ms"
  unfolding own_task_key_def hm_wf_def by (auto simp: map_of_eq_Some_iff)

lemma own_task_key_merge: "own_task_key o1 \<Longrightarrow> own_task_key c \<Longrightarrow> own_task_key (merge_changed_map o1 b c)"
  unfolding own_task_key_def hm_get_merge_changed by (auto split: if_splits option.splits)

lemma node_state_wf_alt:
  "node_state_wf s \<longleftrightarrow> hm_wf (nl_command_status s) \<and> hm_wf (nl_command_result_payloads s)
     \<and> hm_wf (nl_runtime_seqs s) \<and> hm_wf (nl_runtime_providers s) \<and> hm_wf (nl_runtime_workspace_paths s)
     \<and> hm_wf (nl_runtime_states s) \<and> hm_wf (nl_runtime_transcripts s)
     \<and> hm_wf (nl_runtime_provider_resume_refs s) \<and> hm_wf (nl_tool_dependencies s)
     \<and> hm_wf (nl_task_runtime_mappings s) \<and> hm_wf (nl_placement_seqs s)
     \<and> own_task_key (nl_task_runtime_mappings s) \<and> distinct (map ev_event_id (nl_event_outbox s))"
  unfolding node_state_wf_def using own_task_key_iff by blast

lemma node_state_wf_merge:
  "node_state_wf s \<Longrightarrow> node_state_wf c \<Longrightarrow> node_state_wf (merge_command_state_from s b c)"
  unfolding node_state_wf_alt merge_command_state_from_def
  by (simp add: hm_wf_merge_changed hm_wf_merge_seqs own_task_key_merge distinct_merge_outbox)

lemma node_state_wf_mutate:
  assumes "node_state_wf s" "mutation_wf m" shows "node_state_wf (mutate_state m s)"
proof (cases m)
  case (MergeCommandState b c)
  then show ?thesis using assms node_state_wf_merge by (simp add: mutate_state_def mutation_wf_def)
next
  case (PersistEventAck ids)
  then show ?thesis using assms
    by (simp add: mutate_state_def node_state_wf_alt remove_acked_filter distinct_map_filter)
qed (use assms in \<open>auto simp: mutate_state_def node_state_wf_alt own_task_key_def clear_enrollment_attempt_def
    clear_core_registration_def split: if_splits\<close>)

definition synced :: "node_store \<Rightarrow> bool" where
  "synced st \<longleftrightarrow> sr_file st = Some (disk_of (compact_for_persistence (sr_state st)))"

lemma apply_mutation_state: "sr_state (snd (apply_node_state_mutation io m st)) = mutate_state m (sr_state st)"
  by (auto simp: apply_node_state_mutation_def Let_def split: sum.splits)

lemma unsaved_mutation: "\<not> mutation_saves m s \<Longrightarrow> mutate_state m s = s"
  by (cases m) (simp_all add: mutation_saves_def mutate_state_def remove_acked_none)

text \<open>A mutation that returns \<open>Ok\<close> is on disk; one that fails leaves the file as it was.\<close>

lemma apply_mutation_ok_synced:
  assumes "apply_node_state_mutation io m st = (Inr r, st')" "synced st"
  shows "synced st'"
proof (cases "mutation_saves m (sr_state st)")
  case True
  then show ?thesis using assms(1) save_async_Inr
    by (auto simp: apply_node_state_mutation_def Let_def synced_def split: if_splits sum.splits)
next
  case False
  then show ?thesis using assms unsaved_mutation[OF False]
    by (simp add: apply_node_state_mutation_def Let_def)
qed

lemma apply_mutation_error_file:
  "apply_node_state_mutation io m st = (Inl e, st') \<Longrightarrow> sr_file st' = sr_file st"
  by (auto simp: apply_node_state_mutation_def Let_def split: if_splits sum.splits)

lemma apply_mutation_succeeds:
  assumes "node_state_wf (sr_state st)" "mutation_wf m"
  shows "\<exists>r. fst (apply_node_state_mutation True m st) = Inr r"
  using save_async_wf[OF node_state_wf_mutate[OF assms]]
  by (auto simp: apply_node_state_mutation_def Let_def)

end
