(* ===== verification/Node_Outbox.thy ===== *)
theory Node_Outbox
  imports Node_State
begin

text \<open>
  The event outbox of the Node and its local runtime projection
  (\<open>uprava-node/src/runtime/application/execution.rs\<close>), the sequence counters
  (\<open>provider.rs\<close>, \<open>workspace.rs\<close>) and the delivery of the outbox in batches
  (\<open>application/dispatch.rs\<close>).

  \<open>elen\<close> stands for \<open>serialized_event_len\<close>, the byte length of the JSON encoding; fresh event
  ids and the clock are arguments. The loops that shorten the outbox recurse on it.
\<close>

section \<open>Sequence counters and events\<close>

definition next_runtime_seq :: "id \<Rightarrow> (id \<times> int) list \<Rightarrow> int \<times> (id \<times> int) list" where
  "next_runtime_seq runtime_session_id runtime_seqs =
     (let seq = (case hm_get runtime_seqs runtime_session_id of Some s \<Rightarrow> s + 1 | None \<Rightarrow> 1)
      in (seq, hm_insert runtime_session_id seq runtime_seqs))"

definition event_for_command ::
  "id \<Rightarrow> time \<Rightarrow> string \<Rightarrow> command_envelope \<Rightarrow> id \<Rightarrow> id option \<Rightarrow> event_kind \<Rightarrow> event_payload_kind
   \<Rightarrow> (id \<times> int) list \<Rightarrow> event_envelope \<times> (id \<times> int) list" where
  "event_for_command fresh now provider_key command rid turn_id kind payload seqs =
     (case next_runtime_seq rid seqs of (seq, seqs') \<Rightarrow>
       (\<lparr>ev_event_id = fresh, ev_command_id = Some (ce_command_id command),
         ev_correlation_id = Some (ce_correlation_id command), ev_actor_ref = AR_Provider provider_key,
         ev_scope_ref = SR_Runtime rid, ev_node_id = Some (target_node_id (ce_target command)),
         ev_runtime_session_id = Some rid, ev_session_thread_id = target_session_id (ce_target command),
         ev_turn_id = turn_id, ev_seq = seq, ev_session_projection_seq = None, ev_kind = kind,
         ev_happened_at = now, ev_source_refs = [], ev_evidence_refs = [],
         ev_cause_refs = ce_cause_refs command, ev_result_refs = [], ev_payload = payload\<rparr>, seqs'))"

definition runtime_error_event ::
  "id \<Rightarrow> time \<Rightarrow> string \<Rightarrow> command_envelope \<Rightarrow> id \<Rightarrow> id option \<Rightarrow> string \<Rightarrow> string
   \<Rightarrow> (id \<times> int) list \<Rightarrow> event_envelope \<times> (id \<times> int) list" where
  "runtime_error_event fresh now provider_key command rid turn_id code message =
     event_for_command fresh now provider_key command rid turn_id EK_RuntimeError (EP_RuntimeError code message)"

definition missing_provider_events_for_command ::
  "id \<Rightarrow> time \<Rightarrow> command_envelope \<Rightarrow> (id \<times> int) list \<Rightarrow> event_envelope list \<times> (id \<times> int) list" where
  "missing_provider_events_for_command fresh now command seqs = (case target_runtime_id (ce_target command) of
     None \<Rightarrow> ([], seqs)
   | Some rid \<Rightarrow> (case event_for_command fresh now ''unknown'' command rid None EK_RuntimeError
         (EP_RuntimeError ''provider.missing'' ''Runtime command is missing provider metadata'') seqs of
       (e, seqs') \<Rightarrow> ([e], seqs')))"

definition runtime_workspace_error_events ::
  "id \<Rightarrow> time \<Rightarrow> string \<Rightarrow> command_envelope \<Rightarrow> string \<times> string \<Rightarrow> (id \<times> int) list
   \<Rightarrow> event_envelope list \<times> (id \<times> int) list" where
  "runtime_workspace_error_events fresh now provider_key command error seqs =
     (case target_runtime_id (ce_target command) of
        None \<Rightarrow> ([], seqs)
      | Some rid \<Rightarrow> (case runtime_error_event fresh now provider_key command rid None (fst error) (snd error) seqs of
          (e, seqs') \<Rightarrow> ([e], seqs')))"

section \<open>Local runtime projection\<close>

definition runtime_state_for_event :: "event_kind \<Rightarrow> runtime_session_state option" where
  "runtime_state_for_event kind = (case kind of
     EK_RuntimeStarting \<Rightarrow> Some RS_Starting
   | EK_RuntimeReady \<Rightarrow> Some RS_Ready
   | EK_RuntimeRunning \<Rightarrow> Some RS_Running
   | EK_RuntimeBlocked \<Rightarrow> Some RS_Blocked
   | EK_RuntimeExpired \<Rightarrow> Some RS_Expired
   | EK_RuntimeResuming \<Rightarrow> Some RS_Resuming
   | EK_RuntimeStopped \<Rightarrow> Some RS_Stopped
   | EK_RuntimeError \<Rightarrow> Some RS_Error
   | EK_TurnInterrupted \<Rightarrow> Some RS_Interrupted
   | _ \<Rightarrow> None)"

definition apply_runtime_state_projection_for_event ::
  "event_envelope \<Rightarrow> (id \<times> runtime_session_state) list \<Rightarrow> (id \<times> runtime_session_state) list" where
  "apply_runtime_state_projection_for_event event runtime_states = (case ev_runtime_session_id event of
     None \<Rightarrow> runtime_states
   | Some rid \<Rightarrow> (case runtime_state_for_event (ev_kind event) of
       None \<Rightarrow> runtime_states | Some st \<Rightarrow> hm_insert rid st runtime_states))"

definition apply_runtime_state_projection :: "event_envelope list \<Rightarrow> node_local_state \<Rightarrow> node_local_state" where
  "apply_runtime_state_projection events s =
     s\<lparr>nl_runtime_states := fold apply_runtime_state_projection_for_event events (nl_runtime_states s)\<rparr>"

definition is_active_runtime_state :: "runtime_session_state \<Rightarrow> bool" where
  "is_active_runtime_state s \<longleftrightarrow> (case s of RS_Starting \<Rightarrow> True | RS_Ready \<Rightarrow> True | RS_Running \<Rightarrow> True
     | RS_Blocked \<Rightarrow> True | RS_Stopping \<Rightarrow> True | RS_Interrupted \<Rightarrow> True | RS_Resuming \<Rightarrow> True | _ \<Rightarrow> False)"

definition active_runtime_ids :: "node_local_state \<Rightarrow> id list" where
  "active_runtime_ids s = sort (map fst (filter (\<lambda>(_, st). is_active_runtime_state st) (nl_runtime_states s)))"

definition active_runtime_count :: "node_local_state \<Rightarrow> int" where
  "active_runtime_count s = int (length (active_runtime_ids s))"

section \<open>Retention\<close>

definition MAX_EVENT_OUTBOX_EVENTS :: nat where "MAX_EVENT_OUTBOX_EVENTS = 1024"
definition MAX_EVENT_OUTBOX_BYTES :: nat where "MAX_EVENT_OUTBOX_BYTES = 4 * 1024 * 1024"
definition MAX_EVENT_OUTBOX_AGE :: time where "MAX_EVENT_OUTBOX_AGE = 7 * 24 * 60 * 60 * 1000000000"

definition outbox_bytes :: "(event_envelope \<Rightarrow> nat) \<Rightarrow> event_envelope list \<Rightarrow> nat" where
  "outbox_bytes elen outbox = sum_list (map elen outbox)"

fun drop_loop ::
  "(event_envelope \<Rightarrow> nat) \<Rightarrow> nat \<Rightarrow> time option \<Rightarrow> nat \<Rightarrow> nat \<Rightarrow> event_envelope list \<Rightarrow> nat" where
  "drop_loop elen max_events cutoff max_bytes retained_bytes [] = 0"
| "drop_loop elen max_events cutoff max_bytes retained_bytes (e # rest) =
     (if (max_events > 0 \<and> length (e # rest) > max_events)
         \<or> (case cutoff of None \<Rightarrow> False | Some c \<Rightarrow> ev_happened_at e < c)
         \<or> (max_bytes > 0 \<and> retained_bytes > max_bytes)
      then Suc (drop_loop elen max_events cutoff max_bytes (retained_bytes - elen e) rest)
      else 0)"

definition event_outbox_retention_drop_count ::
  "(event_envelope \<Rightarrow> nat) \<Rightarrow> time \<Rightarrow> nat \<Rightarrow> time \<Rightarrow> nat \<Rightarrow> event_envelope list \<Rightarrow> nat" where
  "event_outbox_retention_drop_count elen now max_events max_age max_bytes outbox =
     (let cutoff = (if max_age = 0 then None else Some (now - max_age))
      in drop_loop elen max_events cutoff max_bytes (outbox_bytes elen outbox) outbox)"

fun trim_event_outbox_to_limits ::
  "(event_envelope \<Rightarrow> nat) \<Rightarrow> nat \<Rightarrow> nat \<Rightarrow> event_envelope list \<Rightarrow> event_envelope list" where
  "trim_event_outbox_to_limits elen max_events max_bytes [] = []"
| "trim_event_outbox_to_limits elen max_events max_bytes (e # rest) =
     (if (max_events > 0 \<and> length (e # rest) > max_events)
         \<or> (max_bytes > 0 \<and> outbox_bytes elen (e # rest) > max_bytes)
      then trim_event_outbox_to_limits elen max_events max_bytes rest
      else e # rest)"

text \<open>The first dropped event of each runtime, in the order of the runtime ids.\<close>

definition affected_runtimes :: "event_envelope list \<Rightarrow> (id \<times> id option \<times> id option) list" where
  "affected_runtimes dropped = sort_key fst (fold (\<lambda>e m. case ev_runtime_session_id e of
     None \<Rightarrow> m
   | Some rid \<Rightarrow> if hm_get m rid \<noteq> None then m
       else m @ [(rid, ev_session_thread_id e, ev_node_id e)]) dropped [])"

definition runtime_outbox_retention_event ::
  "id \<Rightarrow> time \<Rightarrow> id \<times> id option \<times> id option \<Rightarrow> node_local_state \<Rightarrow> event_envelope \<times> node_local_state" where
  "runtime_outbox_retention_event fresh now affected s = (case affected of (rid, session, event_node) \<Rightarrow>
     case next_runtime_seq rid (nl_runtime_seqs s) of (seq, seqs) \<Rightarrow>
     let node = (case nl_node_id s of Some n \<Rightarrow> Some n | None \<Rightarrow> event_node) in
     (\<lparr>ev_event_id = fresh, ev_command_id = None, ev_correlation_id = None,
       ev_actor_ref = (case node of Some n \<Rightarrow> AR_Node n | None \<Rightarrow> AR_Unknown),
       ev_scope_ref = SR_Runtime rid, ev_node_id = node, ev_runtime_session_id = Some rid,
       ev_session_thread_id = session, ev_turn_id = None, ev_seq = seq, ev_session_projection_seq = None,
       ev_kind = EK_RuntimeError, ev_happened_at = now, ev_source_refs = [], ev_evidence_refs = [],
       ev_cause_refs = [], ev_result_refs = [],
       ev_payload = EP_RuntimeError ''node.event_outbox_retention_exceeded''
         ''Node dropped unacknowledged runtime events because local outbox retention was exceeded''\<rparr>,
      s\<lparr>nl_runtime_seqs := seqs\<rparr>))"

fun retention_notices ::
  "(nat \<Rightarrow> id) \<Rightarrow> time \<Rightarrow> nat \<Rightarrow> (id \<times> id option \<times> id option) list \<Rightarrow> node_local_state
   \<Rightarrow> event_envelope list \<times> node_local_state" where
  "retention_notices fresh now i [] s = ([], s)"
| "retention_notices fresh now i (a # as) s = (case runtime_outbox_retention_event (fresh i) now a s of
     (e, s') \<Rightarrow> case retention_notices fresh now (Suc i) as s' of (es, s'') \<Rightarrow> (e # es, s''))"

definition enforce_event_outbox_retention_with_limits ::
  "(event_envelope \<Rightarrow> nat) \<Rightarrow> (nat \<Rightarrow> id) \<Rightarrow> time \<Rightarrow> nat \<Rightarrow> time \<Rightarrow> nat \<Rightarrow> node_local_state
   \<Rightarrow> event_envelope list \<times> node_local_state" where
  "enforce_event_outbox_retention_with_limits elen fresh now max_events max_age max_bytes s =
     (let drop_count = event_outbox_retention_drop_count elen now max_events max_age max_bytes (nl_event_outbox s) in
      if drop_count = 0 then ([], s)
      else let s1 = s\<lparr>nl_dropped_event_count :=
                 saturating_add (nl_dropped_event_count s) (of_nat drop_count),
               nl_event_outbox := drop drop_count (nl_event_outbox s)\<rparr>
      in case retention_notices fresh now 0 (affected_runtimes (take drop_count (nl_event_outbox s))) s1 of
        (notices, s2) \<Rightarrow>
          let s3 = (if notices = [] then s2
                    else (apply_runtime_state_projection notices s2)
                      \<lparr>nl_event_outbox := nl_event_outbox s2 @ notices\<rparr>)
          in (notices, s3\<lparr>nl_event_outbox :=
                trim_event_outbox_to_limits elen max_events max_bytes (nl_event_outbox s3)\<rparr>))"

definition enforce_event_outbox_retention ::
  "(event_envelope \<Rightarrow> nat) \<Rightarrow> (nat \<Rightarrow> id) \<Rightarrow> time \<Rightarrow> nat \<Rightarrow> node_local_state
   \<Rightarrow> event_envelope list \<times> node_local_state" where
  "enforce_event_outbox_retention elen fresh now max_events =
     enforce_event_outbox_retention_with_limits elen fresh now max_events MAX_EVENT_OUTBOX_AGE MAX_EVENT_OUTBOX_BYTES"

section \<open>Delivery\<close>

definition outbox_events_for_command :: "event_envelope list \<Rightarrow> id \<Rightarrow> event_envelope list" where
  "outbox_events_for_command outbox command_id = filter (\<lambda>e. ev_command_id e = Some command_id) outbox"

definition EVENT_DELIVERY_BATCH_SIZE :: nat where "EVENT_DELIVERY_BATCH_SIZE = 32"

function chunks :: "nat \<Rightarrow> 'a list \<Rightarrow> 'a list list" where
  "chunks n xs = (if n = 0 \<or> xs = [] then [] else take n xs # chunks n (drop n xs))"
  by pat_completeness auto
termination by (relation "measure (length \<circ> snd)") auto

declare chunks.simps [simp del]

text \<open>The frames of \<open>send_event_batches\<close>; \<open>meta\<close> draws the frame ids.\<close>

definition send_event_batches :: "(nat \<Rightarrow> frame_meta) \<Rightarrow> event_envelope list \<Rightarrow> control_frame list" where
  "send_event_batches meta events = (let batches = chunks EVENT_DELIVERY_BATCH_SIZE events in
     map (\<lambda>(i, batch). CF_EventBatch (meta i) batch) (enumerate 0 batches))"

definition replay_event_outbox :: "(nat \<Rightarrow> frame_meta) \<Rightarrow> event_envelope list \<Rightarrow> control_frame list" where
  "replay_event_outbox meta events = (if events = [] then [] else send_event_batches meta events)"

section \<open>Counters only advance\<close>

lemma next_runtime_seq_get:
  "hm_get (snd (next_runtime_seq r seqs)) k = (if k = r then Some (fst (next_runtime_seq r seqs)) else hm_get seqs k)"
  by (simp add: next_runtime_seq_def Let_def)

lemma next_runtime_seq_greater: "hm_get seqs r = Some s \<Longrightarrow> fst (next_runtime_seq r seqs) = s + 1"
  by (simp add: next_runtime_seq_def Let_def)

section \<open>Retention keeps the limits\<close>

definition within_limits :: "(event_envelope \<Rightarrow> nat) \<Rightarrow> nat \<Rightarrow> nat \<Rightarrow> event_envelope list \<Rightarrow> bool" where
  "within_limits elen max_events max_bytes outbox \<longleftrightarrow>
     (max_events > 0 \<longrightarrow> length outbox \<le> max_events) \<and> (max_bytes > 0 \<longrightarrow> outbox_bytes elen outbox \<le> max_bytes)"

lemma outbox_bytes_Nil [simp]: "outbox_bytes elen [] = 0"
  and outbox_bytes_Cons [simp]: "outbox_bytes elen (e # es) = elen e + outbox_bytes elen es"
  by (simp_all add: outbox_bytes_def)

lemma trim_within: "within_limits elen n b (trim_event_outbox_to_limits elen n b xs)"
  by (induction xs) (auto simp: within_limits_def)

lemma trim_suffix: "\<exists>k. trim_event_outbox_to_limits elen n b xs = drop k xs"
proof (induction xs)
  case (Cons x xs)
  then obtain k where "trim_event_outbox_to_limits elen n b xs = drop k xs" by blast
  then show ?case by (auto intro: exI[of _ "Suc k"] exI[of _ 0])
qed simp

lemma trim_id: "within_limits elen n b xs \<Longrightarrow> trim_event_outbox_to_limits elen n b xs = xs"
  by (cases xs) (auto simp: within_limits_def)

definition aged :: "time option \<Rightarrow> event_envelope list \<Rightarrow> bool" where
  "aged cutoff es \<longleftrightarrow> (case (cutoff, es) of (Some c, e # _) \<Rightarrow> ev_happened_at e < c | _ \<Rightarrow> False)"

text \<open>The loop drops the shortest prefix after which no limit is exceeded.\<close>

lemma drop_loop_spec:
  fixes elen n c b xs
  defines "k \<equiv> drop_loop elen n c b (outbox_bytes elen xs) xs"
  shows "k \<le> length xs" "within_limits elen n b (drop k xs)" "\<not> aged c (drop k xs)"
    "j < k \<Longrightarrow> \<not> within_limits elen n b (drop j xs) \<or> aged c (drop j xs)"
  unfolding k_def
proof (induction xs arbitrary: j)
  case (Cons x xs)
  { case 1 then show ?case using Cons.IH(1) by simp }
  { case 2 then show ?case using Cons.IH(2) by (auto simp: within_limits_def) }
  { case 3 then show ?case using Cons.IH(3) by (auto simp: aged_def split: option.splits) }
  { case 4 then show ?case using Cons.IH(4)[of "j - 1"]
      by (cases j) (auto simp: within_limits_def aged_def split: option.splits if_splits) }
qed (simp_all add: within_limits_def aged_def split: option.splits)

lemma retention_notices_frame:
  "retention_notices fresh now i as s = (es, s') \<Longrightarrow> nl_event_outbox s' = nl_event_outbox s"
  by (induction as arbitrary: i s es s')
    (auto simp: runtime_outbox_retention_event_def Let_def split: prod.splits)

lemma retention_within:
  "within_limits elen n b (nl_event_outbox (snd
     (enforce_event_outbox_retention_with_limits elen fresh now n age b s)))"
proof -
  let ?k = "event_outbox_retention_drop_count elen now n age b (nl_event_outbox s)"
  have "?k = 0 \<Longrightarrow> within_limits elen n b (nl_event_outbox s)"
    using drop_loop_spec(2)[of elen n b "if age = 0 then None else Some (now - age)" "nl_event_outbox s"]
    by (simp add: event_outbox_retention_drop_count_def Let_def)
  then show ?thesis
    by (auto simp: enforce_event_outbox_retention_with_limits_def Let_def trim_within split: prod.splits)
qed

section \<open>Batches\<close>

lemma concat_chunks: "0 < n \<Longrightarrow> concat (chunks n xs) = xs"
proof (induction n xs rule: chunks.induct)
  case (1 n xs)
  then show ?case by (cases "xs = []") (simp_all add: chunks.simps[of n xs] chunks.simps[of n "[]"])
qed

lemma chunks_size: "c \<in> set (chunks n xs) \<Longrightarrow> c \<noteq> [] \<and> length c \<le> n"
proof (induction n xs rule: chunks.induct)
  case (1 n xs)
  then show ?case by (cases "n = 0 \<or> xs = []") (auto simp: chunks.simps[of n xs])
qed

lemma batch_frames:
  "map (\<lambda>f. case f of CF_EventBatch _ es \<Rightarrow> es | _ \<Rightarrow> []) (send_event_batches meta events)
   = chunks EVENT_DELIVERY_BATCH_SIZE events"
  by (simp add: send_event_batches_def Let_def case_prod_unfold comp_def)

end
