(* ===== verification/Node_Dispatch.thy ===== *)
theory Node_Dispatch
  imports Node_Outbox
begin

text \<open>
  Execution of commands on the Node: the cancellation registry and the lock and cancellation
  keys of \<open>uprava-node/src/runtime/application/dispatch.rs\<close>, the deduplicating
  \<open>prepare_command_dispatch\<close> of \<open>application/execution.rs\<close>, and \<open>handle_command_dispatch\<close>, which
  acknowledges, executes, persists and reports.

  What a command does to the outside world (provider processes, the file system, PTYs, the
  ToolHive bridge) is the parameter record \<open>executors\<close>, one field per family of functions it
  stands for. Live events the provider adapter sends while it runs are not shown: they are
  events of the returned list, sent early.
\<close>

section \<open>Cancellation\<close>

text \<open>A watch channel is a number; \<open>cx_signals\<close> holds the value of each.\<close>

record cancellation_state =
  cx_senders :: "(string \<times> nat) list"
  cx_pending :: "string list"
  cx_signals :: "(nat \<times> bool) list"
  cx_next :: nat

record cancellation_guard =
  cg_key :: string
  cg_channel :: nat

definition cancellation_begin ::
  "string \<Rightarrow> cancellation_state \<Rightarrow> cancellation_guard \<times> cancellation_state" where
  "cancellation_begin key st =
     (let initially_cancelled = key \<in> set (cx_pending st); ch = cx_next st in
      (\<lparr>cg_key = key, cg_channel = ch\<rparr>,
       st\<lparr>cx_pending := removeAll key (cx_pending st), cx_next := Suc ch,
          cx_signals := hm_insert ch initially_cancelled (cx_signals st),
          cx_senders := hm_insert key ch (cx_senders st)\<rparr>))"

definition cancellation_cancel ::
  "string \<Rightarrow> bool \<Rightarrow> cancellation_state \<Rightarrow> bool \<times> cancellation_state" where
  "cancellation_cancel key remember_if_pending st = (case hm_get (cx_senders st) key of
     Some ch \<Rightarrow> (True, st\<lparr>cx_signals := hm_insert ch True (cx_signals st)\<rparr>)
   | None \<Rightarrow> (False, if remember_if_pending then st\<lparr>cx_pending := List.insert key (cx_pending st)\<rparr> else st))"

definition cancellation_finish :: "cancellation_guard \<Rightarrow> cancellation_state \<Rightarrow> cancellation_state" where
  "cancellation_finish guard st =
     (if hm_get (cx_senders st) (cg_key guard) = Some (cg_channel guard)
      then st\<lparr>cx_senders := hm_remove (cg_key guard) (cx_senders st)\<rparr> else st)"

definition runtime_cancellation_key :: "id \<Rightarrow> string" where
  "runtime_cancellation_key r = ''runtime:'' @ r"

definition deduction_cancellation_key :: "id \<Rightarrow> string" where
  "deduction_cancellation_key d = ''deduction:'' @ d"

definition task_cancellation_key :: "id \<Rightarrow> string" where
  "task_cancellation_key t = ''task:'' @ t"

definition tool_call_cancellation_key :: "id \<Rightarrow> string" where
  "tool_call_cancellation_key c = ''tool-call:'' @ c"

definition execution_cancellation_key :: "command_envelope \<Rightarrow> string option" where
  "execution_cancellation_key command = (case (ce_kind command, ce_payload command) of
     (CK_SendTurn, _) \<Rightarrow> map_option runtime_cancellation_key (target_runtime_id (ce_target command))
   | (CK_RequestDeduction, CP_RequestDeduction package) \<Rightarrow>
       Some (deduction_cancellation_key (dip_deduction_id package))
   | (CK_RunTask, CP_RunTask _ spec) \<Rightarrow> Some (task_cancellation_key (trs_task_run_id spec))
   | (CK_Tooling, CP_Tooling tooling) \<Rightarrow> (case tc_payload tooling of
       TP_ExecuteExternalTool c _ _ _ _ _ _ _ _ \<Rightarrow> Some (tool_call_cancellation_key c) | _ \<Rightarrow> None)
   | _ \<Rightarrow> None)"

definition cancellation_signal :: "command_envelope \<Rightarrow> (string \<times> bool) option" where
  "cancellation_signal command = (case (ce_kind command, ce_payload command) of
     (CK_InterruptRuntime, _) \<Rightarrow>
       map_option (\<lambda>r. (runtime_cancellation_key r, False)) (target_runtime_id (ce_target command))
   | (CK_StopRuntime, _) \<Rightarrow>
       map_option (\<lambda>r. (runtime_cancellation_key r, False)) (target_runtime_id (ce_target command))
   | (CK_CancelDeduction, CP_CancelDeduction d) \<Rightarrow> Some (deduction_cancellation_key d, True)
   | (CK_CancelTaskRun, CP_CancelTaskRun t) \<Rightarrow> Some (task_cancellation_key t, True)
   | (CK_Tooling, CP_Tooling tooling) \<Rightarrow> (case tc_payload tooling of
       TP_CancelToolCall c _ \<Rightarrow> Some (tool_call_cancellation_key c, True) | _ \<Rightarrow> None)
   | _ \<Rightarrow> None)"

definition is_priority_cancellation_command :: "command_envelope \<Rightarrow> bool" where
  "is_priority_cancellation_command command \<longleftrightarrow>
     (case ce_kind command of CK_InterruptRuntime \<Rightarrow> True | CK_StopRuntime \<Rightarrow> True
        | CK_CancelDeduction \<Rightarrow> True | CK_CancelTaskRun \<Rightarrow> True | _ \<Rightarrow> False)
     \<or> (case ce_payload command of CP_Tooling tooling \<Rightarrow>
          (case tc_payload tooling of TP_CancelToolCall _ _ \<Rightarrow> True | _ \<Rightarrow> False) | _ \<Rightarrow> False)"

definition command_execution_key :: "command_envelope \<Rightarrow> string" where
  "command_execution_key command = (case target_task_run_id (ce_target command) of
     Some t \<Rightarrow> task_cancellation_key t
   | None \<Rightarrow> (case ce_payload command of
       CP_Tooling tooling \<Rightarrow> (case tc_payload tooling of
           TP_BeginIntegrationAuthorization d _ _ _ _ \<Rightarrow> ''tool-dependency:'' @ d
         | TP_UpdateDependencyDesiredState d _ _ _ _ _ _ \<Rightarrow> ''tool-dependency:'' @ d
         | TP_ExecuteExternalTool _ _ _ _ d _ _ _ _ \<Rightarrow> ''tool-dependency:'' @ d
         | TP_CancelToolCall c _ \<Rightarrow> tool_call_cancellation_key c)
     | _ \<Rightarrow> (case target_runtime_id (ce_target command) of
           Some r \<Rightarrow> ''runtime:'' @ r
         | None \<Rightarrow> (case target_placement_id (ce_target command) of
             Some p \<Rightarrow> ''placement:'' @ p
           | None \<Rightarrow> ''command:'' @ ce_command_id command))))"

section \<open>Runtime metadata\<close>

definition command_payload_str :: "command_envelope \<Rightarrow> string \<Rightarrow> string option" where
  "command_payload_str command key = Option.bind (map_option trim
     (if key = ''provider'' then cp_provider (ce_payload command)
      else if key = ''workspace_path'' then cp_workspace_path (ce_payload command)
      else if key = ''display_name'' then cp_display_name (ce_payload command)
      else if key = ''path'' then cp_path (ce_payload command)
      else None)) non_empty"

definition bounded_text :: "string \<Rightarrow> nat \<Rightarrow> string" where
  "bounded_text value max_chars =
     take max_chars value @ (if length value > max_chars then ''...'' else '''')"

definition resume_ref_member :: "json \<Rightarrow> string \<Rightarrow> string option" where
  "resume_ref_member value key =
     map_option (\<lambda>v. bounded_text v 512) (Option.bind (map_option trim (json_get_str value key)) non_empty)"

definition provider_resume_ref_from_json :: "json \<Rightarrow> provider_resume_ref option" where
  "provider_resume_ref_from_json value =
     (let provider_session_id = resume_ref_member value ''provider_session_id'';
          resume_cursor = resume_ref_member value ''resume_cursor''
      in if provider_session_id = None \<and> resume_cursor = None then None
         else Some \<lparr>pr_provider_session_id = provider_session_id, pr_resume_cursor = resume_cursor\<rparr>)"

definition provider_resume_ref_to_json :: "provider_resume_ref \<Rightarrow> json" where
  "provider_resume_ref_to_json r = JObj
     ((case pr_provider_session_id r of None \<Rightarrow> [] | Some v \<Rightarrow> [(''provider_session_id'', JStr v)])
      @ (case pr_resume_cursor r of None \<Rightarrow> [] | Some v \<Rightarrow> [(''resume_cursor'', JStr v)]))"

definition insert_if_changed :: "'k \<Rightarrow> 'v \<Rightarrow> ('k \<times> 'v) list \<Rightarrow> ('k \<times> 'v) list" where
  "insert_if_changed key value m = (if hm_get m key = Some value then m else hm_insert key value m)"

definition insert_opt :: "'k \<Rightarrow> 'v option \<Rightarrow> ('k \<times> 'v) list \<Rightarrow> ('k \<times> 'v) list" where
  "insert_opt key value m = (case value of None \<Rightarrow> m | Some v \<Rightarrow> insert_if_changed key v m)"

definition remember_runtime_metadata ::
  "(string \<Rightarrow> (string \<times> string) + string) \<Rightarrow> command_envelope \<Rightarrow> node_local_state
   \<Rightarrow> (string \<times> string) + node_local_state" where
  "remember_runtime_metadata canonical_workspace_root command s =
     (case target_runtime_id (ce_target command) of
        None \<Rightarrow> Inr s
      | Some rid \<Rightarrow>
          if ce_kind command \<notin> {CK_StartRuntime, CK_ResumeRuntime} then Inr s
          else and_then (case command_payload_str command ''workspace_path'' of
                 None \<Rightarrow> Inr None
               | Some p \<Rightarrow> and_then (canonical_workspace_root p) (\<lambda>c. Inr (Some c))) (\<lambda>canonical.
            Inr (s\<lparr>nl_runtime_providers :=
                   insert_opt rid (command_payload_str command ''provider'') (nl_runtime_providers s),
                 nl_runtime_provider_resume_refs := (if ce_kind command = CK_ResumeRuntime
                   then insert_opt rid (Option.bind (cp_provider_resume_ref (ce_payload command))
                          provider_resume_ref_from_json) (nl_runtime_provider_resume_refs s)
                   else nl_runtime_provider_resume_refs s),
                 nl_runtime_workspace_paths := insert_opt rid canonical (nl_runtime_workspace_paths s)\<rparr>)))"

definition provider_for_command :: "command_envelope \<Rightarrow> node_local_state \<Rightarrow> string option" where
  "provider_for_command command s = (case command_payload_str command ''provider'' of
     Some p \<Rightarrow> Some p
   | None \<Rightarrow> Option.bind (target_runtime_id (ce_target command)) (hm_get (nl_runtime_providers s)))"

definition workspace_path_for_command :: "command_envelope \<Rightarrow> node_local_state \<Rightarrow> string option" where
  "workspace_path_for_command command s = (case command_payload_str command ''workspace_path'' of
     Some p \<Rightarrow> Some p
   | None \<Rightarrow> Option.bind (target_runtime_id (ce_target command)) (hm_get (nl_runtime_workspace_paths s)))"

section \<open>Execution\<close>

type_synonym seqs = "(id \<times> int) list"

record runtime_io =
  ri_seqs :: seqs
  ri_transcripts :: "(id \<times> provider_transcript_message list) list"
  ri_resume_refs :: "(id \<times> provider_resume_ref) list"

record executors =
  ex_validation_events :: "command_envelope \<Rightarrow> seqs \<Rightarrow> event_envelope list \<times> seqs"
  ex_snapshot_events :: "command_envelope \<Rightarrow> seqs \<Rightarrow> event_envelope list \<times> seqs"
  ex_workspace_result :: "command_envelope \<Rightarrow> command_state \<times> json"
  ex_causal_events :: "command_envelope \<Rightarrow> command_state \<Rightarrow> json \<Rightarrow> seqs \<Rightarrow> event_envelope list \<times> seqs"
  ex_deduction :: "string \<Rightarrow> command_envelope \<Rightarrow> string option \<Rightarrow> command_state \<times> json"
  ex_encode_output :: "deduction_provider_output \<Rightarrow> json"
  ex_task :: "command_envelope \<Rightarrow> command_state \<times> json \<times> event_envelope list"
  ex_tooling :: "tooling_command \<Rightarrow> node_local_state \<Rightarrow> (command_state \<times> json) \<times> (id \<times> json) list"
  ex_runtime :: "string \<Rightarrow> command_envelope \<Rightarrow> string option \<Rightarrow> runtime_io \<Rightarrow> event_envelope list \<times> runtime_io"
  ex_canonical_root :: "string \<Rightarrow> (string \<times> string) + string"

text \<open>What an execution draws: the clock, fresh event ids, event lengths and the cancel signal.\<close>

record node_env =
  ne_now :: time
  ne_fresh :: "nat \<Rightarrow> id"
  ne_len :: "event_envelope \<Rightarrow> nat"
  ne_cancelled :: bool

record dispatch_outcome =
  oc_status :: command_state
  oc_events_to_send :: "event_envelope list"
  oc_result_payload :: json
  oc_state_changed :: bool

definition record_command_result_payload ::
  "command_envelope \<Rightarrow> command_state \<Rightarrow> json \<Rightarrow> node_local_state \<Rightarrow> node_local_state" where
  "record_command_result_payload command status payload s = s\<lparr>
     nl_command_status := hm_insert (ce_command_id command) status (nl_command_status s),
     nl_command_result_payloads := hm_insert (ce_command_id command) payload (nl_command_result_payloads s)\<rparr>"

definition workspace_command_outcome ::
  "node_env \<Rightarrow> command_envelope \<Rightarrow> command_state \<Rightarrow> json \<Rightarrow> event_envelope list \<Rightarrow> node_local_state
   \<Rightarrow> dispatch_outcome \<times> node_local_state" where
  "workspace_command_outcome ne command status payload events s =
     (let s1 = record_command_result_payload command status payload s;
          s2 = s1\<lparr>nl_event_outbox := nl_event_outbox s1 @ events\<rparr>
      in case enforce_event_outbox_retention (ne_len ne) (\<lambda>i. ne_fresh ne (Suc i)) (ne_now ne)
            MAX_EVENT_OUTBOX_EVENTS s2 of
        (notices, s3) \<Rightarrow> (\<lparr>oc_status = status, oc_events_to_send = events @ notices,
           oc_result_payload = payload, oc_state_changed = True\<rparr>, s3))"

definition result_outcome ::
  "command_envelope \<Rightarrow> command_state \<Rightarrow> json \<Rightarrow> node_local_state \<Rightarrow> dispatch_outcome \<times> node_local_state" where
  "result_outcome command status payload s =
     (\<lparr>oc_status = status, oc_events_to_send = [], oc_result_payload = payload, oc_state_changed = True\<rparr>,
      record_command_result_payload command status payload s)"

definition command_status_for_events :: "event_envelope list \<Rightarrow> command_state" where
  "command_status_for_events events =
     (if events = [] then CS_Failed
      else if list_ex (\<lambda>e. ev_kind e = EK_RuntimeError \<or> ev_kind e = EK_TurnInterrupted) events then CS_Failed
      else CS_Completed)"

definition events_outcome ::
  "node_env \<Rightarrow> command_envelope \<Rightarrow> event_envelope list \<Rightarrow> node_local_state
   \<Rightarrow> dispatch_outcome \<times> node_local_state" where
  "events_outcome ne command events s =
     (let s1 = apply_runtime_state_projection events s;
          s2 = s1\<lparr>nl_event_outbox := nl_event_outbox s1 @ events\<rparr>
      in case enforce_event_outbox_retention (ne_len ne) (\<lambda>i. ne_fresh ne (Suc i)) (ne_now ne)
            MAX_EVENT_OUTBOX_EVENTS s2 of
        (notices, s3) \<Rightarrow> let status = command_status_for_events events in
          (\<lparr>oc_status = status, oc_events_to_send = events @ notices, oc_result_payload = JObj [],
            oc_state_changed = True\<rparr>,
           s3\<lparr>nl_command_status := hm_insert (ce_command_id command) status (nl_command_status s3)\<rparr>))"

definition deduction_error_payload ::
  "executors \<Rightarrow> command_envelope \<Rightarrow> string \<Rightarrow> string \<Rightarrow> string \<Rightarrow> command_state \<times> json" where
  "deduction_error_payload ex command provider code message = (case ce_payload command of
     CP_RequestDeduction package \<Rightarrow> (CS_Failed, ex_encode_output ex
       \<lparr>do_deduction_id = dip_deduction_id package, do_provider = provider, do_model = None,
        do_schema_version = ''uprava.deduction.v1'',
        do_evidence_snapshot_hash = dip_evidence_snapshot_hash package, do_result = None, do_raw_text = [],
        do_raw_truncated = False, do_error_code = Some code, do_error_message = Some message\<rparr>)
   | _ \<Rightarrow> (CS_Failed, JObj [(''error_code'', JStr code), (''message'', JStr message)]))"

definition durable_tooling_result_payload :: "json \<Rightarrow> json" where
  "durable_tooling_result_payload payload = (case payload of
     JObj ms \<Rightarrow> JObj (filter (\<lambda>(k, _). k \<noteq> ''authorization_url'') ms) | v \<Rightarrow> v)"

definition or_unknown :: "string option \<Rightarrow> string" where
  "or_unknown p = (case p of None \<Rightarrow> ''unknown'' | Some v \<Rightarrow> v)"

definition execute_deduction_command ::
  "executors \<Rightarrow> node_env \<Rightarrow> command_envelope \<Rightarrow> node_local_state \<Rightarrow> dispatch_outcome \<times> node_local_state" where
  "execute_deduction_command ex ne command s =
     (let deduction_id = (case ce_payload command of CP_RequestDeduction p \<Rightarrow> dip_deduction_id p | _ \<Rightarrow> []);
          cancelled = deduction_error_payload ex command ''cancelled'' ''deduction.cancelled''
             ''Deduction was cancelled before provider execution'' in
      if deduction_id \<in> set (nl_cancelled_deductions s)
      then result_outcome command (fst cancelled) (snd cancelled)
             (s\<lparr>nl_cancelled_deductions := removeAll deduction_id (nl_cancelled_deductions s)\<rparr>)
      else if ne_cancelled ne then result_outcome command (fst cancelled) (snd cancelled) s
      else case ex_deduction ex (or_unknown (provider_for_command command s)) command
                  (workspace_path_for_command command s) of
        (status, payload) \<Rightarrow> result_outcome command status payload s)"

definition execute_runtime_command ::
  "executors \<Rightarrow> node_env \<Rightarrow> command_envelope \<Rightarrow> node_local_state \<Rightarrow> event_envelope list \<times> node_local_state" where
  "execute_runtime_command ex ne command s =
     (case remember_runtime_metadata (ex_canonical_root ex) command s of
        Inl error \<Rightarrow> (case runtime_workspace_error_events (ne_fresh ne 0) (ne_now ne)
              (or_unknown (provider_for_command command s)) command error (nl_runtime_seqs s) of
            (events, seqs) \<Rightarrow> (events, s\<lparr>nl_runtime_seqs := seqs\<rparr>))
      | Inr s1 \<Rightarrow> (case provider_for_command command s1 of
            Some provider_key \<Rightarrow> (case ex_runtime ex provider_key command (workspace_path_for_command command s1)
                \<lparr>ri_seqs = nl_runtime_seqs s1, ri_transcripts = nl_runtime_transcripts s1,
                 ri_resume_refs = nl_runtime_provider_resume_refs s1\<rparr> of
              (events, io) \<Rightarrow> (events, s1\<lparr>nl_runtime_seqs := ri_seqs io,
                 nl_runtime_transcripts := ri_transcripts io,
                 nl_runtime_provider_resume_refs := ri_resume_refs io\<rparr>))
          | None \<Rightarrow> (case missing_provider_events_for_command (ne_fresh ne 0) (ne_now ne) command
                (nl_runtime_seqs s1) of
              (events, seqs) \<Rightarrow> (events, s1\<lparr>nl_runtime_seqs := seqs\<rparr>))))"

definition causal_outcome ::
  "executors \<Rightarrow> node_env \<Rightarrow> command_envelope \<Rightarrow> node_local_state \<Rightarrow> dispatch_outcome \<times> node_local_state" where
  "causal_outcome ex ne command s = (case ex_workspace_result ex command of (status, payload) \<Rightarrow>
     case ex_causal_events ex command status payload (nl_placement_seqs s) of
       (events, seqs) \<Rightarrow> workspace_command_outcome ne command status payload events (s\<lparr>nl_placement_seqs := seqs\<rparr>))"

text \<open>
  The branches of the source marked \<open>unreachable!\<close> (a payload of another kind) return a
  failure here; \<open>prepare_command_dispatch\<close> has compared payload and kind before.
\<close>

definition execute_command ::
  "executors \<Rightarrow> node_env \<Rightarrow> command_envelope \<Rightarrow> node_local_state \<Rightarrow> dispatch_outcome \<times> node_local_state" where
  "execute_command ex ne command s = (case ce_kind command of
     CK_ValidateWorkspace \<Rightarrow> (case ex_validation_events ex command (nl_placement_seqs s) of
       (events, seqs) \<Rightarrow> events_outcome ne command events (s\<lparr>nl_placement_seqs := seqs\<rparr>))
   | CK_RefreshResourceSnapshot \<Rightarrow> (case ex_snapshot_events ex command (nl_placement_seqs s) of
       (events, seqs) \<Rightarrow> events_outcome ne command events (s\<lparr>nl_placement_seqs := seqs\<rparr>))
   | CK_ListWorkspaceTree \<Rightarrow> (case ex_workspace_result ex command of
       (status, payload) \<Rightarrow> result_outcome command status payload s)
   | CK_ReadWorkspaceFile \<Rightarrow> (case ex_workspace_result ex command of
       (status, payload) \<Rightarrow> result_outcome command status payload s)
   | CK_OpenWorkspaceTerminal \<Rightarrow> (case ex_workspace_result ex command of
       (status, payload) \<Rightarrow> result_outcome command status payload s)
   | CK_WriteWorkspaceFile \<Rightarrow> causal_outcome ex ne command s
   | CK_RunWorkspaceCommand \<Rightarrow> causal_outcome ex ne command s
   | CK_ReadWorkspaceDiff \<Rightarrow> causal_outcome ex ne command s
   | CK_RequestDeduction \<Rightarrow> execute_deduction_command ex ne command s
   | CK_CancelDeduction \<Rightarrow> (case ce_payload command of CP_CancelDeduction d \<Rightarrow>
       result_outcome command CS_Completed (JObj [(''deduction_id'', JStr d), (''cancelled'', JBool True)])
         (s\<lparr>nl_cancelled_deductions := remember_cancelled_deduction d (nl_cancelled_deductions s)\<rparr>)
     | _ \<Rightarrow> result_outcome command CS_Failed JNull s)
   | CK_RunTask \<Rightarrow> (case ex_task ex command of
       (status, payload, events) \<Rightarrow> workspace_command_outcome ne command status payload events s)
   | CK_CancelTaskRun \<Rightarrow> (case ce_payload command of CP_CancelTaskRun t \<Rightarrow>
       result_outcome command CS_Completed
         (JObj [(''task_run_id'', JStr t), (''cancellation_requested'', JBool True)]) s
     | _ \<Rightarrow> result_outcome command CS_Failed JNull s)
   | CK_Tooling \<Rightarrow> (case ce_payload command of CP_Tooling tooling \<Rightarrow>
       (case ex_tooling ex tooling s of ((status, payload), deps) \<Rightarrow>
         (\<lparr>oc_status = status, oc_events_to_send = [], oc_result_payload = payload, oc_state_changed = True\<rparr>,
          record_command_result_payload command status (durable_tooling_result_payload payload)
            (s\<lparr>nl_tool_dependencies := deps\<rparr>)))
     | _ \<Rightarrow> result_outcome command CS_Failed JNull s)
   | _ \<Rightarrow> (case execute_runtime_command ex ne command s of
       (events, s1) \<Rightarrow> events_outcome ne command events s1))"

definition prepare_command_dispatch ::
  "executors \<Rightarrow> node_env \<Rightarrow> command_envelope \<Rightarrow> node_local_state \<Rightarrow> dispatch_outcome \<times> node_local_state" where
  "prepare_command_dispatch ex ne command s =
     (if \<not> command_matches_kind (ce_payload command) (ce_kind command)
      then (\<lparr>oc_status = CS_Failed, oc_events_to_send = [],
             oc_result_payload = JObj [(''error_code'', JStr ''protocol.command_payload_mismatch''),
               (''message'', JStr ''Command payload does not match its command kind''),
               (''retryable'', JBool False)],
             oc_state_changed = False\<rparr>, s)
      else case hm_get (nl_command_status s) (ce_command_id command) of
        Some status \<Rightarrow> (\<lparr>oc_status = status,
             oc_events_to_send = outbox_events_for_command (nl_event_outbox s) (ce_command_id command),
             oc_result_payload = (case hm_get (nl_command_result_payloads s) (ce_command_id command) of
                Some p \<Rightarrow> p | None \<Rightarrow> JObj []),
             oc_state_changed = False\<rparr>, s)
      | None \<Rightarrow> execute_command ex ne command s)"

definition provider_mcp_access_failure_outcome ::
  "node_env \<Rightarrow> command_envelope \<Rightarrow> node_local_state \<Rightarrow> dispatch_outcome \<times> node_local_state" where
  "provider_mcp_access_failure_outcome ne command s =
     (let code = ''provider.mcp_access_unavailable'';
          message = ''Uprava MCP access could not be issued for this turn'';
          provider_key = (case provider_for_command command s of None \<Rightarrow> ''codex'' | Some p \<Rightarrow> p);
          turn_id = (case ce_payload command of CP_SendTurn _ t \<Rightarrow> Some t | _ \<Rightarrow> None) in
      case (case target_runtime_id (ce_target command) of None \<Rightarrow> ([], nl_runtime_seqs s)
            | Some rid \<Rightarrow> (case runtime_error_event (ne_fresh ne 0) (ne_now ne) provider_key command rid turn_id
                 code message (nl_runtime_seqs s) of (e, seqs) \<Rightarrow> ([e], seqs))) of
        (events, seqs) \<Rightarrow>
          let s1 = apply_runtime_state_projection events (s\<lparr>nl_runtime_seqs := seqs\<rparr>) in
          (\<lparr>oc_status = CS_Failed, oc_events_to_send = events,
            oc_result_payload = JObj [(''error_code'', JStr code), (''message'', JStr message),
              (''retryable'', JBool True)],
            oc_state_changed = True\<rparr>,
           s1\<lparr>nl_event_outbox := nl_event_outbox s1 @ events,
              nl_command_status := hm_insert (ce_command_id command) CS_Failed (nl_command_status s1)\<rparr>))"

section \<open>The whole dispatch\<close>

text \<open>
  What the surroundings answer: whether the writer queue takes the acknowledgement and the
  result (\<open>try_send\<close>), whether MCP access was issued, and whether the save goes through.
\<close>

record dispatch_io =
  di_ack_sent :: bool
  di_mcp_issued :: bool
  di_saved :: bool
  di_result_sent :: bool
  di_meta :: "nat \<Rightarrow> frame_meta"

definition dispatch_outcome_of ::
  "executors \<Rightarrow> node_env \<Rightarrow> dispatch_io \<Rightarrow> command_envelope \<Rightarrow> node_local_state
   \<Rightarrow> dispatch_outcome \<times> node_local_state" where
  "dispatch_outcome_of ex ne io command baseline =
     (if ce_kind command = CK_SendTurn \<and> hm_get (nl_command_status baseline) (ce_command_id command) = None
         \<and> \<not> di_mcp_issued io
      then provider_mcp_access_failure_outcome ne command baseline
      else prepare_command_dispatch ex ne command baseline)"

definition handle_command_dispatch ::
  "executors \<Rightarrow> node_env \<Rightarrow> dispatch_io \<Rightarrow> command_envelope \<Rightarrow> node_local_state \<Rightarrow> node_store
   \<Rightarrow> control_frame list \<times> node_store" where
  "handle_command_dispatch ex ne io command baseline store =
     (if \<not> di_ack_sent io then ([], store)
      else let ack = CF_CommandAck (di_meta io 0) (ce_command_id command) CS_Acknowledged in
      case dispatch_outcome_of ex ne io command baseline of (outcome, local) \<Rightarrow>
      case (if oc_state_changed outcome
            then apply_node_state_mutation (di_saved io) (MergeCommandState baseline local) store
            else (Inr NR_Unit, store)) of
        (Inl _, store') \<Rightarrow> ([ack], store')
      | (Inr _, store') \<Rightarrow>
          ([ack] @ send_event_batches (\<lambda>i. di_meta io (Suc (Suc i))) (oc_events_to_send outcome)
           @ (if di_result_sent io then [CF_CommandResult (di_meta io 1) (ce_command_id command)
                (oc_status outcome) (oc_result_payload outcome)] else []), store'))"

section \<open>A command is executed at most once\<close>

lemma retention_event_frame:
  "nl_command_status (snd (runtime_outbox_retention_event f t a s)) = nl_command_status s"
  "nl_command_result_payloads (snd (runtime_outbox_retention_event f t a s)) = nl_command_result_payloads s"
  by (simp_all add: runtime_outbox_retention_event_def Let_def split: prod.splits)

lemma retention_notices_commands:
  "nl_command_status (snd (retention_notices f t i as s)) = nl_command_status s"
  "nl_command_result_payloads (snd (retention_notices f t i as s)) = nl_command_result_payloads s"
proof (induction as arbitrary: i s)
  case (Cons a as)
  { case 1 then show ?case using Cons.IH(1) retention_event_frame(1)[of "f i" t a s]
      by (simp split: prod.splits) (metis snd_conv) }
  { case 2 then show ?case using Cons.IH(2) retention_event_frame(2)[of "f i" t a s]
      by (simp split: prod.splits) (metis snd_conv) }
qed simp_all

lemma projection_commands [simp]:
  "nl_command_status (apply_runtime_state_projection es s) = nl_command_status s"
  "nl_command_result_payloads (apply_runtime_state_projection es s) = nl_command_result_payloads s"
  "nl_event_outbox (apply_runtime_state_projection es s) = nl_event_outbox s"
  by (simp_all add: apply_runtime_state_projection_def)

lemma retention_commands_snd:
  "nl_command_status (snd (enforce_event_outbox_retention elen f t n s)) = nl_command_status s"
  "nl_command_result_payloads (snd (enforce_event_outbox_retention elen f t n s)) = nl_command_result_payloads s"
  by (simp_all add: enforce_event_outbox_retention_def enforce_event_outbox_retention_with_limits_def Let_def
      case_prod_unfold retention_notices_commands)

lemma retention_commands:
  assumes "enforce_event_outbox_retention elen f t n s = (notices, s')"
  shows "nl_command_status s' = nl_command_status s"
    and "nl_command_result_payloads s' = nl_command_result_payloads s"
  using retention_commands_snd[of elen f t n s] by (simp_all add: assms)

definition stored_payload :: "node_local_state \<Rightarrow> id \<Rightarrow> json" where
  "stored_payload s c = (case hm_get (nl_command_result_payloads s) c of Some p \<Rightarrow> p | None \<Rightarrow> JObj [])"

lemma result_outcome_records:
  assumes "result_outcome command st p s = (oc, s')"
  shows "hm_get (nl_command_status s') (ce_command_id command) = Some (oc_status oc)"
    and "stored_payload s' (ce_command_id command) = oc_result_payload oc"
  using assms by (auto simp: result_outcome_def record_command_result_payload_def stored_payload_def)

lemma workspace_outcome_records:
  assumes "workspace_command_outcome ne command st p es s = (oc, s')"
  shows "hm_get (nl_command_status s') (ce_command_id command) = Some (oc_status oc)"
    and "stored_payload s' (ce_command_id command) = oc_result_payload oc"
  using assms retention_commands
  by (fastforce simp: workspace_command_outcome_def Let_def record_command_result_payload_def stored_payload_def
      split: prod.splits)+

lemma events_outcome_records:
  assumes "events_outcome ne command es s = (oc, s')"
    "hm_get (nl_command_result_payloads s) (ce_command_id command) = None"
  shows "hm_get (nl_command_status s') (ce_command_id command) = Some (oc_status oc)"
    and "stored_payload s' (ce_command_id command) = oc_result_payload oc"
  using assms retention_commands(2)
  by (fastforce simp: events_outcome_def Let_def stored_payload_def split: prod.splits)+

lemma runtime_command_payloads:
  "execute_runtime_command ex ne command s = (es, s') \<Longrightarrow>
   nl_command_result_payloads s' = nl_command_result_payloads s"
  by (auto simp: execute_runtime_command_def remember_runtime_metadata_def result_simps
      split: prod.splits sum.splits option.splits if_splits)

text \<open>Every branch records the status, through one of four ends.\<close>

inductive executed :: "command_envelope \<Rightarrow> node_local_state \<Rightarrow> dispatch_outcome \<times> node_local_state \<Rightarrow> bool"
  for command s where
  by_result: "executed command s (result_outcome command st p s1)"
| by_workspace: "executed command s (workspace_command_outcome ne command st p es s1)"
| by_events: "nl_command_result_payloads s1 = nl_command_result_payloads s \<Longrightarrow>
     executed command s (events_outcome ne command es s1)"
| by_tooling: "ce_kind command = CK_Tooling \<Longrightarrow> oc_status oc = st \<Longrightarrow> oc_state_changed oc \<Longrightarrow>
     executed command s (oc, record_command_result_payload command st p s1)"

lemma executed_deduction: "executed command s (execute_deduction_command ex ne command s)"
  by (auto simp: execute_deduction_command_def Let_def split: prod.splits intro: by_result)

lemma executed_causal: "executed command s (causal_outcome ex ne command s)"
  by (auto simp: causal_outcome_def split: prod.splits intro: by_workspace)

lemma executed_runtime:
  "executed command s (case execute_runtime_command ex ne command s of (es, s1) \<Rightarrow> events_outcome ne command es s1)"
  using runtime_command_payloads[of ex ne command s] by (auto split: prod.splits intro: by_events)

lemma executed_command: "executed command s (execute_command ex ne command s)"
  unfolding execute_command_def
  by (cases "ce_kind command")
    (auto simp: case_prod_unfold split: command_payload.splits
      intro: by_result by_workspace by_events by_tooling executed_deduction executed_causal
        executed_runtime[unfolded case_prod_unfold])

lemma executed_records:
  assumes "executed command s r" "hm_get (nl_command_result_payloads s) (ce_command_id command) = None"
  shows "hm_get (nl_command_status (snd r)) (ce_command_id command) = Some (oc_status (fst r))
    \<and> (ce_kind command \<noteq> CK_Tooling \<longrightarrow>
         stored_payload (snd r) (ce_command_id command) = oc_result_payload (fst r))
    \<and> oc_state_changed (fst r)"
  using assms
proof (induction rule: executed.induct)
  case (by_result st p s1)
  show ?case using result_outcome_records[OF prod.collapse[symmetric], of command st p s1]
    by (simp add: result_outcome_def)
next
  case (by_workspace ne st p es s1)
  have "oc_state_changed (fst (workspace_command_outcome ne command st p es s1))"
    by (simp add: workspace_command_outcome_def Let_def split: prod.splits)
  then show ?case using workspace_outcome_records[OF prod.collapse[symmetric], of ne command st p es s1] by simp
next
  case (by_events s1 ne es)
  have "oc_state_changed (fst (events_outcome ne command es s1))"
    by (simp add: events_outcome_def Let_def split: prod.splits)
  then show ?case
    using events_outcome_records[OF prod.collapse[symmetric], of s1 command ne es] by_events by simp
next
  case (by_tooling oc st p s1)
  then show ?case by (simp add: record_command_result_payload_def)
qed

text \<open>A well-kept cache: no payload without a status.\<close>

definition cache_ok :: "node_local_state \<Rightarrow> bool" where
  "cache_ok s \<longleftrightarrow> (\<forall>c. hm_get (nl_command_result_payloads s) c \<noteq> None \<longrightarrow> hm_get (nl_command_status s) c \<noteq> None)"

lemma prepare_unknown:
  assumes "command_matches_kind (ce_payload command) (ce_kind command)"
    "hm_get (nl_command_status s) (ce_command_id command) = None"
  shows "prepare_command_dispatch ex ne command s = execute_command ex ne command s"
  using assms by (simp add: prepare_command_dispatch_def)

lemma prepare_records:
  assumes "command_matches_kind (ce_payload command) (ce_kind command)" "cache_ok s"
    "prepare_command_dispatch ex ne command s = (oc, s')"
  shows "hm_get (nl_command_status s') (ce_command_id command) = Some (oc_status oc)"
    and "ce_kind command \<noteq> CK_Tooling \<Longrightarrow> stored_payload s' (ce_command_id command) = oc_result_payload oc"
proof -
  let ?c = "ce_command_id command"
  have "hm_get (nl_command_status s') ?c = Some (oc_status oc)
     \<and> (ce_kind command \<noteq> CK_Tooling \<longrightarrow> stored_payload s' ?c = oc_result_payload oc)"
  proof (cases "hm_get (nl_command_status s) ?c")
    case None
    then have "hm_get (nl_command_result_payloads s) ?c = None" using assms(2) by (auto simp: cache_ok_def)
    moreover have "execute_command ex ne command s = (oc, s')"
      using prepare_unknown[OF assms(1) None] assms(3) by simp
    ultimately show ?thesis using executed_records[OF executed_command[of command s ex ne]] by simp
  next
    case (Some st)
    then show ?thesis using assms(1,3) by (auto simp: prepare_command_dispatch_def stored_payload_def)
  qed
  then show "hm_get (nl_command_status s') ?c = Some (oc_status oc)"
    and "ce_kind command \<noteq> CK_Tooling \<Longrightarrow> stored_payload s' ?c = oc_result_payload oc" by simp_all
qed

text \<open>
  The second delivery of a command answers from the cache, whatever executing it again would
  do: the result does not depend on the executors and the state is unchanged.
\<close>

lemma prepare_twice:
  assumes "command_matches_kind (ce_payload command) (ce_kind command)" "cache_ok s"
    "prepare_command_dispatch ex ne command s = (oc, s')"
  shows "prepare_command_dispatch ex' ne' command s' = (\<lparr>oc_status = oc_status oc,
     oc_events_to_send = outbox_events_for_command (nl_event_outbox s') (ce_command_id command),
     oc_result_payload = stored_payload s' (ce_command_id command), oc_state_changed = False\<rparr>, s')"
  using prepare_records(1)[OF assms] assms(1) by (simp add: prepare_command_dispatch_def stored_payload_def)

section \<open>Persist, then report\<close>

lemma mcp_failure_records:
  "provider_mcp_access_failure_outcome ne command s = (oc, s') \<Longrightarrow>
   hm_get (nl_command_status s') (ce_command_id command) = Some (oc_status oc) \<and> oc_state_changed oc"
  by (auto simp: provider_mcp_access_failure_outcome_def Let_def split: prod.splits option.splits)

lemma dispatch_outcome_records:
  assumes "command_matches_kind (ce_payload command) (ce_kind command)" "cache_ok baseline"
    "dispatch_outcome_of ex ne io command baseline = (oc, local)"
  shows "hm_get (nl_command_status local) (ce_command_id command) = Some (oc_status oc)"
    and "\<not> oc_state_changed oc \<Longrightarrow> hm_get (nl_command_status baseline) (ce_command_id command) = Some (oc_status oc)"
proof -
  show "hm_get (nl_command_status local) (ce_command_id command) = Some (oc_status oc)"
    using assms(3) mcp_failure_records prepare_records(1)[OF assms(1,2)]
    by (auto simp: dispatch_outcome_of_def split: if_splits)
  assume n: "\<not> oc_state_changed oc"
  then have p: "prepare_command_dispatch ex ne command baseline = (oc, local)"
    using assms(3) mcp_failure_records by (auto simp: dispatch_outcome_of_def split: if_splits)
  show "hm_get (nl_command_status baseline) (ce_command_id command) = Some (oc_status oc)"
  proof (cases "hm_get (nl_command_status baseline) (ce_command_id command)")
    case None
    then have "hm_get (nl_command_result_payloads baseline) (ce_command_id command) = None"
      using assms(2) by (auto simp: cache_ok_def)
    moreover have "execute_command ex ne command baseline = (oc, local)"
      using prepare_unknown[OF assms(1) None] p by simp
    ultimately show ?thesis using executed_records[OF executed_command[of command baseline ex ne]] n by simp
  next
    case (Some st)
    then show ?thesis using p assms(1) by (auto simp: prepare_command_dispatch_def)
  qed
qed

lemma batches_no_result: "CF_CommandResult m c st p \<notin> set (send_event_batches meta es)"
  by (auto simp: send_event_batches_def Let_def)

text \<open>A result frame leaves the Node only after the store has saved the status it reports.\<close>

lemma reported_result_saved:
  assumes m: "command_matches_kind (ce_payload command) (ce_kind command)" and c: "cache_ok baseline"
    and h: "handle_command_dispatch ex ne io command baseline store = (frames, store')" and "synced store"
    and own: "\<And>v. hm_get (nl_command_status baseline) (ce_command_id command) = Some v \<Longrightarrow>
       hm_get (nl_command_status (sr_state store)) (ce_command_id command) = Some v"
    and r: "CF_CommandResult mt cid st p \<in> set frames"
  shows "cid = ce_command_id command" "hm_get (nl_command_status (sr_state store')) cid = Some st" "synced store'"
proof -
  obtain oc local where o: "dispatch_outcome_of ex ne io command baseline = (oc, local)" by force
  note rec = dispatch_outcome_records[OF m c o]
  let ?w = "if oc_state_changed oc
      then apply_node_state_mutation (di_saved io) (MergeCommandState baseline local) store else (Inr NR_Unit, store)"
  obtain x where w: "?w = (Inr x, store')" and cid: "cid = ce_command_id command" "st = oc_status oc"
    using h r o by (cases ?w; cases "fst ?w")
      (auto simp: handle_command_dispatch_def Let_def batches_no_result split: if_splits)
  show "cid = ce_command_id command" by (rule cid(1))
  show "synced store'"
    using w \<open>synced store\<close> apply_mutation_ok_synced by (auto split: if_splits)
  show "hm_get (nl_command_status (sr_state store')) cid = Some st"
  proof (cases "oc_state_changed oc")
    case True
    then have "sr_state store' = merge_command_state_from (sr_state store) baseline local"
      using apply_mutation_state[of "di_saved io" "MergeCommandState baseline local" store] w
      by (simp add: mutate_state_def)
    then show ?thesis using rec(1) own cid
      by (auto simp: merge_command_state_from_def table_simps)
  next
    case False
    then show ?thesis using rec(2) own cid w by simp
  qed
qed

section \<open>Cancellation reaches its execution\<close>

lemma cancel_before_begin:
  assumes "hm_get (cx_senders st) key = None"
    "cancellation_begin key (snd (cancellation_cancel key True st)) = (guard, st')"
  shows "hm_get (cx_signals st') (cg_channel guard) = Some True"
  using assms by (auto simp: cancellation_cancel_def cancellation_begin_def Let_def)

lemma cancel_while_running:
  assumes "cancellation_begin key st = (guard, st1)"
  shows "hm_get (cx_signals (snd (cancellation_cancel key r st1))) (cg_channel guard) = Some True"
  using assms by (auto simp: cancellation_cancel_def cancellation_begin_def Let_def)

lemma finish_of_replaced_guard:
  assumes "hm_get (cx_senders st) (cg_key guard) \<noteq> Some (cg_channel guard)"
  shows "cancellation_finish guard st = st"
  using assms by (simp add: cancellation_finish_def)

text \<open>A cancel command signals the key under which the command it cancels runs.\<close>

lemma cancel_keys_match:
  "ce_kind c = CK_CancelTaskRun \<Longrightarrow> ce_payload c = CP_CancelTaskRun t \<Longrightarrow>
   ce_kind r = CK_RunTask \<Longrightarrow> ce_payload r = CP_RunTask w spec \<Longrightarrow> trs_task_run_id spec = t \<Longrightarrow>
   cancellation_signal c = Some (the (execution_cancellation_key r), True)"
  "ce_kind c = CK_CancelDeduction \<Longrightarrow> ce_payload c = CP_CancelDeduction d \<Longrightarrow>
   ce_kind r = CK_RequestDeduction \<Longrightarrow> ce_payload r = CP_RequestDeduction pkg \<Longrightarrow> dip_deduction_id pkg = d \<Longrightarrow>
   cancellation_signal c = Some (the (execution_cancellation_key r), True)"
  by (simp_all add: cancellation_signal_def execution_cancellation_key_def)

end
