(* ===== verification/Event_Link.thy ===== *)
theory Event_Link
  imports Log_Frames Node_Dispatch
begin

text \<open>
  The Node's outbox and Core's event log together. A link is a Node store, the frames on
  their way to Core and the state of Core (whose channels hold the frames on their way back).
  Its steps are the operations of the two sides and everything the network and the operating
  system may do to them: frames are sent in any selection, any number of times, lost with
  their connection; the Node fails to save, crashes and restarts from its file.

  \<open>lk_durable\<close> remembers which events the Node has ever saved. \<open>link_reachable_safe\<close>: each of
  them is in Core's log or still in the Node's outbox, in memory and on disk.
\<close>

section \<open>The outbox under the mutations\<close>

lemma mutation_appends:
  assumes "\<And>ids. m \<noteq> PersistEventAck ids"
  shows "\<exists>new. nl_event_outbox (mutate_state m s) = nl_event_outbox s @ new"
proof (cases m)
  case (MergeCommandState b c)
  then show ?thesis using merge_outbox_append[of "nl_event_outbox s" "nl_event_outbox b" "nl_event_outbox c"]
    by (auto simp: mutate_state_def merge_command_state_from_def)
qed (use assms in \<open>auto simp: mutate_state_def clear_enrollment_attempt_def clear_core_registration_def\<close>)

definition outbox_ids :: "node_store \<Rightarrow> id set" where
  "outbox_ids st = ev_event_id ` set (nl_event_outbox (sr_state st))"

definition file_ids :: "node_store \<Rightarrow> id set" where
  "file_ids st = (case sr_file st of None \<Rightarrow> {} | Some d \<Rightarrow> ev_event_id ` set (dk_event_outbox d))"

definition file_ok :: "node_store \<Rightarrow> bool" where
  "file_ok st \<longleftrightarrow> (\<forall>d. sr_file st = Some d \<longrightarrow> (\<exists>t. d = disk_of t))"

lemma disk_outbox [simp]: "dk_event_outbox (disk_of t) = nl_event_outbox t"
  by (simp add: disk_of_def)

lemma mutation_file:
  assumes "apply_node_state_mutation io m st = (r, st')"
  shows "sr_file st' = sr_file st \<and> (is_ok r \<longrightarrow> \<not> mutation_saves m (sr_state st))
    \<or> sr_file st' = Some (disk_of (compact_for_persistence (sr_state st')))"
  using assms save_async_Inr
  by (auto simp: apply_node_state_mutation_def Let_def split: if_splits sum.splits)

lemma mutation_file_ok:
  "file_ok st \<Longrightarrow> apply_node_state_mutation io m st = (r, st') \<Longrightarrow> file_ok st'"
  using mutation_file[of io m st r st'] by (auto simp: file_ok_def)

lemma mutation_file_ids:
  "apply_node_state_mutation io m st = (r, st') \<Longrightarrow> file_ids st' = file_ids st \<or> file_ids st' = outbox_ids st'"
  using mutation_file[of io m st r st'] by (auto simp: file_ids_def outbox_ids_def)

lemma saved_file_ids:
  "apply_node_state_mutation io m st = (Inr r, st') \<Longrightarrow> mutation_saves m (sr_state st) \<Longrightarrow>
   file_ids st' = outbox_ids st'"
  using mutation_file[of io m st "Inr r" st'] by (auto simp: file_ids_def outbox_ids_def)

lemma mutation_outbox_ids:
  "apply_node_state_mutation io m st = (r, st') \<Longrightarrow> (\<And>ids. m \<noteq> PersistEventAck ids) \<Longrightarrow>
   outbox_ids st \<subseteq> outbox_ids st'"
  using mutation_appends[of m "sr_state st"] apply_mutation_state[of io m st] by (auto simp: outbox_ids_def)

lemma ack_outbox_ids:
  "apply_node_state_mutation io (PersistEventAck ids) st = (r, st') \<Longrightarrow> outbox_ids st' = outbox_ids st - set ids"
  using apply_mutation_state[of io "PersistEventAck ids" st]
  by (auto simp: outbox_ids_def mutate_state_def set_remove_acked)

lemma loaded_outbox:
  "load_async legacy fresh (Some (disk_of t)) = Inr s \<Longrightarrow> nl_event_outbox s = nl_event_outbox t"
proof -
  assume "load_async legacy fresh (Some (disk_of t)) = Inr s"
  then have "s = hydrate_from_normalized_tables (disk_of t) (sqlite_compatibility_seed t)"
    by (simp add: load_async_def) (simp add: disk_of_def)
  then show ?thesis by (simp add: hydrate_other_fields)
qed

section \<open>The link\<close>

record link =
  lk_store :: node_store
  lk_core :: core_state
  lk_up :: "control_frame list"
  lk_durable :: "id set"

definition pop_channel :: "nat \<Rightarrow> core_state \<Rightarrow> core_state" where
  "pop_channel tx st = (case hm_get (co_channels st) tx of None \<Rightarrow> st
     | Some ch \<Rightarrow> st\<lparr>co_channels := hm_insert tx (ch\<lparr>ch_queue := tl (ch_queue ch)\<rparr>) (co_channels st)\<rparr>)"

inductive link_step :: "wire \<Rightarrow> tooling \<Rightarrow> link \<Rightarrow> link \<Rightarrow> bool" for w tools where
  save: "(\<And>ids. m \<noteq> PersistEventAck ids) \<Longrightarrow>
     apply_node_state_mutation io m (lk_store l) = (Inr r, store) \<Longrightarrow>
     link_step w tools l (l\<lparr>lk_store := store, lk_durable := lk_durable l \<union> outbox_ids store\<rparr>)"
| save_fails: "(\<And>ids. m \<noteq> PersistEventAck ids) \<Longrightarrow>
     apply_node_state_mutation io m (lk_store l) = (Inl e, store) \<Longrightarrow>
     link_step w tools l (l\<lparr>lk_store := store\<rparr>)"
| send: "link_step w tools l (l\<lparr>lk_up := lk_up l @ frames\<rparr>)"
| deliver: "lk_up l = frame # rest \<Longrightarrow>
     link_step w tools l (l\<lparr>lk_up := rest,
       lk_core := snd (handle_node_control_frame w tools fe ctx frame (lk_core l))\<rparr>)"
| acknowledge: "hm_get (co_channels (lk_core l)) tx = Some ch \<Longrightarrow>
     ch_queue ch = CF_EventBatchAck mt ids # q \<Longrightarrow>
     apply_node_state_mutation io (PersistEventAck ids) (lk_store l) = (r, store) \<Longrightarrow>
     link_step w tools l (l\<lparr>lk_store := store, lk_core := pop_channel tx (lk_core l)\<rparr>)"
| receive: "link_step w tools l (l\<lparr>lk_core := pop_channel tx (lk_core l)\<rparr>)"
| disconnect: "link_step w tools l (l\<lparr>lk_up := [],
     lk_core := (lk_core l)\<lparr>co_channels := hm_remove tx (co_channels (lk_core l))\<rparr>\<rparr>)"
| core_other: "same_log (lk_core l) core \<Longrightarrow> link_step w tools l (l\<lparr>lk_core := core\<rparr>)"
| restart: "load_async legacy fresh (sr_file (lk_store l)) = Inr s \<Longrightarrow>
     link_step w tools l (l\<lparr>lk_store := (lk_store l)\<lparr>sr_state := s\<rparr>, lk_up := []\<rparr>)"

inductive link_reachable :: "wire \<Rightarrow> tooling \<Rightarrow> link \<Rightarrow> bool" for w tools where
  start: "log_ok {} core \<Longrightarrow> link_reachable w tools \<lparr>lk_store = \<lparr>sr_state = default_node_state fresh, sr_file = None\<rparr>,
     lk_core = core, lk_up = [], lk_durable = {}\<rparr>"
| step: "link_reachable w tools l \<Longrightarrow> link_step w tools l l' \<Longrightarrow> link_reachable w tools l'"

abbreviation known_ids :: "core_state \<Rightarrow> id set" where
  "known_ids st \<equiv> {i. event_known (co_db st) i}"

definition link_inv :: "link \<Rightarrow> bool" where
  "link_inv l \<longleftrightarrow> log_ok {} (lk_core l) \<and> file_ok (lk_store l)
     \<and> lk_durable l \<subseteq> known_ids (lk_core l) \<union> outbox_ids (lk_store l)
     \<and> lk_durable l \<subseteq> known_ids (lk_core l) \<union> file_ids (lk_store l)"

lemma log_ok_known: "log_ok {} st \<Longrightarrow> log_ok (known_ids st) st"
  by (auto simp: log_ok_def)

lemma queued_acks_pop: "queued_acks (pop_channel tx st) \<subseteq> queued_acks st"
  by (auto simp: queued_acks_def pop_channel_def split: option.splits if_splits dest: list.set_sel(2)[rotated])
    (metis list.sel(2) list.set_sel(2))+

lemma same_log_pop: "same_log st (pop_channel tx st)"
  using queued_acks_pop[of tx st] by (auto simp: same_log_def) (simp_all add: pop_channel_def split: option.splits)

lemma same_log_drop: "same_log st (st\<lparr>co_channels := hm_remove tx (co_channels st)\<rparr>)"
  by (auto simp: same_log_def queued_acks_def split: if_splits)

lemma link_inv_same_log:
  assumes "link_inv l" "same_log (lk_core l) core"
  shows "link_inv (l\<lparr>lk_core := core, lk_up := up\<rparr>)"
proof -
  have "known_ids core = known_ids (lk_core l)" using assms(2) by (simp add: same_log_def event_known_def)
  then show ?thesis using assms log_ok_same[OF assms(2)] by (simp add: link_inv_def)
qed

lemma link_inv_save:
  assumes "link_inv l" "\<And>ids. m \<noteq> PersistEventAck ids"
    "apply_node_state_mutation io m (lk_store l) = (r, store)"
  shows "link_inv (l\<lparr>lk_store := store\<rparr>)"
    and "is_ok r \<Longrightarrow> link_inv (l\<lparr>lk_store := store, lk_durable := lk_durable l \<union> outbox_ids store\<rparr>)"
proof -
  have o: "outbox_ids (lk_store l) \<subseteq> outbox_ids store" using mutation_outbox_ids[OF assms(3,2)] by simp
  have f: "file_ok store" using assms(1) mutation_file_ok[OF _ assms(3)] by (simp add: link_inv_def)
  have s: "mutation_saves m (sr_state (lk_store l))" using assms(2) by (cases m) (auto simp: mutation_saves_def)
  show "link_inv (l\<lparr>lk_store := store\<rparr>)"
    using assms(1) o f mutation_file_ids[OF assms(3)] unfolding link_inv_def by auto
  assume "is_ok r"
  then have "file_ids store = outbox_ids store" using saved_file_ids[OF _ s] assms(3) by (cases r) auto
  then show "link_inv (l\<lparr>lk_store := store, lk_durable := lk_durable l \<union> outbox_ids store\<rparr>)"
    using assms(1) o f unfolding link_inv_def by auto
qed

lemma link_inv_ack:
  assumes "link_inv l" "set ids \<subseteq> known_ids (lk_core l)"
    "apply_node_state_mutation io (PersistEventAck ids) (lk_store l) = (r, store)"
  shows "link_inv (l\<lparr>lk_store := store\<rparr>)"
  using assms(1,2) ack_outbox_ids[OF assms(3)] mutation_file_ids[OF assms(3)] mutation_file_ok[OF _ assms(3)]
  unfolding link_inv_def by auto

lemma link_inv_deliver:
  assumes "link_inv l" "\<And>K. tooling_ok (log_ok K) tools"
  shows "link_inv (l\<lparr>lk_up := rest, lk_core := snd (handle_node_control_frame w tools fe ctx frame (lk_core l))\<rparr>)"
proof -
  let ?c = "snd (handle_node_control_frame w tools fe ctx frame (lk_core l))"
  have "log_ok (known_ids (lk_core l)) ?c"
    using handler_keeps_log[OF assms(2)] assms(1) log_ok_known by (auto simp: link_inv_def h_keeps_def)
  then have "known_ids (lk_core l) \<subseteq> known_ids ?c" "log_ok {} ?c" by (auto simp: log_ok_def)
  then show ?thesis using assms(1) unfolding link_inv_def by auto
qed

lemma link_inv_restart:
  assumes "link_inv l" "load_async legacy fresh (sr_file (lk_store l)) = Inr s"
  shows "link_inv (l\<lparr>lk_store := (lk_store l)\<lparr>sr_state := s\<rparr>, lk_up := []\<rparr>)"
proof (cases "sr_file (lk_store l)")
  case None
  then show ?thesis using assms by (auto simp: link_inv_def file_ids_def file_ok_def)
next
  case (Some d)
  then obtain t where d: "d = disk_of t" using assms(1) by (auto simp: link_inv_def file_ok_def)
  then show ?thesis using assms Some loaded_outbox[of legacy fresh t s]
    by (auto simp: link_inv_def file_ids_def file_ok_def outbox_ids_def)
qed

lemma link_inv_step:
  assumes "\<And>K. tooling_ok (log_ok K) tools" "link_step w tools l l'" "link_inv l"
  shows "link_inv l'"
  using assms(2)
proof (cases rule: link_step.cases)
  case (save m io r store)
  then show ?thesis using link_inv_save(2)[OF assms(3) save(2,3)] by simp
next
  case (save_fails m io e store)
  then show ?thesis using link_inv_save(1)[OF assms(3) save_fails(2,3)] by simp
next
  case (acknowledge tx ch mt ids q io r store)
  have "set ids \<subseteq> queued_acks (lk_core l)"
    unfolding queued_acks_def using acknowledge(2,3) by (force simp: frame_acks_def)
  then have "set ids \<subseteq> known_ids (lk_core l)" using assms(3) by (auto simp: link_inv_def log_ok_def)
  from link_inv_same_log[OF link_inv_ack[OF assms(3) this acknowledge(4)], of "pop_channel tx (lk_core l)" "lk_up l"]
  show ?thesis using acknowledge(1) same_log_pop by simp
next
  case (deliver frame rest fe ctx)
  then show ?thesis using link_inv_deliver[OF assms(3,1)] by simp
next
  case (restart legacy fresh s)
  then show ?thesis using link_inv_restart[OF assms(3)] by simp
next
  case (receive tx)
  then show ?thesis using link_inv_same_log[OF assms(3) same_log_pop, where up = "lk_up l"] by simp
next
  case (disconnect tx)
  then show ?thesis using link_inv_same_log[OF assms(3) same_log_drop, where up = "[]"] unfolding link_inv_def by simp
next
  case (core_other core)
  then show ?thesis using link_inv_same_log[OF assms(3), of core "lk_up l"] by simp
next
  case (send frames)
  then show ?thesis using assms(3) by (simp add: link_inv_def)
qed

lemma link_reachable_safe:
  assumes "\<And>K. tooling_ok (log_ok K) tools" "link_reachable w tools l"
  shows "link_inv l"
  using assms(2)
proof (induction rule: link_reachable.induct)
  case (start core fresh)
  then show ?case by (simp add: link_inv_def file_ok_def)
next
  case (step l l')
  then show ?case using link_inv_step[OF assms(1)] by blast
qed

section \<open>A replay that Core accepts empties the outbox\<close>

lemma accept_node_event_channels:
  assumes "accept_node_event b now m e st = Inr st'"
  shows "co_channels st' = co_channels st" "co_registry st' = co_registry st"
proof -
  have d: "co_channels (fold (drain_row b now) rows s) = co_channels s
      \<and> co_registry (fold (drain_row b now) rows s) = co_registry s" for rows s
    by (induction rows arbitrary: s) (simp_all add: drain_row_def Let_def)
  show "co_channels st' = co_channels st" "co_registry st' = co_registry st"
    using assms d
    by (auto simp: accept_node_event_def result_simps Let_def drain_event_publication_outbox_def
        record_event_metrics_def split: option.splits)
qed

lemma accept_batch_channels:
  "accept_batch fe n i es acc st = (r, st') \<Longrightarrow> co_channels st' = co_channels st \<and> co_registry st' = co_registry st"
proof (induction es arbitrary: i acc st)
  case (Cons e es)
  then show ?case using accept_node_event_channels
    by (fastforce simp: h_bind_def h_check_def h_run_def split: sum.splits)
qed (simp add: h_ok_def)

lemma event_batch_ack:
  assumes "log_ok K st" "handle_event_batch w fe ctx es st = (Inr (), st')"
    "registry_sender (co_registry st) (nc_node_id ctx) = Some tx"
    "hm_get (co_channels st) tx = Some ch" "\<not> ch_closed ch" "length (ch_queue ch) < CONTROL_QUEUE_CAPACITY"
  shows "hm_get (co_channels st') tx = Some (ch\<lparr>ch_queue := ch_queue ch
       @ [CF_EventBatchAck (own_meta fe) (map ev_event_id es)]\<rparr>)"
    and "log_ok (K \<union> ev_event_id ` set es) st'" and "co_registry st' = co_registry st"
proof -
  let ?f = "CF_EventBatchAck (own_meta fe) (map ev_event_id es)"
  obtain ids st1 where b: "accept_batch fe (nc_node_id ctx) 0 es [] st = (Inr ids, st1)"
    and st': "st' = snd (send_control_frame (nc_node_id ctx) (CF_EventBatchAck (own_meta fe) ids) st1)"
    using assms(2) by (auto simp: handle_event_batch_def result_simps)
  note l = accept_batch_log[OF assms(1) b] and c = accept_batch_channels[OF b]
  have f: "send_control_frame (nc_node_id ctx) ?f st1 = (True, st1\<lparr>co_channels :=
      hm_insert tx (ch\<lparr>ch_queue := ch_queue ch @ [?f]\<rparr>) (co_channels st1)\<rparr>)"
    using try_send_room[of st1 tx ch ?f] assms(3-6) c by (simp add: send_control_frame_def)
  have i: "ids = map ev_event_id es" using l by simp
  show "hm_get (co_channels st') tx = Some (ch\<lparr>ch_queue := ch_queue ch @ [?f]\<rparr>)"
    and "co_registry st' = co_registry st" using st' f i c by simp_all
  show "log_ok (K \<union> ev_event_id ` set es) st'"
  proof -
    have "log_ok (K \<union> ev_event_id ` set es) st1" using l i by simp
    moreover have "co_db st' = co_db st1" "queued_acks st' \<subseteq> queued_acks st1 \<union> ev_event_id ` set es"
      using send_control_frame_snd[of "nc_node_id ctx" ?f st1] st' i by (simp_all add: frame_acks_def)
    ultimately show ?thesis unfolding log_ok_def by (simp del: mem_Collect_eq) blast
  qed
qed

fun deliver_batches ::
  "wire \<Rightarrow> (nat \<Rightarrow> frame_env) \<Rightarrow> node_context \<Rightarrow> nat \<Rightarrow> event_envelope list list \<Rightarrow> core_state \<Rightarrow> app_error + core_state" where
  "deliver_batches w fe ctx i [] st = Inr st"
| "deliver_batches w fe ctx i (b # bs) st = (case handle_event_batch w (fe i) ctx b st of
     (Inl e, _) \<Rightarrow> Inl e | (Inr _, st') \<Rightarrow> deliver_batches w fe ctx (Suc i) bs st')"

definition ack_ids :: "control_frame \<Rightarrow> id list" where
  "ack_ids f = (case f of CF_EventBatchAck _ ids \<Rightarrow> ids | _ \<Rightarrow> [])"

lemma ack_ids_batch [simp]: "ack_ids (CF_EventBatchAck m ids) = ids"
  by (simp add: ack_ids_def)

lemma deliver_batches_acks:
  assumes "log_ok K st" "deliver_batches w fe ctx i bs st = Inr st'"
    "registry_sender (co_registry st) (nc_node_id ctx) = Some tx"
    "hm_get (co_channels st) tx = Some ch" "\<not> ch_closed ch"
    "length (ch_queue ch) + length bs \<le> CONTROL_QUEUE_CAPACITY"
  shows "\<exists>acks. hm_get (co_channels st') tx = Some (ch\<lparr>ch_queue := ch_queue ch @ acks\<rparr>)
     \<and> map ack_ids acks = map (map ev_event_id) bs \<and> log_ok (K \<union> ev_event_id ` set (concat bs)) st'"
  using assms
proof (induction bs arbitrary: K st ch i)
  case (Cons b bs)
  obtain st1 where h: "handle_event_batch w (fe i) ctx b st = (Inr (), st1)"
    and d: "deliver_batches w fe ctx (Suc i) bs st1 = Inr st'"
    using Cons.prems(2) by (auto split: prod.splits sum.splits)
  let ?ch = "ch\<lparr>ch_queue := ch_queue ch @ [CF_EventBatchAck (own_meta (fe i)) (map ev_event_id b)]\<rparr>"
  have r: "length (ch_queue ch) < CONTROL_QUEUE_CAPACITY" using Cons.prems(6) by simp
  note a = event_batch_ack[OF Cons.prems(1) h Cons.prems(3,4,5) r]
  obtain acks where acks: "hm_get (co_channels st') tx = Some (?ch\<lparr>ch_queue := ch_queue ?ch @ acks\<rparr>)"
    "map ack_ids acks = map (map ev_event_id) bs"
    "log_ok (K \<union> ev_event_id ` set b \<union> ev_event_id ` set (concat bs)) st'"
    using Cons.IH[OF a(2) d, of ?ch] a(1,3) Cons.prems(3,5,6) by auto
  then show ?case
    by (intro exI[of _ "CF_EventBatchAck (own_meta (fe i)) (map ev_event_id b) # acks"])
      (simp add: image_Un Un_assoc)
qed simp

lemma fold_acks_outbox:
  "set (fold (\<lambda>ids out. snd (remove_acked_events ids out)) idss outbox)
   = {e \<in> set outbox. ev_event_id e \<notin> set (concat idss)}"
  by (induction idss arbitrary: outbox) (auto simp: set_remove_acked)

lemma acked_batches_empty:
  assumes "map ack_ids acks = map (map ev_event_id) (chunks EVENT_DELIVERY_BATCH_SIZE outbox)"
  shows "fold (\<lambda>f out. snd (remove_acked_events (ack_ids f) out)) acks outbox = []"
proof -
  have "fold (\<lambda>f out. snd (remove_acked_events (ack_ids f) out)) acks outbox
      = fold (\<lambda>ids out. snd (remove_acked_events ids out)) (map ack_ids acks) outbox"
    by (simp add: fold_map comp_def)
  moreover have "concat (map ack_ids acks) = map ev_event_id outbox"
    unfolding assms using concat_chunks[of EVENT_DELIVERY_BATCH_SIZE outbox]
    by (simp add: EVENT_DELIVERY_BATCH_SIZE_def map_concat[symmetric])
  ultimately have "set (fold (\<lambda>f out. snd (remove_acked_events (ack_ids f) out)) acks outbox) = {}"
    by (auto simp: fold_acks_outbox simp del: set_concat)
  then show ?thesis by simp
qed

end
