(* ===== verification/Ownership.thy ===== *)
theory Ownership
  imports Node_Frames
begin

text \<open>
  Which rows an event of a Node can touch. Runtimes and sessions are isolated: an event that
  passes \<open>validate_event_owner\<close> and is accepted leaves every runtime and session of another
  Node as it was. Placements, task runs and turns are not: the projections take their keys
  from the payload or from \<open>turn_id\<close>, which the owner check never looks at. The last section
  gives the concrete events.
\<close>

section \<open>Rows an event does not name\<close>

lemma update_runtimes_other:
  assumes "\<And>r. rt_runtime_session_id (f r) = rt_runtime_session_id r" "k \<noteq> rid"
  shows "find_runtime (update_runtimes rid f db) k = find_runtime db k"
proof -
  have "select_by rt_runtime_session_id k (update_where (\<lambda>r. rt_runtime_session_id r = rid) f t)
      = select_by rt_runtime_session_id k t" for t
    using assms by (induction t) auto
  then show ?thesis by (simp add: update_runtimes_def)
qed

lemma assign_runtime_state_key: "rt_runtime_session_id (assign_runtime_state st t r) = rt_runtime_session_id r"
  by (simp add: assign_runtime_state_def)

lemma project_runtime_other:
  "ev_runtime_session_id e \<noteq> Some k \<Longrightarrow> find_runtime (project_runtime e db) k = find_runtime db k"
  by (auto simp: project_runtime_def Let_def update_runtime_state_def update_runtime_provider_resume_ref_def
      update_runtimes_other assign_runtime_state_key split: option.splits)

lemma session_event_other:
  "ev_session_thread_id e \<noteq> Some k \<Longrightarrow> find_session (update_session_state_from_event e st db) k = find_session db k"
  by (auto simp: update_session_state_from_event_def table_simps split: option.splits)

lemma project_sessions_other:
  "ev_session_thread_id e \<noteq> Some k \<Longrightarrow> find_session (project_runtime e db) k = find_session db k"
  by (simp add: sessions_project_runtime session_event_other split: option.splits)

lemma gap_other:
  "ev_runtime_session_id e \<noteq> Some k \<Longrightarrow> find_runtime (mark_event_stream_gap e n db) k = find_runtime db k"
  "ev_session_thread_id e \<noteq> Some k \<Longrightarrow> find_session (mark_event_stream_gap e n db) k = find_session db k"
  by (auto simp: mark_event_stream_gap_def Let_def update_runtimes_other table_simps split: option.splits)

lemma apply_other:
  assumes "apply_event_projection e db = Inr db'"
  shows "ev_runtime_session_id e \<noteq> Some k \<Longrightarrow> find_runtime db' k = find_runtime db k"
    and "ev_session_thread_id e \<noteq> Some k \<Longrightarrow> find_session db' k = find_session db k"
proof -
  let ?db1 = "case ev_runtime_session_id e of None \<Rightarrow> db | Some rid \<Rightarrow> touch_runtime_step rid (ev_happened_at e) db"
  from assms obtain db3 db4 where
    3: "update_approval_from_event e (update_turn_from_event e ?db1) = Inr db3"
    and 4: "project_task_event_on_connection e db3 = Inr db4"
    and 5: "(if ev_kind e \<in> {EK_WorkspaceValidated, EK_ResourceSnapshotUpdated}
         then update_placement_from_workspace_event e db4 else Inr (project_runtime e db4)) = Inr db'"
    by (auto simp only: apply_event_projection_def Let_def result_simps)
  have s1: "db_runtimes db4 = db_runtimes ?db1" "db_sessions db4 = db_sessions db"
    using runtimes_approval[OF 3] runtimes_task[OF 4]
    by (auto simp: touch_runtime_step_def split: option.splits)
  {
    assume k: "ev_runtime_session_id e \<noteq> Some k"
    then have "find_runtime ?db1 k = find_runtime db k"
      by (auto simp: touch_runtime_step_def update_runtimes_other split: option.splits)
    then show "find_runtime db' k = find_runtime db k"
      using 5 s1(1) project_runtime_other[OF k] runtimes_placement[of e db4 db'] by (auto split: if_splits)
  }
  {
    assume "ev_session_thread_id e \<noteq> Some k"
    then show "find_session db' k = find_session db k"
      using 5 s1(2) project_sessions_other[of e k db4] runtimes_placement[of e db4 db']
      by (auto split: if_splits)
  }
qed

lemma accept_new_other:
  assumes "accept_new_event m e db = Inr db'"
  shows "ev_runtime_session_id e \<noteq> Some k \<Longrightarrow> find_runtime db' k = find_runtime db k"
    and "ev_session_thread_id e \<noteq> Some k \<Longrightarrow> find_session db' k = find_session db k"
proof -
  from assms obtain db1 db2 where
    1: "insert_event_record (scope_key (ev_scope_ref e)) (stamp_event e db)
       (upsert_actor (ev_actor_ref e) (ev_happened_at e) db) = Inr db1"
    and 2: "apply_event_projection (stamp_event e db) db1 = Inr db2"
    and 3: "complete_event_projection m (stamp_event e db)
       (case stream_gap e db of None \<Rightarrow> db2 | Some n \<Rightarrow> mark_event_stream_gap (stamp_event e db) n db2) = Inr db'"
    by (rule accept_new_event_steps)
  have same: "db_runtimes db1 = db_runtimes db" "db_sessions db1 = db_sessions db"
    using 1 by (auto simp: insert_event_record_def result_simps)
  show "ev_runtime_session_id e \<noteq> Some k \<Longrightarrow> find_runtime db' k = find_runtime db k"
    using apply_other(1)[OF 2, of k] gap_other(1)[of "stamp_event e db" k] complete_log(5)[OF 3] same
    by (auto split: option.splits)
  show "ev_session_thread_id e \<noteq> Some k \<Longrightarrow> find_session db' k = find_session db k"
    using apply_other(2)[OF 2, of k] gap_other(2)[of "stamp_event e db" k] complete_log(6)[OF 3] same
    by (auto split: option.splits)
qed

section \<open>The owner check\<close>

lemma validate_event_ownerD:
  assumes "validate_event_owner n e db = Inr u"
  shows "ev_node_id e = Some n"
    and "ev_runtime_session_id e = Some r \<Longrightarrow> runtime_owner db r = Some n"
    and "ev_session_thread_id e = Some s \<Longrightarrow> session_owner db s = Some n"
    and "ev_runtime_session_id e = Some r \<Longrightarrow> ev_session_thread_id e = Some s \<Longrightarrow>
         map_option rt_session_thread_id (find_runtime db r) = Some s"
  using assms
  by (auto simp: validate_event_owner_def result_simps validate_runtime_owner_def event_aggregate_ok_def)

lemma accepted_isolation:
  assumes inv: "ingest_inv db" and own: "validate_event_owner n e db = Inr u"
    and acc: "accept_transaction m e db = Inr (c, db')"
  shows "runtime_owner db r \<noteq> Some n \<Longrightarrow> find_runtime db' r = find_runtime db r"
    and "session_owner db s \<noteq> Some n \<Longrightarrow> find_session db' s = find_session db s"
proof -
  consider "db' = db" | "accept_new_event m e db = Inr db'"
    using accept_transaction_cases[OF inv acc] by blast
  note cases = this
  show "runtime_owner db r \<noteq> Some n \<Longrightarrow> find_runtime db' r = find_runtime db r"
    using validate_event_ownerD(2)[OF own, of r] accept_new_other(1)[of m e db db' r] cases by blast
  show "session_owner db s \<noteq> Some n \<Longrightarrow> find_session db' s = find_session db s"
    using validate_event_ownerD(3)[OF own, of s] accept_new_other(2)[of m e db db' s] cases by blast
qed

end
