(* ===== verification/Scenarios.thy ===== *)
theory Scenarios
  imports Ownership
begin

text \<open>
  A small concrete Core: two Nodes with one placement each, and on the first a session with
  its runtime and turn. Witnesses evaluate the operations on it, and the defects the model
  shows are exhibited on it.
\<close>

definition ev0 :: "id \<Rightarrow> id \<Rightarrow> scope_ref \<Rightarrow> int \<Rightarrow> event_kind \<Rightarrow> event_payload_kind \<Rightarrow> event_envelope" where
  "ev0 eid node scope seq kind payload = \<lparr>ev_event_id = eid, ev_command_id = None, ev_correlation_id = None,
     ev_actor_ref = AR_Node node, ev_scope_ref = scope, ev_node_id = Some node,
     ev_runtime_session_id = None, ev_session_thread_id = None, ev_turn_id = None, ev_seq = seq,
     ev_session_projection_seq = None, ev_kind = kind, ev_happened_at = 100, ev_source_refs = [],
     ev_evidence_refs = [], ev_cause_refs = [], ev_result_refs = [], ev_payload = payload\<rparr>"

definition runtime_ev :: "id \<Rightarrow> int \<Rightarrow> event_kind \<Rightarrow> event_payload_kind \<Rightarrow> event_envelope" where
  "runtime_ev eid seq kind payload = (ev0 eid ''a'' (SR_Runtime ''ra'') seq kind payload)
     \<lparr>ev_runtime_session_id := Some ''ra'', ev_session_thread_id := Some ''sa''\<rparr>"

definition rd0 :: runtime_state_event_data where
  "rd0 = \<lparr>rd_provider = None, rd_mode = None, rd_resume_source = None, rd_provider_resume_ref = None,
     rd_transcript_messages = None, rd_reason = None, rd_code = None, rd_message = None,
     rd_expiry_seconds = None\<rparr>"

definition placement0 :: "id \<Rightarrow> id \<Rightarrow> placement_row" where
  "placement0 pid node = \<lparr>pl_project_placement_id = pid, pl_project_id = None, pl_node_id = node, pl_display_name = ''p'',
     pl_workspace_path = ''/w'', pl_state = PS_Validated, pl_resource_badges = [], pl_git_snapshot = None,
     pl_last_validated_at = None, pl_created_at = 0,
     pl_updated_at = 0\<rparr>"

definition task0 :: "id \<Rightarrow> id \<Rightarrow> id \<Rightarrow> task_row" where
  "task0 t pid node = \<lparr>tr_task_run_id = t, tr_project_placement_id = pid, tr_node_id = node,
     tr_provider = ''codex'', tr_state = TS_Running, tr_cleanup_state = TC_Pending, tr_prompt = ''x'',
     tr_base_revision = ''r'', tr_branch = ''b'', tr_runtime_image = ''i'', tr_checks = [],
     tr_artifact_paths = [], tr_timeout_seconds = 60, tr_ttl_seconds = 60,
     tr_resource_limits = \<lparr>tl_cpu = ''2'', tl_memory = ''4Gi''\<rparr>, tr_command_id = ''c'',
     tr_cancel_command_id = None, tr_worktree_path = None, tr_result = None, tr_summary = None,
     tr_terminal_code = None, tr_terminal_message = None, tr_queued_at = 0, tr_started_at = None,
     tr_finished_at = None, tr_updated_at = 0\<rparr>"

definition two_nodes :: core_db where
  "two_nodes = empty_db\<lparr>
     db_placements := [placement0 ''pa'' ''a'', placement0 ''pb'' ''b''],
     db_sessions := [\<lparr>st_session_thread_id = ''sa'', st_project_placement_id = ''pa'',
        st_runtime_session_id = ''ra'', st_title = ''t'', st_state = SS_Active, st_provider = ''codex'',
        st_created_at = 0, st_updated_at = 0\<rparr>],
     db_runtimes := [\<lparr>rt_runtime_session_id = ''ra'', rt_session_thread_id = ''sa'', rt_provider = ''codex'',
        rt_state = RS_Ready, rt_resume_supported = True, rt_provider_resume_ref = None,
        rt_degraded_reason = None, rt_last_runtime_step_at = Some 0, rt_created_at = 0, rt_updated_at = 0\<rparr>],
     db_turns := [\<lparr>tn_turn_id = ''ta'', tn_session_thread_id = ''sa'', tn_command_id = ''ca'',
        tn_turn_index = 1, tn_state = TN_Running, tn_content = ''hi'', tn_blocked_approval_id = None,
        tn_created_at = 0, tn_updated_at = 0, tn_completed_at = None\<rparr>],
     db_task_runs := [task0 ''tb'' ''pb'' ''b'']\<rparr>"

definition foreign_placement_event :: event_envelope where
  "foreign_placement_event = ev0 ''e1'' ''a'' (SR_Node ''a'') 1 EK_WorkspaceValidated
     (EP_WorkspaceValidated ''pb'' ''hijacked'' ''/evil'' PS_Missing [] None)"

definition foreign_task_event :: event_envelope where
  "foreign_task_event = ev0 ''e2'' ''a'' (SR_Node ''a'') 1 EK_TaskRunStateChanged
     (EP_TaskRunStateChanged ''tb'' TS_Succeeded TC_Completed None)"

definition foreign_turn_event :: event_envelope where
  "foreign_turn_event = (ev0 ''e3'' ''b'' (SR_Node ''b'') 1 EK_TurnCompleted EP_TurnCompleted)
     \<lparr>ev_turn_id := Some ''ta''\<rparr>"

definition approval_ev :: "id \<Rightarrow> int \<Rightarrow> id \<Rightarrow> event_envelope" where
  "approval_ev eid seq aid = (runtime_ev eid seq EK_ApprovalRequested
     (EP_ApprovalRequested aid ''ok?'' None None None))\<lparr>ev_turn_id := Some ''ta''\<rparr>"

section \<open>A concrete environment\<close>

definition wire0 :: wire where
  "wire0 = \<lparr>wi_frame_json = (\<lambda>_. JNull), wi_frame_bytes = (\<lambda>_. 100), wi_event_bytes = (\<lambda>_. 100),
     wi_placement = (\<lambda>_ _. None), wi_deduction = (\<lambda>_. None), wi_task_result = (\<lambda>_. None)\<rparr>"

definition tooling0 :: tooling where
  "tooling0 = \<lparr>to_reconcile = (\<lambda>_. h_ok ()), to_project = (\<lambda>_ _ _ _. h_ok ())\<rparr>"

definition fenv0 :: frame_env where
  "fenv0 = \<lparr>fe_now = 200, fe_frame_id = ''f'', fe_correlation_id = ''k'', fe_dispatch_frame_id = (\<lambda>c. c),
     fe_message_id = (\<lambda>i. replicate i CHR ''m''), fe_has_receivers = True,
     fe_core_env = \<lparr>en_now = 200, en_event_id = ''ce'', en_message_id = ''cm'', en_has_receivers = True\<rparr>\<rparr>"

definition ctx_a :: node_context where
  "ctx_a = \<lparr>nc_node_id = ''a'', nc_generation = 1, nc_sender = 0\<rparr>"

lemma tooling0_ok: "tooling_ok P tooling0"
  by (simp add: tooling_ok_def tooling0_def h_keeps_ok)

definition command0 :: command_envelope where
  "command0 = \<lparr>ce_command_id = ''c1'', ce_kind = CK_SendTurn,
     ce_target = CT_SessionRuntime ''a'' ''pa'' ''sa'' ''ra'', ce_actor_ref = AR_LocalUser None,
     ce_source_refs = [], ce_cause_refs = [], ce_issued_at = 1, ce_correlation_id = ''k'',
     ce_payload = CP_SendTurn ''hi'' ''ta''\<rparr>"

definition active_core :: "core_db \<Rightarrow> core_state" where
  "active_core db = (new_core db)\<lparr>
     co_registry := \<lparr>entries = [(''a'', \<lparr>cn_generation = 1, cn_sender = 0\<rparr>)], next_generation = 2\<rparr>,
     co_channels := [(0, \<lparr>ch_queue = [], ch_closed = False\<rparr>)]\<rparr>"

definition record_core :: "core_db \<Rightarrow> core_db" where
  "record_core db = (case record_command command0 db of Inr db' \<Rightarrow> db' | Inl _ \<Rightarrow> db)"

definition settled_core :: core_state where
  "settled_core = active_core (two_nodes\<lparr>db_commands :=
     [(new_command_row CS_Completed command0)\<lparr>cm_result_payload := Some JNull\<rparr>]\<rparr>)"

definition spec0 :: task_run_spec where
  "spec0 = \<lparr>trs_task_run_id = ''tb'', trs_project_placement_id = ''pb'', trs_provider = ''codex'',
     trs_prompt = ''x'', trs_base_revision = ''r'', trs_branch = ''b'', trs_checks = [],
     trs_artifact_paths = [], trs_timeout_seconds = 60, trs_ttl_seconds = 60,
     trs_resource_limits = \<lparr>tl_cpu = ''2'', tl_memory = ''4Gi''\<rparr>, trs_runtime_image = ''i''\<rparr>"

definition result0 :: task_run_result_package where
  "result0 = \<lparr>trp_task_run_id = ''tb'', trp_state = TS_Succeeded, trp_cleanup_state = TC_Completed,
     trp_summary = ''done'', trp_base_revision = ''r'', trp_final_revision = None, trp_branch = ''b'',
     trp_worktree_path = ''/w/tb'', trp_runtime_image = ''i'', trp_diff = [], trp_diff_truncated = False,
     trp_checks = [], trp_artifacts = [], trp_unresolved_risks = [], trp_terminal_reason = None\<rparr>"

definition run_command0 :: command_envelope where
  "run_command0 = command0\<lparr>ce_kind := CK_RunTask, ce_target := CT_TaskRun ''b'' ''pb'' ''tb'',
     ce_payload := CP_RunTask ''/w'' spec0\<rparr>"

definition task_core :: core_db where
  "task_core = two_nodes\<lparr>db_commands := [new_command_row CS_Acknowledged run_command0]\<rparr>"

lemma settled_core_settled: "settled ''c1'' CS_Completed (Some JNull) settled_core"
  by (simp add: settled_def settled_core_def active_core_def new_core_def new_command_row_def command0_def
      is_terminal_command_state_def)

lemma ingest_inv_two_nodes: "ingest_inv two_nodes"
  by (simp add: ingest_inv_def two_nodes_def empty_db_def cursor_dense_def session_seqs_def)

end
