(* ===== verification/Link_Scenarios.thy ===== *)
theory Link_Scenarios
  imports Event_Link Scenarios
begin

text \<open>
  A concrete Node for the Core of \<open>Scenarios\<close>: an empty store, executors that do nothing,
  and one event in the outbox.
\<close>

definition ex0 :: executors where
  "ex0 = \<lparr>ex_validation_events = (\<lambda>_ q. ([], q)), ex_snapshot_events = (\<lambda>_ q. ([], q)),
     ex_workspace_result = (\<lambda>_. (CS_Completed, JObj [])), ex_causal_events = (\<lambda>_ _ _ q. ([], q)),
     ex_deduction = (\<lambda>_ _ _. (CS_Completed, JObj [])), ex_encode_output = (\<lambda>_. JNull),
     ex_task = (\<lambda>_. (CS_Completed, JObj [], [])), ex_tooling = (\<lambda>_ _. ((CS_Completed, JObj []), [])),
     ex_runtime = (\<lambda>_ _ _ io. ([], io)), ex_canonical_root = (\<lambda>p. Inr p)\<rparr>"

definition ex_failing :: executors where
  "ex_failing = ex0\<lparr>ex_workspace_result := (\<lambda>_. (CS_Failed, JNull))\<rparr>"

definition ne0 :: node_env where
  "ne0 = \<lparr>ne_now = 100, ne_fresh = (\<lambda>i. replicate i CHR ''x''), ne_len = (\<lambda>_. 100), ne_cancelled = False\<rparr>"

definition dio0 :: dispatch_io where
  "dio0 = \<lparr>di_ack_sent = True, di_mcp_issued = True, di_saved = True, di_result_sent = True,
     di_meta = (\<lambda>i. \<lparr>fm_frame_id = replicate i CHR ''m'', fm_protocol_version = CURRENT_PROTOCOL_VERSION, fm_sent_at = 100\<rparr>)\<rparr>"

definition list_command :: command_envelope where
  "list_command = command0\<lparr>ce_kind := CK_ListWorkspaceTree, ce_payload := CP_ListWorkspaceTree ''/w'' ''.''\<rparr>"

definition is_completed_result :: "id \<Rightarrow> control_frame \<Rightarrow> bool" where
  "is_completed_result c f = (case f of CF_CommandResult _ c' st _ \<Rightarrow> c' = c \<and> st = CS_Completed | _ \<Rightarrow> False)"

definition node0 :: node_local_state where
  "node0 = default_node_state ''d''"

definition store0 :: node_store where
  "store0 = \<lparr>sr_state = node0, sr_file = Some (disk_of (compact_for_persistence node0))\<rparr>"

definition ready_event :: event_envelope where
  "ready_event = runtime_ev ''e1'' 1 EK_RuntimeReady (EP_RuntimeReady rd0)"

definition node1 :: node_local_state where
  "node1 = node0\<lparr>nl_event_outbox := [ready_event], nl_runtime_seqs := hm_insert ''ra'' 1 []\<rparr>"

definition deduction0 :: deduction_provider_result where
  "deduction0 = \<lparr>dr_title = ''t'', dr_conclusion = ''c'', dr_certainty = DT_High,
     dr_steps = [\<lparr>ds_step_id = ''s1'', ds_classification = DC_Observed, ds_summary = ''sum'',
        ds_support_refs = [UR_Deduction ''d'']\<rparr>], dr_assumptions = [], dr_unknowns = [], dr_alternatives = []\<rparr>"

definition package0 :: deduction_input_package where
  "package0 = \<lparr>dip_deduction_id = ''d'', dip_session_thread_id = ''sa'', dip_scope_ref = UR_Deduction ''d'',
     dip_question = ''why'', dip_evidence_snapshot_hash = ''h'', dip_trace_steps = [], dip_events = [],
     dip_allowed_refs = [UR_Deduction ''d''], dip_truncated = False, dip_generated_at = 0\<rparr>"

definition output0 :: deduction_provider_output where
  "output0 = \<lparr>do_deduction_id = ''d'', do_provider = ''codex'', do_model = None,
     do_schema_version = DEDUCTION_SCHEMA_VERSION, do_evidence_snapshot_hash = ''h'',
     do_result = Some deduction0, do_raw_text = [], do_raw_truncated = False, do_error_code = None,
     do_error_message = None\<rparr>"

lemma node_state_wf_default: "node_state_wf (default_node_state d)"
  by (simp add: node_state_wf_def default_node_state_def)

lemma scope_key_is_inj: "inj scope_key"
  by (rule injI) (simp add: scope_key_inj)

lemma cache_ok_node0: "cache_ok node0"
  by (simp add: cache_ok_def node0_def default_node_state_def)

lemma node_state_wf_node1: "node_state_wf node1" "metrics_in_range node1"
  by (simp_all add: hm_wf_def node1_def node0_def node_state_wf_def metrics_in_range_def default_node_state_def)

lemma synced_store0: "synced store0"
  by (simp add: synced_def store0_def)

lemma log_ok_new: "ingest_inv db \<Longrightarrow> log_ok {} (new_core db)"
  by (simp add: log_ok_def queued_acks_def new_core_def)

lemma log_ok_active: "ingest_inv db \<Longrightarrow> log_ok {} (active_core db)"
  by (auto simp: log_ok_def queued_acks_def active_core_def new_core_def split: if_splits)

lemma is_completed_resultD: "is_completed_result c f \<Longrightarrow> \<exists>mt p. f = CF_CommandResult mt c CS_Completed p"
  by (cases f) (simp_all add: is_completed_result_def)

lemma list_command_matches: "command_matches_kind (ce_payload list_command) (ce_kind list_command)"
  by (simp add: list_command_def command_matches_kind_iff)

lemma ready_batch_accepted:
  "\<exists>st'. handle_event_batch wire0 fenv0 ctx_a [ready_event] (active_core two_nodes) = (Inr (), st')"
proof -
  have "is_ok (fst (accept_batch fenv0 (nc_node_id ctx_a) 0 [ready_event] [] (active_core two_nodes)))" by code_simp
  then obtain ids st1 where b: "accept_batch fenv0 (nc_node_id ctx_a) 0 [ready_event] [] (active_core two_nodes) = (Inr ids, st1)"
    by (cases "accept_batch fenv0 (nc_node_id ctx_a) 0 [ready_event] [] (active_core two_nodes)")
      (auto simp: is_ok_def split: sum.splits)
  have "require_active_generation (co_registry (active_core two_nodes)) ctx_a = Inr ()" by code_simp
  then show ?thesis using b
    by (simp add: handle_event_batch_def h_bind_def h_check_def h_modify_def MAX_EVENT_BATCH_ITEMS_def
        MAX_CONTROL_FRAME_BYTES_def wire0_def)
qed

end
