(* ===== verification/Frame_Limits.thy ===== *)
theory Frame_Limits
  imports Node_Frames
begin

text \<open>
  What the limits on control frames guarantee: the recursive check of a frame's JSON against a
  reference definition of its depth and of the strings in it.
\<close>

fun json_depth :: "json \<Rightarrow> nat"
  and json_depths :: "json list \<Rightarrow> nat"
  and json_member_depths :: "(string \<times> json) list \<Rightarrow> nat" where
  "json_depth v = (case v of JArr vs \<Rightarrow> json_depths vs | JObj ms \<Rightarrow> json_member_depths ms | _ \<Rightarrow> 0)"
| "json_depths [] = 0"
| "json_depths (v # vs) = max (Suc (json_depth v)) (json_depths vs)"
| "json_member_depths [] = 0"
| "json_member_depths ((k, v) # ms) = max (Suc (json_depth v)) (json_member_depths ms)"

fun json_strings :: "json \<Rightarrow> string set"
  and json_list_strings :: "json list \<Rightarrow> string set"
  and json_member_strings :: "(string \<times> json) list \<Rightarrow> string set" where
  "json_strings v = (case v of JStr s \<Rightarrow> {s} | JArr vs \<Rightarrow> json_list_strings vs
     | JObj ms \<Rightarrow> json_member_strings ms | _ \<Rightarrow> {})"
| "json_list_strings [] = {}"
| "json_list_strings (v # vs) = json_strings v \<union> json_list_strings vs"
| "json_member_strings [] = {}"
| "json_member_strings ((k, v) # ms) = json_strings v \<union> json_member_strings ms"

abbreviation short_strings :: "string set \<Rightarrow> bool" where
  "short_strings S \<equiv> \<forall>s\<in>S. length s \<le> MAX_CONTROL_STRING_CHARS"

lemmas json_defs = json_depth.simps json_strings.simps validate_control_json_value.simps

declare json_depth.simps [simp del] json_strings.simps [simp del] validate_control_json_value.simps [simp del]

lemma validate_json_iff:
  "validate_control_json_value v d = Inr () \<longleftrightarrow> d + json_depth v \<le> MAX_CONTROL_JSON_DEPTH \<and> short_strings (json_strings v)"
  "validate_control_json_values vs (Suc d) = Inr () \<longleftrightarrow>
     (vs \<noteq> [] \<longrightarrow> d + json_depths vs \<le> MAX_CONTROL_JSON_DEPTH) \<and> short_strings (json_list_strings vs)"
  "validate_control_json_members ms (Suc d) = Inr () \<longleftrightarrow>
     (ms \<noteq> [] \<longrightarrow> d + json_member_depths ms \<le> MAX_CONTROL_JSON_DEPTH) \<and> short_strings (json_member_strings ms)"
proof (induction v and vs and ms arbitrary: d and d and d rule: json_depth_json_depths_json_member_depths.induct)
  case (1 v)
  show ?case
  proof (cases v)
    case (JArr vs)
    then show ?thesis using "1.IH"(1)[OF JArr, of d] by (cases "vs = []") (auto simp: json_defs)
  next
    case (JObj ms)
    then show ?thesis using "1.IH"(2)[OF JObj, of d] by (cases "ms = []") (auto simp: json_defs)
  qed (auto simp: json_defs)
next
  case (3 v vs)
  show ?case using "3.IH"(1)[of "Suc d"] "3.IH"(2)[of d] by (auto simp: result_simps)
next
  case (5 k v ms)
  show ?case using "5.IH"(1)[of "Suc d"] "5.IH"(2)[of d] by (auto simp: result_simps)
qed simp_all

text \<open>Every frame a Node sends within the limits is processed; one beyond them is refused unread.\<close>

lemma validate_frame_iff:
  "validate_control_frame_limits w frame = Inr () \<longleftrightarrow> wi_frame_bytes w frame \<le> MAX_CONTROL_FRAME_BYTES
     \<and> json_depth (wi_frame_json w frame) \<le> MAX_CONTROL_JSON_DEPTH \<and> short_strings (json_strings (wi_frame_json w frame))"
  using validate_json_iff(1)[of "wi_frame_json w frame" 0]
  by (auto simp: validate_control_frame_limits_def result_simps)

lemma oversize_batch_rejected:
  assumes "require_active_generation (co_registry st) ctx = Inr ()" "length es \<le> MAX_EVENT_BATCH_ITEMS"
    "sum_list (map (wi_event_bytes w) es) > MAX_CONTROL_FRAME_BYTES"
  shows "handle_event_batch w fe ctx es st = (Inl (BadRequest ''control.event_batch_bytes_too_large''), st)"
  using assms by (simp add: handle_event_batch_def h_bind_def h_check_def)

end
