(* ===== verification/Enrollment.thy ===== *)
theory Enrollment
  imports Node_Frames
begin

text \<open>
  How a Node becomes part of the system and how it proves who it is: enrollment, approval,
  the claim of a credential, authentication with its failure limit, rotation, revocation and
  the heartbeat (\<open>persistence/node.rs\<close>, \<open>transport/node.rs\<close>, the limiter of
  \<open>transport/http.rs\<close>).

  \<open>hash_secret\<close> is SHA-256 of a crate outside the repository, a parameter here; fresh ids and
  secrets are arguments. Every SQL statement outside a transaction takes effect on its own, so
  the operations are state transformers whose effects survive a later error. A claim reads the
  enrollment before its transaction begins: \<open>claim_decision\<close> is the part before, and
  \<open>claim_commit\<close> the transaction, which other requests may overtake.
\<close>

section \<open>State\<close>

record core_config =
  cfg_max_pending_enrollments :: int
  cfg_enrollment_ttl_seconds :: int
  cfg_auto_approve_enrollments :: bool
  cfg_auto_approve_node_name :: "string option"
  cfg_stale_after_seconds :: int
  cfg_offline_after_seconds :: int
  cfg_runtime_expiry_seconds :: int

record enrollment_row =
  el_enrollment_id :: id
  el_display_name :: string
  el_daemon_version :: "string option"
  el_capabilities :: "capability_summary list"
  el_pairing_code_hash :: string
  el_status :: enrollment_state
  el_expires_at :: time
  el_claimed_node_id :: "id option"
  el_created_at :: time
  el_updated_at :: time
  el_approved_at :: "time option"

record project_row =
  pj_project_id :: id
  pj_display_name :: string
  pj_created_at :: time
  pj_updated_at :: time

record gate =
  gt_core :: core_state
  gt_enrollments :: "enrollment_row list"
  gt_projects :: "project_row list"
  gt_deleted_bindings :: "(id \<times> string) list"
  gt_auth_failures :: "(string \<times> time list) list"
  gt_auth_failure_count :: u64
  gt_observed :: "(id \<times> string \<times> json) list"

abbreviation gt_db :: "gate \<Rightarrow> core_db" where
  "gt_db g \<equiv> co_db (gt_core g)"

definition set_db :: "core_db \<Rightarrow> gate \<Rightarrow> gate" where
  "set_db db g = g\<lparr>gt_core := (gt_core g)\<lparr>co_db := db\<rparr>\<rparr>"

abbreviation find_enrollment :: "gate \<Rightarrow> id \<Rightarrow> enrollment_row option" where
  "find_enrollment g e \<equiv> select_by el_enrollment_id e (gt_enrollments g)"

definition seconds :: "int \<Rightarrow> time" where
  "seconds n = n * 1000000000"

definition audit_security_event ::
  "string \<Rightarrow> id option \<Rightarrow> string option \<Rightarrow> string \<Rightarrow> json \<Rightarrow> time \<Rightarrow> gate \<Rightarrow> gate" where
  "audit_security_event kind node_id origin outcome metadata now g = set_db ((gt_db g)\<lparr>db_audit := db_audit (gt_db g) @
     [\<lparr>au_kind = kind, au_node_id = node_id, au_origin = Option.bind origin non_empty,
       au_outcome = outcome, au_metadata = metadata, au_happened_at = now\<rparr>]\<rparr>) g"

section \<open>Enrollment\<close>

definition open_status :: "enrollment_state \<Rightarrow> bool" where
  "open_status s \<longleftrightarrow> s = ES_PendingUserApproval \<or> s = ES_Approved"

definition expire_due :: "time \<Rightarrow> gate \<Rightarrow> gate" where
  "expire_due now g = g\<lparr>gt_enrollments :=
     update_where (\<lambda>r. open_status (el_status r) \<and> el_expires_at r \<le> now)
       (\<lambda>r. r\<lparr>el_status := ES_Expired, el_updated_at := now\<rparr>) (gt_enrollments g)\<rparr>"

definition is_pending_enrollment :: "time \<Rightarrow> enrollment_row \<Rightarrow> bool" where
  "is_pending_enrollment now r \<longleftrightarrow> open_status (el_status r) \<and> el_claimed_node_id r = None \<and> now < el_expires_at r"

definition identity_count :: "string \<Rightarrow> time \<Rightarrow> gate \<Rightarrow> nat" where
  "identity_count name now g =
     rows_affected (\<lambda>n. nd_display_name n = name \<and> nd_presence n \<noteq> NP_Revoked) (db_nodes (gt_db g))
     + rows_affected (\<lambda>r. el_display_name r = name \<and> is_pending_enrollment now r) (gt_enrollments g)"

record enrollment_requested =
  rq_enrollment_id :: id
  rq_pairing_code :: string
  rq_status :: enrollment_state
  rq_expires_at :: time

definition create_enrollment ::
  "core_config \<Rightarrow> (string \<Rightarrow> string) \<Rightarrow> id \<Rightarrow> string \<Rightarrow> time \<Rightarrow> string \<Rightarrow> string option
   \<Rightarrow> capability_summary list \<Rightarrow> (gate, enrollment_requested) stateful" where
  "create_enrollment cfg hash_secret enrollment_id pairing_code now display_name daemon_version capabilities =
     h_bind (h_check (\<lambda>_. ensure (trim display_name \<noteq> []) (BadRequest ''validation.display_name_required''))) (\<lambda>_.
     h_bind (h_modify (expire_due now)) (\<lambda>_.
     h_bind (h_check (\<lambda>g. ensure (int (rows_affected (is_pending_enrollment now) (gt_enrollments g))
          < max (cfg_max_pending_enrollments cfg) 1) (RateLimited ''node_enrollment.pending_limit''))) (\<lambda>_.
     h_bind (h_check (\<lambda>g. Inr (identity_count (trim display_name) now g))) (\<lambda>existing_identity_count.
     let expires_at = now + seconds (cfg_enrollment_ttl_seconds cfg);
         scoped_auto_approval = cfg_auto_approve_node_name cfg = Some (trim display_name) \<and> existing_identity_count = 0;
         approved_at = (if cfg_auto_approve_enrollments cfg \<or> scoped_auto_approval then Some now else None);
         status = (if approved_at \<noteq> None then ES_Approved else ES_PendingUserApproval)
     in h_bind (h_run (\<lambda>g. and_then (ensure (find_enrollment g enrollment_id = None) Database) (\<lambda>_.
          Inr (g\<lparr>gt_enrollments := gt_enrollments g @ [\<lparr>el_enrollment_id = enrollment_id,
             el_display_name = trim display_name, el_daemon_version = daemon_version,
             el_capabilities = capabilities, el_pairing_code_hash = hash_secret pairing_code,
             el_status = status, el_expires_at = expires_at, el_claimed_node_id = None,
             el_created_at = now, el_updated_at = now, el_approved_at = approved_at\<rparr>]\<rparr>)))) (\<lambda>_.
     h_bind (h_modify (audit_security_event ''node.enrollment.created'' None None ''accepted''
          (JObj [(''enrollment_id'', JStr enrollment_id), (''auto_approved'', JBool (approved_at \<noteq> None))]) now)) (\<lambda>_.
     h_ok \<lparr>rq_enrollment_id = enrollment_id, rq_pairing_code = pairing_code, rq_status = status,
            rq_expires_at = expires_at\<rparr>))))))"

definition approvable :: "time \<Rightarrow> id \<Rightarrow> enrollment_row \<Rightarrow> bool" where
  "approvable now enrollment_id r \<longleftrightarrow> el_enrollment_id r = enrollment_id \<and> el_status r = ES_PendingUserApproval
     \<and> el_approved_at r = None \<and> now < el_expires_at r"

definition row_to_enrollment :: "enrollment_row \<Rightarrow> enrollment_row" where
  "row_to_enrollment r = (if el_status r = ES_PendingUserApproval \<and> el_approved_at r \<noteq> None
     then r\<lparr>el_status := ES_Approved\<rparr> else r)"

definition load_enrollment :: "id \<Rightarrow> gate \<Rightarrow> app_error + enrollment_row" where
  "load_enrollment enrollment_id g = and_then
     (ok_or (find_enrollment g enrollment_id) (NotFound ''node_enrollment.not_found'')) (\<lambda>r. Inr (row_to_enrollment r))"

definition approve_node_enrollment :: "id \<Rightarrow> time \<Rightarrow> (gate, enrollment_row) stateful" where
  "approve_node_enrollment enrollment_id now =
     h_bind (h_run (\<lambda>g. and_then
       (ensure (rows_affected (approvable now enrollment_id) (gt_enrollments g) \<noteq> 0)
          (BadRequest ''node_enrollment.not_approvable'')) (\<lambda>_.
       Inr (g\<lparr>gt_enrollments := update_where (approvable now enrollment_id)
          (\<lambda>r. r\<lparr>el_status := ES_Approved, el_approved_at := Some now, el_updated_at := now\<rparr>)
          (gt_enrollments g)\<rparr>)))) (\<lambda>_.
     h_check (load_enrollment enrollment_id))"

definition expire_enrollment :: "id \<Rightarrow> time \<Rightarrow> gate \<Rightarrow> gate" where
  "expire_enrollment enrollment_id now g = g\<lparr>gt_enrollments :=
     update_where (\<lambda>r. el_enrollment_id r = enrollment_id \<and> open_status (el_status r))
       (\<lambda>r. r\<lparr>el_status := ES_Expired, el_updated_at := now\<rparr>) (gt_enrollments g)\<rparr>"

section \<open>The claim\<close>

record claim_response =
  cr_accepted :: bool
  cr_pending :: bool
  cr_node_id :: "id option"
  cr_credential :: "string option"
  cr_message :: string

definition refused :: "string \<Rightarrow> claim_response" where
  "refused message = \<lparr>cr_accepted = False, cr_pending = False, cr_node_id = None, cr_credential = None,
     cr_message = message\<rparr>"

text \<open>Before the transaction: either an answer, or the row on which to commit.\<close>

definition claim_decision ::
  "core_config \<Rightarrow> (string \<Rightarrow> string) \<Rightarrow> id \<Rightarrow> string \<Rightarrow> time \<Rightarrow> (gate, claim_response + enrollment_row) stateful" where
  "claim_decision cfg hash_secret enrollment_id pairing_code now =
     h_bind (h_check (\<lambda>g. ok_or (find_enrollment g enrollment_id) (NotFound ''node_enrollment.not_found''))) (\<lambda>row.
     if el_expires_at row \<le> now
     then h_bind (h_modify (expire_enrollment enrollment_id now)) (\<lambda>_. h_ok (Inl (refused ''Enrollment expired'')))
     else if el_pairing_code_hash row \<noteq> hash_secret pairing_code
     then h_bind (h_modify (audit_security_event ''node.enrollment.claim_rejected'' None None ''rejected''
            (JObj [(''enrollment_id'', JStr enrollment_id), (''reason'', JStr ''invalid_pairing_code'')]) now)) (\<lambda>_.
          h_check (\<lambda>_. Inl (Auth ''auth_dev.invalid_pairing_code'')))
     else if el_status row = ES_Registered
     then h_ok (Inl \<lparr>cr_accepted = True, cr_pending = False, cr_node_id = el_claimed_node_id row,
            cr_credential = None,
            cr_message = ''Enrollment already claimed; existing credential is not returned''\<rparr>)
     else if el_status row = ES_Expired \<or> el_status row = ES_Rejected \<or> el_status row = ES_Revoked
     then h_ok (Inl (refused (''Enrollment is '' @ format_enrollment_state (el_status row))))
     else if \<not> (el_approved_at row \<noteq> None \<or> el_status row = ES_Approved \<or> cfg_auto_approve_enrollments cfg)
     then h_ok (Inl \<lparr>cr_accepted = False, cr_pending = True, cr_node_id = None, cr_credential = None,
            cr_message = ''Enrollment is waiting for approval''\<rparr>)
     else h_ok (Inr row))"

definition capability_rows :: "id \<Rightarrow> time \<Rightarrow> capability_summary list \<Rightarrow> capability_row list" where
  "capability_rows node_id now capabilities = map (\<lambda>c. \<lparr>cap_node_id = node_id, cap_capability_key = cs_key c,
     cap_value = cs_value c, cap_updated_at = now\<rparr>) capabilities"

definition enrolled_node :: "id \<Rightarrow> string \<Rightarrow> time \<Rightarrow> enrollment_row \<Rightarrow> node_row" where
  "enrolled_node node_id credential_hash now row = \<lparr>nd_node_id = node_id, nd_display_name = el_display_name row,
     nd_presence = NP_Offline, nd_sleep_hint = SH_Unknown, nd_last_heartbeat_at = None,
     nd_daemon_version = (case el_daemon_version row of Some v \<Rightarrow> v | None \<Rightarrow> ''unknown''),
     nd_active_runtime_count = 0, nd_capabilities = el_capabilities row,
     nd_diagnostics = ''enrolled; waiting for heartbeat'', nd_credential_hash = Some credential_hash,
     nd_created_at = now, nd_updated_at = now\<rparr>"

definition claimable :: "time \<Rightarrow> id \<Rightarrow> enrollment_row \<Rightarrow> bool" where
  "claimable now enrollment_id r \<longleftrightarrow> el_enrollment_id r = enrollment_id \<and> el_claimed_node_id r = None
     \<and> open_status (el_status r) \<and> now < el_expires_at r"

text \<open>The transaction: its inserts are kept only when the guarded update of the row hits.\<close>

definition claim_commit ::
  "(string \<Rightarrow> string) \<Rightarrow> id \<Rightarrow> string \<Rightarrow> time \<Rightarrow> enrollment_row \<Rightarrow> (gate, claim_response) stateful" where
  "claim_commit hash_secret node_id credential now row g =
     (let enrollment_id = el_enrollment_id row in
      if find_node (gt_db g) node_id \<noteq> None \<or> \<not> distinct (map cs_key (el_capabilities row)) then (Inl Database, g)
      else if rows_affected (claimable now enrollment_id) (gt_enrollments g) = 0
      then (case find_enrollment g enrollment_id of
          None \<Rightarrow> (Inl (NotFound ''node_enrollment.not_found''), g)
        | Some current \<Rightarrow>
            if el_expires_at current \<le> now then (Inr (refused ''Enrollment expired''), g)
            else (Inr \<lparr>cr_accepted = el_claimed_node_id current \<noteq> None,
                    cr_pending = el_status current = ES_PendingUserApproval,
                    cr_node_id = el_claimed_node_id current, cr_credential = None,
                    cr_message = ''Enrollment already claimed; existing credential is not returned''\<rparr>, g))
      else let db = gt_db g;
               db1 = db\<lparr>db_nodes := db_nodes db @ [enrolled_node node_id (hash_secret credential) now row],
                 db_capabilities := delete_where (\<lambda>c. cap_node_id c = node_id) (db_capabilities db)
                   @ capability_rows node_id now (el_capabilities row)\<rparr>;
               g1 = (set_db db1 g)\<lparr>gt_enrollments := update_where (claimable now enrollment_id)
                 (\<lambda>r. r\<lparr>el_status := ES_Registered, el_claimed_node_id := Some node_id, el_updated_at := now\<rparr>)
                 (gt_enrollments g)\<rparr>
           in (Inr \<lparr>cr_accepted = True, cr_pending = False, cr_node_id = Some node_id,
                 cr_credential = Some credential, cr_message = ''Enrollment claimed''\<rparr>,
               audit_security_event ''node.enrollment.claimed'' (Some node_id) None ''accepted''
                 (JObj [(''enrollment_id'', JStr enrollment_id)]) now g1))"

definition claim_enrollment ::
  "core_config \<Rightarrow> (string \<Rightarrow> string) \<Rightarrow> id \<Rightarrow> string \<Rightarrow> id \<Rightarrow> string \<Rightarrow> time \<Rightarrow> (gate, claim_response) stateful" where
  "claim_enrollment cfg hash_secret node_id credential enrollment_id pairing_code now =
     h_bind (claim_decision cfg hash_secret enrollment_id pairing_code now)
       (\<lambda>d. case d of Inl response \<Rightarrow> h_ok response | Inr row \<Rightarrow> claim_commit hash_secret node_id credential now row)"

section \<open>Authentication\<close>

definition AUTH_FAILURE_LIMIT :: nat where "AUTH_FAILURE_LIMIT = 10"
definition AUTH_FAILURE_WINDOW_SECONDS :: int where "AUTH_FAILURE_WINDOW_SECONDS = 60"

definition recent_failures :: "string \<Rightarrow> time \<Rightarrow> gate \<Rightarrow> time list" where
  "recent_failures key now g = (case hm_get (gt_auth_failures g) key of None \<Rightarrow> []
     | Some ts \<Rightarrow> filter (\<lambda>t. now - seconds AUTH_FAILURE_WINDOW_SECONDS < t) ts)"

definition reject_if_auth_rate_limited :: "string \<Rightarrow> time \<Rightarrow> (gate, unit) stateful" where
  "reject_if_auth_rate_limited key now g =
     (let entries = recent_failures key now g in
      (ensure (length entries < AUTH_FAILURE_LIMIT) (RateLimited ''auth.rate_limited''),
       g\<lparr>gt_auth_failures := hm_insert key entries (gt_auth_failures g)\<rparr>))"

definition record_auth_failure :: "string \<Rightarrow> time \<Rightarrow> gate \<Rightarrow> gate" where
  "record_auth_failure key now g = g\<lparr>gt_auth_failure_count := gt_auth_failure_count g + 1,
     gt_auth_failures := hm_insert key (recent_failures key now g @ [now]) (gt_auth_failures g)\<rparr>"

definition clear_auth_failures :: "string \<Rightarrow> gate \<Rightarrow> gate" where
  "clear_auth_failures key g = g\<lparr>gt_auth_failures := hm_remove key (gt_auth_failures g)\<rparr>"

definition auth_key :: "id \<Rightarrow> string" where
  "auth_key node_id = ''node:'' @ node_id"

definition reject_auth :: "id \<Rightarrow> string \<Rightarrow> string \<Rightarrow> time \<Rightarrow> (gate, unit) stateful" where
  "reject_auth node_id reason code now =
     h_bind (h_modify (audit_security_event ''node.auth.rejected'' (Some node_id) None ''rejected''
       (JObj [(''reason'', JStr reason)]) now)) (\<lambda>_.
     h_bind (h_modify (record_auth_failure (auth_key node_id) now)) (\<lambda>_.
     h_check (\<lambda>_. Inl (Auth code))))"

definition verify_node_credential ::
  "(string \<Rightarrow> string) \<Rightarrow> id \<Rightarrow> string option \<Rightarrow> time \<Rightarrow> (gate, unit) stateful" where
  "verify_node_credential hash_secret node_id credential now =
     h_bind (h_check (\<lambda>_. ok_or (Option.bind credential non_empty) (Auth ''auth_dev.credential_required''))) (\<lambda>secret.
     h_bind (reject_if_auth_rate_limited (auth_key node_id) now) (\<lambda>_.
     h_bind (h_check (\<lambda>g. ok_or (find_node (gt_db g) node_id) (Auth ''auth_dev.node_unknown''))) (\<lambda>row.
     if nd_presence row = NP_Revoked then reject_auth node_id ''revoked'' ''auth_dev.node_revoked'' now
     else case nd_credential_hash row of
       None \<Rightarrow> reject_auth node_id ''credential_missing'' ''auth_dev.credential_missing'' now
     | Some credential_hash \<Rightarrow>
         if credential_hash \<noteq> hash_secret secret
         then reject_auth node_id ''credential_invalid'' ''auth_dev.credential_invalid'' now
         else h_modify (clear_auth_failures (auth_key node_id)))))"

section \<open>Revocation, rotation and deletion\<close>

definition update_node :: "(node_row \<Rightarrow> bool) \<Rightarrow> (node_row \<Rightarrow> node_row) \<Rightarrow> gate \<Rightarrow> gate" where
  "update_node p f g = set_db ((gt_db g)\<lparr>db_nodes := update_where p f (db_nodes (gt_db g))\<rparr>) g"

definition revoke_node :: "id \<Rightarrow> time \<Rightarrow> (gate, unit) stateful" where
  "revoke_node node_id now =
     h_bind (h_run (\<lambda>g. and_then (ensure (find_node (gt_db g) node_id \<noteq> None) (NotFound ''node.not_found'')) (\<lambda>_.
       Inr (update_node (\<lambda>n. nd_node_id n = node_id)
         (\<lambda>n. n\<lparr>nd_presence := NP_Revoked, nd_credential_hash := None, nd_updated_at := now\<rparr>) g)))) (\<lambda>_.
     h_modify (audit_security_event ''node.credential.revoked'' (Some node_id) None ''accepted'' (JObj []) now))"

definition rotatable :: "id \<Rightarrow> node_row \<Rightarrow> bool" where
  "rotatable node_id n \<longleftrightarrow> nd_node_id n = node_id \<and> nd_presence n \<noteq> NP_Revoked"

definition rotate_node_credential ::
  "(string \<Rightarrow> string) \<Rightarrow> id \<Rightarrow> string \<Rightarrow> time \<Rightarrow> (gate, string) stateful" where
  "rotate_node_credential hash_secret node_id credential now =
     h_bind (h_run (\<lambda>g. and_then (ensure (rows_affected (rotatable node_id) (db_nodes (gt_db g)) \<noteq> 0)
         (NotFound ''node.not_found_or_revoked'')) (\<lambda>_.
       Inr (update_node (rotatable node_id)
         (\<lambda>n. n\<lparr>nd_credential_hash := Some (hash_secret credential), nd_updated_at := now\<rparr>) g)))) (\<lambda>_.
     h_bind (h_modify (audit_security_event ''node.credential.rotated'' (Some node_id) None ''accepted'' (JObj []) now))
       (\<lambda>_. h_ok credential))"

section \<open>Heartbeat\<close>

record workspace_snapshot =
  ws_display_name :: string
  ws_workspace_path :: string
  ws_state :: placement_state
  ws_resource_badges :: "resource_badge list"
  ws_git_snapshot :: "git_workspace_snapshot option"
  ws_last_validated_at :: time

text \<open>
  An observed capability is its owner, key and document; a dependency status is its owner and
  document, and what is persisted for it belongs to the tool registry.
\<close>

record heartbeat_request =
  hb_node_id :: "id option"
  hb_display_name :: string
  hb_daemon_version :: string
  hb_capabilities :: "capability_summary list"
  hb_observed_capabilities :: "(id \<times> string \<times> json) list"
  hb_dependency_statuses :: "(id \<times> json) list"
  hb_diagnostics :: "string option"
  hb_active_runtime_count :: int
  hb_sleep_hint :: sleep_hint
  hb_workspace_summaries :: "workspace_snapshot list"

definition heartbeat_node :: "id \<Rightarrow> heartbeat_request \<Rightarrow> time \<Rightarrow> node_row \<Rightarrow> node_row" where
  "heartbeat_node node_id r now n = n\<lparr>nd_display_name := hb_display_name r, nd_presence := NP_Reachable,
     nd_sleep_hint := hb_sleep_hint r, nd_last_heartbeat_at := Some now, nd_daemon_version := hb_daemon_version r,
     nd_active_runtime_count := hb_active_runtime_count r, nd_capabilities := hb_capabilities r,
     nd_diagnostics := (case hb_diagnostics r of Some d \<Rightarrow> if trim d = [] then ''heartbeat accepted'' else d
        | None \<Rightarrow> ''heartbeat accepted''), nd_updated_at := now\<rparr>"

definition upsert_heartbeat_node :: "id \<Rightarrow> heartbeat_request \<Rightarrow> time \<Rightarrow> gate \<Rightarrow> gate" where
  "upsert_heartbeat_node node_id r now g =
     (if find_node (gt_db g) node_id = None
      then set_db ((gt_db g)\<lparr>db_nodes := db_nodes (gt_db g) @ [heartbeat_node node_id r now
          \<lparr>nd_node_id = node_id, nd_display_name = [], nd_presence = NP_Reachable, nd_sleep_hint = SH_Unknown,
           nd_last_heartbeat_at = None, nd_daemon_version = [], nd_active_runtime_count = 0, nd_capabilities = [],
           nd_diagnostics = [], nd_credential_hash = None, nd_created_at = now, nd_updated_at = now\<rparr>]\<rparr>) g
      else update_node (\<lambda>n. nd_node_id n = node_id) (heartbeat_node node_id r now) g)"

fun insert_capabilities :: "id \<Rightarrow> time \<Rightarrow> capability_summary list \<Rightarrow> (gate, unit) stateful" where
  "insert_capabilities node_id now [] = h_ok ()"
| "insert_capabilities node_id now (c # cs) =
     h_bind (h_run (\<lambda>g. and_then (ensure (list_all (\<lambda>r. cap_node_id r = node_id \<longrightarrow> cap_capability_key r \<noteq> cs_key c)
          (db_capabilities (gt_db g))) Database) (\<lambda>_.
        Inr (set_db ((gt_db g)\<lparr>db_capabilities := db_capabilities (gt_db g) @ capability_rows node_id now [c]\<rparr>) g))))
       (\<lambda>_. insert_capabilities node_id now cs)"

definition replace_node_capabilities :: "id \<Rightarrow> capability_summary list \<Rightarrow> time \<Rightarrow> (gate, unit) stateful" where
  "replace_node_capabilities node_id capabilities now =
     h_bind (h_modify (\<lambda>g. set_db ((gt_db g)\<lparr>db_capabilities :=
        delete_where (\<lambda>r. cap_node_id r = node_id) (db_capabilities (gt_db g))\<rparr>) g))
       (\<lambda>_. insert_capabilities node_id now capabilities)"

definition replace_observed_capabilities :: "id \<Rightarrow> (id \<times> string \<times> json) list \<Rightarrow> (gate, unit) stateful" where
  "replace_observed_capabilities node_id capabilities =
     h_run (\<lambda>g. and_then (ensure (distinct (map (fst \<circ> snd) capabilities)) Database) (\<lambda>_.
       Inr (g\<lparr>gt_observed := delete_where (\<lambda>r. fst r = node_id) (gt_observed g)
         @ map (\<lambda>c. (node_id, snd c)) capabilities\<rparr>)))"

definition upsert_project :: "id \<Rightarrow> string \<Rightarrow> time \<Rightarrow> gate \<Rightarrow> gate" where
  "upsert_project project_id display_name updated_at g =
     (if select_by pj_project_id project_id (gt_projects g) = None
      then g\<lparr>gt_projects := gt_projects g @ [\<lparr>pj_project_id = project_id, pj_display_name = display_name,
             pj_created_at = updated_at, pj_updated_at = updated_at\<rparr>]\<rparr>
      else g\<lparr>gt_projects := update_where (\<lambda>p. pj_project_id p = project_id)
             (\<lambda>p. p\<lparr>pj_display_name := display_name, pj_updated_at := updated_at\<rparr>) (gt_projects g)\<rparr>)"

definition workspace_binding_deleted :: "id \<Rightarrow> string \<Rightarrow> gate \<Rightarrow> bool" where
  "workspace_binding_deleted node_id workspace_path g \<longleftrightarrow> (node_id, workspace_path) \<in> set (gt_deleted_bindings g)"

definition same_binding :: "id \<Rightarrow> string \<Rightarrow> placement_row \<Rightarrow> bool" where
  "same_binding node_id workspace_path p \<longleftrightarrow> pl_node_id p = node_id \<and> pl_workspace_path p = workspace_path"

text \<open>\<open>stable_id\<close>: the hash prefix from which placement and project ids are made.\<close>

definition upsert_placement ::
  "(id \<Rightarrow> string \<Rightarrow> string) \<Rightarrow> id \<Rightarrow> workspace_snapshot \<Rightarrow> gate \<Rightarrow> app_error + gate" where
  "upsert_placement stable_id node_id w g =
     (let path = ws_workspace_path w; t = ws_last_validated_at w; db = gt_db g;
          placement_id = ''placement-'' @ stable_id node_id path; project_id = ''project-'' @ stable_id node_id path in
      if rows_affected (same_binding node_id path) (db_placements db) = 0
      then and_then (ensure (find_placement db placement_id = None) Database) (\<lambda>_.
        Inr (set_db (db\<lparr>db_placements := db_placements db @ [\<lparr>pl_project_placement_id = placement_id,
           pl_project_id = Some project_id, pl_node_id = node_id, pl_display_name = ws_display_name w,
           pl_workspace_path = path, pl_state = ws_state w, pl_resource_badges = ws_resource_badges w,
           pl_git_snapshot = ws_git_snapshot w, pl_last_validated_at = Some t, pl_created_at = t,
           pl_updated_at = t\<rparr>]\<rparr>) g))
      else Inr (set_db (db\<lparr>db_placements := update_where (same_binding node_id path)
           (\<lambda>p. p\<lparr>pl_project_id := Some project_id, pl_display_name := ws_display_name w, pl_state := ws_state w,
              pl_resource_badges := ws_resource_badges w, pl_git_snapshot := ws_git_snapshot w,
              pl_last_validated_at := Some t, pl_updated_at := t\<rparr>) (db_placements db)\<rparr>) g))"

definition upsert_heartbeat_workspace ::
  "(id \<Rightarrow> string \<Rightarrow> string) \<Rightarrow> id \<Rightarrow> workspace_snapshot \<Rightarrow> (gate, unit) stateful" where
  "upsert_heartbeat_workspace stable_id node_id w =
     h_bind (h_check (\<lambda>g. Inr (workspace_binding_deleted node_id (ws_workspace_path w) g))) (\<lambda>deleted.
     if deleted then h_ok ()
     else h_bind (h_modify (upsert_project (''project-'' @ stable_id node_id (ws_workspace_path w))
            (ws_display_name w) (ws_last_validated_at w))) (\<lambda>_.
          h_run (upsert_placement stable_id node_id w)))"

fun upsert_heartbeat_workspaces ::
  "(id \<Rightarrow> string \<Rightarrow> string) \<Rightarrow> id \<Rightarrow> workspace_snapshot list \<Rightarrow> (gate, unit) stateful" where
  "upsert_heartbeat_workspaces stable_id node_id [] = h_ok ()"
| "upsert_heartbeat_workspaces stable_id node_id (w # ws) =
     h_bind (upsert_heartbeat_workspace stable_id node_id w)
       (\<lambda>_. upsert_heartbeat_workspaces stable_id node_id ws)"

text \<open>
  \<open>persist_statuses\<close> stands for what the tool registry does with the dependency statuses and
  \<open>refresh\<close> for the commands it may send afterwards.
\<close>

definition node_heartbeat ::
  "(string \<Rightarrow> string) \<Rightarrow> (id \<Rightarrow> string \<Rightarrow> string) \<Rightarrow> ((id \<times> json) list \<Rightarrow> (gate, bool) stateful)
   \<Rightarrow> (id \<Rightarrow> (gate, unit) stateful) \<Rightarrow> string option \<Rightarrow> heartbeat_request \<Rightarrow> time \<Rightarrow> (gate, bool) stateful" where
  "node_heartbeat hash_secret stable_id persist_statuses refresh credential request now =
     h_bind (h_check (\<lambda>_. ok_or (hb_node_id request) (Auth ''auth_dev.node_id_required''))) (\<lambda>node_id.
     h_bind (verify_node_credential hash_secret node_id credential now) (\<lambda>_.
     h_bind (h_check (\<lambda>_. ensure (list_all (\<lambda>c. fst c = node_id) (hb_observed_capabilities request))
        (BadRequest ''node.observed_capability_owner_mismatch''))) (\<lambda>_.
     h_bind (h_check (\<lambda>_. ensure (list_all (\<lambda>c. fst c = node_id) (hb_dependency_statuses request))
        (BadRequest ''node.dependency_status_owner_mismatch''))) (\<lambda>_.
     h_bind (h_modify (upsert_heartbeat_node node_id request now)) (\<lambda>_.
     h_bind (replace_node_capabilities node_id (hb_capabilities request) now) (\<lambda>_.
     h_bind (replace_observed_capabilities node_id (hb_observed_capabilities request)) (\<lambda>_.
     h_bind (persist_statuses (hb_dependency_statuses request)) (\<lambda>refresh_definitions.
     h_bind (upsert_heartbeat_workspaces stable_id node_id (hb_workspace_summaries request)) (\<lambda>_.
     h_bind (h_check (\<lambda>g. Inr (should_open_control_channel node_id (gt_core g)))) (\<lambda>open_control_channel.
     h_bind (if refresh_definitions then refresh node_id else h_ok ()) (\<lambda>_.
     h_ok open_control_channel)))))))))))"

end
