(* ===== verification/Admission.thy ===== *)
theory Admission
  imports Enrollment
begin

text \<open>
  Which command Core accepts for a session, in which state of its runtime, its Node and its
  placement (\<open>persistence/node.rs\<close>), over the summaries the API shows (\<open>api.rs\<close>).
\<close>

record runtime_summary =
  rs_runtime_session_id :: id
  rs_provider :: string
  rs_state :: runtime_session_state
  rs_resume_supported :: bool
  rs_degraded_reason :: "string option"
  rs_last_runtime_step_at :: "time option"

record session_summary =
  ss_session_thread_id :: id
  ss_project_placement_id :: id
  ss_runtime_session_id :: id
  ss_title :: string
  ss_state :: session_thread_state
  ss_runtime :: runtime_summary
  ss_message_count :: int
  ss_updated_at :: time

record placement_summary =
  ps_project_placement_id :: id
  ps_project_id :: "id option"
  ps_node_id :: id
  ps_display_name :: string
  ps_workspace_path :: string
  ps_state :: placement_state
  ps_resource_badges :: "resource_badge list"
  ps_git_snapshot :: "git_workspace_snapshot option"
  ps_last_validated_at :: "time option"

record message =
  mg_message_id :: id
  mg_session_thread_id :: id
  mg_turn_id :: "id option"
  mg_role :: message_role
  mg_content :: string
  mg_created_at :: time
  mg_completed_at :: "time option"
  mg_source_event_id :: "id option"

record scheduled_session_message =
  sx_scheduled_message_id :: id
  sx_session_thread_id :: id
  sx_content :: string
  sx_due_at :: time
  sx_timezone :: string
  sx_state :: scheduled_message_state
  sx_created_at :: time
  sx_updated_at :: time
  sx_sending_at :: "time option"
  sx_sent_at :: "time option"
  sx_cancelled_at :: "time option"
  sx_command_id :: "id option"
  sx_turn_id :: "id option"
  sx_failure :: "scheduled_message_failure option"

record session_detail =
  sd_session :: session_summary
  sd_placement :: placement_summary
  sd_messages :: "message list"
  sd_events :: "event_envelope list"
  sd_scheduled_messages :: "scheduled_session_message list"

abbreviation sd_runtime :: "session_detail \<Rightarrow> runtime_summary" where
  "sd_runtime d \<equiv> ss_runtime (sd_session d)"

abbreviation sd_state :: "session_detail \<Rightarrow> session_thread_state" where
  "sd_state d \<equiv> ss_state (sd_session d)"

section \<open>The Node\<close>

definition effective_node_presence :: "core_config \<Rightarrow> id \<Rightarrow> time \<Rightarrow> core_db \<Rightarrow> app_error + node_presence" where
  "effective_node_presence cfg node_id now db =
     and_then (ok_or (find_node db node_id) (NotFound ''node.not_found'')) (\<lambda>row.
     Inr (derive_presence (nd_presence row)
       (map_option (\<lambda>t. max 0 ((now - t) div 1000000000)) (nd_last_heartbeat_at row))
       (cfg_stale_after_seconds cfg) (cfg_offline_after_seconds cfg)))"

definition ensure_node_commandable :: "core_config \<Rightarrow> id \<Rightarrow> time \<Rightarrow> core_db \<Rightarrow> app_error + unit" where
  "ensure_node_commandable cfg node_id now db =
     and_then (effective_node_presence cfg node_id now db) (\<lambda>presence. case presence of
        NP_Reachable \<Rightarrow> Inr () | NP_Stale \<Rightarrow> Inr ()
      | NP_Offline \<Rightarrow> Inl (BadRequest ''node.offline'') | NP_Revoked \<Rightarrow> Inl (BadRequest ''node.revoked''))"

definition capability_is_available :: "capability_value \<Rightarrow> bool" where
  "capability_is_available v = (case v of CV_Provider available _ _ _ _ \<Rightarrow> available
     | CV_WorkspaceValidation _ \<Rightarrow> True | CV_Extension _ _ \<Rightarrow> True)"

definition node_supports_provider :: "id \<Rightarrow> string \<Rightarrow> core_db \<Rightarrow> app_error + bool" where
  "node_supports_provider node_id provider db =
     (let provider_key = ''provider.'' @ provider in
      case filter (\<lambda>r. cap_node_id r = node_id \<and> cap_capability_key r = provider_key) (db_capabilities db) of
        r # _ \<Rightarrow> Inr (capability_is_available (cap_value r))
      | [] \<Rightarrow> and_then (ok_or (find_node db node_id) (NotFound ''node.not_found'')) (\<lambda>row.
          Inr (list_ex (\<lambda>c. cs_key c = provider_key \<and> capability_is_available (cs_value c)) (nd_capabilities row))))"

definition ensure_node_supports_provider :: "id \<Rightarrow> string \<Rightarrow> core_db \<Rightarrow> app_error + unit" where
  "ensure_node_supports_provider node_id provider db =
     and_then (node_supports_provider node_id provider db) (\<lambda>supported.
       ensure supported (BadRequest ''node.capability_missing''))"

section \<open>The placement\<close>

definition placement_has_hard_block :: "placement_summary \<Rightarrow> bool" where
  "placement_has_hard_block placement = list_ex (\<lambda>b. rb_severity b = WS_HardBlock) (ps_resource_badges placement)"

definition ensure_placement_startable :: "placement_summary \<Rightarrow> app_error + unit" where
  "ensure_placement_startable placement =
     and_then (ensure (ps_state placement = PS_Validated) (BadRequest ''placement.not_startable'')) (\<lambda>_.
       ensure (\<not> placement_has_hard_block placement) (BadRequest ''placement.hard_blocked''))"

section \<open>The command\<close>

definition command_requires_startable_placement :: "command_kind \<Rightarrow> bool" where
  "command_requires_startable_placement k \<longleftrightarrow> k \<in> {CK_StartRuntime, CK_SendTurn, CK_ResumeRuntime, CK_RequestDeduction}"

definition command_requires_attached_session :: "command_kind \<Rightarrow> bool" where
  "command_requires_attached_session k \<longleftrightarrow> k \<in> {CK_SendTurn, CK_ResolveApproval}"

definition command_requires_provider_capability :: "command_kind \<Rightarrow> bool" where
  "command_requires_provider_capability k \<longleftrightarrow>
     k \<in> {CK_StartRuntime, CK_ResumeRuntime, CK_SendTurn, CK_ResolveApproval, CK_RequestDeduction}"

definition runtime_accepts :: "runtime_session_state \<Rightarrow> command_kind \<Rightarrow> bool" where
  "runtime_accepts s k = (case k of
     CK_SendTurn \<Rightarrow> s = RS_Ready \<or> s = RS_Running
   | CK_RequestDeduction \<Rightarrow> s = RS_Ready \<or> s = RS_Running
   | CK_ResolveApproval \<Rightarrow> s = RS_Blocked
   | CK_InterruptRuntime \<Rightarrow> s = RS_Running \<or> s = RS_Blocked
   | CK_StopRuntime \<Rightarrow> \<not> (s = RS_Stopped \<or> s = RS_Expired)
   | CK_ResumeRuntime \<Rightarrow> s \<in> {RS_Stopped, RS_Expired, RS_Stale, RS_Error, RS_Interrupted}
   | CK_Extension \<Rightarrow> False
   | _ \<Rightarrow> True)"

definition ensure_runtime_accepts_command :: "runtime_summary \<Rightarrow> command_kind \<Rightarrow> app_error + unit" where
  "ensure_runtime_accepts_command runtime k =
     ensure (runtime_accepts (rs_state runtime) k) (BadRequest ''runtime.command_not_allowed'')"

definition ensure_session_commandable ::
  "core_config \<Rightarrow> session_detail \<Rightarrow> command_kind \<Rightarrow> time \<Rightarrow> core_db \<Rightarrow> app_error + unit" where
  "ensure_session_commandable cfg detail k now db =
     and_then (ensure (\<not> (command_requires_attached_session k \<and> sd_state detail = SS_Detached))
        (BadRequest ''session.detached'')) (\<lambda>_.
     and_then (ensure_runtime_accepts_command (sd_runtime detail) k) (\<lambda>_.
     and_then (ensure_node_commandable cfg (ps_node_id (sd_placement detail)) now db) (\<lambda>_.
     and_then (if command_requires_startable_placement k then ensure_placement_startable (sd_placement detail)
               else Inr ()) (\<lambda>_.
     if command_requires_provider_capability k
     then ensure_node_supports_provider (ps_node_id (sd_placement detail)) (rs_provider (sd_runtime detail)) db
     else Inr ()))))"

definition ensure_pending_approval :: "session_detail \<Rightarrow> id \<Rightarrow> app_error + unit" where
  "ensure_pending_approval detail approval_id =
     ensure (approval_id \<in> set (pending_approvals (sd_events detail))) (BadRequest ''approval.not_pending'')"

section \<open>What an accepted command has behind it\<close>

lemma node_commandable_iff:
  "ensure_node_commandable cfg n now db = Inr () \<longleftrightarrow> (\<exists>row. find_node db n = Some row \<and> nd_presence row \<noteq> NP_Revoked
     \<and> (case nd_last_heartbeat_at row of None \<Rightarrow> nd_presence row \<noteq> NP_Offline
        | Some t \<Rightarrow> max 0 ((now - t) div 1000000000) < cfg_offline_after_seconds cfg))"
proof (cases "find_node db n")
  case (Some row)
  then show ?thesis
    by (cases "nd_last_heartbeat_at row"; cases "nd_presence row")
      (simp_all add: ensure_node_commandable_def effective_node_presence_def derive_presence_def not_le
        del: max_less_iff_conj)
qed (simp add: ensure_node_commandable_def effective_node_presence_def)

lemma placement_startable_iff:
  "ensure_placement_startable p = Inr () \<longleftrightarrow> ps_state p = PS_Validated
     \<and> (\<forall>b\<in>set (ps_resource_badges p). rb_severity b \<noteq> WS_HardBlock)"
  by (auto simp: ensure_placement_startable_def placement_has_hard_block_def result_simps list_ex_iff)

lemma session_commandable_iff:
  "ensure_session_commandable cfg d k now db = Inr () \<longleftrightarrow>
     (k \<in> {CK_SendTurn, CK_ResolveApproval} \<longrightarrow> sd_state d \<noteq> SS_Detached)
     \<and> runtime_accepts (rs_state (sd_runtime d)) k
     \<and> ensure_node_commandable cfg (ps_node_id (sd_placement d)) now db = Inr ()
     \<and> (command_requires_startable_placement k \<longrightarrow> ensure_placement_startable (sd_placement d) = Inr ())
     \<and> (command_requires_provider_capability k \<longrightarrow>
          node_supports_provider (ps_node_id (sd_placement d)) (rs_provider (sd_runtime d)) db = Inr True)"
  by (auto simp: ensure_session_commandable_def ensure_runtime_accepts_command_def result_simps
      command_requires_attached_session_def ensure_node_supports_provider_def split: if_splits)

text \<open>A turn runs only on an attached session with a live runtime, on a Node that answers, in
  a validated workspace without a hard block, with the provider the Node offers.\<close>

lemma turn_admitted:
  assumes "ensure_session_commandable cfg d CK_SendTurn now db = Inr ()"
  shows "sd_state d \<noteq> SS_Detached" "rs_state (sd_runtime d) = RS_Ready \<or> rs_state (sd_runtime d) = RS_Running"
    "ps_state (sd_placement d) = PS_Validated" "\<forall>b\<in>set (ps_resource_badges (sd_placement d)). rb_severity b \<noteq> WS_HardBlock"
    "node_supports_provider (ps_node_id (sd_placement d)) (rs_provider (sd_runtime d)) db = Inr True"
    "\<exists>row. find_node db (ps_node_id (sd_placement d)) = Some row \<and> nd_presence row \<noteq> NP_Revoked"
  using assms unfolding session_commandable_iff
  by (simp_all add: runtime_accepts_def placement_startable_iff node_commandable_iff
      command_requires_startable_placement_def command_requires_provider_capability_def) blast

text \<open>In no state are resuming and sending a turn both possible.\<close>

lemma resume_excludes_turn: "runtime_accepts s CK_ResumeRuntime \<Longrightarrow> \<not> runtime_accepts s CK_SendTurn"
  by (auto simp: runtime_accepts_def)

end
