(* ===== verification/Scheduled_Store.thy ===== *)
theory Scheduled_Store
  imports Admission
begin

text \<open>
  What the requests read and write of the scheduler's tables (\<open>application/scheduling.rs\<close>):
  the scheduled messages of a session, and the admission of a start by the quota of its
  provider. The text form of a timestamp is chrono's and an argument.
\<close>

section \<open>Scheduled messages of a session\<close>

definition row_to_scheduled_message :: "scheduled_message_row \<Rightarrow> scheduled_session_message" where
  "row_to_scheduled_message row = \<lparr>sx_scheduled_message_id = sm_scheduled_message_id row,
     sx_session_thread_id = sm_session_thread_id row, sx_content = sm_content row, sx_due_at = sm_due_at row,
     sx_timezone = sm_timezone row, sx_state = sm_state row, sx_created_at = sm_created_at row,
     sx_updated_at = sm_updated_at row, sx_sending_at = sm_sending_at row, sx_sent_at = sm_sent_at row,
     sx_cancelled_at = sm_cancelled_at row, sx_command_id = sm_command_id row, sx_turn_id = sm_turn_id row,
     sx_failure = (case (sm_failure_code row, sm_failure_message row) of
        (Some code, Some msg) \<Rightarrow> Some \<lparr>smf_code = code, smf_message = msg\<rparr> | _ \<Rightarrow> None)\<rparr>"

definition scheduled_row_is :: "id \<Rightarrow> id \<Rightarrow> scheduled_message_row \<Rightarrow> bool" where
  "scheduled_row_is session_id message_id row \<longleftrightarrow>
     sm_scheduled_message_id row = message_id \<and> sm_session_thread_id row = session_id"

definition load_scheduled_message :: "id \<Rightarrow> id \<Rightarrow> core_db \<Rightarrow> app_error + scheduled_session_message" where
  "load_scheduled_message session_id message_id db =
     and_then (ok_or (find (scheduled_row_is session_id message_id) (db_scheduled_messages db))
        (NotFound ''scheduled_message.not_found'')) (\<lambda>row. Inr (row_to_scheduled_message row))"

definition load_scheduled_messages :: "id \<Rightarrow> core_db \<Rightarrow> scheduled_session_message list" where
  "load_scheduled_messages session_id db = map row_to_scheduled_message
     (sort_key (\<lambda>r. (- sm_due_at r, - sm_created_at r))
       (filter (\<lambda>r. sm_session_thread_id r = session_id) (db_scheduled_messages db)))"

section \<open>Provider quota\<close>

definition PROVIDER_QUOTA_FRESH_SECONDS :: int where
  "PROVIDER_QUOTA_FRESH_SECONDS = 300"

definition PROVIDER_QUOTA_BLOCK_PERCENT :: int where
  "PROVIDER_QUOTA_BLOCK_PERCENT = 5"

datatype (plugins only: code size) provider_quota_state = QU_Available | QU_Limited | QU_Unknown

record provider_quota_status =
  qt_provider :: string
  qt_state :: provider_quota_state
  qt_five_hour_remaining_percent :: "int option"
  qt_weekly_remaining_percent :: "int option"
  qt_observed_at :: "time option"
  qt_unavailable_reason :: "string option"

text \<open>\<open>u8::try_from\<close> of a stored \<open>i64\<close>.\<close>

definition as_u8 :: "int \<Rightarrow> int option" where
  "as_u8 v = (if 0 \<le> v \<and> v \<le> 255 then Some v else None)"

text \<open>Whole seconds of a duration: chrono truncates towards zero.\<close>

definition num_seconds :: "time \<Rightarrow> int" where
  "num_seconds d = (if 0 \<le> d then d div 1000000000 else - (- d div 1000000000))"

definition provider_quota_status_of :: "string \<Rightarrow> time \<Rightarrow> core_db \<Rightarrow> app_error + provider_quota_status" where
  "provider_quota_status_of provider now db =
     and_then (ensure (provider \<noteq> []) (BadRequest ''validation.provider_required'')) (\<lambda>_. Inr (
     case find (\<lambda>r. qs_provider r = provider \<and> qs_reliable r) (db_quotas db) of
       None \<Rightarrow> \<lparr>qt_provider = provider, qt_state = QU_Unknown, qt_five_hour_remaining_percent = None,
         qt_weekly_remaining_percent = None, qt_observed_at = None,
         qt_unavailable_reason = Some ''provider_has_no_machine_readable_quota_source''\<rparr>
     | Some row \<Rightarrow>
        (let five_hour = Option.bind (qs_five_hour_remaining_percent row) as_u8;
             weekly = Option.bind (qs_weekly_remaining_percent row) as_u8;
             age = num_seconds (now - qs_observed_at row) in
         if \<not> (0 \<le> age \<and> age \<le> PROVIDER_QUOTA_FRESH_SECONDS)
         then \<lparr>qt_provider = provider, qt_state = QU_Unknown, qt_five_hour_remaining_percent = five_hour,
           qt_weekly_remaining_percent = weekly, qt_observed_at = Some (qs_observed_at row),
           qt_unavailable_reason = Some ''provider_quota_snapshot_stale''\<rparr>
         else
           (let limited = (case five_hour of Some v \<Rightarrow> v \<le> PROVIDER_QUOTA_BLOCK_PERCENT | None \<Rightarrow> False)
                  \<or> (case weekly of Some v \<Rightarrow> v \<le> PROVIDER_QUOTA_BLOCK_PERCENT | None \<Rightarrow> False)
            in \<lparr>qt_provider = provider, qt_state = (if limited then QU_Limited else QU_Available),
              qt_five_hour_remaining_percent = five_hour, qt_weekly_remaining_percent = weekly,
              qt_observed_at = Some (qs_observed_at row), qt_unavailable_reason = None\<rparr>))))"

definition quota_json :: "(time \<Rightarrow> string) \<Rightarrow> provider_quota_status \<Rightarrow> json" where
  "quota_json timestamp q =
     JObj [(''provider'', JStr (qt_provider q)),
       (''state'', JStr (case qt_state q of QU_Available \<Rightarrow> ''available'' | QU_Limited \<Rightarrow> ''limited'' | QU_Unknown \<Rightarrow> ''unknown'')),
       (''five_hour_remaining_percent'', case qt_five_hour_remaining_percent q of None \<Rightarrow> JNull | Some v \<Rightarrow> JNum v),
       (''weekly_remaining_percent'', case qt_weekly_remaining_percent q of None \<Rightarrow> JNull | Some v \<Rightarrow> JNum v),
       (''observed_at'', case qt_observed_at q of None \<Rightarrow> JNull | Some t \<Rightarrow> JStr (timestamp t)),
       (''unavailable_reason'', case qt_unavailable_reason q of None \<Rightarrow> JNull | Some r \<Rightarrow> JStr r)]"

definition ensure_provider_quota_admission ::
  "(time \<Rightarrow> string) \<Rightarrow> time \<Rightarrow> string \<Rightarrow> bool \<Rightarrow> string \<Rightarrow> core_db \<Rightarrow> app_error + core_db" where
  "ensure_provider_quota_admission timestamp now provider force operation db =
     and_then (provider_quota_status_of provider now db) (\<lambda>status.
     if qt_state status \<noteq> QU_Limited then Inr db
     else if \<not> force then Inl (BadRequest ''provider.quota_limited'')
     else Inr (db\<lparr>db_audit := db_audit db @ [\<lparr>au_kind = ''provider.quota_force_override'', au_node_id = None,
       au_origin = Some operation, au_outcome = ''allowed'', au_metadata = quota_json timestamp status,
       au_happened_at = now\<rparr>]\<rparr>))"

section \<open>What admission by quota means\<close>

text \<open>
  A start is refused exactly when a fresh reliable snapshot shows five percent or less of one
  of the two windows and the start is not forced; a forced start leaves one audit row.
\<close>

definition quota_low :: "string \<Rightarrow> time \<Rightarrow> core_db \<Rightarrow> bool" where
  "quota_low provider now db \<longleftrightarrow> (\<exists>row. find (\<lambda>r. qs_provider r = provider \<and> qs_reliable r) (db_quotas db) = Some row
     \<and> (let age = num_seconds (now - qs_observed_at row) in 0 \<le> age \<and> age \<le> 300)
     \<and> (\<exists>v. (qs_five_hour_remaining_percent row = Some v \<or> qs_weekly_remaining_percent row = Some v) \<and> 0 \<le> v \<and> v \<le> 5))"

lemma low_window:
  "(case Option.bind x as_u8 of None \<Rightarrow> False | Some v \<Rightarrow> v \<le> PROVIDER_QUOTA_BLOCK_PERCENT) \<longleftrightarrow> (\<exists>v. x = Some v \<and> 0 \<le> v \<and> v \<le> 5)"
  by (cases x) (auto simp: as_u8_def PROVIDER_QUOTA_BLOCK_PERCENT_def)

lemma quota_status_limited:
  "provider \<noteq> [] \<Longrightarrow>
   (\<exists>q. provider_quota_status_of provider now db = Inr q \<and> (qt_state q = QU_Limited \<longleftrightarrow> quota_low provider now db))"
  by (cases "find (\<lambda>r. qs_provider r = provider \<and> qs_reliable r) (db_quotas db)")
    (auto simp: provider_quota_status_of_def quota_low_def Let_def PROVIDER_QUOTA_FRESH_SECONDS_def low_window)

lemma quota_admission_refused:
  "provider \<noteq> [] \<Longrightarrow>
   ensure_provider_quota_admission ts now provider force op db = Inl e \<longleftrightarrow>
     quota_low provider now db \<and> \<not> force \<and> e = BadRequest ''provider.quota_limited''"
  using quota_status_limited[of provider now db]
  by (auto simp: ensure_provider_quota_admission_def split: if_splits)

lemma quota_admission_frame:
  "ensure_provider_quota_admission ts now provider force op db = Inr db' \<Longrightarrow> \<exists>rows. db' = db\<lparr>db_audit := db_audit db @ rows\<rparr>
     \<and> (rows = [] \<longleftrightarrow> \<not> quota_low provider now db)"
proof -
  assume a: "ensure_provider_quota_admission ts now provider force op db = Inr db'"
  then have "provider \<noteq> []" by (auto simp: ensure_provider_quota_admission_def provider_quota_status_of_def result_simps)
  then obtain q where q: "provider_quota_status_of provider now db = Inr q" "qt_state q = QU_Limited \<longleftrightarrow> quota_low provider now db"
    using quota_status_limited by blast
  show ?thesis
  proof (cases "qt_state q = QU_Limited")
    case True
    then show ?thesis using a q by (auto simp: ensure_provider_quota_admission_def split: if_splits)
  next
    case False
    then have "db' = db\<lparr>db_audit := db_audit db @ []\<rparr>" using a q by (simp add: ensure_provider_quota_admission_def)
    then show ?thesis using False q by blast
  qed
qed

end
