(* ===== verification/Sessions.thy ===== *)
theory Sessions
  imports Scheduled_Store
begin

text \<open>
  Sessions as Core serves them (\<open>application/session.rs\<close>, \<open>application/projection.rs\<close>): the
  expiry of idle runtimes that precedes every load, the loads themselves, the creation of a
  session with its runtime and its first command, the submission of a turn, and the stream of
  a session's events.

  An environment carries the configuration, the clock, fresh ids and what the message channel
  and chrono contribute.
\<close>

record session_env =
  se_cfg :: core_config
  se_now :: time
  se_event_id :: "id \<Rightarrow> id"
  se_message_id :: "id \<Rightarrow> id"
  se_has_receivers :: bool
  se_frame_id :: "id \<Rightarrow> string"
  se_timestamp :: "time \<Rightarrow> string"

section \<open>Idle runtimes\<close>

definition idle_runtimes :: "time \<Rightarrow> core_db \<Rightarrow> (id \<times> id \<times> id) list" where
  "idle_runtimes cutoff db = filter_map (\<lambda>r.
     Option.bind (find_session db (rt_session_thread_id r)) (\<lambda>s.
     Option.bind (find_placement db (st_project_placement_id s)) (\<lambda>p.
     if rt_state r \<in> {RS_Ready, RS_Running, RS_Blocked, RS_Stale}
        \<and> (case rt_last_runtime_step_at r of Some t \<Rightarrow> t | None \<Rightarrow> rt_created_at r) \<le> cutoff
     then Some (rt_runtime_session_id r, rt_session_thread_id r, pl_node_id p) else None))) (db_runtimes db)"

definition expiry_event :: "session_env \<Rightarrow> id \<times> id \<times> id \<Rightarrow> core_db \<Rightarrow> event_envelope" where
  "expiry_event env row db = (case row of (rid, sid, node_id) \<Rightarrow>
     \<lparr>ev_event_id = se_event_id env rid, ev_command_id = None, ev_correlation_id = None, ev_actor_ref = AR_System,
      ev_scope_ref = SR_Runtime rid, ev_node_id = Some node_id, ev_runtime_session_id = Some rid,
      ev_session_thread_id = Some sid, ev_turn_id = None, ev_seq = next_seq (scope_key (SR_Runtime rid)) db,
      ev_session_projection_seq = None, ev_kind = EK_RuntimeExpired, ev_happened_at = se_now env,
      ev_source_refs = [UR_Runtime rid], ev_evidence_refs = [], ev_cause_refs = [], ev_result_refs = [],
      ev_payload = EP_RuntimeExpired \<lparr>rd_provider = None, rd_mode = None, rd_resume_source = None,
        rd_provider_resume_ref = None, rd_transcript_messages = None, rd_reason = None,
        rd_code = Some ''runtime.idle_expired'',
        rd_message = Some (''Runtime expired after '' @ show_int (cfg_runtime_expiry_seconds (se_cfg env))
          @ '' seconds without runtime activity''),
        rd_expiry_seconds = Some (cfg_runtime_expiry_seconds (se_cfg env))\<rparr>\<rparr>)"

definition expire_runtime :: "session_env \<Rightarrow> id \<times> id \<times> id \<Rightarrow> unit handler" where
  "expire_runtime env row = h_run (\<lambda>st. accept_node_event (se_has_receivers env) (se_now env)
     (se_message_id env (fst row)) (expiry_event env row (co_db st)) st)"

fun expire_each :: "session_env \<Rightarrow> (id \<times> id \<times> id) list \<Rightarrow> unit handler" where
  "expire_each env [] = h_ok ()"
| "expire_each env (row # rows) = h_bind (expire_runtime env row) (\<lambda>_. expire_each env rows)"

definition expire_idle_runtimes :: "session_env \<Rightarrow> unit handler" where
  "expire_idle_runtimes env =
     (let expiry = cfg_runtime_expiry_seconds (se_cfg env) in
      if expiry \<le> 0 then h_ok ()
      else h_bind (h_check (\<lambda>st. Inr (idle_runtimes (se_now env - seconds expiry) (co_db st)))) (expire_each env))"

section \<open>Loads\<close>

definition live_session :: "core_db \<Rightarrow> session_row \<Rightarrow> bool" where
  "live_session db s \<longleftrightarrow> st_state s \<in> {SS_Active, SS_Detached, SS_Degraded}
     \<and> (case find_runtime db (st_runtime_session_id s) of None \<Rightarrow> False
        | Some r \<Rightarrow> rt_state r \<in> {RS_Starting, RS_Ready, RS_Running, RS_Blocked, RS_Stopping, RS_Interrupted,
            RS_Resuming, RS_Stale})"

definition active_workspace_session_count :: "placement_summary \<Rightarrow> id option \<Rightarrow> core_db \<Rightarrow> nat" where
  "active_workspace_session_count placement excluded db = rows_affected (\<lambda>s.
     (case find_placement db (st_project_placement_id s) of None \<Rightarrow> False
      | Some p \<Rightarrow> pl_node_id p = ps_node_id placement \<and> pl_workspace_path p = ps_workspace_path placement)
     \<and> excluded \<noteq> Some (st_session_thread_id s) \<and> live_session db s) (db_sessions db)"

definition active_same_repo_branch_count :: "placement_summary \<Rightarrow> core_db \<Rightarrow> nat" where
  "active_same_repo_branch_count placement db = (case ps_git_snapshot placement of None \<Rightarrow> 0
     | Some snapshot \<Rightarrow> (case (gs_repo_id snapshot, gs_branch snapshot) of
         (Some repo, Some branch) \<Rightarrow> rows_affected (\<lambda>s.
           (case find_placement db (st_project_placement_id s) of None \<Rightarrow> False
            | Some p \<Rightarrow> pl_project_placement_id p \<noteq> ps_project_placement_id placement
                \<and> (case pl_git_snapshot p of None \<Rightarrow> False
                   | Some c \<Rightarrow> gs_repo_id c = Some repo \<and> gs_branch c = Some branch))
           \<and> live_session db s) (db_sessions db)
       | _ \<Rightarrow> 0))"

definition row_to_placement :: "placement_row \<Rightarrow> placement_summary" where
  "row_to_placement p = \<lparr>ps_project_placement_id = pl_project_placement_id p, ps_project_id = pl_project_id p,
     ps_node_id = pl_node_id p, ps_display_name = pl_display_name p, ps_workspace_path = pl_workspace_path p,
     ps_state = pl_state p, ps_resource_badges = pl_resource_badges p, ps_git_snapshot = pl_git_snapshot p,
     ps_last_validated_at = pl_last_validated_at p\<rparr>"

definition add_core_resource_badges :: "placement_summary \<Rightarrow> id option \<Rightarrow> core_db \<Rightarrow> placement_summary" where
  "add_core_resource_badges placement excluded db =
     (let kept = filter (\<lambda>b. rb_kind b \<noteq> ''same_workspace_active'' \<and> rb_kind b \<noteq> ''same_repo_branch_active'')
            (ps_resource_badges placement);
          active = active_workspace_session_count placement excluded db;
          same_branch = active_same_repo_branch_count placement db
      in placement\<lparr>ps_resource_badges := kept
        @ (if active > 0 then [\<lparr>rb_kind = ''same_workspace_active'', rb_severity = WS_Warning,
             rb_label = ''Workspace already has '' @ show_int (int active) @ '' active session(s)''\<rparr>] else [])
        @ (if same_branch > 0 then [\<lparr>rb_kind = ''same_repo_branch_active'', rb_severity = WS_Warning,
             rb_label = ''Same repository branch has '' @ show_int (int same_branch)
               @ '' active session(s) elsewhere''\<rparr>] else [])\<rparr>)"

definition load_placement :: "session_env \<Rightarrow> id \<Rightarrow> id option \<Rightarrow> placement_summary handler" where
  "load_placement env placement_id excluded =
     h_bind (expire_idle_runtimes env) (\<lambda>_.
     h_check (\<lambda>st. and_then (ok_or (find_placement (co_db st) placement_id) (NotFound ''placement.not_found''))
       (\<lambda>p. Inr (add_core_resource_badges (row_to_placement p) excluded (co_db st)))))"

definition event_cursor_key :: "event_row \<Rightarrow> int" where
  "event_cursor_key r = (case er_session_projection_seq r of Some q \<Rightarrow> q | None \<Rightarrow> 0)"

definition load_events :: "id \<Rightarrow> int \<Rightarrow> core_db \<Rightarrow> event_envelope list" where
  "load_events session_id after_seq db =
     map (\<lambda>r. (er_event r)\<lparr>ev_session_projection_seq := er_session_projection_seq r\<rparr>)
       (sort_key event_cursor_key (filter (\<lambda>r. er_session_thread_id r = Some session_id
          \<and> (case er_session_projection_seq r of None \<Rightarrow> False | Some q \<Rightarrow> after_seq < q)) (db_events db)))"

definition row_to_session :: "core_db \<Rightarrow> session_row \<times> runtime_row \<Rightarrow> session_summary" where
  "row_to_session db row = (case row of (s, r) \<Rightarrow>
     \<lparr>ss_session_thread_id = st_session_thread_id s, ss_project_placement_id = st_project_placement_id s,
      ss_runtime_session_id = st_runtime_session_id s, ss_title = st_title s, ss_state = st_state s,
      ss_runtime = \<lparr>rs_runtime_session_id = st_runtime_session_id s, rs_provider = rt_provider r, rs_state = rt_state r,
        rs_resume_supported = rt_resume_supported r, rs_degraded_reason = rt_degraded_reason r,
        rs_last_runtime_step_at = rt_last_runtime_step_at r\<rparr>,
      ss_message_count = int (rows_affected (\<lambda>m. ms_session_thread_id m = st_session_thread_id s) (db_messages db)),
      ss_updated_at = st_updated_at s\<rparr>)"

definition load_sessions :: "session_env \<Rightarrow> session_summary list handler" where
  "load_sessions env = h_bind (expire_idle_runtimes env) (\<lambda>_. h_check (\<lambda>st. Inr (map (row_to_session (co_db st))
     (sort_key (\<lambda>(s, r). - st_updated_at s) (filter_map (\<lambda>s.
        map_option (\<lambda>r. (s, r)) (find_runtime (co_db st) (st_runtime_session_id s))) (db_sessions (co_db st)))))))"

definition load_messages :: "id \<Rightarrow> core_db \<Rightarrow> message list" where
  "load_messages session_id db =
     map (\<lambda>m. \<lparr>mg_message_id = ms_message_id m, mg_session_thread_id = ms_session_thread_id m, mg_turn_id = ms_turn_id m,
        mg_role = ms_role m, mg_content = ms_content m, mg_created_at = ms_created_at m,
        mg_completed_at = ms_completed_at m, mg_source_event_id = ms_source_event_id m\<rparr>)
       (sort_key ms_created_at (filter (\<lambda>m. ms_session_thread_id m = session_id) (db_messages db)))"

definition load_session_detail :: "session_env \<Rightarrow> id \<Rightarrow> session_detail handler" where
  "load_session_detail env session_id =
     h_bind (load_sessions env) (\<lambda>sessions.
     h_bind (h_check (\<lambda>_. ok_or (find (\<lambda>s. ss_session_thread_id s = session_id) sessions) (NotFound ''session.not_found'')))
     (\<lambda>session. h_bind (load_placement env (ss_project_placement_id session) (Some session_id)) (\<lambda>placement.
     h_check (\<lambda>st. Inr \<lparr>sd_session = session, sd_placement = placement,
        sd_messages = load_messages session_id (co_db st), sd_events = load_events session_id 0 (co_db st),
        sd_scheduled_messages = load_scheduled_messages session_id (co_db st)\<rparr>))))"

section \<open>Creating a session\<close>

record create_session_request =
  cq_project_placement_id :: id
  cq_provider :: string
  cq_title :: "string option"
  cq_force :: bool

record session_ids =
  si_session :: id
  si_runtime :: id
  si_command :: id
  si_correlation :: id

definition new_session_row :: "session_ids \<Rightarrow> id \<Rightarrow> string \<Rightarrow> string \<Rightarrow> time \<Rightarrow> session_row" where
  "new_session_row ids placement_id title provider now = \<lparr>st_session_thread_id = si_session ids,
     st_project_placement_id = placement_id, st_runtime_session_id = si_runtime ids, st_title = title,
     st_state = SS_Active, st_provider = provider, st_created_at = now, st_updated_at = now\<rparr>"

definition new_runtime_row :: "session_ids \<Rightarrow> string \<Rightarrow> time \<Rightarrow> runtime_row" where
  "new_runtime_row ids provider now = \<lparr>rt_runtime_session_id = si_runtime ids, rt_session_thread_id = si_session ids,
     rt_provider = provider, rt_state = RS_Starting, rt_resume_supported = True, rt_provider_resume_ref = None,
     rt_degraded_reason = None, rt_last_runtime_step_at = Some now, rt_created_at = now, rt_updated_at = now\<rparr>"

definition start_command :: "actor_ref \<Rightarrow> session_ids \<Rightarrow> placement_summary \<Rightarrow> string \<Rightarrow> time \<Rightarrow> command_envelope" where
  "start_command actor ids placement provider now = \<lparr>ce_command_id = si_command ids, ce_kind = CK_StartRuntime,
     ce_target = CT_SessionRuntime (ps_node_id placement) (ps_project_placement_id placement) (si_session ids) (si_runtime ids),
     ce_actor_ref = actor, ce_source_refs = [], ce_cause_refs = [], ce_issued_at = now,
     ce_correlation_id = si_correlation ids,
     ce_payload = CP_StartRuntime provider (ps_workspace_path placement)\<rparr>"

definition insert_session_aggregate ::
  "actor_ref \<Rightarrow> session_ids \<Rightarrow> placement_summary \<Rightarrow> string \<Rightarrow> string \<Rightarrow> time \<Rightarrow> core_db \<Rightarrow> app_error + core_db" where
  "insert_session_aggregate actor ids placement title provider now db =
     and_then (ensure (find_session db (si_session ids) = None
         \<and> list_all (\<lambda>s. st_runtime_session_id s \<noteq> si_runtime ids) (db_sessions db)
         \<and> find_placement db (ps_project_placement_id placement) \<noteq> None) Database) (\<lambda>_.
     and_then (ensure (find_runtime db (si_runtime ids) = None
         \<and> list_all (\<lambda>r. rt_session_thread_id r \<noteq> si_session ids) (db_runtimes db)) Database) (\<lambda>_.
     record_command_on_connection (start_command actor ids placement provider now)
       (db\<lparr>db_sessions := db_sessions db @ [new_session_row ids (ps_project_placement_id placement) title provider now],
           db_runtimes := db_runtimes db @ [new_runtime_row ids provider now]\<rparr>)))"

definition create_session_with_correlation ::
  "session_env \<Rightarrow> session_ids \<Rightarrow> create_session_request
   \<Rightarrow> session_detail handler" where
  "create_session_with_correlation env ids request =
     h_bind (load_placement env (cq_project_placement_id request) None) (\<lambda>placement.
     let provider = trim (cq_provider request) in
     h_bind (h_check (\<lambda>_. ensure (provider \<noteq> []) (BadRequest ''validation.provider_required''))) (\<lambda>_.
     h_bind (h_check (\<lambda>st. ensure_node_commandable (se_cfg env) (ps_node_id placement) (se_now env) (co_db st))) (\<lambda>_.
     h_bind (h_check (\<lambda>_. ensure_placement_startable placement)) (\<lambda>_.
     h_bind (h_check (\<lambda>st. ensure_node_supports_provider (ps_node_id placement) provider (co_db st))) (\<lambda>_.
     h_bind (h_txn (ensure_provider_quota_admission (se_timestamp env) (se_now env) provider (cq_force request)
        ''session.start'')) (\<lambda>_.
     h_bind (h_txn (insert_session_aggregate (AR_LocalUser None) ids placement
        (case cq_title request of Some t \<Rightarrow> t | None \<Rightarrow> ''Session for '' @ ps_display_name placement)
        provider (se_now env))) (\<lambda>_.
     h_bind (h_modify (dispatch_pending_commands (se_frame_id env) (se_now env) (ps_node_id placement))) (\<lambda>_.
     load_session_detail env (si_session ids)))))))))"

section \<open>Attaching and turns\<close>

definition attach_session :: "session_env \<Rightarrow> id \<Rightarrow> session_detail handler" where
  "attach_session env session_id = h_bind (h_txn (update_session_attachment_state session_id SS_Active (se_now env)))
     (\<lambda>_. load_session_detail env session_id)"

definition detach_session :: "session_env \<Rightarrow> id \<Rightarrow> session_detail handler" where
  "detach_session env session_id = h_bind (h_txn (update_session_attachment_state session_id SS_Detached (se_now env)))
     (\<lambda>_. load_session_detail env session_id)"

definition turn_command :: "session_ids \<Rightarrow> session_detail \<Rightarrow> string \<Rightarrow> id \<Rightarrow> actor_ref \<Rightarrow> time \<Rightarrow> command_envelope" where
  "turn_command ids detail content turn_id actor now = \<lparr>ce_command_id = si_command ids, ce_kind = CK_SendTurn,
     ce_target = CT_SessionRuntime (ps_node_id (sd_placement detail)) (ps_project_placement_id (sd_placement detail))
        (ss_session_thread_id (sd_session detail)) (rs_runtime_session_id (sd_runtime detail)),
     ce_actor_ref = actor, ce_source_refs = [], ce_cause_refs = [UR_Session (ss_session_thread_id (sd_session detail))],
     ce_issued_at = now, ce_correlation_id = si_correlation ids, ce_payload = CP_SendTurn content turn_id\<rparr>"

definition submit_turn_for_actor ::
  "session_env \<Rightarrow> session_ids \<Rightarrow> id \<Rightarrow> id \<Rightarrow> id \<Rightarrow> string \<Rightarrow> actor_ref \<Rightarrow> (id \<times> session_detail) handler" where
  "submit_turn_for_actor env ids turn_id user_message_id session_id content actor =
     h_bind (h_check (\<lambda>_. ensure (trim content \<noteq> []) (BadRequest ''validation.empty_turn''))) (\<lambda>_.
     h_bind (load_session_detail env session_id) (\<lambda>detail.
     h_bind (h_check (\<lambda>st. ensure_session_commandable (se_cfg env) detail CK_SendTurn (se_now env) (co_db st))) (\<lambda>_.
     h_bind (h_txn (record_turn_submission (turn_command ids detail content turn_id actor (se_now env)) turn_id
        user_message_id session_id content (se_now env))) (\<lambda>_.
     h_bind (h_modify (dispatch_pending_commands (se_frame_id env) (se_now env) (ps_node_id (sd_placement detail)))) (\<lambda>_.
     h_bind (load_session_detail env session_id) (\<lambda>session. h_ok (si_command ids, session)))))))"

section \<open>The event stream\<close>

definition session_event_cursor :: "event_envelope \<Rightarrow> int" where
  "session_event_cursor event = (case ev_session_projection_seq event of Some q \<Rightarrow> q | None \<Rightarrow> ev_seq event)"

definition event_matches_session_after_seq :: "event_envelope \<Rightarrow> id \<Rightarrow> int \<Rightarrow> bool" where
  "event_matches_session_after_seq event session_id after_seq \<longleftrightarrow>
     ev_session_thread_id event = Some session_id \<and> after_seq < session_event_cursor event"

text \<open>The events of the broadcast channel that the stream passes on.\<close>

fun live_events :: "id \<Rightarrow> int \<Rightarrow> event_envelope list \<Rightarrow> event_envelope list" where
  "live_events session_id last_seq [] = []"
| "live_events session_id last_seq (event # events) =
     (if event_matches_session_after_seq event session_id last_seq
      then event # live_events session_id (session_event_cursor event) events
      else live_events session_id last_seq events)"

definition session_stream :: "id \<Rightarrow> int \<Rightarrow> event_envelope list \<Rightarrow> core_db \<Rightarrow> event_envelope list" where
  "session_stream session_id after_seq broadcast db =
     (let events = load_events session_id after_seq db;
          last_seq = fold (\<lambda>e q. max q (session_event_cursor e)) events after_seq
      in events @ live_events session_id last_seq broadcast)"

end
