(* ===== verification/Mcp_Leases.thy ===== *)
theory Mcp_Leases
  imports Deductions
begin

text \<open>
  The leases with which a provider process calls Core's tools (\<open>application/tooling.rs\<close>): a
  token is the id of a row and the MAC of the row's claims in hexadecimal. Issuing a lease
  revokes the session's earlier ones; validation compares the claims with the row, the clock
  and the present scope of the session.

  \<open>mac\<close> is HMAC-SHA256 with Core's key, \<open>claims_text\<close> the JSON text of the claims; both come
  from crates outside the repository and are arguments. The counter of issued leases is not
  kept.
\<close>

section \<open>Hexadecimal\<close>

definition hex_digit :: "nat \<Rightarrow> char" where
  "hex_digit n = (if n < 10 then char_of (48 + n) else char_of (87 + n))"

definition encode_hex :: "8 word list \<Rightarrow> string" where
  "encode_hex bytes = concat (map (\<lambda>b. [hex_digit (unat b div 16), hex_digit (unat b mod 16)]) bytes)"

definition hex_value :: "char \<Rightarrow> nat option" where
  "hex_value c = (let n = of_char c :: nat in
     if 48 \<le> n \<and> n \<le> 57 then Some (n - 48)
     else if 97 \<le> n \<and> n \<le> 102 then Some (n - 87)
     else if 65 \<le> n \<and> n \<le> 70 then Some (n - 55) else None)"

text \<open>\<open>u8::from_str_radix\<close> on two characters: a leading plus sign is accepted before a digit.\<close>

definition from_hex_pair :: "char \<Rightarrow> char \<Rightarrow> 8 word option" where
  "from_hex_pair a b = (if a = CHR ''+'' then map_option of_nat (hex_value b)
     else Option.bind (hex_value a) (\<lambda>x. map_option (\<lambda>y. of_nat (16 * x + y)) (hex_value b)))"

fun hex_pairs :: "string \<Rightarrow> 8 word list option" where
  "hex_pairs [] = Some []"
| "hex_pairs [c] = None"
| "hex_pairs (a # b # cs) = Option.bind (from_hex_pair a b) (\<lambda>x. map_option ((#) x) (hex_pairs cs))"

definition is_ascii :: "char \<Rightarrow> bool" where
  "is_ascii c \<longleftrightarrow> of_char c < (128 :: nat)"

definition decode_hex :: "string \<Rightarrow> 8 word list option" where
  "decode_hex value = (if \<not> list_all is_ascii value \<or> odd (length value) then None else hex_pairs value)"

section \<open>Leases\<close>

definition UPRAVA_MCP_LEASE_AUDIENCE :: string where
  "UPRAVA_MCP_LEASE_AUDIENCE = ''uprava:mcp''"

definition MCP_LEASE_TTL_MINUTES :: int where
  "MCP_LEASE_TTL_MINUTES = 10"

definition tool_is_visible_to_actor :: "actor_ref \<Rightarrow> bool" where
  "tool_is_visible_to_actor a \<longleftrightarrow> (case a of AR_LocalUser _ \<Rightarrow> True | AR_System \<Rightarrow> True | AR_Provider _ \<Rightarrow> True | _ \<Rightarrow> False)"

record scoped_identity =
  sy_node_id :: id
  sy_project_id :: "id option"
  sy_placement_id :: id
  sy_session_state :: session_thread_state

definition load_scoped_identity_for_session :: "id \<Rightarrow> core_db \<Rightarrow> app_error + scoped_identity" where
  "load_scoped_identity_for_session session_id db =
     ok_or (Option.bind (find_session db session_id) (\<lambda>s. map_option (\<lambda>p.
        \<lparr>sy_node_id = pl_node_id p, sy_project_id = pl_project_id p, sy_placement_id = pl_project_placement_id p,
         sy_session_state = st_state s\<rparr>) (find_placement db (st_project_placement_id s))))
       (NotFound ''session.not_found'')"

definition revoke_lease :: "time \<Rightarrow> string \<Rightarrow> lease_row \<Rightarrow> lease_row" where
  "revoke_lease now reason r = r\<lparr>le_revoked_at := Some now, le_revocation_reason := Some reason\<rparr>"

definition revoke_session_mcp_leases :: "id \<Rightarrow> string \<Rightarrow> time \<Rightarrow> core_db \<Rightarrow> core_db" where
  "revoke_session_mcp_leases session_id reason now db = db\<lparr>db_leases :=
     update_where (\<lambda>r. le_session_thread_id r = session_id \<and> le_revoked_at r = None) (revoke_lease now reason) (db_leases db)\<rparr>"

definition revoke_all_mcp_leases_for_credential_rotation :: "time \<Rightarrow> core_db \<Rightarrow> core_db" where
  "revoke_all_mcp_leases_for_credential_rotation now db = db\<lparr>db_leases :=
     update_where (\<lambda>r. le_revoked_at r = None) (revoke_lease now ''core_credential_rotated'') (db_leases db)\<rparr>"

definition next_credential_version :: "id \<Rightarrow> core_db \<Rightarrow> int" where
  "next_credential_version session_id db =
     fold max (map le_credential_version (filter (\<lambda>r. le_session_thread_id r = session_id) (db_leases db))) 0 + 1"

definition new_lease :: "id \<Rightarrow> id \<Rightarrow> actor_ref \<Rightarrow> scoped_identity \<Rightarrow> int \<Rightarrow> time \<Rightarrow> lease_row" where
  "new_lease lease_id session_id actor_ref scope version now =
     (let expires_at = now + MCP_LEASE_TTL_MINUTES * 60 * 1000000000 in
      \<lparr>le_lease_id = lease_id, le_session_thread_id = session_id,
       le_claims = \<lparr>lc_lease_id = lease_id, lc_audience = UPRAVA_MCP_LEASE_AUDIENCE, lc_actor_ref = actor_ref,
         lc_session_thread_id = session_id, lc_project_id = sy_project_id scope,
         lc_project_placement_id = sy_placement_id scope, lc_node_id = sy_node_id scope, lc_issued_at = now,
         lc_expires_at = expires_at, lc_credential_version = word_of_int version\<rparr>,
       le_credential_version = version, le_issued_at = now, le_expires_at = expires_at, le_revoked_at = None,
       le_revocation_reason = None\<rparr>)"

definition lease_token ::
  "(string \<Rightarrow> 8 word list) \<Rightarrow> (mcp_access_lease_claims \<Rightarrow> string) \<Rightarrow> mcp_access_lease_claims \<Rightarrow> string" where
  "lease_token mac claims_text claims = lc_lease_id claims @ ''.'' @ encode_hex (mac (claims_text claims))"

definition issue_mcp_access_lease ::
  "(string \<Rightarrow> 8 word list) \<Rightarrow> (mcp_access_lease_claims \<Rightarrow> string) \<Rightarrow> id \<Rightarrow> time \<Rightarrow> id \<Rightarrow> actor_ref \<Rightarrow> core_db
   \<Rightarrow> app_error + ((string \<times> mcp_access_lease_claims) \<times> core_db)" where
  "issue_mcp_access_lease mac claims_text lease_id now session_id actor_ref db =
     and_then (ensure (tool_is_visible_to_actor actor_ref) (Auth ''mcp_lease.actor_denied'')) (\<lambda>_.
     and_then (load_scoped_identity_for_session session_id db) (\<lambda>scope.
     and_then (ensure (sy_session_state scope \<noteq> SS_Stopped) (Auth ''mcp_lease.session_stopped'')) (\<lambda>_.
     (let lease = new_lease lease_id session_id actor_ref scope (next_credential_version session_id db) now;
          db1 = revoke_session_mcp_leases session_id ''rotated'' now db in
      and_then (ensure (lease_id \<notin> le_lease_id ` set (db_leases db1)) Database) (\<lambda>_.
      Inr ((lease_token mac claims_text (le_claims lease), le_claims lease), db1\<lparr>db_leases := db_leases db1 @ [lease]\<rparr>))))))"

datatype (plugins only: code size) tool_execution_error_code = TE_InvalidArguments | TE_PermissionDenied | TE_ApprovalRequired
  | TE_Unavailable | TE_SchemaChanged | TE_RateLimited | TE_RequestTooLarge | TE_ResultTooLarge | TE_Timeout | TE_Cancelled
  | TE_BackendFailed | TE_ToolhiveMissing | TE_NotAuthenticated | TE_ScopeMismatch | TE_LeaseExpired | TE_LeaseRevoked

definition app_tool_error :: "app_error \<Rightarrow> tool_execution_error_code" where
  "app_tool_error e = TE_BackendFailed"

definition validate_mcp_access_lease ::
  "(string \<Rightarrow> 8 word list) \<Rightarrow> (mcp_access_lease_claims \<Rightarrow> string) \<Rightarrow> time \<Rightarrow> string \<Rightarrow> core_db
   \<Rightarrow> tool_execution_error_code + mcp_access_lease_claims" where
  "validate_mcp_access_lease mac claims_text now token db =
     and_then (ok_or (split_once CHR ''.'' token) TE_NotAuthenticated) (\<lambda>(lease_id, signature_hex).
     and_then (ok_or (decode_hex signature_hex) TE_NotAuthenticated) (\<lambda>signature.
     and_then (ok_or (select_by le_lease_id lease_id (db_leases db)) TE_NotAuthenticated) (\<lambda>row.
     and_then (ensure (le_revoked_at row = None) TE_LeaseRevoked) (\<lambda>_.
     let claims = le_claims row in
     and_then (ensure (signature = mac (claims_text claims)) TE_NotAuthenticated) (\<lambda>_.
     and_then (ensure (lc_audience claims = UPRAVA_MCP_LEASE_AUDIENCE) TE_NotAuthenticated) (\<lambda>_.
     and_then (ensure (\<not> (le_expires_at row \<le> now \<or> lc_expires_at claims \<le> now)) TE_LeaseExpired) (\<lambda>_.
     and_then (ensure (lc_credential_version claims = word_of_int (le_credential_version row)) TE_LeaseRevoked) (\<lambda>_.
     and_then (map_sum app_tool_error id (load_scoped_identity_for_session (lc_session_thread_id claims) db)) (\<lambda>identity.
     and_then (ensure (\<not> (sy_node_id identity \<noteq> lc_node_id claims \<or> sy_placement_id identity \<noteq> lc_project_placement_id claims
        \<or> sy_project_id identity \<noteq> lc_project_id claims \<or> sy_session_state identity = SS_Stopped)) TE_ScopeMismatch) (\<lambda>_.
     Inr claims))))))))))"

section \<open>Hexadecimal round trip\<close>

lemma of_hex_digit: "n < 16 \<Longrightarrow> of_char (hex_digit n) = (if n < 10 then 48 + n else 87 + n)"
  by (simp add: hex_digit_def)

lemma hex_value_digit: "n < 16 \<Longrightarrow> hex_value (hex_digit n) = Some n"
  by (simp add: hex_value_def of_hex_digit)

lemma hex_digit_ascii: "n < 16 \<Longrightarrow> is_ascii (hex_digit n) \<and> hex_digit n \<noteq> CHR ''+''"
  using of_hex_digit[of n] by (auto simp: is_ascii_def split: if_splits)

lemma byte_digits: "unat (b :: 8 word) div 16 < 16" "unat b mod 16 < 16"
proof -
  have "unat b < 2 ^ LENGTH(8)" by (rule unsigned_less)
  then show "unat b div 16 < 16" "unat b mod 16 < 16" by simp_all
qed

lemma from_hex_pair_digits:
  "from_hex_pair (hex_digit (unat (b :: 8 word) div 16)) (hex_digit (unat b mod 16)) = Some b"
proof -
  note d = byte_digits[of b]
  have "of_nat (16 * (unat b div 16) + unat b mod 16) = b" unfolding mult_div_mod_eq by simp
  then show ?thesis using hex_digit_ascii[OF d(1)] by (simp add: from_hex_pair_def hex_value_digit d del: of_nat_add of_nat_mult)
qed

lemma encode_hex_pairs: "hex_pairs (encode_hex bs) = Some bs"
  by (induction bs) (simp_all add: encode_hex_def from_hex_pair_digits)

lemma encode_hex_shape: "list_all is_ascii (encode_hex bs) \<and> even (length (encode_hex bs))"
proof (induction bs)
  case (Cons b bs)
  show ?case using Cons hex_digit_ascii[OF byte_digits(1)] hex_digit_ascii[OF byte_digits(2)] by (simp add: encode_hex_def)
qed (simp add: encode_hex_def)

lemma decode_encode_hex: "decode_hex (encode_hex bs) = Some bs"
  using encode_hex_shape[of bs] by (simp add: decode_hex_def encode_hex_pairs)

lemma split_once_append: "d \<notin> set xs \<Longrightarrow> split_once d (xs @ d # ys) = Some (xs, ys)"
  by (induction xs) auto

section \<open>One live lease per session\<close>

definition lease_wf :: "lease_row \<Rightarrow> bool" where
  "lease_wf r \<longleftrightarrow> lc_session_thread_id (le_claims r) = le_session_thread_id r \<and> lc_lease_id (le_claims r) = le_lease_id r
     \<and> lc_expires_at (le_claims r) = le_expires_at r \<and> lc_audience (le_claims r) = UPRAVA_MCP_LEASE_AUDIENCE
     \<and> lc_credential_version (le_claims r) = word_of_int (le_credential_version r)"

definition live_leases :: "id \<Rightarrow> core_db \<Rightarrow> lease_row list" where
  "live_leases s db = filter (\<lambda>r. le_session_thread_id r = s \<and> le_revoked_at r = None) (db_leases db)"

definition lease_inv :: "core_db \<Rightarrow> bool" where
  "lease_inv db \<longleftrightarrow> unique_key le_lease_id (db_leases db) \<and> (\<forall>s. length (live_leases s db) \<le> 1) \<and> list_all lease_wf (db_leases db)"

lemma revoke_lease_simps [simp]:
  "le_lease_id (revoke_lease now why r) = le_lease_id r" "le_session_thread_id (revoke_lease now why r) = le_session_thread_id r"
  "le_claims (revoke_lease now why r) = le_claims r" "le_expires_at (revoke_lease now why r) = le_expires_at r"
  "le_credential_version (revoke_lease now why r) = le_credential_version r" "le_revoked_at (revoke_lease now why r) = Some now"
  by (simp_all add: revoke_lease_def)

lemma filter_update_le: "(\<And>r. q (f r) \<Longrightarrow> q r) \<Longrightarrow> length (filter q (update_where p f t)) \<le> length (filter q t)"
  by (induction t) auto

lemma lease_inv_update:
  assumes "lease_inv db"
  shows "lease_inv (db\<lparr>db_leases := update_where p (revoke_lease now why) (db_leases db)\<rparr>)"
proof -
  have "map le_lease_id (update_where p (revoke_lease now why) t) = map le_lease_id t" for t
    by (induction t) simp_all
  moreover have "list_all lease_wf t \<Longrightarrow> list_all lease_wf (update_where p (revoke_lease now why) t)" for t
    by (induction t) (simp_all add: lease_wf_def)
  moreover have "length (live_leases s (db\<lparr>db_leases := update_where p (revoke_lease now why) (db_leases db)\<rparr>)) \<le> length (live_leases s db)" for s
    unfolding live_leases_def by (auto intro!: filter_update_le)
  moreover have "length (live_leases s db) \<le> 1" for s using assms by (simp add: lease_inv_def)
  ultimately show ?thesis using assms unfolding lease_inv_def unique_key_def by (simp, metis order_trans)
qed

lemma lease_inv_revoke: "lease_inv db \<Longrightarrow> lease_inv (revoke_session_mcp_leases s why now db)"
  unfolding revoke_session_mcp_leases_def by (rule lease_inv_update)

lemma lease_inv_rotate: "lease_inv db \<Longrightarrow> lease_inv (revoke_all_mcp_leases_for_credential_rotation now db)"
  unfolding revoke_all_mcp_leases_for_credential_rotation_def by (rule lease_inv_update)

lemma live_leases_revoked: "live_leases s' (revoke_session_mcp_leases s why now db) = (if s' = s then [] else live_leases s' db)"
proof -
  have "filter (\<lambda>r. le_session_thread_id r = s' \<and> le_revoked_at r = None)
      (update_where (\<lambda>r. le_session_thread_id r = s \<and> le_revoked_at r = None) (revoke_lease now why) t)
    = (if s' = s then [] else filter (\<lambda>r. le_session_thread_id r = s' \<and> le_revoked_at r = None) t)" for t
    by (induction t) auto
  then show ?thesis by (simp add: live_leases_def revoke_session_mcp_leases_def)
qed

lemma issue_result:
  assumes "issue_mcp_access_lease mac ct lid now s a db = Inr ((token, claims), db')"
  obtains scope where "load_scoped_identity_for_session s db = Inr scope" "sy_session_state scope \<noteq> SS_Stopped"
    "tool_is_visible_to_actor a"
    "db' = (revoke_session_mcp_leases s ''rotated'' now db)\<lparr>db_leases :=
       db_leases (revoke_session_mcp_leases s ''rotated'' now db) @ [new_lease lid s a scope (next_credential_version s db) now]\<rparr>"
    "claims = le_claims (new_lease lid s a scope (next_credential_version s db) now)" "token = lease_token mac ct claims"
    "lid \<notin> le_lease_id ` set (db_leases (revoke_session_mcp_leases s ''rotated'' now db))"
  using assms by (auto simp: issue_mcp_access_lease_def result_simps Let_def)

lemma new_lease_simps [simp]:
  "le_lease_id (new_lease l s a sc v now) = l" "le_session_thread_id (new_lease l s a sc v now) = s"
  "le_revoked_at (new_lease l s a sc v now) = None" "le_credential_version (new_lease l s a sc v now) = v"
  "le_expires_at (new_lease l s a sc v now) = now + 600000000000"
  "le_claims (new_lease l s a sc v now) = \<lparr>lc_lease_id = l, lc_audience = UPRAVA_MCP_LEASE_AUDIENCE, lc_actor_ref = a,
     lc_session_thread_id = s, lc_project_id = sy_project_id sc, lc_project_placement_id = sy_placement_id sc,
     lc_node_id = sy_node_id sc, lc_issued_at = now, lc_expires_at = now + 600000000000, lc_credential_version = word_of_int v\<rparr>"
  by (simp_all add: new_lease_def MCP_LEASE_TTL_MINUTES_def Let_def)

lemma lease_inv_issue:
  assumes "lease_inv db" "issue_mcp_access_lease mac ct lid now s a db = Inr (x, db')"
  shows "lease_inv db'"
proof -
  obtain token claims where x: "x = (token, claims)" by (cases x)
  obtain scope where d: "db' = (revoke_session_mcp_leases s ''rotated'' now db)\<lparr>db_leases :=
       db_leases (revoke_session_mcp_leases s ''rotated'' now db) @ [new_lease lid s a scope (next_credential_version s db) now]\<rparr>"
    and n: "lid \<notin> le_lease_id ` set (db_leases (revoke_session_mcp_leases s ''rotated'' now db))"
    using issue_result[OF assms(2)[unfolded x]] by metis
  let ?db = "revoke_session_mcp_leases s ''rotated'' now db"
  have i: "lease_inv ?db" by (rule lease_inv_revoke[OF assms(1)])
  have "live_leases s' db' = live_leases s' ?db @ (if s' = s then [new_lease lid s a scope (next_credential_version s db) now] else [])" for s'
    unfolding d live_leases_def by simp
  moreover have "length (live_leases s' db) \<le> 1" for s' using assms(1) by (simp add: lease_inv_def)
  ultimately have "length (live_leases s' db') \<le> 1" for s' by (simp add: live_leases_revoked)
  then show ?thesis using i n unfolding lease_inv_def by (auto simp: d unique_key_def lease_wf_def)
qed

text \<open>What an accepted token has behind it.\<close>

lemma scoped_identity_Inr:
  "load_scoped_identity_for_session s db = Inr sc \<longleftrightarrow> (\<exists>r p. find_session db s = Some r
     \<and> find_placement db (st_project_placement_id r) = Some p \<and> sc = \<lparr>sy_node_id = pl_node_id p,
       sy_project_id = pl_project_id p, sy_placement_id = pl_project_placement_id p, sy_session_state = st_state r\<rparr>)"
  by (auto simp: load_scoped_identity_for_session_def result_simps bind_eq_Some_conv)

lemma map_sum_Inr_id [simp]: "map_sum f id x = Inr y \<longleftrightarrow> x = Inr y"
  by (cases x) auto

lemma lease_validated_iff:
  "validate_mcp_access_lease mac ct now token db = Inr claims \<longleftrightarrow>
     (\<exists>lid hex row sc. split_once CHR ''.'' token = Some (lid, hex) \<and> select_by le_lease_id lid (db_leases db) = Some row
       \<and> claims = le_claims row \<and> decode_hex hex = Some (mac (ct claims)) \<and> le_revoked_at row = None
       \<and> lc_audience claims = UPRAVA_MCP_LEASE_AUDIENCE \<and> now < le_expires_at row \<and> now < lc_expires_at claims
       \<and> lc_credential_version claims = word_of_int (le_credential_version row)
       \<and> load_scoped_identity_for_session (lc_session_thread_id claims) db = Inr sc \<and> sy_session_state sc \<noteq> SS_Stopped
       \<and> sy_node_id sc = lc_node_id claims \<and> sy_placement_id sc = lc_project_placement_id claims
       \<and> sy_project_id sc = lc_project_id claims)"
  by (auto simp: validate_mcp_access_lease_def result_simps Let_def not_le)

text \<open>A freshly issued lease is accepted until it expires.\<close>

lemma issued_validates:
  assumes "issue_mcp_access_lease mac ct lid now s a db = Inr ((token, claims), db')" "CHR ''.'' \<notin> set lid"
    "t < now + 600000000000"
  shows "validate_mcp_access_lease mac ct t token db' = Inr claims"
proof -
  obtain sc where sc: "load_scoped_identity_for_session s db = Inr sc" "sy_session_state sc \<noteq> SS_Stopped"
    and d: "db' = (revoke_session_mcp_leases s ''rotated'' now db)\<lparr>db_leases :=
       db_leases (revoke_session_mcp_leases s ''rotated'' now db) @ [new_lease lid s a sc (next_credential_version s db) now]\<rparr>"
    and c: "claims = le_claims (new_lease lid s a sc (next_credential_version s db) now)" and tk: "token = lease_token mac ct claims"
    and n: "lid \<notin> le_lease_id ` set (db_leases (revoke_session_mcp_leases s ''rotated'' now db))"
    using issue_result[OF assms(1)] by metis
  have "select_by le_lease_id lid (db_leases (revoke_session_mcp_leases s ''rotated'' now db)) = None"
    using n by (simp add: select_by_None_iff)
  then have r: "select_by le_lease_id lid (db_leases db') = Some (new_lease lid s a sc (next_credential_version s db) now)"
    unfolding d by (simp add: select_by_append)
  have "split_once CHR ''.'' token = Some (lid, encode_hex (mac (ct claims)))"
    using split_once_append[OF assms(2)] by (simp add: tk lease_token_def c)
  moreover have "load_scoped_identity_for_session s db' = Inr sc"
    using sc(1) by (simp add: d load_scoped_identity_for_session_def revoke_session_mcp_leases_def)
  ultimately show ?thesis unfolding lease_validated_iff
    using r sc(2) assms(3) by (auto simp: c decode_encode_hex)
qed

text \<open>A token of a session whose leases were revoked is refused.\<close>

lemma revoked_refused_lease:
  assumes "lease_inv db" "live_leases s db = []" "validate_mcp_access_lease mac ct now token db = Inr claims"
  shows "lc_session_thread_id claims \<noteq> s"
proof
  assume s: "lc_session_thread_id claims = s"
  obtain lid row where r: "select_by le_lease_id lid (db_leases db) = Some row" "claims = le_claims row" "le_revoked_at row = None"
    using assms(3) unfolding lease_validated_iff by blast
  then have "row \<in> set (db_leases db)" using select_by_Some_key by metis
  moreover from this have "le_session_thread_id row = s" using assms(1) s r(2) by (auto simp: lease_inv_def list_all_iff lease_wf_def)
  ultimately have "row \<in> set (live_leases s db)" using r(3) by (simp add: live_leases_def)
  then show False using assms(2) by simp
qed

text \<open>After a rotation only the new token of the session is accepted.\<close>

lemma only_newest_lease:
  assumes "lease_inv db" "issue_mcp_access_lease mac ct lid now s a db = Inr ((token, claims), db')"
    "validate_mcp_access_lease mac ct t token' db' = Inr claims'" "lc_session_thread_id claims' = s"
  shows "claims' = claims"
proof -
  have i: "lease_inv db'" by (rule lease_inv_issue[OF assms(1,2)])
  obtain sc where d: "db' = (revoke_session_mcp_leases s ''rotated'' now db)\<lparr>db_leases :=
       db_leases (revoke_session_mcp_leases s ''rotated'' now db) @ [new_lease lid s a sc (next_credential_version s db) now]\<rparr>"
    and c: "claims = le_claims (new_lease lid s a sc (next_credential_version s db) now)"
    using issue_result[OF assms(2)] by metis
  have l: "live_leases s db' = [new_lease lid s a sc (next_credential_version s db) now]"
    using live_leases_revoked[of s s "''rotated''" now db] unfolding d live_leases_def by simp
  obtain lid' row where r: "select_by le_lease_id lid' (db_leases db') = Some row" "claims' = le_claims row" "le_revoked_at row = None"
    using assms(3) unfolding lease_validated_iff by blast
  then have m: "row \<in> set (db_leases db')" using select_by_Some_key by metis
  then have "le_session_thread_id row = s" using i assms(4) r(2) by (auto simp: lease_inv_def list_all_iff lease_wf_def)
  then have "row \<in> set (live_leases s db')" using m r(3) by (simp add: live_leases_def)
  then show ?thesis using l r(2) c by simp
qed

end
