(* ===== verification/Runtime_Commands.thy ===== *)
theory Runtime_Commands
  imports Sessions Mcp_Leases
begin

text \<open>
  The requests that command a session's runtime (\<open>application/coordination.rs\<close>): interrupt,
  stop and resume, the answer to an approval, and the acknowledgement of a warning.
\<close>

section \<open>Lifecycle\<close>

definition find_session_for_runtime :: "id \<Rightarrow> core_db \<Rightarrow> app_error + id" where
  "find_session_for_runtime runtime_id db =
     ok_or (map_option rt_session_thread_id (find_runtime db runtime_id)) (NotFound ''runtime.not_found'')"

definition runtime_provider_resume_ref_json :: "id \<Rightarrow> core_db \<Rightarrow> json option" where
  "runtime_provider_resume_ref_json runtime_id db =
     Option.bind (find_runtime db runtime_id) (\<lambda>r. case rt_provider_resume_ref r of
        None \<Rightarrow> None | Some v \<Rightarrow> if v = JNull then None else Some v)"

definition lifecycle_command_payload :: "session_detail \<Rightarrow> command_kind \<Rightarrow> core_db \<Rightarrow> app_error + command_payload" where
  "lifecycle_command_payload detail kind db =
     (if kind = CK_InterruptRuntime then Inr CP_InterruptRuntime
      else if kind = CK_StopRuntime then Inr CP_StopRuntime
      else if kind \<noteq> CK_ResumeRuntime then Inl (BadRequest ''runtime.command_kind_invalid'')
      else Inr (CP_ResumeRuntime (rs_provider (sd_runtime detail)) (ps_workspace_path (sd_placement detail))
        (runtime_provider_resume_ref_json (rs_runtime_session_id (sd_runtime detail)) db)))"

definition runtime_command ::
  "session_ids \<Rightarrow> session_detail \<Rightarrow> id \<Rightarrow> id \<Rightarrow> command_kind \<Rightarrow> uprava_ref list \<Rightarrow> uprava_ref list \<Rightarrow> command_payload
   \<Rightarrow> time \<Rightarrow> command_envelope" where
  "runtime_command ids detail session_id runtime_id kind sources causes payload now =
     \<lparr>ce_command_id = si_command ids, ce_kind = kind,
      ce_target = CT_SessionRuntime (ps_node_id (sd_placement detail)) (ps_project_placement_id (sd_placement detail))
        session_id runtime_id,
      ce_actor_ref = AR_LocalUser None, ce_source_refs = sources, ce_cause_refs = causes, ce_issued_at = now,
      ce_correlation_id = si_correlation ids, ce_payload = payload\<rparr>"

definition lifecycle_command ::
  "session_env \<Rightarrow> session_ids \<Rightarrow> id \<Rightarrow> command_kind \<Rightarrow> (id \<times> session_detail) handler" where
  "lifecycle_command env ids runtime_id kind =
     h_bind (h_check (\<lambda>st. find_session_for_runtime runtime_id (co_db st))) (\<lambda>session_id.
     h_bind (load_session_detail env session_id) (\<lambda>detail.
     h_bind (h_check (\<lambda>st. ensure_session_commandable (se_cfg env) detail kind (se_now env) (co_db st))) (\<lambda>_.
     h_bind (h_check (\<lambda>st. lifecycle_command_payload detail kind (co_db st))) (\<lambda>payload.
     h_bind (h_run (record_and_dispatch_command (se_frame_id env) (se_now env)
        (runtime_command ids detail session_id runtime_id kind [] [] payload (se_now env)))) (\<lambda>_.
     h_bind (if kind = CK_StopRuntime
        then h_txn (\<lambda>db. Inr (revoke_session_mcp_leases session_id ''session_stop_requested'' (se_now env) db))
        else h_ok ()) (\<lambda>_.
     h_bind (load_session_detail env session_id) (\<lambda>session. h_ok (si_command ids, session))))))))"

section \<open>Approvals\<close>

definition resolve_approval_with_correlation ::
  "session_env \<Rightarrow> session_ids \<Rightarrow> id \<Rightarrow> id \<Rightarrow> bool \<Rightarrow> string option \<Rightarrow> (id \<times> session_detail) handler" where
  "resolve_approval_with_correlation env ids session_id approval_id approved message =
     h_bind (load_session_detail env session_id) (\<lambda>detail.
     h_bind (h_check (\<lambda>_. ensure_pending_approval detail approval_id)) (\<lambda>_.
     h_bind (h_check (\<lambda>st. ensure_session_commandable (se_cfg env) detail CK_ResolveApproval (se_now env) (co_db st))) (\<lambda>_.
     h_bind (h_run (record_and_dispatch_command (se_frame_id env) (se_now env)
        (runtime_command ids detail session_id (rs_runtime_session_id (sd_runtime detail)) CK_ResolveApproval
          [UR_Approval approval_id] [UR_Session session_id] (CP_ResolveApproval approval_id approved message) (se_now env)))) (\<lambda>_.
     h_bind (load_session_detail env session_id) (\<lambda>session. h_ok (si_command ids, session))))))"

section \<open>Warnings\<close>

definition acknowledged_warning_kinds :: "id \<Rightarrow> core_db \<Rightarrow> string set" where
  "acknowledged_warning_kinds session_id db =
     wa_warning_kind ` set (filter (\<lambda>w. wa_session_thread_id w = session_id) (db_warning_acks db))"

definition active_warnings :: "placement_summary \<Rightarrow> runtime_summary \<Rightarrow> string set \<Rightarrow> resource_badge list" where
  "active_warnings placement runtime acknowledged =
     filter (\<lambda>b. rb_kind b \<notin> acknowledged) (filter (\<lambda>b. rb_severity b \<noteq> WS_Info) (ps_resource_badges placement))
     @ (case rs_degraded_reason runtime of None \<Rightarrow> []
        | Some reason \<Rightarrow> if ''runtime_degraded'' \<notin> acknowledged
            then [\<lparr>rb_kind = ''runtime_degraded'', rb_severity = WS_Warning, rb_label = reason\<rparr>] else [])"

definition warning_event ::
  "session_env \<Rightarrow> session_ids \<Rightarrow> session_detail \<Rightarrow> string \<Rightarrow> string option \<Rightarrow> core_db \<Rightarrow> event_envelope" where
  "warning_event env ids detail kind message db =
     (let session_id = ss_session_thread_id (sd_session detail);
          affected = [UR_Warning kind None, UR_Session session_id, UR_Placement (ps_project_placement_id (sd_placement detail))]
      in \<lparr>ev_event_id = se_event_id env session_id, ev_command_id = None, ev_correlation_id = Some (si_correlation ids),
        ev_actor_ref = AR_LocalUser None, ev_scope_ref = SR_Session session_id,
        ev_node_id = Some (ps_node_id (sd_placement detail)),
        ev_runtime_session_id = Some (rs_runtime_session_id (sd_runtime detail)), ev_session_thread_id = Some session_id,
        ev_turn_id = None, ev_seq = next_seq (scope_key (SR_Session session_id)) db,
        ev_session_projection_seq = Some (next_session_projection_seq session_id db),
        ev_kind = EK_CoordinationWarningAcknowledged, ev_happened_at = se_now env,
        ev_source_refs = [UR_Warning kind None], ev_evidence_refs = [], ev_cause_refs = [], ev_result_refs = affected,
        ev_payload = EP_CoordinationWarningAcknowledged kind message affected\<rparr>)"

definition insert_warning_ack :: "event_envelope \<Rightarrow> id \<Rightarrow> string \<Rightarrow> core_db \<Rightarrow> app_error + core_db" where
  "insert_warning_ack event session_id kind db =
     and_then (ensure (list_all (\<lambda>w. wa_event_id w \<noteq> ev_event_id event) (db_warning_acks db)
        \<and> find_session db session_id \<noteq> None) Database) (\<lambda>_.
     Inr (db\<lparr>db_warning_acks := db_warning_acks db @ [\<lparr>wa_event_id = ev_event_id event, wa_session_thread_id = session_id,
        wa_actor_ref = ev_actor_ref event, wa_warning_kind = kind, wa_affected_refs = ev_result_refs event,
        wa_acknowledged_at = ev_happened_at event\<rparr>]\<rparr>))"

text \<open>The transaction: the event is stored as projected, beside the acknowledgement it records.\<close>

definition record_warning_acknowledgement ::
  "session_env \<Rightarrow> session_ids \<Rightarrow> session_detail \<Rightarrow> string \<Rightarrow> string option \<Rightarrow> event_envelope handler" where
  "record_warning_acknowledgement env ids detail kind message =
     h_bind (h_check (\<lambda>st. Inr (warning_event env ids detail kind message (co_db st)))) (\<lambda>event.
     h_bind (h_txn (\<lambda>db.
        and_then (insert_event_record (scope_key (ev_scope_ref event)) event
           (upsert_actor (ev_actor_ref event) (ev_happened_at event) db)) (\<lambda>db1.
        and_then (insert_warning_ack event (ss_session_thread_id (sd_session detail)) kind db1)
          (complete_event_projection (se_message_id env (ev_event_id event)) event)))) (\<lambda>_.
     h_bind (h_modify (drain_event_publication_outbox (se_has_receivers env) (se_now env))) (\<lambda>_. h_ok event)))"

definition acknowledge_warning_with_correlation ::
  "session_env \<Rightarrow> session_ids \<Rightarrow> id \<Rightarrow> string \<Rightarrow> string option \<Rightarrow> (id \<times> session_detail) handler" where
  "acknowledge_warning_with_correlation env ids session_id kind message =
     h_bind (h_check (\<lambda>_. ensure (trim kind \<noteq> []) (BadRequest ''validation.warning_kind_required''))) (\<lambda>_.
     h_bind (load_session_detail env session_id) (\<lambda>detail.
     h_bind (h_check (\<lambda>st. ensure (kind \<in> rb_kind ` set (active_warnings (sd_placement detail) (sd_runtime detail)
        (acknowledged_warning_kinds session_id (co_db st)))) (BadRequest ''warning.not_active''))) (\<lambda>_.
     h_bind (record_warning_acknowledgement env ids detail kind message) (\<lambda>event.
     h_bind (load_session_detail env session_id) (\<lambda>session. h_ok (ev_event_id event, session))))))"

section \<open>Acknowledged warnings are silent\<close>

lemma active_not_acknowledged: "b \<in> set (active_warnings p r A) \<Longrightarrow> rb_kind b \<notin> A"
  by (auto simp: active_warnings_def split: option.splits if_splits)

lemma acknowledged_insert:
  "insert_warning_ack e s k db = Inr db' \<Longrightarrow> acknowledged_warning_kinds s db' = insert k (acknowledged_warning_kinds s db)"
  by (auto simp: insert_warning_ack_def acknowledged_warning_kinds_def result_simps simp del: set_filter)

end
