(* ===== verification/Scheduling.thy ===== *)
theory Scheduling
  imports Runtime_Commands
begin

text \<open>
  Scheduled messages and background jobs (\<open>application/scheduling.rs\<close>): the requests that
  create, change, cancel and send them, the ticks of the two background tasks, and the driver
  that takes a job run from its queue to a terminal state.

  A request or tick sees one instant, \<open>se_now\<close>. Fresh ids are functions of the row they are
  drawn for. Time zones and calendar dates are those of the crate \<open>jiff\<close>, an argument
  (\<open>calendar\<close>): a civil date is the number of its day.
\<close>

record sched_env =
  sc_env :: session_env
  sc_ids :: "id \<Rightarrow> session_ids"
  sc_turn_id :: "id \<Rightarrow> id"
  sc_message_id :: "id \<Rightarrow> id"
  sc_run_id :: "id \<Rightarrow> id"
  sc_error_text :: "app_error \<Rightarrow> string"

abbreviation sc_now :: "sched_env \<Rightarrow> time" where
  "sc_now env \<equiv> se_now (sc_env env)"

definition h_match :: "('s, 'a) stateful \<Rightarrow> ('a \<Rightarrow> ('s, 'b) stateful) \<Rightarrow> (app_error \<Rightarrow> ('s, 'b) stateful) \<Rightarrow> ('s, 'b) stateful" where
  "h_match f ok err st = (case f st of (Inl e, st') \<Rightarrow> err e st' | (Inr x, st') \<Rightarrow> ok x st')"

fun h_each :: "('a \<Rightarrow> ('s, unit) stateful) \<Rightarrow> 'a list \<Rightarrow> ('s, unit) stateful" where
  "h_each f [] = h_ok ()"
| "h_each f (x # xs) = h_bind (f x) (\<lambda>_. h_each f xs)"

definition h_write :: "(core_db \<Rightarrow> core_db) \<Rightarrow> unit handler" where
  "h_write f = h_modify (\<lambda>st. st\<lparr>co_db := f (co_db st)\<rparr>)"

section \<open>Scheduled messages\<close>

definition MAX_SCHEDULED_MESSAGE_CONTENT_CHARS :: nat where
  "MAX_SCHEDULED_MESSAGE_CONTENT_CHARS = 65536"

definition MAX_SCHEDULED_MESSAGE_TIMEZONE_CHARS :: nat where
  "MAX_SCHEDULED_MESSAGE_TIMEZONE_CHARS = 100"

definition timezone_char :: "char \<Rightarrow> bool" where
  "timezone_char c \<longleftrightarrow> is_ascii_alphanumeric c \<or> c \<in> {CHR ''/'', CHR ''_'', CHR ''-'', CHR ''+''}"

definition validate_scheduled_message_input :: "string \<Rightarrow> time \<Rightarrow> string \<Rightarrow> time \<Rightarrow> app_error + unit" where
  "validate_scheduled_message_input content due_at timezone now =
     and_then (ensure (trim content \<noteq> []) (BadRequest ''validation.empty_scheduled_message'')) (\<lambda>_.
     and_then (ensure (length content \<le> MAX_SCHEDULED_MESSAGE_CONTENT_CHARS)
        (BadRequest ''validation.scheduled_message_too_large'')) (\<lambda>_.
     and_then (ensure (now < due_at) (BadRequest ''validation.scheduled_message_not_future'')) (\<lambda>_.
     let tz = trim timezone in
     ensure (\<not> (tz = [] \<or> length tz > MAX_SCHEDULED_MESSAGE_TIMEZONE_CHARS \<or> \<not> list_all timezone_char tz))
       (BadRequest ''validation.scheduled_message_timezone''))))"

definition update_scheduled :: "(scheduled_message_row \<Rightarrow> bool) \<Rightarrow> (scheduled_message_row \<Rightarrow> scheduled_message_row) \<Rightarrow> core_db \<Rightarrow> core_db" where
  "update_scheduled p f db = db\<lparr>db_scheduled_messages := update_where p f (db_scheduled_messages db)\<rparr>"

definition new_scheduled_message :: "id \<Rightarrow> id \<Rightarrow> string \<Rightarrow> time \<Rightarrow> string \<Rightarrow> time \<Rightarrow> scheduled_message_row" where
  "new_scheduled_message message_id session_id content due_at timezone now =
     \<lparr>sm_scheduled_message_id = message_id, sm_session_thread_id = session_id, sm_content = trim content,
      sm_due_at = due_at, sm_timezone = trim timezone, sm_state = SM_Scheduled, sm_created_at = now, sm_updated_at = now,
      sm_sending_at = None, sm_sent_at = None, sm_cancelled_at = None, sm_command_id = None, sm_turn_id = None,
      sm_failure_code = None, sm_failure_message = None\<rparr>"

definition insert_scheduled_message :: "scheduled_message_row \<Rightarrow> core_db \<Rightarrow> app_error + core_db" where
  "insert_scheduled_message row db =
     and_then (ensure (sm_scheduled_message_id row \<notin> sm_scheduled_message_id ` set (db_scheduled_messages db)
        \<and> find_session db (sm_session_thread_id row) \<noteq> None) Database) (\<lambda>_.
     Inr (db\<lparr>db_scheduled_messages := db_scheduled_messages db @ [row]\<rparr>))"

definition create_scheduled_message_route ::
  "sched_env \<Rightarrow> id \<Rightarrow> id \<Rightarrow> string \<Rightarrow> time \<Rightarrow> string \<Rightarrow> scheduled_session_message handler" where
  "create_scheduled_message_route env message_id session_id content due_at timezone =
     h_bind (load_session_detail (sc_env env) session_id) (\<lambda>_.
     h_bind (h_check (\<lambda>_. validate_scheduled_message_input content due_at timezone (sc_now env))) (\<lambda>_.
     h_bind (h_txn (insert_scheduled_message
        (new_scheduled_message message_id session_id content due_at timezone (sc_now env)))) (\<lambda>_.
     h_check (\<lambda>st. load_scheduled_message session_id message_id (co_db st)))))"

definition reschedule :: "string \<Rightarrow> time \<Rightarrow> string \<Rightarrow> time \<Rightarrow> scheduled_message_row \<Rightarrow> scheduled_message_row" where
  "reschedule content due_at timezone now r = r\<lparr>sm_content := trim content, sm_due_at := due_at, sm_timezone := trim timezone,
     sm_state := SM_Scheduled, sm_updated_at := now, sm_sending_at := None, sm_sent_at := None, sm_cancelled_at := None,
     sm_command_id := None, sm_turn_id := None, sm_failure_code := None, sm_failure_message := None\<rparr>"

definition update_scheduled_message_route ::
  "sched_env \<Rightarrow> id \<Rightarrow> id \<Rightarrow> string option \<Rightarrow> time option \<Rightarrow> string option \<Rightarrow> scheduled_session_message handler" where
  "update_scheduled_message_route env session_id message_id content0 due0 timezone0 =
     h_bind (h_check (\<lambda>st. load_scheduled_message session_id message_id (co_db st))) (\<lambda>existing.
     h_bind (h_check (\<lambda>_. ensure (sx_state existing = SM_Scheduled \<or> sx_state existing = SM_Failed)
        (BadRequest ''scheduled_message.not_editable''))) (\<lambda>_.
     let content = (case content0 of Some c \<Rightarrow> c | None \<Rightarrow> sx_content existing);
         due_at = (case due0 of Some d \<Rightarrow> d | None \<Rightarrow> sx_due_at existing);
         timezone = (case timezone0 of Some z \<Rightarrow> z | None \<Rightarrow> sx_timezone existing) in
     h_bind (h_check (\<lambda>_. validate_scheduled_message_input content due_at timezone (sc_now env))) (\<lambda>_.
     h_bind (h_write (update_scheduled (\<lambda>r. scheduled_row_is session_id message_id r
        \<and> (sm_state r = SM_Scheduled \<or> sm_state r = SM_Failed)) (reschedule content due_at timezone (sc_now env)))) (\<lambda>_.
     h_check (\<lambda>st. load_scheduled_message session_id message_id (co_db st))))))"

definition cancel_scheduled_message_route :: "sched_env \<Rightarrow> id \<Rightarrow> id \<Rightarrow> scheduled_session_message handler" where
  "cancel_scheduled_message_route env session_id message_id =
     (let p = (\<lambda>r. scheduled_row_is session_id message_id r \<and> sm_state r = SM_Scheduled) in
      h_bind (h_check (\<lambda>st. Inr (rows_affected p (db_scheduled_messages (co_db st))))) (\<lambda>n.
      h_bind (h_write (update_scheduled p (\<lambda>r. r\<lparr>sm_state := SM_Cancelled, sm_cancelled_at := Some (sc_now env),
         sm_updated_at := sc_now env\<rparr>))) (\<lambda>_.
      h_bind (h_check (\<lambda>_. ensure (n \<noteq> 0) (BadRequest ''scheduled_message.not_cancellable''))) (\<lambda>_.
      h_check (\<lambda>st. load_scheduled_message session_id message_id (co_db st))))))"

definition claim_scheduled_message :: "sched_env \<Rightarrow> id \<Rightarrow> id \<Rightarrow> scheduled_message_state \<Rightarrow> unit handler" where
  "claim_scheduled_message env session_id message_id expected =
     (let p = (\<lambda>r. scheduled_row_is session_id message_id r \<and> sm_state r = expected) in
      h_bind (h_check (\<lambda>st. Inr (rows_affected p (db_scheduled_messages (co_db st))))) (\<lambda>n.
      h_bind (h_write (update_scheduled p (\<lambda>r. r\<lparr>sm_state := SM_Sending, sm_sending_at := Some (sc_now env),
         sm_updated_at := sc_now env, sm_failure_code := None, sm_failure_message := None\<rparr>))) (\<lambda>_.
      h_check (\<lambda>_. ensure (n = 1) (BadRequest ''scheduled_message.not_sendable'')))))"

definition scheduled_message_failure_of :: "(app_error \<Rightarrow> string) \<Rightarrow> app_error \<Rightarrow> string \<times> string" where
  "scheduled_message_failure_of text e = (error_code e, case e of
     Database \<Rightarrow> ''Core database operation failed'' | Serialization \<Rightarrow> ''Core serialization failed''
   | Io \<Rightarrow> ''Core IO operation failed'' | TaskJoin \<Rightarrow> ''Core background task failed'' | _ \<Rightarrow> text e)"

definition submit_turn_with_correlation :: "sched_env \<Rightarrow> id \<Rightarrow> id \<Rightarrow> string \<Rightarrow> (id \<times> session_detail) handler" where
  "submit_turn_with_correlation env key session_id content =
     submit_turn_for_actor (sc_env env) (sc_ids env key) (sc_turn_id env key) (sc_message_id env key) session_id content
       (AR_LocalUser None)"

definition turn_of_command :: "id \<Rightarrow> core_db \<Rightarrow> id option" where
  "turn_of_command command_id db = map_option tn_turn_id (find (\<lambda>t. tn_command_id t = command_id) (db_turns db))"

definition mark_sent :: "sched_env \<Rightarrow> id \<Rightarrow> id \<Rightarrow> id \<Rightarrow> unit handler" where
  "mark_sent env session_id message_id command_id =
     h_write (\<lambda>db. update_scheduled (\<lambda>r. scheduled_row_is session_id message_id r \<and> sm_state r = SM_Sending)
       (\<lambda>r. r\<lparr>sm_state := SM_Sent, sm_sent_at := Some (sc_now env), sm_updated_at := sc_now env,
          sm_command_id := Some command_id, sm_turn_id := turn_of_command command_id db\<rparr>) db)"

definition mark_failed :: "sched_env \<Rightarrow> id \<Rightarrow> id \<Rightarrow> app_error \<Rightarrow> unit handler" where
  "mark_failed env session_id message_id e = (case scheduled_message_failure_of (sc_error_text env) e of (code, message) \<Rightarrow>
     h_write (update_scheduled (\<lambda>r. scheduled_row_is session_id message_id r \<and> sm_state r = SM_Sending)
       (\<lambda>r. r\<lparr>sm_state := SM_Failed, sm_updated_at := sc_now env, sm_failure_code := Some code,
          sm_failure_message := Some message\<rparr>)))"

definition dispatch_scheduled_message :: "sched_env \<Rightarrow> id \<Rightarrow> id \<Rightarrow> unit handler" where
  "dispatch_scheduled_message env session_id message_id =
     h_bind (h_check (\<lambda>st. load_scheduled_message session_id message_id (co_db st))) (\<lambda>scheduled.
     if sx_state scheduled \<noteq> SM_Sending then h_ok ()
     else h_match (submit_turn_with_correlation env message_id session_id (sx_content scheduled))
       (\<lambda>(command_id, _). mark_sent env session_id message_id command_id)
       (mark_failed env session_id message_id))"

definition send_scheduled_message ::
  "sched_env \<Rightarrow> scheduled_message_state \<Rightarrow> id \<Rightarrow> id \<Rightarrow> scheduled_session_message handler" where
  "send_scheduled_message env expected session_id message_id =
     h_bind (claim_scheduled_message env session_id message_id expected) (\<lambda>_.
     h_bind (dispatch_scheduled_message env session_id message_id) (\<lambda>_.
     h_check (\<lambda>st. load_scheduled_message session_id message_id (co_db st))))"

definition send_scheduled_message_now_route :: "sched_env \<Rightarrow> id \<Rightarrow> id \<Rightarrow> scheduled_session_message handler" where
  "send_scheduled_message_now_route env = send_scheduled_message env SM_Scheduled"

definition retry_scheduled_message_route :: "sched_env \<Rightarrow> id \<Rightarrow> id \<Rightarrow> scheduled_session_message handler" where
  "retry_scheduled_message_route env = send_scheduled_message env SM_Failed"

definition due_scheduled_messages :: "time \<Rightarrow> core_db \<Rightarrow> (id \<times> id) list" where
  "due_scheduled_messages now db = map (\<lambda>r. (sm_scheduled_message_id r, sm_session_thread_id r))
     (sort_key (\<lambda>r. (sm_due_at r, sm_scheduled_message_id r))
       (filter (\<lambda>r. sm_state r = SM_Scheduled \<and> sm_due_at r \<le> now) (db_scheduled_messages db)))"

definition dispatch_due_scheduled_messages :: "sched_env \<Rightarrow> unit handler" where
  "dispatch_due_scheduled_messages env =
     h_bind (h_check (\<lambda>st. Inr (due_scheduled_messages (sc_now env) (co_db st)))) (h_each (\<lambda>(message_id, session_id).
       h_match (claim_scheduled_message env session_id message_id SM_Scheduled)
         (\<lambda>_. dispatch_scheduled_message env session_id message_id) (\<lambda>_. h_ok ())))"

definition recover_interrupted_scheduled_messages :: "time \<Rightarrow> core_db \<Rightarrow> core_db" where
  "recover_interrupted_scheduled_messages now = update_scheduled (\<lambda>r. sm_state r = SM_Sending)
     (\<lambda>r. r\<lparr>sm_state := SM_Failed, sm_updated_at := now,
        sm_failure_code := Some ''scheduled_message.dispatch_interrupted'',
        sm_failure_message := Some ''Core restarted while this delayed message was being dispatched; retry or reschedule it explicitly''\<rparr>)"

end
