(* ===== verification/Jobs.thy ===== *)
theory Jobs
  imports Scheduling
begin

text \<open>
  Background jobs (\<open>application/scheduling.rs\<close>): their schedules, the runs they queue, and
  the driver that starts a runtime for a run, submits its prompt and records how it ended.
\<close>

section \<open>Schedules\<close>

definition MAX_JOB_NAME_CHARS :: nat where
  "MAX_JOB_NAME_CHARS = 200"

definition MAX_JOB_PROMPT_CHARS :: nat where
  "MAX_JOB_PROMPT_CHARS = 65536"

definition MAX_JOB_TIMEZONE_CHARS :: nat where
  "MAX_JOB_TIMEZONE_CHARS = 100"

text \<open>What \<open>jiff\<close> and \<open>chrono\<close> contribute: the zone database, conversions, and their ranges.\<close>

record calendar =
  ca_known :: "string \<Rightarrow> bool"
  ca_add_minutes :: "time \<Rightarrow> nat \<Rightarrow> time option"
  ca_timestamp :: "time \<Rightarrow> time option"
  ca_date :: "string \<Rightarrow> time \<Rightarrow> int option"
  ca_weekday :: "int \<Rightarrow> nat"
  ca_at :: "string \<Rightarrow> int \<Rightarrow> nat \<Rightarrow> nat \<Rightarrow> time option"
  ca_tomorrow :: "int \<Rightarrow> int option"
  ca_to_utc :: "time \<Rightarrow> time option"

definition validate_job_timezone :: "calendar \<Rightarrow> string \<Rightarrow> app_error + unit" where
  "validate_job_timezone cal timezone = (let tz = trim timezone in
     and_then (ensure (\<not> (tz = [] \<or> length tz > MAX_JOB_TIMEZONE_CHARS)) (BadRequest ''validation.job_timezone'')) (\<lambda>_.
     ensure (ca_known cal tz) (BadRequest ''validation.job_timezone'')))"

definition validate_job_schedule :: "job_schedule option \<Rightarrow> app_error + unit" where
  "validate_job_schedule schedule = (case schedule of
     Some (JS_Interval minutes) \<Rightarrow> ensure (minutes \<noteq> 0) (BadRequest ''validation.job_interval'')
   | Some (JS_Daily hour minute) \<Rightarrow> ensure (\<not> (hour > 23 \<or> minute > 59)) (BadRequest ''validation.job_schedule_time'')
   | Some (JS_Weekly weekday hour minute) \<Rightarrow>
       ensure (\<not> (\<not> (1 \<le> weekday \<and> weekday \<le> 7) \<or> hour > 23 \<or> minute > 59)) (BadRequest ''validation.job_schedule_time'')
   | None \<Rightarrow> Inr ())"

definition validate_job_input ::
  "calendar \<Rightarrow> string \<Rightarrow> string \<Rightarrow> string \<Rightarrow> job_schedule option \<Rightarrow> string \<Rightarrow> app_error + unit" where
  "validate_job_input cal name prompt provider schedule timezone =
     and_then (ensure (\<not> (trim name = [] \<or> length name > MAX_JOB_NAME_CHARS)) (BadRequest ''validation.job_name'')) (\<lambda>_.
     and_then (ensure (\<not> (trim prompt = [] \<or> length prompt > MAX_JOB_PROMPT_CHARS)) (BadRequest ''validation.job_prompt'')) (\<lambda>_.
     and_then (ensure (trim provider \<noteq> []) (BadRequest ''validation.provider_required'')) (\<lambda>_.
     and_then (validate_job_timezone cal timezone) (\<lambda>_. validate_job_schedule schedule))))"

text \<open>\<open>i8::try_from(v).unwrap_or_default()\<close>.\<close>

definition i8_or_zero :: "8 word \<Rightarrow> nat" where
  "i8_or_zero v = (if unat v \<le> 127 then unat v else 0)"

text \<open>The loop over the days from the present one; its first argument counts the remaining rounds.\<close>

fun next_occurrence ::
  "nat \<Rightarrow> calendar \<Rightarrow> string \<Rightarrow> nat option \<Rightarrow> nat \<Rightarrow> nat \<Rightarrow> time \<Rightarrow> int \<Rightarrow> app_error + time" where
  "next_occurrence 0 cal timezone wanted hour minute timestamp date = Inl (BadRequest ''job.schedule_unresolvable'')"
| "next_occurrence (Suc n) cal timezone wanted hour minute timestamp date =
     and_then (if wanted = None \<or> wanted = Some (ca_weekday cal date)
        then and_then (ok_or (ca_at cal timezone date hour minute) (BadRequest ''job.schedule_time'')) (\<lambda>candidate.
          if candidate > timestamp
          then and_then (ok_or (ca_to_utc cal candidate) (BadRequest ''job.schedule_time'')) (\<lambda>t. Inr (Some t))
          else Inr None)
        else Inr None) (\<lambda>found. case found of
       Some t \<Rightarrow> Inr t
     | None \<Rightarrow> and_then (ok_or (ca_tomorrow cal date) (BadRequest ''job.schedule_overflow'')) (\<lambda>date'.
         next_occurrence n cal timezone wanted hour minute timestamp date'))"

definition next_job_run_at :: "calendar \<Rightarrow> job_schedule \<Rightarrow> string \<Rightarrow> time \<Rightarrow> app_error + time" where
  "next_job_run_at cal schedule timezone after = (case schedule of
     JS_Interval minutes \<Rightarrow> ok_or (ca_add_minutes cal after (unat minutes)) (BadRequest ''job.schedule_overflow'')
   | JS_Daily hour minute \<Rightarrow>
       and_then (ok_or (ca_timestamp cal after) (BadRequest ''job.schedule_time'')) (\<lambda>timestamp.
       and_then (ok_or (ca_date cal timezone timestamp) (BadRequest ''job.schedule_timezone'')) (\<lambda>date.
       next_occurrence 8 cal timezone None (i8_or_zero hour) (i8_or_zero minute) timestamp date))
   | JS_Weekly weekday hour minute \<Rightarrow>
       and_then (ok_or (ca_timestamp cal after) (BadRequest ''job.schedule_time'')) (\<lambda>timestamp.
       and_then (ok_or (ca_date cal timezone timestamp) (BadRequest ''job.schedule_timezone'')) (\<lambda>date.
       and_then (ensure (1 \<le> i8_or_zero weekday \<and> i8_or_zero weekday \<le> 7) (BadRequest ''job.schedule_weekday'')) (\<lambda>_.
       next_occurrence 8 cal timezone (Some (i8_or_zero weekday)) (i8_or_zero hour) (i8_or_zero minute) timestamp date))))"

section \<open>Loads\<close>

record job_run_summary =
  ru_job_run_id :: id
  ru_job_id :: id
  ru_trigger :: job_run_trigger
  ru_state :: job_run_state
  ru_scheduled_for :: "time option"
  ru_queued_at :: time
  ru_started_at :: "time option"
  ru_finished_at :: "time option"
  ru_session_thread_id :: "id option"
  ru_runtime_session_id :: "id option"
  ru_summary :: "string option"
  ru_terminal_reason :: "scheduled_message_failure option"
  ru_config_snapshot :: job_run_config_snapshot
  ru_force :: bool

record job_summary =
  ju_job_id :: id
  ju_name :: string
  ju_project_placement_id :: id
  ju_placement_name :: string
  ju_provider :: string
  ju_enabled :: bool
  ju_schedule :: "job_schedule option"
  ju_timezone :: string
  ju_overlap_policy :: job_overlap_policy
  ju_continue_after_error :: bool
  ju_next_run_at :: "time option"
  ju_paused_reason :: "string option"
  ju_latest_run :: "job_run_summary option"
  ju_created_at :: time
  ju_updated_at :: time

record job_detail =
  jd_job :: job_summary
  jd_prompt :: string
  jd_runs :: "job_run_summary list"

definition job_run_of_row :: "job_run_row \<Rightarrow> job_run_summary" where
  "job_run_of_row r = \<lparr>ru_job_run_id = jn_job_run_id r, ru_job_id = jn_job_id r, ru_trigger = jn_trigger_kind r,
     ru_state = jn_state r, ru_scheduled_for = jn_scheduled_for r, ru_queued_at = jn_queued_at r,
     ru_started_at = jn_started_at r, ru_finished_at = jn_finished_at r, ru_session_thread_id = jn_session_thread_id r,
     ru_runtime_session_id = jn_runtime_session_id r, ru_summary = jn_summary r,
     ru_terminal_reason = (case (jn_terminal_code r, jn_terminal_message r) of
        (Some code, Some msg) \<Rightarrow> Some \<lparr>smf_code = code, smf_message = msg\<rparr> | _ \<Rightarrow> None),
     ru_config_snapshot = jn_config_snapshot r, ru_force = jn_force r\<rparr>"

definition load_job_run :: "id \<Rightarrow> core_db \<Rightarrow> app_error + job_run_summary" where
  "load_job_run run_id db = and_then (ok_or (find_job_run db run_id) (NotFound ''job_run.not_found''))
     (\<lambda>r. Inr (job_run_of_row r))"

definition load_job_runs :: "id \<Rightarrow> core_db \<Rightarrow> job_run_summary list" where
  "load_job_runs job_id db = map job_run_of_row (rev (sort_key (\<lambda>r. (jn_queued_at r, jn_job_run_id r))
     (filter (\<lambda>r. jn_job_id r = job_id) (db_job_runs db))))"

definition load_job_detail :: "id \<Rightarrow> core_db \<Rightarrow> app_error + job_detail" where
  "load_job_detail job_id db =
     and_then (ok_or (Option.bind (find_job db job_id) (\<lambda>j.
        map_option (\<lambda>p. (j, p)) (find_placement db (jb_project_placement_id j)))) (NotFound ''job.not_found'')) (\<lambda>(j, p).
     let runs = load_job_runs job_id db in
     Inr \<lparr>jd_job = \<lparr>ju_job_id = jb_job_id j, ju_name = jb_name j, ju_project_placement_id = jb_project_placement_id j,
         ju_placement_name = pl_display_name p, ju_provider = jb_provider j, ju_enabled = jb_enabled j,
         ju_schedule = jb_schedule j, ju_timezone = jb_timezone j, ju_overlap_policy = OP_Skip,
         ju_continue_after_error = jb_continue_after_error j, ju_next_run_at = jb_next_run_at j,
         ju_paused_reason = jb_paused_reason j, ju_latest_run = first runs, ju_created_at = jb_created_at j,
         ju_updated_at = jb_updated_at j\<rparr>,
       jd_prompt = jb_prompt j, jd_runs = runs\<rparr>)"

definition list_jobs_route :: "core_db \<Rightarrow> app_error + job_summary list" where
  "list_jobs_route db = try_fold (\<lambda>j jobs. and_then (load_job_detail (jb_job_id j) db) (\<lambda>d. Inr (jobs @ [jd_job d])))
     (sort_key (\<lambda>j. - jb_updated_at j) (db_jobs db)) []"

section \<open>Jobs\<close>

definition update_jobs :: "(job_row \<Rightarrow> bool) \<Rightarrow> (job_row \<Rightarrow> job_row) \<Rightarrow> core_db \<Rightarrow> core_db" where
  "update_jobs p f db = db\<lparr>db_jobs := update_where p f (db_jobs db)\<rparr>"

definition update_runs :: "(job_run_row \<Rightarrow> bool) \<Rightarrow> (job_run_row \<Rightarrow> job_run_row) \<Rightarrow> core_db \<Rightarrow> core_db" where
  "update_runs p f db = db\<lparr>db_job_runs := update_where p f (db_job_runs db)\<rparr>"

record create_job_request =
  cj_name :: string
  cj_project_placement_id :: id
  cj_prompt :: string
  cj_provider :: string
  cj_schedule :: "job_schedule option"
  cj_timezone :: string
  cj_continue_after_error :: bool

definition new_job :: "id \<Rightarrow> create_job_request \<Rightarrow> time \<Rightarrow> job_row" where
  "new_job job_id q now = \<lparr>jb_job_id = job_id, jb_project_placement_id = cj_project_placement_id q, jb_name = trim (cj_name q),
     jb_prompt = trim (cj_prompt q), jb_provider = trim (cj_provider q), jb_schedule = cj_schedule q,
     jb_timezone = trim (cj_timezone q), jb_enabled = False, jb_overlap_policy = OP_Skip,
     jb_continue_after_error = cj_continue_after_error q, jb_next_run_at = None, jb_paused_reason = Some ''created_paused'',
     jb_created_at = now, jb_updated_at = now\<rparr>"

definition insert_job :: "job_row \<Rightarrow> core_db \<Rightarrow> app_error + core_db" where
  "insert_job j db = and_then (ensure (find_job db (jb_job_id j) = None
      \<and> find_placement db (jb_project_placement_id j) \<noteq> None) Database)
     (\<lambda>_. Inr (db\<lparr>db_jobs := db_jobs db @ [j]\<rparr>))"

definition create_job_route :: "sched_env \<Rightarrow> calendar \<Rightarrow> id \<Rightarrow> create_job_request \<Rightarrow> job_detail handler" where
  "create_job_route env cal job_id q =
     h_bind (load_placement (sc_env env) (cj_project_placement_id q) None) (\<lambda>_.
     h_bind (h_check (\<lambda>_. validate_job_input cal (cj_name q) (cj_prompt q) (cj_provider q) (cj_schedule q) (cj_timezone q))) (\<lambda>_.
     h_bind (h_txn (insert_job (new_job job_id q (sc_now env)))) (\<lambda>_.
     h_check (\<lambda>st. load_job_detail job_id (co_db st)))))"

record update_job_request =
  uj_name :: "string option"
  uj_prompt :: "string option"
  uj_provider :: "string option"
  uj_schedule :: "job_schedule option"
  uj_clear_schedule :: bool
  uj_timezone :: "string option"
  uj_continue_after_error :: "bool option"

definition unwrap_or :: "'a option \<Rightarrow> 'a \<Rightarrow> 'a" where
  "unwrap_or x d = (case x of Some v \<Rightarrow> v | None \<Rightarrow> d)"

definition update_job_route :: "sched_env \<Rightarrow> calendar \<Rightarrow> id \<Rightarrow> update_job_request \<Rightarrow> job_detail handler" where
  "update_job_route env cal job_id q =
     h_bind (h_check (\<lambda>st. load_job_detail job_id (co_db st))) (\<lambda>existing.
     let job = jd_job existing;
         name = unwrap_or (uj_name q) (ju_name job);
         prompt = unwrap_or (uj_prompt q) (jd_prompt existing);
         provider = unwrap_or (uj_provider q) (ju_provider job);
         schedule = (if uj_clear_schedule q then None else if uj_schedule q \<noteq> None then uj_schedule q else ju_schedule job);
         timezone = unwrap_or (uj_timezone q) (ju_timezone job);
         continue_after_error = unwrap_or (uj_continue_after_error q) (ju_continue_after_error job);
         enabled = (ju_enabled job \<and> schedule \<noteq> None);
         paused_reason = (if \<not> enabled \<and> ju_enabled job then Some ''schedule_removed'' else None) in
     h_bind (h_check (\<lambda>_. validate_job_input cal name prompt provider schedule timezone)) (\<lambda>_.
     h_bind (h_check (\<lambda>_. if enabled then (case schedule of None \<Rightarrow> Inr None
          | Some s \<Rightarrow> and_then (next_job_run_at cal s timezone (sc_now env)) (\<lambda>t. Inr (Some t))) else Inr None)) (\<lambda>next_run_at.
     h_bind (h_write (update_jobs (\<lambda>j. jb_job_id j = job_id) (\<lambda>j. j\<lparr>jb_name := trim name, jb_prompt := trim prompt,
        jb_provider := trim provider, jb_schedule := schedule, jb_timezone := trim timezone,
        jb_continue_after_error := continue_after_error, jb_enabled := enabled, jb_next_run_at := next_run_at,
        jb_paused_reason := (if paused_reason \<noteq> None then paused_reason else jb_paused_reason j),
        jb_updated_at := sc_now env\<rparr>))) (\<lambda>_.
     h_check (\<lambda>st. load_job_detail job_id (co_db st))))))"

definition enable_job_route :: "sched_env \<Rightarrow> calendar \<Rightarrow> id \<Rightarrow> job_detail handler" where
  "enable_job_route env cal job_id =
     h_bind (h_check (\<lambda>st. load_job_detail job_id (co_db st))) (\<lambda>job.
     h_bind (h_check (\<lambda>_. ok_or (ju_schedule (jd_job job)) (BadRequest ''job.schedule_required''))) (\<lambda>schedule.
     h_bind (h_check (\<lambda>_. next_job_run_at cal schedule (ju_timezone (jd_job job)) (sc_now env))) (\<lambda>next_run_at.
     h_bind (h_write (update_jobs (\<lambda>j. jb_job_id j = job_id) (\<lambda>j. j\<lparr>jb_enabled := True,
        jb_next_run_at := Some next_run_at, jb_paused_reason := None, jb_updated_at := sc_now env\<rparr>))) (\<lambda>_.
     h_check (\<lambda>st. load_job_detail job_id (co_db st))))))"

definition disable_job_route :: "sched_env \<Rightarrow> id \<Rightarrow> job_detail handler" where
  "disable_job_route env job_id =
     h_bind (h_check (\<lambda>st. Inr (rows_affected (\<lambda>j. jb_job_id j = job_id) (db_jobs (co_db st))))) (\<lambda>n.
     h_bind (h_write (update_jobs (\<lambda>j. jb_job_id j = job_id) (\<lambda>j. j\<lparr>jb_enabled := False, jb_next_run_at := None,
        jb_paused_reason := Some ''paused_by_user'', jb_updated_at := sc_now env\<rparr>))) (\<lambda>_.
     h_bind (h_check (\<lambda>_. ensure (n \<noteq> 0) (NotFound ''job.not_found''))) (\<lambda>_.
     h_check (\<lambda>st. load_job_detail job_id (co_db st)))))"

section \<open>Runs\<close>

definition active_run :: "job_run_row \<Rightarrow> bool" where
  "active_run r \<longleftrightarrow> jn_state r \<in> {JR_Queued, JR_Starting, JR_Running}"

definition snapshot_for_job :: "job_detail \<Rightarrow> job_run_config_snapshot" where
  "snapshot_for_job job = \<lparr>jc_name = ju_name (jd_job job), jc_project_placement_id = ju_project_placement_id (jd_job job),
     jc_prompt = jd_prompt job, jc_provider = ju_provider (jd_job job), jc_schedule = ju_schedule (jd_job job),
     jc_timezone = ju_timezone (jd_job job), jc_overlap_policy = ju_overlap_policy (jd_job job),
     jc_continue_after_error = ju_continue_after_error (jd_job job)\<rparr>"

definition new_job_run ::
  "id \<Rightarrow> job_detail \<Rightarrow> job_run_trigger \<Rightarrow> time option \<Rightarrow> bool \<Rightarrow> bool \<Rightarrow> time \<Rightarrow> job_run_row" where
  "new_job_run run_id job trigger scheduled_for force overlap now = \<lparr>jn_job_run_id = run_id, jn_job_id = ju_job_id (jd_job job),
     jn_trigger_kind = trigger, jn_state = (if overlap then JR_Skipped else JR_Queued), jn_scheduled_for = scheduled_for,
     jn_queued_at = now, jn_started_at = None, jn_finished_at = (if overlap then Some now else None),
     jn_session_thread_id = None, jn_runtime_session_id = None, jn_command_id = None, jn_turn_id = None, jn_summary = None,
     jn_terminal_code = (if overlap then Some ''job.overlap_skipped'' else None),
     jn_terminal_message = (if overlap then Some ''Another run of this Job is already active'' else None),
     jn_config_snapshot = snapshot_for_job job, jn_force = force\<rparr>"

text \<open>
  The insert with its constraints: the primary key, the job it refers to, one run per
  scheduled occurrence, and one active run per job.
\<close>

definition occurrence :: "job_run_row \<Rightarrow> (id \<times> time) option" where
  "occurrence r = (if jn_trigger_kind r = JT_Scheduled then map_option (\<lambda>t. (jn_job_id r, t)) (jn_scheduled_for r) else None)"

definition insert_run_row :: "job_run_row \<Rightarrow> core_db \<Rightarrow> app_error + core_db" where
  "insert_run_row r db = and_then (ensure (find_job_run db (jn_job_run_id r) = None \<and> find_job db (jn_job_id r) \<noteq> None
      \<and> (occurrence r \<noteq> None \<longrightarrow> occurrence r \<notin> occurrence ` set (db_job_runs db))
      \<and> (active_run r \<longrightarrow> list_all (\<lambda>x. jn_job_id x = jn_job_id r \<longrightarrow> \<not> active_run x) (db_job_runs db))) Database)
     (\<lambda>_. Inr (db\<lparr>db_job_runs := db_job_runs db @ [r]\<rparr>))"

definition has_active_run :: "id \<Rightarrow> core_db \<Rightarrow> bool" where
  "has_active_run job_id db \<longleftrightarrow> rows_affected (\<lambda>r. jn_job_id r = job_id \<and> active_run r) (db_job_runs db) > 0"

definition insert_job_run ::
  "sched_env \<Rightarrow> job_detail \<Rightarrow> job_run_trigger \<Rightarrow> time option \<Rightarrow> bool \<Rightarrow> job_run_summary handler" where
  "insert_job_run env job trigger scheduled_for force =
     (let job_id = ju_job_id (jd_job job); run_id = sc_run_id env job_id in
      h_bind (h_txn (\<lambda>db. insert_run_row
        (new_job_run run_id job trigger scheduled_for force (has_active_run job_id db) (sc_now env)) db)) (\<lambda>_.
      h_check (\<lambda>st. load_job_run run_id (co_db st))))"

definition claim_due_job :: "sched_env \<Rightarrow> calendar \<Rightarrow> id \<Rightarrow> unit handler" where
  "claim_due_job env cal job_id =
     h_bind (h_check (\<lambda>st. load_job_detail job_id (co_db st))) (\<lambda>job.
     case (ju_enabled (jd_job job), ju_next_run_at (jd_job job), ju_schedule (jd_job job)) of
       (True, Some due_at, Some schedule) \<Rightarrow>
         if due_at > sc_now env then h_ok ()
         else h_bind (h_check (\<lambda>_. next_job_run_at cal schedule (ju_timezone (jd_job job)) (sc_now env))) (\<lambda>next_run_at.
           h_txn (\<lambda>db.
             let p = (\<lambda>j. jb_job_id j = job_id \<and> jb_enabled j \<and> jb_next_run_at j = Some due_at) in
             if rows_affected p (db_jobs db) = 0 then Inr db
             else insert_run_row (new_job_run (sc_run_id env job_id) job JT_Scheduled (Some due_at) False
                 (has_active_run job_id db) (sc_now env))
               (update_jobs p (\<lambda>j. j\<lparr>jb_next_run_at := Some next_run_at, jb_updated_at := sc_now env\<rparr>) db)))
     | _ \<Rightarrow> h_ok ())"

definition due_jobs :: "time \<Rightarrow> core_db \<Rightarrow> id list" where
  "due_jobs now db = map jb_job_id (sort_key (\<lambda>j. (unwrap_or (jb_next_run_at j) 0, jb_job_id j))
     (filter (\<lambda>j. jb_enabled j \<and> (case jb_next_run_at j of None \<Rightarrow> False | Some t \<Rightarrow> t \<le> now)) (db_jobs db)))"

definition dispatch_due_jobs :: "sched_env \<Rightarrow> calendar \<Rightarrow> unit handler" where
  "dispatch_due_jobs env cal =
     h_bind (h_check (\<lambda>st. Inr (due_jobs (sc_now env) (co_db st)))) (h_each (claim_due_job env cal))"

definition recover_job_runs :: "core_db \<Rightarrow> core_db" where
  "recover_job_runs = update_runs (\<lambda>r. jn_state r = JR_Starting \<and> jn_session_thread_id r = None)
     (\<lambda>r. r\<lparr>jn_state := JR_Queued, jn_started_at := None\<rparr>)"

section \<open>The driver\<close>

definition end_run :: "sched_env \<Rightarrow> job_run_state \<Rightarrow> string \<Rightarrow> string \<Rightarrow> job_run_row \<Rightarrow> job_run_row" where
  "end_run env s code message r = r\<lparr>jn_state := s, jn_finished_at := Some (sc_now env), jn_terminal_code := Some code,
     jn_terminal_message := Some message\<rparr>"

definition fail_job_run :: "sched_env \<Rightarrow> job_run_summary \<Rightarrow> string \<Rightarrow> string \<Rightarrow> bool \<Rightarrow> unit handler" where
  "fail_job_run env run code message timed_out =
     (let p = (\<lambda>r. jn_job_run_id r = ru_job_run_id run \<and> active_run r) in
      h_bind (h_check (\<lambda>st. Inr (rows_affected p (db_job_runs (co_db st))))) (\<lambda>n.
      h_bind (h_write (update_runs p (end_run env (if timed_out then JR_TimedOut else JR_Failed) code message))) (\<lambda>_.
      if n = 0 \<or> jc_continue_after_error (ru_config_snapshot run) then h_ok ()
      else h_write (update_jobs (\<lambda>j. jb_job_id j = ru_job_id run) (\<lambda>j. j\<lparr>jb_enabled := False, jb_next_run_at := None,
        jb_paused_reason := Some code, jb_updated_at := sc_now env\<rparr>)))))"

text \<open>The title is the job's name, a blank, U+00B7, a blank and \<open>Job Run\<close>.\<close>

definition job_session_title :: "string \<Rightarrow> string" where
  "job_session_title name = name @ '' '' @ [CHR 0xB7] @ '' Job Run''"

definition start_job_run :: "sched_env \<Rightarrow> job_run_summary \<Rightarrow> unit handler" where
  "start_job_run env run =
     (let snapshot = ru_config_snapshot run; ids = sc_ids env (ru_job_run_id run); cfg = se_cfg (sc_env env); now = sc_now env;
          queued = (\<lambda>r. jn_job_run_id r = ru_job_run_id run \<and> jn_state r = JR_Queued) in
      h_bind (load_placement (sc_env env) (jc_project_placement_id snapshot) None) (\<lambda>placement.
      h_bind (h_check (\<lambda>st. ensure_node_commandable cfg (ps_node_id placement) now (co_db st))) (\<lambda>_.
      h_bind (h_check (\<lambda>_. ensure_placement_startable placement)) (\<lambda>_.
      h_bind (h_check (\<lambda>st. ensure_node_supports_provider (ps_node_id placement) (jc_provider snapshot) (co_db st))) (\<lambda>_.
      h_bind (h_txn (ensure_provider_quota_admission (se_timestamp (sc_env env)) now (jc_provider snapshot) (ru_force run)
         ''job.run'')) (\<lambda>_.
      h_bind (h_check (\<lambda>st. Inr (rows_affected queued (db_job_runs (co_db st))))) (\<lambda>claimed.
      if claimed = 0 then h_ok ()
      else h_bind (h_txn (\<lambda>db. insert_session_aggregate AR_System ids placement (job_session_title (jc_name snapshot))
           (jc_provider snapshot) now
           (update_runs queued (\<lambda>r. r\<lparr>jn_state := JR_Starting, jn_started_at := Some now,
              jn_session_thread_id := Some (si_session ids), jn_runtime_session_id := Some (si_runtime ids)\<rparr>) db))) (\<lambda>_.
        h_modify (dispatch_pending_commands (se_frame_id (sc_env env)) now (ps_node_id placement))))))))))"

definition run_submitted :: "sched_env \<Rightarrow> job_run_summary \<Rightarrow> id \<Rightarrow> id \<Rightarrow> unit handler" where
  "run_submitted env run turn_id command_id =
     h_write (update_runs (\<lambda>r. jn_job_run_id r = ru_job_run_id run \<and> jn_state r = JR_Starting)
       (\<lambda>r. r\<lparr>jn_state := JR_Running, jn_turn_id := Some turn_id, jn_command_id := Some command_id\<rparr>))"

definition first_turn :: "id \<Rightarrow> core_db \<Rightarrow> turn_row option" where
  "first_turn session_id db = first (sort_key tn_turn_index (filter (\<lambda>t. tn_session_thread_id t = session_id) (db_turns db)))"

definition drive_starting_job_run :: "sched_env \<Rightarrow> job_run_summary \<Rightarrow> unit handler" where
  "drive_starting_job_run env run = (case ru_session_thread_id run of None \<Rightarrow> h_ok ()
   | Some session_id \<Rightarrow>
     h_bind (load_session_detail (sc_env env) session_id) (\<lambda>detail.
     if rs_state (sd_runtime detail) = RS_Error
     then fail_job_run env run ''job.runtime_start_failed''
       (unwrap_or (rs_degraded_reason (sd_runtime detail)) ''Provider runtime failed to start'') False
     else h_bind (h_check (\<lambda>st. Inr (first_turn session_id (co_db st)))) (\<lambda>existing. case existing of
       Some turn \<Rightarrow> run_submitted env run (tn_turn_id turn) (tn_command_id turn)
     | None \<Rightarrow>
        if rs_state (sd_runtime detail) \<noteq> RS_Ready then h_ok ()
        else h_bind (submit_turn_for_actor (sc_env env) (sc_ids env (ru_job_run_id run)) (sc_turn_id env (ru_job_run_id run))
             (sc_message_id env (ru_job_run_id run)) session_id (jc_prompt (ru_config_snapshot run)) AR_System) (\<lambda>(command_id, _).
          h_bind (h_check (\<lambda>st. ok_or (turn_of_command command_id (co_db st)) Database)) (\<lambda>turn_id.
          run_submitted env run turn_id command_id)))))"

text \<open>The summary: the content of the session's last assistant message.\<close>

definition last_assistant_message :: "id \<Rightarrow> core_db \<Rightarrow> string option" where
  "last_assistant_message session_id db = map_option ms_content (first (sort_key (\<lambda>m. - ms_created_at m)
     (filter (\<lambda>m. ms_session_thread_id m = session_id \<and> ms_role m = MR_Assistant) (db_messages db))))"

definition turn_of_run :: "id \<Rightarrow> core_db \<Rightarrow> turn_row option" where
  "turn_of_run run_id db = Option.bind (find_job_run db run_id) (\<lambda>r. Option.bind (jn_turn_id r) (find_turn db))"

definition drive_running_job_run :: "sched_env \<Rightarrow> job_run_summary \<Rightarrow> unit handler" where
  "drive_running_job_run env run = (case ru_session_thread_id run of
     None \<Rightarrow> fail_job_run env run ''job.session_missing'' ''Job Run session is missing'' False
   | Some session_id \<Rightarrow>
     h_bind (h_check (\<lambda>st. Inr (turn_of_run (ru_job_run_id run) (co_db st),
        find (\<lambda>r. rt_session_thread_id r = session_id) (db_runtimes (co_db st))))) (\<lambda>(turn, runtime).
     case map_option tn_state turn of
       Some TN_Completed \<Rightarrow> h_write (\<lambda>db. update_runs (\<lambda>r. jn_job_run_id r = ru_job_run_id run \<and> jn_state r = JR_Running)
         (\<lambda>r. r\<lparr>jn_state := JR_Succeeded, jn_finished_at := Some (sc_now env),
            jn_summary := last_assistant_message session_id db\<rparr>) db)
     | Some TN_Failed \<Rightarrow> fail_job_run env run ''job.turn_failed'' ''Provider turn failed or was interrupted'' False
     | Some TN_Interrupted \<Rightarrow> fail_job_run env run ''job.turn_failed'' ''Provider turn failed or was interrupted'' False
     | _ \<Rightarrow> (case map_option rt_state runtime of
         Some RS_Expired \<Rightarrow> fail_job_run env run ''job.timed_out'' ''Provider runtime timed out'' True
       | Some RS_Error \<Rightarrow> fail_job_run env run ''job.runtime_failed'' ''Provider runtime failed'' False
       | _ \<Rightarrow> h_ok ())))"

definition drive_job_run :: "sched_env \<Rightarrow> id \<Rightarrow> unit handler" where
  "drive_job_run env run_id =
     h_bind (h_check (\<lambda>st. load_job_run run_id (co_db st))) (\<lambda>run. case ru_state run of
       JR_Queued \<Rightarrow> h_match (start_job_run env run) h_ok (\<lambda>e.
         (case scheduled_message_failure_of (sc_error_text env) e of (code, message) \<Rightarrow> fail_job_run env run code message False))
     | JR_Starting \<Rightarrow> drive_starting_job_run env run
     | JR_Running \<Rightarrow> drive_running_job_run env run
     | _ \<Rightarrow> h_ok ())"

definition active_run_ids :: "core_db \<Rightarrow> id list" where
  "active_run_ids db = map jn_job_run_id (sort_key (\<lambda>r. (jn_queued_at r, jn_job_run_id r)) (filter active_run (db_job_runs db)))"

definition drive_job_runs :: "sched_env \<Rightarrow> unit handler" where
  "drive_job_runs env = h_bind (h_check (\<lambda>st. Inr (active_run_ids (co_db st)))) (h_each (drive_job_run env))"

definition run_job_route :: "sched_env \<Rightarrow> id \<Rightarrow> bool \<Rightarrow> job_run_summary handler" where
  "run_job_route env job_id force =
     h_bind (h_check (\<lambda>st. load_job_detail job_id (co_db st))) (\<lambda>job.
     h_bind (insert_job_run env job JT_Manual None force) (\<lambda>run.
     h_bind (drive_job_runs env) (\<lambda>_.
     h_check (\<lambda>st. load_job_run (ru_job_run_id run) (co_db st)))))"

definition h_ignore :: "('s, 'a) stateful \<Rightarrow> ('s, unit) stateful" where
  "h_ignore f st = (Inr (), snd (f st))"

definition cancel_job_run_route :: "sched_env \<Rightarrow> id \<Rightarrow> job_run_summary handler" where
  "cancel_job_run_route env run_id =
     h_bind (h_check (\<lambda>st. load_job_run run_id (co_db st))) (\<lambda>run.
     let p = (\<lambda>r. jn_job_run_id r = run_id \<and> active_run r) in
     h_bind (h_check (\<lambda>st. Inr (rows_affected p (db_job_runs (co_db st))))) (\<lambda>n.
     h_bind (h_write (update_runs p (end_run env JR_Cancelled ''job.cancelled_by_user'' ''Job Run was cancelled by the user''))) (\<lambda>_.
     h_bind (h_check (\<lambda>_. ensure (n \<noteq> 0) (BadRequest ''job_run.not_cancellable''))) (\<lambda>_.
     h_bind (case ru_runtime_session_id run of None \<Rightarrow> h_ok ()
        | Some runtime_id \<Rightarrow> h_ignore (lifecycle_command (sc_env env) (sc_ids env run_id) runtime_id CK_StopRuntime)) (\<lambda>_.
     h_check (\<lambda>st. load_job_run run_id (co_db st)))))))"

text \<open>One tick of each background task; an error is logged and the task goes on.\<close>

definition scheduled_message_tick :: "sched_env \<Rightarrow> unit handler" where
  "scheduled_message_tick env = h_ignore (dispatch_due_scheduled_messages env)"

definition job_scheduler_tick :: "sched_env \<Rightarrow> calendar \<Rightarrow> unit handler" where
  "job_scheduler_tick env cal = h_bind (h_ignore (dispatch_due_jobs env cal)) (\<lambda>_. h_ignore (drive_job_runs env))"

end
