(* ===== verification/Request_Tables.thy ===== *)
theory Request_Tables
  imports Log_Frames
begin

text \<open>
  Events, commands and their dispatch leave the tables of the requests and of the scheduler
  alone (\<open>request_tables\<close>).
\<close>

lemma request_enqueue [simp]: "request_tables (enqueue_event_publication e db) = request_tables db"
  by (simp add: enqueue_event_publication_def request_tables_def)

lemma request_actor [simp]: "request_tables (upsert_actor a t db) = request_tables db"
  by (simp add: upsert_actor_def request_tables_def Let_def split: prod.splits)

lemma actor_request_fields [simp]:
  "db_scheduled_messages (upsert_actor a t db) = db_scheduled_messages db" "db_jobs (upsert_actor a t db) = db_jobs db"
  "db_job_runs (upsert_actor a t db) = db_job_runs db" "db_quotas (upsert_actor a t db) = db_quotas db"
  "db_audit (upsert_actor a t db) = db_audit db" "db_leases (upsert_actor a t db) = db_leases db"
  using request_actor[of a t db] by (simp_all add: request_tables_def)

lemma request_events [simp]: "request_tables (db\<lparr>db_events := es\<rparr>) = request_tables db"
  by (simp add: request_tables_def)

lemma request_complete: "complete_event_projection m e db = Inr db' \<Longrightarrow> request_tables db' = request_tables db"
  by (auto simp: complete_event_projection_def insert_durable_message_def insert_message_def result_simps
      request_tables_def enqueue_event_publication_def split: option.splits if_splits)

lemma request_insert_event: "insert_event_record k e db = Inr db' \<Longrightarrow> request_tables db' = request_tables db"
  by (auto simp: insert_event_record_def result_simps)

lemma request_accept_new:
  assumes "accept_new_event m e db = Inr db'"
  shows "request_tables db' = request_tables db"
proof -
  obtain db1 db2 where
    1: "insert_event_record (scope_key (ev_scope_ref e)) (stamp_event e db)
       (upsert_actor (ev_actor_ref e) (ev_happened_at e) db) = Inr db1"
    and 2: "apply_event_projection (stamp_event e db) db1 = Inr db2"
    and 3: "complete_event_projection m (stamp_event e db)
       (case stream_gap e db of None \<Rightarrow> db2 | Some n \<Rightarrow> mark_event_stream_gap (stamp_event e db) n db2) = Inr db'"
    using accept_new_event_steps[OF assms] by metis
  have "request_tables (case stream_gap e db of None \<Rightarrow> db2 | Some n \<Rightarrow> mark_event_stream_gap (stamp_event e db) n db2)
      = request_tables db2"
    using log_tables_cong(10)[OF log_gap] by (simp split: option.splits)
  then show ?thesis
    using request_complete[OF 3] log_tables_cong(10)[OF log_apply[OF 2]] request_insert_event[OF 1] by simp
qed

lemma request_retry:
  assumes "retry_projection m row db = Inr db'"
  shows "request_tables db' = request_tables db"
  using assms log_tables_cong(10)[OF log_apply] request_complete
  by (fastforce simp: retry_projection_def Let_def result_simps)

lemma request_accept_transaction: "accept_transaction m e db = Inr (c, db') \<Longrightarrow> request_tables db' = request_tables db"
  by (auto simp: accept_transaction_def result_simps request_retry request_accept_new split: option.splits if_splits)

lemma request_drain_row: "request_tables (co_db (drain_row b now row st)) = request_tables (co_db st)"
  by (simp add: drain_row_def Let_def request_tables_def)

lemma request_drain: "request_tables (co_db (drain_event_publication_outbox b now st)) = request_tables (co_db st)"
proof -
  have "request_tables (co_db (fold (drain_row b now) rows st)) = request_tables (co_db st)" for rows
    by (induction rows arbitrary: st) (simp_all add: request_drain_row)
  then show ?thesis by (simp add: drain_event_publication_outbox_def)
qed

lemma request_accept:
  "accept_node_event b now m e st = Inr st' \<Longrightarrow> request_tables (co_db st') = request_tables (co_db st)"
  by (auto simp: accept_node_event_def result_simps Let_def request_drain dest!: request_accept_transaction
      split: option.splits)

lemma request_update_command [simp]:
  "request_tables (update_command_state c s now db) = request_tables db" "request_tables (mark_attempt c now db) = request_tables db"
  by (simp_all add: update_command_state_def delete_dispatch_def mark_attempt_def request_tables_def Let_def)

lemma request_dispatch_row: "request_tables (co_db (dispatch_row_step fid now tx row st)) = request_tables (co_db st)"
  by (simp add: dispatch_row_step_db)

lemma request_dispatch: "request_tables (co_db (dispatch_pending_commands fid now n st)) = request_tables (co_db st)"
proof -
  have "request_tables (co_db (fold (dispatch_row_step fid now tx) rows st)) = request_tables (co_db st)" for tx rows
    by (induction rows arbitrary: st) (simp_all add: request_dispatch_row)
  then show ?thesis by (simp add: dispatch_pending_commands_def Let_def split: option.splits)
qed

lemma request_record_command:
  "record_command_on_connection c db = Inr db' \<Longrightarrow> request_tables db' = request_tables db"
  by (auto simp: record_command_on_connection_def result_simps insert_command_def enqueue_dispatch_def request_tables_def
      split: if_splits)

lemma request_record_turn:
  "record_turn_submission c t m s x now db = Inr db' \<Longrightarrow> request_tables db' = request_tables db"
  by (auto simp: record_turn_submission_def result_simps insert_command_def enqueue_dispatch_def Let_def
      insert_turn_def insert_message_def request_tables_def split: if_splits)

lemma request_record_dispatch:
  "record_and_dispatch_command fid now c st = Inr st' \<Longrightarrow> request_tables (co_db st') = request_tables (co_db st)"
  by (auto simp: record_and_dispatch_command_def record_command_def result_simps request_dispatch dest: request_record_command)

end
