(* ===== verification/Session_Facts.thy ===== *)
theory Session_Facts
  imports Runtime_Commands Request_Tables
begin

text \<open>
  What the requests on sessions guarantee. \<open>core_property\<close> is the contract between the
  requests and the tables they share with the control channel: a property of Core that events,
  recorded commands, dispatch and new sessions keep is kept by every request of \<open>Sessions\<close>.
  It is instantiated with the outbox invariant and with the log invariant. The second part is
  about the stream: it delivers the log of the session, each event once and in cursor order.
\<close>

section \<open>Requests keep what the shared tables promise\<close>

locale core_property =
  fixes P :: "core_state \<Rightarrow> bool"
  assumes accept: "P st \<Longrightarrow> accept_node_event b now m e st = Inr st' \<Longrightarrow> P st'"
    and recorded: "P st \<Longrightarrow> record_command_on_connection c (co_db st) = Inr db \<Longrightarrow> P (st\<lparr>co_db := db\<rparr>)"
    and submitted: "P st \<Longrightarrow> record_turn_submission c t m s x now (co_db st) = Inr db \<Longrightarrow> P (st\<lparr>co_db := db\<rparr>)"
    and dispatched: "P st \<Longrightarrow> P (dispatch_pending_commands fid now n st)"
    and requested: "P st \<Longrightarrow> record_and_dispatch_command fid now c st = Inr st' \<Longrightarrow> P st'"
    and own_rows: "P st \<Longrightarrow> P (st\<lparr>co_db := (co_db st)\<lparr>db_audit := au, db_leases := le\<rparr>\<rparr>)"
    and session_rows: "P st \<Longrightarrow> P (st\<lparr>co_db := (co_db st)\<lparr>db_sessions := ss, db_runtimes := rs\<rparr>\<rparr>)"
begin

lemma keeps_dispatch: "h_keeps P (h_modify (dispatch_pending_commands fid now n))"
  by (rule h_keeps_modify) (rule dispatched)

lemma keeps_expire_each: "h_keeps P (expire_each env rows)"
  by (induction rows) (auto intro!: h_keeps_bind h_keeps_ok h_keeps_run simp: expire_runtime_def elim: accept)

lemma keeps_expire_idle: "h_keeps P (expire_idle_runtimes env)"
  unfolding expire_idle_runtimes_def Let_def
  by (simp add: h_keeps_ok h_keeps_bind h_keeps_check keeps_expire_each)

lemma keeps_load_placement: "h_keeps P (load_placement env p x)"
  unfolding load_placement_def by (intro h_keeps_bind keeps_expire_idle h_keeps_check)

lemma keeps_load_sessions: "h_keeps P (load_sessions env)"
  unfolding load_sessions_def by (intro h_keeps_bind keeps_expire_idle h_keeps_check)

lemma keeps_load_detail: "h_keeps P (load_session_detail env s)"
  unfolding load_session_detail_def
  by (intro h_keeps_bind keeps_load_sessions h_keeps_check keeps_load_placement)

lemma session_state_kept: "P st \<Longrightarrow> P (st\<lparr>co_db := set_session_state s x now (co_db st)\<rparr>)"
proof -
  have "db\<lparr>db_sessions := y, db_runtimes := db_runtimes db\<rparr> = db\<lparr>db_sessions := y\<rparr>" for db :: core_db and y
    by (cases db) simp
  then show "P st \<Longrightarrow> P (st\<lparr>co_db := set_session_state s x now (co_db st)\<rparr>)"
    using session_rows[where st = st and rs = "db_runtimes (co_db st)"] by (simp add: set_session_state_def)
qed

lemma keeps_attachment: "h_keeps P (h_txn (update_session_attachment_state s target now))"
  by (intro h_keeps_txn)
    (auto simp: update_session_attachment_state_def result_simps session_state_kept split: if_splits)

lemma keeps_attach: "h_keeps P (attach_session env s)" "h_keeps P (detach_session env s)"
  unfolding attach_session_def detach_session_def by (intro h_keeps_bind keeps_attachment keeps_load_detail)+

lemma keeps_submit: "h_keeps P (submit_turn_for_actor env ids t m s x a)"
  unfolding submit_turn_for_actor_def
  by (intro h_keeps_bind h_keeps_check keeps_load_detail h_keeps_txn keeps_dispatch h_keeps_ok) (rule submitted)

lemma keeps_insert_session: "h_keeps P (h_txn (insert_session_aggregate a ids p t pr now))"
proof (rule h_keeps_txn)
  fix st db assume st: "P st" and i: "insert_session_aggregate a ids p t pr now (co_db st) = Inr db"
  let ?st = "st\<lparr>co_db := (co_db st)\<lparr>db_sessions := db_sessions (co_db st) @ [new_session_row ids (ps_project_placement_id p) t pr now],
     db_runtimes := db_runtimes (co_db st) @ [new_runtime_row ids pr now]\<rparr>\<rparr>"
  have "record_command_on_connection (start_command a ids p pr now) (co_db ?st) = Inr db"
    using i by (auto simp: insert_session_aggregate_def result_simps)
  from recorded[OF session_rows[OF st] this] show "P (st\<lparr>co_db := db\<rparr>)" by simp
qed

lemma audit_kept: "P st \<Longrightarrow> P (st\<lparr>co_db := (co_db st)\<lparr>db_audit := au\<rparr>\<rparr>)"
proof -
  have "db\<lparr>db_audit := au, db_leases := db_leases db\<rparr> = db\<lparr>db_audit := au\<rparr>" for db :: core_db by (cases db) simp
  then show "P st \<Longrightarrow> P (st\<lparr>co_db := (co_db st)\<lparr>db_audit := au\<rparr>\<rparr>)"
    using own_rows[where st = st and le = "db_leases (co_db st)"] by simp
qed

lemma keeps_quota: "h_keeps P (h_txn (ensure_provider_quota_admission ts now p f op))"
  by (rule h_keeps_txn) (use quota_admission_frame audit_kept in blast)

lemma leases_kept: "P st \<Longrightarrow> P (st\<lparr>co_db := revoke_session_mcp_leases s why now (co_db st)\<rparr>)"
proof -
  have "db\<lparr>db_audit := db_audit db, db_leases := le\<rparr> = db\<lparr>db_leases := le\<rparr>" for db :: core_db and le by (cases db) simp
  then show "P st \<Longrightarrow> P (st\<lparr>co_db := revoke_session_mcp_leases s why now (co_db st)\<rparr>)"
    using own_rows[where st = st and au = "db_audit (co_db st)"] by (simp add: revoke_session_mcp_leases_def)
qed

lemma keeps_requested: "h_keeps P (h_run (record_and_dispatch_command fid now c))"
  by (rule h_keeps_run) (rule requested)

lemma keeps_lifecycle: "h_keeps P (lifecycle_command env ids r k)"
  unfolding lifecycle_command_def
  by (auto intro!: h_keeps_bind h_keeps_check keeps_load_detail keeps_requested h_keeps_txn h_keeps_ok
      simp: leases_kept)

lemma keeps_resolve: "h_keeps P (resolve_approval_with_correlation env ids s a ok m)"
  unfolding resolve_approval_with_correlation_def
  by (intro h_keeps_bind h_keeps_check keeps_load_detail keeps_requested h_keeps_ok)

lemma keeps_create: "h_keeps P (create_session_with_correlation env ids request)"
  unfolding create_session_with_correlation_def Let_def
  by (intro h_keeps_bind h_keeps_check keeps_load_placement keeps_quota keeps_insert_session keeps_dispatch
      keeps_load_detail)

end

lemma record_dispatch_inv:
  assumes "outbox_inv (co_db st)" "record_and_dispatch_command fid now c st = Inr st'"
  shows "outbox_inv (co_db st')"
proof -
  obtain db where r: "record_command_on_connection c (co_db st) = Inr db"
    and st': "st' = dispatch_pending_commands fid now (target_node_id (ce_target c))
      (st\<lparr>co_db := update_command_state (ce_command_id c) CS_PendingDispatch now db\<rparr>)"
    using assms(2) by (auto simp: record_and_dispatch_command_def record_command_def result_simps)
  have "waiting db (ce_command_id c)"
    using record_command_row[OF r] by (simp add: waiting_def new_command_row_def is_terminal_command_state_def)
  then show ?thesis
    using outbox_inv_update_state[OF outbox_inv_record_command[OF assms(1) r]] dispatch_inv by (simp add: st')
qed

interpretation outbox_requests: core_property journal_ok
proof
  fix st b now m e st' assume "journal_ok st" "accept_node_event b now m e st = Inr st'"
  then show "journal_ok st'" using command_onlyD[OF command_only_journal accept_node_event_commands] by blast
next
  fix st c db assume "journal_ok st" "record_command_on_connection c (co_db st) = Inr db"
  then show "journal_ok (st\<lparr>co_db := db\<rparr>)" using outbox_inv_record_command by (auto simp: journal_ok_def)
next
  fix st c t m s x now db assume "journal_ok st" "record_turn_submission c t m s x now (co_db st) = Inr db"
  then show "journal_ok (st\<lparr>co_db := db\<rparr>)" using outbox_inv_record_turn by (auto simp: journal_ok_def)
next
  fix st fid now n assume "journal_ok st"
  then show "journal_ok (dispatch_pending_commands fid now n st)" using dispatch_inv by (simp add: journal_ok_def)
next
  fix st fid now c st' assume "journal_ok st" "record_and_dispatch_command fid now c st = Inr st'"
  then show "journal_ok st'" using record_dispatch_inv by (auto simp: journal_ok_def)
next
  fix st au le assume "journal_ok st"
  then show "journal_ok (st\<lparr>co_db := (co_db st)\<lparr>db_audit := au, db_leases := le\<rparr>\<rparr>)"
    using outbox_inv_cong[of "(co_db st)\<lparr>db_audit := au, db_leases := le\<rparr>" "co_db st"] by (simp add: journal_ok_def)
next
  fix st ss rs assume "journal_ok st"
  then show "journal_ok (st\<lparr>co_db := (co_db st)\<lparr>db_sessions := ss, db_runtimes := rs\<rparr>\<rparr>)"
    using outbox_inv_cong[of "(co_db st)\<lparr>db_sessions := ss, db_runtimes := rs\<rparr>" "co_db st"] by (simp add: journal_ok_def)
qed

lemma same_log_tables:
  "db_events db = db_events (co_db st) \<Longrightarrow> db_publication_outbox db = db_publication_outbox (co_db st) \<Longrightarrow>
   same_log st (st\<lparr>co_db := db\<rparr>)"
  by (auto simp: same_log_def enqueued_def queued_acks_def)

lemma record_command_log:
  "record_command_on_connection c db = Inr db' \<Longrightarrow>
   db_events db' = db_events db \<and> db_publication_outbox db' = db_publication_outbox db"
  by (auto simp: record_command_on_connection_def result_simps insert_command_def enqueue_dispatch_def split: if_splits)

lemma record_turn_log:
  "record_turn_submission c t m s x now db = Inr db' \<Longrightarrow>
   db_events db' = db_events db \<and> db_publication_outbox db' = db_publication_outbox db"
  by (auto simp: record_turn_submission_def result_simps insert_command_def enqueue_dispatch_def Let_def
      insert_turn_def insert_message_def split: if_splits)

lemma record_dispatch_log:
  assumes "record_and_dispatch_command fid now c st = Inr st'"
  shows "same_log st st'"
proof -
  obtain db where r: "record_command_on_connection c (co_db st) = Inr db"
    and st': "st' = dispatch_pending_commands fid now (target_node_id (ce_target c))
      (st\<lparr>co_db := update_command_state (ce_command_id c) CS_PendingDispatch now db\<rparr>)"
    using assms by (auto simp: record_and_dispatch_command_def record_command_def result_simps)
  have "same_log st (st\<lparr>co_db := update_command_state (ce_command_id c) CS_PendingDispatch now db\<rparr>)"
    using record_command_log[OF r] by (intro same_log_tables) (simp_all add: update_command_state_def delete_dispatch_def Let_def)
  then show ?thesis unfolding st' using same_log_dispatch same_log_trans by blast
qed

interpretation log_requests: core_property "log_ok K" for K
proof
  fix st b now m e st' assume "log_ok K st" "accept_node_event b now m e st = Inr st'"
  then show "log_ok K st'" using log_ok_mono[OF accept_node_event_log] by blast
next
  fix st c db assume "log_ok K st" "record_command_on_connection c (co_db st) = Inr db"
  then show "log_ok K (st\<lparr>co_db := db\<rparr>)" using log_ok_same[OF same_log_tables] record_command_log by blast
next
  fix st c t m s x now db assume "log_ok K st" "record_turn_submission c t m s x now (co_db st) = Inr db"
  then show "log_ok K (st\<lparr>co_db := db\<rparr>)" using log_ok_same[OF same_log_tables] record_turn_log by blast
next
  fix st fid now n assume "log_ok K st"
  then show "log_ok K (dispatch_pending_commands fid now n st)" using log_ok_same[OF same_log_dispatch] by blast
next
  fix st fid now c st' assume "log_ok K st" "record_and_dispatch_command fid now c st = Inr st'"
  then show "log_ok K st'" using log_ok_same[OF record_dispatch_log] by blast
next
  fix st au le assume "log_ok K st"
  then show "log_ok K (st\<lparr>co_db := (co_db st)\<lparr>db_audit := au, db_leases := le\<rparr>\<rparr>)"
    using log_ok_same[OF same_log_tables] by (simp add: log_ok_same same_log_tables)
next
  fix st ss rs assume "log_ok K st"
  then show "log_ok K (st\<lparr>co_db := (co_db st)\<lparr>db_sessions := ss, db_runtimes := rs\<rparr>\<rparr>)"
    using log_ok_same[OF same_log_tables] by (simp add: log_ok_same same_log_tables)
qed

text \<open>The tables of the scheduler are out of the reach of the other requests.\<close>

definition sched_tables where
  "sched_tables db = (db_scheduled_messages db, db_jobs db, db_job_runs db)"

lemma sched_of_request: "request_tables db = request_tables db' \<Longrightarrow> sched_tables db = sched_tables db'"
  by (simp add: request_tables_def sched_tables_def)

lemma sched_tables_frame [simp]:
  "sched_tables (db\<lparr>db_audit := a\<rparr>) = sched_tables db" "sched_tables (db\<lparr>db_leases := l\<rparr>) = sched_tables db"
  "sched_tables (db\<lparr>db_sessions := s\<rparr>) = sched_tables db" "sched_tables (db\<lparr>db_runtimes := r\<rparr>) = sched_tables db"
  by (simp_all add: sched_tables_def)

interpretation sched_requests: core_property "\<lambda>st. sched_tables (co_db st) = T" for T
  by unfold_locales
    (simp_all add: sched_of_request[OF request_accept] sched_of_request[OF request_record_command]
      sched_of_request[OF request_record_turn] sched_of_request[OF request_dispatch]
      sched_of_request[OF request_record_dispatch])

section \<open>A session is created whole\<close>

lemma record_command_frame:
  "record_command_on_connection c db = Inr db' \<Longrightarrow> db_sessions db' = db_sessions db \<and> db_runtimes db' = db_runtimes db
     \<and> db_placements db' = db_placements db"
  by (auto simp: record_command_on_connection_def result_simps insert_command_def enqueue_dispatch_def split: if_splits)

lemma insert_session_whole:
  assumes "insert_session_aggregate a ids p t pr now db = Inr db'"
  shows "db_sessions db' = db_sessions db @ [new_session_row ids (ps_project_placement_id p) t pr now]"
    and "db_runtimes db' = db_runtimes db @ [new_runtime_row ids pr now]"
    and "find_command db' (si_command ids) = Some (new_command_row CS_Recorded (start_command a ids p pr now))"
    and "find_session db' (si_session ids) = Some (new_session_row ids (ps_project_placement_id p) t pr now)"
    and "find_runtime db' (si_runtime ids) = Some (new_runtime_row ids pr now)"
proof -
  let ?db = "db\<lparr>db_sessions := db_sessions db @ [new_session_row ids (ps_project_placement_id p) t pr now],
     db_runtimes := db_runtimes db @ [new_runtime_row ids pr now]\<rparr>"
  have r: "record_command_on_connection (start_command a ids p pr now) ?db = Inr db'"
    and n: "find_session db (si_session ids) = None" "find_runtime db (si_runtime ids) = None"
    using assms by (auto simp: insert_session_aggregate_def result_simps)
  note f = record_command_frame[OF r] and c = record_command_row[OF r]
  show "db_sessions db' = db_sessions db @ [new_session_row ids (ps_project_placement_id p) t pr now]"
    and "db_runtimes db' = db_runtimes db @ [new_runtime_row ids pr now]" using f by simp_all
  show "find_command db' (si_command ids) = Some (new_command_row CS_Recorded (start_command a ids p pr now))"
    using c by (simp add: start_command_def)
  show "find_session db' (si_session ids) = Some (new_session_row ids (ps_project_placement_id p) t pr now)"
    "find_runtime db' (si_runtime ids) = Some (new_runtime_row ids pr now)"
    using f n by (simp_all add: select_by_append new_session_row_def new_runtime_row_def)
qed

section \<open>The stream\<close>

lemma live_events_bound: "e \<in> set (live_events sid l es) \<Longrightarrow> l < session_event_cursor e \<and> ev_session_thread_id e = Some sid"
  by (induction es arbitrary: l) (fastforce simp: event_matches_session_after_seq_def split: if_splits)+

lemma live_events_increasing: "sorted_wrt (<) (map session_event_cursor (live_events sid l es))"
  by (induction es arbitrary: l) (auto dest: live_events_bound)

lemma live_events_filter:
  "sorted_wrt (<) (map session_event_cursor (filter (\<lambda>e. event_matches_session_after_seq e sid l) es)) \<Longrightarrow>
   live_events sid l es = filter (\<lambda>e. event_matches_session_after_seq e sid l) es"
proof (induction es arbitrary: l)
  case (Cons e es)
  show ?case
  proof (cases "event_matches_session_after_seq e sid l")
    case True
    let ?c = "session_event_cursor e"
    have "event_matches_session_after_seq x sid ?c" if "x \<in> set es" "event_matches_session_after_seq x sid l" for x
      using Cons.prems True that by (auto simp: event_matches_session_after_seq_def)
    then have f: "filter (\<lambda>e. event_matches_session_after_seq e sid ?c) es = filter (\<lambda>e. event_matches_session_after_seq e sid l) es"
      using True by (intro filter_cong) (auto simp: event_matches_session_after_seq_def)
    then show ?thesis using Cons.IH[of ?c] Cons.prems True by simp
  qed (use Cons in simp)
qed simp

lemma sort_key_sorted: "sorted (map k xs) \<Longrightarrow> sort_key k xs = xs"
proof (induction xs)
  case (Cons x xs)
  then show ?case by (cases xs) auto
qed simp

lemma row_wf_cursor:
  "row_wf r \<Longrightarrow> er_session_thread_id r = None \<and> er_session_projection_seq r = None
     \<or> (\<exists>s q. er_session_thread_id r = Some s \<and> er_session_projection_seq r = Some q)"
  by (cases "er_session_thread_id r") (auto simp: row_wf_def)

lemma session_seqs_rows:
  assumes "ingest_inv db"
  shows "map event_cursor_key (filter (\<lambda>r. er_session_thread_id r = Some sid) (db_events db)) = session_seqs sid db"
proof -
  have "\<forall>r\<in>set es. row_wf r \<Longrightarrow> map event_cursor_key (filter (\<lambda>r. er_session_thread_id r = Some sid) es)
      = filter_map er_session_projection_seq (filter (\<lambda>r. er_session_thread_id r = Some sid) es)" for es
    by (induction es) (auto simp: event_cursor_key_def dest!: row_wf_cursor)
  then show ?thesis using assms by (simp add: ingest_inv_def session_seqs_def)
qed

lemma filter_upto: "0 \<le> a \<Longrightarrow> filter (\<lambda>q. a < q) [1..n] = [a + 1..(n :: int)]"
proof (cases "1 \<le> a \<and> a \<le> n")
  case True
  then have "[1..n] = [1..a] @ [a + 1..n]" using upto_split2[of 1 a n] by simp
  then show ?thesis by (simp add: filter_empty_conv)
next
  case False
  moreover assume "0 \<le> a"
  ultimately consider "a = 0" | "n < a" by linarith
  then show ?thesis by cases (auto simp: filter_empty_conv filter_id_conv)
qed

lemma backlog_cursors:
  assumes "ingest_inv db" "0 \<le> a"
  shows "map session_event_cursor (load_events sid a db) = [a + 1..int (length (session_seqs sid db))]"
proof -
  let ?rows = "filter (\<lambda>r. er_session_thread_id r = Some sid) (db_events db)"
  have wf: "\<forall>r\<in>set ?rows. row_wf r" using assms(1) by (simp add: ingest_inv_def)
  have keys: "map event_cursor_key ?rows = [1..int (length (session_seqs sid db))]"
    using session_seqs_rows[OF assms(1), of sid] assms(1) unfolding ingest_inv_def cursor_dense_def by metis
  let ?late = "filter (\<lambda>r. a < event_cursor_key r) ?rows"
  have late: "map event_cursor_key ?late = [a + 1..int (length (session_seqs sid db))]"
    using keys filter_upto[OF assms(2)] filter_map[of "\<lambda>q. a < q" event_cursor_key ?rows] by (simp add: comp_def)
  have "filter (\<lambda>r. er_session_thread_id r = Some sid
      \<and> (case er_session_projection_seq r of None \<Rightarrow> False | Some q \<Rightarrow> a < q)) (db_events db) = ?late"
    using assms(1)
    by (simp add: filter_filter, intro filter_cong) (auto simp: ingest_inv_def event_cursor_key_def dest!: row_wf_cursor bspec)
  then have l: "load_events sid a db = map (\<lambda>r. (er_event r)\<lparr>ev_session_projection_seq := er_session_projection_seq r\<rparr>) ?late"
    using late by (simp add: load_events_def sort_key_sorted)
  have "map session_event_cursor (map (\<lambda>r. (er_event r)\<lparr>ev_session_projection_seq := er_session_projection_seq r\<rparr>) ?late)
      = map event_cursor_key ?late"
    using wf by (auto simp: session_event_cursor_def event_cursor_key_def dest!: row_wf_cursor bspec)
  then show ?thesis unfolding l late by (simp only: late)
qed

lemma fold_max_upto:
  assumes "map f es = [a + 1..n]"
  shows "fold (\<lambda>e q. max q (f e)) es a = max a (n :: int)"
proof -
  have "fold (\<lambda>e q. max q (f e)) es a = fold max (map f es) a"
    by (subst fold_map, rule fold_cong) (auto simp: max.commute)
  also have "\<dots> = Max (set (a # map f es))" by (simp add: Max.set_eq_fold[symmetric] del: set_map)
  also have "\<dots> = max a n"
    unfolding assms list.set set_upto by (rule Max_eqI) auto
  finally show ?thesis .
qed

text \<open>The cursors of the stream: no gap, no repetition, in order.\<close>

lemma stream_cursors:
  assumes "ingest_inv db" "0 \<le> a" "a \<le> n" "n = int (length (session_seqs sid db))"
    "map session_event_cursor (filter (\<lambda>e. event_matches_session_after_seq e sid n) bc) = [n + 1..m]" "n \<le> m"
  shows "map session_event_cursor (session_stream sid a bc db) = [a + 1..m]"
proof -
  note b = backlog_cursors[OF assms(1,2), of sid, folded assms(4)]
  have l: "fold (\<lambda>e q. max q (session_event_cursor e)) (load_events sid a db) a = n"
    using fold_max_upto[OF b] assms(3) by simp
  have "live_events sid n bc = filter (\<lambda>e. event_matches_session_after_seq e sid n) bc"
    by (rule live_events_filter) (simp add: assms(5))
  then have "map session_event_cursor (session_stream sid a bc db) = [a + 1..n] @ [n + 1..m]"
    using b assms(5) by (simp add: session_stream_def Let_def l)
  also have "\<dots> = [a + 1..m]"
    using assms(3,6) upto_split2[of "a + 1" n m] by (cases "a = n") simp_all
  finally show ?thesis .
qed

lemma stream_increasing:
  assumes "ingest_inv db" "0 \<le> a"
  shows "sorted_wrt (<) (map session_event_cursor (session_stream sid a bc db))"
proof -
  let ?n = "int (length (session_seqs sid db))"
  note b = backlog_cursors[OF assms, of sid]
  have l: "fold (\<lambda>e q. max q (session_event_cursor e)) (load_events sid a db) a = max a ?n"
    by (rule fold_max_upto[OF b])
  have "\<forall>x\<in>set (map session_event_cursor (load_events sid a db)). x \<le> max a ?n" unfolding b by auto
  then show ?thesis
    using live_events_increasing[of sid "max a ?n" bc] b
    by (auto simp: session_stream_def Let_def l sorted_wrt_append dest!: live_events_bound)
qed

end
