(* ===== verification/Scheduling_Facts.thy ===== *)
theory Scheduling_Facts
  imports Jobs Session_Facts
begin

text \<open>
  What the scheduler guarantees. \<open>scheduler_property\<close> extends the contract of the requests by
  the writes the scheduler makes on its own tables; whatever they keep is kept by every
  request and every tick. It is instantiated with the invariants of the control channel, with
  the invariant of the job runs, and with the finality of a run that ended and of a message
  that was sent or cancelled.
\<close>

section \<open>Handlers that match, iterate and ignore\<close>

lemma h_keeps_match: "h_keeps P f \<Longrightarrow> (\<And>x. h_keeps P (g x)) \<Longrightarrow> (\<And>e. h_keeps P (k e)) \<Longrightarrow> h_keeps P (h_match f g k)"
  by (simp add: h_keeps_def h_match_def split: prod.splits sum.splits) (metis snd_conv)

lemma h_keeps_each: "(\<And>x. h_keeps P (f x)) \<Longrightarrow> h_keeps P (h_each f xs)"
  by (induction xs) (simp_all add: h_keeps_ok h_keeps_bind)

lemma h_keeps_ignore: "h_keeps P f \<Longrightarrow> h_keeps P (h_ignore f)"
  by (simp add: h_keeps_def h_ignore_def)

lemma h_keeps_write: "(\<And>st. P st \<Longrightarrow> P (st\<lparr>co_db := f (co_db st)\<rparr>)) \<Longrightarrow> h_keeps P (h_write f)"
  unfolding h_write_def by (rule h_keeps_modify)

section \<open>The contract\<close>

text \<open>Which rows an update of the scheduler may touch, and what it leaves of them.\<close>

definition open_message :: "scheduled_message_row \<Rightarrow> bool" where
  "open_message r \<longleftrightarrow> sm_state r \<in> {SM_Scheduled, SM_Sending, SM_Failed}"

definition message_update :: "(scheduled_message_row \<Rightarrow> bool) \<Rightarrow> (scheduled_message_row \<Rightarrow> scheduled_message_row) \<Rightarrow> bool" where
  "message_update p f \<longleftrightarrow> (\<forall>r. p r \<longrightarrow> open_message r)
     \<and> (\<forall>r. sm_scheduled_message_id (f r) = sm_scheduled_message_id r \<and> sm_session_thread_id (f r) = sm_session_thread_id r)"

definition run_update :: "(job_run_row \<Rightarrow> bool) \<Rightarrow> (job_run_row \<Rightarrow> job_run_row) \<Rightarrow> bool" where
  "run_update p f \<longleftrightarrow> (\<forall>r. p r \<longrightarrow> active_run r)
     \<and> (\<forall>r. jn_job_run_id (f r) = jn_job_run_id r \<and> jn_job_id (f r) = jn_job_id r \<and> occurrence (f r) = occurrence r)"

locale scheduler_property = core_property +
  assumes message_inserted: "P st \<Longrightarrow> insert_scheduled_message row (co_db st) = Inr db \<Longrightarrow> P (st\<lparr>co_db := db\<rparr>)"
    and messages_updated: "P st \<Longrightarrow> message_update p f \<Longrightarrow> P (st\<lparr>co_db := update_scheduled p f (co_db st)\<rparr>)"
    and run_inserted: "P st \<Longrightarrow> insert_run_row r (co_db st) = Inr db \<Longrightarrow> P (st\<lparr>co_db := db\<rparr>)"
    and runs_updated: "P st \<Longrightarrow> run_update q g \<Longrightarrow> P (st\<lparr>co_db := update_runs q g (co_db st)\<rparr>)"
    and job_inserted: "P st \<Longrightarrow> insert_job j (co_db st) = Inr db \<Longrightarrow> P (st\<lparr>co_db := db\<rparr>)"
    and jobs_updated: "P st \<Longrightarrow> (\<And>j. jb_job_id (h j) = jb_job_id j) \<Longrightarrow> P (st\<lparr>co_db := update_jobs k h (co_db st)\<rparr>)"
begin

lemma keeps_messages: "message_update p f \<Longrightarrow> h_keeps P (h_write (update_scheduled p f))"
  by (rule h_keeps_write) (rule messages_updated)

lemma keeps_runs: "run_update q g \<Longrightarrow> h_keeps P (h_write (update_runs q g))"
  by (rule h_keeps_write) (rule runs_updated)

lemma keeps_jobs: "(\<And>j. jb_job_id (h j) = jb_job_id j) \<Longrightarrow> h_keeps P (h_write (update_jobs k h))"
  by (rule h_keeps_write) (rule jobs_updated)

lemmas keeps_basic = h_keeps_bind h_keeps_check h_keeps_ok h_keeps_match h_keeps_each h_keeps_ignore
  keeps_messages keeps_runs keeps_jobs keeps_load_detail keeps_load_placement keeps_quota keeps_dispatch keeps_submit
  keeps_lifecycle

lemma keeps_claim: "expected \<in> {SM_Scheduled, SM_Failed} \<Longrightarrow> h_keeps P (claim_scheduled_message env s m expected)"
  unfolding claim_scheduled_message_def Let_def
  by (intro keeps_basic) (auto simp: message_update_def open_message_def)

lemma keeps_sent: "h_keeps P (mark_sent env s m c)"
  unfolding mark_sent_def
  by (rule h_keeps_write, rule messages_updated) (auto simp: message_update_def open_message_def)

lemma keeps_failed: "h_keeps P (mark_failed env s m e)"
  unfolding mark_failed_def
  by (auto intro!: keeps_messages simp: message_update_def open_message_def split: prod.split)

lemma keeps_dispatch_message: "h_keeps P (dispatch_scheduled_message env s m)"
  unfolding dispatch_scheduled_message_def submit_turn_with_correlation_def
  by (auto intro!: keeps_basic keeps_sent keeps_failed split: prod.split)

lemma keeps_send_message: "h_keeps P (send_scheduled_message_now_route env s m)" "h_keeps P (retry_scheduled_message_route env s m)"
  unfolding send_scheduled_message_now_route_def retry_scheduled_message_route_def send_scheduled_message_def
  by (auto intro!: keeps_basic keeps_claim keeps_dispatch_message)

lemma keeps_create_message: "h_keeps P (create_scheduled_message_route env m s c d z)"
  unfolding create_scheduled_message_route_def
  by (intro keeps_basic h_keeps_txn) (rule message_inserted)

lemma keeps_update_message: "h_keeps P (update_scheduled_message_route env s m c d z)"
  unfolding update_scheduled_message_route_def Let_def
  by (intro keeps_basic) (auto simp: message_update_def open_message_def reschedule_def)

lemma keeps_cancel_message: "h_keeps P (cancel_scheduled_message_route env s m)"
  unfolding cancel_scheduled_message_route_def Let_def
  by (intro keeps_basic) (auto simp: message_update_def open_message_def)

lemma keeps_message_tick: "h_keeps P (scheduled_message_tick env)"
  unfolding scheduled_message_tick_def dispatch_due_scheduled_messages_def
  by (auto intro!: keeps_basic keeps_claim keeps_dispatch_message split: prod.split)

lemma recovered_messages: "P st \<Longrightarrow> P (st\<lparr>co_db := recover_interrupted_scheduled_messages now (co_db st)\<rparr>)"
  unfolding recover_interrupted_scheduled_messages_def
  by (rule messages_updated) (auto simp: message_update_def open_message_def)

lemma recovered_runs: "P st \<Longrightarrow> P (st\<lparr>co_db := recover_job_runs (co_db st)\<rparr>)"
  unfolding recover_job_runs_def
  by (rule runs_updated) (auto simp: run_update_def active_run_def occurrence_def)

lemma keeps_job_requests:
  "h_keeps P (create_job_route env cal j q)" "h_keeps P (update_job_route env cal i u)"
  "h_keeps P (enable_job_route env cal i)" "h_keeps P (disable_job_route env i)"
  unfolding create_job_route_def update_job_route_def enable_job_route_def disable_job_route_def Let_def
  by (auto intro!: keeps_basic h_keeps_txn elim: job_inserted)

lemma keeps_insert_run: "h_keeps P (insert_job_run env job t s f)"
  unfolding insert_job_run_def Let_def by (intro keeps_basic h_keeps_txn) (rule run_inserted)

lemma keeps_claim_job: "h_keeps P (claim_due_job env cal i)"
proof -
  have "P (st\<lparr>co_db := db\<rparr>)"
    if "P st" "insert_run_row r (update_jobs p (\<lambda>j. j\<lparr>jb_next_run_at := t, jb_updated_at := u\<rparr>) (co_db st)) = Inr db" for st r p t u db
    using run_inserted[OF jobs_updated[OF that(1), of "\<lambda>j. j\<lparr>jb_next_run_at := t, jb_updated_at := u\<rparr>" p], of r db] that(2) by simp
  then show ?thesis unfolding claim_due_job_def Let_def
    by (auto intro!: keeps_basic h_keeps_txn split: option.split bool.split if_splits)
qed

lemma keeps_fail: "h_keeps P (fail_job_run env run c m t)"
  unfolding fail_job_run_def Let_def
  by (auto intro!: keeps_basic simp: run_update_def end_run_def occurrence_def)

lemma keeps_submitted: "h_keeps P (run_submitted env run t c)"
  unfolding run_submitted_def by (intro keeps_runs) (auto simp: run_update_def active_run_def occurrence_def)

lemma keeps_start: "h_keeps P (start_job_run env run)"
proof -
  have "P (st\<lparr>co_db := db\<rparr>)" if "P st" "run_update q g"
    "insert_session_aggregate a ids p t pr now (update_runs q g (co_db st)) = Inr db" for st q g a ids p t pr now db
  proof -
    have "P (snd (h_txn (insert_session_aggregate a ids p t pr now) (st\<lparr>co_db := update_runs q g (co_db st)\<rparr>)))"
      using keeps_insert_session runs_updated[OF that(1,2)] by (simp add: h_keeps_def)
    then show ?thesis using that(3) by (simp add: h_txn_def)
  qed
  note this[rotated 2]
  then show ?thesis unfolding start_job_run_def Let_def
    by (auto intro!: keeps_basic h_keeps_txn simp: run_update_def active_run_def occurrence_def)
qed

lemma keeps_starting: "h_keeps P (drive_starting_job_run env run)"
  unfolding drive_starting_job_run_def
  by (auto intro!: keeps_basic keeps_fail keeps_submitted split: option.split prod.split)

lemma keeps_running: "h_keeps P (drive_running_job_run env run)"
proof -
  have w: "h_keeps P (h_write (\<lambda>db. update_runs (\<lambda>r. jn_job_run_id r = i \<and> jn_state r = JR_Running)
         (\<lambda>r. r\<lparr>jn_state := JR_Succeeded, jn_finished_at := t, jn_summary := f db\<rparr>) db))" for i t f
    by (rule h_keeps_write, rule runs_updated) (auto simp: run_update_def active_run_def occurrence_def)
  show ?thesis unfolding drive_running_job_run_def
    by (auto intro!: keeps_basic keeps_fail w split: option.split prod.split turn_state.split runtime_session_state.split)
qed

lemma keeps_drive: "h_keeps P (drive_job_runs env)"
  unfolding drive_job_runs_def drive_job_run_def
  by (auto intro!: keeps_basic keeps_fail keeps_start keeps_starting keeps_running split: job_run_state.split prod.split)

lemma keeps_job_tick: "h_keeps P (job_scheduler_tick env cal)"
  unfolding job_scheduler_tick_def dispatch_due_jobs_def
  by (intro keeps_basic keeps_claim_job keeps_drive)

lemma keeps_run_requests: "h_keeps P (run_job_route env i f)" "h_keeps P (cancel_job_run_route env r)"
  unfolding run_job_route_def cancel_job_run_route_def Let_def
  by (auto intro!: keeps_basic keeps_insert_run keeps_drive simp: run_update_def end_run_def occurrence_def split: option.split)

end

section \<open>Instances\<close>

lemma scheduler_writes:
  "insert_scheduled_message row db = Inr db' \<Longrightarrow> \<exists>x. db' = db\<lparr>db_scheduled_messages := x\<rparr>"
  "insert_run_row r db = Inr db' \<Longrightarrow> \<exists>x. db' = db\<lparr>db_job_runs := x\<rparr>"
  "insert_job j db = Inr db' \<Longrightarrow> \<exists>x. db' = db\<lparr>db_jobs := x\<rparr>"
  "\<exists>x. update_scheduled p f db = db\<lparr>db_scheduled_messages := x\<rparr>"
  "\<exists>x. update_runs q g db = db\<lparr>db_job_runs := x\<rparr>"
  "\<exists>x. update_jobs k h db = db\<lparr>db_jobs := x\<rparr>"
  by (auto simp: insert_scheduled_message_def insert_run_row_def insert_job_def update_scheduled_def update_runs_def
      update_jobs_def result_simps)

text \<open>A property of the control channel does not read the scheduler's tables.\<close>

lemma channel_scheduler:
  assumes "core_property P"
    and f: "\<And>st x. P st \<Longrightarrow> P (st\<lparr>co_db := (co_db st)\<lparr>db_scheduled_messages := x\<rparr>\<rparr>)"
      "\<And>st x. P st \<Longrightarrow> P (st\<lparr>co_db := (co_db st)\<lparr>db_job_runs := x\<rparr>\<rparr>)"
      "\<And>st x. P st \<Longrightarrow> P (st\<lparr>co_db := (co_db st)\<lparr>db_jobs := x\<rparr>\<rparr>)"
  shows "scheduler_property P"
proof (intro scheduler_property.intro scheduler_property_axioms.intro assms(1))
  fix st row db assume "P st" "insert_scheduled_message row (co_db st) = Inr db"
  then show "P (st\<lparr>co_db := db\<rparr>)" using scheduler_writes(1) f(1) by blast
next
  fix st p g assume "P st"
  then show "P (st\<lparr>co_db := update_scheduled p g (co_db st)\<rparr>)" using scheduler_writes(4)[of p g "co_db st"] f(1) by metis
next
  fix st r db assume "P st" "insert_run_row r (co_db st) = Inr db"
  then show "P (st\<lparr>co_db := db\<rparr>)" using scheduler_writes(2) f(2) by blast
next
  fix st p g assume "P st"
  then show "P (st\<lparr>co_db := update_runs p g (co_db st)\<rparr>)" using scheduler_writes(5)[of p g "co_db st"] f(2) by metis
next
  fix st j db assume "P st" "insert_job j (co_db st) = Inr db"
  then show "P (st\<lparr>co_db := db\<rparr>)" using scheduler_writes(3) f(3) by blast
next
  fix st p g assume "P st"
  then show "P (st\<lparr>co_db := update_jobs p g (co_db st)\<rparr>)" using scheduler_writes(6)[of p g "co_db st"] f(3) by metis
qed

interpretation outbox_schedule: scheduler_property journal_ok
  by (rule channel_scheduler[OF outbox_requests.core_property_axioms])
    (simp_all add: journal_ok_def cong: outbox_inv_cong)

interpretation log_schedule: scheduler_property "log_ok K" for K
  by (rule channel_scheduler[OF log_requests.core_property_axioms]; rule log_ok_same[OF same_log_tables]; simp)

text \<open>A property of the scheduler's tables is one no other request can touch.\<close>

lemma sched_only_core:
  assumes "\<And>st st'. sched_tables (co_db st') = sched_tables (co_db st) \<Longrightarrow> P st \<Longrightarrow> P st'"
  shows "core_property P"
proof
  fix st b now m e st' assume "P st" "accept_node_event b now m e st = Inr st'"
  then show "P st'" using assms sched_requests.accept[OF refl] by blast
next
  fix st c db assume "P st" "record_command_on_connection c (co_db st) = Inr db"
  then show "P (st\<lparr>co_db := db\<rparr>)" using assms sched_requests.recorded[OF refl] by blast
next
  fix st c t m s x now db assume "P st" "record_turn_submission c t m s x now (co_db st) = Inr db"
  then show "P (st\<lparr>co_db := db\<rparr>)" using assms sched_requests.submitted[OF refl] by blast
next
  fix st fid now n assume "P st"
  then show "P (dispatch_pending_commands fid now n st)" using assms sched_requests.dispatched[OF refl] by blast
next
  fix st fid now c st' assume "P st" "record_and_dispatch_command fid now c st = Inr st'"
  then show "P st'" using assms sched_requests.requested[OF refl] by blast
next
  fix st au le assume "P st"
  then show "P (st\<lparr>co_db := (co_db st)\<lparr>db_audit := au, db_leases := le\<rparr>\<rparr>)" by (rule assms[rotated]) simp
next
  fix st ss rs assume "P st"
  then show "P (st\<lparr>co_db := (co_db st)\<lparr>db_sessions := ss, db_runtimes := rs\<rparr>\<rparr>)" by (rule assms[rotated]) simp
qed

subsection \<open>Runs\<close>

definition runs_of_job :: "id \<Rightarrow> core_db \<Rightarrow> job_run_row list" where
  "runs_of_job j db = filter (\<lambda>r. jn_job_id r = j \<and> active_run r) (db_job_runs db)"

definition runs_inv :: "core_db \<Rightarrow> bool" where
  "runs_inv db \<longleftrightarrow> unique_key jn_job_run_id (db_job_runs db) \<and> (\<forall>j. length (runs_of_job j db) \<le> 1)
     \<and> distinct (filter_map occurrence (db_job_runs db))"

lemma set_filter_map: "y \<in> set (filter_map f xs) \<longleftrightarrow> Some y \<in> f ` set xs"
  by (induction xs) (auto split: option.split)

lemma runs_inv_insert:
  assumes "runs_inv db" "insert_run_row r db = Inr db'"
  shows "runs_inv db'"
proof -
  have d: "db' = db\<lparr>db_job_runs := db_job_runs db @ [r]\<rparr>" and n: "jn_job_run_id r \<notin> jn_job_run_id ` set (db_job_runs db)"
    and o': "occurrence r \<noteq> None \<longrightarrow> occurrence r \<notin> occurrence ` set (db_job_runs db)"
    and a: "active_run r \<longrightarrow> runs_of_job (jn_job_id r) db = []"
    using assms(2) by (auto simp: insert_run_row_def result_simps select_by_None_iff runs_of_job_def list_all_iff filter_empty_conv)
  have "length (runs_of_job j db') \<le> 1" for j
    using assms(1) a unfolding d runs_inv_def by (auto simp: runs_of_job_def)
  moreover have "distinct (filter_map occurrence (db_job_runs db @ [r]))"
    using assms(1) o' by (auto simp: runs_inv_def filter_map_append set_filter_map split: option.split)
  ultimately show ?thesis using assms(1) n unfolding runs_inv_def d by (simp add: unique_key_def)
qed

lemma runs_inv_update:
  assumes "runs_inv db" "run_update q g"
  shows "runs_inv (update_runs q g db)"
proof -
  have "map jn_job_run_id (update_where q g t) = map jn_job_run_id t" for t
    using assms(2) by (induction t) (simp_all add: run_update_def)
  moreover have "filter_map occurrence (update_where q g t) = filter_map occurrence t" for t
    using assms(2) by (induction t) (simp_all add: run_update_def split: option.split)
  moreover have "length (filter (\<lambda>r. jn_job_id r = j \<and> active_run r) (update_where q g t))
      \<le> length (filter (\<lambda>r. jn_job_id r = j \<and> active_run r) t)" for j t
    using assms(2) by (induction t) (auto simp: run_update_def)
  ultimately show ?thesis using assms(1) order_trans
    unfolding runs_inv_def unique_key_def runs_of_job_def update_runs_def by fastforce
qed

interpretation runs_schedule: scheduler_property "\<lambda>st. runs_inv (co_db st)"
proof (intro scheduler_property.intro scheduler_property_axioms.intro)
  show "core_property (\<lambda>st. runs_inv (co_db st))"
    by (rule sched_only_core) (simp add: runs_inv_def sched_tables_def runs_of_job_def)
next
  fix st r db assume "runs_inv (co_db st)" "insert_run_row r (co_db st) = Inr db"
  then show "runs_inv (co_db (st\<lparr>co_db := db\<rparr>))" using runs_inv_insert by simp
next
  fix st q g assume "runs_inv (co_db st)" "run_update q g"
  then show "runs_inv (co_db (st\<lparr>co_db := update_runs q g (co_db st)\<rparr>))" using runs_inv_update by simp
qed (auto simp: runs_inv_def runs_of_job_def insert_scheduled_message_def update_scheduled_def insert_job_def
    update_jobs_def result_simps)

subsection \<open>Finality\<close>

definition run_ended :: "job_run_row \<Rightarrow> core_state \<Rightarrow> bool" where
  "run_ended r st \<longleftrightarrow> \<not> active_run r \<and> find_job_run (co_db st) (jn_job_run_id r) = Some r"

lemma select_by_untouched:
  "\<not> p r \<Longrightarrow> (\<And>x. key (f x) = key x) \<Longrightarrow> select_by key k t = Some r \<Longrightarrow> select_by key k (update_where p f t) = Some r"
  by (induction t) (auto split: if_splits)

interpretation ended_schedule: scheduler_property "run_ended r" for r
proof (intro scheduler_property.intro scheduler_property_axioms.intro)
  show "core_property (run_ended r)" by (rule sched_only_core) (simp add: run_ended_def sched_tables_def)
next
  fix st q g assume "run_ended r st" "run_update q g"
  then show "run_ended r (st\<lparr>co_db := update_runs q g (co_db st)\<rparr>)"
    by (auto simp: run_ended_def run_update_def update_runs_def intro!: select_by_untouched)
qed (auto simp: run_ended_def insert_scheduled_message_def update_scheduled_def insert_job_def update_jobs_def
    insert_run_row_def result_simps select_by_append)

definition message_closed :: "scheduled_message_row \<Rightarrow> core_state \<Rightarrow> bool" where
  "message_closed r st \<longleftrightarrow> \<not> open_message r
     \<and> select_by sm_scheduled_message_id (sm_scheduled_message_id r) (db_scheduled_messages (co_db st)) = Some r"

interpretation closed_schedule: scheduler_property "message_closed r" for r
proof (intro scheduler_property.intro scheduler_property_axioms.intro)
  show "core_property (message_closed r)" by (rule sched_only_core) (simp add: message_closed_def sched_tables_def)
next
  fix st p f assume "message_closed r st" "message_update p f"
  then show "message_closed r (st\<lparr>co_db := update_scheduled p f (co_db st)\<rparr>)"
    by (auto simp: message_closed_def message_update_def update_scheduled_def intro!: select_by_untouched)
qed (auto simp: message_closed_def insert_scheduled_message_def insert_job_def update_jobs_def update_runs_def
    insert_run_row_def result_simps select_by_append)

section \<open>Any sequence of steps\<close>

text \<open>One request, one tick or one event from a Node; the clock, ids and arguments are arbitrary.\<close>

inductive schedule_step :: "core_state \<Rightarrow> core_state \<Rightarrow> bool" where
  "schedule_step st (snd (create_scheduled_message_route env m s c d z st))"
| "schedule_step st (snd (update_scheduled_message_route env s m c' d' z' st))"
| "schedule_step st (snd (cancel_scheduled_message_route env s m st))"
| "schedule_step st (snd (send_scheduled_message_now_route env s m st))"
| "schedule_step st (snd (retry_scheduled_message_route env s m st))"
| "schedule_step st (snd (scheduled_message_tick env st))"
| "schedule_step st (st\<lparr>co_db := recover_interrupted_scheduled_messages now (co_db st)\<rparr>)"
| "schedule_step st (snd (create_job_route env cal j q st))"
| "schedule_step st (snd (update_job_route env cal j u st))"
| "schedule_step st (snd (enable_job_route env cal j st))"
| "schedule_step st (snd (disable_job_route env j st))"
| "schedule_step st (snd (run_job_route env j f st))"
| "schedule_step st (snd (cancel_job_run_route env r st))"
| "schedule_step st (snd (job_scheduler_tick env cal st))"
| "schedule_step st (st\<lparr>co_db := recover_job_runs (co_db st)\<rparr>)"
| "schedule_step st (snd (create_session_with_correlation senv ids request st))"
| "schedule_step st (snd (submit_turn_for_actor senv ids t m s c actor st))"
| "schedule_step st (snd (lifecycle_command senv ids r k st))"
| "schedule_step st (snd (resolve_approval_with_correlation senv ids s a ok msg st))"
| "schedule_step st (snd (attach_session senv s st))"
| "schedule_step st (snd (detach_session senv s st))"
| "accept_node_event b now m e st = Inr st' \<Longrightarrow> schedule_step st st'"

inductive schedule_steps :: "core_state \<Rightarrow> core_state \<Rightarrow> bool" where
  stay: "schedule_steps st st"
| more: "schedule_steps st st' \<Longrightarrow> schedule_step st' st'' \<Longrightarrow> schedule_steps st st''"

context scheduler_property
begin

lemmas keeps_requests = keeps_create_message keeps_update_message keeps_cancel_message keeps_send_message keeps_message_tick
  keeps_job_requests keeps_run_requests keeps_job_tick keeps_create keeps_submit keeps_lifecycle keeps_resolve keeps_attach

lemma step_keeps: "schedule_step st st' \<Longrightarrow> P st \<Longrightarrow> P st'"
  by (erule schedule_step.cases)
    (use keeps_requests recovered_messages recovered_runs accept in \<open>simp_all add: h_keeps_def\<close>)

lemma steps_keep: "schedule_steps st st' \<Longrightarrow> P st \<Longrightarrow> P st'"
  by (induction rule: schedule_steps.induct) (auto dest: step_keeps)

end

end
