(* ===== verification/Schedule_Times.thy ===== *)
theory Schedule_Times
  imports Scheduling_Facts
begin

text \<open>
  When the scheduler acts: the next occurrence of every valid schedule exists and lies in the
  future, a due job queues exactly one run and moves on, a claimed message always settles, and
  where one failing run holds up the others.
\<close>

section \<open>The next occurrence\<close>

text \<open>
  What the scheduler relies on of the calendar around an instant: nine days from the present
  date exist, weekdays follow each other, every clock time of these days is an instant, and an
  instant of a later day is later.
\<close>

definition minutes :: "nat \<Rightarrow> time" where
  "minutes n = int n * 60000000000"

definition calendar_ok :: "calendar \<Rightarrow> string \<Rightarrow> time \<Rightarrow> bool" where
  "calendar_ok cal tz after \<longleftrightarrow> (\<forall>n. ca_add_minutes cal after n = Some (after + minutes n))
     \<and> ca_timestamp cal after = Some after
     \<and> (\<exists>d. ca_date cal tz after = Some d \<and> 1 \<le> ca_weekday cal d \<and> ca_weekday cal d \<le> 7
        \<and> (\<forall>k. k < 9 \<longrightarrow> ca_tomorrow cal (d + int k) = Some (d + int k + 1)
            \<and> ca_weekday cal (d + int k + 1) = ca_weekday cal (d + int k) mod 7 + 1
            \<and> (\<forall>h m. h < 24 \<longrightarrow> m < 60 \<longrightarrow> (\<exists>t. ca_at cal tz (d + int k) h m = Some t \<and> ca_to_utc cal t = Some t
                 \<and> (1 \<le> k \<longrightarrow> after < t)))))"

lemma minutes_pos: "0 < n \<Longrightarrow> 0 < minutes n"
  by (simp add: minutes_def)

lemma next_occurrence_found:
  assumes days: "\<And>k. k < 9 \<Longrightarrow> ca_tomorrow cal (d + int k) = Some (d + int k + 1)
      \<and> (\<exists>t. ca_at cal tz (d + int k) h m = Some t \<and> ca_to_utc cal t = Some t \<and> (1 \<le> k \<longrightarrow> after < t))"
    and k: "1 \<le> k" "j \<le> k" "k < j + n" "k < 9" "w = None \<or> w = Some (ca_weekday cal (d + int k))"
  shows "\<exists>t. next_occurrence n cal tz w h m after (d + int j) = Inr t \<and> after < t"
  using k
proof (induction n arbitrary: j)
  case (Suc n)
  have j: "j < 9" using Suc.prems by linarith
  obtain t where t: "ca_at cal tz (d + int j) h m = Some t" "ca_to_utc cal t = Some t" "1 \<le> j \<longrightarrow> after < t"
    and s: "ca_tomorrow cal (d + int j) = Some (d + int (Suc j))"
    using days[OF j] by auto
  show ?case
  proof (cases "(w = None \<or> w = Some (ca_weekday cal (d + int j))) \<and> after < t")
    case True
    then show ?thesis using t by simp
  next
    case False
    then have "j \<noteq> k" using Suc.prems t(3) by auto
    then obtain t' where "next_occurrence n cal tz w h m after (d + int (Suc j)) = Inr t' \<and> after < t'"
      using Suc.IH[of "Suc j"] Suc.prems by auto
    moreover have "next_occurrence (Suc n) cal tz w h m after (d + int j) = next_occurrence n cal tz w h m after (d + int (Suc j))"
      using False t s by auto
    ultimately show ?thesis by metis
  qed
qed simp

lemma weekday_after:
  assumes "\<And>k. k < 9 \<Longrightarrow> f (d + int k + 1) = f (d + int k) mod 7 + 1" "1 \<le> f d" "f d \<le> (7 :: nat)"
  shows "k < 9 \<Longrightarrow> f (d + int k) = (f d + k + 6) mod 7 + 1"
proof (induction k)
  case 0
  have "(f d + 6) mod 7 + 1 = f d" using assms(2,3) by (cases "f d = 7") (auto simp: le_mod_geq)
  then show ?case by simp
next
  case (Suc k)
  have "f (d + int (Suc k)) = f (d + int k + 1)" by (rule arg_cong[of _ _ f]) simp
  also have "\<dots> = f (d + int k) mod 7 + 1" using assms(1)[of k] Suc.prems by linarith
  also have "\<dots> = (f d + k + 6 + 1) mod 7 + 1" using Suc by (simp add: mod_simps)
  finally show ?case by simp
qed

lemma weekday_found:
  assumes "1 \<le> (a :: nat)" "a \<le> 7" "1 \<le> w" "w \<le> 7"
  shows "\<exists>k. 1 \<le> k \<and> k < 8 \<and> (a + k + 6) mod 7 + 1 = w"
proof -
  have "w \<in> {1, 2, 3, 4, 5, 6, 7}" "a \<in> {1, 2, 3, 4, 5, 6, 7}" using assms by auto
  moreover have "\<forall>a \<in> {1, 2, 3, 4, 5, 6, 7}. \<forall>w \<in> {1, 2, 3, 4, 5, 6, 7 :: nat}. \<exists>k \<in> {1, 2, 3, 4, 5, 6, 7}. (a + k + 6) mod 7 + 1 = w"
    by simp
  ultimately obtain k where "k \<in> {1, 2, 3, 4, 5, 6, 7}" "(a + k + 6) mod 7 + 1 = w" by blast
  then show ?thesis by (intro exI[of _ k]) auto
qed

lemma next_run_resolves:
  assumes "calendar_ok cal tz after" "validate_job_schedule (Some s) = Inr ()"
  shows "\<exists>t. next_job_run_at cal s tz after = Inr t \<and> after < t"
proof -
  obtain d where ts: "ca_timestamp cal after = Some after" and d: "ca_date cal tz after = Some d"
    and wd: "1 \<le> ca_weekday cal d" "ca_weekday cal d \<le> 7"
    and day: "\<And>k. k < 9 \<Longrightarrow> ca_tomorrow cal (d + int k) = Some (d + int k + 1)
        \<and> ca_weekday cal (d + int k + 1) = ca_weekday cal (d + int k) mod 7 + 1"
    and at: "\<And>k h m. k < 9 \<Longrightarrow> h < 24 \<Longrightarrow> m < 60 \<Longrightarrow>
        \<exists>t. ca_at cal tz (d + int k) h m = Some t \<and> ca_to_utc cal t = Some t \<and> (1 \<le> k \<longrightarrow> after < t)"
    using assms(1) unfolding calendar_ok_def by blast
  show ?thesis
  proof (cases s)
    case (JS_Interval n)
    then have "n \<noteq> 0" using assms(2) by (simp add: validate_job_schedule_def)
    then have "0 < minutes (unat n)" by (intro minutes_pos) (simp add: unat_gt_0)
    moreover have "ca_add_minutes cal after (unat n) = Some (after + minutes (unat n))"
      using assms(1) unfolding calendar_ok_def by blast
    ultimately show ?thesis using JS_Interval by (simp add: next_job_run_at_def)
  next
    case (JS_Daily h m)
    have hm: "unat h < 24" "unat m < 60"
      using assms(2) JS_Daily by (auto simp: validate_job_schedule_def not_less word_le_nat_alt)
    then have i: "i8_or_zero h < 24" "i8_or_zero m < 60" by (auto simp: i8_or_zero_def)
    from next_occurrence_found[of cal d tz "i8_or_zero h" "i8_or_zero m" after 1 0 8 None] day at i
    show ?thesis using JS_Daily ts d by (simp add: next_job_run_at_def)
  next
    case (JS_Weekly w h m)
    have hm: "unat h < 24" "unat m < 60" "1 \<le> unat w" "unat w \<le> 7"
      using assms(2) JS_Weekly by (auto simp: validate_job_schedule_def not_less word_le_nat_alt)
    then have i: "i8_or_zero h < 24" "i8_or_zero m < 60" "1 \<le> i8_or_zero w" "i8_or_zero w \<le> 7" by (auto simp: i8_or_zero_def)
    obtain k where k: "1 \<le> k" "k < 8" "(ca_weekday cal d + k + 6) mod 7 + 1 = i8_or_zero w"
      using weekday_found[OF wd i(3,4)] by blast
    have "ca_weekday cal (d + int k) = i8_or_zero w"
      using weekday_after[of "ca_weekday cal" d k] day wd k by simp
    with next_occurrence_found[of cal d tz "i8_or_zero h" "i8_or_zero m" after k 0 8 "Some (i8_or_zero w)"] day at i k
    show ?thesis using JS_Weekly ts d by (simp add: next_job_run_at_def)
  qed
qed

text \<open>UTC satisfies the hypotheses at every instant.\<close>

definition utc :: calendar where
  "utc = \<lparr>ca_known = (\<lambda>z. z = ''UTC''), ca_add_minutes = (\<lambda>t n. Some (t + minutes n)), ca_timestamp = Some,
     ca_date = (\<lambda>z t. Some (t div 86400000000000)), ca_weekday = (\<lambda>d. nat ((d + 3) mod 7) + 1),
     ca_at = (\<lambda>z d h m. Some (d * 86400000000000 + minutes (60 * h + m))), ca_tomorrow = (\<lambda>d. Some (d + 1)),
     ca_to_utc = Some\<rparr>"

lemma utc_ok: "calendar_ok utc tz after"
proof -
  have n: "after < (after div 86400000000000 + int k) * 86400000000000 + minutes n" if "1 \<le> k" for k n
  proof -
    have "after < (after div 86400000000000 + 1) * 86400000000000"
      using div_mod_decomp_int[of after 86400000000000] pos_mod_bound[of 86400000000000 after] by (simp add: algebra_simps)
    also have "\<dots> \<le> (after div 86400000000000 + int k) * 86400000000000" using that by simp
    finally show ?thesis by (simp add: minutes_def)
  qed
  have w: "nat ((d + 1 + 3) mod 7) = (nat ((d + 3) mod 7) + 1) mod 7" for d :: int
  proof -
    have "nat ((d + 3) mod 7) + 1 = nat ((d + 3) mod 7 + 1)" by (simp add: nat_add_distrib)
    then have "(nat ((d + 3) mod 7) + 1) mod 7 = nat (((d + 3) mod 7 + 1) mod 7)" by (simp add: nat_mod_distrib)
    then show ?thesis by (simp add: mod_simps add.commute add.left_commute)
  qed
  have "nat ((d + 3) mod 7) < 7" for d :: int using pos_mod_bound[of 7 "d + 3"] by (simp add: nat_less_iff)
  then have b: "nat ((d + 3) mod 7) + 1 \<le> 7" for d :: int by (simp add: Suc_le_eq)
  show ?thesis unfolding calendar_ok_def utc_def using n w[of "after div 86400000000000 + int _"] b by (simp add: add.assoc)
qed

section \<open>A due job\<close>

lemma update_jobs_keys:
  "(\<And>j. jb_job_id (f j) = jb_job_id j) \<Longrightarrow> jb_job_id ` set (db_jobs (update_jobs p f db)) = jb_job_id ` set (db_jobs db)"
  by (simp add: update_jobs_def keys_update_where)

lemma claim_queues:
  assumes job: "load_job_detail i (co_db st) = Inr job" "ju_enabled (jd_job job)" "ju_next_run_at (jd_job job) = Some due"
      "ju_schedule (jd_job job) = Some s" "due \<le> sc_now env" "next_job_run_at cal s (ju_timezone (jd_job job)) (sc_now env) = Inr t"
    and fresh: "find_job_run (co_db st) (sc_run_id env i) = None" "Some (i, due) \<notin> occurrence ` set (db_job_runs (co_db st))"
  shows "claim_due_job env cal i st = (Inr (), st\<lparr>co_db := (co_db st)\<lparr>
     db_jobs := update_where (\<lambda>j. jb_job_id j = i \<and> jb_enabled j \<and> jb_next_run_at j = Some due)
        (\<lambda>j. j\<lparr>jb_next_run_at := Some t, jb_updated_at := sc_now env\<rparr>) (db_jobs (co_db st)),
     db_job_runs := db_job_runs (co_db st) @ [new_job_run (sc_run_id env i) job JT_Scheduled (Some due) False
        (has_active_run i (co_db st)) (sc_now env)]\<rparr>\<rparr>)"
proof -
  let ?p = "\<lambda>j. jb_job_id j = i \<and> jb_enabled j \<and> jb_next_run_at j = Some due"
  let ?db = "update_jobs ?p (\<lambda>j. j\<lparr>jb_next_run_at := Some t, jb_updated_at := sc_now env\<rparr>) (co_db st)"
  let ?r = "new_job_run (sc_run_id env i) job JT_Scheduled (Some due) False (has_active_run i (co_db st)) (sc_now env)"
  obtain j where j: "find_job (co_db st) i = Some j" "jb_enabled j" "jb_next_run_at j = Some due" and ji: "ju_job_id (jd_job job) = i"
    using job(1-3) select_by_Some_key[of jb_job_id i "db_jobs (co_db st)"]
    by (auto simp: load_job_detail_def result_simps Let_def bind_eq_Some_conv)
  have "?p j" "j \<in> set (db_jobs (co_db st))" using j by (auto dest: select_by_Some_key)
  then have n: "rows_affected ?p (db_jobs (co_db st)) \<noteq> 0"
    by (auto simp: rows_affected_def filter_empty_conv)
  have "i \<in> jb_job_id ` set (db_jobs ?db)"
    using \<open>j \<in> set (db_jobs (co_db st))\<close> \<open>?p j\<close>
      update_jobs_keys[of "\<lambda>j. j\<lparr>jb_next_run_at := Some t, jb_updated_at := sc_now env\<rparr>" ?p "co_db st"]
    by auto
  then have f: "find_job ?db i \<noteq> None" by (simp add: select_by_None_iff)
  have a: "active_run ?r \<longrightarrow> list_all (\<lambda>x. jn_job_id x = i \<longrightarrow> \<not> active_run x) (db_job_runs (co_db st))"
    by (auto simp: new_job_run_def active_run_def has_active_run_def rows_affected_def list_all_iff filter_empty_conv)
  have "insert_run_row ?r ?db = Inr (?db\<lparr>db_job_runs := db_job_runs ?db @ [?r]\<rparr>)"
    using fresh f a ji by (simp add: insert_run_row_def new_job_run_def occurrence_def update_jobs_def)
  then show ?thesis using job n
    by (simp add: claim_due_job_def h_bind_def h_check_def h_txn_def update_jobs_def Let_def)
qed

section \<open>A claimed message settles\<close>

lemma find_scheduled_update:
  "find (scheduled_row_is s m) t = Some r \<Longrightarrow> (\<And>x. scheduled_row_is s m (f x) = scheduled_row_is s m x) \<Longrightarrow>
   find (scheduled_row_is s m) (update_where (\<lambda>x. scheduled_row_is s m x \<and> q x) f t) = Some (if q r then f r else r)"
  by (induction t) (auto split: if_splits)

lemma dispatch_settles:
  assumes "find (scheduled_row_is s m) (db_scheduled_messages (co_db st)) = Some r" "sm_state r = SM_Sending"
    "dispatch_scheduled_message env s m st = (res, st')"
  shows "res = Inr () \<and> (\<exists>r'. find (scheduled_row_is s m) (db_scheduled_messages (co_db st')) = Some r'
     \<and> (sm_state r' = SM_Sent \<and> sm_command_id r' = Some (si_command (sc_ids env m))
        \<or> sm_state r' = SM_Failed \<and> sm_failure_code r' \<noteq> None))"
proof -
  let ?f = "submit_turn_with_correlation env m s (sm_content r)"
  obtain o' st1 where o': "?f st = (o', st1)" by force
  have "h_keeps (\<lambda>st'. sched_tables (co_db st') = sched_tables (co_db st)) ?f"
    unfolding submit_turn_with_correlation_def by (rule sched_requests.keeps_submit)
  then have "sched_tables (co_db st1) = sched_tables (co_db st)" using o' by (simp add: h_keeps_def) (metis snd_conv)
  then have f: "find (scheduled_row_is s m) (db_scheduled_messages (co_db st1)) = Some r"
    using assms(1) by (simp add: sched_tables_def)
  have l: "load_scheduled_message s m (co_db st) = Inr (row_to_scheduled_message r)"
    using assms(1) by (simp add: load_scheduled_message_def)
  note upd = find_scheduled_update[OF f, where q = "\<lambda>x. sm_state x = SM_Sending"]
  show ?thesis
  proof (cases o')
    case (Inl e)
    obtain c x where c: "scheduled_message_failure_of (sc_error_text env) e = (c, x)" by force
    have "dispatch_scheduled_message env s m st = mark_failed env s m e st1"
      using l o' Inl assms(2)
      by (simp add: dispatch_scheduled_message_def h_bind_def h_check_def h_match_def row_to_scheduled_message_def)
    then show ?thesis using assms(2,3) c upd
      by (auto simp: mark_failed_def h_write_def h_modify_def update_scheduled_def scheduled_row_is_def)
  next
    case (Inr y)
    obtain cmd det where y: "y = (cmd, det)" by force
    have cmd: "cmd = si_command (sc_ids env m)"
      using o' Inr y by (auto simp: submit_turn_with_correlation_def submit_turn_for_actor_def result_simps h_ok_def)
    have "dispatch_scheduled_message env s m st = mark_sent env s m cmd st1"
      using l o' Inr y assms(2)
      by (simp add: dispatch_scheduled_message_def h_bind_def h_check_def h_match_def row_to_scheduled_message_def)
    then show ?thesis using assms(2,3) cmd upd
      by (auto simp: mark_sent_def h_write_def h_modify_def update_scheduled_def scheduled_row_is_def)
  qed
qed

section \<open>One failing run holds up the others\<close>

text \<open>
  An error while the first run's turn is submitted ends the whole round: no run, not even the
  failing one, changes its state, and the next round starts with the same run.
\<close>

lemma failing_run_blocks:
  assumes "active_run_ids (co_db st) = i # rest" "load_job_run i (co_db st) = Inr run" "ru_state run = JR_Starting"
    "ru_session_thread_id run = Some s" "load_session_detail (sc_env env) s st = (Inr d, st1)"
    "rs_state (sd_runtime d) = RS_Ready" "first_turn s (co_db st1) = None"
    "submit_turn_for_actor (sc_env env) (sc_ids env (ru_job_run_id run)) (sc_turn_id env (ru_job_run_id run))
       (sc_message_id env (ru_job_run_id run)) s (jc_prompt (ru_config_snapshot run)) AR_System st1 = (Inl e, st2)"
  shows "drive_job_runs env st = (Inl e, st2) \<and> db_job_runs (co_db st2) = db_job_runs (co_db st)"
proof -
  have "drive_job_run env i st = (Inl e, st2)"
    using assms(2-8) by (simp add: drive_job_run_def drive_starting_job_run_def h_bind_def h_check_def)
  then have d: "drive_job_runs env st = (Inl e, st2)"
    using assms(1) by (simp add: drive_job_runs_def h_bind_def h_check_def)
  have "sched_tables (co_db st1) = sched_tables (co_db st)"
    using sched_requests.keeps_load_detail[of "sched_tables (co_db st)" "sc_env env" s] assms(5)
    by (simp add: h_keeps_def) (metis snd_conv)
  moreover have "sched_tables (co_db st2) = sched_tables (co_db st1)"
    using sched_requests.keeps_submit[of "sched_tables (co_db st1)"] assms(8) by (simp add: h_keeps_def) (metis snd_conv)
  ultimately show ?thesis using d by (simp add: sched_tables_def)
qed

end
