(* ===== verification/Node_Access.thy ===== *)
theory Node_Access
  imports Enrollment
begin

text \<open>
  What enrollment and authentication guarantee, for every interleaving of the operations of
  \<open>Enrollment\<close>. A claim appears as its two halves, so a commit may act on a row that was read
  long before. \<open>gate_property\<close> is the interface: a property of the gate that every operation
  keeps; its two instances say that a claimed enrollment stays claimed and that a revoked Node
  stays revoked.
\<close>

section \<open>Interleavings\<close>

text \<open>The tool registry's part of the heartbeat must not touch what the gate keeps.\<close>

record registry_part =
  rp_persist :: "(id \<times> json) list \<Rightarrow> (gate, bool) stateful"
  rp_refresh :: "id \<Rightarrow> (gate, unit) stateful"

inductive gate_step ::
  "core_config \<Rightarrow> (string \<Rightarrow> string) \<Rightarrow> (id \<Rightarrow> string \<Rightarrow> string) \<Rightarrow> registry_part \<Rightarrow> id set \<Rightarrow> gate \<Rightarrow> gate \<Rightarrow> bool"
  for cfg h sid rp used where
  create: "e \<notin> used \<Longrightarrow> gate_step cfg h sid rp used g (snd (create_enrollment cfg h e code now name ver caps g))"
| approve: "gate_step cfg h sid rp used g (snd (approve_node_enrollment e now g))"
| decide: "gate_step cfg h sid rp used g (snd (claim_decision cfg h e code now g))"
| commit: "gate_step cfg h sid rp used g (snd (claim_commit h n cred now row g))"
| authenticate: "gate_step cfg h sid rp used g (snd (verify_node_credential h n c now g))"
| rotate: "gate_step cfg h sid rp used g (snd (rotate_node_credential h n cred now g))"
| revoke: "gate_step cfg h sid rp used g (snd (revoke_node n now g))"
| heartbeat: "gate_step cfg h sid rp used g
     (snd (node_heartbeat h sid (rp_persist rp) (rp_refresh rp) c request now g))"

inductive gate_steps ::
  "core_config \<Rightarrow> (string \<Rightarrow> string) \<Rightarrow> (id \<Rightarrow> string \<Rightarrow> string) \<Rightarrow> registry_part \<Rightarrow> id set \<Rightarrow> gate \<Rightarrow> gate \<Rightarrow> bool"
  for cfg h sid rp used where
  stay: "gate_steps cfg h sid rp used g g"
| more: "gate_steps cfg h sid rp used g g' \<Longrightarrow> gate_step cfg h sid rp used g' g'' \<Longrightarrow> gate_steps cfg h sid rp used g g''"

definition registry_keeps :: "(gate \<Rightarrow> bool) \<Rightarrow> registry_part \<Rightarrow> bool" where
  "registry_keeps P rp \<longleftrightarrow> (\<forall>s. h_keeps P (rp_persist rp s)) \<and> (\<forall>n. h_keeps P (rp_refresh rp n))"

locale gate_property =
  fixes P :: "gate \<Rightarrow> bool" and used :: "id set"
  assumes create: "e \<notin> used \<Longrightarrow> h_keeps P (create_enrollment cfg h e code now name ver caps)"
    and approve: "h_keeps P (approve_node_enrollment e now)"
    and decide: "h_keeps P (claim_decision cfg h e code now)"
    and commit: "h_keeps P (claim_commit h n cred now row)"
    and authenticate: "h_keeps P (verify_node_credential h n c now)"
    and rotate: "h_keeps P (rotate_node_credential h n cred now)"
    and revoke: "h_keeps P (revoke_node n now)"
    and heartbeat: "registry_keeps P rp \<Longrightarrow>
      h_keeps P (node_heartbeat h sid (rp_persist rp) (rp_refresh rp) c request now)"
begin

lemma step_keeps: "registry_keeps P rp \<Longrightarrow> gate_step cfg h sid rp used g g' \<Longrightarrow> P g \<Longrightarrow> P g'"
  by (erule gate_step.cases)
    (use create approve decide commit authenticate rotate revoke heartbeat in \<open>simp_all add: h_keeps_def\<close>)

lemma steps_keep: "gate_steps cfg h sid rp used g g' \<Longrightarrow> registry_keeps P rp \<Longrightarrow> P g \<Longrightarrow> P g'"
  by (induction rule: gate_steps.induct) (auto dest: step_keeps)

end

section \<open>What each operation leaves alone\<close>

lemma set_db_frame [simp]:
  "gt_db (set_db db g) = db" "gt_enrollments (set_db db g) = gt_enrollments g"
  "co_registry (gt_core (set_db db g)) = co_registry (gt_core g)"
  "gt_auth_failures (set_db db g) = gt_auth_failures g"
  by (simp_all add: set_db_def)

lemma audit_frame [simp]:
  "co_registry (gt_core (audit_security_event k n orig oc m t g)) = co_registry (gt_core g)"
  "db_nodes (gt_db (audit_security_event k n orig oc m t g)) = db_nodes (gt_db g)"
  "gt_enrollments (audit_security_event k n orig oc m t g) = gt_enrollments g"
  "gt_auth_failures (audit_security_event k n orig oc m t g) = gt_auth_failures g"
  by (simp_all add: audit_security_event_def)

lemma update_node_frame [simp]:
  "gt_enrollments (update_node p f g) = gt_enrollments g"
  "db_nodes (gt_db (update_node p f g)) = update_where p f (db_nodes (gt_db g))"
  by (simp_all add: update_node_def)

lemma record_failure_frame [simp]:
  "gt_core (record_auth_failure k t g) = gt_core g" "gt_enrollments (record_auth_failure k t g) = gt_enrollments g"
  "gt_core (clear_auth_failures k g) = gt_core g" "gt_enrollments (clear_auth_failures k g) = gt_enrollments g"
  by (simp_all add: record_auth_failure_def clear_auth_failures_def)

text \<open>A property that reads only the enrollments and the nodes.\<close>

definition gate_only :: "(gate \<Rightarrow> bool) \<Rightarrow> bool" where
  "gate_only P \<longleftrightarrow> (\<forall>g g'. gt_enrollments g' = gt_enrollments g \<longrightarrow> db_nodes (gt_db g') = db_nodes (gt_db g) \<longrightarrow> P g \<longrightarrow> P g')"

lemma gate_onlyD:
  "gate_only P \<Longrightarrow> P g \<Longrightarrow> gt_enrollments g' = gt_enrollments g \<Longrightarrow> db_nodes (gt_db g') = db_nodes (gt_db g) \<Longrightarrow> P g'"
  by (auto simp: gate_only_def)

named_theorems gate_intros

lemma keeps_gate_modify:
  "gate_only P \<Longrightarrow> (\<And>g. gt_enrollments (f g) = gt_enrollments g) \<Longrightarrow> (\<And>g. db_nodes (gt_db (f g)) = db_nodes (gt_db g))
   \<Longrightarrow> h_keeps P (h_modify f)"
  by (auto simp: h_keeps_def h_modify_def elim!: gate_onlyD)

lemma keeps_audit [gate_intros]: "gate_only P \<Longrightarrow> h_keeps P (h_modify (audit_security_event k n orig oc m t))"
  by (rule keeps_gate_modify) simp_all

lemma keeps_limit [gate_intros]: "gate_only P \<Longrightarrow> h_keeps P (reject_if_auth_rate_limited k now)"
  by (auto simp: h_keeps_def reject_if_auth_rate_limited_def Let_def elim!: gate_onlyD)

lemma keeps_reject_auth [gate_intros]: "gate_only P \<Longrightarrow> h_keeps P (reject_auth n r c now)"
  unfolding reject_auth_def
  by (intro h_keeps_bind keeps_audit h_keeps_check keeps_gate_modify) simp_all

lemma keeps_verify [gate_intros]: "gate_only P \<Longrightarrow> h_keeps P (verify_node_credential h n c now)"
  unfolding verify_node_credential_def
  by (intro h_keeps_bind h_keeps_check keeps_limit)
    (auto simp: keeps_reject_auth intro!: keeps_gate_modify split: option.split)

lemma keeps_insert_capabilities: "gate_only P \<Longrightarrow> h_keeps P (insert_capabilities n now cs)"
  by (induction cs) (auto intro!: h_keeps_bind h_keeps_ok h_keeps_run simp: result_simps elim!: gate_onlyD)

lemma keeps_capabilities [gate_intros]: "gate_only P \<Longrightarrow> h_keeps P (replace_node_capabilities n cs now)"
  unfolding replace_node_capabilities_def
  by (intro h_keeps_bind keeps_gate_modify keeps_insert_capabilities) simp_all

lemma keeps_observed [gate_intros]: "gate_only P \<Longrightarrow> h_keeps P (replace_observed_capabilities n cs)"
  by (auto simp: replace_observed_capabilities_def result_simps intro!: h_keeps_run elim!: gate_onlyD)

lemma upsert_project_frame [simp]:
  "gt_enrollments (upsert_project i d t g) = gt_enrollments g" "gt_core (upsert_project i d t g) = gt_core g"
  by (simp_all add: upsert_project_def)

lemma keeps_workspaces [gate_intros]: "gate_only P \<Longrightarrow> h_keeps P (upsert_heartbeat_workspaces sid n ws)"
proof (induction ws)
  case (Cons w ws)
  have "h_keeps P (h_run (upsert_placement sid n w))"
    using Cons.prems
    by (intro h_keeps_run) (auto simp: upsert_placement_def Let_def result_simps split: if_splits elim!: gate_onlyD)
  then have "h_keeps P (upsert_heartbeat_workspace sid n w)"
    unfolding upsert_heartbeat_workspace_def using Cons.prems
    by (intro h_keeps_bind h_keeps_check) (auto intro!: h_keeps_ok h_keeps_bind keeps_gate_modify)
  then show ?case using Cons by (auto intro!: h_keeps_bind)
qed (simp add: h_keeps_ok)

section \<open>Authentication\<close>

lemma reject_auth_not_ok: "\<not> is_ok (fst (reject_auth n r c now g))"
  by (simp add: reject_auth_def h_bind_def h_modify_def h_check_def)

lemma limit_core [simp]:
  "gt_core (snd (reject_if_auth_rate_limited k now g)) = gt_core g"
  "fst (reject_if_auth_rate_limited k now g) =
     ensure (length (recent_failures k now g) < AUTH_FAILURE_LIMIT) (RateLimited ''auth.rate_limited'')"
  by (simp_all add: reject_if_auth_rate_limited_def Let_def)

lemma fst_bind_is_ok: "is_ok (fst (h_bind f k g)) \<longleftrightarrow> (\<exists>x. fst (f g) = Inr x \<and> is_ok (fst (k x (snd (f g)))))"
  by (auto simp: h_bind_def split: prod.splits sum.splits)

lemma verify_is_ok:
  "is_ok (fst (verify_node_credential h n c now g)) \<longleftrightarrow>
     (\<exists>secret row. c = Some secret \<and> secret \<noteq> [] \<and> length (recent_failures (auth_key n) now g) < AUTH_FAILURE_LIMIT
        \<and> find_node (gt_db g) n = Some row \<and> nd_presence row \<noteq> NP_Revoked \<and> nd_credential_hash row = Some (h secret))"
proof (cases "Option.bind c non_empty")
  case None
  then show ?thesis by (cases c) (auto simp: verify_node_credential_def fst_bind_is_ok h_check_def non_empty_def)
next
  case (Some secret)
  then have c: "c = Some secret" "secret \<noteq> []" by (auto simp: non_empty_def bind_eq_Some_conv split: if_splits)
  show ?thesis
  proof (cases "find_node (gt_db g) n")
    case None
    then show ?thesis using Some by (simp add: verify_node_credential_def fst_bind_is_ok h_check_def)
  next
    case (Some row)
    then show ?thesis using \<open>Option.bind c non_empty = Some secret\<close> c
      by (cases "nd_credential_hash row")
        (simp_all add: verify_node_credential_def fst_bind_is_ok h_check_def h_modify_def reject_auth_not_ok conj_commute)
  qed
qed

section \<open>Every operation keeps a suitable property\<close>

lemma keeps_after:
  "h_keeps P f \<Longrightarrow> (\<And>st x st'. P st \<Longrightarrow> f st = (Inr x, st') \<Longrightarrow> h_keeps P (g x)) \<Longrightarrow> h_keeps P (h_bind f g)"
  unfolding h_keeps_def
proof (intro allI impI)
  fix st assume f: "\<forall>st. P st \<longrightarrow> P (snd (f st))" and P: "P st"
    and g: "\<And>st x st'. P st \<Longrightarrow> f st = (Inr x, st') \<Longrightarrow> \<forall>st. P st \<longrightarrow> P (snd (g x st))"
  obtain r st' where r: "f st = (r, st')" by (cases "f st")
  have "P st'" using f P r by (metis snd_conv)
  then show "P (snd (h_bind f g st))" using g[OF P] r by (cases r) (simp_all add: h_bind_def)
qed

lemma keeps_heartbeat:
  assumes "gate_only P" "registry_keeps P rp"
    and "\<And>n g. P g \<Longrightarrow> is_ok (fst (verify_node_credential h n c now g)) \<Longrightarrow> h_keeps P (h_modify (upsert_heartbeat_node n request now))"
  shows "h_keeps P (node_heartbeat h sid (rp_persist rp) (rp_refresh rp) c request now)"
  unfolding node_heartbeat_def
proof (rule h_keeps_bind[OF h_keeps_check], rule keeps_after[OF keeps_verify[OF assms(1)]])
  fix n st st' and x :: unit assume "P st" "verify_node_credential h n c now st = (Inr x, st')"
  then have u: "h_keeps P (h_modify (upsert_heartbeat_node n request now))" using assms(3)[of st n] by simp
  have r: "h_keeps P (rp_persist rp x)" "h_keeps P (rp_refresh rp y)" for x y
    using assms(2) by (simp_all add: registry_keeps_def)
  show "h_keeps P (h_bind (h_check (\<lambda>_. ensure (list_all (\<lambda>c. fst c = n) (hb_observed_capabilities request))
        (BadRequest ''node.observed_capability_owner_mismatch''))) (\<lambda>_.
     h_bind (h_check (\<lambda>_. ensure (list_all (\<lambda>c. fst c = n) (hb_dependency_statuses request))
        (BadRequest ''node.dependency_status_owner_mismatch''))) (\<lambda>_.
     h_bind (h_modify (upsert_heartbeat_node n request now)) (\<lambda>_.
     h_bind (replace_node_capabilities n (hb_capabilities request) now) (\<lambda>_.
     h_bind (replace_observed_capabilities n (hb_observed_capabilities request)) (\<lambda>_.
     h_bind (rp_persist rp (hb_dependency_statuses request)) (\<lambda>refresh_definitions.
     h_bind (upsert_heartbeat_workspaces sid n (hb_workspace_summaries request)) (\<lambda>_.
     h_bind (h_check (\<lambda>g. Inr (should_open_control_channel n (gt_core g)))) (\<lambda>open_control_channel.
     h_bind (if refresh_definitions then rp_refresh rp n else h_ok ()) (\<lambda>_. h_ok open_control_channel))))))))))"
    by (intro h_keeps_bind h_keeps_check u keeps_capabilities keeps_observed keeps_workspaces assms(1) r h_keeps_ok)
      (simp add: r h_keeps_ok)
qed

section \<open>A claimed enrollment stays claimed\<close>

definition claimed :: "id \<Rightarrow> gate \<Rightarrow> bool" where
  "claimed e g \<longleftrightarrow> (\<forall>r\<in>set (gt_enrollments g). el_enrollment_id r = e \<longrightarrow> el_claimed_node_id r \<noteq> None)"

lemma gate_only_claimed: "gate_only (claimed e)"
  by (simp add: gate_only_def claimed_def)

lemma set_update_where: "set (update_where p f t) = (\<lambda>r. if p r then f r else r) ` set t"
  by (simp add: update_where_def)

lemma claimed_update:
  assumes "claimed e g" "\<And>r. el_enrollment_id (f r) = el_enrollment_id r"
    "\<And>r. el_claimed_node_id r \<noteq> None \<Longrightarrow> el_claimed_node_id (f r) \<noteq> None"
    "gt_enrollments g' = update_where p f (gt_enrollments g)"
  shows "claimed e g'"
  using assms by (fastforce simp: claimed_def set_update_where split: if_splits)

lemma claimed_other_tables:
  "(\<And>g. gt_enrollments (f g) = gt_enrollments g) \<Longrightarrow> h_keeps (claimed e) (h_modify f)"
  by (auto simp: h_keeps_def h_modify_def claimed_def)

lemma claim_commit_claimed: "claimed e g \<Longrightarrow> claimed e (snd (claim_commit h n cred now row g))"
  by (auto simp: claim_commit_def Let_def claimed_def set_update_where split: option.splits if_splits)

interpretation claimed: gate_property "claimed e" "{e}" for e
proof
  fix cfg h e' code now name ver caps assume "e' \<notin> {e}"
  then show "h_keeps (claimed e) (create_enrollment cfg h e' code now name ver caps)"
    unfolding create_enrollment_def Let_def
    by (intro h_keeps_bind h_keeps_check h_keeps_ok keeps_audit gate_only_claimed h_keeps_modify h_keeps_run)
      (auto simp: result_simps claimed_def expire_due_def set_update_where split: if_splits)
next
  fix e' now show "h_keeps (claimed e) (approve_node_enrollment e' now)"
    unfolding approve_node_enrollment_def
    by (intro h_keeps_bind h_keeps_check h_keeps_run)
      (auto simp: result_simps claimed_def set_update_where split: if_splits)
next
  fix cfg h e' code now show "h_keeps (claimed e) (claim_decision cfg h e' code now)"
  proof -
    have "h_keeps (claimed e) (h_modify (expire_enrollment e' now))"
      by (rule h_keeps_modify) (auto simp: claimed_def expire_enrollment_def set_update_where split: if_splits)
    then show ?thesis unfolding claim_decision_def
      by (intro h_keeps_bind h_keeps_check) (auto intro!: h_keeps_bind h_keeps_ok h_keeps_check keeps_audit gate_only_claimed)
  qed
next
  fix h n cred now row show "h_keeps (claimed e) (claim_commit h n cred now row)"
    using claim_commit_claimed by (auto simp: h_keeps_def)
next
  fix h n c now show "h_keeps (claimed e) (verify_node_credential h n c now)"
    by (rule keeps_verify[OF gate_only_claimed])
next
  fix h n cred now show "h_keeps (claimed e) (rotate_node_credential h n cred now)"
    unfolding rotate_node_credential_def
    by (intro h_keeps_bind h_keeps_run h_keeps_ok keeps_audit gate_only_claimed) (auto simp: result_simps claimed_def)
next
  fix n now show "h_keeps (claimed e) (revoke_node n now)"
    unfolding revoke_node_def
    by (intro h_keeps_bind h_keeps_run keeps_audit gate_only_claimed) (auto simp: result_simps claimed_def)
next
  fix rp h sid c request now assume "registry_keeps (claimed e) rp"
  then show "h_keeps (claimed e) (node_heartbeat h sid (rp_persist rp) (rp_refresh rp) c request now)"
    by (rule keeps_heartbeat[OF gate_only_claimed])
      (simp add: claimed_other_tables upsert_heartbeat_node_def)
qed

lemma credential_claims:
  assumes "claim_commit h n cred now row g = (Inr r, g')" "cr_credential r = Some c"
  shows "\<not> claimed (el_enrollment_id row) g" and "unique_key el_enrollment_id (gt_enrollments g) \<Longrightarrow> claimed (el_enrollment_id row) g'"
    and "c = cred" "find_node (gt_db g') n = Some (enrolled_node n (h cred) now row)"
proof -
  have hit: "rows_affected (claimable now (el_enrollment_id row)) (gt_enrollments g) \<noteq> 0"
    and free: "find_node (gt_db g) n = None"
    and g': "gt_enrollments g' = update_where (claimable now (el_enrollment_id row))
       (\<lambda>r. r\<lparr>el_status := ES_Registered, el_claimed_node_id := Some n, el_updated_at := now\<rparr>) (gt_enrollments g)"
      "db_nodes (gt_db g') = db_nodes (gt_db g) @ [enrolled_node n (h cred) now row]" "c = cred"
    using assms by (auto simp: claim_commit_def Let_def refused_def split: option.splits if_splits)
  then obtain r0 where r0: "r0 \<in> set (gt_enrollments g)" "claimable now (el_enrollment_id row) r0"
    by (auto simp: rows_affected_0_iff)
  then show "\<not> claimed (el_enrollment_id row) g" by (auto simp: claimed_def claimable_def)
  show "c = cred" by (rule g'(3))
  show "find_node (gt_db g') n = Some (enrolled_node n (h cred) now row)"
    using free by (simp add: g'(2) select_by_append enrolled_node_def)
  assume u: "unique_key el_enrollment_id (gt_enrollments g)"
  have "r = r0" if "r \<in> set (gt_enrollments g)" "el_enrollment_id r = el_enrollment_id row" for r
    using u that r0 by (auto simp: unique_key_def distinct_map claimable_def inj_on_def)
  then show "claimed (el_enrollment_id row) g'" using r0(2) by (auto simp: claimed_def g'(1) set_update_where split: if_splits)
qed

section \<open>The primary key of the enrollments\<close>

definition enrollments_keyed :: "gate \<Rightarrow> bool" where
  "enrollments_keyed g \<longleftrightarrow> unique_key el_enrollment_id (gt_enrollments g)"

lemma gate_only_keyed: "gate_only enrollments_keyed"
  by (simp add: gate_only_def enrollments_keyed_def)

lemma unique_update_where: "(\<And>r. key (f r) = key r) \<Longrightarrow> unique_key key (update_where p f t) = unique_key key t"
  by (simp add: unique_key_def update_where_def comp_def if_distrib cong: if_cong)

interpretation keyed: gate_property enrollments_keyed "{}"
proof
  fix cfg h e code now name ver caps
  show "h_keeps enrollments_keyed (create_enrollment cfg h e code now name ver caps)"
    unfolding create_enrollment_def Let_def
    by (intro h_keeps_bind h_keeps_check h_keeps_ok keeps_audit gate_only_keyed h_keeps_modify h_keeps_run)
      (auto simp: result_simps enrollments_keyed_def expire_due_def unique_update_where unique_key_snoc select_by_None_iff)
next
  fix e now show "h_keeps enrollments_keyed (approve_node_enrollment e now)"
    unfolding approve_node_enrollment_def
    by (intro h_keeps_bind h_keeps_check h_keeps_run)
      (auto simp: result_simps enrollments_keyed_def unique_update_where)
next
  fix cfg h e code now show "h_keeps enrollments_keyed (claim_decision cfg h e code now)"
  proof -
    have "h_keeps enrollments_keyed (h_modify (expire_enrollment e now))"
      by (rule h_keeps_modify) (simp add: enrollments_keyed_def expire_enrollment_def unique_update_where)
    then show ?thesis unfolding claim_decision_def
      by (intro h_keeps_bind h_keeps_check) (auto intro!: h_keeps_bind h_keeps_ok h_keeps_check keeps_audit gate_only_keyed)
  qed
next
  fix h n cred now row show "h_keeps enrollments_keyed (claim_commit h n cred now row)"
    by (auto simp: h_keeps_def claim_commit_def Let_def enrollments_keyed_def unique_update_where split: option.splits)
next
  fix h n c now show "h_keeps enrollments_keyed (verify_node_credential h n c now)"
    by (rule keeps_verify[OF gate_only_keyed])
next
  fix h n cred now show "h_keeps enrollments_keyed (rotate_node_credential h n cred now)"
    unfolding rotate_node_credential_def
    by (intro h_keeps_bind h_keeps_run h_keeps_ok keeps_audit gate_only_keyed) (auto simp: result_simps enrollments_keyed_def)
next
  fix n now show "h_keeps enrollments_keyed (revoke_node n now)"
    unfolding revoke_node_def
    by (intro h_keeps_bind h_keeps_run keeps_audit gate_only_keyed) (auto simp: result_simps enrollments_keyed_def)
next
  fix rp h sid c request now assume "registry_keeps enrollments_keyed rp"
  then show "h_keeps enrollments_keyed (node_heartbeat h sid (rp_persist rp) (rp_refresh rp) c request now)"
    by (rule keeps_heartbeat[OF gate_only_keyed])
      (rule h_keeps_modify, simp add: upsert_heartbeat_node_def enrollments_keyed_def)
qed

section \<open>A revoked Node stays revoked\<close>

definition revoked :: "id \<Rightarrow> gate \<Rightarrow> bool" where
  "revoked n g \<longleftrightarrow> n \<in> nd_node_id ` set (db_nodes (gt_db g))
     \<and> (\<forall>r\<in>set (db_nodes (gt_db g)). nd_node_id r = n \<longrightarrow> nd_presence r = NP_Revoked)"

lemma gate_only_revoked: "gate_only (revoked n)"
  by (simp add: gate_only_def revoked_def)

lemma revoked_update:
  assumes "revoked n g" "\<And>r. nd_node_id (f r) = nd_node_id r"
    "\<And>r. p r \<Longrightarrow> nd_node_id r = n \<Longrightarrow> nd_presence r = NP_Revoked \<Longrightarrow> nd_presence (f r) = NP_Revoked"
  shows "revoked n (update_node p f g)"
  using assms keys_update_where[of nd_node_id f p "db_nodes (gt_db g)"]
  by (auto simp: revoked_def set_update_where)

lemma revoked_append:
  "revoked n g \<Longrightarrow> db_nodes (gt_db g') = db_nodes (gt_db g) @ [r] \<Longrightarrow> nd_node_id r \<noteq> n \<Longrightarrow> revoked n g'"
  by (auto simp: revoked_def)

lemma revoked_found: "revoked n g \<Longrightarrow> \<exists>r. find_node (gt_db g) n = Some r \<and> nd_presence r = NP_Revoked"
  using select_by_Some_key[of nd_node_id n "db_nodes (gt_db g)"] select_by_None_iff[of nd_node_id n "db_nodes (gt_db g)"]
  by (cases "find_node (gt_db g) n") (auto simp: revoked_def)

lemma revoked_refused: "revoked n g \<Longrightarrow> \<not> is_ok (fst (verify_node_credential h n c now g))"
  using revoked_found[of n g] by (auto simp: verify_is_ok)

interpretation revoked: gate_property "revoked n" "{}" for n
proof
  fix cfg h e code now name ver caps
  show "h_keeps (revoked n) (create_enrollment cfg h e code now name ver caps)"
    unfolding create_enrollment_def Let_def
    by (intro h_keeps_bind h_keeps_check h_keeps_ok keeps_audit gate_only_revoked h_keeps_modify h_keeps_run)
      (auto simp: result_simps revoked_def expire_due_def)
next
  fix e now show "h_keeps (revoked n) (approve_node_enrollment e now)"
    unfolding approve_node_enrollment_def
    by (intro h_keeps_bind h_keeps_check h_keeps_run) (auto simp: result_simps revoked_def)
next
  fix cfg h e code now show "h_keeps (revoked n) (claim_decision cfg h e code now)"
  proof -
    have "h_keeps (revoked n) (h_modify (expire_enrollment e now))"
      by (rule h_keeps_modify) (simp add: revoked_def expire_enrollment_def)
    then show ?thesis unfolding claim_decision_def
      by (intro h_keeps_bind h_keeps_check) (auto intro!: h_keeps_bind h_keeps_ok h_keeps_check keeps_audit gate_only_revoked)
  qed
next
  fix h m cred now row show "h_keeps (revoked n) (claim_commit h m cred now row)"
    unfolding h_keeps_def
  proof (intro allI impI)
    fix g assume g: "revoked n g"
    show "revoked n (snd (claim_commit h m cred now row g))"
    proof (cases "find_node (gt_db g) m = None")
      case True
      then have "m \<noteq> n" using revoked_found[OF g] by auto
      then show ?thesis using g
        by (auto simp: claim_commit_def Let_def enrolled_node_def split: option.splits intro: revoked_append)
    qed (use g in \<open>simp add: claim_commit_def Let_def\<close>)
  qed
next
  fix h m c now show "h_keeps (revoked n) (verify_node_credential h m c now)"
    by (rule keeps_verify[OF gate_only_revoked])
next
  fix h m cred now show "h_keeps (revoked n) (rotate_node_credential h m cred now)"
    unfolding rotate_node_credential_def
    by (intro h_keeps_bind h_keeps_run h_keeps_ok keeps_audit gate_only_revoked)
      (auto simp: result_simps rotatable_def intro: revoked_update)
next
  fix m now show "h_keeps (revoked n) (revoke_node m now)"
    unfolding revoke_node_def
    by (intro h_keeps_bind h_keeps_run keeps_audit gate_only_revoked) (auto simp: result_simps intro: revoked_update)
next
  fix rp h sid c request now assume r: "registry_keeps (revoked n) rp"
  show "h_keeps (revoked n) (node_heartbeat h sid (rp_persist rp) (rp_refresh rp) c request now)"
  proof (rule keeps_heartbeat[OF gate_only_revoked r])
    fix m g assume "revoked n g" "is_ok (fst (verify_node_credential h m c now g))"
    then have m: "m \<noteq> n" using revoked_refused by blast
    have "revoked n (upsert_heartbeat_node m request now g')" if "revoked n g'" for g'
      using that m
      by (cases "find_node (gt_db g') m = None")
        (auto simp: upsert_heartbeat_node_def heartbeat_node_def intro: revoked_append revoked_update)
    then show "h_keeps (revoked n) (h_modify (upsert_heartbeat_node m request now))" by (rule h_keeps_modify)
  qed
qed

lemma revoke_revokes:
  assumes "revoke_node n now g = (Inr (), g')"
  shows "revoked n g'"
proof -
  have f: "find_node (gt_db g) n \<noteq> None" and g': "db_nodes (gt_db g') = db_nodes (gt_db (update_node (\<lambda>r. nd_node_id r = n)
      (\<lambda>r. r\<lparr>nd_presence := NP_Revoked, nd_credential_hash := None, nd_updated_at := now\<rparr>) g))"
    using assms by (auto simp: revoke_node_def result_simps h_run_def split: sum.splits)
  from f have "n \<in> nd_node_id ` set (db_nodes (gt_db g))" by (simp add: select_by_None_iff)
  then show ?thesis unfolding revoked_def g'
    using keys_update_where[of nd_node_id "\<lambda>r. r\<lparr>nd_presence := NP_Revoked, nd_credential_hash := None, nd_updated_at := now\<rparr>"
        "\<lambda>r. nd_node_id r = n" "db_nodes (gt_db g)"] by (auto simp: set_update_where)
qed

text \<open>
  The heartbeat's write on its own, when it was authenticated before a revocation and runs
  after it: the Node is shown as reachable again.
\<close>

lemma late_heartbeat_unrevokes:
  assumes "revoked n g"
  shows "\<exists>r. find_node (gt_db (upsert_heartbeat_node n request now g)) n = Some r \<and> nd_presence r = NP_Reachable"
proof -
  obtain r where r: "find_node (gt_db g) n = Some r" using revoked_found[OF assms] by blast
  have "keyed_update nd_node_id (heartbeat_node n request now)"
    by unfold_locales (simp add: heartbeat_node_def)
  from keyed_update.select_update_at[OF this, of n n "db_nodes (gt_db g)"]
  show ?thesis using r by (simp add: upsert_heartbeat_node_def heartbeat_node_def)
qed

section \<open>Workspaces of the heartbeat\<close>

definition placements_of_others :: "id \<Rightarrow> gate \<Rightarrow> placement_row list" where
  "placements_of_others n g = filter (\<lambda>p. pl_node_id p \<noteq> n) (db_placements (gt_db g))"

definition binding_gone :: "id \<Rightarrow> string \<Rightarrow> gate \<Rightarrow> bool" where
  "binding_gone n path g \<longleftrightarrow> workspace_binding_deleted n path g
     \<and> (\<forall>p\<in>set (db_placements (gt_db g)). \<not> same_binding n path p)"

lemma upsert_project_deleted [simp]:
  "gt_deleted_bindings (upsert_project i d t g) = gt_deleted_bindings g"
  "gt_deleted_bindings (set_db db g) = gt_deleted_bindings g"
  by (simp_all add: upsert_project_def set_db_def)

lemma filter_update_where_neg:
  "(\<And>r. q r \<Longrightarrow> \<not> p r) \<Longrightarrow> (\<And>r. p r \<Longrightarrow> \<not> q (f r)) \<Longrightarrow> filter q (update_where p f t) = filter q t"
  by (induction t) auto

lemma upsert_placement_others:
  "upsert_placement sid n w g = Inr g' \<Longrightarrow> placements_of_others n g' = placements_of_others n g"
  by (auto simp: upsert_placement_def Let_def result_simps placements_of_others_def same_binding_def
      intro!: filter_update_where_neg split: if_splits)

lemma upsert_project_others [simp]: "placements_of_others n (upsert_project i d t g) = placements_of_others n g"
  by (simp add: placements_of_others_def)

lemma workspace_keeps_others:
  "h_keeps (\<lambda>g. placements_of_others n g = X) (upsert_heartbeat_workspaces sid n ws)"
proof (induction ws)
  case (Cons w ws)
  have "h_keeps (\<lambda>g. placements_of_others n g = X) (upsert_heartbeat_workspace sid n w)"
    unfolding upsert_heartbeat_workspace_def
    by (intro h_keeps_bind h_keeps_check)
      (auto intro!: h_keeps_ok h_keeps_bind h_keeps_modify h_keeps_run simp: upsert_placement_others)
  then show ?case using Cons by (auto intro!: h_keeps_bind)
qed (simp add: h_keeps_ok)

lemma upsert_placement_rows:
  assumes "upsert_placement sid n w g = Inr g'" "p \<in> set (db_placements (gt_db g'))"
  shows "(\<exists>q\<in>set (db_placements (gt_db g)). pl_node_id p = pl_node_id q \<and> pl_workspace_path p = pl_workspace_path q)
     \<or> pl_node_id p = n \<and> pl_workspace_path p = ws_workspace_path w"
  using assms by (fastforce simp: upsert_placement_def Let_def result_simps set_update_where split: if_splits)

lemma upsert_placement_deleted:
  "upsert_placement sid n w g = Inr g' \<Longrightarrow> gt_deleted_bindings g' = gt_deleted_bindings g"
  by (auto simp: upsert_placement_def Let_def result_simps split: if_splits)

lemma upsert_placement_gone:
  assumes "binding_gone n path g" "ws_workspace_path w \<noteq> path" "upsert_placement sid n w g = Inr g'"
  shows "binding_gone n path g'"
  using assms(1,2) upsert_placement_rows[OF assms(3)] upsert_placement_deleted[OF assms(3)]
  unfolding binding_gone_def same_binding_def workspace_binding_deleted_def by metis

lemma workspace_keeps_gone: "h_keeps (binding_gone n path) (upsert_heartbeat_workspaces sid n ws)"
proof (induction ws)
  case (Cons w ws)
  have "h_keeps (binding_gone n path) (upsert_heartbeat_workspace sid n w)"
    unfolding upsert_heartbeat_workspace_def
  proof (rule h_keeps_guarded)
    fix g x assume g: "binding_gone n path g" "Inr (workspace_binding_deleted n (ws_workspace_path w) g) = (Inr x :: app_error + bool)"
    let ?u = "upsert_project (''project-'' @ sid n (ws_workspace_path w)) (ws_display_name w) (ws_last_validated_at w)"
    have u: "binding_gone n path (?u g)" using g(1) by (simp add: binding_gone_def workspace_binding_deleted_def)
    show "binding_gone n path (snd ((if x then h_ok () else h_bind (h_modify ?u) (\<lambda>_. h_run (upsert_placement sid n w))) g))"
    proof (cases x)
      case False
      then have "ws_workspace_path w \<noteq> path" using g by (auto simp: binding_gone_def)
      then show ?thesis using False u upsert_placement_gone[OF u]
        by (auto simp: h_bind_def h_modify_def h_run_def split: sum.splits)
    qed (use g in \<open>simp add: h_ok_def\<close>)
  qed
  then show ?case using Cons by (auto intro!: h_keeps_bind)
qed (simp add: h_keeps_ok)

end
