(* ===== verification/Gate_Scenarios.thy ===== *)
theory Gate_Scenarios
  imports Node_Access Admission Scenarios
begin

text \<open>A concrete gate: one approved enrollment, one enrolled Node, and the hash that is the identity.\<close>

definition cfg0 :: core_config where
  "cfg0 = \<lparr>cfg_max_pending_enrollments = 8, cfg_enrollment_ttl_seconds = 600, cfg_auto_approve_enrollments = False,
     cfg_auto_approve_node_name = None, cfg_stale_after_seconds = 30, cfg_offline_after_seconds = 120,
     cfg_runtime_expiry_seconds = 60\<rparr>"

definition enrollment0 :: enrollment_row where
  "enrollment0 = \<lparr>el_enrollment_id = ''e'', el_display_name = ''n'', el_daemon_version = None, el_capabilities = [],
     el_pairing_code_hash = ''pair'', el_status = ES_Approved, el_expires_at = 1000, el_claimed_node_id = None,
     el_created_at = 0, el_updated_at = 0, el_approved_at = Some 0\<rparr>"

definition node_row0 :: node_row where
  "node_row0 = \<lparr>nd_node_id = ''a'', nd_display_name = ''a'', nd_presence = NP_Reachable, nd_sleep_hint = SH_Awake,
     nd_last_heartbeat_at = Some 0, nd_daemon_version = ''1'', nd_active_runtime_count = 0,
     nd_capabilities = [\<lparr>cs_key = ''provider.codex'', cs_value = CV_Provider True True ''exec'' None None\<rparr>],
     nd_diagnostics = [], nd_credential_hash = Some ''secret'', nd_created_at = 0, nd_updated_at = 0\<rparr>"

definition gate0 :: gate where
  "gate0 = \<lparr>gt_core = new_core (two_nodes\<lparr>db_nodes := [node_row0]\<rparr>), gt_enrollments = [enrollment0],
     gt_projects = [], gt_deleted_bindings = [], gt_auth_failures = [],
     gt_auth_failure_count = 0, gt_observed = []\<rparr>"

definition quiet_registry :: registry_part where
  "quiet_registry = \<lparr>rp_persist = (\<lambda>_. h_ok False), rp_refresh = (\<lambda>_. h_ok ())\<rparr>"

definition detail0 :: session_detail where
  "detail0 = \<lparr>sd_session = \<lparr>ss_session_thread_id = ''sa'', ss_project_placement_id = ''pa'', ss_runtime_session_id = ''ra'',
       ss_title = ''t'', ss_state = SS_Active,
       ss_runtime = \<lparr>rs_runtime_session_id = ''ra'', rs_provider = ''codex'', rs_state = RS_Ready,
         rs_resume_supported = True, rs_degraded_reason = None, rs_last_runtime_step_at = None\<rparr>,
       ss_message_count = 0, ss_updated_at = 0\<rparr>,
     sd_placement = \<lparr>ps_project_placement_id = ''pa'', ps_project_id = None, ps_node_id = ''a'', ps_display_name = ''p'',
       ps_workspace_path = ''/w'', ps_state = PS_Validated, ps_resource_badges = [], ps_git_snapshot = None,
       ps_last_validated_at = None\<rparr>,
     sd_messages = [], sd_events = [], sd_scheduled_messages = []\<rparr>"

lemma quiet_registry_keeps: "registry_keeps P quiet_registry"
  by (simp add: registry_keeps_def quiet_registry_def h_keeps_ok)

lemma enrollments_keyed_gate0: "enrollments_keyed gate0"
  by (simp add: enrollments_keyed_def gate0_def unique_key_def)

end
