(* ===== verification/Schedule_Scenarios.thy ===== *)
theory Schedule_Scenarios
  imports Schedule_Times Gate_Scenarios Link_Scenarios
begin

text \<open>A Core with one enrolled Node, one session and one job, and the environment of its scheduler.\<close>

definition session_env0 :: session_env where
  "session_env0 = \<lparr>se_cfg = cfg0, se_now = 5, se_event_id = (\<lambda>x. ''e-'' @ x), se_message_id = (\<lambda>x. ''m-'' @ x),
     se_has_receivers = False, se_frame_id = (\<lambda>x. ''f-'' @ x), se_timestamp = (\<lambda>_. ''t'')\<rparr>"

definition ids0 :: session_ids where
  "ids0 = \<lparr>si_session = ''s1'', si_runtime = ''r1'', si_command = ''k1'', si_correlation = ''x1''\<rparr>"

definition sched_env0 :: sched_env where
  "sched_env0 = \<lparr>sc_env = session_env0, sc_ids = (\<lambda>_. ids0), sc_turn_id = (\<lambda>x. ''t-'' @ x), sc_message_id = (\<lambda>x. ''u-'' @ x),
     sc_run_id = (\<lambda>x. ''run-'' @ x), sc_error_text = (\<lambda>_. ''failed'')\<rparr>"

definition ended_run0 :: job_run_row where
  "ended_run0 = \<lparr>jn_job_run_id = ''old'', jn_job_id = ''j'', jn_trigger_kind = JT_Scheduled, jn_state = JR_Succeeded,
     jn_scheduled_for = Some 1, jn_queued_at = 1, jn_started_at = Some 1, jn_finished_at = Some 2, jn_session_thread_id = None,
     jn_runtime_session_id = None, jn_command_id = None, jn_turn_id = None, jn_summary = None, jn_terminal_code = None,
     jn_terminal_message = None,
     jn_config_snapshot = \<lparr>jc_name = ''n'', jc_project_placement_id = ''pa'', jc_prompt = ''go'', jc_provider = ''codex'',
       jc_schedule = Some (JS_Interval 1), jc_timezone = ''UTC'', jc_overlap_policy = OP_Skip, jc_continue_after_error = False\<rparr>,
     jn_force = False\<rparr>"

definition sent_message0 :: scheduled_message_row where
  "sent_message0 = (new_scheduled_message ''q'' ''sa'' ''hello'' 2 ''UTC'' 1)\<lparr>sm_state := SM_Sent\<rparr>"

definition sending_message0 :: scheduled_message_row where
  "sending_message0 = (new_scheduled_message ''p'' ''sa'' ''hello'' 2 ''UTC'' 1)\<lparr>sm_state := SM_Sending\<rparr>"

definition job_core :: core_state where
  "job_core = new_core (two_nodes\<lparr>db_nodes := [node_row0], db_job_runs := [ended_run0],
     db_scheduled_messages := [sent_message0, sending_message0]\<rparr>)"

lemma job_core_runs: "runs_inv (co_db job_core)"
  by (simp add: runs_inv_def job_core_def new_core_def unique_key_def runs_of_job_def ended_run0_def active_run_def occurrence_def)

lemma job_core_ended: "run_ended ended_run0 job_core"
  by (simp add: run_ended_def job_core_def new_core_def active_run_def) (simp add: ended_run0_def)

lemma job_core_closed: "message_closed sent_message0 job_core"
  by (simp add: message_closed_def job_core_def new_core_def open_message_def sent_message0_def)

lemma job_core_step: "schedule_steps job_core (snd (job_scheduler_tick sched_env0 utc job_core))"
  by (rule schedule_steps.more[OF schedule_steps.stay]) (rule schedule_step.intros)

lemma job_core_outbox: "outbox_inv (co_db job_core)"
  by (simp add: job_core_def new_core_def outbox_inv_def two_nodes_def empty_db_def waiting_def)

lemma job_core_log: "log_ok {} job_core"
proof -
  have "ingest_inv (co_db job_core)"
    by (simp add: job_core_def new_core_def ingest_inv_def two_nodes_def empty_db_def cursor_dense_def session_seqs_def)
  then show ?thesis unfolding job_core_def by (intro log_ok_new) (simp add: new_core_def)
qed

end
