(* ===== verification/Paths.thy ===== *)
theory Paths
  imports Core_Support
begin

text \<open>
  \<open>std::path\<close> on Unix as the program uses it: the components of a path text, absolute and
  relative paths, file names and extensions.
\<close>

datatype (plugins only: code size) path_component = RootDir | CurDir | ParentDir | NormalC string

text \<open>A component after the first position: repeated slashes and inner dots disappear.\<close>

definition inner_component :: "string \<Rightarrow> path_component option" where
  "inner_component w = (if w = [] \<or> w = ''.'' then None else if w = ''..'' then Some ParentDir else Some (NormalC w))"

definition is_absolute :: "string \<Rightarrow> bool" where
  "is_absolute p \<longleftrightarrow> (case p of c # _ \<Rightarrow> c = CHR ''/'' | [] \<Rightarrow> False)"

definition components :: "string \<Rightarrow> path_component list" where
  "components p = (case split_on CHR ''/'' p of [] \<Rightarrow> []
     | w # ws \<Rightarrow>
        (if is_absolute p then [RootDir] else if w = ''.'' then [CurDir] else filter_map inner_component [w])
        @ filter_map inner_component ws)"

text \<open>A \<open>PathBuf\<close> built from normal components only is the list of their names.\<close>

type_synonym rel_path = "string list"

definition join_slash :: "string list \<Rightarrow> string" where
  "join_slash ws = (case ws of [] \<Rightarrow> [] | w # rest \<Rightarrow> w @ concat (map (\<lambda>v. CHR ''/'' # v) rest))"

definition starts_with_path :: "string list \<Rightarrow> string list \<Rightarrow> bool" where
  "starts_with_path p root \<longleftrightarrow> take (length root) p = root"

text \<open>\<open>Path::extension\<close> of the last component: what follows its last dot, unless the dot is its first character.\<close>

definition extension :: "rel_path \<Rightarrow> string option" where
  "extension p = (if p = [] then None else
     (let name = last p; tail = takeWhile (\<lambda>c. c \<noteq> CHR ''.'') (rev name) in
      if length tail = length name \<or> length tail + 1 = length name then None else Some (rev tail)))"

definition to_ascii_lowercase :: "string \<Rightarrow> string" where
  "to_ascii_lowercase s = map (\<lambda>c. let n = of_char c :: nat in if 65 \<le> n \<and> n \<le> 90 then char_of (n + 32) else c) s"

section \<open>Names and components\<close>

definition name_ok :: "string \<Rightarrow> bool" where
  "name_ok w \<longleftrightarrow> w \<noteq> [] \<and> w \<noteq> ''.'' \<and> w \<noteq> ''..'' \<and> CHR ''/'' \<notin> set w"

lemma split_on_no_delim: "w \<in> set (split_on d s) \<Longrightarrow> d \<notin> set w"
  by (induction s arbitrary: w) (auto split: list.splits if_splits)

lemma split_on_not_Nil [simp]: "split_on d s \<noteq> []"
  by (induction s) (auto split: list.splits)

lemma components_normal_ok: "NormalC w \<in> set (components p) \<Longrightarrow> name_ok w"
proof -
  assume a: "NormalC w \<in> set (components p)"
  have "w \<in> set (split_on CHR ''/'' p) \<and> w \<noteq> [] \<and> w \<noteq> ''.'' \<and> w \<noteq> ''..''"
  proof -
    have i: "NormalC w \<in> set (filter_map inner_component ws) \<Longrightarrow> w \<in> set ws \<and> w \<noteq> [] \<and> w \<noteq> ''.'' \<and> w \<noteq> ''..''" for ws
      by (induction ws) (auto simp: inner_component_def split: if_splits)
    obtain v vs where s: "split_on CHR ''/'' p = v # vs" by (cases "split_on CHR ''/'' p") auto
    from a have "NormalC w \<in> set (filter_map inner_component [v]) \<or> NormalC w \<in> set (filter_map inner_component vs)"
      by (auto simp: components_def s split: if_splits)
    then show ?thesis using i[of "[v]"] i[of vs] s by auto
  qed
  then show ?thesis using split_on_no_delim by (fastforce simp: name_ok_def)
qed

lemma absolute_components: "RootDir \<in> set (components p) \<longleftrightarrow> is_absolute p"
proof -
  have "RootDir \<notin> set (filter_map inner_component ws)" for ws
    by (induction ws) (auto simp: inner_component_def)
  moreover obtain v vs where "split_on CHR ''/'' p = v # vs" by (cases "split_on CHR ''/'' p") auto
  ultimately show ?thesis by (auto simp: components_def simp del: filter_map.simps)
qed

text \<open>Joining good names and reading the text back yields the names.\<close>

lemma split_on_append:
  "d \<notin> set w \<Longrightarrow> split_on d (w @ d # s) = w # split_on d s"
  by (induction w) (auto split: list.splits)

lemma split_on_whole: "d \<notin> set w \<Longrightarrow> split_on d w = [w]"
  by (induction w) auto

lemma split_join: "ws \<noteq> [] \<Longrightarrow> \<forall>w\<in>set ws. CHR ''/'' \<notin> set w \<Longrightarrow> split_on CHR ''/'' (join_slash ws) = ws"
proof (induction ws)
  case (Cons w ws)
  show ?case
  proof (cases ws)
    case Nil
    then show ?thesis using Cons.prems by (simp add: join_slash_def split_on_whole)
  next
    case (Cons v vs)
    have "join_slash (w # ws) = w @ CHR ''/'' # join_slash ws" by (simp add: join_slash_def Cons)
    then show ?thesis using Cons.IH Cons.prems \<open>ws = v # vs\<close> by (simp add: split_on_append)
  qed
qed simp

lemma components_join:
  assumes "\<forall>w\<in>set ws. name_ok w"
  shows "components (join_slash ws) = map NormalC ws"
proof (cases ws)
  case Nil
  then show ?thesis by (simp add: components_def join_slash_def is_absolute_def inner_component_def)
next
  case (Cons w vs)
  have s: "split_on CHR ''/'' (join_slash ws) = ws" using assms Cons by (intro split_join) (auto simp: name_ok_def)
  have f: "\<forall>v\<in>set us. name_ok v \<Longrightarrow> filter_map inner_component us = map NormalC us" for us
    by (induction us) (auto simp: inner_component_def name_ok_def)
  have "\<not> is_absolute (join_slash ws)"
    using assms Cons by (cases w) (auto simp: join_slash_def is_absolute_def name_ok_def)
  then show ?thesis using s f[of vs] f[of "[w]"] assms Cons by (auto simp: components_def name_ok_def simp del: filter_map.simps)
qed

end
