(* ===== verification/File_System.thy ===== *)
theory File_System
  imports Paths "HOL-Library.AList" "HOL-Library.Word"
begin

text \<open>
  The file system the Node works on, as the system calls behind \<open>std::fs\<close> show it on Linux:
  a tree of entries under absolute canonical names, symbolic links, the permission bits of the
  daemon's user, and the resolution of a path with at most forty links. A Rust \<open>String\<close> that
  crosses this boundary is its UTF-8 bytes. Between two calls of one operation nobody else
  changes the tree. \<open>fe_readonly\<close> is \<open>Permissions::readonly\<close>: no write bit is set for anyone.
\<close>

type_synonym byte = "8 word"

section \<open>UTF-8\<close>

definition utf8_char :: "char \<Rightarrow> byte list" where
  "utf8_char c = (let n = of_char c :: nat in
     if n < 128 then [of_nat n] else [of_nat (192 + n div 64), of_nat (128 + n mod 64)])"

definition as_bytes :: "string \<Rightarrow> byte list" where
  "as_bytes s = concat (map utf8_char s)"

definition cont_byte :: "byte \<Rightarrow> bool" where
  "cont_byte b \<longleftrightarrow> 128 \<le> b \<and> b \<le> 191"

text \<open>\<open>String::from_utf8\<close> accepts exactly the well-formed sequences.\<close>

fun utf8_valid :: "byte list \<Rightarrow> bool" where
  "utf8_valid [] = True"
| "utf8_valid (a # bs) =
     (if a < 128 then utf8_valid bs
      else if 194 \<le> a \<and> a \<le> 223 then
        (case bs of b # r \<Rightarrow> cont_byte b \<and> utf8_valid r | _ \<Rightarrow> False)
      else if 224 \<le> a \<and> a \<le> 239 then
        (case bs of b # c # r \<Rightarrow> cont_byte b \<and> cont_byte c \<and> (a = 224 \<longrightarrow> 160 \<le> b) \<and> (a = 237 \<longrightarrow> b \<le> 159) \<and> utf8_valid r
         | _ \<Rightarrow> False)
      else if 240 \<le> a \<and> a \<le> 244 then
        (case bs of b # c # d # r \<Rightarrow> cont_byte b \<and> cont_byte c \<and> cont_byte d
           \<and> (a = 240 \<longrightarrow> 144 \<le> b) \<and> (a = 244 \<longrightarrow> b \<le> 143) \<and> utf8_valid r
         | _ \<Rightarrow> False)
      else False)"

section \<open>The tree\<close>

datatype (plugins only: code size) fs_kind = FK_File "byte list" | FK_Dir | FK_Link string | FK_Other

record fs_entry =
  fe_kind :: fs_kind
  fe_size :: nat
  fe_search :: bool
  fe_read :: bool
  fe_write :: bool
  fe_readonly :: bool
  fe_modified :: "time option"

type_synonym abs_path = "string list"

record fs =
  fs_cwd :: abs_path
  fs_tree :: "(abs_path \<times> fs_entry) list"

definition entry_at :: "fs \<Rightarrow> abs_path \<Rightarrow> fs_entry option" where
  "entry_at fs p = map_of (fs_tree fs) p"

definition is_link :: "fs_entry \<Rightarrow> bool" where
  "is_link e \<longleftrightarrow> (case fe_kind e of FK_Link _ \<Rightarrow> True | _ \<Rightarrow> False)"

definition is_dir :: "fs_entry \<Rightarrow> bool" where
  "is_dir e \<longleftrightarrow> fe_kind e = FK_Dir"

definition is_file :: "fs_entry \<Rightarrow> bool" where
  "is_file e \<longleftrightarrow> (case fe_kind e of FK_File _ \<Rightarrow> True | _ \<Rightarrow> False)"

definition entry_bytes :: "fs_entry \<Rightarrow> byte list" where
  "entry_bytes e = (case fe_kind e of FK_File b \<Rightarrow> b | _ \<Rightarrow> [])"

definition entry_len :: "fs_entry \<Rightarrow> nat" where
  "entry_len e = (case fe_kind e of FK_File b \<Rightarrow> length b | _ \<Rightarrow> fe_size e)"

definition set_entry :: "abs_path \<Rightarrow> fs_entry \<Rightarrow> fs \<Rightarrow> fs" where
  "set_entry p e fs = fs\<lparr>fs_tree := AList.update p e (fs_tree fs)\<rparr>"

datatype (plugins only: code size) io_error = IO_NotFound | IO_PermissionDenied | IO_AlreadyExists | IO_NotADirectory
  | IO_IsADirectory | IO_Loop | IO_Failed

section \<open>Path resolution\<close>

definition MAXSYMLINKS :: nat where "MAXSYMLINKS = 40"

text \<open>
  \<open>walk fs follow links cur pieces\<close> resolves the pieces of a path from the directory \<open>cur\<close>;
  \<open>follow\<close> tells whether a link in the last position is followed.
\<close>

function (sequential) walk :: "fs \<Rightarrow> bool \<Rightarrow> nat \<Rightarrow> abs_path \<Rightarrow> string list \<Rightarrow> io_error + abs_path" where
  "walk fs follow links cur [] = Inr cur"
| "walk fs follow links cur (w # rest) =
     (case entry_at fs cur of
        None \<Rightarrow> Inl IO_NotFound
      | Some d \<Rightarrow>
         if \<not> is_dir d then Inl IO_NotADirectory
         else if w = [] then walk fs follow links cur rest
         else if \<not> fe_search d then Inl IO_PermissionDenied
         else if w = ''.'' then walk fs follow links cur rest
         else if w = ''..'' then walk fs follow links (butlast cur) rest
         else (case entry_at fs (cur @ [w]) of
             None \<Rightarrow> Inl IO_NotFound
           | Some e \<Rightarrow> (case fe_kind e of
               FK_Link target \<Rightarrow>
                 if rest = [] \<and> \<not> follow then Inr (cur @ [w])
                 else (case links of 0 \<Rightarrow> Inl IO_Loop
                   | Suc n \<Rightarrow> walk fs follow n (if is_absolute target then [] else cur) (split_on CHR ''/'' target @ rest))
             | _ \<Rightarrow> walk fs follow links (cur @ [w]) rest)))"
  by pat_completeness auto
termination by (relation "inv_image (less_than <*lex*> less_than) (\<lambda>(fs, follow, links, cur, pieces). (links, length pieces))") auto

definition start_dir :: "fs \<Rightarrow> string \<Rightarrow> abs_path" where
  "start_dir fs p = (if is_absolute p then [] else fs_cwd fs)"

text \<open>\<open>std::fs::canonicalize\<close> of a path text, and of an absolute path built by the program.\<close>

definition canonicalize :: "fs \<Rightarrow> string \<Rightarrow> io_error + abs_path" where
  "canonicalize fs p = (if p = [] then Inl IO_NotFound
     else walk fs True MAXSYMLINKS (start_dir fs p) (split_on CHR ''/'' p))"

definition canonicalize_abs :: "fs \<Rightarrow> abs_path \<Rightarrow> io_error + abs_path" where
  "canonicalize_abs fs p = walk fs True MAXSYMLINKS [] p"

definition stat_result :: "fs \<Rightarrow> io_error + abs_path \<Rightarrow> io_error + abs_path \<times> fs_entry" where
  "stat_result fs r = (case r of Inl e \<Rightarrow> Inl e | Inr p \<Rightarrow>
     (case entry_at fs p of None \<Rightarrow> Inl IO_NotFound | Some e \<Rightarrow> Inr (p, e)))"

text \<open>\<open>symlink_metadata\<close> and \<open>metadata\<close>.\<close>

definition lstat :: "fs \<Rightarrow> abs_path \<Rightarrow> io_error + abs_path \<times> fs_entry" where
  "lstat fs p = stat_result fs (walk fs False MAXSYMLINKS [] p)"

definition stat :: "fs \<Rightarrow> abs_path \<Rightarrow> io_error + abs_path \<times> fs_entry" where
  "stat fs p = stat_result fs (walk fs True MAXSYMLINKS [] p)"

text \<open>\<open>fs::read\<close> follows links.\<close>

definition read_file :: "fs \<Rightarrow> abs_path \<Rightarrow> io_error + byte list" where
  "read_file fs p = (case stat fs p of Inl e \<Rightarrow> Inl e | Inr (_, e) \<Rightarrow>
     if \<not> fe_read e then Inl IO_PermissionDenied
     else if is_dir e then Inl IO_IsADirectory
     else Inr (entry_bytes e))"

text \<open>\<open>open\<close> for reading and writing with \<open>O_NOFOLLOW\<close>, and with \<open>create_new\<close> besides.\<close>

definition open_nofollow :: "fs \<Rightarrow> abs_path \<Rightarrow> io_error + abs_path \<times> fs_entry" where
  "open_nofollow fs p = (case lstat fs p of Inl e \<Rightarrow> Inl e | Inr (q, e) \<Rightarrow>
     if is_link e then Inl IO_Loop
     else if is_dir e then Inl IO_IsADirectory
     else if \<not> (fe_read e \<and> fe_write e) then Inl IO_PermissionDenied
     else Inr (q, e))"

definition new_file :: "time \<Rightarrow> fs_entry" where
  "new_file now = \<lparr>fe_kind = FK_File [], fe_size = 0, fe_search = False, fe_read = True, fe_write = True, fe_readonly = False, fe_modified = Some now\<rparr>"

definition create_new :: "time \<Rightarrow> abs_path \<Rightarrow> string \<Rightarrow> fs \<Rightarrow> io_error + abs_path \<times> fs" where
  "create_new now dir name fs = (case lstat fs (dir @ [name]) of
     Inr _ \<Rightarrow> Inl IO_AlreadyExists
   | Inl e \<Rightarrow> if e \<noteq> IO_NotFound then Inl e else
     (case stat fs dir of Inl e \<Rightarrow> Inl e | Inr (d, de) \<Rightarrow>
        if \<not> is_dir de then Inl IO_NotADirectory
        else if \<not> (fe_write de \<and> fe_search de) then Inl IO_PermissionDenied
        else Inr (d @ [name], set_entry (d @ [name]) (new_file now) fs)))"

text \<open>The names in a directory, in the order the tree lists them.\<close>

definition child_name :: "abs_path \<Rightarrow> abs_path \<Rightarrow> string option" where
  "child_name d p = (if p \<noteq> [] \<and> butlast p = d then Some (last p) else None)"

definition read_dir :: "fs \<Rightarrow> abs_path \<Rightarrow> io_error + string list" where
  "read_dir fs p = (case stat fs p of Inl e \<Rightarrow> Inl e | Inr (d, e) \<Rightarrow>
     if \<not> is_dir e then Inl IO_NotADirectory
     else if \<not> fe_read e then Inl IO_PermissionDenied
     else Inr (remdups (filter_map (child_name d) (map fst (fs_tree fs)))))"

section \<open>Canonical paths\<close>

text \<open>Every proper prefix of the path is a directory, so none is a link, and every name is proper.\<close>

definition piece_ok :: "string \<Rightarrow> bool" where
  "piece_ok w \<longleftrightarrow> w \<noteq> [] \<and> w \<noteq> ''.'' \<and> w \<noteq> ''..''"

definition canonical :: "fs \<Rightarrow> abs_path \<Rightarrow> bool" where
  "canonical fs p \<longleftrightarrow> list_all piece_ok p \<and> (\<forall>n < length p. \<exists>d. entry_at fs (take n p) = Some d \<and> is_dir d)"

lemma canonical_Nil [simp]: "canonical fs []"
  by (simp add: canonical_def)

lemma canonical_snoc:
  "canonical fs (p @ [w]) \<longleftrightarrow> canonical fs p \<and> piece_ok w \<and> (\<exists>d. entry_at fs p = Some d \<and> is_dir d)"
  by (auto simp: canonical_def less_Suc_eq)

lemma canonical_append: "canonical fs (p @ q) \<Longrightarrow> canonical fs p"
  by (induction q rule: rev_induct) (simp_all add: canonical_snoc flip: append_assoc)

lemma canonical_butlast: "canonical fs p \<Longrightarrow> canonical fs (butlast p)"
  by (cases p rule: rev_cases) (simp_all add: canonical_snoc)

lemma canonical_prefix_dir: "canonical fs (p @ w # q) \<Longrightarrow> \<exists>d. entry_at fs p = Some d \<and> is_dir d"
  using canonical_append[of fs "p @ [w]" q] by (simp add: canonical_snoc)

text \<open>An invariant of the directories a resolution passes holds of the path it ends at.\<close>

lemma walk_invariant:
  assumes "walk fs fo l cur ps = Inr p" "I cur"
    and up: "\<And>c d. I c \<Longrightarrow> entry_at fs c = Some d \<Longrightarrow> is_dir d \<Longrightarrow> I (butlast c)"
    and root: "\<And>c d. I c \<Longrightarrow> entry_at fs c = Some d \<Longrightarrow> is_dir d \<Longrightarrow> I []"
    and enter: "\<And>c d w e. I c \<Longrightarrow> entry_at fs c = Some d \<Longrightarrow> is_dir d \<Longrightarrow> piece_ok w \<Longrightarrow>
      entry_at fs (c @ [w]) = Some e \<Longrightarrow> is_link e \<longrightarrow> \<not> fo \<Longrightarrow> I (c @ [w])"
  shows "I p"
  using assms(1,2)
proof (induction l arbitrary: cur ps rule: less_induct)
  case (less l)
  show ?case using less.prems
  proof (induction ps arbitrary: cur)
    case (Cons w rest)
    note w = Cons.prems(1) and I = Cons.prems(2)
    obtain d where d: "entry_at fs cur = Some d" "is_dir d" using w by (cases "entry_at fs cur") (simp_all split: if_splits)
    show ?case
    proof (cases "piece_ok w")
      case False
      then show ?thesis using w d Cons.IH[OF _ I] Cons.IH[OF _ up[OF I d]] by (simp add: piece_ok_def split: if_splits)
    next
      case True
      then obtain e where e: "entry_at fs (cur @ [w]) = Some e" "fe_search d"
        using w d by (cases "entry_at fs (cur @ [w])") (simp_all add: piece_ok_def split: if_splits)
      note go = enter[OF I d True e(1)]
      show ?thesis
      proof (cases "fe_kind e")
        case (FK_Link target)
        then have "walk fs fo l cur (w # rest) = (if rest = [] \<and> \<not> fo then Inr (cur @ [w])
           else (case l of 0 \<Rightarrow> Inl IO_Loop
             | Suc n \<Rightarrow> walk fs fo n (if is_absolute target then [] else cur) (split_on CHR ''/'' target @ rest)))"
          using d e True by (simp add: piece_ok_def)
        then show ?thesis
          using w go less.IH[of "l - 1" "if is_absolute target then [] else cur"] I root[OF I d]
          by (cases l) (auto split: if_splits)
      qed (use w d e True go Cons.IH[of "cur @ [w]"] in \<open>simp_all add: piece_ok_def is_link_def\<close>)
    qed
  qed simp
qed

text \<open>Resolution never leaves the canonical paths, whatever links it meets.\<close>

lemma walk_canonical: "walk fs fo l cur ps = Inr p \<Longrightarrow> canonical fs cur \<Longrightarrow> canonical fs p"
  by (erule walk_invariant) (auto simp: canonical_snoc canonical_butlast)

text \<open>What a path denotes when its last link is followed exists and is no link.\<close>

lemma dir_not_link: "is_dir e \<Longrightarrow> \<not> is_link e"
  by (simp add: is_dir_def is_link_def)

lemma walk_not_link:
  assumes "walk fs True l cur ps = Inr p" "canonical fs cur" "entry_at fs cur = Some d" "\<not> is_link d"
  shows "\<exists>e. entry_at fs p = Some e \<and> \<not> is_link e"
proof -
  let ?I = "\<lambda>c. canonical fs c \<and> (\<exists>e. entry_at fs c = Some e \<and> \<not> is_link e)"
  have "?I p"
  proof (rule walk_invariant[OF assms(1), of ?I])
    fix c x assume "?I c" "entry_at fs c = Some x" "is_dir x"
    then show "?I (butlast c)" by (cases c rule: rev_cases) (auto simp: canonical_snoc dir_not_link)
    show "?I []" using \<open>?I c\<close> \<open>entry_at fs c = Some x\<close> \<open>is_dir x\<close>
      by (cases c) (auto simp: dir_not_link dest: canonical_prefix_dir[of fs "[]", simplified])
  qed (use assms in \<open>auto simp: canonical_snoc\<close>)
  then show ?thesis by blast
qed

text \<open>A canonical path that denotes no link resolves to itself.\<close>

lemma walk_self:
  assumes "walk fs fo l cur ps = Inr q" "canonical fs (cur @ ps)"
    "fo \<longrightarrow> (\<forall>e. entry_at fs (cur @ ps) = Some e \<longrightarrow> \<not> is_link e)"
  shows "q = cur @ ps"
  using assms
proof (induction ps arbitrary: cur)
  case (Cons w ps)
  have ok: "piece_ok w" using canonical_append[of fs "cur @ [w]" ps] Cons.prems(2) by (simp add: canonical_snoc)
  obtain d where d: "entry_at fs cur = Some d" "is_dir d" using canonical_prefix_dir Cons.prems(2) by blast
  obtain e where e: "entry_at fs (cur @ [w]) = Some e"
    using Cons.prems(1) d ok by (auto simp: piece_ok_def split: option.splits if_splits)
  show ?case
  proof (cases "is_link e")
    case False
    then have "walk fs fo l (cur @ [w]) ps = Inr q"
      using Cons.prems(1) d ok e by (auto simp: piece_ok_def is_link_def split: option.splits if_splits fs_kind.splits)
    then show ?thesis using Cons.IH[of "cur @ [w]"] Cons.prems by simp
  next
    case True
    have "ps = []"
    proof (rule ccontr)
      assume "ps \<noteq> []"
      then obtain v vs where "ps = v # vs" by (cases ps) auto
      then have "is_dir e" using canonical_prefix_dir[of fs "cur @ [w]" v vs] Cons.prems(2) e by simp
      then show False using True by (simp add: is_dir_def is_link_def)
    qed
    then show ?thesis using Cons.prems d ok e True
      by (auto simp: piece_ok_def is_link_def split: option.splits if_splits fs_kind.splits)
  qed
qed simp

lemma lstat_self:
  assumes "lstat fs p = Inr (q, e)" "canonical fs p"
  shows "q = p" "entry_at fs p = Some e"
  using assms walk_self[of fs False MAXSYMLINKS "[]" p q]
  by (auto simp: lstat_def stat_result_def split: sum.splits option.splits)

lemma stat_self:
  assumes "stat fs p = Inr (q, e)" "canonical fs p" "\<forall>e. entry_at fs p = Some e \<longrightarrow> \<not> is_link e"
  shows "q = p" "entry_at fs p = Some e"
  using assms walk_self[of fs True MAXSYMLINKS "[]" p q]
  by (auto simp: stat_def stat_result_def split: sum.splits option.splits)

lemma canonicalize_abs_self:
  assumes "canonicalize_abs fs p = Inr q" "canonical fs p" "\<forall>e. entry_at fs p = Some e \<longrightarrow> \<not> is_link e"
  shows "q = p"
  using assms walk_self[of fs True MAXSYMLINKS "[]" p q] by (simp add: canonicalize_abs_def)

text \<open>Looking up a name below a canonical directory finds a canonical path.\<close>

lemma lstat_child:
  assumes "lstat fs (d @ [w]) = Inr (q, e)" "canonical fs d" "piece_ok w" "\<forall>e. entry_at fs d = Some e \<longrightarrow> \<not> is_link e"
  shows "canonical fs (d @ [w])"
proof -
  obtain r where r: "walk fs False MAXSYMLINKS [] (d @ [w]) = Inr r"
    using assms(1) by (auto simp: lstat_def stat_result_def split: sum.splits)
  have "\<exists>x. entry_at fs d = Some x \<and> is_dir x"
    if "walk fs False l cur (ps @ [w]) = Inr r" "canonical fs (cur @ ps)" "d = cur @ ps" for l cur ps
    using that assms(4)
  proof (induction ps arbitrary: cur)
    case Nil
    then show ?case by (auto split: option.splits if_splits)
  next
    case (Cons v ps)
    have ok: "piece_ok v" using canonical_append[of fs "cur @ [v]" ps] Cons.prems(2) by (simp add: canonical_snoc)
    obtain x where x: "entry_at fs cur = Some x" "is_dir x" using canonical_prefix_dir Cons.prems(2) by blast
    obtain e where e: "entry_at fs (cur @ [v]) = Some e"
      using Cons.prems(1) x ok by (auto simp: piece_ok_def split: option.splits if_splits)
    have "\<not> is_link e"
    proof (cases ps)
      case Nil
      then show ?thesis using Cons.prems(3,4) e by simp
    next
      case (Cons u us)
      then have "is_dir e" using canonical_prefix_dir[of fs "cur @ [v]" u us] Cons.prems(2) e by simp
      then show ?thesis by (simp add: is_dir_def is_link_def)
    qed
    then have "walk fs False l (cur @ [v]) (ps @ [w]) = Inr r"
      using Cons.prems(1) x ok e by (auto simp: piece_ok_def is_link_def split: option.splits if_splits fs_kind.splits)
    then show ?case using Cons.IH[of "cur @ [v]"] Cons.prems by simp
  qed
  from this[of MAXSYMLINKS "[]" d] show ?thesis using r assms(2,3) by (simp add: canonical_snoc)
qed

text \<open>A name below a directory that resolves to itself is found when it is there.\<close>

lemma walk_snoc:
  assumes "walk fs True l cur ps = Inr (cur @ ps)" "canonical fs (cur @ ps)" "\<forall>e. entry_at fs (cur @ ps) = Some e \<longrightarrow> \<not> is_link e"
  shows "walk fs fo l cur (ps @ [w]) = walk fs fo l (cur @ ps) [w]"
  using assms
proof (induction ps arbitrary: cur)
  case (Cons v ps)
  have ok: "piece_ok v" using canonical_append[of fs "cur @ [v]" ps] Cons.prems(2) by (simp add: canonical_snoc)
  obtain d where d: "entry_at fs cur = Some d" "is_dir d" using canonical_prefix_dir Cons.prems(2) by blast
  obtain e where e: "entry_at fs (cur @ [v]) = Some e" "fe_search d"
    using Cons.prems(1) d ok by (cases "entry_at fs (cur @ [v])") (simp_all add: piece_ok_def split: if_splits)
  have nl: "\<not> is_link e"
  proof (cases ps)
    case Nil
    then show ?thesis using Cons.prems(3) e by simp
  next
    case (Cons u us)
    then show ?thesis using canonical_prefix_dir[of fs "cur @ [v]" u us] Cons.prems(2) e dir_not_link by auto
  qed
  have step: "walk fs f l cur (v # rest) = walk fs f l (cur @ [v]) rest" for f rest
    using d ok e nl by (cases "fe_kind e") (simp_all add: piece_ok_def is_link_def)
  show ?case using Cons.IH[of "cur @ [v]"] Cons.prems(1) Cons.prems(2,3) by (simp add: step del: walk.simps(2))
qed simp

lemma lstat_existing:
  assumes "stat fs d = Inr (d, x)" "canonical fs d" "\<not> is_link x" "is_dir x" "fe_search x" "piece_ok w"
    "entry_at fs (d @ [w]) = Some e"
  shows "lstat fs (d @ [w]) = Inr (d @ [w], e)"
proof -
  have w: "walk fs True MAXSYMLINKS [] d = Inr ([] @ d)" and x: "entry_at fs d = Some x"
    using assms(1) by (auto simp: stat_def stat_result_def split: sum.splits option.splits)
  have "walk fs False MAXSYMLINKS d [w] = Inr (d @ [w])"
    using x assms(4-7) by (cases "fe_kind e") (simp_all add: piece_ok_def)
  then have "walk fs False MAXSYMLINKS [] (d @ [w]) = Inr (d @ [w])"
    using walk_snoc[OF w, of False w] assms(2,3) x by simp
  then show ?thesis using assms(7) by (simp add: lstat_def stat_result_def)
qed

section \<open>Encoded text\<close>

lemma utf8_char_valid: "utf8_valid (utf8_char c @ bs) = utf8_valid bs"
proof -
  define n where "n = (of_char c :: nat)"
  have n: "n < 256" by (simp add: n_def)
  have cont: "cont_byte (of_nat (128 + k))" if "k < 64" for k
    using that by (simp add: cont_byte_def word_le_nat_alt unat_of_nat del: of_nat_add)
  show ?thesis
  proof (cases "n < 128")
    case True
    then have "(of_nat n :: byte) < 128" by (simp add: word_less_nat_alt unat_of_nat)
    then show ?thesis using True by (simp add: utf8_char_def Let_def n_def[symmetric])
  next
    case False
    then have k: "n div 64 = 2 \<or> n div 64 = 3" using n by linarith
    have c: "cont_byte (of_nat (128 + n mod 64))" using cont by simp
    define b where "b = (of_nat (128 + n mod 64) :: byte)"
    have u: "utf8_char c = [of_nat (192 + n div 64), b]" using False by (simp add: utf8_char_def Let_def n_def[symmetric] b_def)
    have "(of_nat (192 + n div 64) :: byte) = 194 \<or> (of_nat (192 + n div 64) :: byte) = 195" using k by (elim disjE) simp_all
    then show ?thesis using c unfolding u b_def[symmetric] by (elim disjE) (simp_all del: of_nat_add)
  qed
qed

lemma utf8_valid_as_bytes [simp]: "utf8_valid (as_bytes s)"
  by (induction s) (simp_all add: as_bytes_def utf8_char_valid)

section \<open>Trees that grow\<close>

text \<open>Every entry is still there with its kind and search permission; file contents may differ.\<close>

definition extends :: "fs \<Rightarrow> fs \<Rightarrow> bool" where
  "extends fs fs' \<longleftrightarrow> fs_cwd fs' = fs_cwd fs \<and> (\<forall>p e. entry_at fs p = Some e \<longrightarrow> (\<exists>e'. entry_at fs' p = Some e'
     \<and> fe_search e' = fe_search e \<and> (fe_kind e' = fe_kind e \<or> is_file e \<and> is_file e')))"

lemma extends_entry:
  assumes "extends fs fs'" "entry_at fs p = Some e"
  obtains e' where "entry_at fs' p = Some e'" "fe_search e' = fe_search e" "is_dir e' = is_dir e" "is_link e' = is_link e"
    "is_link e \<Longrightarrow> fe_kind e' = fe_kind e"
proof -
  obtain e' where e': "entry_at fs' p = Some e'" "fe_search e' = fe_search e" "fe_kind e' = fe_kind e \<or> is_file e \<and> is_file e'"
    using assms by (auto simp: extends_def)
  from that[OF e'(1,2)] e'(3) show thesis
    by (cases "fe_kind e"; cases "fe_kind e'") (auto simp: is_dir_def is_link_def is_file_def)
qed

text \<open>A resolution that succeeds still does, also when it stops following a last link it did not need.\<close>

lemma walk_extends:
  assumes "walk fs fo l cur ps = Inr q" "extends fs fs'" "fo' = fo \<or> \<not> fo \<and> (\<forall>e. entry_at fs q = Some e \<longrightarrow> \<not> is_link e)"
  shows "walk fs' fo' l cur ps = Inr q"
  using assms(1,3)
proof (induction l arbitrary: cur ps rule: less_induct)
  case (less l)
  show ?case using less.prems
  proof (induction ps arbitrary: cur)
    case (Cons w rest)
    note w = Cons.prems(1)
    obtain d where d: "entry_at fs cur = Some d" "is_dir d" using w by (cases "entry_at fs cur") (simp_all split: if_splits)
    obtain d' where d': "entry_at fs' cur = Some d'" "fe_search d' = fe_search d" "is_dir d'"
      using extends_entry[OF assms(2) d(1)] d(2) by metis
    show ?case
    proof (cases "piece_ok w")
      case False
      then show ?thesis using w d d' Cons.IH Cons.prems(2) by (simp add: piece_ok_def split: if_splits)
    next
      case True
      then obtain e where e: "entry_at fs (cur @ [w]) = Some e" "fe_search d"
        using w d by (cases "entry_at fs (cur @ [w])") (simp_all add: piece_ok_def split: if_splits)
      obtain e' where e': "entry_at fs' (cur @ [w]) = Some e'" "is_link e' = is_link e" "is_link e \<Longrightarrow> fe_kind e' = fe_kind e"
        using extends_entry[OF assms(2) e(1)] by metis
      show ?thesis
      proof (cases "is_link e")
        case False
        then have "walk fs fo l (cur @ [w]) rest = Inr q"
          using w d e True by (auto simp: piece_ok_def is_link_def split: fs_kind.splits)
        moreover have "walk fs' fo' l cur (w # rest) = walk fs' fo' l (cur @ [w]) rest"
          using d' e e' True False by (auto simp: piece_ok_def is_link_def split: fs_kind.splits)
        ultimately show ?thesis using Cons.IH Cons.prems(2) by simp
      next
        case l: True
        then obtain target where t: "fe_kind e = FK_Link target" by (auto simp: is_link_def split: fs_kind.splits)
        have eq: "walk x f l cur (w # rest) = (if rest = [] \<and> \<not> f then Inr (cur @ [w])
           else (case l of 0 \<Rightarrow> Inl IO_Loop
             | Suc n \<Rightarrow> walk x f n (if is_absolute target then [] else cur) (split_on CHR ''/'' target @ rest)))"
          if "x = fs \<or> x = fs'" for x f
          using that d d' e e' l t True by (auto simp: piece_ok_def)
        show ?thesis
          using w eq[of fs fo] eq[of fs' fo'] less.IH[of "l - 1" "if is_absolute target then [] else cur"] Cons.prems(2) e l
          by (cases l) (auto split: if_splits)
      qed
    qed
  qed simp
qed

end
