(* ===== verification/Workspace_Files.thy ===== *)
theory Workspace_Files
  imports File_System Node_Dispatch
begin

text \<open>
  The workspace inspector of the Node (\<open>uprava-node/src/runtime/workspace.rs\<close>): which paths a
  command may name, how they are resolved under the allowed roots, and the commands that list,
  read and write files. An error is its \<open>code\<close>; the message only words it.
\<close>

type_synonym inspect_error = string

definition MAX_WORKSPACE_DIRECTORY_ENTRIES :: nat where "MAX_WORKSPACE_DIRECTORY_ENTRIES = 100"
definition MAX_WORKSPACE_TEXT_BYTES :: nat where "MAX_WORKSPACE_TEXT_BYTES = 256 * 1024"

datatype (plugins only: code size) workspace_entry_kind = WE_File | WE_Directory | WE_Symlink | WE_Other

datatype (plugins only: code size) workspace_entry_status = ES_Readable | ES_Directory | ES_Large | ES_Binary | ES_Ignored
  | ES_Generated | ES_PermissionDenied | ES_OutsideWorkspace | ES_Missing | ES_NotFile | ES_NotDirectory | ES_Symlink
  | ES_Error

datatype (plugins only: code size) workspace_entry_classification = EC_Normal | EC_Generated | EC_Ignored

datatype (plugins only: code size) workspace_entry = WorkspaceEntry
  (we_name: string) (we_path: string) (we_kind: workspace_entry_kind) (we_status: workspace_entry_status)
  (we_classification: workspace_entry_classification) (we_expandable: bool) (we_byte_len: "nat option")
  (we_modified_at: "time option") (we_children: "workspace_entry list")

record workspace_tree_response =
  wt_placement_id :: id
  wt_root :: workspace_entry
  wt_truncated :: bool
  wt_total_entries :: "nat option"
  wt_generated_at :: time

record workspace_file_content_response =
  wf_placement_id :: id
  wf_path :: string
  wf_metadata :: workspace_entry
  wf_content :: "byte list option"
  wf_truncated :: bool
  wf_generated_at :: time

record workspace_file_write_response =
  ww_placement_id :: id
  ww_path :: string
  ww_metadata :: workspace_entry
  ww_edit_id :: string
  ww_written_at :: time

section \<open>The command\<close>

definition workspace_command_placement_id :: "command_envelope \<Rightarrow> inspect_error + id" where
  "workspace_command_placement_id command =
     ok_or (target_placement_id (ce_target command)) ''workspace.placement_missing''"

definition workspace_command_path :: "command_envelope \<Rightarrow> inspect_error + string" where
  "workspace_command_path command = ok_or (Option.bind (command_payload_str command ''workspace_path'')
     (\<lambda>p. if trim p = [] then None else Some p)) ''workspace.path_required''"

definition write_request :: "command_payload \<Rightarrow> inspect_error + workspace_file_write_request" where
  "write_request p = (case p of CP_WriteWorkspaceFile _ request \<Rightarrow> Inr request | _ \<Rightarrow> Inl ''workspace.invalid_payload'')"

section \<open>Allowed roots\<close>

definition canonical_workspace_path_allowed_roots :: "fs \<Rightarrow> string list \<Rightarrow> abs_path \<Rightarrow> bool" where
  "canonical_workspace_path_allowed_roots fs allowed_paths workspace_root \<longleftrightarrow>
     allowed_paths \<noteq> [] \<and> list_ex (\<lambda>allowed_root. case canonicalize fs allowed_root of
        Inr root \<Rightarrow> starts_with_path workspace_root root | Inl _ \<Rightarrow> False) allowed_paths"

definition canonical_workspace_root :: "fs \<Rightarrow> string list \<Rightarrow> string \<Rightarrow> inspect_error + abs_path" where
  "canonical_workspace_root fs allowed_paths workspace_path =
     (case canonicalize fs workspace_path of
        Inl e \<Rightarrow> Inl (if e = IO_NotFound then ''workspace.root_missing''
          else if e = IO_PermissionDenied then ''workspace.root_permission_denied'' else ''workspace.root_invalid'')
      | Inr root \<Rightarrow>
         if \<not> (case stat fs root of Inr (_, e) \<Rightarrow> is_dir e | Inl _ \<Rightarrow> False) then Inl ''workspace.root_not_directory''
         else if \<not> canonical_workspace_path_allowed_roots fs allowed_paths root then Inl ''workspace.outside_allowed_roots''
         else Inr root)"

text \<open>The parents of a path text, nearest first, as \<open>Path::ancestors\<close> lists them.\<close>

definition path_text :: "path_component list \<Rightarrow> string" where
  "path_text cs = (case cs of RootDir # rest \<Rightarrow> CHR ''/'' # join_slash (map (\<lambda>c. case c of NormalC w \<Rightarrow> w | ParentDir \<Rightarrow> ''..'' | _ \<Rightarrow> ''.'') rest)
     | _ \<Rightarrow> join_slash (map (\<lambda>c. case c of NormalC w \<Rightarrow> w | ParentDir \<Rightarrow> ''..'' | _ \<Rightarrow> ''.'') cs))"

definition strict_ancestors :: "string \<Rightarrow> string list" where
  "strict_ancestors p = (let cs = components p in map (\<lambda>n. path_text (take n cs))
     (filter (\<lambda>n. n \<noteq> 0 \<or> \<not> is_absolute p) (rev [0..<length cs])))"

definition workspace_path_allowed :: "fs \<Rightarrow> string list \<Rightarrow> string \<Rightarrow> bool" where
  "workspace_path_allowed fs allowed_paths path = (case canonicalize fs path of
     Inr canonical_path \<Rightarrow> canonical_workspace_path_allowed_roots fs allowed_paths canonical_path
   | Inl _ \<Rightarrow> (case filter_map (\<lambda>a. case canonicalize fs a of Inr c \<Rightarrow> Some c | Inl _ \<Rightarrow> None) (strict_ancestors path) of
         [] \<Rightarrow> False | ancestor # _ \<Rightarrow> canonical_workspace_path_allowed_roots fs allowed_paths ancestor))"

section \<open>Paths inside a workspace\<close>

fun normalize_components :: "rel_path \<Rightarrow> path_component list \<Rightarrow> inspect_error + rel_path" where
  "normalize_components acc [] = Inr acc"
| "normalize_components acc (NormalC w # cs) = normalize_components (acc @ [w]) cs"
| "normalize_components acc (CurDir # cs) = normalize_components acc cs"
| "normalize_components acc (_ # cs) = Inl ''workspace.path_escape''"

definition safe_workspace_relative_path :: "string \<Rightarrow> inspect_error + rel_path" where
  "safe_workspace_relative_path path =
     (let trimmed = trim path in
      if trimmed = [] \<or> trimmed = ''.'' then Inr []
      else if is_absolute trimmed then Inl ''workspace.absolute_path''
      else normalize_components [] (components trimmed))"

text \<open>
  The loop stops at the first link and returns it. A relative path built by
  \<open>safe_workspace_relative_path\<close> has normal components only, so the escape the loop reports for
  any other component cannot occur.
\<close>

fun resolve_from :: "fs \<Rightarrow> abs_path \<Rightarrow> abs_path \<Rightarrow> rel_path \<Rightarrow> inspect_error + abs_path" where
  "resolve_from fs workspace_root current [] = Inr current"
| "resolve_from fs workspace_root current (segment # rest) =
     (let next = current @ [segment] in
      case lstat fs next of
        Inl e \<Rightarrow> Inl (if e = IO_NotFound then ''workspace.path_missing''
          else if e = IO_PermissionDenied then ''workspace.permission_denied'' else ''workspace.metadata_failed'')
      | Inr (_, metadata) \<Rightarrow>
         if is_link metadata then Inr next
         else (case canonicalize_abs fs next of
             Inl _ \<Rightarrow> Inl ''workspace.canonicalize_failed''
           | Inr resolved \<Rightarrow>
               if \<not> starts_with_path resolved workspace_root then Inl ''workspace.path_escape''
               else resolve_from fs workspace_root resolved rest))"

definition resolve_existing_workspace_path :: "fs \<Rightarrow> abs_path \<Rightarrow> rel_path \<Rightarrow> inspect_error + abs_path" where
  "resolve_existing_workspace_path fs workspace_root relative_path = resolve_from fs workspace_root workspace_root relative_path"

section \<open>Entries\<close>

fun generated_or_ignored :: "workspace_entry_status option \<Rightarrow> rel_path \<Rightarrow> workspace_entry_status option" where
  "generated_or_ignored generated [] = generated"
| "generated_or_ignored generated (name # rest) =
     (if name \<in> set [''.git'', ''.hg'', ''.svn'', ''.DS_Store''] then Some ES_Ignored
      else if name \<in> set [''.local'', ''node_modules'', ''target'', ''dist'', ''build'', ''coverage'', ''.next'', ''.turbo'', ''.vite'']
        then generated_or_ignored (Some ES_Generated) rest
      else generated_or_ignored generated rest)"

definition generated_or_ignored_status :: "rel_path \<Rightarrow> workspace_entry_status option" where
  "generated_or_ignored_status relative_path = generated_or_ignored None relative_path"

definition binary_extension :: "rel_path \<Rightarrow> bool" where
  "binary_extension path = (case extension path of None \<Rightarrow> False | Some x \<Rightarrow> to_ascii_lowercase x \<in> set
     [''png'', ''jpg'', ''jpeg'', ''gif'', ''webp'', ''ico'', ''pdf'', ''zip'', ''gz'', ''tar'', ''tgz'', ''woff'', ''woff2'',
      ''ttf'', ''otf'', ''wasm'', ''sqlite'', ''db'', ''bin'', ''exe'', ''dylib'', ''so'', ''dll''])"

definition workspace_entry_name :: "rel_path \<Rightarrow> string" where
  "workspace_entry_name p = (if p = [] then ''.'' else last p)"

definition relative_path_string :: "rel_path \<Rightarrow> string" where
  "relative_path_string p = (if p = [] then ''.'' else join_slash p)"

definition workspace_entry_classification_of :: "rel_path \<Rightarrow> workspace_entry_classification" where
  "workspace_entry_classification_of p = (case generated_or_ignored_status p of
     Some ES_Generated \<Rightarrow> EC_Generated | Some ES_Ignored \<Rightarrow> EC_Ignored | _ \<Rightarrow> EC_Normal)"

definition workspace_entry_kind_of :: "fs_entry \<Rightarrow> workspace_entry_kind" where
  "workspace_entry_kind_of m = (case fe_kind m of FK_Dir \<Rightarrow> WE_Directory | FK_File _ \<Rightarrow> WE_File
     | FK_Link _ \<Rightarrow> WE_Symlink | FK_Other \<Rightarrow> WE_Other)"

definition workspace_status_for_entry :: "rel_path \<Rightarrow> fs_entry \<Rightarrow> workspace_entry_status" where
  "workspace_status_for_entry relative_path m =
     (if is_link m then ES_Symlink
      else if is_dir m then ES_Directory
      else if is_file m then
        (if entry_len m > MAX_WORKSPACE_TEXT_BYTES then ES_Large
         else if binary_extension relative_path then ES_Binary else ES_Readable)
      else ES_Error)"

definition workspace_entry_for_status ::
  "rel_path \<Rightarrow> workspace_entry_kind \<Rightarrow> workspace_entry_status \<Rightarrow> nat option \<Rightarrow> time option \<Rightarrow> workspace_entry" where
  "workspace_entry_for_status p kind status byte_len modified_at =
     WorkspaceEntry (workspace_entry_name p) (relative_path_string p) kind status EC_Normal False byte_len modified_at []"

definition entry_of_metadata :: "rel_path \<Rightarrow> fs_entry \<Rightarrow> bool \<Rightarrow> workspace_entry" where
  "entry_of_metadata p m expandable = WorkspaceEntry (workspace_entry_name p) (relative_path_string p)
     (workspace_entry_kind_of m) (workspace_status_for_entry p m) (workspace_entry_classification_of p) expandable
     (if is_file m then Some (entry_len m) else None) (fe_modified m) []"

definition workspace_tree_entry :: "fs \<Rightarrow> abs_path \<Rightarrow> rel_path \<Rightarrow> workspace_entry" where
  "workspace_tree_entry fs path relative_path = (case lstat fs path of
     Inl e \<Rightarrow> workspace_entry_for_status relative_path WE_Other (if e = IO_PermissionDenied then ES_PermissionDenied
        else if e = IO_NotFound then ES_Missing else ES_Error) None None
   | Inr (_, metadata) \<Rightarrow> entry_of_metadata relative_path metadata (is_dir metadata))"

section \<open>Listing a directory\<close>

definition entry_is_dir :: "fs \<Rightarrow> abs_path \<Rightarrow> string \<Rightarrow> bool" where
  "entry_is_dir fs dir name = (case entry_at fs (dir @ [name]) of None \<Rightarrow> False | Some e \<Rightarrow> is_dir e)"

definition with_status :: "workspace_entry_status \<Rightarrow> workspace_entry \<Rightarrow> workspace_entry" where
  "with_status status e = (case e of WorkspaceEntry name path kind _ classification _ len modified children \<Rightarrow>
     WorkspaceEntry name path kind status classification False len modified children)"

definition with_children :: "workspace_entry list \<Rightarrow> workspace_entry \<Rightarrow> workspace_entry" where
  "with_children children e = (case e of WorkspaceEntry name path kind status classification expandable len modified _ \<Rightarrow>
     WorkspaceEntry name path kind status classification expandable len modified children)"

definition sorted_entries :: "fs \<Rightarrow> abs_path \<Rightarrow> string list \<Rightarrow> string list" where
  "sorted_entries fs dir names = sort_key (\<lambda>n. (\<not> entry_is_dir fs dir n, n)) names"

definition list_directory :: "fs \<Rightarrow> abs_path \<Rightarrow> rel_path \<Rightarrow> workspace_entry \<Rightarrow> workspace_entry \<times> bool \<times> nat option" where
  "list_directory fs root_path relative_path root = (case read_dir fs root_path of
     Inr names \<Rightarrow>
       (let entries = sorted_entries fs root_path names in
        (with_children (map (\<lambda>n. workspace_tree_entry fs (root_path @ [n]) (relative_path @ [n]))
           (take MAX_WORKSPACE_DIRECTORY_ENTRIES entries)) root,
         length entries > MAX_WORKSPACE_DIRECTORY_ENTRIES, Some (length entries)))
   | Inl e \<Rightarrow> (with_status (if e = IO_PermissionDenied then ES_PermissionDenied else ES_Error) root, False, None))"

definition build_workspace_tree_response ::
  "string list \<Rightarrow> time \<Rightarrow> command_envelope \<Rightarrow> fs \<Rightarrow> inspect_error + workspace_tree_response" where
  "build_workspace_tree_response allowed now command fs =
     and_then (workspace_command_placement_id command) (\<lambda>placement_id.
     and_then (workspace_command_path command) (\<lambda>workspace_path.
     and_then (canonical_workspace_root fs allowed workspace_path) (\<lambda>workspace_root.
     and_then (safe_workspace_relative_path (case command_payload_str command ''path'' of Some p \<Rightarrow> p | None \<Rightarrow> ''.'')) (\<lambda>relative_path.
     and_then (case resolve_existing_workspace_path fs workspace_root relative_path of
          Inr path \<Rightarrow> Inr path
        | Inl e \<Rightarrow> if e = ''workspace.path_missing'' then Inr (workspace_root @ relative_path) else Inl e) (\<lambda>root_path.
     let root = workspace_tree_entry fs root_path relative_path in
     case (if we_kind root = WE_Directory \<and> we_status root = ES_Directory
           then list_directory fs root_path relative_path root else (root, False, None)) of
       (root', truncated, total_entries) \<Rightarrow>
         Inr \<lparr>wt_placement_id = placement_id, wt_root = root', wt_truncated = truncated, wt_total_entries = total_entries,
           wt_generated_at = now\<rparr>)))))"

section \<open>Reading a file\<close>

definition workspace_file_status_response ::
  "time \<Rightarrow> id \<Rightarrow> rel_path \<Rightarrow> workspace_entry_kind \<Rightarrow> workspace_entry_status \<Rightarrow> nat option \<Rightarrow> time option \<Rightarrow> byte list option
   \<Rightarrow> workspace_file_content_response" where
  "workspace_file_status_response now placement_id p kind status byte_len modified_at content =
     \<lparr>wf_placement_id = placement_id, wf_path = relative_path_string p,
      wf_metadata = WorkspaceEntry (workspace_entry_name p) (relative_path_string p) kind status
        (workspace_entry_classification_of p) False byte_len modified_at [],
      wf_content = content, wf_truncated = False, wf_generated_at = now\<rparr>"

definition file_response_at ::
  "time \<Rightarrow> id \<Rightarrow> rel_path \<Rightarrow> fs \<Rightarrow> abs_path \<Rightarrow> inspect_error + workspace_file_content_response" where
  "file_response_at now placement_id relative_path fs target_path = (case lstat fs target_path of
     Inl e \<Rightarrow> if e = IO_PermissionDenied then Inr (workspace_file_status_response now placement_id relative_path WE_Other
           ES_PermissionDenied None None None)
       else if e = IO_NotFound then Inr (workspace_file_status_response now placement_id relative_path WE_Other ES_Missing None None None)
       else Inl ''workspace.metadata_failed''
   | Inr (_, metadata) \<Rightarrow>
      (let kind = workspace_entry_kind_of metadata; modified_at = fe_modified metadata;
           status = (\<lambda>s len content. Inr (workspace_file_status_response now placement_id relative_path kind s len modified_at content))
       in if is_link metadata then status ES_Symlink None None
       else if \<not> is_file metadata then status ES_NotFile (Some (entry_len metadata)) None
       else if generated_or_ignored_status relative_path \<noteq> None
         then status (the (generated_or_ignored_status relative_path)) (Some (entry_len metadata)) None
       else if entry_len metadata > MAX_WORKSPACE_TEXT_BYTES then status ES_Large (Some (entry_len metadata)) None
       else if binary_extension relative_path then status ES_Binary (Some (entry_len metadata)) None
       else (case read_file fs target_path of
           Inl e \<Rightarrow> if e = IO_PermissionDenied then status ES_PermissionDenied (Some (entry_len metadata)) None
             else Inl ''workspace.read_failed''
         | Inr bytes \<Rightarrow>
             if 0 \<in> set bytes \<or> \<not> utf8_valid bytes then status ES_Binary (Some (entry_len metadata)) None
             else status ES_Readable (Some (entry_len metadata)) (Some bytes))))"

definition build_workspace_file_response ::
  "string list \<Rightarrow> time \<Rightarrow> command_envelope \<Rightarrow> fs \<Rightarrow> inspect_error + workspace_file_content_response" where
  "build_workspace_file_response allowed now command fs =
     and_then (workspace_command_placement_id command) (\<lambda>placement_id.
     and_then (workspace_command_path command) (\<lambda>workspace_path.
     and_then (canonical_workspace_root fs allowed workspace_path) (\<lambda>workspace_root.
     and_then (safe_workspace_relative_path (case command_payload_str command ''path'' of Some p \<Rightarrow> p | None \<Rightarrow> ''.'')) (\<lambda>relative_path.
     case resolve_existing_workspace_path fs workspace_root relative_path of
       Inl e \<Rightarrow> if e = ''workspace.path_missing''
         then Inr (workspace_file_status_response now placement_id relative_path WE_Other ES_Missing None None None) else Inl e
     | Inr target_path \<Rightarrow> file_response_at now placement_id relative_path fs target_path))))"

section \<open>Writing a file\<close>

text \<open>The system call that fails, when one does; a failing write may have stored a prefix.\<close>

datatype (plugins only: code size) write_fault = No_Fault | Inspect_Fails | Rewind_Fails | Read_Fails | Truncate_Fails | Seek_Fails
  | Write_Fails nat | Sync_Fails | Metadata_Fails

definition validate_opened_write_target ::
  "write_fault \<Rightarrow> fs_entry \<Rightarrow> byte list option \<Rightarrow> inspect_error + unit" where
  "validate_opened_write_target fault metadata expected_content =
     and_then (ensure (fault \<noteq> Inspect_Fails) ''workspace.metadata_failed'') (\<lambda>_.
     and_then (ensure (is_file metadata) ''workspace.write_not_file'') (\<lambda>_.
     and_then (ensure (\<not> entry_len metadata > MAX_WORKSPACE_TEXT_BYTES) ''workspace.write_large_file'') (\<lambda>_.
     and_then (ensure (fault \<noteq> Rewind_Fails \<and> fault \<noteq> Read_Fails) ''workspace.read_failed'') (\<lambda>_.
     let bytes = entry_bytes metadata in
     and_then (ensure (0 \<notin> set bytes) ''workspace.write_binary_file'') (\<lambda>_.
     and_then (ensure (utf8_valid bytes) ''workspace.write_binary_file'') (\<lambda>_.
     ensure (case expected_content of None \<Rightarrow> True | Some expected \<Rightarrow> bytes = expected) ''workspace.write_conflict''))))))"

definition open_workspace_write_target ::
  "time \<Rightarrow> write_fault \<Rightarrow> abs_path \<Rightarrow> string \<Rightarrow> byte list option \<Rightarrow> fs \<Rightarrow> inspect_error + abs_path \<times> fs" where
  "open_workspace_write_target now fault dir name expected_content fs =
     (case open_nofollow fs (dir @ [name]) of
        Inr (path, entry) \<Rightarrow>
          and_then (validate_opened_write_target fault entry expected_content) (\<lambda>_. Inr (path, fs))
      | Inl e \<Rightarrow>
          if e = IO_NotFound \<and> expected_content = None then
            (case create_new now dir name fs of
               Inr opened \<Rightarrow> Inr opened
             | Inl c \<Rightarrow> Inl (if c = IO_Loop then ''workspace.write_symlink''
                 else if c = IO_AlreadyExists then ''workspace.write_conflict'' else ''workspace.write_failed''))
          else if e = IO_NotFound then Inl ''workspace.write_conflict''
          else if e = IO_Loop then Inl ''workspace.write_symlink''
          else Inl ''workspace.write_failed'')"

definition store_bytes :: "time \<Rightarrow> abs_path \<Rightarrow> byte list \<Rightarrow> fs \<Rightarrow> fs" where
  "store_bytes now path bytes fs = (case entry_at fs path of None \<Rightarrow> fs
     | Some e \<Rightarrow> set_entry path (e\<lparr>fe_kind := FK_File bytes, fe_modified := Some now\<rparr>) fs)"

text \<open>\<open>set_len(0)\<close>, \<open>seek\<close>, \<open>write_all\<close>, \<open>sync_all\<close> and the final \<open>metadata\<close> on the opened file.\<close>

definition write_opened ::
  "time \<Rightarrow> write_fault \<Rightarrow> abs_path \<Rightarrow> byte list \<Rightarrow> fs \<Rightarrow> (inspect_error + fs_entry) \<times> fs" where
  "write_opened now fault path content fs =
     (if fault = Truncate_Fails then (Inl ''workspace.write_failed'', fs)
      else let fs1 = store_bytes now path [] fs in
      if fault = Seek_Fails then (Inl ''workspace.write_failed'', fs1)
      else (case fault of Write_Fails n \<Rightarrow> (Inl ''workspace.write_failed'', store_bytes now path (take n content) fs1)
       | _ \<Rightarrow> let fs2 = store_bytes now path content fs1 in
          if fault = Sync_Fails then (Inl ''workspace.write_failed'', fs2)
          else if fault = Metadata_Fails then (Inl ''workspace.metadata_failed'', fs2)
          else (ok_or (entry_at fs2 path) ''workspace.metadata_failed'', fs2)))"

definition write_response ::
  "time \<Rightarrow> id \<Rightarrow> rel_path \<Rightarrow> command_envelope \<Rightarrow> fs_entry \<Rightarrow> workspace_file_write_response" where
  "write_response now placement_id p command metadata =
     \<lparr>ww_placement_id = placement_id, ww_path = relative_path_string p, ww_metadata = entry_of_metadata p metadata False,
      ww_edit_id = ''workspace-edit-'' @ ce_command_id command, ww_written_at = now\<rparr>"

text \<open>Everything before the file is opened: the target directory, the request and the relative path.\<close>

definition write_target ::
  "string list \<Rightarrow> command_envelope \<Rightarrow> fs \<Rightarrow> inspect_error + workspace_file_write_request \<times> id \<times> rel_path \<times> abs_path" where
  "write_target allowed command fs =
     and_then (write_request (ce_payload command)) (\<lambda>request.
     and_then (workspace_command_placement_id command) (\<lambda>placement_id.
     and_then (workspace_command_path command) (\<lambda>workspace_path.
     and_then (canonical_workspace_root fs allowed workspace_path) (\<lambda>workspace_root.
     and_then (safe_workspace_relative_path (wfw_path request)) (\<lambda>relative_path.
     and_then (ensure (relative_path \<noteq> []) ''workspace.path_required'') (\<lambda>_.
     and_then (ensure (generated_or_ignored_status relative_path = None) ''workspace.protected_path'') (\<lambda>_.
     and_then (ensure (length (as_bytes (wfw_content request)) \<le> MAX_WORKSPACE_TEXT_BYTES) ''workspace.write_too_large'') (\<lambda>_.
     and_then (ensure (0 \<notin> set (as_bytes (wfw_content request))) ''workspace.write_binary_content'') (\<lambda>_.
     and_then (resolve_existing_workspace_path fs workspace_root (butlast relative_path)) (\<lambda>parent_path.
     and_then (case lstat fs parent_path of Inl _ \<Rightarrow> Inl ''workspace.parent_metadata_failed''
        | Inr (_, m) \<Rightarrow> ensure (\<not> (is_link m \<or> \<not> is_dir m)) ''workspace.parent_not_directory'') (\<lambda>_.
     and_then (ensure (\<not> binary_extension relative_path) ''workspace.write_binary_file'') (\<lambda>_.
     Inr (request, placement_id, relative_path, parent_path)))))))))))))"

definition write_workspace_file ::
  "string list \<Rightarrow> time \<Rightarrow> write_fault \<Rightarrow> command_envelope \<Rightarrow> fs \<Rightarrow> (inspect_error + workspace_file_write_response) \<times> fs" where
  "write_workspace_file allowed now fault command fs =
     (case write_target allowed command fs of
        Inl e \<Rightarrow> (Inl e, fs)
      | Inr (request, placement_id, relative_path, parent_path) \<Rightarrow>
         (case open_workspace_write_target now fault parent_path (last relative_path)
             (map_option as_bytes (wfw_expected_content request)) fs of
            Inl e \<Rightarrow> (Inl e, fs)
          | Inr (path, fs1) \<Rightarrow>
             (case write_opened now fault path (as_bytes (wfw_content request)) fs1 of
                (Inl e, fs2) \<Rightarrow> (Inl e, fs2)
              | (Inr metadata, fs2) \<Rightarrow> (Inr (write_response now placement_id relative_path command metadata), fs2))))"

end
