(* ===== verification/Workspace_Facts.thy ===== *)
theory Workspace_Facts
  imports Workspace_Files
begin

text \<open>
  Confinement of the workspace commands: whatever path a command names and whatever links the
  tree holds, a file is read or written only at a canonical path below a root the Node allows,
  and a write changes that one regular file.
\<close>

section \<open>Roots\<close>

text \<open>The working directory is a canonical directory.\<close>

definition fs_ok :: "fs \<Rightarrow> bool" where
  "fs_ok fs \<longleftrightarrow> canonical fs (fs_cwd fs) \<and> (\<exists>d. entry_at fs (fs_cwd fs) = Some d \<and> is_dir d)"

lemma fs_ok_root: "fs_ok fs \<Longrightarrow> \<exists>d. entry_at fs [] = Some d \<and> is_dir d"
  unfolding fs_ok_def by (cases "fs_cwd fs") (auto dest: canonical_prefix_dir[of fs "[]", simplified])

lemma canonicalize_canonical:
  assumes "fs_ok fs" "canonicalize fs t = Inr p"
  shows "canonical fs p" "\<exists>e. entry_at fs p = Some e \<and> \<not> is_link e"
proof -
  have w: "walk fs True MAXSYMLINKS (start_dir fs t) (split_on CHR ''/'' t) = Inr p"
    using assms(2) by (simp add: canonicalize_def split: if_splits)
  have c: "canonical fs (start_dir fs t)" using assms(1) by (simp add: start_dir_def fs_ok_def)
  obtain d where d: "entry_at fs (start_dir fs t) = Some d" "is_dir d"
    using assms(1) fs_ok_root[OF assms(1)] by (cases "is_absolute t") (auto simp: start_dir_def fs_ok_def)
  show "canonical fs p" using walk_canonical[OF w c] .
  show "\<exists>e. entry_at fs p = Some e \<and> \<not> is_link e" using walk_not_link[OF w c d(1) dir_not_link[OF d(2)]] .
qed

text \<open>\<open>below_allowed\<close>: the path lies below the canonical form of an allowed root.\<close>

definition below_allowed :: "fs \<Rightarrow> string list \<Rightarrow> abs_path \<Rightarrow> bool" where
  "below_allowed fs allowed p \<longleftrightarrow> (\<exists>a\<in>set allowed. \<exists>base x. canonicalize fs a = Inr base \<and> p = base @ x)"

lemma below_allowed_append: "below_allowed fs allowed p \<Longrightarrow> below_allowed fs allowed (p @ q)"
  unfolding below_allowed_def by (metis append_assoc)

lemma starts_with_path_append: "starts_with_path p root \<longleftrightarrow> (\<exists>x. p = root @ x)"
  by (metis append_eq_conv_conj append_take_drop_id starts_with_path_def)

lemma workspace_root_ok:
  assumes "fs_ok fs" "canonical_workspace_root fs allowed t = Inr root"
  shows "canonical fs root" "\<exists>d. entry_at fs root = Some d \<and> is_dir d" "below_allowed fs allowed root"
proof -
  have c: "canonicalize fs t = Inr root" and s: "case stat fs root of Inr (_, e) \<Rightarrow> is_dir e | Inl _ \<Rightarrow> False"
    and a: "canonical_workspace_path_allowed_roots fs allowed root"
    using assms(2) by (auto simp: canonical_workspace_root_def split: sum.splits if_splits)
  show k: "canonical fs root" using canonicalize_canonical(1)[OF assms(1) c] .
  obtain r e where e: "stat fs root = Inr (r, e)" "is_dir e" using s by (cases "stat fs root") auto
  show "\<exists>d. entry_at fs root = Some d \<and> is_dir d"
    using stat_self(2)[OF e(1) k] canonicalize_canonical(2)[OF assms(1) c] e(2) by auto
  obtain x where x: "x \<in> set allowed" "case canonicalize fs x of Inr base \<Rightarrow> starts_with_path root base | Inl _ \<Rightarrow> False"
    using a by (auto simp: canonical_workspace_path_allowed_roots_def list_ex_iff)
  then obtain base where "canonicalize fs x = Inr base" "starts_with_path root base" by (cases "canonicalize fs x") auto
  then show "below_allowed fs allowed root" using x(1) by (auto simp: below_allowed_def starts_with_path_append)
qed

section \<open>Relative paths\<close>

lemma normalize_components_names:
  "normalize_components acc cs = Inr r \<Longrightarrow> list_all name_ok acc \<Longrightarrow> (\<And>w. NormalC w \<in> set cs \<Longrightarrow> name_ok w) \<Longrightarrow> list_all name_ok r"
  by (induction acc cs rule: normalize_components.induct) auto

lemma safe_path_names: "safe_workspace_relative_path t = Inr r \<Longrightarrow> list_all name_ok r"
  using normalize_components_names[of "[]" "components (trim t)" r] components_normal_ok
  by (auto simp: safe_workspace_relative_path_def Let_def split: if_splits)

lemma name_piece_ok: "name_ok w \<Longrightarrow> piece_ok w"
  by (simp add: name_ok_def piece_ok_def)

text \<open>
  Resolution adds the components one by one and stays canonical; it stops early only at a
  link, which it returns unfollowed.
\<close>

lemma resolve_from_spec:
  assumes "resolve_from fs root cur rel = Inr p" "canonical fs cur" "entry_at fs cur = Some d" "\<not> is_link d"
    "list_all name_ok rel"
  shows "\<exists>n \<le> length rel. p = cur @ take n rel \<and> canonical fs p
     \<and> (\<exists>e. entry_at fs p = Some e \<and> (is_link e \<or> n = length rel \<and> \<not> is_link e))"
  using assms
proof (induction rel arbitrary: cur d)
  case (Cons w rel)
  obtain q m where l: "lstat fs (cur @ [w]) = Inr (q, m)"
    using Cons.prems(1) by (auto simp: Let_def split: sum.splits)
  have w: "piece_ok w" using Cons.prems(5) name_piece_ok by simp
  have c: "canonical fs (cur @ [w])" using lstat_child[OF l Cons.prems(2) w] Cons.prems(3,4) by simp
  note m = lstat_self[OF l c]
  show ?case
  proof (cases "is_link m")
    case True
    then have "p = cur @ [w]" using Cons.prems(1) l by simp
    then show ?thesis using c m True by (intro exI[of _ 1]) simp
  next
    case False
    have "canonicalize_abs fs (cur @ [w]) = Inr r \<Longrightarrow> r = cur @ [w]" for r
      using canonicalize_abs_self[OF _ c] m(2) False by simp
    then have "resolve_from fs root (cur @ [w]) rel = Inr p"
      using Cons.prems(1) l False by (auto simp: Let_def split: sum.splits if_splits)
    from Cons.IH[OF this c m(2) False] Cons.prems(5) obtain n where
      "n \<le> length rel" "p = cur @ [w] @ take n rel" "canonical fs p"
      "\<exists>e. entry_at fs p = Some e \<and> (is_link e \<or> n = length rel \<and> \<not> is_link e)" by auto
    then show ?thesis by (intro exI[of _ "Suc n"]) simp
  qed
qed simp

lemma resolved_spec:
  assumes "fs_ok fs" "canonical_workspace_root fs allowed t = Inr root" "list_all name_ok rel"
    "resolve_existing_workspace_path fs root rel = Inr p"
  shows "\<exists>n \<le> length rel. p = root @ take n rel \<and> canonical fs p
     \<and> (\<exists>e. entry_at fs p = Some e \<and> (is_link e \<or> n = length rel \<and> \<not> is_link e))"
proof -
  obtain d where d: "entry_at fs root = Some d" "is_dir d" using workspace_root_ok(2)[OF assms(1,2)] by blast
  have "resolve_from fs root root rel = Inr p" using assms(4) by (simp add: resolve_existing_workspace_path_def)
  from resolve_from_spec[OF this workspace_root_ok(1)[OF assms(1,2)] d(1) dir_not_link[OF d(2)] assms(3)]
  show ?thesis .
qed

lemma resolved_not_link:
  assumes "fs_ok fs" "canonical_workspace_root fs allowed t = Inr root" "list_all name_ok rel"
    "resolve_existing_workspace_path fs root rel = Inr p" "entry_at fs p = Some e" "\<not> is_link e"
  shows "p = root @ rel"
  using resolved_spec[OF assms(1-4)] assms(5,6) by auto

section \<open>Reading\<close>

lemma file_response_content:
  assumes "file_response_at now pid rel fs p = Inr resp" "wf_content resp = Some bytes" "canonical fs p"
  shows "\<exists>e. entry_at fs p = Some e \<and> fe_kind e = FK_File bytes \<and> length bytes \<le> MAX_WORKSPACE_TEXT_BYTES"
    "0 \<notin> set bytes" "utf8_valid bytes" "generated_or_ignored_status rel = None"
proof -
  obtain q m where l: "lstat fs p = Inr (q, m)"
    using assms(1,2) by (auto simp: file_response_at_def workspace_file_status_response_def split: sum.splits if_splits)
  note m = lstat_self[OF l assms(3)]
  have k: "\<not> is_link m" "is_file m" "generated_or_ignored_status rel = None" "entry_len m \<le> MAX_WORKSPACE_TEXT_BYTES"
    "read_file fs p = Inr bytes" "0 \<notin> set bytes" "utf8_valid bytes"
    using assms(1,2) l
    by (auto simp: file_response_at_def workspace_file_status_response_def Let_def split: sum.splits if_splits)
  obtain r n where s: "stat fs p = Inr (r, n)" "bytes = entry_bytes n"
    using k(5) by (auto simp: read_file_def split: sum.splits if_splits)
  have "n = m" using stat_self(2)[OF s(1) assms(3)] m(2) k(1) by simp
  then show "\<exists>e. entry_at fs p = Some e \<and> fe_kind e = FK_File bytes \<and> length bytes \<le> MAX_WORKSPACE_TEXT_BYTES"
    using m(2) k(2,4) s(2) by (auto simp: is_file_def entry_bytes_def entry_len_def split: fs_kind.splits)
qed (use assms in \<open>auto simp: file_response_at_def workspace_file_status_response_def Let_def split: sum.splits if_splits\<close>)

lemma read_confined:
  assumes "fs_ok fs" "build_workspace_file_response allowed now command fs = Inr resp" "wf_content resp = Some bytes"
  shows "\<exists>p e. below_allowed fs allowed p \<and> canonical fs p \<and> entry_at fs p = Some e \<and> fe_kind e = FK_File bytes"
    "length bytes \<le> MAX_WORKSPACE_TEXT_BYTES" "0 \<notin> set bytes" "utf8_valid bytes"
proof -
  obtain pid t root rel p where b: "canonical_workspace_root fs allowed t = Inr root"
      "safe_workspace_relative_path (case command_payload_str command ''path'' of Some p \<Rightarrow> p | None \<Rightarrow> ''.'') = Inr rel"
      "resolve_existing_workspace_path fs root rel = Inr p" "file_response_at now pid rel fs p = Inr resp"
    using assms(2,3) unfolding build_workspace_file_response_def result_simps
    by (elim exE conjE) (auto simp: workspace_file_status_response_def split: sum.splits if_splits)
  note names = safe_path_names[OF b(2)]
  have c: "canonical fs p" using resolved_spec[OF assms(1) b(1) names b(3)] by blast
  note r = file_response_content[OF b(4) assms(3) c]
  obtain e where e: "entry_at fs p = Some e" "fe_kind e = FK_File bytes" "length bytes \<le> MAX_WORKSPACE_TEXT_BYTES"
    using r(1) by blast
  have "p = root @ rel" using resolved_not_link[OF assms(1) b(1) names b(3) e(1)] e(2) by (simp add: is_link_def)
  then have "below_allowed fs allowed p" using below_allowed_append[OF workspace_root_ok(3)[OF assms(1) b(1)]] by simp
  then show "\<exists>p e. below_allowed fs allowed p \<and> canonical fs p \<and> entry_at fs p = Some e \<and> fe_kind e = FK_File bytes"
    using c e by blast
  show "length bytes \<le> MAX_WORKSPACE_TEXT_BYTES" "0 \<notin> set bytes" "utf8_valid bytes" using e(3) r(2,3) by blast+
qed

section \<open>Writing\<close>

lemma entry_at_set_entry [simp]: "entry_at (set_entry p e fs) q = (if q = p then Some e else entry_at fs q)"
  by (simp add: entry_at_def set_entry_def update_conv')

lemma store_bytes_entry:
  "entry_at (store_bytes now p b fs) q = (if q = p then map_option (\<lambda>e. e\<lparr>fe_kind := FK_File b, fe_modified := Some now\<rparr>) (entry_at fs p)
     else entry_at fs q)"
  by (auto simp: store_bytes_def split: option.splits)

lemma write_target_ok:
  assumes "fs_ok fs" "write_target allowed command fs = Inr (request, pid, rel, parent)"
  shows "rel \<noteq> []" "list_all name_ok rel" "generated_or_ignored_status rel = None" "\<not> binary_extension rel"
    "canonical fs (parent @ [last rel])" "below_allowed fs allowed (parent @ [last rel])"
    "length (as_bytes (wfw_content request)) \<le> MAX_WORKSPACE_TEXT_BYTES" "0 \<notin> set (as_bytes (wfw_content request))"
    "\<exists>w. ce_payload command = CP_WriteWorkspaceFile w request"
    "\<exists>root t. workspace_command_path command = Inr t \<and> canonical_workspace_root fs allowed t = Inr root \<and> parent = root @ butlast rel"
    "\<exists>d. entry_at fs parent = Some d \<and> is_dir d"
proof -
  obtain t root q m where b: "workspace_command_path command = Inr t" "canonical_workspace_root fs allowed t = Inr root"
      "safe_workspace_relative_path (wfw_path request) = Inr rel"
      "rel \<noteq> []" "resolve_existing_workspace_path fs root (butlast rel) = Inr parent"
      "lstat fs parent = Inr (q, m)" "\<not> is_link m" "is_dir m"
    and c: "generated_or_ignored_status rel = None" "\<not> binary_extension rel"
      "length (as_bytes (wfw_content request)) \<le> MAX_WORKSPACE_TEXT_BYTES" "0 \<notin> set (as_bytes (wfw_content request))"
    and w: "\<exists>w. ce_payload command = CP_WriteWorkspaceFile w request"
    using assms(2)
    by (auto simp: write_target_def write_request_def result_simps split: sum.splits command_payload.splits)
  note names = safe_path_names[OF b(3)]
  have bn: "list_all name_ok (butlast rel)" using names by (meson in_set_butlastD list_all_iff)
  have cp: "canonical fs parent" using resolved_spec[OF assms(1) b(2) bn b(5)] by blast
  note m = lstat_self[OF b(6) cp]
  note p = resolved_not_link[OF assms(1) b(2) bn b(5) m(2) b(7)]
  show "rel \<noteq> []" "list_all name_ok rel" "generated_or_ignored_status rel = None" "\<not> binary_extension rel"
    "length (as_bytes (wfw_content request)) \<le> MAX_WORKSPACE_TEXT_BYTES" "0 \<notin> set (as_bytes (wfw_content request))"
    using b c names by simp_all
  show "\<exists>w. ce_payload command = CP_WriteWorkspaceFile w request" using w .
  show "\<exists>root t. workspace_command_path command = Inr t \<and> canonical_workspace_root fs allowed t = Inr root \<and> parent = root @ butlast rel"
    using b(1,2) p by blast
  show "\<exists>d. entry_at fs parent = Some d \<and> is_dir d" using m(2) b(8) by blast
  show "canonical fs (parent @ [last rel])"
    using cp m(2) b(4,8) names name_piece_ok by (auto simp: canonical_snoc list_all_iff)
  show "below_allowed fs allowed (parent @ [last rel])"
    using below_allowed_append[OF workspace_root_ok(3)[OF assms(1) b(2)]] p by simp
qed

text \<open>\<open>text_file\<close>: a regular file the editor accepts.\<close>

definition text_file :: "fs_entry \<Rightarrow> bool" where
  "text_file e \<longleftrightarrow> is_file e \<and> entry_len e \<le> MAX_WORKSPACE_TEXT_BYTES \<and> 0 \<notin> set (entry_bytes e) \<and> utf8_valid (entry_bytes e)"

definition write_allowed :: "fs_entry option \<Rightarrow> byte list option \<Rightarrow> bool" where
  "write_allowed before expected \<longleftrightarrow> (case before of None \<Rightarrow> expected = None
     | Some e \<Rightarrow> text_file e \<and> (case expected of None \<Rightarrow> True | Some b \<Rightarrow> entry_bytes e = b))"

lemma opened_target:
  assumes "open_workspace_write_target now fault dir name expected fs = Inr (path, fs1)" "canonical fs (dir @ [name])"
    "entry_at fs dir = Some d" "is_dir d"
  shows "path = dir @ [name]" "write_allowed (entry_at fs path) expected"
    "fs1 = (case entry_at fs path of None \<Rightarrow> set_entry path (new_file now) fs | Some _ \<Rightarrow> fs)"
proof -
  have "path = dir @ [name] \<and> write_allowed (entry_at fs path) expected
    \<and> fs1 = (case entry_at fs path of None \<Rightarrow> set_entry path (new_file now) fs | Some _ \<Rightarrow> fs)"
  proof (cases "open_nofollow fs (dir @ [name])")
    case (Inr opened)
    then obtain q e where o: "lstat fs (dir @ [name]) = Inr (q, e)" "opened = (q, e)"
      by (auto simp: open_nofollow_def split: sum.splits if_splits)
    note e = lstat_self[OF o(1) assms(2)]
    show ?thesis using assms(1) Inr o e
      by (auto simp: open_workspace_write_target_def result_simps write_allowed_def text_file_def
          validate_opened_write_target_def Let_def split: option.splits)
  next
    case (Inl err)
    then have c: "create_new now dir name fs = Inr (path, fs1)" "expected = None"
      using assms(1) by (auto simp: open_workspace_write_target_def split: if_splits sum.splits)
    obtain x de where s: "stat fs dir = Inr (x, de)" "path = x @ [name]" "fs1 = set_entry (x @ [name]) (new_file now) fs"
      and l: "lstat fs (dir @ [name]) = Inl IO_NotFound" "fe_search de"
      using c(1) by (auto simp: create_new_def split: sum.splits if_splits)
    have cd: "canonical fs dir" using assms(2) by (simp add: canonical_snoc)
    note x = stat_self[OF s(1) cd] and nl = dir_not_link[OF assms(4)]
    have xd: "x = dir" "de = d" using x assms(3) nl by simp_all
    have "entry_at fs (dir @ [name]) = None"
      using lstat_existing[OF _ cd nl assms(4)] s(1) l xd assms(2) by (cases "entry_at fs (dir @ [name])") (auto simp: canonical_snoc)
    then show ?thesis using s c(2) xd by (simp add: write_allowed_def)
  qed
  then show "path = dir @ [name]" "write_allowed (entry_at fs path) expected"
    "fs1 = (case entry_at fs path of None \<Rightarrow> set_entry path (new_file now) fs | Some _ \<Rightarrow> fs)" by blast+
qed

text \<open>Only the named file differs.\<close>

definition changed_only :: "abs_path \<Rightarrow> fs \<Rightarrow> fs \<Rightarrow> bool" where
  "changed_only p fs fs' \<longleftrightarrow> (\<forall>q. q \<noteq> p \<longrightarrow> entry_at fs' q = entry_at fs q)"

lemma write_opened_effect:
  assumes "write_opened now fault p content fs = (r, fs')" "entry_at fs p = Some e" "is_file e"
  shows "changed_only p fs fs'" "\<exists>e'. entry_at fs' p = Some e' \<and> is_file e'"
    "r = Inr m \<Longrightarrow> m = e\<lparr>fe_kind := FK_File content, fe_modified := Some now\<rparr> \<and> entry_at fs' p = Some m"
  using assms
  by (auto simp: write_opened_def Let_def changed_only_def store_bytes_entry is_file_def ok_or_def split: if_splits write_fault.splits)

text \<open>
  The write command: either the tree is untouched, or exactly one regular file changed, at a
  canonical path below an allowed root that no protected name is part of, and the file that was
  there was a text the editor accepts and, when the request expects one, the expected one.
\<close>

lemma write_effect:
  assumes "fs_ok fs" "write_workspace_file allowed now fault command fs = (r, fs')" "fs' \<noteq> fs"
  obtains w request rel root p where "ce_payload command = CP_WriteWorkspaceFile w request" "p = root @ rel"
    "canonical fs p" "below_allowed fs allowed p" "generated_or_ignored_status rel = None"
    "changed_only p fs fs'" "write_allowed (entry_at fs p) (map_option as_bytes (wfw_expected_content request))"
    "\<exists>e. entry_at fs' p = Some e \<and> is_file e"
    "is_ok r \<longrightarrow> (\<exists>e. entry_at fs' p = Some e \<and> fe_kind e = FK_File (as_bytes (wfw_content request)))"
proof -
  obtain request pid rel parent where t: "write_target allowed command fs = Inr (request, pid, rel, parent)"
    using assms(2,3) by (cases "write_target allowed command fs") (auto simp: write_workspace_file_def)
  obtain path fs1 where o: "open_workspace_write_target now fault parent (last rel)
       (map_option as_bytes (wfw_expected_content request)) fs = Inr (path, fs1)"
    using assms(2,3) t by (auto simp: write_workspace_file_def split: sum.splits)
  obtain r2 where w: "write_opened now fault path (as_bytes (wfw_content request)) fs1 = (r2, fs')" "is_ok r \<longrightarrow> is_ok r2"
    using assms(2) t o by (auto simp: write_workspace_file_def is_ok_def split: prod.splits sum.splits)
  note k = write_target_ok[OF assms(1) t]
  obtain d where d: "entry_at fs parent = Some d" "is_dir d" using k(11) by blast
  note op = opened_target[OF o k(5) d]
  obtain root where root: "parent = root @ butlast rel" using k(10) by blast
  have p: "path = root @ rel" using op(1) root k(1) by simp
  obtain e where e: "entry_at fs1 path = Some e" "is_file e"
    using op(2,3) by (cases "entry_at fs path") (auto simp: write_allowed_def text_file_def new_file_def is_file_def)
  note we = write_opened_effect[OF w(1) e]
  have c: "changed_only path fs fs'"
    using we(1) op(3) by (cases "entry_at fs path") (auto simp: changed_only_def)
  have s: "is_ok r \<longrightarrow> (\<exists>e. entry_at fs' path = Some e \<and> fe_kind e = FK_File (as_bytes (wfw_content request)))"
    using w(2) we(3) by (cases r2) (auto simp: is_ok_def)
  obtain w' where w': "ce_payload command = CP_WriteWorkspaceFile w' request" using k(9) by blast
  from that[OF w' p _ _ k(3) c op(2) we(2) s] k(5,6) op(1) show thesis by simp
qed

end
