(* ===== verification/Workspace_Roundtrip.thy ===== *)
theory Workspace_Roundtrip
  imports Workspace_Facts
begin

text \<open>
  What a write command stored is what the next read command of the same path returns, byte for
  byte, whatever else the tree holds.
\<close>

section \<open>Resolution after a write\<close>

lemma extends_refl: "extends fs fs"
  by (simp add: extends_def)

lemma canonicalize_extends: "extends fs fs' \<Longrightarrow> canonicalize fs t = Inr p \<Longrightarrow> canonicalize fs' t = Inr p"
  using walk_extends[of fs True MAXSYMLINKS "start_dir fs t" "split_on CHR ''/'' t" p fs' True]
  by (simp add: canonicalize_def start_dir_def extends_def split: if_splits)

lemma stat_extends:
  assumes "extends fs fs'" "stat fs p = Inr (q, e)"
  obtains e' where "stat fs' p = Inr (q, e')" "is_dir e' = is_dir e" "fe_search e' = fe_search e"
proof -
  have w: "walk fs True MAXSYMLINKS [] p = Inr q" "entry_at fs q = Some e"
    using assms(2) by (auto simp: stat_def stat_result_def split: sum.splits option.splits)
  obtain e' where "entry_at fs' q = Some e'" "is_dir e' = is_dir e" "fe_search e' = fe_search e"
    using extends_entry[OF assms(1) w(2)] by metis
  then show thesis using that walk_extends[OF w(1) assms(1)] by (simp add: stat_def stat_result_def)
qed

lemma lstat_extends:
  assumes "extends fs fs'" "lstat fs p = Inr (q, e)"
  obtains e' where "lstat fs' p = Inr (q, e')" "is_link e' = is_link e" "entry_at fs' q = Some e'"
proof -
  have w: "walk fs False MAXSYMLINKS [] p = Inr q" "entry_at fs q = Some e"
    using assms(2) by (auto simp: lstat_def stat_result_def split: sum.splits option.splits)
  obtain e' where "entry_at fs' q = Some e'" "is_link e' = is_link e"
    using extends_entry[OF assms(1) w(2)] by metis
  then show thesis using that walk_extends[OF w(1) assms(1)] by (simp add: lstat_def stat_result_def)
qed

lemma lstat_follow:
  assumes "lstat fs p = Inr (q, e)" "\<not> is_link e"
  shows "stat fs p = Inr (q, e)" "canonicalize_abs fs p = Inr q"
proof -
  have w: "walk fs False MAXSYMLINKS [] p = Inr q" "entry_at fs q = Some e"
    using assms(1) by (auto simp: lstat_def stat_result_def split: sum.splits option.splits)
  have "walk fs True MAXSYMLINKS [] p = Inr q" using walk_extends[OF w(1) extends_refl, of True] w(2) assms(2) by simp
  then show "stat fs p = Inr (q, e)" "canonicalize_abs fs p = Inr q"
    using w(2) by (simp_all add: stat_def stat_result_def canonicalize_abs_def)
qed

lemma workspace_root_extends:
  assumes "extends fs fs'" "canonical_workspace_root fs allowed t = Inr root"
  shows "canonical_workspace_root fs' allowed t = Inr root"
proof -
  have c: "canonicalize fs t = Inr root" and s: "case stat fs root of Inr (_, e) \<Rightarrow> is_dir e | Inl _ \<Rightarrow> False"
    and a: "canonical_workspace_path_allowed_roots fs allowed root"
    using assms(2) by (auto simp: canonical_workspace_root_def split: sum.splits if_splits)
  obtain q e where e: "stat fs root = Inr (q, e)" "is_dir e" using s by (cases "stat fs root") auto
  obtain e' where e': "stat fs' root = Inr (q, e')" "is_dir e'" using stat_extends[OF assms(1) e(1)] e(2) by metis
  obtain x where x: "x \<in> set allowed" "case canonicalize fs x of Inr base \<Rightarrow> starts_with_path root base | Inl _ \<Rightarrow> False"
    using a by (auto simp: canonical_workspace_path_allowed_roots_def list_ex_iff)
  then obtain base where b: "canonicalize fs x = Inr base" "starts_with_path root base" by (cases "canonicalize fs x") auto
  have "canonical_workspace_path_allowed_roots fs' allowed root"
    unfolding canonical_workspace_path_allowed_roots_def list_ex_iff
    using x(1) b(2) canonicalize_extends[OF assms(1) b(1)] by (intro conjI bexI[of _ x]) auto
  then show ?thesis using canonicalize_extends[OF assms(1) c] e' by (simp add: canonical_workspace_root_def)
qed

lemma resolve_extends:
  "resolve_from fs root cur rel = Inr p \<Longrightarrow> extends fs fs' \<Longrightarrow> resolve_from fs' root cur rel = Inr p"
proof (induction rel arbitrary: cur)
  case (Cons w rel)
  obtain q m where l: "lstat fs (cur @ [w]) = Inr (q, m)" using Cons.prems(1) by (auto simp: Let_def split: sum.splits)
  obtain m' where m': "lstat fs' (cur @ [w]) = Inr (q, m')" "is_link m' = is_link m"
    using lstat_extends[OF Cons.prems(2) l] by metis
  show ?case
  proof (cases "is_link m")
    case False
    then obtain r where r: "canonicalize_abs fs (cur @ [w]) = Inr r" "starts_with_path r root" "resolve_from fs root r rel = Inr p"
      using Cons.prems(1) l by (auto simp: Let_def split: sum.splits if_splits)
    have "canonicalize_abs fs' (cur @ [w]) = Inr r"
      using r(1) walk_extends[OF _ Cons.prems(2)] by (simp add: canonicalize_abs_def)
    then show ?thesis using m' False r Cons.IH[OF r(3) Cons.prems(2)] by simp
  qed (use Cons.prems l m' in simp)
qed simp

lemma resolve_snoc:
  assumes "resolve_from fs root cur rel = Inr p" "entry_at fs p = Some e" "\<not> is_link e" "canonical fs cur"
    "entry_at fs cur = Some d" "\<not> is_link d" "list_all name_ok rel"
  shows "resolve_from fs root cur (rel @ [w]) = resolve_from fs root p [w]"
  using assms
proof (induction rel arbitrary: cur d)
  case (Cons v rel)
  obtain q m where l: "lstat fs (cur @ [v]) = Inr (q, m)" using Cons.prems(1) by (auto simp: Let_def split: sum.splits)
  have c: "canonical fs (cur @ [v])" using lstat_child[OF l Cons.prems(4)] Cons.prems(5-7) name_piece_ok by simp
  note m = lstat_self[OF l c]
  have nl: "\<not> is_link m" using Cons.prems(1-3) l m by auto
  then obtain r where r: "canonicalize_abs fs (cur @ [v]) = Inr r" "starts_with_path r root" "resolve_from fs root r rel = Inr p"
    using Cons.prems(1) l by (auto simp: Let_def split: sum.splits if_splits)
  have "r = cur @ [v]" using canonicalize_abs_self[OF r(1) c] m(2) nl by simp
  then show ?case using Cons.IH[OF r(3) Cons.prems(2,3)] c m(2) nl Cons.prems(7) l r by simp
qed simp

section \<open>The file that was opened\<close>

lemma opened_entry:
  assumes "open_workspace_write_target now fault dir name expected fs = Inr (path, fs1)" "canonical fs (dir @ [name])"
    "entry_at fs dir = Some d" "is_dir d"
  shows "\<exists>e. lstat fs1 path = Inr (path, e) \<and> is_file e \<and> fe_read e" "extends fs fs1"
proof -
  note op = opened_target[OF assms]
  have "(\<exists>e. lstat fs1 path = Inr (path, e) \<and> is_file e \<and> fe_read e) \<and> extends fs fs1"
  proof (cases "entry_at fs path")
    case (Some e)
    have "\<exists>q. open_nofollow fs (dir @ [name]) = Inr (q, e)"
    proof (cases "open_nofollow fs (dir @ [name])")
      case (Inl err)
      then have "create_new now dir name fs = Inr (path, fs1)"
        using assms(1) by (auto simp: open_workspace_write_target_def split: if_splits sum.splits)
      then obtain x de where s: "stat fs dir = Inr (x, de)" "fe_search de" "lstat fs (dir @ [name]) = Inl IO_NotFound"
        by (auto simp: create_new_def split: sum.splits if_splits)
      have cd: "canonical fs dir" using assms(2) by (simp add: canonical_snoc)
      note x = stat_self[OF s(1) cd] and nl = dir_not_link[OF assms(4)]
      have "lstat fs (dir @ [name]) = Inr (dir @ [name], e)"
        using lstat_existing[OF _ cd nl assms(4)] s x assms(2,3) nl Some op(1) by (auto simp: canonical_snoc)
      then show ?thesis using s(3) by simp
    next
      case (Inr opened)
      then show ?thesis using lstat_self[OF _ assms(2)] Some op(1) by (auto simp: open_nofollow_def split: sum.splits if_splits)
    qed
    then have "lstat fs path = Inr (path, e)" "fe_read e"
      using lstat_self[OF _ assms(2)] op(1) by (auto simp: open_nofollow_def split: sum.splits if_splits)
    moreover have "is_file e" using op(2) Some by (simp add: write_allowed_def text_file_def)
    ultimately show ?thesis using op(3) Some extends_refl by auto
  next
    case None
    then have fs1: "fs1 = set_entry path (new_file now) fs" using op(3) by simp
    have "open_nofollow fs (dir @ [name]) \<noteq> Inr x" for x
      using lstat_self(2)[OF _ assms(2)] None op(1) by (auto simp: open_nofollow_def split: sum.splits if_splits)
    then have "create_new now dir name fs = Inr (path, fs1)"
      using assms(1) by (auto simp: open_workspace_write_target_def split: if_splits sum.splits)
    then obtain x de where s: "stat fs dir = Inr (x, de)" "fe_search de"
      by (auto simp: create_new_def split: sum.splits if_splits)
    have ex: "extends fs fs1" using None by (auto simp: extends_def fs1 set_entry_def) (auto simp: entry_at_def update_conv')
    have cd: "canonical fs dir" using assms(2) by (simp add: canonical_snoc)
    note x = stat_self[OF s(1) cd] and nl = dir_not_link[OF assms(4)]
    obtain d' where d': "stat fs1 dir = Inr (dir, d')" "is_dir d'" "fe_search d'"
      using stat_extends[OF ex s(1)] x assms(3,4) nl s(2) by (metis option.inject)
    have "canonical fs1 dir" using walk_canonical[of fs1 True MAXSYMLINKS "[]" dir dir] d'(1)
      by (auto simp: stat_def stat_result_def split: sum.splits option.splits)
    then have "lstat fs1 (dir @ [name]) = Inr (dir @ [name], new_file now)"
      using lstat_existing[OF d'(1) _ dir_not_link[OF d'(2)] d'(2,3), of name] assms(2) op(1) by (simp add: fs1 canonical_snoc)
    then show ?thesis using ex op(1) by (auto simp: new_file_def is_file_def)
  qed
  then show "\<exists>e. lstat fs1 path = Inr (path, e) \<and> is_file e \<and> fe_read e" "extends fs fs1" by blast+
qed

section \<open>Write, then read\<close>

lemma store_bytes_extends: "entry_at fs p = Some e \<Longrightarrow> is_file e \<Longrightarrow> extends fs (store_bytes now p b fs)"
  by (auto simp: extends_def store_bytes_entry is_file_def) (simp add: store_bytes_def set_entry_def)

lemma extends_trans: "extends a b \<Longrightarrow> extends b c \<Longrightarrow> extends a c"
proof -
  assume a: "extends a b" "extends b c"
  have "\<exists>e'. entry_at c p = Some e' \<and> fe_search e' = fe_search e \<and> (fe_kind e' = fe_kind e \<or> is_file e \<and> is_file e')"
    if e: "entry_at a p = Some e" for p e
  proof -
    obtain f where f: "entry_at b p = Some f" "fe_search f = fe_search e" "fe_kind f = fe_kind e \<or> is_file e \<and> is_file f"
      using a(1) e by (auto simp: extends_def)
    obtain g where "entry_at c p = Some g" "fe_search g = fe_search f" "fe_kind g = fe_kind f \<or> is_file f \<and> is_file g"
      using a(2) f(1) by (auto simp: extends_def)
    then show ?thesis using f by (auto simp: is_file_def)
  qed
  then show ?thesis using a by (simp add: extends_def)
qed

lemma write_opened_stored:
  assumes "write_opened now fault p content fs = (Inr m, fs')" "entry_at fs p = Some e" "is_file e"
  shows "m = e\<lparr>fe_kind := FK_File content, fe_modified := Some now\<rparr>" "entry_at fs' p = Some m" "extends fs fs'"
proof -
  have f: "fs' = store_bytes now p content (store_bytes now p [] fs)"
    using assms(1) by (cases fault) (simp_all add: write_opened_def Let_def)
  have "entry_at (store_bytes now p [] fs) p = Some (e\<lparr>fe_kind := FK_File [], fe_modified := Some now\<rparr>)"
    using assms(2) by (simp add: store_bytes_entry)
  from store_bytes_extends[OF this, of now content] store_bytes_extends[OF assms(2,3), of now "[]"]
  show "extends fs fs'" unfolding f using extends_trans by (simp add: is_file_def)
qed (use write_opened_effect(3)[OF assms refl] in simp_all)

lemma read_at:
  assumes "lstat fs p = Inr (p, m)" "fe_kind m = FK_File bytes" "fe_read m" "generated_or_ignored_status rel = None"
    "\<not> binary_extension rel" "length bytes \<le> MAX_WORKSPACE_TEXT_BYTES" "0 \<notin> set bytes" "utf8_valid bytes"
  shows "file_response_at now pid rel fs p = Inr (workspace_file_status_response now pid rel WE_File ES_Readable
     (Some (length bytes)) (fe_modified m) (Some bytes))"
  using assms lstat_follow(1)[OF assms(1)]
  by (simp add: file_response_at_def read_file_def is_link_def is_file_def is_dir_def entry_len_def entry_bytes_def
      workspace_entry_kind_of_def)

lemma write_resolves:
  assumes "fs_ok fs" "write_target allowed command fs = Inr (request, pid, rel, parent)" "extends fs fs'"
    "lstat fs' (parent @ [last rel]) = Inr (parent @ [last rel], m)" "\<not> is_link m"
    "workspace_command_path command = Inr t" "canonical_workspace_root fs allowed t = Inr root"
  shows "resolve_existing_workspace_path fs' root rel = Inr (root @ rel)"
proof -
  note k = write_target_ok[OF assms(1,2)]
  obtain d where d: "entry_at fs root = Some d" "is_dir d" using workspace_root_ok(2)[OF assms(1,7)] by blast
  have res: "resolve_from fs root root (butlast rel) = Inr parent"
    using assms(2,6,7) by (auto simp: write_target_def result_simps resolve_existing_workspace_path_def)
  have p: "parent = root @ butlast rel" using k(10) assms(6,7) by auto
  obtain e where e: "entry_at fs parent = Some e" "is_dir e" using k(11) by blast
  obtain d' e' where d': "entry_at fs' root = Some d'" "\<not> is_link d'" and e': "entry_at fs' parent = Some e'" "\<not> is_link e'"
    using extends_entry[OF assms(3) d(1)] extends_entry[OF assms(3) e(1)] dir_not_link d(2) e(2) by metis
  have names: "list_all name_ok (butlast rel)" using k(2) by (meson in_set_butlastD list_all_iff)
  have "canonical fs' root"
  proof -
    obtain q x where "stat fs root = Inr (q, x)"
      using assms(7) by (auto simp: canonical_workspace_root_def split: sum.splits if_splits)
    then obtain y where "stat fs' root = Inr (q, y)" "q = root"
      using stat_extends[OF assms(3)] stat_self(1)[OF _ workspace_root_ok(1)[OF assms(1,7)]] d dir_not_link by (metis option.inject)
    then show ?thesis using walk_canonical[of fs' True MAXSYMLINKS "[]" root root]
      by (auto simp: stat_def stat_result_def split: sum.splits option.splits)
  qed
  from resolve_snoc[OF resolve_extends[OF res assms(3)] e' this d' names, of "last rel"]
  show ?thesis using assms(4,5) lstat_follow(2)[OF assms(4,5)] p k(1)
    by (simp add: resolve_existing_workspace_path_def starts_with_path_append)
qed

lemma write_then_read:
  assumes "fs_ok fs" "write_workspace_file allowed now fault command fs = (Inr resp, fs')"
    "ce_payload command = CP_WriteWorkspaceFile w request"
  shows "\<exists>read. build_workspace_file_response allowed now' (command\<lparr>ce_payload := CP_ReadWorkspaceFile w (wfw_path request)\<rparr>) fs'
       = Inr read \<and> wf_content read = Some (as_bytes (wfw_content request)) \<and> wf_path read = ww_path resp"
proof -
  obtain request' pid rel parent where t': "write_target allowed command fs = Inr (request', pid, rel, parent)"
    using assms(2) by (cases "write_target allowed command fs") (auto simp: write_workspace_file_def)
  have t: "write_target allowed command fs = Inr (request, pid, rel, parent)"
    using t' write_target_ok(9)[OF assms(1) t'] assms(3) by auto
  obtain path fs1 m where o: "open_workspace_write_target now fault parent (last rel)
       (map_option as_bytes (wfw_expected_content request)) fs = Inr (path, fs1)"
    and w: "write_opened now fault path (as_bytes (wfw_content request)) fs1 = (Inr m, fs')"
    and resp: "resp = write_response now pid rel command m"
    using assms(2) t by (auto simp: write_workspace_file_def split: sum.splits prod.splits)
  note k = write_target_ok[OF assms(1) t]
  obtain d where d: "entry_at fs parent = Some d" "is_dir d" using k(11) by blast
  note op = opened_target[OF o k(5) d] and oe = opened_entry[OF o k(5) d]
  obtain e where e: "lstat fs1 path = Inr (path, e)" "is_file e" "fe_read e" using oe(1) by blast
  have e1: "entry_at fs1 path = Some e" using e(1) by (auto simp: lstat_def stat_result_def split: sum.splits option.splits)
  note st = write_opened_stored[OF w e1 e(2)]
  have ex: "extends fs fs'" using extends_trans[OF oe(2) st(3)] .
  obtain m' where m': "lstat fs' path = Inr (path, m')" "entry_at fs' path = Some m'"
    using lstat_extends[OF st(3) e(1)] by metis
  then have m: "m' = m" using st(2) by simp
  obtain root tx where root: "workspace_command_path command = Inr tx" "canonical_workspace_root fs allowed tx = Inr root"
    "parent = root @ butlast rel" using k(10) by blast
  have link: "\<not> is_link m" using st(1) by (simp add: is_link_def)
  have p: "path = root @ rel" using op(1) root(3) k(1) by simp
  have r: "resolve_existing_workspace_path fs' root rel = Inr (root @ rel)"
    using write_resolves[OF assms(1) t ex _ link root(1,2)] m'(1) m op(1) by simp
  let ?c = "command\<lparr>ce_payload := CP_ReadWorkspaceFile w (wfw_path request)\<rparr>"
  have s: "safe_workspace_relative_path (wfw_path request) = Inr rel" "workspace_command_placement_id command = Inr pid"
    using t by (auto simp: write_target_def result_simps)
  have path: "safe_workspace_relative_path (case command_payload_str ?c ''path'' of Some p \<Rightarrow> p | None \<Rightarrow> ''.'') = Inr rel"
    using s(1) k(1) by (auto simp: command_payload_str_def cp_path_def non_empty_def safe_workspace_relative_path_def Let_def split: if_splits)
  have "workspace_command_path ?c = Inr tx" "workspace_command_placement_id ?c = Inr pid"
    using root(1) s(2) assms(3)
    by (simp_all add: workspace_command_path_def workspace_command_placement_id_def command_payload_str_def cp_workspace_path_def)
  moreover have "file_response_at now' pid rel fs' (root @ rel) = Inr (workspace_file_status_response now' pid rel WE_File ES_Readable
     (Some (length (as_bytes (wfw_content request)))) (fe_modified m) (Some (as_bytes (wfw_content request))))"
    using read_at[OF _ _ _ k(3,4,7,8)] m'(1) m p st(1) e(3) by simp
  ultimately show ?thesis
    using workspace_root_extends[OF ex root(2)] path r resp
    by (simp add: build_workspace_file_response_def and_then_def workspace_file_status_response_def write_response_def)
qed

end
