(* ===== verification/Git_Status.thy ===== *)
theory Git_Status
  imports File_System Event_Ingest
begin

text \<open>
  The Git snapshot of a workspace (\<open>uprava-node/src/runtime/support.rs\<close>): the parser of
  \<open>git status --porcelain=v2 --branch -z\<close>, the counters it keeps, and the badges derived from it.
  \<open>git\<close> itself is a program the Node calls; its record format is the documented one.
\<close>

definition MAX_GIT_CHANGED_FILES :: nat where "MAX_GIT_CHANGED_FILES = 1000"

declare digits.simps [simp del]

section \<open>Text\<close>

text \<open>\<open>str::splitn\<close> and \<open>str::parse::<u64>\<close>.\<close>

fun splitn :: "nat \<Rightarrow> char \<Rightarrow> string \<Rightarrow> string list" where
  "splitn 0 d s = []"
| "splitn (Suc 0) d s = [s]"
| "splitn (Suc n) d s = (let w = takeWhile (\<lambda>c. c \<noteq> d) s in
     if length w = length s then [s] else w # splitn n d (drop (Suc (length w)) s))"

definition nth_opt :: "'a list \<Rightarrow> nat \<Rightarrow> 'a option" where
  "nth_opt xs n = (if n < length xs then Some (xs ! n) else None)"

definition decimal :: "string \<Rightarrow> nat" where
  "decimal s = foldl (\<lambda>n c. 10 * n + (of_char c - 48)) 0 s"

definition parse_u64 :: "string \<Rightarrow> u64 option" where
  "parse_u64 s = (let ds = (case s of c # r \<Rightarrow> if c = CHR ''+'' then r else s | [] \<Rightarrow> s) in
     if ds = [] \<or> \<not> list_all is_ascii_digit ds \<or> decimal ds \<ge> 2 ^ 64 then None else Some (of_nat (decimal ds)))"

definition unwrap_or_default :: "u64 option \<Rightarrow> u64" where
  "unwrap_or_default v = (case v of None \<Rightarrow> 0 | Some x \<Rightarrow> x)"

section \<open>Changes\<close>

definition git_change_kind_of :: "char \<Rightarrow> git_change_kind option" where
  "git_change_kind_of c =
     (if c = CHR ''.'' then None
      else if c = CHR ''A'' then Some GC_Added else if c = CHR ''M'' then Some GC_Modified
      else if c = CHR ''D'' then Some GC_Deleted else if c = CHR ''R'' then Some GC_Renamed
      else if c = CHR ''C'' then Some GC_Copied else if c = CHR ''T'' then Some GC_TypeChanged
      else if c = CHR ''U'' then Some GC_Unmerged else if c = CHR ''?'' then Some GC_Untracked
      else Some GC_Unknown)"

definition git_changed_file_of :: "string \<Rightarrow> string option \<Rightarrow> string \<Rightarrow> git_changed_file" where
  "git_changed_file_of path previous_path xy =
     (let index_status = Option.bind (nth_opt xy 0) git_change_kind_of;
          worktree_status = Option.bind (nth_opt xy 1) git_change_kind_of
      in \<lparr>gf_path = path, gf_previous_path = previous_path, gf_index_status = index_status,
          gf_worktree_status = worktree_status,
          gf_conflicted = (index_status = Some GC_Unmerged \<or> worktree_status = Some GC_Unmerged), gf_binary = False\<rparr>)"

definition parse_ordinary_git_change :: "string \<Rightarrow> git_changed_file option" where
  "parse_ordinary_git_change record =
     (let fields = splitn 9 CHR '' '' record in
      Option.bind (nth_opt fields 0) (\<lambda>xy. map_option (\<lambda>path. git_changed_file_of path None xy) (nth_opt fields 7)))"

definition parse_renamed_git_change :: "string \<Rightarrow> git_changed_file option" where
  "parse_renamed_git_change record =
     (let fields = splitn 10 CHR '' '' record in
      Option.bind (nth_opt fields 0) (\<lambda>xy. map_option (\<lambda>path. git_changed_file_of path None xy) (nth_opt fields 8)))"

definition push_git_change :: "git_changed_file \<Rightarrow> git_workspace_snapshot \<Rightarrow> git_workspace_snapshot" where
  "push_git_change change s0 =
     (let s1 = (if gf_index_status change \<noteq> None then s0\<lparr>gs_staged_count := gs_staged_count s0 + 1\<rparr> else s0);
          s2 = (if gf_worktree_status change \<noteq> None then s1\<lparr>gs_unstaged_count := gs_unstaged_count s1 + 1\<rparr> else s1);
          s3 = (if gf_worktree_status change = Some GC_Untracked then s2\<lparr>gs_untracked_count := gs_untracked_count s2 + 1\<rparr> else s2);
          s4 = (if gf_conflicted change then s3\<lparr>gs_conflicted_count := gs_conflicted_count s3 + 1\<rparr> else s3)
      in if length (gs_changed_files s4) < MAX_GIT_CHANGED_FILES
         then s4\<lparr>gs_changed_files := gs_changed_files s4 @ [change]\<rparr> else s4\<lparr>gs_truncated := True\<rparr>)"

section \<open>The parser\<close>

definition empty_git_snapshot :: "git_repository_state \<Rightarrow> time \<Rightarrow> git_workspace_snapshot" where
  "empty_git_snapshot st generated_at =
     \<lparr>gs_state = st, gs_repo_id = None, gs_head_state = None, gs_branch = None, gs_commit = None, gs_upstream = None,
      gs_ahead = 0, gs_behind = 0, gs_worktree_kind = None, gs_operation = None, gs_changed_files = [],
      gs_staged_count = 0, gs_unstaged_count = 0, gs_untracked_count = 0, gs_conflicted_count = 0, gs_truncated = False,
      gs_generated_at = generated_at\<rparr>"

definition branch_ab_step :: "string \<Rightarrow> git_workspace_snapshot \<Rightarrow> git_workspace_snapshot" where
  "branch_ab_step part s = (case part of
     c # v \<Rightarrow> if c = CHR ''+'' then s\<lparr>gs_ahead := unwrap_or_default (parse_u64 v)\<rparr>
       else if c = CHR ''-'' then s\<lparr>gs_behind := unwrap_or_default (parse_u64 v)\<rparr> else s
   | [] \<Rightarrow> s)"

definition header_step :: "string \<Rightarrow> git_workspace_snapshot \<Rightarrow> git_workspace_snapshot option" where
  "header_step r s =
     (case strip_prefix ''# branch.oid '' r of
        Some v \<Rightarrow> Some (if v \<noteq> ''(initial)'' then s\<lparr>gs_commit := Some v\<rparr> else s)
      | None \<Rightarrow> (case strip_prefix ''# branch.head '' r of
        Some v \<Rightarrow> Some (if v = ''(detached)'' then s\<lparr>gs_head_state := Some GH_Detached\<rparr>
            else s\<lparr>gs_head_state := Some GH_Branch, gs_branch := Some v\<rparr>)
      | None \<Rightarrow> (case strip_prefix ''# branch.upstream '' r of
        Some v \<Rightarrow> Some (s\<lparr>gs_upstream := Some v\<rparr>)
      | None \<Rightarrow> (case strip_prefix ''# branch.ab '' r of
        Some v \<Rightarrow> Some (fold branch_ab_step (split_ws [] v) s)
      | None \<Rightarrow> None))))"

definition unmerged_change :: "string \<Rightarrow> git_changed_file" where
  "unmerged_change path = \<lparr>gf_path = path, gf_previous_path = None, gf_index_status = Some GC_Unmerged,
     gf_worktree_status = Some GC_Unmerged, gf_conflicted = True, gf_binary = False\<rparr>"

definition untracked_change :: "string \<Rightarrow> git_changed_file" where
  "untracked_change path = \<lparr>gf_path = path, gf_previous_path = None, gf_index_status = None,
     gf_worktree_status = Some GC_Untracked, gf_conflicted = False, gf_binary = False\<rparr>"

text \<open>The loop over the records; a rename consumes the record after it.\<close>

fun parse_records :: "string list \<Rightarrow> git_workspace_snapshot \<Rightarrow> git_workspace_snapshot" where
  "parse_records [] s = s"
| "parse_records (r # rs) s =
     (case header_step r s of Some s' \<Rightarrow> parse_records rs s' | None \<Rightarrow>
     (case strip_prefix ''1 '' r of
        Some rest \<Rightarrow> (case parse_ordinary_git_change rest of
            Some change \<Rightarrow> parse_records rs (push_git_change change s) | None \<Rightarrow> parse_records rs s)
      | None \<Rightarrow> (case strip_prefix ''2 '' r of
        Some rest \<Rightarrow> (case parse_renamed_git_change rest of
            Some change \<Rightarrow> (case rs of
                [] \<Rightarrow> push_git_change change s
              | prev # rs' \<Rightarrow> parse_records rs' (push_git_change (change\<lparr>gf_previous_path := Some prev\<rparr>) s))
          | None \<Rightarrow> parse_records rs s)
      | None \<Rightarrow> (case strip_prefix ''u '' r of
        Some rest \<Rightarrow> (case nth_opt (splitn 11 CHR '' '' rest) 10 of
            Some path \<Rightarrow> parse_records rs (push_git_change (unmerged_change path) s) | None \<Rightarrow> parse_records rs s)
      | None \<Rightarrow> (case strip_prefix ''? '' r of
        Some path \<Rightarrow> parse_records rs (push_git_change (untracked_change path) s)
      | None \<Rightarrow> parse_records rs s)))))"

definition parse_git_porcelain_v2 :: "string \<Rightarrow> time \<Rightarrow> git_workspace_snapshot" where
  "parse_git_porcelain_v2 status generated_at =
     (let s = parse_records (split_on (char_of (0 :: nat)) status) (empty_git_snapshot GR_Ready generated_at) in
      if gs_head_state s = Some GH_Branch \<and> gs_commit s = None then s\<lparr>gs_head_state := Some GH_Unborn\<rparr> else s)"

section \<open>Repository identity\<close>

definition split_once_str :: "string \<Rightarrow> string \<Rightarrow> (string \<times> string) option" where
  "split_once_str d s = map_option (\<lambda>n. (take n s, drop (n + length d) s))
     (List.find (\<lambda>n. take (length d) (drop n s) = d) [0..<Suc (length s)])"

definition redact_git_credentials :: "string \<Rightarrow> string" where
  "redact_git_credentials v = (case split_once_str ''://'' v of
     None \<Rightarrow> v
   | Some (scheme, rest) \<Rightarrow>
      (let authority = takeWhile (\<lambda>c. c \<noteq> CHR ''/'') rest;
           host = (if CHR ''@'' \<in> set authority then rev (takeWhile (\<lambda>c. c \<noteq> CHR ''@'') (rev authority)) else authority)
       in scheme @ ''://'' @ host @ drop (length authority) rest))"

section \<open>Badges\<close>

definition badge :: "string \<Rightarrow> warning_severity \<Rightarrow> string \<Rightarrow> resource_badge" where
  "badge kind severity label = \<lparr>rb_kind = kind, rb_severity = severity, rb_label = label\<rparr>"

definition dirty_workspace_label :: "nat \<Rightarrow> nat \<Rightarrow> string" where
  "dirty_workspace_label dirty_count untracked_count =
     (if untracked_count = 0 then ''Git workspace has '' @ digits dirty_count @ '' changed path(s)''
      else ''Git workspace has '' @ digits dirty_count @ '' changed path(s), including '' @ digits untracked_count @ '' untracked'')"

fun debug_git_operation :: "git_operation \<Rightarrow> string" where
  "debug_git_operation GO_Merge = ''Merge''"
| "debug_git_operation GO_Rebase = ''Rebase''"
| "debug_git_operation GO_CherryPick = ''CherryPick''"
| "debug_git_operation GO_Revert = ''Revert''"
| "debug_git_operation GO_Bisect = ''Bisect''"

definition resource_warnings_for_snapshot :: "git_workspace_snapshot option \<Rightarrow> resource_badge list" where
  "resource_warnings_for_snapshot snapshot = (case snapshot of
     None \<Rightarrow> [badge ''git_snapshot_unavailable'' WS_Warning ''Git snapshot unavailable'']
   | Some s \<Rightarrow>
      if gs_state s = GR_NotRepository then []
      else if gs_state s = GR_Unavailable then [badge ''git_snapshot_unavailable'' WS_Warning ''Git snapshot unavailable'']
      else [badge ''git_workspace'' WS_Info ''Git workspace'']
        @ (case gs_branch s of None \<Rightarrow> [] | Some b \<Rightarrow> [badge ''git_branch'' WS_Info (''Git branch: '' @ b)])
        @ (if gs_changed_files s \<noteq> [] then [badge ''dirty_workspace'' WS_Warning
             (dirty_workspace_label (length (gs_changed_files s)) (unat (gs_untracked_count s)))] else [])
        @ (if gs_conflicted_count s > 0 then [badge ''git_conflicts'' WS_HardBlock
             (digits (unat (gs_conflicted_count s)) @ '' conflicted path(s)'')] else [])
        @ (if gs_head_state s = Some GH_Detached then [badge ''detached_head'' WS_Warning ''Git HEAD is detached''] else [])
        @ (case gs_operation s of None \<Rightarrow> [] | Some operation \<Rightarrow> [badge ''git_operation_in_progress'' WS_Warning
             (''Git '' @ debug_git_operation operation @ '' is in progress'')])
        @ (if gs_behind s > 0 then [badge ''branch_behind'' WS_Warning
             (''Branch is behind upstream by '' @ digits (unat (gs_behind s)) @ '' commit(s)'')] else [])
        @ (if gs_ahead s > 0 then [badge ''branch_ahead'' WS_Info
             (''Branch is ahead of upstream by '' @ digits (unat (gs_ahead s)) @ '' commit(s)'')] else []))"

section \<open>Which changes are kept\<close>

text \<open>The changes the records describe, in order, before any limit.\<close>

fun listed :: "string list \<Rightarrow> git_changed_file list" where
  "listed [] = []"
| "listed (r # rs) =
     (if header_step r (empty_git_snapshot GR_Ready 0) \<noteq> None then listed rs
      else (case strip_prefix ''1 '' r of
        Some rest \<Rightarrow> (case parse_ordinary_git_change rest of Some c \<Rightarrow> [c] | None \<Rightarrow> []) @ listed rs
      | None \<Rightarrow> (case strip_prefix ''2 '' r of
        Some rest \<Rightarrow> (case parse_renamed_git_change rest of
            Some c \<Rightarrow> (case rs of [] \<Rightarrow> [c] | prev # rs' \<Rightarrow> c\<lparr>gf_previous_path := Some prev\<rparr> # listed rs')
          | None \<Rightarrow> listed rs)
      | None \<Rightarrow> (case strip_prefix ''u '' r of
        Some rest \<Rightarrow> (case nth_opt (splitn 11 CHR '' '' rest) 10 of Some path \<Rightarrow> [unmerged_change path] | None \<Rightarrow> []) @ listed rs
      | None \<Rightarrow> (case strip_prefix ''? '' r of Some path \<Rightarrow> [untracked_change path] | None \<Rightarrow> []) @ listed rs))))"

definition change_fields where
  "change_fields s = (gs_changed_files s, gs_staged_count s, gs_unstaged_count s, gs_untracked_count s, gs_conflicted_count s,
     gs_truncated s)"

lemma branch_ab_fields: "change_fields (fold branch_ab_step ps s) = change_fields s"
  by (induction ps arbitrary: s) (simp_all add: branch_ab_step_def change_fields_def split: list.splits)

lemma header_step_fields: "header_step r s = Some s' \<Longrightarrow> change_fields s' = change_fields s"
  using branch_ab_fields by (auto simp: header_step_def change_fields_def split: option.splits if_splits)

lemma header_step_None: "header_step r s = None \<longleftrightarrow> header_step r t = None"
  by (auto simp: header_step_def split: option.splits)

lemma push_git_change_sel [simp]:
  "gs_changed_files (push_git_change c s) = (if length (gs_changed_files s) < MAX_GIT_CHANGED_FILES then gs_changed_files s @ [c]
     else gs_changed_files s)"
  "gs_truncated (push_git_change c s) \<longleftrightarrow> gs_truncated s \<or> \<not> length (gs_changed_files s) < MAX_GIT_CHANGED_FILES"
  "gs_staged_count (push_git_change c s) = gs_staged_count s + (if gf_index_status c \<noteq> None then 1 else 0)"
  "gs_unstaged_count (push_git_change c s) = gs_unstaged_count s + (if gf_worktree_status c \<noteq> None then 1 else 0)"
  "gs_untracked_count (push_git_change c s) = gs_untracked_count s + (if gf_worktree_status c = Some GC_Untracked then 1 else 0)"
  "gs_conflicted_count (push_git_change c s) = gs_conflicted_count s + (if gf_conflicted c then 1 else 0)"
  by (simp_all add: push_git_change_def Let_def)

lemma push_fields: "change_fields s = change_fields t \<Longrightarrow> change_fields (push_git_change c s) = change_fields (push_git_change c t)"
  by (simp add: change_fields_def)

lemma fold_push_fields: "change_fields s = change_fields t \<Longrightarrow> change_fields (fold push_git_change cs s) = change_fields (fold push_git_change cs t)"
proof (induction cs arbitrary: s t)
  case (Cons c cs)
  show ?case using Cons.IH[OF push_fields[OF Cons.prems]] by simp
qed simp

lemma parse_records_pushes: "change_fields (parse_records rs s) = change_fields (fold push_git_change (listed rs) s)"
proof (induction rs s rule: parse_records.induct)
  case (2 r rs s)
  show ?case
  proof (cases "header_step r s")
    case (Some s')
    then have "header_step r (empty_git_snapshot GR_Ready 0) \<noteq> None" using header_step_None by (metis option.distinct(1))
    then show ?thesis using Some "2.IH" fold_push_fields[OF header_step_fields[OF Some]] by simp
  next
    case None
    then have "header_step r (empty_git_snapshot GR_Ready 0) = None" using header_step_None by blast
    then show ?thesis using None "2.IH" by (simp split: option.split list.split)
  qed
qed simp

definition count_changes :: "(git_changed_file \<Rightarrow> bool) \<Rightarrow> git_changed_file list \<Rightarrow> u64" where
  "count_changes p cs = of_nat (length (filter p cs))"

lemma fold_push_spec:
  "length (gs_changed_files s) \<le> MAX_GIT_CHANGED_FILES \<Longrightarrow>
     gs_changed_files (fold push_git_change cs s) = take MAX_GIT_CHANGED_FILES (gs_changed_files s @ cs)
   \<and> (gs_truncated (fold push_git_change cs s) \<longleftrightarrow> gs_truncated s \<or> length (gs_changed_files s) + length cs > MAX_GIT_CHANGED_FILES)"
proof (induction cs arbitrary: s)
  case (Cons c cs)
  have le: "length (gs_changed_files (push_git_change c s)) \<le> MAX_GIT_CHANGED_FILES" using Cons.prems by simp
  show ?case using Cons.IH[OF le] Cons.prems by (cases "length (gs_changed_files s) < MAX_GIT_CHANGED_FILES") auto
qed simp

lemma fold_push_counts:
  "gs_staged_count (fold push_git_change cs s) = gs_staged_count s + count_changes (\<lambda>c. gf_index_status c \<noteq> None) cs"
  "gs_unstaged_count (fold push_git_change cs s) = gs_unstaged_count s + count_changes (\<lambda>c. gf_worktree_status c \<noteq> None) cs"
  "gs_untracked_count (fold push_git_change cs s) = gs_untracked_count s + count_changes (\<lambda>c. gf_worktree_status c = Some GC_Untracked) cs"
  "gs_conflicted_count (fold push_git_change cs s) = gs_conflicted_count s + count_changes gf_conflicted cs"
  by (induction cs arbitrary: s) (simp_all add: count_changes_def)

lemma parse_snapshot_spec:
  fixes status generated_at
  defines "s \<equiv> parse_git_porcelain_v2 status generated_at" and "cs \<equiv> listed (split_on (char_of (0 :: nat)) status)"
  shows "gs_changed_files s = take MAX_GIT_CHANGED_FILES cs" "gs_truncated s \<longleftrightarrow> length cs > MAX_GIT_CHANGED_FILES"
    "gs_conflicted_count s = count_changes gf_conflicted cs" "gs_staged_count s = count_changes (\<lambda>c. gf_index_status c \<noteq> None) cs"
    "gs_untracked_count s = count_changes (\<lambda>c. gf_worktree_status c = Some GC_Untracked) cs"
proof -
  let ?e = "empty_git_snapshot GR_Ready generated_at"
  let ?p = "parse_records (split_on (char_of (0 :: nat)) status) ?e"
  have "change_fields s = change_fields ?p" by (simp add: s_def parse_git_porcelain_v2_def Let_def change_fields_def)
  then have f: "change_fields s = change_fields (fold push_git_change cs ?e)" by (simp add: parse_records_pushes cs_def)
  note sp = fold_push_spec[of ?e cs] fold_push_counts[of cs ?e]
  show "gs_changed_files s = take MAX_GIT_CHANGED_FILES cs" "gs_truncated s \<longleftrightarrow> length cs > MAX_GIT_CHANGED_FILES"
    "gs_conflicted_count s = count_changes gf_conflicted cs" "gs_staged_count s = count_changes (\<lambda>c. gf_index_status c \<noteq> None) cs"
    "gs_untracked_count s = count_changes (\<lambda>c. gf_worktree_status c = Some GC_Untracked) cs"
    using f sp by (simp_all add: change_fields_def empty_git_snapshot_def)
qed

section \<open>The record format\<close>

lemma splitn_join:
  assumes "fs \<noteq> []" "\<forall>f\<in>set (butlast fs). CHR '' '' \<notin> set f" "length fs \<le> n" "length fs < n \<longrightarrow> CHR '' '' \<notin> set (last fs)"
  shows "splitn n CHR '' '' (join_blank fs) = fs"
  using assms
proof (induction fs arbitrary: n rule: join_blank.induct)
  case (2 w)
  have tw: "takeWhile (\<lambda>c. c \<noteq> CHR '' '') w = w" if "CHR '' '' \<notin> set w" using that by (induction w) auto
  obtain m where n: "n = Suc m" using 2 by (cases n) auto
  show ?case
  proof (cases m)
    case (Suc k)
    have "CHR '' '' \<notin> set w" using 2 n Suc by simp
    then show ?thesis unfolding n Suc splitn.simps join_blank.simps tw[OF \<open>CHR '' '' \<notin> set w\<close>] Let_def by simp
  qed (simp add: n)
next
  case (3 w v ws)
  have tw: "takeWhile (\<lambda>c. c \<noteq> CHR '' '') (w @ CHR '' '' # r) = w" for r
    using 3(3) by (induction w) auto
  obtain m where n: "n = Suc (Suc m)" using 3(4) by (cases n; cases "n - 1") auto
  have "splitn (Suc m) CHR '' '' (join_blank (v # ws)) = v # ws"
    using 3 n by (intro 3(1)) auto
  then show ?case by (simp add: n tw)
qed simp

definition blank_free :: "string list \<Rightarrow> bool" where
  "blank_free fs \<longleftrightarrow> (\<forall>f\<in>set fs. CHR '' '' \<notin> set f)"

lemma splitn_blank_free:
  "blank_free fs \<Longrightarrow> fs \<noteq> [] \<Longrightarrow> length fs \<le> n \<Longrightarrow> splitn n CHR '' '' (join_blank fs) = fs"
  by (intro splitn_join) (auto simp: blank_free_def dest: in_set_butlastD)

text \<open>
  Documented records: an ordinary change has eight fields after its tag, an unmerged one ten.
\<close>

lemma ordinary_parsed:
  assumes "length fs = 8" "blank_free fs"
  shows "parse_ordinary_git_change (join_blank fs) = Some (git_changed_file_of (fs ! 7) None (fs ! 0))"
proof -
  have "splitn 9 CHR '' '' (join_blank fs) = fs"
    using assms by (intro splitn_blank_free) (cases fs; simp)+
  moreover have "fs \<noteq> []" using assms(1) by (cases fs) auto
  ultimately show ?thesis using assms(1) by (simp add: parse_ordinary_git_change_def nth_opt_def)
qed

text \<open>A path with a blank is cut at the blank, because the split allows one field too many.\<close>

lemma ordinary_blank_cut:
  assumes "length fs = 7" "blank_free fs" "CHR '' '' \<notin> set a"
  shows "parse_ordinary_git_change (join_blank (fs @ [a @ CHR '' '' # b])) = Some (git_changed_file_of a None (fs ! 0))"
proof -
  have j: "join_blank (xs @ [x @ CHR '' '' # y]) = join_blank (xs @ [x, y])" for xs x y
    by (induction xs rule: join_blank.induct) auto
  have "splitn 9 CHR '' '' (join_blank (fs @ [a, b])) = fs @ [a, b]"
    using assms by (intro splitn_join) (auto simp: blank_free_def butlast_append)
  then show ?thesis using assms(1) by (simp add: parse_ordinary_git_change_def nth_opt_def j nth_append)
qed

text \<open>An unmerged record with a path without blanks has no field at the position the parser reads.\<close>

lemma unmerged_dropped:
  assumes "length fs = 10" "blank_free fs"
  shows "parse_records ((''u '' @ join_blank fs) # rs) s = parse_records rs s"
proof -
  have "splitn 11 CHR '' '' (join_blank fs) = fs"
    using assms by (intro splitn_blank_free) (cases fs; simp)+
  then have "nth_opt (splitn 11 CHR '' '' (join_blank fs)) 10 = None" using assms(1) by (simp add: nth_opt_def)
  then show ?thesis by (simp add: header_step_def strip_prefix_def)
qed

end
