(* ===== verification/Workspace_Processes.thy ===== *)
theory Workspace_Processes
  imports Workspace_Facts Git_Status
begin

text \<open>
  The workspace commands that run a program (\<open>uprava-node/src/runtime/workspace.rs\<close>): the policy
  for commands, the capture of output within a cap, the diff of a workspace, and the snapshot of
  a placement. What a child process does is the parameter \<open>pe_child\<close>; \<open>pe_lossy\<close> is
  \<open>String::from_utf8_lossy\<close>.
\<close>

definition MAX_WORKSPACE_COMMAND_OUTPUT_BYTES :: nat where "MAX_WORKSPACE_COMMAND_OUTPUT_BYTES = 64 * 1024"
definition MAX_WORKSPACE_COMMAND_ARGS :: nat where "MAX_WORKSPACE_COMMAND_ARGS = 32"
definition MAX_WORKSPACE_COMMAND_ARG_CHARS :: nat where "MAX_WORKSPACE_COMMAND_ARG_CHARS = 512"
definition MAX_WORKSPACE_COMMAND_SECONDS :: u64 where "MAX_WORKSPACE_COMMAND_SECONDS = 120"
definition WORKSPACE_DIFF_BYTES :: nat where "WORKSPACE_DIFF_BYTES = 128 * 1024"
definition MAX_WORKSPACE_DIFF_HUNKS :: nat where "MAX_WORKSPACE_DIFF_HUNKS = 256"
definition MAX_GIT_STATUS_BYTES :: nat where "MAX_GIT_STATUS_BYTES = 512 * 1024"

definition ALLOWED_WORKSPACE_COMMANDS :: "string list" where
  "ALLOWED_WORKSPACE_COMMANDS = [''cargo'', ''git'', ''make'', ''node'', ''npm'', ''pnpm'', ''bun'', ''rustc'']"

section \<open>Output within a cap\<close>

record stream =
  sr_chunks :: "byte list list"
  sr_error :: "string option"

text \<open>The loop: a chunk of zero bytes ends it; what exceeds the cap is read and dropped.\<close>

fun read_capped :: "nat \<Rightarrow> byte list \<Rightarrow> bool \<Rightarrow> byte list list \<Rightarrow> byte list \<times> bool" where
  "read_capped cap collected truncated [] = (collected, truncated)"
| "read_capped cap collected truncated (chunk # rest) =
     (if chunk = [] then (collected, truncated)
      else let remaining = cap - length collected in
        if remaining > 0 then
          (let keep = min (length chunk) remaining in
           read_capped cap (collected @ take keep chunk) (truncated \<or> keep < length chunk) rest)
        else read_capped cap collected True rest)"

definition read_capped_process_output :: "(byte list \<Rightarrow> string) \<Rightarrow> stream \<Rightarrow> nat \<Rightarrow> string + string \<times> bool" where
  "read_capped_process_output lossy reader cap = (case sr_error reader of
     Some e \<Rightarrow> Inl e
   | None \<Rightarrow> (case read_capped cap [] False (sr_chunks reader) of (collected, truncated) \<Rightarrow> Inr (lossy collected, truncated)))"

definition join_capped_output :: "string + string \<times> bool \<Rightarrow> string \<times> bool" where
  "join_capped_output r = (case r of Inr output \<Rightarrow> output | Inl e \<Rightarrow> (''failed to read process output: '' @ e, False))"

section \<open>Processes\<close>

datatype (plugins only: code size) child_result = Spawn_Error string | Wait_Error string | Exited "int option" bool | Timed_Out

record child =
  ch_result :: child_result
  ch_stdout :: stream
  ch_stderr :: stream
  ch_millis :: nat
  ch_started_at :: time
  ch_completed_at :: time

record process_env =
  pe_lossy :: "byte list \<Rightarrow> string"
  pe_child :: "abs_path \<Rightarrow> string \<Rightarrow> string list \<Rightarrow> u64 \<Rightarrow> child"
  pe_now :: time

record workspace_process_output =
  wp_exit_code :: "int option"
  wp_success :: bool
  wp_stdout :: string
  wp_stderr :: string
  wp_stdout_truncated :: bool
  wp_stderr_truncated :: bool
  wp_duration_ms :: u64
  wp_started_at :: time
  wp_completed_at :: time

definition duration_millis :: "nat \<Rightarrow> u64" where
  "duration_millis millis = (if millis > unat (- 1 :: u64) then - 1 else of_nat millis)"

definition run_workspace_process ::
  "process_env \<Rightarrow> abs_path \<Rightarrow> string \<Rightarrow> string list \<Rightarrow> u64 \<Rightarrow> nat \<Rightarrow> nat \<Rightarrow> workspace_process_output" where
  "run_workspace_process pe root command_name args timeout_seconds stdout_cap stderr_cap =
     (let c = pe_child pe root command_name args timeout_seconds;
          failed = (\<lambda>e. \<lparr>wp_exit_code = None, wp_success = False, wp_stdout = [],
             wp_stderr = ''Failed to start `'' @ command_name @ ''`: '' @ e, wp_stdout_truncated = False,
             wp_stderr_truncated = False, wp_duration_ms = duration_millis (ch_millis c),
             wp_started_at = ch_started_at c, wp_completed_at = ch_completed_at c\<rparr>);
          (out, out_truncated) = join_capped_output (read_capped_process_output (pe_lossy pe) (ch_stdout c) stdout_cap);
          (err, err_truncated) = join_capped_output (read_capped_process_output (pe_lossy pe) (ch_stderr c) stderr_cap);
          done = (\<lambda>code success stderr. \<lparr>wp_exit_code = code, wp_success = success, wp_stdout = out,
             wp_stderr = stderr, wp_stdout_truncated = out_truncated, wp_stderr_truncated = err_truncated,
             wp_duration_ms = duration_millis (ch_millis c), wp_started_at = ch_started_at c,
             wp_completed_at = ch_completed_at c\<rparr>)
      in case ch_result c of
           Spawn_Error e \<Rightarrow> failed e
         | Wait_Error e \<Rightarrow> failed e
         | Exited code success \<Rightarrow> done code success err
         | Timed_Out \<Rightarrow>
            (let timeout_message = ''`'' @ command_name @ ''` timed out after '' @ digits (unat timeout_seconds) @ '' seconds''
             in done None False (if trim err = [] then timeout_message else err @ [char_of (10 :: nat)] @ timeout_message)))"

section \<open>Commands\<close>

record workspace_command_run_response =
  wr_placement_id :: id
  wr_terminal_command_id :: string
  wr_command :: string
  wr_args :: "string list"
  wr_intent :: workspace_command_intent
  wr_label :: "string option"
  wr_output :: workspace_process_output

definition has_nul :: "string \<Rightarrow> bool" where
  "has_nul s = list_ex (\<lambda>c. c = char_of (0 :: nat)) s"

definition validate_workspace_command_request :: "workspace_command_run_request \<Rightarrow> inspect_error + unit" where
  "validate_workspace_command_request request =
     (let command = trim (wcr_command request) in
      and_then (ensure (command \<noteq> []) ''workspace.command_required'') (\<lambda>_.
      and_then (ensure (\<not> (length command > MAX_WORKSPACE_COMMAND_ARG_CHARS \<or> has_nul command
          \<or> CHR ''/'' \<in> set command \<or> char_of (92 :: nat) \<in> set command)) ''workspace.command_invalid'') (\<lambda>_.
      and_then (ensure (command \<in> set ALLOWED_WORKSPACE_COMMANDS) ''workspace.command_not_allowed'') (\<lambda>_.
      and_then (ensure (\<not> length (wcr_args request) > MAX_WORKSPACE_COMMAND_ARGS) ''workspace.command_too_many_args'') (\<lambda>_.
      ensure (\<not> list_ex (\<lambda>a. has_nul a \<or> length a > MAX_WORKSPACE_COMMAND_ARG_CHARS) (wcr_args request))
        ''workspace.command_arg_invalid'')))))"

definition clamp_timeout :: "u64 option \<Rightarrow> u64" where
  "clamp_timeout t = max 1 (min MAX_WORKSPACE_COMMAND_SECONDS (case t of None \<Rightarrow> 30 | Some s \<Rightarrow> s))"

definition command_request :: "command_payload \<Rightarrow> inspect_error + workspace_command_run_request" where
  "command_request p = (case p of CP_RunWorkspaceCommand _ request \<Rightarrow> Inr request | _ \<Rightarrow> Inl ''workspace.invalid_payload'')"

definition run_workspace_command ::
  "process_env \<Rightarrow> string list \<Rightarrow> command_envelope \<Rightarrow> fs \<Rightarrow> inspect_error + workspace_command_run_response" where
  "run_workspace_command pe allowed command fs =
     and_then (command_request (ce_payload command)) (\<lambda>request.
     and_then (validate_workspace_command_request request) (\<lambda>_.
     and_then (workspace_command_placement_id command) (\<lambda>placement_id.
     and_then (workspace_command_path command) (\<lambda>workspace_path.
     and_then (canonical_workspace_root fs allowed workspace_path) (\<lambda>workspace_root.
     Inr \<lparr>wr_placement_id = placement_id, wr_terminal_command_id = ''terminal-command-'' @ ce_command_id command,
       wr_command = trim (wcr_command request), wr_args = wcr_args request, wr_intent = wcr_intent request,
       wr_label = wcr_label request,
       wr_output = run_workspace_process pe workspace_root (trim (wcr_command request)) (wcr_args request)
         (clamp_timeout (wcr_timeout_seconds request)) MAX_WORKSPACE_COMMAND_OUTPUT_BYTES MAX_WORKSPACE_COMMAND_OUTPUT_BYTES\<rparr>)))))"

section \<open>Hunks\<close>

record workspace_diff_hunk =
  dh_hunk_id :: string
  dh_header :: string
  dh_patch :: string

text \<open>\<open>str::lines\<close>.\<close>

definition strip_cr :: "string \<Rightarrow> string" where
  "strip_cr l = (if l \<noteq> [] \<and> last l = char_of (13 :: nat) then butlast l else l)"

fun lines_of :: "string list \<Rightarrow> string list" where
  "lines_of [] = []"
| "lines_of [l] = (if l = [] then [] else [l])"
| "lines_of (l # ls) = strip_cr l # lines_of ls"

definition lines :: "string \<Rightarrow> string list" where
  "lines s = lines_of (split_on (char_of (10 :: nat)) s)"

definition starts_with :: "string \<Rightarrow> string \<Rightarrow> bool" where
  "starts_with s p \<longleftrightarrow> take (length p) s = p"

definition new_hunk :: "string \<Rightarrow> workspace_diff_hunk list \<Rightarrow> string \<Rightarrow> string \<Rightarrow> workspace_diff_hunk" where
  "new_hunk diff_id hunks header patch =
     \<lparr>dh_hunk_id = diff_id @ '':hunk-'' @ digits (length hunks + 1), dh_header = header, dh_patch = patch\<rparr>"

definition line_nl :: "string \<Rightarrow> string" where
  "line_nl l = l @ [char_of (10 :: nat)]"

fun hunk_lines ::
  "string \<Rightarrow> workspace_diff_hunk list \<Rightarrow> string option \<Rightarrow> string \<Rightarrow> string list \<Rightarrow> workspace_diff_hunk list \<times> string option \<times> string" where
  "hunk_lines diff_id hunks header patch [] = (hunks, header, patch)"
| "hunk_lines diff_id hunks header patch (line # ls) =
     (if length hunks \<ge> MAX_WORKSPACE_DIFF_HUNKS then (hunks, header, patch)
      else if starts_with line ''@@ '' then
        (case header of
           Some h \<Rightarrow> hunk_lines diff_id (hunks @ [new_hunk diff_id hunks h patch]) (Some line) (line_nl line) ls
         | None \<Rightarrow> hunk_lines diff_id hunks (Some line) (patch @ line_nl line) ls)
      else (case header of
          Some h \<Rightarrow> if starts_with line ''diff --git '' then
              hunk_lines diff_id (hunks @ [new_hunk diff_id hunks h patch]) None [] ls
            else hunk_lines diff_id hunks header (patch @ line_nl line) ls
        | None \<Rightarrow> hunk_lines diff_id hunks header patch ls))"

definition parse_workspace_diff_hunks :: "string \<Rightarrow> string \<Rightarrow> workspace_diff_hunk list" where
  "parse_workspace_diff_hunks diff_id diff = (case hunk_lines diff_id [] None [] (lines diff) of
     (hunks, header, patch) \<Rightarrow>
       if length hunks < MAX_WORKSPACE_DIFF_HUNKS then
         (case header of Some h \<Rightarrow> hunks @ [new_hunk diff_id hunks h patch] | None \<Rightarrow> hunks)
       else hunks)"

section \<open>The diff\<close>

definition diff_change_matches_scope :: "git_changed_file \<Rightarrow> workspace_diff_scope \<Rightarrow> bool" where
  "diff_change_matches_scope change scope = (case scope of WD_All \<Rightarrow> True
     | WD_Staged \<Rightarrow> gf_index_status change \<noteq> None | WD_Unstaged \<Rightarrow> gf_worktree_status change \<noteq> None)"

definition workspace_diff_args :: "workspace_diff_scope \<Rightarrow> string option \<Rightarrow> bool \<Rightarrow> string list" where
  "workspace_diff_args scope path has_head =
     [''diff'', ''--no-ext-diff'', ''--no-color'', ''--find-renames'']
     @ (case scope of WD_All \<Rightarrow> if has_head then [''HEAD''] else [] | WD_Unstaged \<Rightarrow> [] | WD_Staged \<Rightarrow> [''--cached''])
     @ [''--''] @ (case path of None \<Rightarrow> [] | Some p \<Rightarrow> [p])"

definition git_show_text :: "process_env \<Rightarrow> abs_path \<Rightarrow> string \<Rightarrow> string option" where
  "git_show_text pe root spec =
     (let output = run_workspace_process pe root ''git'' [''show'', ''--no-textconv'', spec] 10 MAX_WORKSPACE_TEXT_BYTES 4096
      in if wp_success output then Some (wp_stdout output) else None)"

text \<open>The reader of the working tree: \<open>fs::metadata\<close> and \<open>fs::read\<close> follow links.\<close>

definition read_workspace_diff_file :: "process_env \<Rightarrow> fs \<Rightarrow> abs_path \<Rightarrow> rel_path \<Rightarrow> inspect_error + string option" where
  "read_workspace_diff_file pe fs workspace_root relative_path =
     (case resolve_existing_workspace_path fs workspace_root relative_path of
        Inl e \<Rightarrow> if e = ''workspace.path_missing'' then Inr None else Inl e
      | Inr target \<Rightarrow> (case stat fs target of
          Inl _ \<Rightarrow> Inl ''workspace.metadata_failed''
        | Inr (_, metadata) \<Rightarrow>
            if \<not> is_file metadata \<or> entry_len metadata > MAX_WORKSPACE_TEXT_BYTES then Inr None
            else (case read_file fs target of
                Inl _ \<Rightarrow> Inl ''workspace.read_failed''
              | Inr bytes \<Rightarrow>
                  if 0 \<in> set bytes then Inr None
                  else if utf8_valid bytes then Inr (Some (pe_lossy pe bytes)) else Inl ''workspace.diff_binary_file'')))"

definition workspace_diff_contents ::
  "process_env \<Rightarrow> fs \<Rightarrow> abs_path \<Rightarrow> rel_path \<Rightarrow> workspace_diff_scope \<Rightarrow> git_workspace_snapshot \<Rightarrow> bool
   \<Rightarrow> inspect_error + string option \<times> string option" where
  "workspace_diff_contents pe fs root relative_path scope snapshot binary =
     (if binary then Inr (None, None)
      else let path = relative_path_string relative_path;
               change = List.find (\<lambda>c. gf_path c = path) (gs_changed_files snapshot);
               untracked = (case change of None \<Rightarrow> False | Some c \<Rightarrow> gf_worktree_status c = Some GC_Untracked);
               original = (if untracked then Some []
                 else let source_path = (case Option.bind change gf_previous_path of Some p \<Rightarrow> p | None \<Rightarrow> path)
                      in git_show_text pe root (case scope of WD_Unstaged \<Rightarrow> '':'' @ source_path | _ \<Rightarrow> ''HEAD:'' @ source_path))
      in and_then (case scope of WD_Staged \<Rightarrow> Inr (git_show_text pe root ('':'' @ path))
                   | _ \<Rightarrow> read_workspace_diff_file pe fs root relative_path) (\<lambda>modified.
         Inr (case original of None \<Rightarrow> Some [] | Some t \<Rightarrow> Some t, case modified of None \<Rightarrow> Some [] | Some t \<Rightarrow> Some t)))"

record workspace_diff_response =
  wx_placement_id :: id
  wx_diff_id :: string
  wx_git_snapshot :: git_workspace_snapshot
  wx_summary :: string
  wx_diff :: string
  wx_scope :: workspace_diff_scope
  wx_path :: "string option"
  wx_changed_files :: "git_changed_file list"
  wx_hunks :: "workspace_diff_hunk list"
  wx_original :: "string option"
  wx_modified :: "string option"
  wx_binary :: bool
  wx_summary_truncated :: bool
  wx_diff_truncated :: bool
  wx_generated_at :: time

definition diff_request :: "command_payload \<Rightarrow> inspect_error + workspace_diff_request" where
  "diff_request p = (case p of CP_ReadWorkspaceDiff _ request \<Rightarrow> Inr request | _ \<Rightarrow> Inl ''workspace.invalid_payload'')"

definition contains_str :: "string \<Rightarrow> string \<Rightarrow> bool" where
  "contains_str s p = list_ex (\<lambda>n. take (length p) (drop n s) = p) [0..<Suc (length s)]"

text \<open>The text of the diff: the main run, and the staged run before it when there is no commit yet.\<close>

definition diff_text_of :: "process_env \<Rightarrow> abs_path \<Rightarrow> workspace_diff_scope \<Rightarrow> string option \<Rightarrow> bool \<Rightarrow> string \<times> bool" where
  "diff_text_of pe root scope path has_head =
     (let run = (\<lambda>s. run_workspace_process pe root ''git'' (workspace_diff_args s path has_head) 10 WORKSPACE_DIFF_BYTES 4096);
          diff = run scope;
          text = (if trim (wp_stderr diff) = [] then wp_stdout diff
            else wp_stdout diff @ (if wp_stdout diff = [] then [] else [char_of (10 :: nat)]) @ wp_stderr diff);
          truncated = (wp_stdout_truncated diff \<or> wp_stderr_truncated diff)
      in if scope = WD_All \<and> \<not> has_head then
           (let staged = run_workspace_process pe root ''git'' (workspace_diff_args WD_Staged path False) 10 WORKSPACE_DIFF_BYTES 4096;
                staged_text = wp_stdout staged @ (if trim (wp_stderr staged) = [] then [] else wp_stderr staged)
            in (staged_text @ text, truncated \<or> wp_stdout_truncated staged \<or> wp_stderr_truncated staged))
         else (text, truncated))"

fun mark_binary :: "string \<Rightarrow> git_changed_file list \<Rightarrow> git_changed_file list" where
  "mark_binary path [] = []"
| "mark_binary path (c # cs) = (if gf_path c = path then c\<lparr>gf_binary := True\<rparr> # cs else c # mark_binary path cs)"

definition diff_summary :: "nat \<Rightarrow> git_workspace_snapshot \<Rightarrow> string" where
  "diff_summary changed s =
     (let dot = [CHR '' '', char_of (183 :: nat), CHR '' ''] in
      digits changed @ '' changed'' @ dot @ digits (unat (gs_staged_count s)) @ '' staged'' @ dot
      @ digits (unat (gs_unstaged_count s)) @ '' unstaged'' @ dot @ digits (unat (gs_untracked_count s)) @ '' untracked'' @ dot
      @ digits (unat (gs_conflicted_count s)) @ '' conflicted'')"

definition not_a_worktree ::
  "process_env \<Rightarrow> command_envelope \<Rightarrow> id \<Rightarrow> workspace_diff_request \<Rightarrow> workspace_process_output \<Rightarrow> workspace_diff_response" where
  "not_a_worktree pe command placement_id request inside =
     \<lparr>wx_placement_id = placement_id, wx_diff_id = ''workspace-diff-'' @ ce_command_id command,
      wx_git_snapshot = empty_git_snapshot GR_NotRepository (pe_now pe), wx_summary = ''Workspace is not a git worktree'',
      wx_diff = wp_stderr inside, wx_scope = wdr_scope request, wx_path = wdr_path request, wx_changed_files = [],
      wx_hunks = [], wx_original = None, wx_modified = None, wx_binary = False, wx_summary_truncated = False,
      wx_diff_truncated = wp_stderr_truncated inside, wx_generated_at = pe_now pe\<rparr>"

definition build_workspace_diff_response ::
  "process_env \<Rightarrow> (abs_path \<Rightarrow> git_workspace_snapshot option) \<Rightarrow> string list \<Rightarrow> command_envelope \<Rightarrow> fs
   \<Rightarrow> inspect_error + workspace_diff_response" where
  "build_workspace_diff_response pe snapshot_of allowed command fs =
     and_then (diff_request (ce_payload command)) (\<lambda>request.
     and_then (workspace_command_placement_id command) (\<lambda>placement_id.
     and_then (workspace_command_path command) (\<lambda>workspace_path.
     and_then (canonical_workspace_root fs allowed workspace_path) (\<lambda>root.
     and_then (case wdr_path request of None \<Rightarrow> Inr None
        | Some p \<Rightarrow> and_then (safe_workspace_relative_path p) (\<lambda>r. Inr (Some r))) (\<lambda>relative_path.
     and_then (ensure (relative_path \<noteq> Some []) ''workspace.path_required'') (\<lambda>_.
     let inside = run_workspace_process pe root ''git'' [''rev-parse'', ''--is-inside-work-tree''] 10 1024 4096 in
     if \<not> wp_success inside \<or> trim (wp_stdout inside) \<noteq> ''true'' then Inr (not_a_worktree pe command placement_id request inside)
     else and_then (ok_or (snapshot_of root) ''workspace.git_snapshot_failed'') (\<lambda>snapshot.
     let path = map_option relative_path_string relative_path;
         (diff_text, diff_truncated) = diff_text_of pe root (wdr_scope request) path (gs_commit snapshot \<noteq> None);
         binary = ((case relative_path of None \<Rightarrow> False | Some r \<Rightarrow> binary_extension r) \<or> contains_str diff_text ''Binary files '');
         changed_files = filter (\<lambda>c. diff_change_matches_scope c (wdr_scope request)) (gs_changed_files snapshot);
         marked = (case path of Some p \<Rightarrow> if binary then mark_binary p changed_files else changed_files | None \<Rightarrow> changed_files)
     in and_then (case relative_path of None \<Rightarrow> Inr (None, None)
          | Some r \<Rightarrow> workspace_diff_contents pe fs root r (wdr_scope request) snapshot binary) (\<lambda>(original, modified).
        let diff_id = ''workspace-diff-'' @ ce_command_id command in
        Inr \<lparr>wx_placement_id = placement_id, wx_diff_id = diff_id, wx_git_snapshot = snapshot,
          wx_summary = diff_summary (length marked) snapshot, wx_diff = diff_text, wx_scope = wdr_scope request, wx_path = path,
          wx_changed_files = marked, wx_hunks = parse_workspace_diff_hunks diff_id diff_text, wx_original = original,
          wx_modified = modified, wx_binary = binary, wx_summary_truncated = gs_truncated snapshot,
          wx_diff_truncated = diff_truncated, wx_generated_at = pe_now pe\<rparr>))))))))"

section \<open>What is kept of an output\<close>

lemma read_capped_spec:
  "length c \<le> cap \<Longrightarrow> read_capped cap c t ks =
     (take cap (c @ concat (takeWhile (\<lambda>k. k \<noteq> []) ks)), t \<or> length (c @ concat (takeWhile (\<lambda>k. k \<noteq> []) ks)) > cap)"
proof (induction ks arbitrary: c t)
  case (Cons k ks)
  show ?case
  proof (cases "k = [] \<or> length c = cap")
    case True
    then show ?thesis using Cons.IH[OF Cons.prems, of True] Cons.prems by auto
  next
    case False
    let ?c = "c @ take (min (length k) (cap - length c)) k"
    have "length ?c \<le> cap" using Cons.prems by simp
    from Cons.IH[OF this, of "t \<or> min (length k) (cap - length c) < length k"] show ?thesis
      using False Cons.prems by (cases "length k \<le> cap - length c") (auto simp: Let_def min_def)
  qed
qed simp

section \<open>What a hunk is\<close>

definition hunk_ok :: "string \<Rightarrow> workspace_diff_hunk list \<Rightarrow> bool" where
  "hunk_ok diff_id hs \<longleftrightarrow> length hs \<le> MAX_WORKSPACE_DIFF_HUNKS
     \<and> map dh_hunk_id hs = map (\<lambda>n. diff_id @ '':hunk-'' @ digits (n + 1)) [0..<length hs]
     \<and> (\<forall>h\<in>set hs. starts_with (dh_header h) ''@@ '' \<and> starts_with (dh_patch h) (line_nl (dh_header h)))"

definition open_hunk_ok :: "string option \<Rightarrow> string \<Rightarrow> bool" where
  "open_hunk_ok header patch \<longleftrightarrow> (case header of None \<Rightarrow> patch = []
     | Some h \<Rightarrow> starts_with h ''@@ '' \<and> starts_with patch (line_nl h))"

lemma starts_with_append: "starts_with s p \<Longrightarrow> starts_with (s @ t) p"
  by (metis append_assoc append_eq_conv_conj append_take_drop_id starts_with_def)

lemma starts_with_self: "starts_with s s"
  by (simp add: starts_with_def)

lemma hunk_ok_snoc:
  "hunk_ok diff_id hs \<Longrightarrow> length hs < MAX_WORKSPACE_DIFF_HUNKS \<Longrightarrow> open_hunk_ok (Some h) p \<Longrightarrow>
   hunk_ok diff_id (hs @ [new_hunk diff_id hs h p])"
  by (auto simp: hunk_ok_def new_hunk_def open_hunk_ok_def)

lemma hunk_lines_ok:
  "hunk_ok diff_id hs \<Longrightarrow> open_hunk_ok header patch \<Longrightarrow> hunk_lines diff_id hs header patch ls = (hs', header', patch') \<Longrightarrow>
   hunk_ok diff_id hs' \<and> open_hunk_ok header' patch'"
proof (induction ls arbitrary: hs header patch)
  case (Cons line ls)
  note ok = Cons.prems(1,2) and run = Cons.prems(3)
  show ?case
  proof (cases "length hs \<ge> MAX_WORKSPACE_DIFF_HUNKS")
    case False
    show ?thesis
    proof (cases header)
      case None
      then have "patch = []" using ok(2) by (simp add: open_hunk_ok_def)
      then have "hunk_lines diff_id hs (if starts_with line ''@@ '' then Some line else None)
          (if starts_with line ''@@ '' then line_nl line else []) ls = (hs', header', patch')"
        using run False None by (simp split: if_splits)
      then show ?thesis by (rule Cons.IH[OF ok(1), rotated]) (simp add: open_hunk_ok_def starts_with_self)
    next
      case (Some h)
      have cut: "hunk_ok diff_id (hs @ [new_hunk diff_id hs h patch])" using hunk_ok_snoc[OF ok(1)] ok(2) Some False by simp
      have open1: "open_hunk_ok (Some h) (patch @ line_nl line)" using ok(2) Some by (simp add: open_hunk_ok_def starts_with_append)
      consider "starts_with line ''@@ ''" | "\<not> starts_with line ''@@ ''" "starts_with line ''diff --git ''"
        | "\<not> starts_with line ''@@ ''" "\<not> starts_with line ''diff --git ''" by blast
      then show ?thesis
      proof cases
        case 1
        then have "hunk_lines diff_id (hs @ [new_hunk diff_id hs h patch]) (Some line) (line_nl line) ls = (hs', header', patch')"
          using run False Some by simp
        then show ?thesis by (rule Cons.IH[OF cut, rotated]) (simp add: open_hunk_ok_def starts_with_self 1)
      next
        case 2
        then have "hunk_lines diff_id (hs @ [new_hunk diff_id hs h patch]) None [] ls = (hs', header', patch')"
          using run False Some by simp
        then show ?thesis by (rule Cons.IH[OF cut, rotated]) (simp add: open_hunk_ok_def)
      next
        case 3
        then have "hunk_lines diff_id hs (Some h) (patch @ line_nl line) ls = (hs', header', patch')"
          using run False Some by simp
        then show ?thesis using Cons.IH[OF ok(1) open1] by simp
      qed
    qed
  qed (use Cons.prems in simp)
qed simp

lemma parse_hunks_ok: "hunk_ok diff_id (parse_workspace_diff_hunks diff_id diff)"
proof -
  obtain hs header patch where h: "hunk_lines diff_id [] None [] (lines diff) = (hs, header, patch)"
    by (cases "hunk_lines diff_id [] None [] (lines diff)") auto
  have "hunk_ok diff_id hs \<and> open_hunk_ok header patch"
    using hunk_lines_ok[OF _ _ h] by (simp add: hunk_ok_def open_hunk_ok_def)
  then show ?thesis using h hunk_ok_snoc by (auto simp: parse_workspace_diff_hunks_def split: option.splits)
qed

section \<open>Which programs run where\<close>

lemma command_runs:
  assumes "fs_ok fs" "run_workspace_command pe allowed command fs = Inr resp"
  shows "wr_command resp \<in> set ALLOWED_WORKSPACE_COMMANDS"
    "\<exists>root t. below_allowed fs allowed root \<and> canonical fs root \<and> 1 \<le> t \<and> t \<le> MAX_WORKSPACE_COMMAND_SECONDS
       \<and> wr_output resp = run_workspace_process pe root (wr_command resp) (wr_args resp) t
           MAX_WORKSPACE_COMMAND_OUTPUT_BYTES MAX_WORKSPACE_COMMAND_OUTPUT_BYTES"
    "length (wr_args resp) \<le> MAX_WORKSPACE_COMMAND_ARGS"
proof -
  obtain request root ws where q: "validate_workspace_command_request request = Inr ()"
    and root: "canonical_workspace_root fs allowed ws = Inr root"
    and r: "wr_command resp = trim (wcr_command request)" "wr_args resp = wcr_args request"
      "wr_output resp = run_workspace_process pe root (trim (wcr_command request)) (wcr_args request)
         (clamp_timeout (wcr_timeout_seconds request)) MAX_WORKSPACE_COMMAND_OUTPUT_BYTES MAX_WORKSPACE_COMMAND_OUTPUT_BYTES"
    using assms(2) by (auto simp: run_workspace_command_def result_simps)
  show "wr_command resp \<in> set ALLOWED_WORKSPACE_COMMANDS" "length (wr_args resp) \<le> MAX_WORKSPACE_COMMAND_ARGS"
    using q r(1,2) by (auto simp: validate_workspace_command_request_def Let_def result_simps)
  have "1 \<le> clamp_timeout t" "clamp_timeout t \<le> MAX_WORKSPACE_COMMAND_SECONDS" for t
    by (auto simp: clamp_timeout_def MAX_WORKSPACE_COMMAND_SECONDS_def)
  then show "\<exists>root t. below_allowed fs allowed root \<and> canonical fs root \<and> 1 \<le> t \<and> t \<le> MAX_WORKSPACE_COMMAND_SECONDS
       \<and> wr_output resp = run_workspace_process pe root (wr_command resp) (wr_args resp) t
           MAX_WORKSPACE_COMMAND_OUTPUT_BYTES MAX_WORKSPACE_COMMAND_OUTPUT_BYTES"
    using workspace_root_ok(1,3)[OF assms(1) root] r by metis
qed

section \<open>The diff reader follows links\<close>

text \<open>
  Unlike the file command, the diff reader hands a link to calls that follow it: the content it
  returns is that of the file the link points to, inside the workspace or not.
\<close>

lemma diff_reads_link_target:
  assumes "lstat fs (root @ [w]) = Inr (p, l)" "is_link l" "stat fs (root @ [w]) = Inr (q, e)" "fe_kind e = FK_File bytes"
    "fe_read e" "length bytes \<le> MAX_WORKSPACE_TEXT_BYTES" "0 \<notin> set bytes" "utf8_valid bytes"
  shows "read_workspace_diff_file pe fs root [w] = Inr (Some (pe_lossy pe bytes))"
  using assms
  by (simp add: read_workspace_diff_file_def resolve_existing_workspace_path_def read_file_def is_file_def is_dir_def
      entry_len_def entry_bytes_def)

end
