(* ===== verification/Placement_Snapshots.thy ===== *)
theory Placement_Snapshots
  imports Workspace_Processes Admission
begin

text \<open>
  The snapshot of a placement the Node reports (\<open>workspace.rs\<close>, \<open>support.rs\<close>): whether the
  workspace is allowed, present and writable, what Git says about it, and the event that carries
  it to Core. The outputs of the \<open>git\<close> runs are the parameter \<open>git_outputs\<close>, and the SHA-256 of
  a text is \<open>sha256\<close>.
\<close>

declare digits.simps [simp del]

section \<open>Git\<close>

record git_outputs =
  go_status :: "(byte list list \<times> bool) option"
  go_git_dir :: "string option"
  go_common_dir :: "string option"
  go_remote :: "string option"
  go_toplevel :: "string option"
  go_marker :: "string \<Rightarrow> string \<Rightarrow> bool"

fun capture_status :: "byte list \<Rightarrow> bool \<Rightarrow> byte list list \<Rightarrow> byte list \<times> bool" where
  "capture_status captured truncated [] = (captured, truncated)"
| "capture_status captured truncated (chunk # rest) =
     (if chunk = [] then (captured, truncated)
      else let remaining = MAX_GIT_STATUS_BYTES - length captured; retained = min remaining (length chunk) in
        capture_status (captured @ take retained chunk) (truncated \<or> retained < length chunk) rest)"

definition capped_git_status :: "git_outputs \<Rightarrow> (byte list \<times> bool \<times> bool) option" where
  "capped_git_status go = map_option (\<lambda>(chunks, success). case capture_status [] False chunks of
     (captured, truncated) \<Rightarrow> (captured, truncated, success)) (go_status go)"

definition git_operation_of :: "git_outputs \<Rightarrow> string \<Rightarrow> git_operation option" where
  "git_operation_of go git_dir = map_option snd (List.find (\<lambda>(marker, _). go_marker go git_dir marker)
     [(''MERGE_HEAD'', GO_Merge), (''rebase-merge'', GO_Rebase), (''rebase-apply'', GO_Rebase),
      (''CHERRY_PICK_HEAD'', GO_CherryPick), (''REVERT_HEAD'', GO_Revert), (''BISECT_LOG'', GO_Bisect)])"

definition git_repository_id :: "(string \<Rightarrow> string) \<Rightarrow> git_outputs \<Rightarrow> string option" where
  "git_repository_id sha256 go =
     map_option (\<lambda>identity. ''sha256:'' @ sha256 (redact_git_credentials identity))
       (case go_remote go of Some r \<Rightarrow> if r = [] then go_toplevel go else Some r | None \<Rightarrow> go_toplevel go)"

definition git_snapshot_of ::
  "(byte list \<Rightarrow> string) \<Rightarrow> (string \<Rightarrow> string) \<Rightarrow> git_outputs \<Rightarrow> time \<Rightarrow> git_workspace_snapshot option" where
  "git_snapshot_of lossy sha256 go generated_at =
     map_option (\<lambda>(stdout, output_truncated, success).
       if \<not> success then empty_git_snapshot GR_NotRepository generated_at
       else let s = parse_git_porcelain_v2 (lossy stdout) generated_at
            in s\<lparr>gs_truncated := gs_truncated s \<or> output_truncated,
                 gs_worktree_kind := (case (go_git_dir go, go_common_dir go) of
                    (Some a, Some b) \<Rightarrow> Some (if a = b then GW_Primary else GW_Linked) | _ \<Rightarrow> None),
                 gs_operation := Option.bind (go_git_dir go) (git_operation_of go),
                 gs_repo_id := git_repository_id sha256 go\<rparr>) (capped_git_status go)"

section \<open>The workspace\<close>

definition stat_text :: "fs \<Rightarrow> string \<Rightarrow> io_error + abs_path \<times> fs_entry" where
  "stat_text fs p = stat_result fs (canonicalize fs p)"

definition file_name_of :: "string \<Rightarrow> string option" where
  "file_name_of p = (case rev (components p) of NormalC w # _ \<Rightarrow> Some w | _ \<Rightarrow> None)"

definition validate_workspace ::
  "(string \<Rightarrow> git_workspace_snapshot option) \<Rightarrow> time \<Rightarrow> fs \<Rightarrow> string \<Rightarrow> workspace_snapshot" where
  "validate_workspace git_of now fs path =
     (let (st, badges, git) =
        (case stat_text fs path of
           Inl _ \<Rightarrow> (PS_Missing, [badge ''missing_workspace'' WS_HardBlock ''Workspace missing''], None)
         | Inr (_, m) \<Rightarrow>
            if \<not> is_dir m then (PS_Missing, [badge ''workspace_not_directory'' WS_HardBlock ''Workspace is not a directory''], None)
            else if fe_readonly m then (PS_ReadOnly, [badge ''read_only_workspace'' WS_HardBlock ''Read-only workspace''], None)
            else (PS_Validated, resource_warnings_for_snapshot (git_of path), git_of path))
      in \<lparr>ws_display_name = (case file_name_of path of Some n \<Rightarrow> n | None \<Rightarrow> ''workspace''), ws_workspace_path = path, ws_state = st,
          ws_resource_badges = badges, ws_git_snapshot = git, ws_last_validated_at = now\<rparr>)"

definition validate_command_workspace ::
  "(string \<Rightarrow> git_workspace_snapshot option) \<Rightarrow> string list \<Rightarrow> time \<Rightarrow> fs \<Rightarrow> string \<Rightarrow> string \<Rightarrow> workspace_snapshot" where
  "validate_command_workspace git_of allowed now fs display_name workspace_path =
     (if \<not> workspace_path_allowed fs allowed workspace_path then
        \<lparr>ws_display_name = display_name, ws_workspace_path = workspace_path, ws_state = PS_Error,
         ws_resource_badges = [badge ''workspace_outside_allowed_roots'' WS_HardBlock ''Workspace outside allowed roots''],
         ws_git_snapshot = None, ws_last_validated_at = now\<rparr>
      else (validate_workspace git_of now fs workspace_path)\<lparr>ws_display_name := display_name\<rparr>)"

section \<open>The event\<close>

definition next_placement_seq :: "seqs \<Rightarrow> id \<Rightarrow> int \<times> seqs" where
  "next_placement_seq placement_seqs pid =
     (let n = (case hm_get placement_seqs pid of Some q \<Rightarrow> q + 1 | None \<Rightarrow> 1) in (n, hm_insert pid n placement_seqs))"

definition placement_event_for_command ::
  "id \<Rightarrow> time \<Rightarrow> command_envelope \<Rightarrow> seqs \<Rightarrow> id \<Rightarrow> event_kind \<Rightarrow> event_payload_kind \<Rightarrow> event_envelope \<times> seqs" where
  "placement_event_for_command event_id now command placement_seqs pid kind payload =
     (case next_placement_seq placement_seqs pid of (n, s) \<Rightarrow>
       (\<lparr>ev_event_id = event_id, ev_command_id = Some (ce_command_id command),
         ev_correlation_id = Some (ce_correlation_id command),
         ev_actor_ref = AR_Node (target_node_id (ce_target command)), ev_scope_ref = SR_Placement pid,
         ev_node_id = Some (target_node_id (ce_target command)), ev_runtime_session_id = None,
         ev_session_thread_id = None, ev_turn_id = None, ev_seq = n, ev_session_projection_seq = None, ev_kind = kind,
         ev_happened_at = now, ev_source_refs = ce_source_refs command, ev_evidence_refs = [],
         ev_cause_refs = ce_cause_refs command, ev_result_refs = [], ev_payload = payload\<rparr>, s))"

definition placement_snapshot_events ::
  "(string \<Rightarrow> git_workspace_snapshot option) \<Rightarrow> string list \<Rightarrow> id \<Rightarrow> time \<Rightarrow> fs \<Rightarrow> event_kind \<Rightarrow> command_envelope \<Rightarrow> seqs
   \<Rightarrow> event_envelope list \<times> seqs" where
  "placement_snapshot_events git_of allowed event_id now fs kind command placement_seqs =
     (case target_placement_id (ce_target command) of None \<Rightarrow> ([], placement_seqs)
      | Some pid \<Rightarrow>
         (let path = (case command_payload_str command ''workspace_path'' of Some p \<Rightarrow> p | None \<Rightarrow> []);
              name = (case command_payload_str command ''display_name'' of Some d \<Rightarrow> d | None \<Rightarrow> ''workspace'');
              s = validate_command_workspace git_of allowed now fs name path;
              payload = (if kind = EK_WorkspaceValidated
                then EP_WorkspaceValidated pid (ws_display_name s) (ws_workspace_path s) (ws_state s) (ws_resource_badges s) (ws_git_snapshot s)
                else EP_ResourceSnapshotUpdated pid (ws_display_name s) (ws_workspace_path s) (ws_state s) (ws_resource_badges s) (ws_git_snapshot s))
          in case placement_event_for_command event_id now command placement_seqs pid kind payload of (e, q) \<Rightarrow> ([e], q)))"

section \<open>A validated workspace is an allowed directory\<close>

lemma validated_workspace:
  assumes "fs_ok fs" "ws_state (validate_command_workspace git_of allowed now fs name path) = PS_Validated"
  shows "\<exists>p d. canonicalize fs path = Inr p \<and> below_allowed fs allowed p \<and> entry_at fs p = Some d \<and> is_dir d \<and> \<not> fe_readonly d"
proof -
  have a: "workspace_path_allowed fs allowed path" and v: "ws_state (validate_workspace git_of now fs path) = PS_Validated"
    using assms(2) by (auto simp: validate_command_workspace_def split: if_splits)
  obtain q m where s: "stat_text fs path = Inr (q, m)" "is_dir m" "\<not> fe_readonly m"
    using v by (auto simp: validate_workspace_def Let_def split: sum.splits if_splits)
  have c: "canonicalize fs path = Inr q" "entry_at fs q = Some m"
    using s(1) by (auto simp: stat_text_def stat_result_def split: sum.splits option.splits)
  have "canonical_workspace_path_allowed_roots fs allowed q" using a c(1) by (simp add: workspace_path_allowed_def)
  then obtain x where x: "x \<in> set allowed" "case canonicalize fs x of Inr base \<Rightarrow> starts_with_path q base | Inl _ \<Rightarrow> False"
    by (auto simp: canonical_workspace_path_allowed_roots_def list_ex_iff)
  then obtain base where "canonicalize fs x = Inr base" "starts_with_path q base" by (cases "canonicalize fs x") auto
  then have "below_allowed fs allowed q" using x(1) by (auto simp: below_allowed_def starts_with_path_append)
  then show ?thesis using c s by blast
qed

text \<open>What Core makes of it: only a validated snapshot without a hard block can start anything.\<close>

lemma conflicts_block:
  assumes "git_of path = Some s" "gs_state s = GR_Ready" "gs_conflicted_count s > 0"
    "ps_resource_badges p = ws_resource_badges (validate_workspace git_of now fs path)"
    "ps_state p = ws_state (validate_workspace git_of now fs path)"
  shows "ensure_placement_startable p \<noteq> Inr ()"
proof -
  have "badge ''git_conflicts'' WS_HardBlock (digits (unat (gs_conflicted_count s)) @ '' conflicted path(s)'')
     \<in> set (resource_warnings_for_snapshot (Some s))"
    using assms(2,3) by (simp add: resource_warnings_for_snapshot_def)
  then have "\<exists>b\<in>set (resource_warnings_for_snapshot (Some s)). rb_severity b = WS_HardBlock" by (rule rev_bexI) (simp add: badge_def)
  then show ?thesis
    using assms unfolding placement_startable_iff
    by (auto simp: validate_workspace_def Let_def split: sum.splits if_splits)
qed

end
