(* ===== verification/Task_Runs.thy ===== *)
theory Task_Runs
  imports Paths Session_Facts
begin

text \<open>
  Task Runs as Core orchestrates them (\<open>application/task.rs\<close>): what a request may ask for, how
  a run is queued together with the command that starts it, how it is cancelled, and what the
  API shows of it. \<open>Task_Projection\<close> has the other half, how the Node's events and results
  change a run.
\<close>

section \<open>Limits\<close>

definition TASK_RUNTIME_CAPABILITY :: string where
  "TASK_RUNTIME_CAPABILITY = ''task_runtime.opensandbox.docker''"

definition MAX_TASK_PROMPT_CHARS :: nat where "MAX_TASK_PROMPT_CHARS = 65536"
definition MAX_TASK_CHECKS :: nat where "MAX_TASK_CHECKS = 32"
definition MAX_TASK_ARTIFACTS :: nat where "MAX_TASK_ARTIFACTS = 64"
definition MAX_TASK_PATH_CHARS :: nat where "MAX_TASK_PATH_CHARS = 1024"
definition MAX_TASK_CHECK_LABEL_CHARS :: nat where "MAX_TASK_CHECK_LABEL_CHARS = 256"
definition MAX_TASK_CHECK_ARGS :: nat where "MAX_TASK_CHECK_ARGS = 64"
definition MAX_TASK_CHECK_ARG_CHARS :: nat where "MAX_TASK_CHECK_ARG_CHARS = 4096"
definition MAX_TASK_CHECK_COMMAND_CHARS :: nat where "MAX_TASK_CHECK_COMMAND_CHARS = 16384"
definition MIN_TASK_TIMEOUT_SECONDS :: u64 where "MIN_TASK_TIMEOUT_SECONDS = 60"
definition MAX_TASK_TIMEOUT_SECONDS :: u64 where "MAX_TASK_TIMEOUT_SECONDS = 24 * 60 * 60"

definition ALLOWED_TASK_CPUS :: "string list" where
  "ALLOWED_TASK_CPUS = [''0.5'', ''1'', ''2'', ''4'', ''8'']"

definition ALLOWED_TASK_MEMORY :: "string list" where
  "ALLOWED_TASK_MEMORY = [''512Mi'', ''1Gi'', ''2Gi'', ''4Gi'', ''8Gi'', ''16Gi'']"

section \<open>Validation\<close>

definition validate_relative_evidence_path :: "string \<Rightarrow> app_error + unit" where
  "validate_relative_evidence_path path =
     (let invalid_component = list_ex (\<lambda>c. c = ParentDir \<or> c = RootDir) (components path) in
      ensure (\<not> (trim path = [] \<or> length path > MAX_TASK_PATH_CHARS \<or> is_absolute path \<or> invalid_component
          \<or> list_ex (\<lambda>c. c \<in> set ''*?[]'') path))
        (BadRequest ''task_run.invalid_artifact_path''))"

definition check_invalid :: "u64 \<Rightarrow> task_check_spec \<Rightarrow> bool" where
  "check_invalid timeout check =
     (let command_chars = length (tk_command check) + sum_list (map length (tk_args check)) in
      trim (tk_label check) = [] \<or> length (tk_label check) > MAX_TASK_CHECK_LABEL_CHARS
      \<or> trim (tk_command check) = [] \<or> length (tk_args check) > MAX_TASK_CHECK_ARGS
      \<or> list_ex (\<lambda>a. length a > MAX_TASK_CHECK_ARG_CHARS) (tk_args check)
      \<or> command_chars > MAX_TASK_CHECK_COMMAND_CHARS
      \<or> tk_timeout_seconds check = 0 \<or> tk_timeout_seconds check > timeout)"

fun validate_checks :: "u64 \<Rightarrow> task_check_spec list \<Rightarrow> app_error + unit" where
  "validate_checks timeout [] = Inr ()"
| "validate_checks timeout (check # checks) =
     (if check_invalid timeout check then Inl (BadRequest ''task_run.invalid_check'') else validate_checks timeout checks)"

fun validate_artifact_paths :: "string list \<Rightarrow> app_error + unit" where
  "validate_artifact_paths [] = Inr ()"
| "validate_artifact_paths (path # paths) =
     and_then (validate_relative_evidence_path path) (\<lambda>_. validate_artifact_paths paths)"

definition validate_task_request :: "create_task_run_request \<Rightarrow> app_error + unit" where
  "validate_task_request request =
     and_then (ensure (\<not> (trim (ctr_prompt request) = [] \<or> length (ctr_prompt request) > MAX_TASK_PROMPT_CHARS))
        (BadRequest ''task_run.invalid_prompt'')) (\<lambda>_.
     and_then (ensure (\<not> (\<not> (MIN_TASK_TIMEOUT_SECONDS \<le> ctr_timeout_seconds request
              \<and> ctr_timeout_seconds request \<le> MAX_TASK_TIMEOUT_SECONDS)
            \<or> ctr_ttl_seconds request < ctr_timeout_seconds request \<or> ctr_ttl_seconds request > MAX_TASK_TIMEOUT_SECONDS))
        (BadRequest ''task_run.invalid_timeout'')) (\<lambda>_.
     and_then (ensure (\<not> (length (ctr_checks request) > MAX_TASK_CHECKS
            \<or> length (ctr_artifact_paths request) > MAX_TASK_ARTIFACTS))
        (BadRequest ''task_run.too_many_evidence_items'')) (\<lambda>_.
     and_then (validate_checks (ctr_timeout_seconds request) (ctr_checks request)) (\<lambda>_.
     and_then (validate_artifact_paths (ctr_artifact_paths request)) (\<lambda>_.
     ensure (\<not> (trim (tl_cpu (ctr_resource_limits request)) \<notin> set ALLOWED_TASK_CPUS
            \<or> trim (tl_memory (ctr_resource_limits request)) \<notin> set ALLOWED_TASK_MEMORY))
        (BadRequest ''task_run.invalid_resource_limits''))))))"

text \<open>The runtime image a Node advertises, if it advertises the task runtime at all.\<close>

definition advertised_image :: "capability_value \<Rightarrow> string option" where
  "advertised_image v = (case v of
     CV_Extension _ value \<Rightarrow>
       if json_get_bool value ''available'' = Some True then
         (if json_get_str value ''provider'' = Some ''codex'' then
            (case map_option trim (json_get_str value ''runtime_image'') of
               Some found \<Rightarrow> if found = [] then None else Some found | None \<Rightarrow> None)
          else None)
       else None
   | _ \<Rightarrow> None)"

definition ensure_node_supports_task_runtime :: "id \<Rightarrow> core_db \<Rightarrow> app_error + string" where
  "ensure_node_supports_task_runtime node_id db =
     ok_or (case filter (\<lambda>r. cap_node_id r = node_id \<and> cap_capability_key r = TASK_RUNTIME_CAPABILITY) (db_capabilities db) of
         [] \<Rightarrow> None | r # _ \<Rightarrow> advertised_image (cap_value r))
       (BadRequest ''node.task_runtime_unavailable'')"

section \<open>What the API shows\<close>

record task_run_summary =
  tu_task_run_id :: id
  tu_project_placement_id :: id
  tu_placement_name :: string
  tu_node_id :: id
  tu_provider :: string
  tu_state :: task_run_state
  tu_cleanup_state :: task_cleanup_state
  tu_base_revision :: string
  tu_branch :: string
  tu_runtime_image :: string
  tu_queued_at :: time
  tu_started_at :: "time option"
  tu_finished_at :: "time option"
  tu_summary :: "string option"
  tu_terminal_reason :: "scheduled_message_failure option"

record task_run_detail =
  td_task :: task_run_summary
  td_prompt :: string
  td_checks :: "task_check_spec list"
  td_artifact_paths :: "string list"
  td_timeout_seconds :: u64
  td_ttl_seconds :: u64
  td_resource_limits :: task_resource_limits
  td_worktree_path :: "string option"
  td_result :: "task_run_result_package option"

definition task_summary_from_row :: "task_row \<Rightarrow> placement_row \<Rightarrow> task_run_summary" where
  "task_summary_from_row r p = \<lparr>tu_task_run_id = tr_task_run_id r, tu_project_placement_id = tr_project_placement_id r,
     tu_placement_name = pl_display_name p, tu_node_id = tr_node_id r, tu_provider = tr_provider r,
     tu_state = tr_state r, tu_cleanup_state = tr_cleanup_state r, tu_base_revision = tr_base_revision r,
     tu_branch = tr_branch r, tu_runtime_image = tr_runtime_image r, tu_queued_at = tr_queued_at r,
     tu_started_at = tr_started_at r, tu_finished_at = tr_finished_at r, tu_summary = tr_summary r,
     tu_terminal_reason = (case (tr_terminal_code r, tr_terminal_message r) of
        (Some code, Some message) \<Rightarrow> Some \<lparr>smf_code = code, smf_message = message\<rparr> | _ \<Rightarrow> None)\<rparr>"

text \<open>The rows joined with the placement they belong to.\<close>

definition joined_task :: "core_db \<Rightarrow> task_row \<Rightarrow> (task_row \<times> placement_row) option" where
  "joined_task db r = map_option (\<lambda>p. (r, p)) (find_placement db (tr_project_placement_id r))"

definition load_task_run :: "id \<Rightarrow> core_db \<Rightarrow> app_error + task_run_detail" where
  "load_task_run task_run_id db =
     and_then (ok_or (Option.bind (find_task db task_run_id) (joined_task db)) (NotFound ''task_run.not_found'')) (\<lambda>(r, p).
     Inr \<lparr>td_task = task_summary_from_row r p, td_prompt = tr_prompt r, td_checks = tr_checks r,
       td_artifact_paths = tr_artifact_paths r, td_timeout_seconds = tr_timeout_seconds r,
       td_ttl_seconds = tr_ttl_seconds r, td_resource_limits = tr_resource_limits r,
       td_worktree_path = tr_worktree_path r, td_result = tr_result r\<rparr>)"

definition list_task_runs :: "id option \<Rightarrow> core_db \<Rightarrow> task_run_summary list" where
  "list_task_runs placement db = map (\<lambda>(r, p). task_summary_from_row r p)
     (rev (sort_key (\<lambda>(r, p). (tr_queued_at r, tr_task_run_id r))
       (filter (\<lambda>(r, p). case placement of None \<Rightarrow> True | Some x \<Rightarrow> tr_project_placement_id r = x)
         (filter_map (joined_task db) (db_task_runs db)))))"

section \<open>Queueing a run\<close>

definition resolve_base_revision :: "create_task_run_request \<Rightarrow> placement_summary \<Rightarrow> app_error + string" where
  "resolve_base_revision request placement = (case map_option trim (ctr_base_revision request) of
     Some revision \<Rightarrow> and_then (validate_immutable_revision revision) (\<lambda>_. Inr revision)
   | None \<Rightarrow> ok_or (case Option.bind (ps_git_snapshot placement) gs_commit of
         Some revision \<Rightarrow> if is_ok (validate_immutable_revision revision) then Some revision else None | None \<Rightarrow> None)
       (BadRequest ''task_run.base_revision_unavailable''))"

definition resolve_runtime_image :: "create_task_run_request \<Rightarrow> string \<Rightarrow> app_error + string" where
  "resolve_runtime_image request advertised =
     (case Option.bind (map_option trim (ctr_runtime_image request)) (\<lambda>v. if v = [] then None else Some v) of
        Some requested \<Rightarrow> if requested \<noteq> advertised then Inl (BadRequest ''task_run.runtime_image_not_advertised'')
          else Inr requested
      | None \<Rightarrow> Inr advertised)"

definition task_branch :: "id \<Rightarrow> string" where
  "task_branch task_run_id = ''uprava/task/'' @ task_run_id"

definition trimmed_limits :: "task_resource_limits \<Rightarrow> task_resource_limits" where
  "trimmed_limits l = \<lparr>tl_cpu = trim (tl_cpu l), tl_memory = trim (tl_memory l)\<rparr>"

definition task_spec :: "id \<Rightarrow> create_task_run_request \<Rightarrow> string \<Rightarrow> string \<Rightarrow> task_run_spec" where
  "task_spec task_run_id request base_revision runtime_image =
     \<lparr>trs_task_run_id = task_run_id, trs_project_placement_id = ctr_project_placement_id request,
      trs_provider = ''codex'', trs_prompt = trim (ctr_prompt request), trs_base_revision = base_revision,
      trs_branch = task_branch task_run_id, trs_checks = ctr_checks request, trs_artifact_paths = ctr_artifact_paths request,
      trs_timeout_seconds = ctr_timeout_seconds request, trs_ttl_seconds = ctr_ttl_seconds request,
      trs_resource_limits = trimmed_limits (ctr_resource_limits request), trs_runtime_image = runtime_image\<rparr>"

definition task_command ::
  "session_ids \<Rightarrow> id \<Rightarrow> id \<Rightarrow> id \<Rightarrow> command_kind \<Rightarrow> uprava_ref \<Rightarrow> command_payload \<Rightarrow> time \<Rightarrow> command_envelope" where
  "task_command ids node_id placement_id task_run_id kind source payload now =
     \<lparr>ce_command_id = si_command ids, ce_kind = kind, ce_target = CT_TaskRun node_id placement_id task_run_id,
      ce_actor_ref = AR_LocalUser None, ce_source_refs = [source], ce_cause_refs = [], ce_issued_at = now,
      ce_correlation_id = si_correlation ids, ce_payload = payload\<rparr>"

definition new_task_row :: "task_run_spec \<Rightarrow> id \<Rightarrow> id \<Rightarrow> time \<Rightarrow> task_row" where
  "new_task_row spec node_id command_id now =
     \<lparr>tr_task_run_id = trs_task_run_id spec, tr_project_placement_id = trs_project_placement_id spec, tr_node_id = node_id,
      tr_provider = ''codex'', tr_state = TS_Queued, tr_cleanup_state = TC_Pending, tr_prompt = trs_prompt spec,
      tr_base_revision = trs_base_revision spec, tr_branch = trs_branch spec, tr_runtime_image = trs_runtime_image spec,
      tr_checks = trs_checks spec, tr_artifact_paths = trs_artifact_paths spec,
      tr_timeout_seconds = trs_timeout_seconds spec, tr_ttl_seconds = trs_ttl_seconds spec,
      tr_resource_limits = trs_resource_limits spec, tr_command_id = command_id, tr_cancel_command_id = None,
      tr_worktree_path = None, tr_result = None, tr_summary = None, tr_terminal_code = None, tr_terminal_message = None,
      tr_queued_at = now, tr_started_at = None, tr_finished_at = None, tr_updated_at = now\<rparr>"

definition insert_task :: "task_row \<Rightarrow> core_db \<Rightarrow> app_error + core_db" where
  "insert_task r db =
     and_then (ensure (find_task db (tr_task_run_id r) = None \<and> find_placement db (tr_project_placement_id r) \<noteq> None
        \<and> find_node db (tr_node_id r) \<noteq> None \<and> find_command db (tr_command_id r) \<noteq> None) Database) (\<lambda>_.
     Inr (db\<lparr>db_task_runs := db_task_runs db @ [r]\<rparr>))"

text \<open>The transaction: the command and the run it starts are stored together or not at all.\<close>

definition queue_task :: "command_envelope \<Rightarrow> task_row \<Rightarrow> core_db \<Rightarrow> app_error + core_db" where
  "queue_task command r db = and_then (record_command_on_connection command db) (insert_task r)"

definition run_task_command ::
  "session_ids \<Rightarrow> placement_summary \<Rightarrow> task_run_spec \<Rightarrow> time \<Rightarrow> command_envelope" where
  "run_task_command ids placement spec now =
     task_command ids (ps_node_id placement) (trs_project_placement_id spec) (trs_task_run_id spec) CK_RunTask
       (UR_Placement (trs_project_placement_id spec)) (CP_RunTask (ps_workspace_path placement) spec) now"

definition create_task_run :: "session_env \<Rightarrow> session_ids \<Rightarrow> id \<Rightarrow> create_task_run_request \<Rightarrow> task_run_detail handler" where
  "create_task_run env ids task_run_id request =
     h_bind (h_check (\<lambda>_. validate_task_request request)) (\<lambda>_.
     h_bind (load_placement env (ctr_project_placement_id request) None) (\<lambda>placement.
     h_bind (h_check (\<lambda>st. ensure_node_commandable (se_cfg env) (ps_node_id placement) (se_now env) (co_db st))) (\<lambda>_.
     h_bind (h_check (\<lambda>_. ensure_placement_startable placement)) (\<lambda>_.
     h_bind (h_check (\<lambda>st. ensure_node_supports_task_runtime (ps_node_id placement) (co_db st))) (\<lambda>advertised.
     h_bind (h_check (\<lambda>_. resolve_base_revision request placement)) (\<lambda>base_revision.
     h_bind (h_check (\<lambda>_. resolve_runtime_image request advertised)) (\<lambda>runtime_image.
     let spec = task_spec task_run_id request base_revision runtime_image in
     h_bind (h_txn (queue_task (run_task_command ids placement spec (se_now env))
        (new_task_row spec (ps_node_id placement) (si_command ids) (se_now env)))) (\<lambda>_.
     h_bind (h_modify (dispatch_pending_commands (se_frame_id env) (se_now env) (ps_node_id placement))) (\<lambda>_.
     h_check (\<lambda>st. load_task_run task_run_id (co_db st)))))))))))"

section \<open>Cancelling a run\<close>

definition cancellable :: "task_row \<Rightarrow> bool" where
  "cancellable r \<longleftrightarrow> \<not> is_terminal (tr_state r) \<and> tr_state r \<noteq> TS_Cancelling"

definition mark_cancelling :: "id \<Rightarrow> time \<Rightarrow> task_row \<Rightarrow> task_row" where
  "mark_cancelling command_id now r =
     r\<lparr>tr_state := TS_Cancelling, tr_cancel_command_id := Some command_id, tr_updated_at := now\<rparr>"

definition record_cancellation :: "command_envelope \<Rightarrow> id \<Rightarrow> core_db \<Rightarrow> app_error + core_db" where
  "record_cancellation command task_run_id db =
     and_then (record_command_on_connection command db) (\<lambda>db1.
     let hit = (\<lambda>r. tr_task_run_id r = task_run_id \<and> cancellable r) in
     if rows_affected hit (db_task_runs db1) = 0 then Inl (BadRequest ''task_run.not_cancellable'')
     else Inr (db1\<lparr>db_task_runs :=
            update_where hit (mark_cancelling (ce_command_id command) (ce_issued_at command)) (db_task_runs db1)\<rparr>))"

definition cancel_task_command :: "session_ids \<Rightarrow> task_run_detail \<Rightarrow> id \<Rightarrow> time \<Rightarrow> command_envelope" where
  "cancel_task_command ids detail task_run_id now =
     task_command ids (tu_node_id (td_task detail)) (tu_project_placement_id (td_task detail)) task_run_id CK_CancelTaskRun
       (UR_TaskRun task_run_id) (CP_CancelTaskRun task_run_id) now"

definition cancel_task_run :: "session_env \<Rightarrow> session_ids \<Rightarrow> id \<Rightarrow> task_run_detail handler" where
  "cancel_task_run env ids task_run_id =
     h_bind (h_check (\<lambda>st. load_task_run task_run_id (co_db st))) (\<lambda>detail.
     h_bind (h_check (\<lambda>_. ensure (\<not> (is_terminal (tu_state (td_task detail)) \<or> tu_state (td_task detail) = TS_Cancelling))
        (BadRequest ''task_run.not_cancellable''))) (\<lambda>_.
     h_bind (h_txn (record_cancellation (cancel_task_command ids detail task_run_id (se_now env)) task_run_id)) (\<lambda>_.
     h_bind (h_modify (dispatch_pending_commands (se_frame_id env) (se_now env) (tu_node_id (td_task detail)))) (\<lambda>_.
     h_check (\<lambda>st. load_task_run task_run_id (co_db st))))))"

section \<open>Accepted requests\<close>

text \<open>A path as the kernel resolves it from a directory, as long as no component is a link.\<close>

fun follow :: "string list \<Rightarrow> path_component list \<Rightarrow> string list" where
  "follow d [] = d"
| "follow d (RootDir # cs) = follow [] cs"
| "follow d (CurDir # cs) = follow d cs"
| "follow d (ParentDir # cs) = follow (butlast d) cs"
| "follow d (NormalC w # cs) = follow (d @ [w]) cs"

lemma follow_below:
  "ParentDir \<notin> set cs \<Longrightarrow> RootDir \<notin> set cs \<Longrightarrow> follow d cs = d @ filter_map (\<lambda>c. case c of NormalC w \<Rightarrow> Some w | _ \<Rightarrow> None) cs"
  by (induction d cs rule: follow.induct) auto

lemma evidence_path_below:
  assumes "validate_relative_evidence_path p = Inr ()"
  shows "\<exists>ws. follow d (components p) = d @ ws \<and> list_all name_ok ws"
proof -
  let ?ws = "filter_map (\<lambda>c. case c of NormalC w \<Rightarrow> Some w | _ \<Rightarrow> None) (components p)"
  have "follow d (components p) = d @ ?ws"
    using assms by (intro follow_below) (auto simp: validate_relative_evidence_path_def Let_def result_simps list_ex_iff)
  moreover have "w \<in> set (filter_map (\<lambda>c. case c of NormalC w \<Rightarrow> Some w | _ \<Rightarrow> None) cs) \<Longrightarrow> NormalC w \<in> set cs" for w cs
    by (induction cs) (auto split: path_component.splits option.splits)
  ultimately show ?thesis using components_normal_ok by (auto simp: list_all_iff)
qed

lemma validate_checks_Inr: "validate_checks t cs = Inr () \<longleftrightarrow> (\<forall>c\<in>set cs. \<not> check_invalid t c)"
  by (induction cs) auto

lemma validate_artifact_paths_Inr:
  "validate_artifact_paths ps = Inr () \<longleftrightarrow> (\<forall>p\<in>set ps. validate_relative_evidence_path p = Inr ())"
  by (induction ps) (auto simp: result_simps)

lemma accepted_request:
  assumes "validate_task_request q = Inr ()"
  shows "60 \<le> ctr_timeout_seconds q" "ctr_timeout_seconds q \<le> ctr_ttl_seconds q" "ctr_ttl_seconds q \<le> 86400"
    "\<forall>c\<in>set (ctr_checks q). 0 < tk_timeout_seconds c \<and> tk_timeout_seconds c \<le> ctr_timeout_seconds q
       \<and> length (tk_command c) + sum_list (map length (tk_args c)) \<le> 16384"
    "\<forall>p\<in>set (ctr_artifact_paths q). validate_relative_evidence_path p = Inr ()"
    "trim (ctr_prompt q) \<noteq> []" "length (ctr_prompt q) \<le> 65536" "length (ctr_checks q) \<le> 32" "length (ctr_artifact_paths q) \<le> 64"
    "trim (tl_cpu (ctr_resource_limits q)) \<in> set ALLOWED_TASK_CPUS"
    "trim (tl_memory (ctr_resource_limits q)) \<in> set ALLOWED_TASK_MEMORY"
  using assms
  by (auto simp: validate_task_request_def result_simps validate_checks_Inr validate_artifact_paths_Inr check_invalid_def
      Let_def MIN_TASK_TIMEOUT_SECONDS_def MAX_TASK_TIMEOUT_SECONDS_def MAX_TASK_CHECKS_def MAX_TASK_ARTIFACTS_def
      MAX_TASK_PROMPT_CHARS_def MAX_TASK_CHECK_COMMAND_CHARS_def not_less word_neq_0_conv)

section \<open>Task requests keep what the shared tables promise\<close>

locale task_property = core_property +
  assumes task_rows: "P st \<Longrightarrow> P (st\<lparr>co_db := (co_db st)\<lparr>db_task_runs := ts\<rparr>\<rparr>)"
begin

lemma keeps_queue_task: "h_keeps P (h_txn (queue_task c r))"
  using recorded task_rows[of "st\<lparr>co_db := db\<rparr>" for st db]
  by (intro h_keeps_txn) (fastforce simp: queue_task_def insert_task_def result_simps)

lemma keeps_record_cancellation: "h_keeps P (h_txn (record_cancellation c t))"
  using recorded task_rows[of "st\<lparr>co_db := db\<rparr>" for st db]
  by (intro h_keeps_txn) (fastforce simp: record_cancellation_def Let_def result_simps split: if_splits)

lemma keeps_create_task: "h_keeps P (create_task_run env ids t request)"
  unfolding create_task_run_def Let_def
  by (intro h_keeps_bind h_keeps_check keeps_load_placement keeps_queue_task keeps_dispatch)

lemma keeps_cancel_task: "h_keeps P (cancel_task_run env ids t)"
  unfolding cancel_task_run_def
  by (intro h_keeps_bind h_keeps_check keeps_record_cancellation keeps_dispatch)

end

interpretation outbox_tasks: task_property journal_ok
proof
  fix st ts assume "journal_ok st"
  then show "journal_ok (st\<lparr>co_db := (co_db st)\<lparr>db_task_runs := ts\<rparr>\<rparr>)"
    using outbox_inv_cong[of "(co_db st)\<lparr>db_task_runs := ts\<rparr>" "co_db st"] by (simp add: journal_ok_def)
qed

interpretation log_tasks: task_property "log_ok K" for K
proof
  fix st ts assume "log_ok K st"
  then show "log_ok K (st\<lparr>co_db := (co_db st)\<lparr>db_task_runs := ts\<rparr>\<rparr>)"
    using log_ok_same[OF same_log_tables[of "(co_db st)\<lparr>db_task_runs := ts\<rparr>" st]] by simp
qed

section \<open>A run and its command\<close>

lemma record_command_tasks:
  "record_command_on_connection c db = Inr db' \<Longrightarrow> db_task_runs db' = db_task_runs db \<and> db_placements db' = db_placements db"
  by (auto simp: record_command_on_connection_def result_simps insert_command_def enqueue_dispatch_def split: if_splits)

lemma dispatch_keeps_tasks:
  "db_task_runs (co_db (dispatch_pending_commands fid now n st)) = db_task_runs (co_db st)"
  "db_placements (co_db (dispatch_pending_commands fid now n st)) = db_placements (co_db st)"
proof -
  have s: "db_task_runs (co_db (dispatch_row_step fid now tx row st)) = db_task_runs (co_db st)
      \<and> db_placements (co_db (dispatch_row_step fid now tx row st)) = db_placements (co_db st)" for tx row st
    by (simp add: dispatch_row_step_db update_command_state_def mark_attempt_def delete_dispatch_def Let_def)
  have "db_task_runs (co_db (fold (dispatch_row_step fid now tx) rows st)) = db_task_runs (co_db st)
      \<and> db_placements (co_db (fold (dispatch_row_step fid now tx) rows st)) = db_placements (co_db st)" for tx rows
    by (induction rows arbitrary: st) (simp_all add: s)
  then show "db_task_runs (co_db (dispatch_pending_commands fid now n st)) = db_task_runs (co_db st)"
    "db_placements (co_db (dispatch_pending_commands fid now n st)) = db_placements (co_db st)"
    by (simp_all add: dispatch_pending_commands_def Let_def split: option.splits)
qed

lemma load_task_run_Inr:
  "load_task_run t db = Inr d \<Longrightarrow> \<exists>r p. find_task db t = Some r \<and> find_placement db (tr_project_placement_id r) = Some p
     \<and> td_task d = task_summary_from_row r p"
  by (auto simp: load_task_run_def joined_task_def result_simps bind_eq_Some_conv)

lemma create_task_run_steps:
  assumes "create_task_run env ids t q st = (Inr d, st')"
  obtains placement base img st1 db where
    "validate_task_request q = Inr ()" "ensure_placement_startable placement = Inr ()"
    "resolve_base_revision q placement = Inr base" "resolve_runtime_image q img = Inr img"
    "ensure_node_supports_task_runtime (ps_node_id placement) (co_db st1) = Inr img"
    "queue_task (run_task_command ids placement (task_spec t q base img) (se_now env))
       (new_task_row (task_spec t q base img) (ps_node_id placement) (si_command ids) (se_now env)) (co_db st1) = Inr db"
    "st' = dispatch_pending_commands (se_frame_id env) (se_now env) (ps_node_id placement) (st1\<lparr>co_db := db\<rparr>)"
  using assms
  by (fastforce simp: create_task_run_def Let_def result_simps resolve_runtime_image_def split: option.splits if_splits)

lemma base_revision_immutable:
  "resolve_base_revision q p = Inr base \<Longrightarrow> validate_immutable_revision base = Inr ()"
  by (auto simp: resolve_base_revision_def result_simps is_ok_def split: option.splits if_splits sum.splits)

lemma queued_task:
  assumes "queue_task c r db = Inr db'" "ce_command_id c = tr_command_id r"
  shows "find_task db' (tr_task_run_id r) = Some r"
    and "find_command db' (tr_command_id r) = Some (new_command_row CS_Recorded c)"
    and "db_task_runs db' = db_task_runs db @ [r]"
proof -
  obtain db1 where r: "record_command_on_connection c db = Inr db1" and i: "insert_task r db1 = Inr db'"
    using assms(1) by (auto simp: queue_task_def result_simps)
  have i': "db' = db1\<lparr>db_task_runs := db_task_runs db1 @ [r]\<rparr>" "find_task db1 (tr_task_run_id r) = None"
    using i by (auto simp: insert_task_def result_simps)
  show "find_task db' (tr_task_run_id r) = Some r" using i' by (simp add: select_by_append)
  show "find_command db' (tr_command_id r) = Some (new_command_row CS_Recorded c)"
    using i' record_command_row[OF r] assms(2) by simp
  show "db_task_runs db' = db_task_runs db @ [r]" using i' record_command_tasks[OF r] by simp
qed

text \<open>Dispatching changes the state of a command, never the command.\<close>

lemma dispatch_keeps_command:
  "map_option cm_command (find_command (co_db (dispatch_pending_commands fid now n st)) k) = map_option cm_command (find_command (co_db st) k)"
proof -
  have s: "map_option cm_command (find_command (co_db (dispatch_row_step fid now tx row st)) k)
      = map_option cm_command (find_command (co_db st) k)" for tx row st
    by (cases "find_command (co_db st) k") (auto simp: dispatch_row_step_db table_simps assign_command_state_def)
  have "map_option cm_command (find_command (co_db (fold (dispatch_row_step fid now tx) rows st)) k)
      = map_option cm_command (find_command (co_db st) k)" for tx rows
    by (induction rows arbitrary: st) (simp_all add: s)
  then show ?thesis by (simp add: dispatch_pending_commands_def Let_def split: option.splits)
qed

text \<open>What every queued run looks like, in the words of the worker that will execute it.\<close>

definition task_row_wf :: "task_row \<Rightarrow> bool" where
  "task_row_wf r \<longleftrightarrow> tr_state r = TS_Queued \<and> tr_cleanup_state r = TC_Pending \<and> tr_provider r = ''codex''
     \<and> validate_immutable_revision (tr_base_revision r) = Inr () \<and> tr_branch r = ''uprava/task/'' @ tr_task_run_id r
     \<and> trim (tr_prompt r) \<noteq> [] \<and> 60 \<le> tr_timeout_seconds r \<and> tr_timeout_seconds r \<le> tr_ttl_seconds r \<and> tr_ttl_seconds r \<le> 86400
     \<and> list_all (\<lambda>c. 0 < tk_timeout_seconds c \<and> tk_timeout_seconds c \<le> tr_timeout_seconds r) (tr_checks r)
     \<and> list_all (\<lambda>p. validate_relative_evidence_path p = Inr ()) (tr_artifact_paths r)
     \<and> tl_cpu (tr_resource_limits r) \<in> set ALLOWED_TASK_CPUS \<and> tl_memory (tr_resource_limits r) \<in> set ALLOWED_TASK_MEMORY"

lemma new_task_row_wf:
  assumes "validate_task_request q = Inr ()" "validate_immutable_revision base = Inr ()"
  shows "task_row_wf (new_task_row (task_spec t q base img) n c now)"
  using accepted_request[OF assms(1)] assms(2)
  by (simp add: task_row_wf_def new_task_row_def task_spec_def task_branch_def trimmed_limits_def list_all_iff)

lemma create_task_run_queues:
  assumes "create_task_run env ids t q st = (Inr d, st')"
  shows "\<exists>r row. find_task (co_db st') t = Some r \<and> task_row_wf r
     \<and> find_command (co_db st') (tr_command_id r) = Some row \<and> ce_kind (cm_command row) = CK_RunTask
     \<and> ce_target (cm_command row) = CT_TaskRun (tr_node_id r) (tr_project_placement_id r) t"
proof -
  obtain placement base img st1 db where v: "validate_task_request q = Inr ()" "resolve_base_revision q placement = Inr base"
    and u: "queue_task (run_task_command ids placement (task_spec t q base img) (se_now env))
       (new_task_row (task_spec t q base img) (ps_node_id placement) (si_command ids) (se_now env)) (co_db st1) = Inr db"
    and st: "st' = dispatch_pending_commands (se_frame_id env) (se_now env) (ps_node_id placement) (st1\<lparr>co_db := db\<rparr>)"
    using create_task_run_steps[OF assms] by metis
  let ?r = "new_task_row (task_spec t q base img) (ps_node_id placement) (si_command ids) (se_now env)"
  let ?c = "run_task_command ids placement (task_spec t q base img) (se_now env)"
  have k: "ce_command_id ?c = tr_command_id ?r" by (simp add: run_task_command_def task_command_def new_task_row_def)
  have r: "find_task (co_db st') t = Some ?r"
    using queued_task(1)[OF u k] by (simp add: st dispatch_keeps_tasks) (simp add: new_task_row_def task_spec_def)
  have "map_option cm_command (find_command (co_db st') (tr_command_id ?r)) = Some ?c"
    using queued_task(2)[OF u k] by (simp add: st dispatch_keeps_command) (simp add: new_command_row_def)
  then obtain row where "find_command (co_db st') (tr_command_id ?r) = Some row" "cm_command row = ?c" by blast
  moreover have "ce_kind ?c = CK_RunTask" "ce_target ?c = CT_TaskRun (tr_node_id ?r) (tr_project_placement_id ?r) t"
    by (simp_all add: run_task_command_def task_command_def new_task_row_def task_spec_def)
  ultimately show ?thesis using r new_task_row_wf[OF v(1) base_revision_immutable[OF v(2)]] by metis
qed

section \<open>Cancellation happens once\<close>

interpretation cancel_key: keyed_update tr_task_run_id "mark_cancelling c now" for c now
  by unfold_locales (simp add: mark_cancelling_def)

lemma record_cancellation_row:
  assumes "record_cancellation c t db = Inr db'" "find_task db t = Some r" "cancellable r"
  shows "find_task db' t = Some (mark_cancelling (ce_command_id c) (ce_issued_at c) r)"
    and "find_command db' (ce_command_id c) = Some (new_command_row CS_Recorded c)"
proof -
  obtain db1 where r: "record_command_on_connection c db = Inr db1"
    and d: "db' = db1\<lparr>db_task_runs := update_where (\<lambda>r. tr_task_run_id r = t \<and> cancellable r)
        (mark_cancelling (ce_command_id c) (ce_issued_at c)) (db_task_runs db1)\<rparr>"
    using assms(1) by (auto simp: record_cancellation_def Let_def result_simps split: if_splits)
  have "select_by tr_task_run_id t xs = Some r \<Longrightarrow> cancellable r \<Longrightarrow>
     select_by tr_task_run_id t (update_where (\<lambda>r. tr_task_run_id r = t \<and> cancellable r) (mark_cancelling x y) xs)
     = Some (mark_cancelling x y r)" for xs x y
    by (induction xs) (auto simp: cancel_key.key_assign split: if_splits)
  then show "find_task db' t = Some (mark_cancelling (ce_command_id c) (ce_issued_at c) r)"
    using assms(2,3) record_command_tasks[OF r] by (simp add: d)
  show "find_command db' (ce_command_id c) = Some (new_command_row CS_Recorded c)"
    using record_command_row[OF r] by (simp add: d)
qed

lemma cancel_task_run_row:
  assumes "cancel_task_run env ids t st = (Inr d, st')"
  shows "\<exists>r. find_task (co_db st) t = Some r \<and> cancellable r
     \<and> find_task (co_db st') t = Some (mark_cancelling (si_command ids) (se_now env) r)"
proof -
  obtain d0 db where l: "load_task_run t (co_db st) = Inr d0"
    and g: "\<not> is_terminal (tu_state (td_task d0))" "tu_state (td_task d0) \<noteq> TS_Cancelling"
    and r: "record_cancellation (cancel_task_command ids d0 t (se_now env)) t (co_db st) = Inr db"
    and s: "st' = dispatch_pending_commands (se_frame_id env) (se_now env) (tu_node_id (td_task d0)) (st\<lparr>co_db := db\<rparr>)"
    using assms by (auto simp: cancel_task_run_def result_simps)
  obtain row p where row: "find_task (co_db st) t = Some row" "td_task d0 = task_summary_from_row row p"
    using load_task_run_Inr[OF l] by blast
  then have "cancellable row" using g by (simp add: cancellable_def task_summary_from_row_def)
  moreover have "find_task (co_db st') t = Some (mark_cancelling (si_command ids) (se_now env) row)"
    using record_cancellation_row(1)[OF r row(1) \<open>cancellable row\<close>]
    by (simp add: s dispatch_keeps_tasks cancel_task_command_def task_command_def)
  ultimately show ?thesis using row(1) by blast
qed

lemma cancel_refused:
  assumes "find_task (co_db st) t = Some r" "\<not> cancellable r"
  shows "\<exists>e. cancel_task_run env ids t st = (Inl e, st)"
  using assms
  by (auto simp: cancel_task_run_def h_bind_def h_check_def load_task_run_def joined_task_def and_then_def ok_or_def
      ensure_def cancellable_def task_summary_from_row_def split: option.splits sum.splits)

end
