(* ===== verification/Workspace_Scenarios.thy ===== *)
theory Workspace_Scenarios
  imports Workspace_Roundtrip Placement_Snapshots Task_Runs Schedule_Scenarios
begin

text \<open>
  A small machine: one workspace below an allowed root, with a text file and a link that leads
  out of it, and the commands Core sends for that workspace.
\<close>

definition dir0 :: fs_entry where
  "dir0 = \<lparr>fe_kind = FK_Dir, fe_size = 0, fe_search = True, fe_read = True, fe_write = True, fe_readonly = False, fe_modified = None\<rparr>"

definition file0 :: "string \<Rightarrow> fs_entry" where
  "file0 s = dir0\<lparr>fe_kind := FK_File (as_bytes s), fe_search := False\<rparr>"

definition fs0 :: fs where
  "fs0 = \<lparr>fs_cwd = [], fs_tree = [([], dir0), ([''w''], dir0), ([''w'', ''n.md''], file0 ''hi''),
     ([''w'', ''l''], dir0\<lparr>fe_kind := FK_Link ''/k''\<rparr>), ([''k''], file0 ''key'')]\<rparr>"

definition workspace_command0 :: "command_kind \<Rightarrow> command_payload \<Rightarrow> command_envelope" where
  "workspace_command0 kind payload =
     command0\<lparr>ce_kind := kind, ce_target := CT_Placement ''a'' ''pa'', ce_payload := payload\<rparr>"

definition write_request0 :: workspace_file_write_request where
  "write_request0 = \<lparr>wfw_path = ''n.md'', wfw_content = ''new'', wfw_expected_content = Some ''hi''\<rparr>"

definition write_command0 :: command_envelope where
  "write_command0 = workspace_command0 CK_WriteWorkspaceFile (CP_WriteWorkspaceFile ''/w'' write_request0)"

definition read_command0 :: command_envelope where
  "read_command0 = workspace_command0 CK_ReadWorkspaceFile (CP_ReadWorkspaceFile ''/w'' ''n.md'')"

definition git_command0 :: command_envelope where
  "git_command0 = workspace_command0 CK_RunWorkspaceCommand (CP_RunWorkspaceCommand ''/w''
     \<lparr>wcr_command = ''git'', wcr_args = [''status''], wcr_intent = WI_Command, wcr_label = None, wcr_timeout_seconds = Some 500\<rparr>)"

definition quiet_child :: child where
  "quiet_child = \<lparr>ch_result = Exited (Some 0) True, ch_stdout = \<lparr>sr_chunks = [], sr_error = None\<rparr>,
     ch_stderr = \<lparr>sr_chunks = [], sr_error = None\<rparr>, ch_millis = 1, ch_started_at = 0, ch_completed_at = 1\<rparr>"

definition process_env0 :: process_env where
  "process_env0 = \<lparr>pe_lossy = map (\<lambda>b. char_of (unat b)), pe_child = (\<lambda>_ _ _ _. quiet_child), pe_now = 0\<rparr>"

definition task_request0 :: create_task_run_request where
  "task_request0 = \<lparr>ctr_project_placement_id = ''pa'', ctr_prompt = ''fix'', ctr_base_revision = Some (replicate 40 CHR ''a''),
     ctr_checks = [], ctr_artifact_paths = [''out/log''], ctr_timeout_seconds = 60, ctr_ttl_seconds = 60,
     ctr_resource_limits = \<lparr>tl_cpu = ''2'', tl_memory = ''4Gi''\<rparr>, ctr_runtime_image = None\<rparr>"

definition task_node0 :: core_state where
  "task_node0 = new_core (two_nodes\<lparr>db_nodes := [node_row0], db_capabilities := [\<lparr>cap_node_id = ''a'',
     cap_capability_key = TASK_RUNTIME_CAPABILITY, cap_value = CV_Extension ''x'' (JObj [(''available'', JBool True),
       (''provider'', JStr ''codex''), (''runtime_image'', JStr ''img'')]), cap_updated_at = 0\<rparr>],
     db_task_runs := [task0 ''tb'' ''pa'' ''a'']\<rparr>)"

lemma fs_ok_fs0: "fs_ok fs0"
  by (simp add: fs_ok_def fs0_def entry_at_def is_dir_def dir0_def)

lemmas fs0_defs = fs0_def dir0_def file0_def entry_at_def is_dir_def is_link_def is_file_def as_bytes_def utf8_char_def

lemma fs0_root [simp]: "canonicalize fs0 ''/w'' = Inr [''w'']" "stat fs0 [''w''] = Inr ([''w''], dir0)"
  by (simp_all add: canonicalize_def start_dir_def is_absolute_def stat_def stat_result_def fs0_defs)

lemma fs0_file [simp]:
  "lstat fs0 [''w'', ''n.md''] = Inr ([''w'', ''n.md''], file0 ''hi'')"
  "stat fs0 [''w'', ''n.md''] = Inr ([''w'', ''n.md''], file0 ''hi'')"
  "lstat fs0 [''w''] = Inr ([''w''], dir0)"
  "canonicalize_abs fs0 [''w'', ''n.md''] = Inr [''w'', ''n.md'']"
  by (simp_all add: lstat_def stat_def canonicalize_abs_def stat_result_def fs0_defs)

lemma fs0_link [simp]:
  "lstat fs0 [''w'', ''l''] = Inr ([''w'', ''l''], dir0\<lparr>fe_kind := FK_Link ''/k''\<rparr>)"
  "stat fs0 [''w'', ''l''] = Inr ([''k''], file0 ''key'')"
  by (simp_all add: lstat_def stat_def stat_result_def fs0_defs MAXSYMLINKS_def eval_nat_numeral is_absolute_def)

lemma entries0 [simp]:
  "is_file (file0 s)" "\<not> is_link (file0 s)" "\<not> is_dir (file0 s)" "entry_bytes (file0 s) = as_bytes s"
  "entry_len (file0 s) = length (as_bytes s)" "fe_read (file0 s)" "fe_write (file0 s)" "is_dir dir0" "\<not> is_link dir0"
  "entry_at fs0 [''w'', ''n.md''] = Some (file0 ''hi'')"
  by (simp_all add: is_file_def is_link_def is_dir_def entry_bytes_def entry_len_def file0_def dir0_def entry_at_def fs0_def)

lemma bytes0 [simp]: "as_bytes ''hi'' = [104, 105]" "as_bytes ''new'' = [110, 101, 119]" "as_bytes ''key'' = [107, 101, 121]"
  by (simp_all add: as_bytes_def utf8_char_def)

lemma workspace_root0 [simp]: "canonical_workspace_root fs0 [''/w''] ''/w'' = Inr [''w'']"
  by (simp add: canonical_workspace_root_def canonical_workspace_path_allowed_roots_def starts_with_path_def)

lemma paths0 [simp]: "trim ''/w'' = ''/w''" "trim ''n.md'' = ''n.md''" "safe_workspace_relative_path ''n.md'' = Inr [''n.md'']"
  "binary_extension [''n.md''] = False" "generated_or_ignored_status [''n.md''] = None"
  by code_simp+

lemma write_target0:
  "write_target [''/w''] write_command0 fs0 = Inr (write_request0, ''pa'', [''n.md''], [''w''])"
  by (simp add: write_target_def write_command0_def workspace_command0_def write_request_def and_then_def ensure_def ok_or_def
      workspace_command_placement_id_def workspace_command_path_def command_payload_str_def cp_workspace_path_def non_empty_def
      write_request0_def resolve_existing_workspace_path_def)
    (simp add: MAX_WORKSPACE_TEXT_BYTES_def)

lemma write0: "is_ok (fst (write_workspace_file [''/w''] 9 No_Fault write_command0 fs0))"
  by (simp add: write_workspace_file_def write_target0 open_workspace_write_target_def open_nofollow_def fs0_file
      validate_opened_write_target_def and_then_def ensure_def write_request0_def MAX_WORKSPACE_TEXT_BYTES_def
      write_opened_def Let_def store_bytes_def ok_or_def)

lemma write0_changes: "snd (write_workspace_file [''/w''] 9 No_Fault write_command0 fs0) \<noteq> fs0"
proof -
  have "entry_at (snd (write_workspace_file [''/w''] 9 No_Fault write_command0 fs0)) [''w'', ''n.md''] = Some ((file0 ''new'')\<lparr>fe_modified := Some 9\<rparr>)"
    by (simp add: write_workspace_file_def write_target0 open_workspace_write_target_def open_nofollow_def fs0_file
      validate_opened_write_target_def and_then_def ensure_def write_request0_def MAX_WORKSPACE_TEXT_BYTES_def
      write_opened_def Let_def store_bytes_def ok_or_def) (simp add: file0_def)
  then show ?thesis by (auto simp: file0_def dir0_def)
qed

lemma validated0: "ws_state (validate_command_workspace (\<lambda>_. None) [''/w''] 9 fs0 ''p'' ''/w'') = PS_Validated"
  by (simp add: validate_command_workspace_def workspace_path_allowed_def canonical_workspace_path_allowed_roots_def starts_with_path_def
      validate_workspace_def stat_text_def stat_result_def)
    (simp add: fs0_defs)

lemma read0: "map_sum id wf_content (build_workspace_file_response [''/w''] 9 read_command0 fs0) = Inr (Some (as_bytes ''hi''))"
  by (simp add: build_workspace_file_response_def read_command0_def workspace_command0_def and_then_def ok_or_def
      workspace_command_placement_id_def workspace_command_path_def command_payload_str_def cp_workspace_path_def cp_path_def non_empty_def
      resolve_existing_workspace_path_def file_response_at_def read_file_def
      starts_with_path_def MAX_WORKSPACE_TEXT_BYTES_def workspace_file_status_response_def)

lemma git_words0: "trim ''git'' = ''git''" "\<not> has_nul ''git''" "\<not> has_nul ''status''" "char_of (92 :: nat) \<notin> set ''git''"
  by code_simp+

lemma git0: "is_ok (run_workspace_command process_env0 [''/w''] git_command0 fs0)"
  using git_words0(4)
  by (simp add: run_workspace_command_def git_command0_def workspace_command0_def command_request_def and_then_def ensure_def ok_or_def
      validate_workspace_command_request_def workspace_command_placement_id_def workspace_command_path_def command_payload_str_def
      cp_workspace_path_def non_empty_def ALLOWED_WORKSPACE_COMMANDS_def MAX_WORKSPACE_COMMAND_ARGS_def MAX_WORKSPACE_COMMAND_ARG_CHARS_def
      git_words0(1-3))

lemma task_request0_ok: "validate_task_request task_request0 = Inr ()"
proof -
  have "validate_relative_evidence_path ''out/log'' = Inr ()"
    by (simp add: validate_relative_evidence_path_def Let_def components_def inner_component_def is_absolute_def trim_def is_whitespace_def
        MAX_TASK_PATH_CHARS_def ensure_def)
  moreover have "trim ''fix'' = ''fix''" "trim ''2'' = ''2''" "trim ''4Gi'' = ''4Gi''" by code_simp+
  ultimately show ?thesis
    by (simp add: validate_task_request_def task_request0_def and_then_def ensure_def MAX_TASK_PROMPT_CHARS_def MIN_TASK_TIMEOUT_SECONDS_def
        MAX_TASK_TIMEOUT_SECONDS_def MAX_TASK_CHECKS_def MAX_TASK_ARTIFACTS_def ALLOWED_TASK_CPUS_def ALLOWED_TASK_MEMORY_def)
qed

lemma h_check_ok: "c st = Inr x \<Longrightarrow> h_bind (h_check c) f st = f x st"
  by (simp add: h_bind_def h_check_def)

lemma create_task0: "is_ok (fst (create_task_run session_env0 ids0 ''t1'' task_request0 task_node0))"
  unfolding create_task_run_def h_check_ok[where c="\<lambda>_. validate_task_request task_request0", OF task_request0_ok] by code_simp

lemma cancel_task0: "is_ok (fst (cancel_task_run session_env0 ids0 ''tb'' task_node0))"
  by code_simp

end
