(* ===== verification/Tool_Values.thy ===== *)
theory Tool_Values
  imports Git_Status Mcp_Leases
begin

text \<open>
  The pure parts of tool execution (\<open>application/tooling.rs\<close>): the check of the arguments
  against the schema of a tool, the redaction of values at JSON pointers, and summaries within a
  limit. \<open>show_json\<close> stands for \<open>serde_json::to_string\<close>.
\<close>

definition TOOL_SUMMARY_MAX_BYTES :: nat where "TOOL_SUMMARY_MAX_BYTES = 2048"

section \<open>Arguments\<close>

definition json_as_object :: "json \<Rightarrow> (string \<times> json) list option" where
  "json_as_object v = (case v of JObj ms \<Rightarrow> Some ms | _ \<Rightarrow> None)"

definition json_as_array :: "json \<Rightarrow> json list option" where
  "json_as_array v = (case v of JArr vs \<Rightarrow> Some vs | _ \<Rightarrow> None)"

definition json_type_matches :: "string option \<Rightarrow> json \<Rightarrow> bool" where
  "json_type_matches expected v = (case expected of
     None \<Rightarrow> True
   | Some t \<Rightarrow>
      if t = ''string'' then (case v of JStr _ \<Rightarrow> True | _ \<Rightarrow> False)
      else if t = ''boolean'' then (case v of JBool _ \<Rightarrow> True | _ \<Rightarrow> False)
      else if t = ''number'' then (case v of JNum _ \<Rightarrow> True | _ \<Rightarrow> False)
      else if t = ''integer'' then (case v of JNum n \<Rightarrow> - (2 ^ 63) \<le> n \<and> n < 2 ^ 64 | _ \<Rightarrow> False)
      else if t = ''object'' then (case v of JObj _ \<Rightarrow> True | _ \<Rightarrow> False)
      else if t = ''array'' then (case v of JArr _ \<Rightarrow> True | _ \<Rightarrow> False)
      else if t = ''null'' then v = JNull
      else False)"

definition has_member :: "(string \<times> json) list \<Rightarrow> string \<Rightarrow> bool" where
  "has_member ms k \<longleftrightarrow> k \<in> fst ` set ms"

definition schema_required :: "json \<Rightarrow> string list" where
  "schema_required schema = (case Option.bind (json_get schema ''required'') json_as_array of
     Some vs \<Rightarrow> filter_map json_as_str vs | None \<Rightarrow> [])"

definition schema_properties :: "json \<Rightarrow> (string \<times> json) list option" where
  "schema_properties schema = Option.bind (json_get schema ''properties'') json_as_object"

definition property_type :: "(string \<times> json) list \<Rightarrow> string \<Rightarrow> string option option" where
  "property_type properties k = map_option (\<lambda>p. json_get_str p ''type'') (map_of properties k)"

text \<open>The error is the message the caller reads.\<close>

definition validate_arguments :: "json \<Rightarrow> json \<Rightarrow> string + unit" where
  "validate_arguments schema arguments =
     and_then (ok_or (json_as_object arguments) ''arguments must be an object'') (\<lambda>members.
     and_then (ok_or (json_as_object schema) ''tool schema must be an object'') (\<lambda>_.
     and_then (ensure (json_get_str schema ''type'' = Some ''object'') ''tool schema root must be an object'') (\<lambda>_.
     and_then (case List.find (\<lambda>k. \<not> has_member members k) (schema_required schema) of
         Some k \<Rightarrow> Inl (''missing required argument `'' @ k @ ''`'') | None \<Rightarrow> Inr ()) (\<lambda>_.
     and_then (if json_get_bool schema ''additionalProperties'' = Some False then
           (case List.find (\<lambda>k. case schema_properties schema of None \<Rightarrow> True | Some ps \<Rightarrow> \<not> has_member ps k) (map fst members) of
              Some k \<Rightarrow> Inl (''unknown argument `'' @ k @ ''`'') | None \<Rightarrow> Inr ())
         else Inr ()) (\<lambda>_.
     case schema_properties schema of None \<Rightarrow> Inr ()
     | Some ps \<Rightarrow> (case List.find (\<lambda>(k, v). case property_type ps k of None \<Rightarrow> False | Some t \<Rightarrow> \<not> json_type_matches t v) members of
         Some (k, _) \<Rightarrow> Inl (''argument `'' @ k @ ''` has the wrong JSON type'') | None \<Rightarrow> Inr ()))))))"

section \<open>Redaction\<close>

text \<open>JSON pointers, as \<open>Value::pointer_mut\<close> resolves them.\<close>

fun unescape :: "string \<Rightarrow> string" where
  "unescape [] = []"
| "unescape (c # cs) = (if c = CHR ''~'' then
     (case cs of d # ds \<Rightarrow> if d = CHR ''1'' then CHR ''/'' # unescape ds
        else if d = CHR ''0'' then CHR ''~'' # unescape ds else c # unescape cs
      | [] \<Rightarrow> [c])
     else c # unescape cs)"

definition pointer_tokens :: "string \<Rightarrow> string list option" where
  "pointer_tokens p = (if p = [] then Some [] else
     if is_absolute p then Some (map unescape (split_on CHR ''/'' (tl p))) else None)"

definition parse_index :: "string \<Rightarrow> nat option" where
  "parse_index s = (if s = [] \<or> \<not> list_all is_ascii_digit s \<or> (hd s = CHR ''0'' \<and> length s \<noteq> 1) \<or> decimal s \<ge> 2 ^ 64
     then None else Some (decimal s))"

fun set_member :: "string \<Rightarrow> (json \<Rightarrow> json) \<Rightarrow> (string \<times> json) list \<Rightarrow> (string \<times> json) list" where
  "set_member k f [] = []"
| "set_member k f ((n, v) # ms) = (if n = k then (n, f v) # ms else (n, v) # set_member k f ms)"

fun update_at :: "string list \<Rightarrow> json \<Rightarrow> json \<Rightarrow> json" where
  "update_at [] new v = new"
| "update_at (t # ts) new v = (case v of
     JObj ms \<Rightarrow> JObj (set_member t (update_at ts new) ms)
   | JArr vs \<Rightarrow> (case parse_index t of Some n \<Rightarrow> if n < length vs then JArr (vs[n := update_at ts new (vs ! n)]) else v | None \<Rightarrow> v)
   | _ \<Rightarrow> v)"

fun value_at :: "string list \<Rightarrow> json \<Rightarrow> json option" where
  "value_at [] v = Some v"
| "value_at (t # ts) v = (case v of
     JObj ms \<Rightarrow> Option.bind (map_of ms t) (value_at ts)
   | JArr vs \<Rightarrow> (case parse_index t of Some n \<Rightarrow> if n < length vs then value_at ts (vs ! n) else None | None \<Rightarrow> None)
   | _ \<Rightarrow> None)"

definition REDACTED :: json where
  "REDACTED = JStr ''[redacted]''"

text \<open>A pointer that leads nowhere leaves the value alone.\<close>

definition redact_pointer :: "string \<Rightarrow> json \<Rightarrow> json" where
  "redact_pointer p v = (case pointer_tokens p of None \<Rightarrow> v
     | Some ts \<Rightarrow> if value_at ts v = None then v else update_at ts REDACTED v)"

definition redact_json :: "json \<Rightarrow> string list \<Rightarrow> bool \<Rightarrow> json" where
  "redact_json v pointers redact_all = (if redact_all then REDACTED else fold redact_pointer pointers v)"

section \<open>Summaries\<close>

text \<open>
  The longest prefix of whole characters within a number of bytes: \<open>is_char_boundary\<close> holds
  exactly at the ends of such prefixes.
\<close>

fun prefix_within :: "nat \<Rightarrow> string \<Rightarrow> string" where
  "prefix_within n [] = []"
| "prefix_within n (c # cs) = (let w = utf8_len [c] in if w \<le> n then c # prefix_within (n - w) cs else [])"

definition bounded_json_summary :: "(json \<Rightarrow> string) \<Rightarrow> json \<Rightarrow> nat \<Rightarrow> string" where
  "bounded_json_summary show_json v max_bytes =
     (let serialized = show_json v in
      if utf8_len serialized \<le> max_bytes then serialized
      else prefix_within (min (max_bytes - 3) (utf8_len serialized)) serialized @ ''...'')"

definition redact_and_summarize :: "(json \<Rightarrow> string) \<Rightarrow> json \<Rightarrow> string list \<Rightarrow> bool \<Rightarrow> nat \<Rightarrow> string" where
  "redact_and_summarize show_json v pointers redact_all max_bytes =
     bounded_json_summary show_json (redact_json v pointers redact_all) (max 16 (min TOOL_SUMMARY_MAX_BYTES max_bytes))"

section \<open>Words of a text\<close>

text \<open>\<open>char::to_lowercase\<close> and \<open>char::is_alphanumeric\<close> on the characters below 256.\<close>

definition to_lowercase :: "string \<Rightarrow> string" where
  "to_lowercase s = map (\<lambda>c. let n = of_char c :: nat in
     if 65 \<le> n \<and> n \<le> 90 \<or> 192 \<le> n \<and> n \<le> 222 \<and> n \<noteq> 215 then char_of (n + 32) else c) s"

definition is_alphanumeric :: "char \<Rightarrow> bool" where
  "is_alphanumeric c \<longleftrightarrow> (let n = of_char c :: nat in
     48 \<le> n \<and> n \<le> 57 \<or> 65 \<le> n \<and> n \<le> 90 \<or> 97 \<le> n \<and> n \<le> 122
     \<or> n \<in> {170, 178, 179, 181, 185, 186, 188, 189, 190} \<or> 192 \<le> n \<and> n \<noteq> 215 \<and> n \<noteq> 247)"

fun split_words :: "string \<Rightarrow> string \<Rightarrow> string list" where
  "split_words w [] = [w]"
| "split_words w (c # cs) = (if is_alphanumeric c then split_words (w @ [c]) cs else w # split_words [] cs)"

definition tokenize :: "string \<Rightarrow> string list" where
  "tokenize v = map to_lowercase (filter (\<lambda>w. w \<noteq> []) (split_words [] v))"

section \<open>Accepted arguments\<close>

lemma find_None_iff_all: "List.find p xs = None \<longleftrightarrow> (\<forall>x\<in>set xs. \<not> p x)"
  by (induction xs) auto

lemma arguments_conform:
  assumes "validate_arguments schema arguments = Inr ()"
  shows "\<exists>ms. arguments = JObj ms \<and> (\<forall>k\<in>set (schema_required schema). has_member ms k)
    \<and> (json_get_bool schema ''additionalProperties'' = Some False \<longrightarrow>
        (\<exists>ps. schema_properties schema = Some ps \<and> (\<forall>(k, v)\<in>set ms. has_member ps k)) \<or> ms = [])
    \<and> (\<forall>ps t k v. schema_properties schema = Some ps \<longrightarrow> (k, v) \<in> set ms \<longrightarrow> property_type ps k = Some t \<longrightarrow> json_type_matches t v)"
proof -
  obtain ms where ms: "arguments = JObj ms"
    using assms by (cases arguments) (auto simp: validate_arguments_def json_as_object_def result_simps)
  note v = assms[unfolded validate_arguments_def ms result_simps json_as_object_def, simplified]
  have req: "\<forall>k\<in>set (schema_required schema). has_member ms k"
    using v by (cases "List.find (\<lambda>k. \<not> has_member ms k) (schema_required schema)") (auto simp: find_None_iff_all result_simps)
  have "json_get_bool schema ''additionalProperties'' = Some False \<longrightarrow>
        (\<exists>ps. schema_properties schema = Some ps \<and> (\<forall>(k, v)\<in>set ms. has_member ps k)) \<or> ms = []"
    using v by (cases "schema_properties schema"; cases ms) (auto simp: find_None_iff_all result_simps split: option.splits if_splits)
  moreover have "\<forall>ps t k v. schema_properties schema = Some ps \<longrightarrow> (k, v) \<in> set ms \<longrightarrow> property_type ps k = Some t \<longrightarrow> json_type_matches t v"
    using v by (auto simp: find_None_iff_all result_simps split: option.splits if_splits)
  ultimately show ?thesis using ms req by blast
qed

section \<open>Redacted values\<close>

lemma map_of_set_member:
  "map_of (set_member k f ms) n = (if n = k then map_option f (map_of ms k) else map_of ms n)"
  by (induction ms) auto

lemma value_at_update: "value_at ts v \<noteq> None \<Longrightarrow> value_at ts (update_at ts new v) = Some new"
proof (induction ts arbitrary: v)
  case (Cons t ts)
  then show ?case
    by (cases v) (auto simp: map_of_set_member bind_eq_Some_conv split: option.splits if_splits)
qed simp

text \<open>No pointer of the list leads to anything but the redaction mark.\<close>

lemma redact_pointer_hides:
  "pointer_tokens p = Some ts \<Longrightarrow> value_at ts (redact_pointer p v) \<in> {None, Some REDACTED}"
  by (simp add: redact_pointer_def value_at_update)

lemma value_at_REDACTED: "value_at ts REDACTED = (if ts = [] then Some REDACTED else None)"
  by (cases ts) (simp_all add: REDACTED_def)

lemma update_keeps_hidden:
  "value_at ts v \<in> {None, Some REDACTED} \<Longrightarrow> value_at ts (update_at us REDACTED v) \<in> {None, Some REDACTED}"
proof (induction us arbitrary: ts v)
  case Nil
  then show ?case by (simp add: value_at_REDACTED)
next
  case (Cons u us)
  show ?case
  proof (cases ts)
    case Nil
    then have "v = REDACTED" using Cons.prems by simp
    then show ?thesis using Nil by (simp add: REDACTED_def)
  next
    case (Cons t rest)
    show ?thesis
    proof (cases v)
      case (JArr vs)
      then show ?thesis using Cons Cons.prems \<open>ts = t # rest\<close> Cons.IH[of rest]
        by (auto simp: nth_list_update split: option.splits if_splits)
    next
      case (JObj ms)
      then show ?thesis using Cons.prems \<open>ts = t # rest\<close> Cons.IH[of rest]
        by (cases "map_of ms u"; cases "t = u"; cases "map_of ms t") (auto simp: map_of_set_member insert_iff)
    qed (use Cons.prems \<open>ts = t # rest\<close> in simp_all)
  qed
qed

lemma redact_pointer_keeps_hidden:
  "value_at ts v \<in> {None, Some REDACTED} \<Longrightarrow> value_at ts (redact_pointer p v) \<in> {None, Some REDACTED}"
  using update_keeps_hidden by (simp add: redact_pointer_def split: option.split)

lemma fold_redact_keeps_hidden:
  "value_at ts v \<in> {None, Some REDACTED} \<Longrightarrow> value_at ts (fold redact_pointer ps v) \<in> {None, Some REDACTED}"
  by (induction ps arbitrary: v) (simp_all only: fold.simps comp_apply id_apply redact_pointer_keeps_hidden)

lemma redact_json_hides:
  assumes "p \<in> set pointers" "pointer_tokens p = Some ts"
  shows "value_at ts (redact_json v pointers redact_all) \<in> {None, Some REDACTED}"
proof (cases redact_all)
  case True
  then show ?thesis by (simp add: redact_json_def value_at_REDACTED)
next
  case False
  obtain xs ys where "pointers = xs @ p # ys" using assms(1) by (meson split_list)
  then show ?thesis using False redact_pointer_hides[OF assms(2)]
    by (simp only: redact_json_def if_False fold_append fold.simps comp_apply id_apply fold_redact_keeps_hidden)
qed

section \<open>The length of a summary\<close>

lemma utf8_len_Cons: "utf8_len (c # cs) = utf8_len [c] + utf8_len cs"
  by (simp add: utf8_len_def)

lemma prefix_within_len: "utf8_len (prefix_within n s) \<le> n"
proof (induction s arbitrary: n)
  case (Cons c cs)
  have "utf8_len (c # prefix_within (n - utf8_len [c]) cs) \<le> utf8_len [c] + (n - utf8_len [c])"
    using Cons.IH[of "n - utf8_len [c]"] utf8_len_Cons[of c "prefix_within (n - utf8_len [c]) cs"] by linarith
  then show ?case by (cases "utf8_len [c] \<le> n") (simp_all add: Let_def utf8_len_def[of "[]"])
qed (simp add: utf8_len_def)

lemma prefix_within_prefix: "\<exists>zs. s = prefix_within n s @ zs"
  by (induction n s rule: prefix_within.induct) (auto simp: Let_def)

lemma utf8_len_append: "utf8_len (a @ b) = utf8_len a + utf8_len b"
  by (simp add: utf8_len_def)

lemma summary_bounded:
  assumes "3 \<le> max_bytes"
  shows "utf8_len (bounded_json_summary show_json v max_bytes) \<le> max_bytes"
proof -
  have "utf8_len ''...'' = 3" by (simp add: utf8_len_def)
  moreover have "utf8_len (prefix_within (max_bytes - 3) (show_json v)) + 3 \<le> max_bytes"
    using assms prefix_within_len[of "max_bytes - 3" "show_json v"] by linarith
  ultimately show ?thesis by (simp add: bounded_json_summary_def Let_def utf8_len_append)
qed

lemma redacted_summary_bounded:
  "utf8_len (redact_and_summarize show_json v pointers redact_all max_bytes) \<le> max 16 (min 2048 max_bytes)"
  using summary_bounded[of "max 16 (min TOOL_SUMMARY_MAX_BYTES max_bytes)"]
  by (simp add: redact_and_summarize_def TOOL_SUMMARY_MAX_BYTES_def)

end
