(* ===== verification/Tool_Registry.thy ===== *)
theory Tool_Registry
  imports Tool_Values Admission
begin

text \<open>
  The tool registry of Core (\<open>application/tooling.rs\<close>, types of \<open>uprava-protocol/src/tooling.rs\<close>):
  definitions and their versions, the availability of a tool in a scope, tool calls with their
  events, external integrations and the dependencies Nodes run for them.

  The tables hold the values their JSON columns are rendered from. \<open>tv_show\<close> is
  \<open>serde_json::to_string\<close>, \<open>tv_sha256\<close> the hexadecimal digest, \<open>tv_timestamp\<close> the text of a
  time, and \<open>tv_native\<close> what a native tool reads in the other modules, rendered as JSON;
  \<open>tv_proposal\<close> adds the session scope to the arguments of a UI proposal and decodes them. What
  Core does while a call waits for its Node, and what it gets back, is \<open>tv_wait\<close>.
\<close>

section \<open>Types\<close>

datatype (plugins only: code size) tool_source_kind = TSK_UpravaNative | TSK_ExternalMcp | TSK_Plugin

datatype (plugins only: code size) tool_execution_kind = TEK_CoreNative | TEK_NodeNative | TEK_ToolhiveMcp | TEK_ExternalProvider
  | TEK_Hybrid

datatype (plugins only: code size) tool_risk_level = TRL_ReadOnly | TRL_WorkspaceWrite | TRL_ExternalRead | TRL_ExternalWrite
  | TRL_CredentialedAction | TRL_Destructive | TRL_PrivilegedLocal | TRL_NetworkBroad

datatype (plugins only: code size) tool_definition_state = TDS_Active | TDS_Deprecated | TDS_Disabled

datatype (plugins only: code size) policy_decision = PD_Allow | PD_Deny | PD_RequireApproval

datatype (plugins only: code size) tool_call_state = TCS_Requested | TCS_Authorized | TCS_ApprovalRequired | TCS_Started
  | TCS_Completed | TCS_Failed | TCS_Denied | TCS_Cancelled | TCS_TimedOut

fun tool_call_terminal :: "tool_call_state \<Rightarrow> bool" where
  "tool_call_terminal s = (s \<in> {TCS_Completed, TCS_Failed, TCS_Denied, TCS_Cancelled, TCS_TimedOut})"

datatype (plugins only: code size) tool_availability_state = TAS_Available | TAS_Unavailable | TAS_Degraded | TAS_ApprovalRequired

datatype (plugins only: code size) tool_unavailable_reason = TUR_NodeOffline | TUR_CapabilityMissing | TUR_DependencyMissing
  | TUR_DependencyUnhealthy | TUR_NotAuthenticated | TUR_PermissionDenied | TUR_PolicyBlocked | TUR_ProjectNotEnabled
  | TUR_SessionNotEnabled | TUR_SchemaChanged | TUR_BackendUnreachable | TUR_ToolhiveMissing

datatype (plugins only: code size) integration_auth_state = IAS_Disconnected | IAS_Connecting | IAS_Connected | IAS_Expired
  | IAS_Error

datatype (plugins only: code size) mcp_dependency_actual_state = MDS_ToolhiveMissing | MDS_MissingAuth | MDS_Installing
  | MDS_Starting | MDS_Running | MDS_Degraded | MDS_Failed | MDS_Stopped

record tool_redaction_policy =
  rp_argument_json_pointers :: "string list"
  rp_result_json_pointers :: "string list"
  rp_redact_all_arguments :: bool
  rp_redact_all_result :: bool
  rp_max_summary_bytes :: nat

record tool_definition =
  td_tool_id :: id
  td_source_id :: id
  td_source_kind :: tool_source_kind
  td_source_tool_name :: string
  td_version :: int
  td_display_name :: string
  td_short_description :: string
  td_documentation_url :: "string option"
  td_input_schema :: json
  td_output_schema :: "json option"
  td_schema_hash :: string
  td_risk_level :: tool_risk_level
  td_required_permissions :: "string list"
  td_execution_kind :: tool_execution_kind
  td_approval_policy :: policy_decision
  td_redaction :: tool_redaction_policy
  td_state :: tool_definition_state
  td_created_at :: time
  td_updated_at :: time

record tool_scope =
  tsc_actor_ref :: actor_ref
  tsc_node_id :: "id option"
  tsc_project_id :: "id option"
  tsc_project_placement_id :: "id option"
  tsc_session_thread_id :: "id option"

record tool_availability =
  ta_tool_id :: id
  ta_scope :: tool_scope
  ta_state :: tool_availability_state
  ta_reason :: "tool_unavailable_reason option"
  ta_backend_ref :: "string option"
  ta_dependency_instance_id :: "id option"
  ta_schema_hash :: string
  ta_policy_version :: string
  ta_observed_at :: time

record tool_execution_error =
  tx_code :: tool_execution_error_code
  tx_message :: string
  tx_retryable :: bool
  tx_redacted_details :: json

record tool_result_envelope =
  tre_content :: json
  tre_summary :: "string option"
  tre_truncated :: bool
  tre_original_size_bytes :: "nat option"
  tre_artifact_refs :: "uprava_ref list"

record execute_tool_request =
  etr_scope :: tool_scope
  etr_tool_id :: id
  etr_arguments :: json

record execute_tool_response =
  eto_tool_call_id :: id
  eto_state :: tool_call_state
  eto_result :: "tool_result_envelope option"
  eto_error :: "tool_execution_error option"

record integration_connection_summary =
  ic_integration_id :: id
  ic_source_id :: id
  ic_provider :: string
  ic_display_name :: string
  ic_desired_state :: integration_desired_state
  ic_auth_state :: integration_auth_state
  ic_node_id :: "id option"
  ic_authenticated_actor_label :: "string option"
  ic_connected_at :: "time option"
  ic_updated_at :: time
  ic_error_code :: "string option"

record mcp_dependency_status =
  ds_dependency_instance_id :: id
  ds_integration_id :: id
  ds_node_id :: id
  ds_desired_state :: integration_desired_state
  ds_actual_state :: mcp_dependency_actual_state
  ds_runtime_name :: string
  ds_runtime_version :: "string option"
  ds_upstream_identity :: "string option"
  ds_schema_set_hash :: "string option"
  ds_error_code :: "string option"
  ds_observed_at :: time

datatype (plugins only: code size) tooling_event_payload = TEP_DependencyActualStateReported mcp_dependency_status
  | TEP_ToolDefinitionsDiscovered id "tool_definition list" string | TEP_ToolCallStarted id time
  | TEP_ToolCallCompleted id tool_result_envelope time | TEP_ToolCallFailed id tool_execution_error time
  | TEP_ToolCallDenied id tool_execution_error time | TEP_ToolAvailabilityChanged tool_availability

record tooling_event =
  tev_contract_version :: "16 word"
  tev_payload :: tooling_event_payload

record external_tool_command_result =
  xr_status :: "mcp_dependency_status option"
  xr_definitions :: "tool_definition list"
  xr_event :: "tooling_event option"
  xr_authorization_url :: "string option"
  xr_authorization_expires_at :: "time option"

section \<open>Constants\<close>

definition TOOLING_CONTRACT_VERSION_V1 :: "16 word" where "TOOLING_CONTRACT_VERSION_V1 = 1"
definition TOOL_RESULT_MAX_BYTES :: nat where "TOOL_RESULT_MAX_BYTES = 1048576"
definition NATIVE_SOURCE_ID :: id where "NATIVE_SOURCE_ID = ''uprava-native''"
definition MOCK_SOURCE_ID :: id where "MOCK_SOURCE_ID = ''mock-external''"
definition LINEAR_SOURCE_ID :: id where "LINEAR_SOURCE_ID = ''linear-remote-mcp''"
definition LINEAR_INTEGRATION_ID :: id where "LINEAR_INTEGRATION_ID = ''integration-linear''"
definition LINEAR_UPSTREAM_URL :: string where "LINEAR_UPSTREAM_URL = ''https://mcp.linear.app/mcp''"
definition LINEAR_WORKLOAD_NAME :: string where "LINEAR_WORKLOAD_NAME = ''uprava-linear''"
definition LINEAR_TOOL_NAMESPACE :: string where "LINEAR_TOOL_NAMESPACE = ''linear''"
definition TOOL_POLICY_VERSION :: string where "TOOL_POLICY_VERSION = ''uprava-tool-policy-v1''"
definition EXTERNAL_TOOL_TIMEOUT :: int where "EXTERNAL_TOOL_TIMEOUT = 35 * 1000000000"

section \<open>Tables\<close>

record tool_source_row =
  sw_source_id :: id
  sw_source_kind :: tool_source_kind
  sw_display_name :: string
  sw_enabled :: bool
  sw_updated_at :: time

record definition_row =
  dr_definition :: tool_definition
  dr_search_document :: string

record connection_row =
  cr_connection :: integration_connection_summary
  cr_credential_generation :: int

record dependency_instance_row =
  mr_dependency_instance_id :: id
  mr_integration_id :: id
  mr_node_id :: id
  mr_desired_state :: integration_desired_state
  mr_actual_state :: mcp_dependency_actual_state
  mr_status :: mcp_dependency_status
  mr_updated_at :: time

record tool_call_row =
  tl_tool_call_id :: id
  tl_tool_id :: id
  tl_schema_hash :: string
  tl_scope :: tool_scope
  tl_source_kind :: tool_source_kind
  tl_state :: tool_call_state
  tl_policy_decision :: policy_decision
  tl_policy_version :: string
  tl_route :: string
  tl_correlation_id :: id
  tl_command_id :: "id option"
  tl_integration_id :: "id option"
  tl_dependency_instance_id :: "id option"
  tl_argument_hash :: "string option"
  tl_result_hash :: "string option"
  tl_result_size_bytes :: "nat option"
  tl_redacted_arguments_summary :: "string option"
  tl_redacted_result_summary :: "string option"
  tl_trace_refs :: "uprava_ref list"
  tl_result_refs :: "uprava_ref list"
  tl_error :: "tool_execution_error option"
  tl_requested_at :: time
  tl_started_at :: "time option"
  tl_completed_at :: "time option"

record tool_call_event_row =
  te_tool_call_id :: id
  te_sequence :: int
  te_state :: tool_call_state
  te_event :: json
  te_happened_at :: time

record tool_snapshot_row =
  tn_session_thread_id :: id
  tn_tool_id :: id
  tn_schema_hash :: string
  tn_definition_version :: int
  tn_captured_at :: time

record tool_state =
  ts_core :: core_state
  ts_sources :: "tool_source_row list"
  ts_definitions :: "definition_row list"
  ts_connections :: "connection_row list"
  ts_dependencies :: "dependency_instance_row list"
  ts_calls :: "tool_call_row list"
  ts_call_events :: "tool_call_event_row list"
  ts_snapshots :: "tool_snapshot_row list"

abbreviation ts_db :: "tool_state \<Rightarrow> core_db" where
  "ts_db ts \<equiv> co_db (ts_core ts)"

abbreviation definition_id :: "definition_row \<Rightarrow> id" where
  "definition_id r \<equiv> td_tool_id (dr_definition r)"

abbreviation connection_id :: "connection_row \<Rightarrow> id" where
  "connection_id r \<equiv> ic_integration_id (cr_connection r)"

abbreviation find_tool_call :: "tool_state \<Rightarrow> id \<Rightarrow> tool_call_row option" where
  "find_tool_call ts c \<equiv> select_by tl_tool_call_id c (ts_calls ts)"

record notice =
  no_status :: command_state
  no_payload :: json

record tool_env =
  tv_cfg :: core_config
  tv_now :: time
  tv_call_id :: id
  tv_correlation_id :: id
  tv_command_id :: id
  tv_cancel_id :: id
  tv_frame_id :: "id \<Rightarrow> string"
  tv_show :: "json \<Rightarrow> string"
  tv_sha256 :: "string \<Rightarrow> string"
  tv_result_text :: "tool_result_envelope \<Rightarrow> string"
  tv_scope_json :: "tool_scope \<Rightarrow> json"
  tv_timestamp :: "time \<Rightarrow> string"
  tv_error_text :: "app_error \<Rightarrow> string"
  tv_native :: "string \<Rightarrow> tool_scope \<Rightarrow> json \<Rightarrow> (tool_state, json) stateful"
  tv_proposal :: "id \<Rightarrow> (string \<times> json) list \<Rightarrow> string + json"
  tv_wait :: "id \<Rightarrow> (tool_state, notice) stateful"
  tv_decode :: "json \<Rightarrow> external_tool_command_result option"

section \<open>Definitions\<close>

definition upsert_by :: "('r \<Rightarrow> 'k) \<Rightarrow> 'r \<Rightarrow> ('r \<Rightarrow> 'r) \<Rightarrow> 'r list \<Rightarrow> 'r list" where
  "upsert_by key r upd t = (case select_by key (key r) t of None \<Rightarrow> t @ [r]
     | Some _ \<Rightarrow> update_where (\<lambda>x. key x = key r) upd t)"

definition normalize_search_document :: "tool_definition \<Rightarrow> string" where
  "normalize_search_document d = to_lowercase (td_tool_id d @ '' '' @ td_display_name d @ '' '' @ td_short_description d
     @ '' '' @ td_source_tool_name d)"

text \<open>The version that is stored: it grows with the schema hash only.\<close>

definition upsert_tool_definition :: "time \<Rightarrow> tool_definition \<Rightarrow> definition_row list \<Rightarrow> app_error + definition_row list" where
  "upsert_tool_definition now desired t =
     (let (version, created_at) = (case select_by definition_id (td_tool_id desired) t of
            Some r \<Rightarrow> let d = dr_definition r in
              if td_schema_hash d = td_schema_hash desired then (max 1 (td_version d), td_created_at d)
              else (max 1 (td_version d + 1), td_created_at d)
          | None \<Rightarrow> (1, now));
          d = desired\<lparr>td_version := version, td_created_at := created_at, td_updated_at := now\<rparr>;
          r = \<lparr>dr_definition = d, dr_search_document = normalize_search_document d\<rparr>
      in and_then (ensure (version < 2 ^ 63) (Internal ''tool version exceeds SQLite range'')) (\<lambda>_.
         and_then (ensure (\<not> list_ex (\<lambda>x. definition_id x \<noteq> td_tool_id d \<and> td_source_id (dr_definition x) = td_source_id d
              \<and> td_source_tool_name (dr_definition x) = td_source_tool_name d) t) Database) (\<lambda>_.
         Inr (upsert_by definition_id r (\<lambda>_. r) t))))"

definition upsert_source :: "time \<Rightarrow> id \<Rightarrow> tool_source_kind \<Rightarrow> string \<Rightarrow> tool_source_row list \<Rightarrow> tool_source_row list" where
  "upsert_source now source_id source_kind display_name t =
     (let r = \<lparr>sw_source_id = source_id, sw_source_kind = source_kind, sw_display_name = display_name, sw_enabled = True, sw_updated_at = now\<rparr>
      in upsert_by sw_source_id r (\<lambda>_. r) t)"

definition register_tool_definitions ::
  "time \<Rightarrow> id \<Rightarrow> tool_source_kind \<Rightarrow> string \<Rightarrow> tool_definition list \<Rightarrow> tool_state \<Rightarrow> app_error + tool_state" where
  "register_tool_definitions now source_id source_kind source_display_name definitions ts =
     (let sources = upsert_source now source_id source_kind source_display_name (ts_sources ts) in
      and_then (try_fold (\<lambda>d t. and_then (ensure (td_source_id d \<in> sw_source_id ` set sources) Database)
          (\<lambda>_. upsert_tool_definition now d t)) definitions (ts_definitions ts)) (\<lambda>t.
      Inr (ts\<lparr>ts_sources := sources, ts_definitions := t\<rparr>)))"

definition load_active_tool_definitions :: "tool_state \<Rightarrow> tool_definition list" where
  "load_active_tool_definitions ts =
     map dr_definition (sort_key definition_id (filter (\<lambda>r. td_state (dr_definition r) = TDS_Active) (ts_definitions ts)))"

definition load_tool_definition :: "id \<Rightarrow> tool_state \<Rightarrow> app_error + tool_definition" where
  "load_tool_definition tool_id ts = ok_or (case select_by definition_id tool_id (ts_definitions ts) of
       Some r \<Rightarrow> if td_state (dr_definition r) = TDS_Active then Some (dr_definition r) else None | None \<Rightarrow> None)
     (NotFound ''tool.not_found'')"

section \<open>Scopes and availability\<close>

datatype (plugins only: code size) scope_validation_error = SV_SessionInactive | SV_Mismatch

definition validate_tool_scope :: "tool_scope \<Rightarrow> core_db \<Rightarrow> scope_validation_error + scoped_identity" where
  "validate_tool_scope scope db =
     and_then (ok_or (tsc_session_thread_id scope) SV_Mismatch) (\<lambda>session_id.
     and_then (map_sum (\<lambda>_. SV_Mismatch) id (load_scoped_identity_for_session session_id db)) (\<lambda>identity.
     and_then (ensure (sy_session_state identity \<noteq> SS_Stopped) SV_SessionInactive) (\<lambda>_.
     and_then (ensure (\<not> (tsc_node_id scope \<noteq> Some (sy_node_id identity)
         \<or> tsc_project_placement_id scope \<noteq> Some (sy_placement_id identity) \<or> tsc_project_id scope \<noteq> sy_project_id identity))
       SV_Mismatch) (\<lambda>_. Inr identity))))"

definition policy_decision_of :: "tool_definition \<Rightarrow> tool_scope \<Rightarrow> policy_decision" where
  "policy_decision_of d scope = (if \<not> tool_is_visible_to_actor (tsc_actor_ref scope) then PD_Deny else td_approval_policy d)"

text \<open>The enabled connection of a source with its dependency on a Node, the latest first.\<close>

definition dependency_route :: "id \<Rightarrow> id \<Rightarrow> tool_state \<Rightarrow> (connection_row \<times> dependency_instance_row) option" where
  "dependency_route source_id node_id ts =
     (case sort_key (\<lambda>(c, m). - ic_updated_at (cr_connection c))
        (filter (\<lambda>(c, m). mr_integration_id m = connection_id c \<and> ic_source_id (cr_connection c) = source_id
            \<and> mr_node_id m = node_id \<and> ic_desired_state (cr_connection c) = ID_Enabled)
          (List.product (ts_connections ts) (ts_dependencies ts))) of
        [] \<Rightarrow> None | r # _ \<Rightarrow> Some r)"

definition dependency_availability ::
  "(connection_row \<times> dependency_instance_row) option \<Rightarrow> tool_availability_state \<times> tool_unavailable_reason option \<times> id option" where
  "dependency_availability r = (case r of
     None \<Rightarrow> (TAS_Unavailable, Some TUR_DependencyMissing, None)
   | Some (c, m) \<Rightarrow>
      (let dep = Some (mr_dependency_instance_id m) in
       if ic_auth_state (cr_connection c) \<noteq> IAS_Connected then (TAS_Unavailable, Some TUR_NotAuthenticated, dep)
       else (case mr_actual_state m of
           MDS_Running \<Rightarrow> (TAS_Available, None, dep)
         | MDS_ToolhiveMissing \<Rightarrow> (TAS_Unavailable, Some TUR_ToolhiveMissing, dep)
         | MDS_Degraded \<Rightarrow> (TAS_Degraded, Some TUR_DependencyUnhealthy, dep)
         | _ \<Rightarrow> (TAS_Unavailable, Some TUR_DependencyUnhealthy, dep))))"

definition toolhive_availability ::
  "tool_env \<Rightarrow> tool_definition \<Rightarrow> tool_scope \<Rightarrow> tool_state
   \<Rightarrow> app_error + tool_availability_state \<times> tool_unavailable_reason option \<times> id option" where
  "toolhive_availability env d scope ts = (case tsc_node_id scope of
     None \<Rightarrow> Inr (TAS_Unavailable, Some TUR_DependencyMissing, None)
   | Some node_id \<Rightarrow>
      and_then (effective_node_presence (tv_cfg env) node_id (tv_now env) (ts_db ts)) (\<lambda>presence.
      Inr (if presence = NP_Offline \<or> presence = NP_Revoked then (TAS_Unavailable, Some TUR_NodeOffline, None)
        else dependency_availability (dependency_route (td_source_id d) node_id ts))))"

definition effective_tool_availability ::
  "tool_env \<Rightarrow> tool_definition \<Rightarrow> tool_scope \<Rightarrow> tool_state \<Rightarrow> app_error + tool_availability" where
  "effective_tool_availability env d scope ts =
     and_then
       (if td_state d \<noteq> TDS_Active then Inr (TAS_Unavailable, Some TUR_PolicyBlocked, None)
        else if \<not> tool_is_visible_to_actor (tsc_actor_ref scope) then Inr (TAS_Unavailable, Some TUR_PermissionDenied, None)
        else (case validate_tool_scope scope (ts_db ts) of
            Inl e \<Rightarrow> Inr (TAS_Unavailable, Some (if e = SV_SessionInactive then TUR_SessionNotEnabled else TUR_PolicyBlocked), None)
          | Inr _ \<Rightarrow>
              if td_approval_policy d = PD_RequireApproval then Inr (TAS_ApprovalRequired, None, None)
              else if td_execution_kind d = TEK_ToolhiveMcp then toolhive_availability env d scope ts
              else Inr (TAS_Available, None, None)))
       (\<lambda>(availability_state, reason, dependency).
     let checked = (td_state d = TDS_Active \<and> tool_is_visible_to_actor (tsc_actor_ref scope)
           \<and> is_ok (validate_tool_scope scope (ts_db ts)) \<and> td_approval_policy d \<noteq> PD_RequireApproval);
         backend = (if checked \<and> td_execution_kind d = TEK_ToolhiveMcp then ''node-toolhive''
           else if td_execution_kind d = TEK_CoreNative then ''core-native''
           else if td_execution_kind d = TEK_ExternalProvider \<and> td_source_id d = MOCK_SOURCE_ID then ''mock-external''
           else ''unavailable'')
     in Inr \<lparr>ta_tool_id = td_tool_id d, ta_scope = scope, ta_state = availability_state, ta_reason = reason,
          ta_backend_ref = Some backend, ta_dependency_instance_id = dependency, ta_schema_hash = td_schema_hash d,
          ta_policy_version = TOOL_POLICY_VERSION, ta_observed_at = tv_now env\<rparr>)"

definition list_tool_availability :: "tool_env \<Rightarrow> tool_scope \<Rightarrow> tool_state \<Rightarrow> app_error + tool_availability list" where
  "list_tool_availability env scope ts =
     try_fold (\<lambda>d acc. and_then (effective_tool_availability env d scope ts) (\<lambda>a. Inr (acc @ [a])))
       (load_active_tool_definitions ts) []"

definition persist_session_tool_snapshot :: "time \<Rightarrow> tool_scope \<Rightarrow> tool_definition \<Rightarrow> tool_state \<Rightarrow> app_error + tool_state" where
  "persist_session_tool_snapshot now scope d ts = (case tsc_session_thread_id scope of None \<Rightarrow> Inr ts
     | Some session_id \<Rightarrow>
        and_then (ensure (td_version d < 2 ^ 63) (Internal ''tool version exceeds SQLite range'')) (\<lambda>_.
        and_then (ensure (find_session (ts_db ts) session_id \<noteq> None
            \<and> select_by definition_id (td_tool_id d) (ts_definitions ts) \<noteq> None) Database) (\<lambda>_.
        let r = \<lparr>tn_session_thread_id = session_id, tn_tool_id = td_tool_id d, tn_schema_hash = td_schema_hash d,
              tn_definition_version = td_version d, tn_captured_at = now\<rparr>
        in Inr (ts\<lparr>ts_snapshots := upsert_by (\<lambda>x. (tn_session_thread_id x, tn_tool_id x)) r (\<lambda>_. r) (ts_snapshots ts)\<rparr>))))"

definition inspect_tool ::
  "tool_env \<Rightarrow> tool_scope \<Rightarrow> id \<Rightarrow> (tool_state, tool_definition \<times> tool_availability) stateful" where
  "inspect_tool env scope tool_id =
     h_bind (h_check (\<lambda>_. ensure (tool_is_visible_to_actor (tsc_actor_ref scope)) (NotFound ''tool.not_found''))) (\<lambda>_.
     h_bind (h_check (load_tool_definition tool_id)) (\<lambda>d.
     h_bind (h_check (effective_tool_availability env d scope)) (\<lambda>a.
     h_bind (h_run (persist_session_tool_snapshot (tv_now env) scope d)) (\<lambda>_.
     h_ok (d, a)))))"

end
