(* ===== verification/Tool_Calls.thy ===== *)
theory Tool_Calls
  imports Tool_Registry
begin

text \<open>
  Tool calls (\<open>application/tooling.rs\<close>): the record of a call and its events, the gates a call
  passes before a backend runs, the native and the external backend, and what Core takes from
  the result of a tooling command.
\<close>

section \<open>The record of a call\<close>

definition tool_route :: "tool_definition \<Rightarrow> string" where
  "tool_route d = (if td_source_id d = MOCK_SOURCE_ID then ''mock_external'' else ''core_native'')"

definition sha256_text :: "tool_env \<Rightarrow> string \<Rightarrow> string" where
  "sha256_text env s = ''sha256:'' @ tv_sha256 env s"

definition new_tool_call :: "tool_env \<Rightarrow> tool_definition \<Rightarrow> execute_tool_request \<Rightarrow> policy_decision \<Rightarrow> tool_call_row" where
  "new_tool_call env d request policy =
     \<lparr>tl_tool_call_id = tv_call_id env, tl_tool_id = td_tool_id d, tl_schema_hash = td_schema_hash d,
      tl_scope = etr_scope request, tl_source_kind = td_source_kind d, tl_state = TCS_Requested,
      tl_policy_decision = policy, tl_policy_version = TOOL_POLICY_VERSION, tl_route = tool_route d,
      tl_correlation_id = tv_correlation_id env, tl_command_id = None, tl_integration_id = None,
      tl_dependency_instance_id = None, tl_argument_hash = Some (sha256_text env (tv_show env (etr_arguments request))),
      tl_result_hash = None, tl_result_size_bytes = None,
      tl_redacted_arguments_summary = Some (redact_and_summarize (tv_show env) (etr_arguments request)
        (rp_argument_json_pointers (td_redaction d)) (rp_redact_all_arguments (td_redaction d)) (rp_max_summary_bytes (td_redaction d))),
      tl_redacted_result_summary = None, tl_trace_refs = [UR_ToolCall (tv_call_id env)], tl_result_refs = [],
      tl_error = None, tl_requested_at = tv_now env, tl_started_at = None, tl_completed_at = None\<rparr>"

definition insert_tool_call ::
  "tool_env \<Rightarrow> tool_definition \<Rightarrow> execute_tool_request \<Rightarrow> policy_decision \<Rightarrow> tool_state \<Rightarrow> app_error + tool_state" where
  "insert_tool_call env d request policy ts =
     and_then (ensure (find_tool_call ts (tv_call_id env) = None
         \<and> select_by definition_id (td_tool_id d) (ts_definitions ts) \<noteq> None) Database) (\<lambda>_.
     Inr (ts\<lparr>ts_calls := ts_calls ts @ [new_tool_call env d request policy]\<rparr>))"

definition call_sequences :: "id \<Rightarrow> tool_state \<Rightarrow> int list" where
  "call_sequences c ts = map te_sequence (filter (\<lambda>e. te_tool_call_id e = c) (ts_call_events ts))"

definition append_tool_call_event :: "time \<Rightarrow> id \<Rightarrow> tool_call_state \<Rightarrow> json \<Rightarrow> tool_state \<Rightarrow> app_error + tool_state" where
  "append_tool_call_event now c event_state payload ts =
     and_then (ensure (find_tool_call ts c \<noteq> None) Database) (\<lambda>_.
     Inr (ts\<lparr>ts_call_events := ts_call_events ts @ [\<lparr>te_tool_call_id = c, te_sequence = next_after (call_sequences c ts),
       te_state = event_state, te_event = payload, te_happened_at = now\<rparr>]\<rparr>))"

definition update_call :: "id \<Rightarrow> (tool_call_row \<Rightarrow> tool_call_row) \<Rightarrow> tool_state \<Rightarrow> tool_state" where
  "update_call c f ts = ts\<lparr>ts_calls := update_where (\<lambda>r. tl_tool_call_id r = c) f (ts_calls ts)\<rparr>"

definition update_tool_call_state :: "id \<Rightarrow> tool_call_state \<Rightarrow> tool_state \<Rightarrow> tool_state" where
  "update_tool_call_state c s ts = update_call c (\<lambda>r. r\<lparr>tl_state := s\<rparr>) ts"

definition started_call :: "time \<Rightarrow> tool_call_row \<Rightarrow> tool_call_row" where
  "started_call now r = r\<lparr>tl_state := TCS_Started, tl_started_at := Some now\<rparr>"

definition mark_tool_call_started :: "tool_env \<Rightarrow> id \<Rightarrow> tool_state \<Rightarrow> app_error + tool_state" where
  "mark_tool_call_started env c ts =
     append_tool_call_event (tv_now env) c TCS_Started (JObj [(''started_at'', JStr (tv_timestamp env (tv_now env)))])
       (update_call c (started_call (tv_now env)) ts)"

fun tool_error_code_name :: "tool_execution_error_code \<Rightarrow> string" where
  "tool_error_code_name TE_InvalidArguments = ''invalid_arguments''"
| "tool_error_code_name TE_PermissionDenied = ''permission_denied''"
| "tool_error_code_name TE_ApprovalRequired = ''approval_required''"
| "tool_error_code_name TE_Unavailable = ''unavailable''"
| "tool_error_code_name TE_SchemaChanged = ''schema_changed''"
| "tool_error_code_name TE_RateLimited = ''rate_limited''"
| "tool_error_code_name TE_RequestTooLarge = ''request_too_large''"
| "tool_error_code_name TE_ResultTooLarge = ''result_too_large''"
| "tool_error_code_name TE_Timeout = ''timeout''"
| "tool_error_code_name TE_Cancelled = ''cancelled''"
| "tool_error_code_name TE_BackendFailed = ''backend_failed''"
| "tool_error_code_name TE_ToolhiveMissing = ''toolhive_missing''"
| "tool_error_code_name TE_NotAuthenticated = ''not_authenticated''"
| "tool_error_code_name TE_ScopeMismatch = ''scope_mismatch''"
| "tool_error_code_name TE_LeaseExpired = ''lease_expired''"
| "tool_error_code_name TE_LeaseRevoked = ''lease_revoked''"

definition error_json :: "tool_execution_error \<Rightarrow> json" where
  "error_json e = JObj [(''code'', JStr (tool_error_code_name (tx_code e))), (''message'', JStr (tx_message e)),
     (''retryable'', JBool (tx_retryable e)), (''redacted_details'', tx_redacted_details e)]"

definition opt_json :: "('a \<Rightarrow> json) \<Rightarrow> 'a option \<Rightarrow> json" where
  "opt_json f x = (case x of None \<Rightarrow> JNull | Some v \<Rightarrow> f v)"

text \<open>The row keeps what the last caller reports, whatever it held.\<close>

definition finished_call ::
  "tool_env \<Rightarrow> tool_call_state \<Rightarrow> tool_result_envelope option \<Rightarrow> tool_execution_error option \<Rightarrow> uprava_ref list
   \<Rightarrow> tool_call_row \<Rightarrow> tool_call_row" where
  "finished_call env terminal_state result error result_refs r =
     r\<lparr>tl_state := terminal_state, tl_result_hash := map_option (\<lambda>x. sha256_text env (tv_result_text env x)) result,
       tl_result_size_bytes := map_option (\<lambda>x. utf8_len (tv_result_text env x)) result,
       tl_redacted_result_summary := Option.bind result tre_summary, tl_result_refs := result_refs, tl_error := error,
       tl_completed_at := Some (tv_now env)\<rparr>"

definition finished_json :: "tool_env \<Rightarrow> tool_result_envelope option \<Rightarrow> tool_execution_error option \<Rightarrow> json" where
  "finished_json env result error = JObj [(''completed_at'', JStr (tv_timestamp env (tv_now env))),
     (''result_hash'', opt_json (\<lambda>x. JStr (sha256_text env (tv_result_text env x))) result),
     (''result_size_bytes'', opt_json (\<lambda>x. JNum (int (utf8_len (tv_result_text env x)))) result),
     (''error'', opt_json error_json error)]"

definition finish_tool_call ::
  "tool_env \<Rightarrow> id \<Rightarrow> tool_call_state \<Rightarrow> tool_result_envelope option \<Rightarrow> tool_execution_error option \<Rightarrow> uprava_ref list
   \<Rightarrow> tool_state \<Rightarrow> app_error + tool_state" where
  "finish_tool_call env c terminal_state result error result_refs ts =
     and_then (ensure (tool_call_terminal terminal_state) (Internal ''tool call finish requires terminal state'')) (\<lambda>_.
     append_tool_call_event (tv_now env) c terminal_state (finished_json env result error)
       (update_call c (finished_call env terminal_state result error result_refs) ts))"

definition audit_tool_policy :: "tool_env \<Rightarrow> execute_tool_request \<Rightarrow> string \<Rightarrow> tool_state \<Rightarrow> tool_state" where
  "audit_tool_policy env request outcome ts =
     ts\<lparr>ts_core := (ts_core ts)\<lparr>co_db := (ts_db ts)\<lparr>db_audit := db_audit (ts_db ts) @
       [\<lparr>au_kind = ''tool.policy_decision'', au_node_id = tsc_node_id (etr_scope request),
         au_origin = Some (''tool_call:'' @ tv_call_id env), au_outcome = outcome,
         au_metadata = JObj [(''tool_call_id'', JStr (tv_call_id env)), (''tool_id'', JStr (etr_tool_id request)),
           (''policy_version'', JStr TOOL_POLICY_VERSION)], au_happened_at = tv_now env\<rparr>]\<rparr>\<rparr>\<rparr>"

section \<open>Errors\<close>

definition tool_error :: "tool_execution_error_code \<Rightarrow> string \<Rightarrow> bool \<Rightarrow> tool_execution_error" where
  "tool_error code message retryable =
     \<lparr>tx_code = code, tx_message = message, tx_retryable = retryable, tx_redacted_details = JObj []\<rparr>"

definition internal_tool_error :: tool_execution_error where
  "internal_tool_error = tool_error TE_BackendFailed ''Core tool execution failed'' True"

definition app_tool_failure :: "tool_env \<Rightarrow> app_error \<Rightarrow> tool_execution_error" where
  "app_tool_failure env e = (case e of
     NotFound _ \<Rightarrow> tool_error TE_BackendFailed (tv_error_text env e) False
   | BadRequest _ \<Rightarrow> tool_error TE_BackendFailed (tv_error_text env e) False
   | _ \<Rightarrow> internal_tool_error)"

text \<open>A step of a backend: it may fail with a tool error and may have changed the state by then.\<close>

type_synonym 'a tool_step = "tool_state \<Rightarrow> (tool_execution_error + 'a) \<times> tool_state"

definition t_bind :: "'a tool_step \<Rightarrow> ('a \<Rightarrow> 'b tool_step) \<Rightarrow> 'b tool_step" where
  "t_bind f g ts = (case f ts of (Inl e, ts') \<Rightarrow> (Inl e, ts') | (Inr x, ts') \<Rightarrow> g x ts')"

definition t_check :: "tool_execution_error + 'a \<Rightarrow> 'a tool_step" where
  "t_check r ts = (r, ts)"

definition t_map :: "(app_error \<Rightarrow> tool_execution_error) \<Rightarrow> (tool_state, 'a) stateful \<Rightarrow> 'a tool_step" where
  "t_map f h ts = (case h ts of (r, ts') \<Rightarrow> (map_sum f id r, ts'))"

section \<open>Native tools\<close>

definition string_argument :: "json \<Rightarrow> string \<Rightarrow> tool_execution_error + string" where
  "string_argument arguments key = ok_or (json_get_str arguments key)
     (tool_error TE_InvalidArguments (''Missing string argument `'' @ key @ ''`'') False)"

definition normalize_tool_result ::
  "tool_env \<Rightarrow> json \<Rightarrow> uprava_ref list \<Rightarrow> tool_execution_error + tool_result_envelope \<times> uprava_ref list" where
  "normalize_tool_result env content refs =
     (let size = utf8_len (tv_show env content) in
      if size > TOOL_RESULT_MAX_BYTES then Inl (tool_error TE_ResultTooLarge ''Tool result exceeds the v1 size limit'' False)
      else Inr (\<lparr>tre_content = content, tre_summary = Some (bounded_json_summary (tv_show env) content TOOL_SUMMARY_MAX_BYTES),
         tre_truncated = False, tre_original_size_bytes = Some size, tre_artifact_refs = refs\<rparr>, refs))"

text \<open>What a native tool reads, and the references its result carries.\<close>

definition native_read ::
  "tool_env \<Rightarrow> execute_tool_request \<Rightarrow> (string \<Rightarrow> uprava_ref list) \<Rightarrow> string \<Rightarrow> (json \<times> uprava_ref list) tool_step" where
  "native_read env request refs key =
     t_bind (t_check (string_argument (etr_arguments request) key)) (\<lambda>v.
     t_bind (t_map (app_tool_failure env) (tv_native env (etr_tool_id request) (etr_scope request) (etr_arguments request))) (\<lambda>content.
     t_check (Inr (content, refs v))))"

section \<open>External tools\<close>

record external_tool_route =
  xo_integration_id :: id
  xo_dependency_instance_id :: id
  xo_node_id :: id

definition load_external_tool_route :: "tool_definition \<Rightarrow> tool_scope \<Rightarrow> tool_state \<Rightarrow> app_error + external_tool_route" where
  "load_external_tool_route d scope ts =
     and_then (ok_or (tsc_node_id scope) (BadRequest ''tool.node_required'')) (\<lambda>node_id.
     and_then (ok_or (dependency_route (td_source_id d) node_id ts) (BadRequest ''tool.dependency_missing'')) (\<lambda>(c, m).
     and_then (ensure (\<not> (ic_auth_state (cr_connection c) \<noteq> IAS_Connected \<or> mr_actual_state m \<noteq> MDS_Running))
        (BadRequest ''tool.dependency_unavailable'')) (\<lambda>_.
     Inr \<lparr>xo_integration_id = connection_id c, xo_dependency_instance_id = mr_dependency_instance_id m, xo_node_id = node_id\<rparr>)))"

definition on_core :: "(core_state \<Rightarrow> app_error + core_state) \<Rightarrow> (tool_state, unit) stateful" where
  "on_core f = h_run (\<lambda>ts. map_sum id (\<lambda>st. ts\<lparr>ts_core := st\<rparr>) (f (ts_core ts)))"

definition set_waiters :: "(id list \<Rightarrow> id list) \<Rightarrow> tool_state \<Rightarrow> tool_state" where
  "set_waiters f ts = ts\<lparr>ts_core := (ts_core ts)\<lparr>co_waiters := f (co_waiters (ts_core ts))\<rparr>\<rparr>"

definition route_call :: "tool_env \<Rightarrow> external_tool_route \<Rightarrow> tool_state \<Rightarrow> app_error + tool_state" where
  "route_call env route ts =
     and_then (ensure (\<not> list_ex (\<lambda>r. tl_tool_call_id r \<noteq> tv_call_id env \<and> tl_command_id r = Some (tv_command_id env)
         \<and> tl_correlation_id r = tv_correlation_id env) (ts_calls ts)) Database) (\<lambda>_.
     Inr (update_call (tv_call_id env) (\<lambda>r. r\<lparr>tl_command_id := Some (tv_command_id env),
       tl_integration_id := Some (xo_integration_id route), tl_dependency_instance_id := Some (xo_dependency_instance_id route),
       tl_route := ''node-toolhive''\<rparr>) ts))"

definition external_command ::
  "tool_env \<Rightarrow> tool_definition \<Rightarrow> execute_tool_request \<Rightarrow> external_tool_route \<Rightarrow> command_envelope" where
  "external_command env d request route =
     \<lparr>ce_command_id = tv_command_id env, ce_kind = CK_Tooling,
      ce_target = (case tsc_project_placement_id (etr_scope request) of
         Some p \<Rightarrow> CT_Placement (xo_node_id route) p | None \<Rightarrow> CT_Node (xo_node_id route)),
      ce_actor_ref = tsc_actor_ref (etr_scope request), ce_source_refs = [UR_ToolCall (tv_call_id env)],
      ce_cause_refs = (case tsc_session_thread_id (etr_scope request) of Some s \<Rightarrow> [UR_Session s] | None \<Rightarrow> []),
      ce_issued_at = tv_now env, ce_correlation_id = tv_correlation_id env,
      ce_payload = CP_Tooling \<lparr>tc_contract_version = TOOLING_CONTRACT_VERSION_V1,
        tc_payload = TP_ExecuteExternalTool (tv_call_id env) (td_tool_id d) (td_schema_hash d) (xo_integration_id route)
          (xo_dependency_instance_id route) (tv_scope_json env (etr_scope request)) (etr_arguments request)
          (tv_now env + EXTERNAL_TOOL_TIMEOUT) (of_nat TOOL_RESULT_MAX_BYTES)\<rparr>\<rparr>"

definition cancel_call_command :: "tool_env \<Rightarrow> external_tool_route \<Rightarrow> string \<Rightarrow> command_envelope" where
  "cancel_call_command env route reason =
     \<lparr>ce_command_id = tv_cancel_id env, ce_kind = CK_Tooling, ce_target = CT_Node (xo_node_id route),
      ce_actor_ref = AR_System, ce_source_refs = [UR_ToolCall (tv_call_id env)], ce_cause_refs = [],
      ce_issued_at = tv_now env, ce_correlation_id = tv_correlation_id env,
      ce_payload = CP_Tooling \<lparr>tc_contract_version = TOOLING_CONTRACT_VERSION_V1,
        tc_payload = TP_CancelToolCall (tv_call_id env) (Some reason)\<rparr>\<rparr>"

text \<open>A cancellation that cannot be recorded is only logged.\<close>

definition dispatch_tool_call_cancel :: "tool_env \<Rightarrow> external_tool_route \<Rightarrow> string \<Rightarrow> tool_state \<Rightarrow> tool_state" where
  "dispatch_tool_call_cancel env route reason ts =
     snd (on_core (record_and_dispatch_command (tv_frame_id env) (tv_now env) (cancel_call_command env route reason)) ts)"

text \<open>What the Node's answer means for the call it was asked to run.\<close>

definition external_outcome :: "tool_env \<Rightarrow> notice \<Rightarrow> tool_execution_error + tool_result_envelope" where
  "external_outcome env n =
     and_then (ensure (no_status n = CS_Completed) (tool_error TE_BackendFailed ''Node ToolHive bridge failed'' True)) (\<lambda>_.
     and_then (ok_or (tv_decode env (no_payload n)) internal_tool_error) (\<lambda>result.
     and_then (ensure (\<not> (xr_status result \<noteq> None \<or> xr_definitions result \<noteq> []))
        (tool_error TE_BackendFailed ''Node returned an unexpected tooling result'' False)) (\<lambda>_.
     and_then (ok_or (xr_event result) (tool_error TE_BackendFailed ''Node returned no terminal tool event'' False)) (\<lambda>event.
     and_then (ensure (tev_contract_version event = TOOLING_CONTRACT_VERSION_V1)
        (tool_error TE_BackendFailed ''Node returned an incompatible tooling event'' False)) (\<lambda>_.
     let mismatch = Inl (tool_error TE_BackendFailed ''Node tool result identity did not match the call'' False) in
     case tev_payload event of
       TEP_ToolCallCompleted c result _ \<Rightarrow> if c = tv_call_id env then Inr result else mismatch
     | TEP_ToolCallFailed c error _ \<Rightarrow> if c = tv_call_id env then Inl error else mismatch
     | TEP_ToolCallDenied c error _ \<Rightarrow> if c = tv_call_id env then Inl error else mismatch
     | _ \<Rightarrow> mismatch)))))"

definition await_external :: "tool_env \<Rightarrow> external_tool_route \<Rightarrow> tool_result_envelope tool_step" where
  "await_external env route ts = (case tv_wait env (tv_command_id env) ts of
     (Inl _, ts') \<Rightarrow> (Inl (tool_error TE_Timeout ''Timed out waiting for the external tool'' True),
        dispatch_tool_call_cancel env route ''core_timeout'' ts')
   | (Inr n, ts') \<Rightarrow> (external_outcome env n, ts'))"

text \<open>The guard removes the waiter however the call ends.\<close>

definition execute_external_tool :: "tool_env \<Rightarrow> tool_definition \<Rightarrow> execute_tool_request \<Rightarrow> tool_result_envelope tool_step" where
  "execute_external_tool env d request =
     t_bind (t_map (app_tool_failure env) (h_check (load_external_tool_route d (etr_scope request)))) (\<lambda>route.
     t_bind (t_map (\<lambda>_. tool_error TE_Unavailable ''Node is offline'' True)
        (h_check (\<lambda>ts. ensure_node_commandable (tv_cfg env) (xo_node_id route) (tv_now env) (ts_db ts)))) (\<lambda>_.
     \<lambda>ts. case t_bind (t_map (\<lambda>_. internal_tool_error) (h_run (route_call env route))) (\<lambda>_.
          t_bind (t_map (app_tool_failure env)
            (on_core (record_and_dispatch_command (tv_frame_id env) (tv_now env) (external_command env d request route)))) (\<lambda>_.
          await_external env route)) (set_waiters (\<lambda>ws. tv_command_id env # ws) ts) of
        (r, ts') \<Rightarrow> (r, set_waiters (filter (\<lambda>c. c \<noteq> tv_command_id env)) ts')))"

section \<open>The route of a tool\<close>

definition session_refs :: "string \<Rightarrow> uprava_ref list" where
  "session_refs s = [UR_Session s]"

definition dynamic_ui_create :: "tool_env \<Rightarrow> execute_tool_request \<Rightarrow> (json \<times> uprava_ref list) tool_step" where
  "dynamic_ui_create env request =
     t_bind (t_check (ok_or (tsc_session_thread_id (etr_scope request))
        (tool_error TE_InvalidArguments ''A session-scoped tool call is required'' False))) (\<lambda>session_id.
     t_bind (t_check (ok_or (json_as_object (etr_arguments request))
        (tool_error TE_InvalidArguments ''arguments must be an object'' False))) (\<lambda>members.
     t_bind (t_check (map_sum (\<lambda>text. tool_error TE_InvalidArguments (''Invalid dynamic UI proposal: '' @ text) False) id
        (tv_proposal env session_id members))) (\<lambda>proposal.
     t_bind (t_map (app_tool_failure env) (tv_native env (etr_tool_id request) (etr_scope request) proposal)) (\<lambda>detail.
     t_check (Inr (detail, (case Option.bind (value_at [''artifact'', ''artifact'', ''artifact_id''] detail) json_as_str of
         Some a \<Rightarrow> [UR_Artifact a] | None \<Rightarrow> []) @ session_refs session_id))))))"

definition execute_tool_route ::
  "tool_env \<Rightarrow> tool_definition \<Rightarrow> execute_tool_request \<Rightarrow> (tool_result_envelope \<times> uprava_ref list) tool_step" where
  "execute_tool_route env d request =
     (let arguments = etr_arguments request;
          normalized = (\<lambda>step. t_bind step (\<lambda>(content, refs). t_check (normalize_tool_result env content refs)))
      in if td_tool_id d = ''uprava.node.inspect'' then normalized (native_read env request (\<lambda>v. [UR_Node v]) ''node_id'')
         else if td_tool_id d = ''uprava.workspace.inspect'' then normalized (native_read env request (\<lambda>v. [UR_Workspace v]) ''placement_id'')
         else if td_tool_id d = ''uprava.session.inspect'' then normalized (native_read env request session_refs ''session_thread_id'')
         else if td_tool_id d = ''uprava.trace.resolve'' then normalized (native_read env request session_refs ''session_thread_id'')
         else if td_tool_id d = ''uprava.capability.inspect'' then normalized (native_read env request (\<lambda>v. [UR_Node v]) ''node_id'')
         else if td_tool_id d = ''uprava.dynamic_ui.inspect'' then
           normalized (t_bind (t_map (app_tool_failure env) (tv_native env (etr_tool_id request) (etr_scope request) arguments))
             (\<lambda>content. t_check (Inr (content, []))))
         else if td_tool_id d = ''uprava.dynamic_ui.create'' then normalized (dynamic_ui_create env request)
         else if td_source_id d = MOCK_SOURCE_ID then
           (if json_get_bool arguments ''fail'' = Some True then
              t_check (Inl (tool_error TE_BackendFailed ''Deterministic mock backend failure'' True))
            else t_check (normalize_tool_result env (JObj [(''backend'', JStr ''mock''), (''arguments'', arguments)]) []))
         else if td_execution_kind d = TEK_ToolhiveMcp then
           t_bind (execute_external_tool env d request) (\<lambda>result. t_check (Inr (result, [])))
         else t_check (Inl (tool_error TE_BackendFailed ''No Core route for tool'' False)))"

section \<open>Executing a tool\<close>

definition response :: "tool_env \<Rightarrow> tool_call_state \<Rightarrow> tool_result_envelope option \<Rightarrow> tool_execution_error option \<Rightarrow> execute_tool_response" where
  "response env s result error = \<lparr>eto_tool_call_id = tv_call_id env, eto_state = s, eto_result = result, eto_error = error\<rparr>"

definition fail_call :: "tool_env \<Rightarrow> tool_call_state \<Rightarrow> tool_execution_error \<Rightarrow> (tool_state, execute_tool_response) stateful" where
  "fail_call env s error =
     h_bind (h_run (finish_tool_call env (tv_call_id env) s None (Some error) [])) (\<lambda>_. h_ok (response env s None (Some error)))"

definition append_event :: "tool_env \<Rightarrow> tool_call_state \<Rightarrow> json \<Rightarrow> (tool_state, unit) stateful" where
  "append_event env s payload = h_run (append_tool_call_event (tv_now env) (tv_call_id env) s payload)"

definition deny_call :: "tool_env \<Rightarrow> execute_tool_request \<Rightarrow> (tool_state, execute_tool_response) stateful" where
  "deny_call env request =
     (let error = tool_error TE_PermissionDenied ''Tool policy denied this call'' False in
      h_bind (h_run (finish_tool_call env (tv_call_id env) TCS_Denied None (Some error) [])) (\<lambda>_.
      h_bind (h_modify (audit_tool_policy env request ''denied'')) (\<lambda>_. h_ok (response env TCS_Denied None (Some error)))))"

definition hold_call :: "tool_env \<Rightarrow> execute_tool_request \<Rightarrow> (tool_state, execute_tool_response) stateful" where
  "hold_call env request =
     (let error = tool_error TE_ApprovalRequired ''Tool call requires approval'' False in
      h_bind (h_modify (update_tool_call_state (tv_call_id env) TCS_ApprovalRequired)) (\<lambda>_.
      h_bind (append_event env TCS_ApprovalRequired (error_json error)) (\<lambda>_.
      h_bind (h_modify (audit_tool_policy env request ''approval_required'')) (\<lambda>_.
      h_ok (response env TCS_ApprovalRequired None (Some error))))))"

text \<open>The result is redacted before it is summarised, stored and returned.\<close>

definition redacted_result :: "tool_env \<Rightarrow> tool_definition \<Rightarrow> tool_result_envelope \<Rightarrow> tool_result_envelope" where
  "redacted_result env d result =
     (let content = redact_json (tre_content result) (rp_result_json_pointers (td_redaction d)) (rp_redact_all_result (td_redaction d))
      in result\<lparr>tre_content := content,
           tre_summary := Some (bounded_json_summary (tv_show env) content (rp_max_summary_bytes (td_redaction d)))\<rparr>)"

definition run_call :: "tool_env \<Rightarrow> tool_definition \<Rightarrow> execute_tool_request \<Rightarrow> (tool_state, execute_tool_response) stateful" where
  "run_call env d request ts = (case execute_tool_route env d request ts of
     (Inr (result, refs), ts') \<Rightarrow>
       (let r = redacted_result env d result in
        h_bind (h_run (finish_tool_call env (tv_call_id env) TCS_Completed (Some r) None refs)) (\<lambda>_.
        h_ok (response env TCS_Completed (Some r) None)) ts')
   | (Inl error, ts') \<Rightarrow> fail_call env TCS_Failed error ts')"

definition authorized_call :: "tool_env \<Rightarrow> tool_definition \<Rightarrow> execute_tool_request \<Rightarrow> (tool_state, execute_tool_response) stateful" where
  "authorized_call env d request =
     h_bind (append_event env TCS_Authorized (JObj [(''policy_version'', JStr TOOL_POLICY_VERSION)])) (\<lambda>_.
     h_bind (h_check (effective_tool_availability env d (etr_scope request))) (\<lambda>availability.
     if ta_state availability \<noteq> TAS_Available then
       fail_call env TCS_Failed (tool_error TE_Unavailable ''Tool is unavailable in this scope'' True)
     else (case validate_arguments (td_input_schema d) (etr_arguments request) of
         Inl message \<Rightarrow> fail_call env TCS_Failed (tool_error TE_InvalidArguments message False)
       | Inr _ \<Rightarrow>
          h_bind (h_run (persist_session_tool_snapshot (tv_now env) (etr_scope request) d)) (\<lambda>_.
          h_bind (h_run (mark_tool_call_started env (tv_call_id env))) (\<lambda>_.
          run_call env d request)))))"

definition execute_tool :: "tool_env \<Rightarrow> execute_tool_request \<Rightarrow> (tool_state, execute_tool_response) stateful" where
  "execute_tool env request ts = (case load_tool_definition (etr_tool_id request) ts of
     Inl (NotFound _) \<Rightarrow> (Inr (response env TCS_Denied None
       (Some (tool_error TE_PermissionDenied ''Tool is not visible in this scope'' False))), ts)
   | Inl e \<Rightarrow> (Inl e, ts)
   | Inr d \<Rightarrow>
      (let policy = policy_decision_of d (etr_scope request) in
       h_bind (h_run (insert_tool_call env d request policy)) (\<lambda>_.
       h_bind (append_event env TCS_Requested (JObj [(''correlation_id'', JStr (tv_correlation_id env)),
          (''tool_id'', JStr (td_tool_id d)), (''schema_hash'', JStr (td_schema_hash d))])) (\<lambda>_.
       if policy = PD_Deny then deny_call env request
       else if policy = PD_RequireApproval then hold_call env request
       else authorized_call env d request)) ts))"

end
