(* ===== verification/Tool_Integrations.thy ===== *)
theory Tool_Integrations
  imports Tool_Calls
begin

text \<open>
  External integrations and the results of tooling commands (\<open>application/tooling.rs\<close>): what a
  Node reports of its dependencies, the definitions it discovers, the calls it finished, the
  connection an operator opens or closes, and the commands Core sends for them.
\<close>

section \<open>What a Node reports\<close>

definition dependency_error :: "mcp_dependency_actual_state \<Rightarrow> bool" where
  "dependency_error s \<longleftrightarrow> s \<in> {MDS_ToolhiveMissing, MDS_MissingAuth, MDS_Degraded, MDS_Failed}"

definition row_of_status :: "mcp_dependency_status \<Rightarrow> dependency_instance_row" where
  "row_of_status s = \<lparr>mr_dependency_instance_id = ds_dependency_instance_id s, mr_integration_id = ds_integration_id s,
     mr_node_id = ds_node_id s, mr_desired_state = ds_desired_state s, mr_actual_state = ds_actual_state s, mr_status = s,
     mr_updated_at = ds_observed_at s\<rparr>"

text \<open>The constraints of the table: the connection and the Node exist, one dependency per pair.\<close>

definition upsert_dependency :: "dependency_instance_row \<Rightarrow> tool_state \<Rightarrow> app_error + tool_state" where
  "upsert_dependency r ts =
     and_then (ensure (select_by connection_id (mr_integration_id r) (ts_connections ts) \<noteq> None
        \<and> find_node (ts_db ts) (mr_node_id r) \<noteq> None
        \<and> \<not> list_ex (\<lambda>x. mr_dependency_instance_id x \<noteq> mr_dependency_instance_id r \<and> mr_integration_id x = mr_integration_id r
             \<and> mr_node_id x = mr_node_id r) (ts_dependencies ts)) Database) (\<lambda>_.
     Inr (ts\<lparr>ts_dependencies := upsert_by mr_dependency_instance_id r (\<lambda>_. r) (ts_dependencies ts)\<rparr>))"

definition auth_state_of :: "mcp_dependency_actual_state \<Rightarrow> integration_auth_state \<Rightarrow> integration_auth_state" where
  "auth_state_of actual current = (case actual of MDS_Running \<Rightarrow> IAS_Connected | MDS_MissingAuth \<Rightarrow> IAS_Disconnected
     | MDS_Failed \<Rightarrow> IAS_Error | _ \<Rightarrow> current)"

definition connection_with_status :: "mcp_dependency_status \<Rightarrow> integration_connection_summary \<Rightarrow> integration_connection_summary" where
  "connection_with_status s c = c\<lparr>ic_updated_at := ds_observed_at s, ic_error_code := ds_error_code s,
     ic_connected_at := (if ds_actual_state s = MDS_Running \<and> ic_connected_at c = None then Some (ds_observed_at s) else ic_connected_at c),
     ic_auth_state := auth_state_of (ds_actual_state s) (ic_auth_state c)\<rparr>"

definition update_connection :: "id \<Rightarrow> (integration_connection_summary \<Rightarrow> integration_connection_summary) \<Rightarrow> tool_state \<Rightarrow> tool_state" where
  "update_connection i f ts = ts\<lparr>ts_connections :=
     update_where (\<lambda>r. connection_id r = i) (\<lambda>r. r\<lparr>cr_connection := f (cr_connection r)\<rparr>) (ts_connections ts)\<rparr>"

definition update_connection_from_dependency_status :: "mcp_dependency_status \<Rightarrow> tool_state \<Rightarrow> tool_state" where
  "update_connection_from_dependency_status s ts = update_connection (ds_integration_id s) (connection_with_status s) ts"

definition persist_dependency_status :: "mcp_dependency_status \<Rightarrow> (tool_state, unit) stateful" where
  "persist_dependency_status s =
     h_bind (h_run (upsert_dependency (row_of_status s))) (\<lambda>_. h_modify (update_connection_from_dependency_status s))"

definition project_terminal_tooling_event :: "tool_env \<Rightarrow> tooling_event \<Rightarrow> (tool_state, unit) stateful" where
  "project_terminal_tooling_event env event =
     h_bind (h_check (\<lambda>_. ensure (tev_contract_version event = TOOLING_CONTRACT_VERSION_V1) (BadRequest ''tool.event_version_invalid''))) (\<lambda>_.
     case tev_payload event of
       TEP_ToolCallCompleted c result _ \<Rightarrow> h_run (finish_tool_call env c TCS_Completed (Some result) None (tre_artifact_refs result))
     | TEP_ToolCallFailed c error _ \<Rightarrow> h_run (finish_tool_call env c
         (if tx_code error = TE_Cancelled then TCS_Cancelled else if tx_code error = TE_Timeout then TCS_TimedOut else TCS_Failed)
         None (Some error) [])
     | TEP_ToolCallDenied c error _ \<Rightarrow> h_run (finish_tool_call env c TCS_Denied None (Some error) [])
     | _ \<Rightarrow> h_ok ())"

definition foreign_definition :: "tool_definition \<Rightarrow> bool" where
  "foreign_definition d \<longleftrightarrow> td_source_id d \<noteq> LINEAR_SOURCE_ID \<or> td_source_kind d \<noteq> TSK_ExternalMcp
     \<or> td_execution_kind d \<noteq> TEK_ToolhiveMcp"

definition project_tooling_command_result ::
  "tool_env \<Rightarrow> id \<Rightarrow> command_state \<Rightarrow> json \<Rightarrow> bool \<Rightarrow> (tool_state, unit) stateful" where
  "project_tooling_command_result env command_id status payload project_terminal_call ts =
     (case find_command (ts_db ts) command_id of
        None \<Rightarrow> (Inr (), ts)
      | Some row \<Rightarrow>
         if ce_kind (cm_command row) \<noteq> CK_Tooling \<or> status \<noteq> CS_Completed then (Inr (), ts)
         else h_bind (h_check (\<lambda>_. ok_or (tv_decode env payload) Serialization)) (\<lambda>result.
           h_bind (case xr_status result of None \<Rightarrow> h_ok ()
             | Some s \<Rightarrow> persist_dependency_status (s\<lparr>ds_node_id := target_node_id (ce_target (cm_command row))\<rparr>)) (\<lambda>_.
           h_bind (if xr_definitions result = [] then h_ok ()
             else h_bind (h_check (\<lambda>_. ensure (\<not> list_ex foreign_definition (xr_definitions result))
                 (BadRequest ''tool.definition_source_invalid''))) (\<lambda>_.
               h_run (register_tool_definitions (tv_now env) LINEAR_SOURCE_ID TSK_ExternalMcp ''Linear remote MCP'' (xr_definitions result)))) (\<lambda>_.
           if project_terminal_call then (case xr_event result of Some event \<Rightarrow> project_terminal_tooling_event env event | None \<Rightarrow> h_ok ())
           else h_ok ()))) ts)"

section \<open>Desired states\<close>

definition node_command :: "tool_env \<Rightarrow> id \<Rightarrow> id \<Rightarrow> tooling_command_payload \<Rightarrow> command_envelope" where
  "node_command env command_id node_id payload =
     \<lparr>ce_command_id = command_id, ce_kind = CK_Tooling, ce_target = CT_Node node_id, ce_actor_ref = AR_System,
      ce_source_refs = [], ce_cause_refs = [], ce_issued_at = tv_now env, ce_correlation_id = tv_correlation_id env,
      ce_payload = CP_Tooling \<lparr>tc_contract_version = TOOLING_CONTRACT_VERSION_V1, tc_payload = payload\<rparr>\<rparr>"

definition desired_state_command :: "tool_env \<Rightarrow> (id \<Rightarrow> id) \<Rightarrow> id \<Rightarrow> dependency_instance_row \<times> connection_row \<Rightarrow> command_envelope" where
  "desired_state_command env fresh node_id r = (case r of (m, c) \<Rightarrow>
     node_command env (fresh (mr_dependency_instance_id m)) node_id
       (TP_UpdateDependencyDesiredState (mr_dependency_instance_id m) (mr_integration_id m) (mr_desired_state m)
         (if ic_auth_state (cr_connection c) = IAS_Connected then Some ''toolhive:managed-linear'' else None)
         LINEAR_UPSTREAM_URL LINEAR_WORKLOAD_NAME LINEAR_TOOL_NAMESPACE))"

definition node_dependencies :: "id \<Rightarrow> tool_state \<Rightarrow> (dependency_instance_row \<times> connection_row) list" where
  "node_dependencies node_id ts =
     filter_map (\<lambda>m. map_option (\<lambda>c. (m, c)) (select_by connection_id (mr_integration_id m) (ts_connections ts)))
       (sort_key mr_dependency_instance_id (filter (\<lambda>m. mr_node_id m = node_id) (ts_dependencies ts)))"

fun send_all :: "tool_env \<Rightarrow> command_envelope list \<Rightarrow> core_state \<Rightarrow> (app_error + unit) \<times> core_state" where
  "send_all env [] st = (Inr (), st)"
| "send_all env (c # cs) st = (case record_and_dispatch_command (tv_frame_id env) (tv_now env) c st of
     Inl e \<Rightarrow> (Inl e, st) | Inr st' \<Rightarrow> send_all env cs st')"

definition dispatch_dependency_desired_snapshots ::
  "tool_env \<Rightarrow> (id \<Rightarrow> id) \<Rightarrow> id \<Rightarrow> (tool_state, unit) stateful" where
  "dispatch_dependency_desired_snapshots env fresh node_id ts =
     (case send_all env (map (desired_state_command env fresh node_id) (node_dependencies node_id ts)) (ts_core ts) of
        (r, st) \<Rightarrow> (r, ts\<lparr>ts_core := st\<rparr>))"

section \<open>Connecting\<close>

definition audit_tooling :: "tool_env \<Rightarrow> string \<Rightarrow> id option \<Rightarrow> json \<Rightarrow> tool_state \<Rightarrow> tool_state" where
  "audit_tooling env kind node_id metadata ts =
     ts\<lparr>ts_core := (ts_core ts)\<lparr>co_db := (ts_db ts)\<lparr>db_audit := db_audit (ts_db ts) @
       [\<lparr>au_kind = kind, au_node_id = node_id, au_origin = None, au_outcome = ''accepted'', au_metadata = metadata,
         au_happened_at = tv_now env\<rparr>]\<rparr>\<rparr>\<rparr>"

text \<open>The parts of a URI that \<open>http::Uri\<close> reads.\<close>

record uri =
  ur_scheme :: "string option"
  ur_host :: "string option"
  ur_query :: "string option"

definition host_allowed :: "string \<Rightarrow> bool" where
  "host_allowed h \<longleftrightarrow> h = ''linear.app'' \<or> (length ''.linear.app'' \<le> length h \<and> drop (length h - length ''.linear.app'') h = ''.linear.app'')"

definition validate_linear_authorization_url :: "(string \<Rightarrow> uri option) \<Rightarrow> time \<Rightarrow> string \<Rightarrow> time \<Rightarrow> app_error + unit" where
  "validate_linear_authorization_url parse_uri now authorization_url expires_at =
     and_then (ok_or (parse_uri authorization_url) (BadRequest ''integration.authorization_url_invalid'')) (\<lambda>url.
     let allowed = (case ur_host url of None \<Rightarrow> False | Some h \<Rightarrow> host_allowed h);
         has_state = (case ur_query url of None \<Rightarrow> False
           | Some q \<Rightarrow> list_ex (\<lambda>part. take 6 part = ''state='') (split_on CHR ''&'' q))
     in ensure (\<not> (ur_scheme url \<noteq> Some ''https'' \<or> \<not> allowed \<or> \<not> has_state \<or> expires_at \<le> now \<or> expires_at > now + 600 * 1000000000))
          (BadRequest ''integration.authorization_url_invalid''))"

record integration_connect_request =
  iq_integration_id :: id
  iq_project_id :: "id option"
  iq_node_id :: id

definition linear_connection :: "time \<Rightarrow> integration_connect_request \<Rightarrow> integration_connection_summary" where
  "linear_connection now request = \<lparr>ic_integration_id = iq_integration_id request, ic_source_id = LINEAR_SOURCE_ID,
     ic_provider = ''linear'', ic_display_name = ''Linear'', ic_desired_state = ID_Enabled, ic_auth_state = IAS_Connecting,
     ic_node_id = Some (iq_node_id request), ic_authenticated_actor_label = None, ic_connected_at = None,
     ic_updated_at = now, ic_error_code = None\<rparr>"

definition starting_status :: "time \<Rightarrow> integration_connect_request \<Rightarrow> id \<Rightarrow> mcp_dependency_status" where
  "starting_status now request instance_id = \<lparr>ds_dependency_instance_id = instance_id, ds_integration_id = iq_integration_id request,
     ds_node_id = iq_node_id request, ds_desired_state = ID_Enabled, ds_actual_state = MDS_Starting, ds_runtime_name = ''toolhive'',
     ds_runtime_version = None, ds_upstream_identity = Some LINEAR_SOURCE_ID, ds_schema_set_hash = None, ds_error_code = None,
     ds_observed_at = now\<rparr>"

definition existing_dependency :: "integration_connect_request \<Rightarrow> tool_state \<Rightarrow> id option" where
  "existing_dependency request ts = map_option mr_dependency_instance_id
     (List.find (\<lambda>m. mr_integration_id m = iq_integration_id request \<and> mr_node_id m = iq_node_id request) (ts_dependencies ts))"

text \<open>The transaction stores the connection and its dependency, both starting.\<close>

definition store_connection :: "time \<Rightarrow> integration_connect_request \<Rightarrow> id \<Rightarrow> tool_state \<Rightarrow> app_error + tool_state" where
  "store_connection now request instance_id ts =
     (let generation = (case select_by connection_id (iq_integration_id request) (ts_connections ts) of
            None \<Rightarrow> 1 | Some r \<Rightarrow> min (2 ^ 63 - 1) (cr_credential_generation r + 1));
          c = linear_connection now request
      in and_then (ensure (LINEAR_SOURCE_ID \<in> sw_source_id ` set (ts_sources ts) \<and> find_node (ts_db ts) (iq_node_id request) \<noteq> None)
           Database) (\<lambda>_.
         upsert_dependency (row_of_status (starting_status now request instance_id))
           (ts\<lparr>ts_connections := upsert_by connection_id \<lparr>cr_connection = c, cr_credential_generation = generation\<rparr>
              (\<lambda>r. r\<lparr>cr_connection := c, cr_credential_generation := generation\<rparr>) (ts_connections ts)\<rparr>)))"

definition mark_integration_authorization_error :: "time \<Rightarrow> id \<Rightarrow> tool_state \<Rightarrow> tool_state" where
  "mark_integration_authorization_error now i ts = update_connection i
     (\<lambda>c. c\<lparr>ic_auth_state := IAS_Error, ic_error_code := Some ''authorization_start_failed'', ic_updated_at := now\<rparr>) ts"

definition authorization_command :: "tool_env \<Rightarrow> integration_connect_request \<Rightarrow> id \<Rightarrow> command_envelope" where
  "authorization_command env request instance_id = node_command env (tv_command_id env) (iq_node_id request)
     (TP_BeginIntegrationAuthorization instance_id (iq_integration_id request) LINEAR_UPSTREAM_URL LINEAR_WORKLOAD_NAME LINEAR_TOOL_NAMESPACE)"

text \<open>Asking the Node for the URL: a failure to send or to answer marks the connection.\<close>

definition begin_authorization ::
  "tool_env \<Rightarrow> integration_connect_request \<Rightarrow> id \<Rightarrow> (tool_state, notice) stateful" where
  "begin_authorization env request instance_id ts =
     (let mark = mark_integration_authorization_error (tv_now env) (iq_integration_id request) in
      case on_core (record_and_dispatch_command (tv_frame_id env) (tv_now env) (authorization_command env request instance_id)) ts of
        (Inl e, ts1) \<Rightarrow> (Inl e, mark ts1)
      | (Inr _, ts1) \<Rightarrow> (case tv_wait env (tv_command_id env) ts1 of
            (Inl e, ts2) \<Rightarrow> (Inl e, mark ts2)
          | (Inr n, ts2) \<Rightarrow> if no_status n = CS_Completed then (Inr n, ts2)
              else (Inl (BadRequest ''integration.authorization_failed''), mark ts2)))"

definition accept_authorization ::
  "tool_env \<Rightarrow> (string \<Rightarrow> uri option) \<Rightarrow> integration_connect_request \<Rightarrow> notice \<Rightarrow> (tool_state, string \<times> time) stateful" where
  "accept_authorization env parse_uri request n =
     h_bind (h_check (\<lambda>_. ok_or (tv_decode env (no_payload n)) Serialization)) (\<lambda>result.
     h_bind (h_check (\<lambda>_. ok_or (xr_authorization_url result) (BadRequest ''integration.authorization_url_missing''))) (\<lambda>url.
     h_bind (h_check (\<lambda>_. ok_or (xr_authorization_expires_at result) (BadRequest ''integration.authorization_expiry_missing''))) (\<lambda>expires_at.
     h_bind (h_check (\<lambda>_. validate_linear_authorization_url parse_uri (tv_now env) url expires_at)) (\<lambda>_.
     h_bind (h_modify (audit_tooling env ''integration.authorization_started'' (Some (iq_node_id request))
        (JObj [(''integration_id'', JStr (iq_integration_id request)), (''project_id'', opt_json JStr (iq_project_id request)),
          (''expires_at'', JStr (tv_timestamp env expires_at))]))) (\<lambda>_. h_ok (url, expires_at))))))"

definition connect_integration ::
  "tool_env \<Rightarrow> (string \<Rightarrow> uri option) \<Rightarrow> id \<Rightarrow> integration_connect_request
   \<Rightarrow> (tool_state, integration_connection_summary \<times> string \<times> time) stateful" where
  "connect_integration env parse_uri new_instance request =
     h_bind (h_check (\<lambda>_. ensure (iq_integration_id request = LINEAR_INTEGRATION_ID) (BadRequest ''integration.provider_unsupported''))) (\<lambda>_.
     h_bind (h_check (\<lambda>ts. ensure_node_commandable (tv_cfg env) (iq_node_id request) (tv_now env) (ts_db ts))) (\<lambda>_.
     h_bind (h_check (\<lambda>ts. ensure (case select_by connection_id (iq_integration_id request) (ts_connections ts) of None \<Rightarrow> True
         | Some r \<Rightarrow> ic_node_id (cr_connection r) = Some (iq_node_id request)) (BadRequest ''integration.node_change_unsupported''))) (\<lambda>_.
     h_bind (h_check (\<lambda>ts. Inr (case existing_dependency request ts of Some m \<Rightarrow> m | None \<Rightarrow> new_instance))) (\<lambda>instance_id.
     h_bind (h_run (store_connection (tv_now env) request instance_id)) (\<lambda>_.
     \<lambda>ts. case h_bind (begin_authorization env request instance_id) (\<lambda>n.
           h_bind (accept_authorization env parse_uri request n) (\<lambda>(url, expires_at).
           h_ok (linear_connection (tv_now env) request, url, expires_at))) (set_waiters (\<lambda>ws. tv_command_id env # ws) ts) of
        (r, ts') \<Rightarrow> (r, set_waiters (filter (\<lambda>c. c \<noteq> tv_command_id env)) ts'))))))"

definition disconnected :: "time \<Rightarrow> integration_connection_summary \<Rightarrow> integration_connection_summary" where
  "disconnected now c = c\<lparr>ic_desired_state := ID_Disabled, ic_auth_state := IAS_Disconnected,
     ic_authenticated_actor_label := None, ic_error_code := None, ic_updated_at := now\<rparr>"

definition store_disconnection :: "time \<Rightarrow> id \<Rightarrow> tool_state \<Rightarrow> tool_state" where
  "store_disconnection now i ts = ts\<lparr>
     ts_connections := update_where (\<lambda>r. connection_id r = i)
       (\<lambda>r. r\<lparr>cr_connection := disconnected now (cr_connection r), cr_credential_generation := cr_credential_generation r + 1\<rparr>) (ts_connections ts),
     ts_dependencies := update_where (\<lambda>m. mr_integration_id m = i)
       (\<lambda>m. m\<lparr>mr_desired_state := ID_Disabled, mr_updated_at := now\<rparr>) (ts_dependencies ts)\<rparr>"

definition disconnect_integration ::
  "tool_env \<Rightarrow> (id \<Rightarrow> id) \<Rightarrow> id \<Rightarrow> (tool_state, integration_connection_summary) stateful" where
  "disconnect_integration env fresh i =
     h_bind (h_check (\<lambda>ts. map_sum id (\<lambda>r. disconnected (tv_now env) (cr_connection r))
        (ok_or (select_by connection_id i (ts_connections ts)) (NotFound ''integration.not_found'')))) (\<lambda>c.
     h_bind (h_modify (store_disconnection (tv_now env) i)) (\<lambda>_.
     h_bind (case ic_node_id c of Some n \<Rightarrow> dispatch_dependency_desired_snapshots env fresh n | None \<Rightarrow> h_ok ()) (\<lambda>_.
     h_bind (h_modify (audit_tooling env ''integration.disconnected'' (ic_node_id c) (JObj [(''integration_id'', JStr i)]))) (\<lambda>_.
     h_ok c))))"

section \<open>Reading calls\<close>

record tool_calls_query =
  tq_limit :: "nat option"
  tq_node_id :: "id option"
  tq_project_id :: "id option"
  tq_project_placement_id :: "id option"
  tq_session_thread_id :: "id option"

definition scope_matches :: "id option \<Rightarrow> id option \<Rightarrow> bool" where
  "scope_matches wanted found \<longleftrightarrow> (case wanted of None \<Rightarrow> True | Some v \<Rightarrow> found = Some v)"

definition tool_call_matches_query :: "tool_call_row \<Rightarrow> tool_calls_query \<Rightarrow> bool" where
  "tool_call_matches_query item query \<longleftrightarrow>
     scope_matches (tq_node_id query) (tsc_node_id (tl_scope item)) \<and> scope_matches (tq_project_id query) (tsc_project_id (tl_scope item))
     \<and> scope_matches (tq_project_placement_id query) (tsc_project_placement_id (tl_scope item))
     \<and> scope_matches (tq_session_thread_id query) (tsc_session_thread_id (tl_scope item))"

definition list_tool_calls :: "nat \<Rightarrow> tool_state \<Rightarrow> tool_call_row list" where
  "list_tool_calls limit ts = take (min limit 100) (sort_key (\<lambda>r. (- tl_requested_at r, tl_tool_call_id r)) (ts_calls ts))"

text \<open>The filter runs on the hundred latest calls, so an older match is not found.\<close>

definition tool_calls_route :: "tool_calls_query \<Rightarrow> tool_state \<Rightarrow> tool_call_row list" where
  "tool_calls_route query ts = take (min (case tq_limit query of None \<Rightarrow> 50 | Some n \<Rightarrow> n) 100)
     (filter (\<lambda>r. tool_call_matches_query r query) (list_tool_calls 100 ts))"

definition load_tool_call_detail :: "id \<Rightarrow> tool_state \<Rightarrow> app_error + tool_call_row" where
  "load_tool_call_detail c ts = ok_or (find_tool_call ts c) (NotFound ''tool_call.not_found'')"

definition mcp_dependency_statuses :: "tool_state \<Rightarrow> mcp_dependency_status list" where
  "mcp_dependency_statuses ts = map mr_status (sort_key (\<lambda>m. (- mr_updated_at m, mr_dependency_instance_id m)) (ts_dependencies ts))"

definition integration_connections :: "tool_state \<Rightarrow> integration_connection_summary list" where
  "integration_connections ts = map cr_connection (sort_key (\<lambda>r. (- ic_updated_at (cr_connection r), connection_id r)) (ts_connections ts))"

end
