(* ===== verification/Tool_Search.thy ===== *)
theory Tool_Search
  imports Tool_Registry
begin

text \<open>
  Search over the registry (\<open>application/tooling.rs\<close>): filters, the ranking, and pages linked
  by signed cursors. The score is computed in floating point and is the parameter \<open>bm25\<close>, a
  number of any linear order; what it is given (term counts of the query in the document and in
  the collection) is computed here. \<open>cursor_bytes\<close> and \<open>cursor_of\<close> are the JSON encoding of a
  cursor and its decoding, \<open>binding_text\<close> the JSON text a cursor is bound to.
\<close>

definition TOOL_SEARCH_DEFAULT_LIMIT :: nat where "TOOL_SEARCH_DEFAULT_LIMIT = 10"
definition TOOL_SEARCH_MAX_LIMIT :: nat where "TOOL_SEARCH_MAX_LIMIT = 25"
definition TOOL_SEARCH_CURSOR_TTL_SECONDS :: int where "TOOL_SEARCH_CURSOR_TTL_SECONDS = 300"

record tool_search_filters =
  sf_source_kinds :: "tool_source_kind list"
  sf_risk_levels :: "tool_risk_level list"
  sf_availability_states :: "tool_availability_state list"

record search_tools_request =
  sq_scope :: tool_scope
  sq_query :: string
  sq_filters :: tool_search_filters
  sq_cursor :: "string option"
  sq_limit :: "nat option"

record tool_search_result =
  sr_tool_id :: id
  sr_display_name :: string
  sr_short_description :: string
  sr_source_kind :: tool_source_kind
  sr_risk_level :: tool_risk_level
  sr_availability_state :: tool_availability_state
  sr_unavailable_reason :: "tool_unavailable_reason option"
  sr_schema_hash :: string

record search_cursor =
  sc_offset :: nat
  sc_binding_hash :: string
  sc_expires_at :: time

record cursor_env =
  ck_mac :: "8 word list \<Rightarrow> 8 word list"
  ck_bytes :: "search_cursor \<Rightarrow> 8 word list"
  ck_of :: "8 word list \<Rightarrow> search_cursor option"
  ck_binding_text :: "tool_scope \<Rightarrow> string \<Rightarrow> tool_search_filters \<Rightarrow> string"
  ck_sha256 :: "string \<Rightarrow> string"
  ck_now :: time

section \<open>Cursors\<close>

definition search_cursor_binding :: "cursor_env \<Rightarrow> search_tools_request \<Rightarrow> string" where
  "search_cursor_binding ck q = ''sha256:'' @ ck_sha256 ck (ck_binding_text ck (sq_scope q) (sq_query q) (sq_filters q))"

definition create_search_cursor :: "cursor_env \<Rightarrow> search_tools_request \<Rightarrow> nat \<Rightarrow> string" where
  "create_search_cursor ck q offset =
     (let payload = ck_bytes ck \<lparr>sc_offset = offset, sc_binding_hash = search_cursor_binding ck q,
            sc_expires_at = ck_now ck + TOOL_SEARCH_CURSOR_TTL_SECONDS * 1000000000\<rparr>
      in ''v1.'' @ encode_hex payload @ ''.'' @ encode_hex (ck_mac ck payload))"

definition parse_search_cursor :: "cursor_env \<Rightarrow> search_tools_request \<Rightarrow> app_error + nat" where
  "parse_search_cursor ck q = (case sq_cursor q of None \<Rightarrow> Inr 0
     | Some encoded \<Rightarrow>
        (let invalid = BadRequest ''tool_search.invalid_cursor'' in
         case split_on CHR ''.'' encoded of
           [version, payload_hex, signature_hex] \<Rightarrow>
             and_then (ensure (version = ''v1'') invalid) (\<lambda>_.
             and_then (ok_or (decode_hex payload_hex) invalid) (\<lambda>payload.
             and_then (ok_or (decode_hex signature_hex) invalid) (\<lambda>signature.
             and_then (ensure (signature = ck_mac ck payload) invalid) (\<lambda>_.
             and_then (ok_or (ck_of ck payload) invalid) (\<lambda>cursor.
             and_then (ensure (\<not> (sc_expires_at cursor \<le> ck_now ck \<or> sc_binding_hash cursor \<noteq> search_cursor_binding ck q)) invalid) (\<lambda>_.
             Inr (sc_offset cursor)))))))
         | _ \<Rightarrow> Inl invalid))"

section \<open>Ranking\<close>

definition definition_matches_filters :: "tool_definition \<Rightarrow> tool_search_filters \<Rightarrow> bool" where
  "definition_matches_filters d f \<longleftrightarrow> (sf_source_kinds f = [] \<or> td_source_kind d \<in> set (sf_source_kinds f))
     \<and> (sf_risk_levels f = [] \<or> td_risk_level d \<in> set (sf_risk_levels f))"

definition availability_matches_filters :: "tool_availability \<Rightarrow> tool_search_filters \<Rightarrow> bool" where
  "availability_matches_filters a f \<longleftrightarrow> sf_availability_states f = [] \<or> ta_state a \<in> set (sf_availability_states f)"

record score_input =
  si_frequencies :: "(nat \<times> nat) list"
  si_document_length :: nat
  si_document_count :: nat
  si_total_length :: nat

text \<open>Per term of the query: how often it is in the document, and in how many documents it is.\<close>

definition score_input_of :: "string list \<Rightarrow> string list \<Rightarrow> string list list \<Rightarrow> score_input" where
  "score_input_of query_terms terms documents =
     \<lparr>si_frequencies = map (\<lambda>q. (length (filter (\<lambda>t. t = q) terms), length (filter (\<lambda>ts. q \<in> set ts) documents))) query_terms,
      si_document_length = length terms, si_document_count = length documents, si_total_length = sum_list (map length documents)\<rparr>"

text \<open>Highest score first; equal scores by tool id.\<close>

definition rank :: "('a \<Rightarrow> 's :: linorder) \<Rightarrow> ('a \<Rightarrow> id) \<Rightarrow> 'a list \<Rightarrow> 'a list" where
  "rank score key xs = rev (sort_key score (rev (sort_key key xs)))"

definition ranked_tools ::
  "(score_input \<Rightarrow> 's :: {linorder, zero}) \<Rightarrow> tool_env \<Rightarrow> search_tools_request \<Rightarrow> tool_state
   \<Rightarrow> app_error + (tool_definition \<times> tool_availability) list" where
  "ranked_tools bm25 env q ts =
     (let definitions = load_active_tool_definitions ts;
          documents = map (\<lambda>d. tokenize (normalize_search_document d)) definitions;
          query_terms = tokenize (sq_query q);
          score = (\<lambda>d. bm25 (score_input_of query_terms (tokenize (normalize_search_document d)) documents))
      in and_then (try_fold (\<lambda>d acc. if \<not> definition_matches_filters d (sq_filters q) then Inr acc
            else and_then (effective_tool_availability env d (sq_scope q) ts) (\<lambda>a.
              Inr (if availability_matches_filters a (sq_filters q) \<and> (query_terms = [] \<or> score d > 0) then acc @ [(d, a)] else acc)))
          definitions []) (\<lambda>found.
         Inr (rank (\<lambda>(d, _). score d) (\<lambda>(d, _). td_tool_id d) found)))"

definition search_result :: "tool_definition \<times> tool_availability \<Rightarrow> tool_search_result" where
  "search_result r = (case r of (d, a) \<Rightarrow> \<lparr>sr_tool_id = td_tool_id d, sr_display_name = td_display_name d,
     sr_short_description = td_short_description d, sr_source_kind = td_source_kind d, sr_risk_level = td_risk_level d,
     sr_availability_state = ta_state a, sr_unavailable_reason = ta_reason a, sr_schema_hash = td_schema_hash d\<rparr>)"

definition page_of :: "nat \<Rightarrow> nat \<Rightarrow> 'a list \<Rightarrow> 'a list" where
  "page_of offset limit xs = take limit (drop offset xs)"

definition search_tools ::
  "(score_input \<Rightarrow> 's :: {linorder, zero}) \<Rightarrow> tool_env \<Rightarrow> cursor_env \<Rightarrow> search_tools_request \<Rightarrow> tool_state
   \<Rightarrow> app_error + tool_search_result list \<times> string option" where
  "search_tools bm25 env ck q ts =
     (if \<not> tool_is_visible_to_actor (tsc_actor_ref (sq_scope q)) then Inr ([], None)
      else and_then (parse_search_cursor ck q) (\<lambda>offset.
      let limit = (case sq_limit q of None \<Rightarrow> TOOL_SEARCH_DEFAULT_LIMIT | Some n \<Rightarrow> n) in
      and_then (ensure (1 \<le> limit \<and> limit \<le> TOOL_SEARCH_MAX_LIMIT) (BadRequest ''tool_search.invalid_limit'')) (\<lambda>_.
      and_then (ranked_tools bm25 env q ts) (\<lambda>ranked.
      Inr (map search_result (page_of offset limit ranked),
        if length ranked > offset + limit then Some (create_search_cursor ck q (offset + limit)) else None)))))"

section \<open>Cursors survive\<close>

text \<open>What the two crates behind a cursor promise.\<close>

definition cursor_codec :: "cursor_env \<Rightarrow> bool" where
  "cursor_codec ck \<longleftrightarrow> (\<forall>c. ck_of ck (ck_bytes ck c) = Some c)"

lemma hex_no_dot: "CHR ''.'' \<notin> set (encode_hex bs)"
proof (induction bs)
  case (Cons b bs)
  have "hex_digit n \<noteq> CHR ''.''" if "n < 16" for n
  proof
    assume "hex_digit n = CHR ''.''"
    then have "of_char (hex_digit n) = (46 :: nat)" by simp
    then show False using of_hex_digit[OF that] by (simp split: if_splits)
  qed
  from this[OF byte_digits(1)[of b]] this[OF byte_digits(2)[of b]] show ?case using Cons by (simp add: encode_hex_def)
qed (simp add: encode_hex_def)

lemma cursor_roundtrip:
  assumes "cursor_codec ck" "sq_scope q' = sq_scope q" "sq_query q' = sq_query q" "sq_filters q' = sq_filters q"
    "sq_cursor q' = Some (create_search_cursor ck q offset)"
    "ck' = ck\<lparr>ck_now := now\<rparr>" "now < ck_now ck + 300 * 1000000000"
  shows "parse_search_cursor ck' q' = Inr offset"
proof -
  let ?c = "\<lparr>sc_offset = offset, sc_binding_hash = search_cursor_binding ck q,
     sc_expires_at = ck_now ck + TOOL_SEARCH_CURSOR_TTL_SECONDS * 1000000000\<rparr>"
  have "split_on CHR ''.'' (create_search_cursor ck q offset)
      = [''v1'', encode_hex (ck_bytes ck ?c), encode_hex (ck_mac ck (ck_bytes ck ?c))]"
    unfolding create_search_cursor_def Let_def
    using split_on_append[of "CHR ''.''" "''v1''"] split_on_append[OF hex_no_dot] split_on_whole[OF hex_no_dot] by simp
  moreover have "search_cursor_binding ck' q' = search_cursor_binding ck q"
    using assms(2-4,6) by (simp add: search_cursor_binding_def)
  ultimately show ?thesis using assms(1,5-7)
    by (simp add: parse_search_cursor_def decode_encode_hex cursor_codec_def TOOL_SEARCH_CURSOR_TTL_SECONDS_def)
qed

section \<open>Pages\<close>

lemma rank_set: "set (rank score key xs) = set xs"
  by (simp add: rank_def)

lemma rank_sorted: "sorted (map score (rev (rank score key xs)))"
  by (simp add: rank_def)

lemma pages_partition: "0 < limit \<Longrightarrow> concat (map (\<lambda>i. page_of (i * limit) limit xs) [0..<n]) = take (n * limit) xs"
proof (induction n)
  case (Suc n)
  have "take (n * limit) xs @ take limit (drop (n * limit) xs) = take (Suc n * limit) xs"
    by (metis add.commute mult_Suc take_add)
  then show ?case using Suc by (simp add: page_of_def)
qed simp

lemma search_page:
  assumes "search_tools bm25 env ck q ts = Inr (items, next)" "tool_is_visible_to_actor (tsc_actor_ref (sq_scope q))"
  obtains offset limit ranked where "parse_search_cursor ck q = Inr offset" "ranked_tools bm25 env q ts = Inr ranked"
    "limit = (case sq_limit q of None \<Rightarrow> 10 | Some n \<Rightarrow> n)" "1 \<le> limit" "limit \<le> 25"
    "items = map search_result (page_of offset limit ranked)"
    "next = (if length ranked > offset + limit then Some (create_search_cursor ck q (offset + limit)) else None)"
  using assms
  by (auto simp: search_tools_def Let_def result_simps TOOL_SEARCH_DEFAULT_LIMIT_def TOOL_SEARCH_MAX_LIMIT_def split: option.splits)

lemma ranked_same_request:
  "sq_scope q' = sq_scope q \<Longrightarrow> sq_query q' = sq_query q \<Longrightarrow> sq_filters q' = sq_filters q \<Longrightarrow>
   ranked_tools bm25 env q' ts = ranked_tools bm25 env q ts"
  by (simp only: ranked_tools_def)

end
