(* ===== verification/Tool_Facts.thy ===== *)
theory Tool_Facts
  imports Tool_Integrations Tool_Search Session_Facts
begin

text \<open>
  What the tool registry keeps: its own tables stay consistent, the command journal and the
  event log of Core keep their invariants under every tool operation, and a backend runs only
  behind the gates. The registry of the model satisfies what \<open>Node_Frames\<close> asks of one.
\<close>

section \<open>Steps of a backend\<close>

definition t_keeps :: "(tool_state \<Rightarrow> bool) \<Rightarrow> 'a tool_step \<Rightarrow> bool" where
  "t_keeps Q f \<longleftrightarrow> (\<forall>ts. Q ts \<longrightarrow> Q (snd (f ts)))"

lemma t_keeps_bind: "t_keeps Q f \<Longrightarrow> (\<And>x. t_keeps Q (g x)) \<Longrightarrow> t_keeps Q (t_bind f g)"
  unfolding t_keeps_def
proof (intro allI impI)
  fix ts assume f: "\<forall>ts. Q ts \<longrightarrow> Q (snd (f ts))" and g: "\<And>x. \<forall>ts. Q ts \<longrightarrow> Q (snd (g x ts))" and q: "Q ts"
  obtain r ts' where r: "f ts = (r, ts')" by (cases "f ts")
  have "Q ts'" using f q r by (metis snd_conv)
  then show "Q (snd (t_bind f g ts))" using g by (cases r) (simp_all add: t_bind_def r)
qed

lemma t_keeps_check: "t_keeps Q (t_check r)"
  by (simp add: t_keeps_def t_check_def)

lemma t_keeps_map: "h_keeps Q h \<Longrightarrow> t_keeps Q (t_map f h)"
  by (auto simp: t_keeps_def t_map_def h_keeps_def split: prod.splits)

lemma t_keeps_if: "t_keeps Q f \<Longrightarrow> t_keeps Q g \<Longrightarrow> t_keeps Q (if c then f else g)"
  by simp

lemma h_keeps_if: "h_keeps Q f \<Longrightarrow> h_keeps Q g \<Longrightarrow> h_keeps Q (if c then f else g)"
  by simp

lemma h_keeps_case_sum: "(\<And>x. h_keeps Q (f x)) \<Longrightarrow> (\<And>y. h_keeps Q (g y)) \<Longrightarrow> h_keeps Q (case_sum f g s)"
  by (cases s) simp_all

lemma h_keeps_case_option: "h_keeps Q f \<Longrightarrow> (\<And>y. h_keeps Q (g y)) \<Longrightarrow> h_keeps Q (case_option f g x)"
  by (cases x) simp_all

lemmas tool_intros = t_keeps_bind t_keeps_check t_keeps_map t_keeps_if
lemmas op_intros = h_keeps_bind h_keeps_check h_keeps_ok h_keeps_if h_keeps_case_sum h_keeps_case_option

section \<open>The contract of the tables\<close>

text \<open>What the record of a call needs.\<close>

locale call_property =
  fixes Q :: "tool_state \<Rightarrow> bool"
  assumes inserted: "Q ts \<Longrightarrow> insert_tool_call env d q p ts = Inr ts' \<Longrightarrow> Q ts'"
    and appended: "Q ts \<Longrightarrow> append_tool_call_event now c s j ts = Inr ts' \<Longrightarrow> Q ts'"
    and updated: "Q ts \<Longrightarrow> (\<And>r. tl_tool_call_id (f r) = tl_tool_call_id r) \<Longrightarrow> Q (update_call c f ts)"
    and audited: "Q ts \<Longrightarrow> Q (ts\<lparr>ts_core := (ts_core ts)\<lparr>co_db := (ts_db ts)\<lparr>db_audit := au\<rparr>\<rparr>\<rparr>)"
begin

lemma keeps_finish: "h_keeps Q (h_run (finish_tool_call env c s r e refs))"
proof (rule h_keeps_run)
  fix ts ts' assume q: "Q ts" and f: "finish_tool_call env c s r e refs ts = Inr ts'"
  have "append_tool_call_event (tv_now env) c s (finished_json env r e) (update_call c (finished_call env s r e refs) ts) = Inr ts'"
    using f by (simp add: finish_tool_call_def result_simps del: tool_call_terminal.simps)
  moreover have "Q (update_call c (finished_call env s r e refs) ts)" using updated[OF q] by (simp add: finished_call_def)
  ultimately show "Q ts'" using appended by blast
qed

lemma keeps_append: "h_keeps Q (append_event env s p)"
  using appended unfolding append_event_def by (intro h_keeps_run)

lemma keeps_fail: "h_keeps Q (fail_call env s e)"
  unfolding fail_call_def by (intro h_keeps_bind keeps_finish h_keeps_ok)

lemma keeps_deny: "h_keeps Q (deny_call env q)"
  using audited unfolding deny_call_def Let_def
  by (intro h_keeps_bind keeps_finish h_keeps_ok h_keeps_modify) (simp_all add: audit_tool_policy_def)

lemma keeps_insert: "h_keeps Q (h_run (insert_tool_call env d q p))"
  using inserted by (rule h_keeps_run)

lemma keeps_hold: "h_keeps Q (hold_call env q)"
  using audited updated unfolding hold_call_def Let_def
  by (intro h_keeps_bind keeps_append h_keeps_ok h_keeps_modify) (simp_all add: audit_tool_policy_def update_tool_call_state_def)

end

text \<open>What every operation of the registry needs.\<close>

locale tool_property = call_property Q for Q :: "tool_state \<Rightarrow> bool" +
  assumes snapshot_rows: "Q ts \<Longrightarrow> Q (ts\<lparr>ts_snapshots := sn\<rparr>)"
    and requested: "Q ts \<Longrightarrow> record_and_dispatch_command fid now cmd (ts_core ts) = Inr st \<Longrightarrow> Q (ts\<lparr>ts_core := st\<rparr>)"
    and waiter_list: "Q ts \<Longrightarrow> Q (ts\<lparr>ts_core := (ts_core ts)\<lparr>co_waiters := ws\<rparr>\<rparr>)"
    and registered: "Q ts \<Longrightarrow> register_tool_definitions now src k n ds ts = Inr ts' \<Longrightarrow> Q ts'"
    and dependency_stored: "Q ts \<Longrightarrow> upsert_dependency r ts = Inr ts' \<Longrightarrow> Q ts'"
    and connection_rows: "Q ts \<Longrightarrow> Q (ts\<lparr>ts_connections := cs\<rparr>)"
    and disconnected_rows: "Q ts \<Longrightarrow> Q (store_disconnection now i ts)"
begin

lemma keeps_on_core: "h_keeps Q (on_core (record_and_dispatch_command fid now cmd))"
  unfolding on_core_def
proof (rule h_keeps_run)
  fix ts ts' assume "Q ts" "map_sum id (\<lambda>st. ts\<lparr>ts_core := st\<rparr>) (record_and_dispatch_command fid now cmd (ts_core ts)) = Inr ts'"
  then show "Q ts'" using requested by (cases "record_and_dispatch_command fid now cmd (ts_core ts)") auto
qed

lemma waiters_kept: "Q ts \<Longrightarrow> Q (set_waiters f ts)"
  using waiter_list by (simp add: set_waiters_def)

lemma keeps_cancel: "Q ts \<Longrightarrow> Q (dispatch_tool_call_cancel env route reason ts)"
  using keeps_on_core by (simp add: dispatch_tool_call_cancel_def h_keeps_def)

lemma keeps_await: "(\<And>c. h_keeps Q (tv_wait env c)) \<Longrightarrow> t_keeps Q (await_external env route)"
  unfolding t_keeps_def
proof (intro allI impI)
  fix ts assume w: "\<And>c. h_keeps Q (tv_wait env c)" and q: "Q ts"
  obtain r ts' where r: "tv_wait env (tv_command_id env) ts = (r, ts')" by (cases "tv_wait env (tv_command_id env) ts")
  have "Q ts'" using w q r by (metis h_keeps_def snd_conv)
  then show "Q (snd (await_external env route ts))" using keeps_cancel by (cases r) (simp_all add: await_external_def r)
qed

lemma keeps_external:
  assumes "\<And>c. h_keeps Q (tv_wait env c)"
  shows "t_keeps Q (execute_external_tool env d q)"
proof -
  have route: "h_keeps Q (h_run (route_call env route))" for route
    using updated by (intro h_keeps_run) (auto simp: route_call_def result_simps)
  have inner: "t_keeps Q (t_bind (t_map (\<lambda>_. internal_tool_error) (h_run (route_call env route))) (\<lambda>_.
      t_bind (t_map (app_tool_failure env) (on_core (record_and_dispatch_command (tv_frame_id env) (tv_now env) (external_command env d q route))))
      (\<lambda>_. await_external env route)))" for route
    by (intro tool_intros route keeps_on_core keeps_await assms)
  show ?thesis unfolding execute_external_tool_def
  proof (intro tool_intros h_keeps_check)
    fix route show "t_keeps Q (\<lambda>ts. case t_bind (t_map (\<lambda>_. internal_tool_error) (h_run (route_call env route))) (\<lambda>_.
      t_bind (t_map (app_tool_failure env) (on_core (record_and_dispatch_command (tv_frame_id env) (tv_now env) (external_command env d q route))))
      (\<lambda>_. await_external env route)) (set_waiters ((#) (tv_command_id env)) ts) of
        (r, ts') \<Rightarrow> (r, set_waiters (filter (\<lambda>c. c \<noteq> tv_command_id env)) ts'))"
      using inner[of route] waiters_kept by (auto simp: t_keeps_def split: prod.split) (metis snd_conv)
  qed
qed

lemma keeps_route:
  assumes "\<And>c. h_keeps Q (tv_wait env c)" "\<And>t s a. h_keeps Q (tv_native env t s a)"
  shows "t_keeps Q (execute_tool_route env d q)"
proof -
  have normal: "t_keeps Q step \<Longrightarrow> t_keeps Q (t_bind step (\<lambda>(content, refs). t_check (normalize_tool_result env content refs)))" for step
    by (rule t_keeps_bind) (auto intro: t_keeps_check split: prod.split)
  have native: "t_keeps Q (native_read env q refs key)" for refs key
    unfolding native_read_def by (intro tool_intros assms)
  have ui: "t_keeps Q (dynamic_ui_create env q)" unfolding dynamic_ui_create_def by (intro tool_intros assms)
  show ?thesis unfolding execute_tool_route_def Let_def
    by (intro t_keeps_if normal native ui t_keeps_bind t_keeps_map t_keeps_check keeps_external assms)
qed

lemma keeps_run_call:
  assumes "\<And>c. h_keeps Q (tv_wait env c)" "\<And>t s a. h_keeps Q (tv_native env t s a)"
  shows "h_keeps Q (run_call env d q)"
  unfolding h_keeps_def
proof (intro allI impI)
  fix ts assume q: "Q ts"
  obtain r ts' where r: "execute_tool_route env d q ts = (r, ts')" by (cases "execute_tool_route env d q ts")
  have t: "Q ts'" using keeps_route[OF assms] q r by (metis t_keeps_def snd_conv)
  show "Q (snd (run_call env d q ts))"
  proof (cases r)
    case (Inl e)
    then show ?thesis using keeps_fail t by (simp add: run_call_def r h_keeps_def)
  next
    case (Inr x)
    obtain result refs where x: "x = (result, refs)" by (cases x)
    have "h_keeps Q (h_bind (h_run (finish_tool_call env (tv_call_id env) TCS_Completed (Some (redacted_result env d result)) None refs))
       (\<lambda>_. h_ok (response env TCS_Completed (Some (redacted_result env d result)) None)))"
      by (intro h_keeps_bind keeps_finish h_keeps_ok)
    then show ?thesis using t by (simp add: run_call_def r Inr x h_keeps_def Let_def)
  qed
qed

lemma keeps_execute:
  assumes "\<And>c. h_keeps Q (tv_wait env c)" "\<And>t s a. h_keeps Q (tv_native env t s a)"
  shows "h_keeps Q (execute_tool env q)"
proof -
  have snap: "h_keeps Q (h_run (persist_session_tool_snapshot now s d))" for now s d
    using snapshot_rows by (intro h_keeps_run) (auto simp: persist_session_tool_snapshot_def Let_def result_simps split: option.splits)
  have start: "h_keeps Q (h_run (mark_tool_call_started env c))" for c
    unfolding mark_tool_call_started_def by (rule h_keeps_run, rule appended[OF updated]) (simp_all add: started_call_def)
  have auth: "h_keeps Q (authorized_call env d q)" for d
    unfolding authorized_call_def
    by (intro op_intros keeps_append keeps_fail snap start keeps_run_call assms)
  have body: "h_keeps Q (h_bind (h_run (insert_tool_call env d q p)) (\<lambda>_. h_bind (append_event env s j) (\<lambda>_.
      if p = PD_Deny then deny_call env q else if p = PD_RequireApproval then hold_call env q else authorized_call env d q)))" for d p s j
    by (intro op_intros keeps_insert keeps_append keeps_deny keeps_hold auth)
  show ?thesis unfolding h_keeps_def
  proof (intro allI impI)
    fix ts assume t: "Q ts"
    show "Q (snd (execute_tool env q ts))"
    proof (cases "load_tool_definition (etr_tool_id q) ts")
      case (Inl e)
      then show ?thesis using t by (cases e) (simp_all add: execute_tool_def)
    next
      case (Inr d)
      then show ?thesis using body[of d] t by (simp add: execute_tool_def Let_def h_keeps_def)
    qed
  qed
qed

lemma keeps_status: "h_keeps Q (persist_dependency_status s)"
  using dependency_stored connection_rows unfolding persist_dependency_status_def
  by (intro h_keeps_bind h_keeps_run h_keeps_modify)
    (simp_all add: update_connection_from_dependency_status_def update_connection_def)

lemma keeps_terminal_event: "h_keeps Q (project_terminal_tooling_event env e)"
  unfolding project_terminal_tooling_event_def
  by (intro h_keeps_bind h_keeps_check) (cases "tev_payload e"; simp add: keeps_finish h_keeps_ok)

lemma keeps_project: "h_keeps Q (project_tooling_command_result env c s p b)"
proof -
  have reg: "h_keeps Q (h_run (register_tool_definitions now src k n ds))" for now src k n ds
    using registered by (intro h_keeps_run)
  have "h_keeps Q (h_bind (h_check (\<lambda>_. ok_or (tv_decode env p) Serialization)) (\<lambda>result.
           h_bind (case xr_status result of None \<Rightarrow> h_ok ()
             | Some s \<Rightarrow> persist_dependency_status (s\<lparr>ds_node_id := node\<rparr>)) (\<lambda>_.
           h_bind (if xr_definitions result = [] then h_ok ()
             else h_bind (h_check (\<lambda>_. ensure (\<not> list_ex foreign_definition (xr_definitions result))
                 (BadRequest ''tool.definition_source_invalid''))) (\<lambda>_.
               h_run (register_tool_definitions (tv_now env) LINEAR_SOURCE_ID TSK_ExternalMcp ''Linear remote MCP'' (xr_definitions result)))) (\<lambda>_.
           if b then (case xr_event result of Some event \<Rightarrow> project_terminal_tooling_event env event | None \<Rightarrow> h_ok ())
           else h_ok ()))))" for node
    by (intro op_intros keeps_status keeps_terminal_event reg)
  then show ?thesis by (auto simp: h_keeps_def project_tooling_command_result_def split: option.splits)
qed

lemma send_all_kept: "Q (ts\<lparr>ts_core := st\<rparr>) \<Longrightarrow> send_all env cs st = (r, st') \<Longrightarrow> Q (ts\<lparr>ts_core := st'\<rparr>)"
proof (induction cs arbitrary: st)
  case (Cons c cs)
  show ?case
  proof (cases "record_and_dispatch_command (tv_frame_id env) (tv_now env) c st")
    case (Inr st1)
    then have "Q (ts\<lparr>ts_core := st1\<rparr>)" using requested[OF Cons.prems(1), of "tv_frame_id env" "tv_now env" c st1] by simp
    then show ?thesis using Cons Inr by simp
  qed (use Cons.prems in simp)
qed simp

lemma keeps_desired: "h_keeps Q (dispatch_dependency_desired_snapshots env fresh n)"
  unfolding h_keeps_def dispatch_dependency_desired_snapshots_def
  using send_all_kept[of "ts_core ts" ts for ts] by (auto split: prod.split)

lemma keeps_disconnect: "h_keeps Q (disconnect_integration env fresh i)"
  unfolding disconnect_integration_def
  by (intro op_intros keeps_desired h_keeps_modify) (simp_all add: disconnected_rows audited audit_tooling_def)

lemma keeps_begin:
  assumes "\<And>c. h_keeps Q (tv_wait env c)"
  shows "h_keeps Q (begin_authorization env q i)"
  unfolding h_keeps_def
proof (intro allI impI)
  fix ts assume t: "Q ts"
  have mark: "Q t \<Longrightarrow> Q (mark_integration_authorization_error now j t)" for now j t
    using connection_rows by (simp add: mark_integration_authorization_error_def update_connection_def)
  obtain x t1 where x: "on_core (record_and_dispatch_command (tv_frame_id env) (tv_now env) (authorization_command env q i)) ts = (x, t1)"
    by fastforce
  have t1: "Q t1" using keeps_on_core t x by (metis h_keeps_def snd_conv)
  obtain y t2 where y: "tv_wait env (tv_command_id env) t1 = (y, t2)" by fastforce
  have "Q t2" using assms t1 y by (metis h_keeps_def snd_conv)
  then show "Q (snd (begin_authorization env q i ts))"
    using mark t1 x y by (cases x; cases y) (simp_all add: begin_authorization_def Let_def)
qed

lemma keeps_authorization: "h_keeps Q (accept_authorization env u q n)"
  unfolding accept_authorization_def
  by (intro op_intros h_keeps_modify) (simp add: audit_tooling_def audited)

lemma keeps_connect:
  assumes "\<And>c. h_keeps Q (tv_wait env c)"
  shows "h_keeps Q (connect_integration env u i q)"
proof -
  have store: "h_keeps Q (h_run (store_connection now q m))" for now m
    using dependency_stored[OF connection_rows] by (intro h_keeps_run) (auto simp: store_connection_def Let_def result_simps)
  have ask: "h_keeps Q (h_bind (begin_authorization env q m) (\<lambda>n. h_bind (accept_authorization env u q n)
      (\<lambda>(url, expires_at). h_ok (linear_connection (tv_now env) q, url, expires_at))))" for m
    by (intro h_keeps_bind keeps_begin keeps_authorization assms) (auto intro: h_keeps_ok split: prod.split)
  have wait: "h_keeps Q (\<lambda>ts. case f (set_waiters g ts) of (r, ts') \<Rightarrow> (r, set_waiters h ts'))" if "h_keeps Q f" for f g h
    using that waiters_kept by (auto simp: h_keeps_def split: prod.split) (metis snd_conv)
  show ?thesis unfolding connect_integration_def by (intro h_keeps_bind h_keeps_check store wait[OF ask])
qed

end

section \<open>Core under the registry\<close>

locale core_contract =
  fixes P :: "core_state \<Rightarrow> bool"
  assumes core_requested: "P st \<Longrightarrow> record_and_dispatch_command fid now c st = Inr st' \<Longrightarrow> P st'"
    and core_audited: "P st \<Longrightarrow> P (st\<lparr>co_db := (co_db st)\<lparr>db_audit := au\<rparr>\<rparr>)"
    and core_waiters: "P st \<Longrightarrow> P (st\<lparr>co_waiters := ws\<rparr>)"

sublocale core_contract \<subseteq> on_tools: tool_property "\<lambda>ts. P (ts_core ts)"
proof unfold_locales
  fix ts ts' r assume "P (ts_core ts)" "upsert_dependency r ts = Inr ts'"
  then show "P (ts_core ts')" by (auto simp: upsert_dependency_def result_simps)
next
  fix ts ts' now src k n ds assume "P (ts_core ts)" "register_tool_definitions now src k n ds ts = Inr ts'"
  then show "P (ts_core ts')" by (auto simp: register_tool_definitions_def Let_def result_simps)
next
  fix ts ts' env d q p assume "P (ts_core ts)" "insert_tool_call env d q p ts = Inr ts'"
  then show "P (ts_core ts')" by (auto simp: insert_tool_call_def result_simps)
next
  fix ts ts' now c s j assume "P (ts_core ts)" "append_tool_call_event now c s j ts = Inr ts'"
  then show "P (ts_core ts')" by (auto simp: append_tool_call_event_def result_simps)
qed (auto simp: update_call_def store_disconnection_def core_requested core_audited core_waiters)

interpretation journal_tools: core_contract journal_ok
proof
  fix st ws assume "journal_ok st"
  then show "journal_ok (st\<lparr>co_waiters := ws\<rparr>)" by (simp add: journal_ok_def)
next
  fix st au assume "journal_ok st"
  then show "journal_ok (st\<lparr>co_db := (co_db st)\<lparr>db_audit := au\<rparr>\<rparr>)"
    using outbox_inv_cong[of "(co_db st)\<lparr>db_audit := au\<rparr>" "co_db st"] by (simp add: journal_ok_def)
next
  fix st fid now c st' assume "journal_ok st" "record_and_dispatch_command fid now c st = Inr st'"
  then show "journal_ok st'" using record_dispatch_inv by (auto simp: journal_ok_def)
qed

interpretation log_tools: core_contract "log_ok K" for K
proof
  fix st ws assume "log_ok K st"
  then show "log_ok K (st\<lparr>co_waiters := ws\<rparr>)" by (simp add: log_ok_def queued_acks_def)
next
  fix st au assume "log_ok K st"
  then show "log_ok K (st\<lparr>co_db := (co_db st)\<lparr>db_audit := au\<rparr>\<rparr>)" using log_ok_same[OF same_log_tables] by simp
next
  fix st fid now c st' assume "log_ok K st" "record_and_dispatch_command fid now c st = Inr st'"
  then show "log_ok K st'" using log_ok_same[OF record_dispatch_log] by blast
qed

interpretation settled_tools: core_contract "settled c s p" for c s p
proof
  fix st fid now cmd st' assume k: "settled c s p st" and r: "record_and_dispatch_command fid now cmd st = Inr st'"
  obtain db where db: "record_command_on_connection cmd (co_db st) = Inr db"
    and st': "st' = dispatch_pending_commands fid now (target_node_id (ce_target cmd))
      (st\<lparr>co_db := update_command_state (ce_command_id cmd) CS_PendingDispatch now db\<rparr>)"
    using r by (auto simp: record_and_dispatch_command_def record_command_def result_simps)
  have "c \<noteq> ce_command_id cmd" "find_command db c = find_command (co_db st) c"
  proof -
    obtain db1 where i: "insert_command CS_Recorded cmd (upsert_actor (ce_actor_ref cmd) (ce_issued_at cmd) (co_db st)) = Inr db1"
      and e: "db = enqueue_dispatch cmd db1"
      using db by (auto simp: record_command_on_connection_def result_simps)
    have "find_command (co_db st) (ce_command_id cmd) = None" using i by (auto simp: insert_command_def result_simps)
    then show n: "c \<noteq> ce_command_id cmd" using k by (auto simp: settled_def)
    show "find_command db c = find_command (co_db st) c" using find_command_insert(1)[OF i, of c] n by (simp add: e)
  qed
  then have "settled c s p (st\<lparr>co_db := update_command_state (ce_command_id cmd) CS_PendingDispatch now db\<rparr>)"
    using k by (auto simp: settled_def table_simps)
  then show "settled c s p st'" unfolding st' by (rule settled_cmd.dispatch_keeps)
qed (auto simp: settled_def)

section \<open>The registry of the control channel\<close>

text \<open>What a frame handler sees of the registry: its effect on Core, for given tables.\<close>

definition core_tooling :: "tool_env \<Rightarrow> (id \<Rightarrow> id) \<Rightarrow> tool_state \<Rightarrow> tooling" where
  "core_tooling env fresh ts =
     \<lparr>to_reconcile = (\<lambda>n st. map_prod id ts_core (dispatch_dependency_desired_snapshots env fresh n (ts\<lparr>ts_core := st\<rparr>))),
      to_project = (\<lambda>c s p b st. map_prod id ts_core (project_tooling_command_result env c s p b (ts\<lparr>ts_core := st\<rparr>)))\<rparr>"

context core_contract
begin

lemma core_tooling_ok: "tooling_ok P (core_tooling env fresh ts)"
  using on_tools.keeps_desired on_tools.keeps_project
  by (simp add: tooling_ok_def core_tooling_def h_keeps_def)

end

end
