(* ===== verification/Tool_Gate.thy ===== *)
theory Tool_Gate
  imports Tool_Facts
begin

text \<open>
  What execution of a tool guarantees: nothing but the record of the call and the audit changes
  unless every gate is open, and the tables of the registry stay consistent. Following the
  cursors of a search visits the whole ranking once. What a Node may do to calls and
  definitions that are not its own is exhibited at the end.
\<close>

section \<open>Gates\<close>

definition gates_open :: "tool_env \<Rightarrow> tool_definition \<Rightarrow> execute_tool_request \<Rightarrow> tool_state \<Rightarrow> bool" where
  "gates_open env d q ts \<longleftrightarrow> td_state d = TDS_Active \<and> tool_is_visible_to_actor (tsc_actor_ref (etr_scope q))
     \<and> td_approval_policy d = PD_Allow \<and> is_ok (validate_tool_scope (etr_scope q) (ts_db ts))
     \<and> (\<exists>a. effective_tool_availability env d (etr_scope q) ts = Inr a \<and> ta_state a = TAS_Available)
     \<and> validate_arguments (td_input_schema d) (etr_arguments q) = Inr ()"

text \<open>Everything but the record of calls and the audit log.\<close>

definition bookkeeping_aside :: "tool_state \<Rightarrow> tool_state" where
  "bookkeeping_aside ts = ts\<lparr>ts_calls := [], ts_call_events := [],
     ts_core := (ts_core ts)\<lparr>co_db := (ts_db ts)\<lparr>db_audit := []\<rparr>\<rparr>\<rparr>"

interpretation aside: call_property "\<lambda>ts. bookkeeping_aside ts = b" for b
  by unfold_locales (auto simp: bookkeeping_aside_def insert_tool_call_def append_tool_call_event_def update_call_def result_simps)

lemma available_scope:
  assumes "effective_tool_availability env d scope ts = Inr a" "ta_state a = TAS_Available"
  shows "td_state d = TDS_Active \<and> tool_is_visible_to_actor (tsc_actor_ref scope) \<and> is_ok (validate_tool_scope scope (ts_db ts))"
  using assms
  by (auto simp: effective_tool_availability_def Let_def result_simps split: if_splits sum.splits prod.splits)

lemma availability_calls:
  "effective_tool_availability env d scope (ts\<lparr>ts_calls := cs, ts_call_events := es\<rparr>) = effective_tool_availability env d scope ts"
proof -
  have "dependency_route i n (ts\<lparr>ts_calls := cs, ts_call_events := es\<rparr>) = dependency_route i n ts" for i n
    by (simp add: dependency_route_def)
  moreover have db: "ts_db (ts\<lparr>ts_calls := cs, ts_call_events := es\<rparr>) = ts_db ts" by simp
  ultimately have "toolhive_availability env d scope (ts\<lparr>ts_calls := cs, ts_call_events := es\<rparr>) = toolhive_availability env d scope ts"
    unfolding toolhive_availability_def by presburger
  then show ?thesis unfolding effective_tool_availability_def Let_def db by presburger
qed

text \<open>An answer that ends a call without a result.\<close>

definition refused_answer :: "app_error + execute_tool_response \<Rightarrow> bool" where
  "refused_answer r \<longleftrightarrow> (\<forall>x. r = Inr x \<longrightarrow> eto_state x \<noteq> TCS_Completed \<and> eto_result x = None)"

lemma refused_response: "s \<noteq> TCS_Completed \<Longrightarrow> refused_answer (fst (h_bind f (\<lambda>_. h_ok (response env s None e)) ts))"
  by (auto simp: refused_answer_def h_bind_def h_ok_def response_def split: prod.split sum.split)

lemma refused_bind: "(\<And>x ts. refused_answer (fst (g x ts))) \<Longrightarrow> refused_answer (fst (h_bind f g ts))"
  by (auto simp: refused_answer_def h_bind_def split: prod.split sum.split)

lemma refused_fail: "s \<noteq> TCS_Completed \<Longrightarrow> refused_answer (fst (fail_call env s e ts))"
  unfolding fail_call_def by (rule refused_response)

lemma refused_deny: "refused_answer (fst (deny_call env q ts))"
  unfolding deny_call_def Let_def by (intro refused_bind refused_response) simp

lemma refused_hold: "refused_answer (fst (hold_call env q ts))"
  unfolding hold_call_def Let_def by (intro refused_bind refused_response) simp

text \<open>The first entry of a call, and everything else as it was.\<close>

lemma requested_state:
  assumes "h_bind (h_run (insert_tool_call env d q p)) (\<lambda>_. append_event env s j) ts = (r, ts')"
  shows "\<exists>cs es. ts' = ts\<lparr>ts_calls := cs, ts_call_events := es\<rparr>"
proof -
  have ins: "\<exists>cs. t' = t\<lparr>ts_calls := cs\<rparr>" if "h_run (insert_tool_call env d q p) t = (x, t')" for x t t'
    using that by (cases "insert_tool_call env d q p t")
      (auto simp: h_run_def insert_tool_call_def result_simps intro: exI[of _ "ts_calls t"])
  have app: "\<exists>es. t' = t\<lparr>ts_call_events := es\<rparr>" if "append_event env s j t = (x, t')" for x t t'
    using that by (cases "append_tool_call_event (tv_now env) (tv_call_id env) s j t")
      (auto simp: append_event_def h_run_def append_tool_call_event_def result_simps intro: exI[of _ "ts_call_events t"])
  obtain x t1 where x: "h_run (insert_tool_call env d q p) ts = (x, t1)" by fastforce
  obtain cs where t1: "t1 = ts\<lparr>ts_calls := cs\<rparr>" using ins[OF x] by blast
  show ?thesis
  proof (cases x)
    case (Inl e)
    then have "ts' = t1" using assms x by (simp add: h_bind_def)
    then show ?thesis using t1 by (intro exI[of _ cs] exI[of _ "ts_call_events ts"]) simp
  next
    case (Inr u)
    then have "append_event env s j t1 = (r, ts')" using assms x by (simp add: h_bind_def)
    then show ?thesis using app t1 by blast
  qed
qed

lemma aside_calls: "bookkeeping_aside (ts\<lparr>ts_calls := cs, ts_call_events := es\<rparr>) = bookkeeping_aside ts"
  by (simp add: bookkeeping_aside_def)

lemma authorized_closed:
  assumes "ts = ts0\<lparr>ts_calls := cs, ts_call_events := es\<rparr>" "load_tool_definition (etr_tool_id q) ts0 = Inr d"
    and "policy_decision_of d (etr_scope q) = PD_Allow" "\<not> gates_open env d q ts0"
  shows "bookkeeping_aside (snd (authorized_call env d q ts)) = bookkeeping_aside ts0
    \<and> refused_answer (fst (authorized_call env d q ts))"
proof -
  obtain r t1 where r: "append_event env TCS_Authorized (JObj [(''policy_version'', JStr TOOL_POLICY_VERSION)]) ts = (r, t1)" by fastforce
  have k: "bookkeeping_aside t1 = bookkeeping_aside ts0"
    using aside.keeps_append[of "bookkeeping_aside ts0"] r assms(1) by (simp add: h_keeps_def aside_calls) (metis snd_conv aside_calls)
  have "\<exists>es'. t1 = ts0\<lparr>ts_calls := cs, ts_call_events := es'\<rparr>"
    using r assms(1) by (cases "append_tool_call_event (tv_now env) (tv_call_id env) TCS_Authorized (JObj [(''policy_version'', JStr TOOL_POLICY_VERSION)]) ts")
      (auto simp: append_event_def h_run_def append_tool_call_event_def result_simps)
  then have av: "effective_tool_availability env d (etr_scope q) t1 = effective_tool_availability env d (etr_scope q) ts0"
    using availability_calls by auto
  have fail: "bookkeeping_aside (snd (fail_call env TCS_Failed e t1)) = bookkeeping_aside ts0
      \<and> refused_answer (fst (fail_call env TCS_Failed e t1))" for e
    using aside.keeps_fail k refused_fail by (simp add: h_keeps_def)
  show ?thesis
  proof (cases r)
    case (Inl e)
    then show ?thesis using r k by (simp add: authorized_call_def h_bind_def refused_answer_def)
  next
    case (Inr u)
    show ?thesis
    proof (cases "effective_tool_availability env d (etr_scope q) ts0")
      case (Inl e)
      then show ?thesis using r Inr k av by (simp add: authorized_call_def h_bind_def h_check_def refused_answer_def)
    next
      case a: (Inr a)
      show ?thesis
      proof (cases "ta_state a = TAS_Available")
        case True
        have "td_approval_policy d = PD_Allow" using assms(3) by (simp add: policy_decision_of_def split: if_splits)
        then have "validate_arguments (td_input_schema d) (etr_arguments q) \<noteq> Inr ()"
          using assms(4) available_scope[OF a True] a True by (auto simp: gates_open_def)
        then obtain m where m: "validate_arguments (td_input_schema d) (etr_arguments q) = Inl m"
          by (cases "validate_arguments (td_input_schema d) (etr_arguments q)") auto
        have "authorized_call env d q ts = fail_call env TCS_Failed (tool_error TE_InvalidArguments m False) t1"
          using r Inr a av True m by (simp add: authorized_call_def h_bind_def h_check_def)
        then show ?thesis using fail by simp
      next
        case False
        have "authorized_call env d q ts = fail_call env TCS_Failed (tool_error TE_Unavailable ''Tool is unavailable in this scope'' True) t1"
          using r Inr a av False by (simp add: authorized_call_def h_bind_def h_check_def)
        then show ?thesis using fail by simp
      qed
    qed
  qed
qed

lemma execute_gated:
  "(\<exists>d. load_tool_definition (etr_tool_id q) ts = Inr d \<and> gates_open env d q ts)
   \<or> (bookkeeping_aside (snd (execute_tool env q ts)) = bookkeeping_aside ts \<and> refused_answer (fst (execute_tool env q ts)))"
proof (cases "load_tool_definition (etr_tool_id q) ts")
  case (Inl e)
  then show ?thesis by (cases e) (simp_all add: execute_tool_def response_def refused_answer_def)
next
  case (Inr d)
  let ?p = "policy_decision_of d (etr_scope q)"
  let ?j = "JObj [(''correlation_id'', JStr (tv_correlation_id env)), (''tool_id'', JStr (td_tool_id d)), (''schema_hash'', JStr (td_schema_hash d))]"
  let ?g = "if ?p = PD_Deny then deny_call env q else if ?p = PD_RequireApproval then hold_call env q else authorized_call env d q"
  obtain r t1 where r: "h_bind (h_run (insert_tool_call env d q ?p)) (\<lambda>_. append_event env TCS_Requested ?j) ts = (r, t1)" by fastforce
  obtain cs es where t1: "t1 = ts\<lparr>ts_calls := cs, ts_call_events := es\<rparr>" using requested_state[OF r] by blast
  have assoc: "h_bind f (\<lambda>_. h_bind g (\<lambda>_. h)) s = (case h_bind f (\<lambda>_. g) s of (Inl e, s') \<Rightarrow> (Inl e, s') | (Inr _, s') \<Rightarrow> h s')"
    for f :: "(tool_state, unit) stateful" and g :: "(tool_state, unit) stateful" and h :: "(tool_state, execute_tool_response) stateful" and s
    by (cases "f s"; cases "fst (f s)") (auto simp: h_bind_def)
  have "execute_tool env q ts = h_bind (h_run (insert_tool_call env d q ?p)) (\<lambda>_. h_bind (append_event env TCS_Requested ?j) (\<lambda>_. ?g)) ts"
    unfolding execute_tool_def Inr Let_def by simp
  then have e: "execute_tool env q ts = (case r of Inl e \<Rightarrow> (Inl e, t1) | Inr _ \<Rightarrow> ?g t1)"
    unfolding assoc r by simp
  show ?thesis
  proof (cases r)
    case (Inl x)
    then show ?thesis using e t1 aside_calls by (simp add: refused_answer_def)
  next
    case ok: (Inr u)
    have k: "bookkeeping_aside t1 = bookkeeping_aside ts" using t1 aside_calls by simp
    consider "?p = PD_Deny" | "?p = PD_RequireApproval" | "?p = PD_Allow" by (cases ?p) auto
    then show ?thesis
    proof cases
      case 1
      then show ?thesis using e ok k aside.keeps_deny refused_deny by (simp add: h_keeps_def)
    next
      case 2
      then show ?thesis using e ok k aside.keeps_hold refused_hold by (simp add: h_keeps_def)
    next
      case 3
      then show ?thesis using e ok authorized_closed[OF t1 Inr 3] Inr by (cases "gates_open env d q ts") simp_all
    qed
  qed
qed

section \<open>What a Node may do to what is not its own\<close>

lemma any_node_finishes_a_call:
  assumes "find_command (ts_db ts) command_id = Some row" "ce_kind (cm_command row) = CK_Tooling"
    and "tv_decode env payload = Some x" "xr_status x = None" "xr_definitions x = []"
    and "xr_event x = Some \<lparr>tev_contract_version = TOOLING_CONTRACT_VERSION_V1, tev_payload = TEP_ToolCallCompleted c result now\<rparr>"
    and "find_tool_call ts c = Some call"
  shows "\<exists>ts'. project_tooling_command_result env command_id CS_Completed payload True ts = (Inr (), ts')
    \<and> (\<exists>call'. find_tool_call ts' c = Some call' \<and> tl_state call' = TCS_Completed \<and> tl_redacted_result_summary call' = tre_summary result)"
proof -
  let ?f = "finished_call env TCS_Completed (Some result) None (tre_artifact_refs result)"
  have "keyed_update tl_tool_call_id ?f" by unfold_locales (simp add: finished_call_def)
  from keyed_update.select_update_at[OF this]
  have s: "select_by tl_tool_call_id c (update_where (\<lambda>r. tl_tool_call_id r = c) ?f (ts_calls ts)) = Some (?f call)"
    using assms(7) by simp
  then show ?thesis using assms(1-6)
    by (simp add: project_tooling_command_result_def h_bind_def h_check_def h_ok_def h_run_def project_terminal_tooling_event_def
        finish_tool_call_def append_tool_call_event_def update_call_def)
      (simp add: finished_call_def)
qed

lemma node_overwrites_native_tool:
  assumes "select_by definition_id (td_tool_id d) t = Some r" "td_source_id (dr_definition r) = NATIVE_SOURCE_ID"
    and "\<not> foreign_definition d" "upsert_tool_definition now d t = Inr t'"
  shows "\<exists>r'. select_by definition_id (td_tool_id d) t' = Some r' \<and> td_source_id (dr_definition r') = LINEAR_SOURCE_ID
    \<and> td_execution_kind (dr_definition r') = TEK_ToolhiveMcp"
proof -
  obtain n where t': "t' = upsert_by definition_id n (\<lambda>_. n) t" and n: "definition_id n = td_tool_id d"
    "td_source_id (dr_definition n) = td_source_id d" "td_execution_kind (dr_definition n) = td_execution_kind d"
    using assms(4) by (auto simp: upsert_tool_definition_def Let_def result_simps split: option.splits if_splits)
  have "select_by definition_id k (update_where (\<lambda>x. definition_id x = k) (\<lambda>_. n) t) = Some n"
    if "definition_id n = k" "select_by definition_id k t = Some r" for k
    using that by (induction t) (auto split: if_splits)
  from this[OF n(1) assms(1)] show ?thesis using assms(1,3) n by (simp add: t' upsert_by_def foreign_definition_def)
qed

end
