(* ===== verification/Tool_Tables.thy ===== *)
theory Tool_Tables
  imports Tool_Gate
begin

text \<open>
  The tables of the registry: tool ids are unique, versions are positive, the entries of a call
  are numbered 1, 2, 3, and so on, and belong to a call that exists, and an integration has one
  dependency per Node. Every operation keeps this, and a page of a search is a slice of one
  ranking, so that following the cursors visits each match once.
\<close>

section \<open>Consistent tables\<close>

definition calls_numbered :: "tool_state \<Rightarrow> bool" where
  "calls_numbered ts \<longleftrightarrow> (\<forall>c. call_sequences c ts = [1..int (length (call_sequences c ts))])
     \<and> te_tool_call_id ` set (ts_call_events ts) \<subseteq> tl_tool_call_id ` set (ts_calls ts)
     \<and> unique_key tl_tool_call_id (ts_calls ts)"

definition definitions_ok :: "definition_row list \<Rightarrow> bool" where
  "definitions_ok t \<longleftrightarrow> unique_key definition_id t \<and> (\<forall>r\<in>set t. 1 \<le> td_version (dr_definition r) \<and> td_version (dr_definition r) < 2 ^ 63)"

definition dependencies_ok :: "dependency_instance_row list \<Rightarrow> bool" where
  "dependencies_ok t \<longleftrightarrow> unique_key mr_dependency_instance_id t \<and> unique_key (\<lambda>m. (mr_integration_id m, mr_node_id m)) t"

definition tables_ok :: "tool_state \<Rightarrow> bool" where
  "tables_ok ts \<longleftrightarrow> calls_numbered ts \<and> definitions_ok (ts_definitions ts) \<and> dependencies_ok (ts_dependencies ts)"

lemma numbered_append:
  assumes "calls_numbered ts" "append_tool_call_event now c s j ts = Inr ts'"
  shows "calls_numbered ts'"
proof -
  have f: "find_tool_call ts c \<noteq> None" and ts': "ts' = ts\<lparr>ts_call_events := ts_call_events ts @
      [\<lparr>te_tool_call_id = c, te_sequence = next_after (call_sequences c ts), te_state = s, te_event = j, te_happened_at = now\<rparr>]\<rparr>"
    using assms(2) by (auto simp: append_tool_call_event_def result_simps)
  let ?n = "int (length (call_sequences c ts))"
  have d: "call_sequences k ts = [1..int (length (call_sequences k ts))]" for k using assms(1) by (simp add: calls_numbered_def)
  have "next_after (call_sequences c ts) = ?n + 1" using next_after_upto[of "length (call_sequences c ts)"] d[of c] by simp
  then have q: "call_sequences k ts' = call_sequences k ts @ (if k = c then [?n + 1] else [])" for k
    by (simp add: call_sequences_def ts')
  have "call_sequences k ts' = [1..int (length (call_sequences k ts'))]" for k
    using q[of k] d[of k] upto_rec2[of 1 "?n + 1"] by (cases "k = c") (simp_all add: add.commute)
  then show ?thesis using assms(1) f by (auto simp: calls_numbered_def ts' select_by_None_iff)
qed

lemma unique_upsert:
  assumes "unique_key key t" "\<And>x. key x = key r \<Longrightarrow> key (upd x) = key r"
  shows "unique_key key (upsert_by key r upd t)"
proof -
  have "map key (update_where (\<lambda>x. key x = key r) upd t) = map key t" using assms(2) by (induction t) auto
  then show ?thesis using assms(1) by (auto simp: upsert_by_def unique_key_snoc unique_key_def select_by_None_iff split: option.split)
qed

lemma update_where_none: "(\<forall>x\<in>set t. \<not> p x) \<Longrightarrow> update_where p f t = t"
  by (induction t) auto

lemma unique_second:
  assumes "unique_key key t" "unique_key k2 t" "\<forall>x\<in>set t. key x \<noteq> key r \<longrightarrow> k2 x \<noteq> k2 r"
  shows "unique_key k2 (upsert_by key r (\<lambda>_. r) t)"
proof -
  have u: "unique_key k2 (update_where (\<lambda>x. key x = key r) (\<lambda>_. r) t)"
    using assms
  proof (induction t)
    case (Cons x t)
    show ?case
    proof (cases "key x = key r")
      case True
      then have "\<forall>y\<in>set t. key y \<noteq> key r" using Cons.prems(1) by (auto simp: unique_key_def) (metis image_eqI)
      then show ?thesis using True Cons.prems by (simp add: update_where_none unique_key_def) (metis imageE)
    next
      case False
      have "k2 ` set (update_where (\<lambda>x. key x = key r) (\<lambda>_. r) t) \<subseteq> insert (k2 r) (k2 ` set t)"
        by (induction t) auto
      then show ?thesis using False Cons by (auto simp: unique_key_def)
    qed
  qed simp
  have "k2 r \<notin> k2 ` set t" if "select_by key (key r) t = None"
    proof -
    have "\<forall>x\<in>set t. key x \<noteq> key r" using that by (metis image_eqI select_by_None_iff)
    then show ?thesis using assms(3) by auto
  qed
  then show ?thesis using u assms(2) by (auto simp: upsert_by_def unique_key_snoc select_by_None_iff split: option.split)
qed

lemma set_upsert: "set (upsert_by key r (\<lambda>_. r) t) \<subseteq> insert r (set t)"
proof -
  have "set (update_where p (\<lambda>_. r) t) \<subseteq> insert r (set t)" for p by (induction t) auto
  then show ?thesis by (auto simp: upsert_by_def split: option.split)
qed

lemma definitions_upsert:
  assumes "definitions_ok t" "upsert_tool_definition now d t = Inr t'"
  shows "definitions_ok t'"
proof -
  obtain r where r: "t' = upsert_by definition_id r (\<lambda>_. r) t" "1 \<le> td_version (dr_definition r)" "td_version (dr_definition r) < 2 ^ 63"
    using assms(2) by (auto simp: upsert_tool_definition_def Let_def result_simps split: option.splits if_splits)
  show ?thesis using assms(1) r set_upsert[of definition_id r t] unique_upsert[of definition_id t r "\<lambda>_. r"]
    by (auto simp: definitions_ok_def)
qed

lemma dependencies_upsert:
  assumes "tables_ok ts" "upsert_dependency r ts = Inr ts'"
  shows "tables_ok ts'"
proof -
  have r: "ts' = ts\<lparr>ts_dependencies := upsert_by mr_dependency_instance_id r (\<lambda>_. r) (ts_dependencies ts)\<rparr>"
    "\<forall>x\<in>set (ts_dependencies ts). mr_dependency_instance_id x \<noteq> mr_dependency_instance_id r
       \<longrightarrow> (mr_integration_id x, mr_node_id x) \<noteq> (mr_integration_id r, mr_node_id r)"
    using assms(2) by (auto simp: upsert_dependency_def result_simps list_ex_iff)
  have "dependencies_ok (ts_dependencies ts)" using assms(1) by (simp add: tables_ok_def)
  then have "dependencies_ok (ts_dependencies ts')"
    using unique_upsert[of mr_dependency_instance_id "ts_dependencies ts" r "\<lambda>_. r"]
      unique_second[of mr_dependency_instance_id "ts_dependencies ts" "\<lambda>m. (mr_integration_id m, mr_node_id m)" r] r(2)
    by (simp add: dependencies_ok_def r(1))
  then show ?thesis using assms(1) by (simp add: tables_ok_def calls_numbered_def call_sequences_def r(1))
qed

lemma dependencies_update:
  assumes "dependencies_ok t" "\<And>m. mr_dependency_instance_id (f m) = mr_dependency_instance_id m"
    "\<And>m. mr_integration_id (f m) = mr_integration_id m" "\<And>m. mr_node_id (f m) = mr_node_id m"
  shows "dependencies_ok (update_where p f t)"
proof -
  have "keyed_update mr_dependency_instance_id f" "keyed_update (\<lambda>m. (mr_integration_id m, mr_node_id m)) f"
    by unfold_locales (simp_all add: assms)
  from this[THEN keyed_update.unique_update] show ?thesis using assms(1) by (simp add: dependencies_ok_def)
qed

lemma numbered_same:
  assumes "calls_numbered ts" "ts_call_events ts' = ts_call_events ts" "tl_tool_call_id ` set (ts_calls ts) \<subseteq> tl_tool_call_id ` set (ts_calls ts')"
    "unique_key tl_tool_call_id (ts_calls ts')"
  shows "calls_numbered ts'"
proof -
  have "te_tool_call_id ` set (ts_call_events ts') \<subseteq> tl_tool_call_id ` set (ts_calls ts')"
    using assms(1,2,3) subset_trans by (fastforce simp: calls_numbered_def)
  then show ?thesis using assms by (simp add: calls_numbered_def call_sequences_def)
qed

interpretation tables: tool_property tables_ok
proof
  fix ts env d q p ts' assume t: "tables_ok ts" "insert_tool_call env d q p ts = Inr ts'"
  then have "unique_key tl_tool_call_id (ts_calls ts')"
    by (auto simp: tables_ok_def calls_numbered_def insert_tool_call_def result_simps unique_key_snoc select_by_None_iff new_tool_call_def)
  moreover have "ts_call_events ts' = ts_call_events ts" "tl_tool_call_id ` set (ts_calls ts) \<subseteq> tl_tool_call_id ` set (ts_calls ts')"
    using t by (auto simp: insert_tool_call_def result_simps)
  ultimately have "calls_numbered ts'" using t numbered_same[of ts ts'] by (simp add: tables_ok_def)
  then show "tables_ok ts'" using t by (auto simp: tables_ok_def insert_tool_call_def result_simps)
next
  fix ts now c s j ts' assume t: "tables_ok ts" "append_tool_call_event now c s j ts = Inr ts'"
  then show "tables_ok ts'" using numbered_append[of ts now c s j ts']
    by (auto simp: tables_ok_def append_tool_call_event_def result_simps)
next
  fix ts c and f :: "tool_call_row \<Rightarrow> tool_call_row"
  assume t: "tables_ok ts" and f: "\<And>r. tl_tool_call_id (f r) = tl_tool_call_id r"
  have k: "keyed_update tl_tool_call_id f" by unfold_locales (rule f)
  show "tables_ok (update_call c f ts)" using t
    by (simp add: tables_ok_def update_call_def keyed_update.unique_update[OF k] keyed_update.keys_update[OF k]
        calls_numbered_def call_sequences_def)
next
  fix ts now src k n ds ts' assume t: "tables_ok ts" and r: "register_tool_definitions now src k n ds ts = Inr ts'"
  obtain sources t' where u: "try_fold (\<lambda>d t. and_then (ensure (td_source_id d \<in> sw_source_id ` set sources) Database)
      (\<lambda>_. upsert_tool_definition now d t)) ds (ts_definitions ts) = Inr t'" "ts' = ts\<lparr>ts_sources := sources, ts_definitions := t'\<rparr>"
    using r by (auto simp: register_tool_definitions_def Let_def result_simps)
  have "definitions_ok t'"
    by (rule try_fold_invariant[OF _ _ u(1), where P = definitions_ok])
      (use t definitions_upsert in \<open>auto simp: tables_ok_def result_simps\<close>)
  then show "tables_ok ts'" using t by (simp add: u(2) tables_ok_def calls_numbered_def call_sequences_def)
next
  fix ts now i assume "tables_ok ts"
  then show "tables_ok (store_disconnection now i ts)"
    using dependencies_update[of "ts_dependencies ts" "\<lambda>m. m\<lparr>mr_desired_state := ID_Disabled, mr_updated_at := now\<rparr>" "\<lambda>m. mr_integration_id m = i"]
    by (simp add: store_disconnection_def tables_ok_def calls_numbered_def call_sequences_def)
next
  fix ts r ts' assume "tables_ok ts" "upsert_dependency r ts = Inr ts'"
  then show "tables_ok ts'" by (rule dependencies_upsert)
qed (simp_all add: tables_ok_def calls_numbered_def call_sequences_def)

section \<open>Following the cursors\<close>

text \<open>A client that asks for page after page until no cursor is returned.\<close>

fun collect_pages ::
  "(score_input \<Rightarrow> 's :: {linorder, zero}) \<Rightarrow> tool_env \<Rightarrow> cursor_env \<Rightarrow> tool_state \<Rightarrow> nat \<Rightarrow> search_tools_request
   \<Rightarrow> app_error + tool_search_result list" where
  "collect_pages bm25 env ck ts 0 q = Inr []"
| "collect_pages bm25 env ck ts (Suc n) q =
     and_then (search_tools bm25 env ck q ts) (\<lambda>(items, next). case next of None \<Rightarrow> Inr items
       | Some c \<Rightarrow> and_then (collect_pages bm25 env ck ts n (q\<lparr>sq_cursor := Some c\<rparr>)) (\<lambda>rest. Inr (items @ rest)))"

lemma page_result:
  assumes "tool_is_visible_to_actor (tsc_actor_ref (sq_scope q))" "ranked_tools bm25 env q ts = Inr ranked"
    and "parse_search_cursor ck q = Inr offset" "sq_limit q = Some limit" "1 \<le> limit" "limit \<le> TOOL_SEARCH_MAX_LIMIT"
  shows "search_tools bm25 env ck q ts = Inr (map search_result (take limit (drop offset ranked)),
    if length ranked > offset + limit then Some (create_search_cursor ck q (offset + limit)) else None)"
  using assms by (simp add: search_tools_def page_of_def)

lemma create_cursor_same:
  "create_search_cursor ck (q\<lparr>sq_cursor := c\<rparr>) offset = create_search_cursor ck q offset"
  by (simp add: create_search_cursor_def search_cursor_binding_def)

lemma parse_own_cursor:
  assumes "cursor_codec ck"
  shows "parse_search_cursor ck (q\<lparr>sq_cursor := Some (create_search_cursor ck q offset)\<rparr>) = Inr offset"
  using cursor_roundtrip[OF assms, of "q\<lparr>sq_cursor := Some (create_search_cursor ck q offset)\<rparr>" q offset ck "ck_now ck"] by simp

lemma collect_from:
  assumes "cursor_codec ck" "tool_is_visible_to_actor (tsc_actor_ref (sq_scope q))" "ranked_tools bm25 env q ts = Inr ranked"
    and "sq_limit q = Some limit" "1 \<le> limit" "limit \<le> TOOL_SEARCH_MAX_LIMIT"
  shows "parse_search_cursor ck q = Inr offset \<Longrightarrow> 0 < n \<Longrightarrow> length ranked \<le> offset + n * limit \<Longrightarrow>
    collect_pages bm25 env ck ts n q = Inr (map search_result (drop offset ranked))"
  using assms(2-4)
proof (induction n arbitrary: q offset)
  case (Suc n)
  note page = page_result[OF Suc.prems(4,5,1,6) assms(5,6)]
  show ?case
  proof (cases "length ranked > offset + limit")
    case False
    then show ?thesis using page by simp
  next
    case True
    let ?q = "q\<lparr>sq_cursor := Some (create_search_cursor ck q (offset + limit))\<rparr>"
    have n: "0 < n" using True Suc.prems(3) by (cases n) auto
    have "collect_pages bm25 env ck ts n ?q = Inr (map search_result (drop (offset + limit) ranked))"
      using Suc.IH[OF parse_own_cursor[OF assms(1)] n] ranked_same_request[of ?q q bm25 env ts] Suc.prems(3-6)
      by (simp add: algebra_simps)
    moreover have "take limit (drop offset ranked) @ drop (offset + limit) ranked = drop offset ranked"
      by (metis add.commute append_take_drop_id drop_drop)
    ultimately show ?thesis using True page by (simp flip: map_append)
  qed
qed simp

end
