(* ===== verification/Tool_Scenarios.thy ===== *)
theory Tool_Scenarios
  imports Tool_Tables Gate_Scenarios
begin

text \<open>
  A registry with the mock tool, over the Core of \<open>Scenarios\<close>: a call from the session of the
  first Node, the same call under a policy that denies it, and three tools to search for.
\<close>

definition redaction0 :: tool_redaction_policy where
  "redaction0 = \<lparr>rp_argument_json_pointers = [], rp_result_json_pointers = [], rp_redact_all_arguments = False,
     rp_redact_all_result = False, rp_max_summary_bytes = 64\<rparr>"

definition tool0 :: "id \<Rightarrow> policy_decision \<Rightarrow> tool_definition" where
  "tool0 i p = \<lparr>td_tool_id = i, td_source_id = MOCK_SOURCE_ID, td_source_kind = TSK_ExternalMcp, td_source_tool_name = i,
     td_version = 1, td_display_name = i, td_short_description = ''mock'', td_documentation_url = None,
     td_input_schema = JObj [(''type'', JStr ''object'')], td_output_schema = None, td_schema_hash = ''h'', td_risk_level = TRL_ReadOnly,
     td_required_permissions = [], td_execution_kind = TEK_ExternalProvider, td_approval_policy = p, td_redaction = redaction0,
     td_state = TDS_Active, td_created_at = 0, td_updated_at = 0\<rparr>"

definition scope0 :: tool_scope where
  "scope0 = \<lparr>tsc_actor_ref = AR_System, tsc_node_id = Some ''a'', tsc_project_id = None,
     tsc_project_placement_id = Some ''pa'', tsc_session_thread_id = Some ''sa''\<rparr>"

definition tools0 :: "tool_definition list \<Rightarrow> tool_state" where
  "tools0 ds = \<lparr>ts_core = new_core two_nodes, ts_sources = [], ts_definitions = map (\<lambda>d. \<lparr>dr_definition = d,
     dr_search_document = normalize_search_document d\<rparr>) ds, ts_connections = [], ts_dependencies = [], ts_calls = [],
     ts_call_events = [], ts_snapshots = []\<rparr>"

definition tool_env0 :: tool_env where
  "tool_env0 = \<lparr>tv_cfg = cfg0, tv_now = 5, tv_call_id = ''k'', tv_correlation_id = ''x'', tv_command_id = ''c'', tv_cancel_id = ''d'',
     tv_frame_id = (\<lambda>c. c), tv_show = (\<lambda>_. ''j''), tv_sha256 = (\<lambda>s. s), tv_result_text = (\<lambda>_. ''r''), tv_scope_json = (\<lambda>_. JNull),
     tv_timestamp = (\<lambda>_. ''t''), tv_error_text = (\<lambda>_. ''e''), tv_native = (\<lambda>_ _ _. h_ok JNull), tv_proposal = (\<lambda>_ _. Inl ''no''),
     tv_wait = (\<lambda>_. h_check (\<lambda>_. Inl Database)), tv_decode = (\<lambda>_. None)\<rparr>"

definition tool_request0 :: "id \<Rightarrow> execute_tool_request" where
  "tool_request0 i = \<lparr>etr_scope = scope0, etr_tool_id = i, etr_arguments = JObj []\<rparr>"

text \<open>The limits on results compare binary integers when they are evaluated.\<close>

lemma normalize_code [code]:
  "normalize_tool_result env content refs =
     (let size = utf8_len (tv_show env content) in
      if int size > 1048576 then Inl (tool_error TE_ResultTooLarge ''Tool result exceeds the v1 size limit'' False)
      else Inr (\<lparr>tre_content = content, tre_summary = Some (if int size \<le> 2048 then tv_show env content
           else bounded_json_summary (tv_show env) content TOOL_SUMMARY_MAX_BYTES),
         tre_truncated = False, tre_original_size_bytes = Some size, tre_artifact_refs = refs\<rparr>, refs))"
  by (simp add: normalize_tool_result_def TOOL_RESULT_MAX_BYTES_def TOOL_SUMMARY_MAX_BYTES_def bounded_json_summary_def Let_def)

lemma summary_code [code]:
  "bounded_json_summary show_json v max_bytes =
     (let serialized = show_json v in
      if int (utf8_len serialized) \<le> int max_bytes then serialized
      else prefix_within (min (max_bytes - 3) (utf8_len serialized)) serialized @ ''...'')"
  by (simp add: bounded_json_summary_def Let_def)

lemma completed0:
  "is_ok (fst (execute_tool tool_env0 (tool_request0 ''m'') (tools0 [tool0 ''m'' PD_Allow])))
   \<and> map tl_state (ts_calls (snd (execute_tool tool_env0 (tool_request0 ''m'') (tools0 [tool0 ''m'' PD_Allow])))) = [TCS_Completed]"
  by code_simp

lemma denied0: "load_tool_definition ''m'' (tools0 [tool0 ''m'' PD_Deny]) = Inr (tool0 ''m'' PD_Deny)"
  by code_simp

lemma env0_keeps: "h_keeps Q (tv_wait tool_env0 c)" "h_keeps Q (tv_native tool_env0 t s a)"
  by (simp_all add: tool_env0_def h_keeps_def h_check_def h_ok_def)

lemma tables0: "tables_ok (tools0 [tool0 i p])"
  by (simp add: tables_ok_def tools0_def calls_numbered_def call_sequences_def definitions_ok_def dependencies_ok_def tool0_def
      unique_key_def)

section \<open>Search\<close>

text \<open>A codec that writes the offset and the expiry in unary, for short texts.\<close>

definition cursor_bytes :: "search_cursor \<Rightarrow> 8 word list" where
  "cursor_bytes c = replicate (sc_offset c) 1 @ [0] @ replicate (nat (sc_expires_at c)) 1 @ (if sc_expires_at c < 0 then [2] else [0])
     @ replicate (nat (- sc_expires_at c)) 1 @ [0] @ map of_char (sc_binding_hash c)"

definition cursor_of :: "8 word list \<Rightarrow> search_cursor option" where
  "cursor_of bs =
     (let a = takeWhile (\<lambda>w. w = 1) bs; r1 = drop (length a + 1) bs;
          p = takeWhile (\<lambda>w. w = 1) r1; r2 = drop (length p + 1) r1;
          n = takeWhile (\<lambda>w. w = 1) r2; r3 = drop (length n + 1) r2
      in Some \<lparr>sc_offset = length a, sc_binding_hash = map (\<lambda>w. char_of (unat w)) r3,
           sc_expires_at = int (length p) - int (length n)\<rparr>)"

lemma take_ones: "x \<noteq> 1 \<Longrightarrow> takeWhile (\<lambda>w. w = 1) (replicate n (1 :: 8 word) @ x # r) = replicate n 1"
  by (induction n) auto

lemma char_word: "char_of (unat (of_char c :: 8 word)) = c"
proof -
  have "unat (of_char c :: 8 word) = of_char c"
    by (simp add: of_char_def horner_sum_simps del: horner_sum_simps) (cases c; simp add: unat_word_ariths)
  then show ?thesis by simp
qed

definition cursor_env0 :: cursor_env where
  "cursor_env0 = \<lparr>ck_mac = (\<lambda>bs. bs), ck_bytes = cursor_bytes, ck_of = cursor_of, ck_binding_text = (\<lambda>_ q _. q),
     ck_sha256 = (\<lambda>s. s), ck_now = 5\<rparr>"

lemma cursor_codec0: "cursor_codec cursor_env0"
  by (auto simp: cursor_codec_def cursor_env0_def cursor_bytes_def cursor_of_def take_ones char_word Let_def o_def)

definition search0 :: search_tools_request where
  "search0 = \<lparr>sq_scope = scope0, sq_query = [], sq_filters = \<lparr>sf_source_kinds = [], sf_risk_levels = [], sf_availability_states = []\<rparr>,
     sq_cursor = None, sq_limit = Some 2\<rparr>"

definition search_core0 :: tool_state where
  "search_core0 = tools0 [tool0 ''m'' PD_Allow, tool0 ''n'' PD_Deny, tool0 ''o'' PD_RequireApproval]"

lemma ranked0: "\<exists>ranked. ranked_tools (\<lambda>_. 1 :: nat) tool_env0 search0 search_core0 = Inr ranked \<and> length ranked = 3"
proof -
  have "is_ok (ranked_tools (\<lambda>_. 1 :: nat) tool_env0 search0 search_core0)" by code_simp
  then obtain ranked where r: "ranked_tools (\<lambda>_. 1 :: nat) tool_env0 search0 search_core0 = Inr ranked"
    by (cases "ranked_tools (\<lambda>_. 1 :: nat) tool_env0 search0 search_core0") auto
  have "map_sum (\<lambda>_. ()) length (ranked_tools (\<lambda>_. 1 :: nat) tool_env0 search0 search_core0) = Inr 3" by code_simp
  then show ?thesis using r by simp
qed

lemma search_shape0: "tool_is_visible_to_actor (tsc_actor_ref (sq_scope search0))" "sq_cursor search0 = None" "sq_limit search0 = Some 2"
  by (simp_all add: search0_def scope0_def tool_is_visible_to_actor_def)

end
