(* ===== verification/Workspace_Requests.thy ===== *)
theory Workspace_Requests
  imports Session_Facts Workspace_Processes
begin

text \<open>
  The workspace requests of Core (\<open>application/workspace.rs\<close>): a request becomes a command for
  the Node of the placement, Core waits for its result, and a command that never answers expires
  or is cancelled. \<open>we_wait\<close> is what happens until the wait ends: whatever else runs in Core, and
  whether a result arrived, the channel closed or the time was over. The JSON of a request and of
  an answer is the parameter \<open>workspace_codec\<close>.
\<close>

type_synonym command_notice = "id \<times> command_state \<times> json"

datatype (plugins only: code size) waited = W_Result command_notice | W_Closed | W_Elapsed

record workspace_codec =
  wk_write :: "workspace_file_write_request \<Rightarrow> json"
  wk_write_of :: "json \<Rightarrow> workspace_file_write_request option"
  wk_run :: "workspace_command_run_request \<Rightarrow> json"
  wk_run_of :: "json \<Rightarrow> workspace_command_run_request option"
  wk_diff :: "workspace_diff_request \<Rightarrow> json"
  wk_diff_of :: "json \<Rightarrow> workspace_diff_request option"
  wk_terminal :: "workspace_terminal_open_request \<Rightarrow> json"
  wk_terminal_of :: "json \<Rightarrow> workspace_terminal_open_request option"

record workspace_env =
  we_env :: session_env
  we_command_id :: id
  we_correlation_id :: id
  we_codec :: workspace_codec
  we_wait :: "id \<Rightarrow> core_state \<Rightarrow> waited \<times> core_state"

definition WORKSPACE_INTERVENTION_SECONDS :: int where "WORKSPACE_INTERVENTION_SECONDS = 120"

section \<open>Guards\<close>

definition ensure_placement_inspectable :: "placement_summary \<Rightarrow> app_error + unit" where
  "ensure_placement_inspectable placement =
     ensure (ps_state placement = PS_Validated \<or> ps_state placement = PS_ReadOnly) (BadRequest ''placement.not_inspectable'')"

definition ensure_placement_intervention_allowed :: "placement_summary \<Rightarrow> app_error + unit" where
  "ensure_placement_intervention_allowed placement =
     ensure (ps_state placement = PS_Validated) (BadRequest ''placement.not_writable'')"

section \<open>Waiting for a result\<close>

definition load_durable_command_result :: "id \<Rightarrow> core_db \<Rightarrow> command_notice option" where
  "load_durable_command_result command_id db = (case find_command db command_id of None \<Rightarrow> None
     | Some row \<Rightarrow> if is_terminal_command_state (cm_state row)
         then Some (command_id, cm_state row, case cm_result_payload row of Some p \<Rightarrow> p | None \<Rightarrow> JObj []) else None)"

definition wait_for_command_result :: "workspace_env \<Rightarrow> id \<Rightarrow> command_notice handler" where
  "wait_for_command_result env command_id st = (case we_wait env command_id st of
     (W_Result n, st') \<Rightarrow> (Inr n, st')
   | (W_Closed, st') \<Rightarrow> (ok_or (load_durable_command_result command_id (co_db st')) (BadRequest ''workspace.command_result_unavailable''), st')
   | (W_Elapsed, st') \<Rightarrow> (ok_or (load_durable_command_result command_id (co_db st')) (BadRequest ''workspace.command_timeout''), st'))"

definition workspace_command_failed :: "command_notice \<Rightarrow> app_error" where
  "workspace_command_failed n = BadRequest ''workspace.command_failed''"

definition typed_workspace_command_payload ::
  "workspace_codec \<Rightarrow> command_kind \<Rightarrow> string \<Rightarrow> json \<Rightarrow> app_error + command_payload" where
  "typed_workspace_command_payload codec kind workspace_path payload =
     (let path = ok_or (json_get_str payload ''path'') (BadRequest ''workspace.path_required'')
      in case kind of
        CK_ListWorkspaceTree \<Rightarrow> and_then path (\<lambda>p. Inr (CP_ListWorkspaceTree workspace_path p))
      | CK_ReadWorkspaceFile \<Rightarrow> and_then path (\<lambda>p. Inr (CP_ReadWorkspaceFile workspace_path p))
      | CK_WriteWorkspaceFile \<Rightarrow> and_then (ok_or (wk_write_of codec payload) Serialization) (\<lambda>r. Inr (CP_WriteWorkspaceFile workspace_path r))
      | CK_RunWorkspaceCommand \<Rightarrow> and_then (ok_or (wk_run_of codec payload) Serialization) (\<lambda>r. Inr (CP_RunWorkspaceCommand workspace_path r))
      | CK_ReadWorkspaceDiff \<Rightarrow> and_then (ok_or (wk_diff_of codec payload) Serialization) (\<lambda>r. Inr (CP_ReadWorkspaceDiff workspace_path r))
      | CK_OpenWorkspaceTerminal \<Rightarrow> and_then (ok_or (wk_terminal_of codec payload) Serialization) (\<lambda>r. Inr (CP_OpenWorkspaceTerminal workspace_path r))
      | _ \<Rightarrow> Inl (BadRequest ''workspace.command_kind_invalid''))"

definition workspace_command ::
  "workspace_env \<Rightarrow> placement_summary \<Rightarrow> command_kind \<Rightarrow> command_payload \<Rightarrow> uprava_ref list \<Rightarrow> command_envelope" where
  "workspace_command env placement kind payload source_refs =
     \<lparr>ce_command_id = we_command_id env, ce_kind = kind,
      ce_target = CT_Placement (ps_node_id placement) (ps_project_placement_id placement),
      ce_actor_ref = AR_LocalUser None, ce_source_refs = source_refs, ce_cause_refs = [], ce_issued_at = se_now (we_env env),
      ce_correlation_id = we_correlation_id env, ce_payload = payload\<rparr>"

definition request_command :: "workspace_env \<Rightarrow> command_envelope \<Rightarrow> unit handler" where
  "request_command env command = h_run (record_and_dispatch_command (se_frame_id (we_env env)) (se_now (we_env env)) command)"

definition ensure_commandable :: "workspace_env \<Rightarrow> placement_summary \<Rightarrow> unit handler" where
  "ensure_commandable env placement = h_check (\<lambda>st.
     ensure_node_commandable (se_cfg (we_env env)) (ps_node_id placement) (se_now (we_env env)) (co_db st))"

definition with_waiter :: "id \<Rightarrow> 'a handler \<Rightarrow> 'a handler" where
  "with_waiter c h st = (case h (st\<lparr>co_waiters := c # co_waiters st\<rparr>) of
     (r, st') \<Rightarrow> (r, st'\<lparr>co_waiters := filter (\<lambda>w. w \<noteq> c) (co_waiters st')\<rparr>))"

definition dispatch_workspace_command ::
  "workspace_env \<Rightarrow> placement_summary \<Rightarrow> command_kind \<Rightarrow> json \<Rightarrow> uprava_ref list \<Rightarrow> (json \<Rightarrow> 'a option) \<Rightarrow> 'a handler" where
  "dispatch_workspace_command env placement kind payload source_refs decode =
     h_bind (h_check (\<lambda>_. ensure_placement_inspectable placement)) (\<lambda>_.
     h_bind (ensure_commandable env placement) (\<lambda>_.
     with_waiter (we_command_id env)
      (h_bind (h_check (\<lambda>_. typed_workspace_command_payload (we_codec env) kind (ps_workspace_path placement) payload)) (\<lambda>typed.
       h_bind (request_command env (workspace_command env placement kind typed source_refs)) (\<lambda>_.
       h_bind (wait_for_command_result env (we_command_id env)) (\<lambda>n.
       h_check (\<lambda>_. if fst (snd n) = CS_Completed then ok_or (decode (snd (snd n))) Serialization
         else Inl (workspace_command_failed n))))))))"

section \<open>The requests\<close>

definition load_target :: "workspace_env \<Rightarrow> id \<Rightarrow> placement_summary handler" where
  "load_target env placement_id = load_placement (we_env env) placement_id None"

definition workspace_ref :: "placement_summary \<Rightarrow> uprava_ref" where
  "workspace_ref placement = UR_Workspace (ps_project_placement_id placement)"

definition path_json :: "string \<Rightarrow> json" where
  "path_json path = JObj [(''path'', JStr path)]"

definition workspace_tree_with_correlation :: "workspace_env \<Rightarrow> (json \<Rightarrow> 'a option) \<Rightarrow> id \<Rightarrow> string \<Rightarrow> 'a handler" where
  "workspace_tree_with_correlation env decode placement_id path =
     h_bind (load_target env placement_id) (\<lambda>placement.
     dispatch_workspace_command env placement CK_ListWorkspaceTree (path_json path) [workspace_ref placement] decode)"

definition workspace_file_with_correlation :: "workspace_env \<Rightarrow> (json \<Rightarrow> 'a option) \<Rightarrow> id \<Rightarrow> string \<Rightarrow> 'a handler" where
  "workspace_file_with_correlation env decode placement_id path =
     h_bind (load_target env placement_id) (\<lambda>placement.
     dispatch_workspace_command env placement CK_ReadWorkspaceFile (path_json path)
       [workspace_ref placement, UR_File (ps_project_placement_id placement) path None] decode)"

definition workspace_file_write_with_correlation ::
  "workspace_env \<Rightarrow> (json \<Rightarrow> 'a option) \<Rightarrow> id \<Rightarrow> workspace_file_write_request \<Rightarrow> 'a handler" where
  "workspace_file_write_with_correlation env decode placement_id request =
     h_bind (load_target env placement_id) (\<lambda>placement.
     h_bind (h_check (\<lambda>_. ensure_placement_intervention_allowed placement)) (\<lambda>_.
     dispatch_workspace_command env placement CK_WriteWorkspaceFile (wk_write (we_codec env) request)
       [workspace_ref placement, UR_File (ps_project_placement_id placement) (wfw_path request) None] decode))"

definition workspace_command_run_with_correlation ::
  "workspace_env \<Rightarrow> (json \<Rightarrow> 'a option) \<Rightarrow> id \<Rightarrow> workspace_command_run_request \<Rightarrow> 'a handler" where
  "workspace_command_run_with_correlation env decode placement_id request =
     h_bind (load_target env placement_id) (\<lambda>placement.
     h_bind (h_check (\<lambda>_. ensure_placement_intervention_allowed placement)) (\<lambda>_.
     dispatch_workspace_command env placement CK_RunWorkspaceCommand (wk_run (we_codec env) request)
       [workspace_ref placement] decode))"

definition store_git_snapshot :: "id \<Rightarrow> git_workspace_snapshot \<Rightarrow> core_db \<Rightarrow> core_db" where
  "store_git_snapshot placement_id snapshot db = db\<lparr>db_placements :=
     update_where (\<lambda>p. pl_project_placement_id p = placement_id)
       (\<lambda>p. p\<lparr>pl_git_snapshot := Some snapshot, pl_updated_at := gs_generated_at snapshot\<rparr>) (db_placements db)\<rparr>"

definition workspace_diff_with_correlation ::
  "workspace_env \<Rightarrow> (json \<Rightarrow> workspace_diff_response option) \<Rightarrow> id \<Rightarrow> workspace_diff_request \<Rightarrow> workspace_diff_response handler" where
  "workspace_diff_with_correlation env decode placement_id request =
     h_bind (load_target env placement_id) (\<lambda>placement.
     h_bind (h_check (\<lambda>_. ensure_placement_inspectable placement)) (\<lambda>_.
     h_bind (dispatch_workspace_command env placement CK_ReadWorkspaceDiff (wk_diff (we_codec env) request)
       [workspace_ref placement] decode) (\<lambda>response.
     h_bind (h_modify (\<lambda>st. st\<lparr>co_db := store_git_snapshot (ps_project_placement_id placement) (wx_git_snapshot response) (co_db st)\<rparr>)) (\<lambda>_.
     h_ok response))))"

definition refresh_resource_snapshot_with_correlation :: "workspace_env \<Rightarrow> id \<Rightarrow> id handler" where
  "refresh_resource_snapshot_with_correlation env placement_id =
     h_bind (load_target env placement_id) (\<lambda>placement.
     h_bind (ensure_commandable env placement) (\<lambda>_.
     h_bind (request_command env (workspace_command env placement CK_RefreshResourceSnapshot
        (CP_RefreshResourceSnapshot (ps_display_name placement) (ps_workspace_path placement))
        [UR_Placement (ps_project_placement_id placement)])) (\<lambda>_.
     h_ok (we_command_id env))))"

definition workspace_command_accept_route :: "workspace_env \<Rightarrow> id \<Rightarrow> workspace_command_run_request \<Rightarrow> id handler" where
  "workspace_command_accept_route env placement_id request =
     h_bind (load_target env placement_id) (\<lambda>placement.
     h_bind (h_check (\<lambda>_. ensure_placement_intervention_allowed placement)) (\<lambda>_.
     h_bind (ensure_commandable env placement) (\<lambda>_.
     h_bind (request_command env (workspace_command env placement CK_RunWorkspaceCommand
        (CP_RunWorkspaceCommand (ps_workspace_path placement) request) [workspace_ref placement])) (\<lambda>_.
     h_ok (we_command_id env)))))"

section \<open>Commands as resources\<close>

record workspace_command_history_item =
  wh_command_id :: id
  wh_kind :: command_kind
  wh_state :: command_state
  wh_created_at :: time
  wh_completed_at :: "time option"
  wh_payload :: command_payload
  wh_result_payload :: "json option"

definition history_item :: "command_row \<Rightarrow> workspace_command_history_item" where
  "history_item r = \<lparr>wh_command_id = cm_command_id r, wh_kind = parse_command_kind (debug_command_kind (cm_kind r)),
     wh_state = cm_state r, wh_created_at = cm_created_at r, wh_completed_at = cm_completed_at r,
     wh_payload = ce_payload (cm_command r), wh_result_payload = cm_result_payload r\<rparr>"

text \<open>The only payload with a timeout in a member \<open>request\<close>; \<open>as_i64\<close> reads what fits 63 bits.\<close>

definition request_timeout :: "command_payload \<Rightarrow> int option" where
  "request_timeout p = (case p of CP_RunWorkspaceCommand _ request \<Rightarrow>
       Option.bind (wcr_timeout_seconds request) (\<lambda>n. if uint n < 2 ^ 63 then Some (uint n) else None)
     | _ \<Rightarrow> None)"

definition command_deadline :: "workspace_command_history_item \<Rightarrow> time" where
  "command_deadline item = wh_created_at item + seconds
     (max 1 (min WORKSPACE_INTERVENTION_SECONDS (case request_timeout (wh_payload item) of Some n \<Rightarrow> n | None \<Rightarrow> WORKSPACE_INTERVENTION_SECONDS)) + 10)"

definition open_command :: "id \<Rightarrow> command_row \<Rightarrow> bool" where
  "open_command command_id r \<longleftrightarrow> cm_command_id r = command_id \<and> \<not> is_terminal_command_state (cm_state r)"

definition end_command :: "command_state \<Rightarrow> json \<Rightarrow> time \<Rightarrow> command_row \<Rightarrow> command_row" where
  "end_command s payload completed_at r = r\<lparr>cm_state := s, cm_completed_at := coalesce (cm_completed_at r) (Some completed_at),
     cm_result_payload := coalesce (cm_result_payload r) (Some payload)\<rparr>"

definition mark_command_terminal_if_nonterminal :: "id \<Rightarrow> command_state \<Rightarrow> json \<Rightarrow> time \<Rightarrow> core_state \<Rightarrow> bool \<times> core_state" where
  "mark_command_terminal_if_nonterminal command_id s payload completed_at st =
     (if rows_affected (open_command command_id) (db_commands (co_db st)) = 0 then (False, st)
      else (True, notify_result command_id s payload payload
        (st\<lparr>co_db := delete_dispatch command_id ((co_db st)\<lparr>db_commands :=
           update_where (open_command command_id) (end_command s payload completed_at) (db_commands (co_db st))\<rparr>)\<rparr>)))"

definition expired_json :: json where
  "expired_json = JObj [(''error_code'', JStr ''workspace.command_expired''),
     (''message'', JStr ''Workspace command expired before a terminal node result arrived'')]"

definition cancelled_json :: json where
  "cancelled_json = JObj [(''error_code'', JStr ''workspace.command_cancelled''),
     (''message'', JStr ''Workspace command was cancelled by the client'')]"

definition expire_workspace_command_if_due :: "time \<Rightarrow> workspace_command_history_item \<Rightarrow> core_state \<Rightarrow> bool \<times> core_state" where
  "expire_workspace_command_if_due now item st =
     (if is_terminal_command_state (wh_state item) \<or> now < command_deadline item then (False, st)
      else mark_command_terminal_if_nonterminal (wh_command_id item) CS_Expired expired_json now st)"

text \<open>The command of a placement, with its status: OK (True) when it has ended, else ACCEPTED.\<close>

definition load_workspace_command_resource ::
  "time \<Rightarrow> placement_summary \<Rightarrow> id \<Rightarrow> bool \<Rightarrow> (bool \<times> workspace_command_history_item) handler" where
  "load_workspace_command_resource now placement command_id expire_if_due =
     h_bind (h_check (\<lambda>st. ok_or (case find_command (co_db st) command_id of
          Some r \<Rightarrow> if cm_project_placement_id r = Some (ps_project_placement_id placement) then Some (history_item r) else None
        | None \<Rightarrow> None) (NotFound ''workspace.command_not_found''))) (\<lambda>item.
     h_bind (if expire_if_due then (\<lambda>st. case expire_workspace_command_if_due now item st of (done, st') \<Rightarrow>
          (Inr (if done then item\<lparr>wh_state := CS_Expired, wh_completed_at := Some now, wh_result_payload := Some expired_json\<rparr>
             else item), st'))
        else h_ok item) (\<lambda>item'.
     h_ok (is_terminal_command_state (wh_state item'), item')))"

definition workspace_command_resource_route :: "workspace_env \<Rightarrow> id \<Rightarrow> id \<Rightarrow> (bool \<times> workspace_command_history_item) handler" where
  "workspace_command_resource_route env placement_id command_id =
     h_bind (load_target env placement_id) (\<lambda>placement.
     h_bind (h_check (\<lambda>_. ensure_placement_inspectable placement)) (\<lambda>_.
     load_workspace_command_resource (se_now (we_env env)) placement command_id True))"

definition workspace_command_cancel_route :: "workspace_env \<Rightarrow> id \<Rightarrow> id \<Rightarrow> workspace_command_history_item handler" where
  "workspace_command_cancel_route env placement_id command_id =
     h_bind (load_target env placement_id) (\<lambda>placement.
     h_bind (h_check (\<lambda>_. ensure_placement_intervention_allowed placement)) (\<lambda>_.
     h_bind (load_workspace_command_resource (se_now (we_env env)) placement command_id False) (\<lambda>_.
     h_bind (h_modify (\<lambda>st. snd (mark_command_terminal_if_nonterminal command_id CS_Expired cancelled_json (se_now (we_env env)) st))) (\<lambda>_.
     h_bind (load_workspace_command_resource (se_now (we_env env)) placement command_id False) (\<lambda>(_, item).
     h_ok item)))))"

definition clamp_limit :: "int option \<Rightarrow> nat" where
  "clamp_limit limit = nat (max 1 (min 100 (case limit of Some n \<Rightarrow> n | None \<Rightarrow> 20)))"

definition latest_commands :: "nat \<Rightarrow> (command_row \<Rightarrow> bool) \<Rightarrow> core_db \<Rightarrow> command_row list" where
  "latest_commands limit p db = take limit (sort_key (\<lambda>r. - cm_created_at r) (filter p (db_commands db)))"

definition workspace_command_history :: "workspace_env \<Rightarrow> id \<Rightarrow> int option \<Rightarrow> workspace_command_history_item list handler" where
  "workspace_command_history env placement_id limit =
     h_bind (load_target env placement_id) (\<lambda>placement.
     h_bind (h_check (\<lambda>_. ensure_placement_inspectable placement)) (\<lambda>_.
     h_check (\<lambda>st. Inr (map history_item (latest_commands (clamp_limit limit)
       (\<lambda>r. cm_project_placement_id r = Some (ps_project_placement_id placement)
          \<and> cm_kind r \<in> {CK_WriteWorkspaceFile, CK_RunWorkspaceCommand, CK_ReadWorkspaceDiff}) (co_db st))))))"

record workspace_check_run_summary =
  wq_command_id :: id
  wq_state :: command_state
  wq_command :: string
  wq_args :: "string list"
  wq_label :: "string option"
  wq_result :: "workspace_process_output option"
  wq_created_at :: time
  wq_completed_at :: "time option"

definition check_request :: "command_row \<Rightarrow> workspace_command_run_request option" where
  "check_request r = (case ce_payload (cm_command r) of
     CP_RunWorkspaceCommand _ request \<Rightarrow> if wcr_intent request = WI_Check then Some request else None | _ \<Rightarrow> None)"

definition check_summary ::
  "(json \<Rightarrow> workspace_command_run_response option) \<Rightarrow> command_row \<Rightarrow> workspace_command_run_request \<Rightarrow> workspace_check_run_summary" where
  "check_summary decode r request = \<lparr>wq_command_id = cm_command_id r, wq_state = cm_state r, wq_command = wcr_command request,
     wq_args = wcr_args request, wq_label = wcr_label request,
     wq_result = map_option wr_output (Option.bind (cm_result_payload r) decode),
     wq_created_at = cm_created_at r, wq_completed_at = cm_completed_at r\<rparr>"

definition workspace_check_history ::
  "workspace_env \<Rightarrow> (json \<Rightarrow> workspace_command_run_response option) \<Rightarrow> id \<Rightarrow> int option \<Rightarrow> workspace_check_run_summary list handler" where
  "workspace_check_history env decode placement_id limit =
     h_bind (load_target env placement_id) (\<lambda>placement.
     h_bind (h_check (\<lambda>_. ensure_placement_inspectable placement)) (\<lambda>_.
     h_check (\<lambda>st. Inr (filter_map (\<lambda>r. map_option (check_summary decode r) (check_request r))
       (latest_commands (clamp_limit limit) (\<lambda>r. cm_project_placement_id r = Some (ps_project_placement_id placement)
          \<and> cm_kind r = CK_RunWorkspaceCommand \<and> check_request r \<noteq> None) (co_db st))))))"

section \<open>Terminals\<close>

record workspace_terminal_summary =
  wz_placement_id :: id
  wz_terminal_id :: id
  wz_title :: string
  wz_cwd :: string
  wz_shell :: string
  wz_cols :: "16 word"
  wz_rows :: "16 word"
  wz_state :: workspace_terminal_state
  wz_exit_code :: "int option"
  wz_created_at :: time
  wz_updated_at :: time

definition terminal_entry_of :: "workspace_terminal_summary \<Rightarrow> terminal_entry" where
  "terminal_entry_of t = \<lparr>te_placement_id = wz_placement_id t, te_state = wz_state t, te_exit_code = wz_exit_code t,
     te_updated_at = wz_updated_at t\<rparr>"

definition workspace_terminal_open_with_correlation ::
  "workspace_env \<Rightarrow> (json \<Rightarrow> workspace_terminal_summary option) \<Rightarrow> id \<Rightarrow> workspace_terminal_open_request
   \<Rightarrow> workspace_terminal_summary handler" where
  "workspace_terminal_open_with_correlation env decode placement_id request =
     h_bind (load_target env placement_id) (\<lambda>placement.
     h_bind (h_check (\<lambda>_. ensure_placement_intervention_allowed placement)) (\<lambda>_.
     h_bind (dispatch_workspace_command env placement CK_OpenWorkspaceTerminal (wk_terminal (we_codec env) request)
       [workspace_ref placement] decode) (\<lambda>t.
     h_bind (h_modify (\<lambda>st. st\<lparr>co_terminals := hm_insert (wz_terminal_id t) (terminal_entry_of t) (co_terminals st)\<rparr>)) (\<lambda>_.
     h_ok t))))"

definition ensure_terminal_belongs_to_placement :: "id \<Rightarrow> id \<Rightarrow> core_state \<Rightarrow> app_error + unit" where
  "ensure_terminal_belongs_to_placement terminal_id placement_id st =
     and_then (ok_or (hm_get (co_terminals st) terminal_id) (NotFound ''workspace_terminal.not_found'')) (\<lambda>t.
     ensure (te_placement_id t = placement_id) (BadRequest ''workspace_terminal.placement_mismatch''))"

definition workspace_terminal_stream_route :: "workspace_env \<Rightarrow> id \<Rightarrow> id \<Rightarrow> id handler" where
  "workspace_terminal_stream_route env placement_id terminal_id =
     h_bind (load_target env placement_id) (\<lambda>placement.
     h_bind (h_check (\<lambda>_. ensure_placement_intervention_allowed placement)) (\<lambda>_.
     h_bind (ensure_commandable env placement) (\<lambda>_.
     h_bind (h_check (ensure_terminal_belongs_to_placement terminal_id placement_id)) (\<lambda>_.
     h_ok (ps_node_id placement)))))"

end
