(* ===== verification/Placement_Requests.thy ===== *)
theory Placement_Requests
  imports Workspace_Requests Node_Access
begin

text \<open>
  Placements as an operator manages them: adding a workspace (\<open>application/workspace.rs\<close>,
  \<open>domain.rs\<close>), deleting it, and deleting a Node (\<open>transport/node.rs\<close>) with everything that
  belongs to it. A deletion runs statement by statement in one transaction; a statement that
  leaves a foreign key without its row fails, and the transaction with it.
\<close>

section \<open>Adding a workspace\<close>

record create_placement_request =
  qp_node_id :: id
  qp_display_name :: string
  qp_workspace_path :: string

definition placement_identity :: "string \<Rightarrow> string \<Rightarrow> app_error + id \<times> string" where
  "placement_identity node_id workspace_path =
     and_then (ensure (trim node_id \<noteq> []) (BadRequest ''validation.node_required'')) (\<lambda>_.
     and_then (ensure (trim workspace_path \<noteq> []) (BadRequest ''validation.workspace_path_required'')) (\<lambda>_.
     Inr (trim node_id, trim workspace_path)))"

definition on_gate_core :: "'a handler \<Rightarrow> (gate, 'a) stateful" where
  "on_gate_core h g = (case h (gt_core g) of (r, st) \<Rightarrow> (r, g\<lparr>gt_core := st\<rparr>))"

definition on_dispatch :: "workspace_env \<Rightarrow> id \<Rightarrow> gate \<Rightarrow> gate" where
  "on_dispatch env node_id g = g\<lparr>gt_core :=
     dispatch_pending_commands (se_frame_id (we_env env)) (se_now (we_env env)) node_id (gt_core g)\<rparr>"

definition find_binding :: "id \<Rightarrow> string \<Rightarrow> gate \<Rightarrow> placement_row option" where
  "find_binding node_id path g = List.find (same_binding node_id path) (db_placements (gt_db g))"

definition new_placement_row :: "id \<Rightarrow> id \<Rightarrow> id \<Rightarrow> string \<Rightarrow> string \<Rightarrow> time \<Rightarrow> placement_row" where
  "new_placement_row placement_id project_id node_id display_name path now =
     \<lparr>pl_project_placement_id = placement_id, pl_project_id = Some project_id, pl_node_id = node_id,
      pl_display_name = display_name, pl_workspace_path = path, pl_state = PS_Pending, pl_resource_badges = [],
      pl_git_snapshot = None, pl_last_validated_at = None, pl_created_at = now, pl_updated_at = now\<rparr>"

definition validate_command :: "workspace_env \<Rightarrow> id \<Rightarrow> id \<Rightarrow> string \<Rightarrow> string \<Rightarrow> command_envelope" where
  "validate_command env placement_id node_id display_name path =
     \<lparr>ce_command_id = we_command_id env, ce_kind = CK_ValidateWorkspace, ce_target = CT_Placement node_id placement_id,
      ce_actor_ref = AR_LocalUser None, ce_source_refs = [UR_Placement placement_id], ce_cause_refs = [],
      ce_issued_at = se_now (we_env env), ce_correlation_id = we_correlation_id env,
      ce_payload = CP_ValidateWorkspace display_name path\<rparr>"

text \<open>The transaction. A binding stored since the first look is found by its unique index.\<close>

definition store_placement :: "workspace_env \<Rightarrow> id \<Rightarrow> id \<Rightarrow> id \<Rightarrow> string \<Rightarrow> string \<Rightarrow> (gate, id) stateful" where
  "store_placement env project_id placement_id node_id display_name path g =
     (case find_binding node_id path g of Some p \<Rightarrow> (Inr (pl_project_placement_id p), g)
      | None \<Rightarrow>
         (let now = se_now (we_env env);
              g1 = upsert_project project_id display_name now
                (g\<lparr>gt_deleted_bindings := filter (\<lambda>b. b \<noteq> (node_id, path)) (gt_deleted_bindings g)\<rparr>);
              r = new_placement_row placement_id project_id node_id display_name path now
          in case and_then (ensure (find_placement (gt_db g) placement_id = None \<and> find_node (gt_db g) node_id \<noteq> None) Database) (\<lambda>_.
               record_command_on_connection (validate_command env placement_id node_id display_name path)
                 ((gt_db g1)\<lparr>db_placements := db_placements (gt_db g1) @ [r]\<rparr>)) of
             Inl e \<Rightarrow> (Inl e, g)
           | Inr db \<Rightarrow> (Inr placement_id, on_dispatch env node_id (set_db db g1))))"

definition validate_placement_with_correlation ::
  "workspace_env \<Rightarrow> id \<Rightarrow> id \<Rightarrow> create_placement_request \<Rightarrow> (gate, placement_summary) stateful" where
  "validate_placement_with_correlation env project_id placement_id request =
     h_bind (h_check (\<lambda>_. ensure (trim (qp_display_name request) \<noteq> []) (BadRequest ''validation.display_name_required''))) (\<lambda>_.
     h_bind (h_check (\<lambda>_. placement_identity (qp_node_id request) (qp_workspace_path request))) (\<lambda>(node_id, path).
     h_bind (h_check (\<lambda>g. ensure_node_commandable (se_cfg (we_env env)) node_id (se_now (we_env env)) (gt_db g))) (\<lambda>_.
     h_bind (h_check (\<lambda>g. Inr (find_binding node_id path g))) (\<lambda>existing.
     h_bind (case existing of Some p \<Rightarrow> h_ok (pl_project_placement_id p)
        | None \<Rightarrow> store_placement env project_id placement_id node_id (trim (qp_display_name request)) path) (\<lambda>i.
     on_gate_core (load_target env i))))))"

section \<open>What belongs to a set of sessions\<close>

definition refers :: "(id \<Rightarrow> bool) \<Rightarrow> id option \<Rightarrow> bool" where
  "refers X r = (case r of None \<Rightarrow> False | Some i \<Rightarrow> X i)"

definition owned_turn :: "(id \<Rightarrow> bool) \<Rightarrow> core_db \<Rightarrow> id \<Rightarrow> bool" where
  "owned_turn S db t = list_ex (\<lambda>r. tn_turn_id r = t \<and> S (tn_session_thread_id r)) (db_turns db)"

definition owned_runtime :: "(id \<Rightarrow> bool) \<Rightarrow> core_db \<Rightarrow> id \<Rightarrow> bool" where
  "owned_runtime S db i = list_ex (\<lambda>r. rt_runtime_session_id r = i \<and> S (rt_session_thread_id r)) (db_runtimes db)"

text \<open>The events go with their publications (\<open>on delete cascade\<close>).\<close>

definition delete_events :: "(event_row \<Rightarrow> bool) \<Rightarrow> core_db \<Rightarrow> core_db" where
  "delete_events p db = (let gone = map er_event_id (filter p (db_events db)) in
     db\<lparr>db_events := delete_where p (db_events db),
        db_publication_outbox := delete_where (\<lambda>r. po_event_id r \<in> set gone) (db_publication_outbox db)\<rparr>)"

definition delete_conversation :: "(id \<Rightarrow> bool) \<Rightarrow> core_db \<Rightarrow> core_db" where
  "delete_conversation S db = db\<lparr>
     db_warning_acks := delete_where (\<lambda>r. S (wa_session_thread_id r)) (db_warning_acks db),
     db_approvals := delete_where (\<lambda>r. S (ap_session_thread_id r)) (db_approvals db),
     db_messages := delete_where (\<lambda>r. S (ms_session_thread_id r)) (db_messages db)\<rparr>"

definition delete_turns :: "(id \<Rightarrow> bool) \<Rightarrow> core_db \<Rightarrow> app_error + core_db" where
  "delete_turns S db =
     and_then (ensure (\<not> list_ex (\<lambda>m. refers (owned_turn S db) (sm_turn_id m)) (db_scheduled_messages db)
        \<and> \<not> list_ex (\<lambda>j. refers (owned_turn S db) (jn_turn_id j)) (db_job_runs db)) Database) (\<lambda>_.
     Inr (db\<lparr>db_turns := delete_where (\<lambda>r. S (tn_session_thread_id r)) (db_turns db)\<rparr>))"

definition delete_runtimes :: "(id \<Rightarrow> bool) \<Rightarrow> core_db \<Rightarrow> app_error + core_db" where
  "delete_runtimes S db =
     and_then (ensure (\<not> list_ex (\<lambda>j. refers (owned_runtime S db) (jn_runtime_session_id j)) (db_job_runs db)) Database) (\<lambda>_.
     Inr (db\<lparr>db_runtimes := delete_where (\<lambda>r. S (rt_session_thread_id r)) (db_runtimes db)\<rparr>))"

text \<open>Scheduled messages, deductions and leases go with their session.\<close>

definition delete_sessions :: "(id \<Rightarrow> bool) \<Rightarrow> core_db \<Rightarrow> app_error + core_db" where
  "delete_sessions S db =
     and_then (ensure (\<not> list_ex (\<lambda>j. refers S (jn_session_thread_id j)) (db_job_runs db)) Database) (\<lambda>_.
     Inr (db\<lparr>db_sessions := delete_where (\<lambda>r. S (st_session_thread_id r)) (db_sessions db),
        db_scheduled_messages := delete_where (\<lambda>m. S (sm_session_thread_id m)) (db_scheduled_messages db),
        db_deductions := delete_where (\<lambda>d. S (dd_session_thread_id d)) (db_deductions db),
        db_leases := delete_where (\<lambda>l. S (le_session_thread_id l)) (db_leases db)\<rparr>))"

text \<open>The dispatch outbox goes with the command, and a cancelled task forgets its cancel command.\<close>

definition delete_commands :: "(command_row \<Rightarrow> bool) \<Rightarrow> core_db \<Rightarrow> app_error + core_db" where
  "delete_commands p db = (let gone = (\<lambda>i. list_ex (\<lambda>r. cm_command_id r = i \<and> p r) (db_commands db)) in
     and_then (ensure (\<not> list_ex (\<lambda>m. refers gone (sm_command_id m)) (db_scheduled_messages db)
        \<and> \<not> list_ex (\<lambda>j. refers gone (jn_command_id j)) (db_job_runs db)
        \<and> \<not> list_ex (\<lambda>d. gone (dd_command_id d)) (db_deductions db)
        \<and> \<not> list_ex (\<lambda>t. gone (tr_command_id t)) (db_task_runs db)) Database) (\<lambda>_.
     Inr (db\<lparr>db_commands := delete_where p (db_commands db),
        db_dispatch_outbox := delete_where (\<lambda>r. gone (dp_command_id r)) (db_dispatch_outbox db),
        db_task_runs := update_where (\<lambda>t. refers gone (tr_cancel_command_id t)) (\<lambda>t. t\<lparr>tr_cancel_command_id := None\<rparr>) (db_task_runs db)\<rparr>)))"

definition delete_tasks :: "(task_row \<Rightarrow> bool) \<Rightarrow> core_db \<Rightarrow> core_db" where
  "delete_tasks p db = db\<lparr>db_task_runs := delete_where p (db_task_runs db)\<rparr>"

text \<open>Jobs go with their placement, and their runs with them.\<close>

definition delete_placements :: "(placement_row \<Rightarrow> bool) \<Rightarrow> core_db \<Rightarrow> app_error + core_db" where
  "delete_placements p db =
     (let gone = (\<lambda>i. list_ex (\<lambda>r. pl_project_placement_id r = i \<and> p r) (db_placements db));
          jobs = (\<lambda>i. list_ex (\<lambda>j. jb_job_id j = i \<and> gone (jb_project_placement_id j)) (db_jobs db))
      in and_then (ensure (\<not> list_ex (\<lambda>s. gone (st_project_placement_id s)) (db_sessions db)
           \<and> \<not> list_ex (\<lambda>t. gone (tr_project_placement_id t)) (db_task_runs db)) Database) (\<lambda>_.
         Inr (db\<lparr>db_placements := delete_where p (db_placements db),
           db_jobs := delete_where (\<lambda>j. gone (jb_project_placement_id j)) (db_jobs db),
           db_job_runs := delete_where (\<lambda>r. jobs (jn_job_id r)) (db_job_runs db)\<rparr>)))"

section \<open>Deleting a workspace\<close>

definition session_of_placement :: "id \<Rightarrow> core_db \<Rightarrow> id \<Rightarrow> bool" where
  "session_of_placement placement_id db s =
     list_ex (\<lambda>r. st_session_thread_id r = s \<and> st_project_placement_id r = placement_id) (db_sessions db)"

definition command_of_placement :: "id \<Rightarrow> core_db \<Rightarrow> command_row \<Rightarrow> bool" where
  "command_of_placement placement_id db r \<longleftrightarrow> cm_project_placement_id r = Some placement_id
     \<or> refers (session_of_placement placement_id db) (cm_session_thread_id r)
     \<or> refers (owned_runtime (session_of_placement placement_id db) db) (cm_runtime_session_id r)"

definition event_of_placement :: "id \<Rightarrow> core_db \<Rightarrow> event_row \<Rightarrow> bool" where
  "event_of_placement placement_id db e \<longleftrightarrow>
     refers (\<lambda>c. list_ex (\<lambda>r. cm_command_id r = c \<and> command_of_placement placement_id db r) (db_commands db)) (ev_command_id (er_event e))
     \<or> refers (owned_runtime (session_of_placement placement_id db) db) (ev_runtime_session_id (er_event e))
     \<or> refers (session_of_placement placement_id db) (er_session_thread_id e)"

definition delete_placement_rows :: "id \<Rightarrow> core_db \<Rightarrow> app_error + core_db" where
  "delete_placement_rows placement_id db =
     (let S = session_of_placement placement_id db; C = command_of_placement placement_id db in
      and_then (delete_turns S (delete_conversation S (delete_events (event_of_placement placement_id db) db))) (\<lambda>db1.
      and_then (delete_commands C (delete_tasks (\<lambda>t. tr_project_placement_id t = placement_id) db1)) (\<lambda>db2.
      and_then (delete_runtimes S db2) (\<lambda>db3.
      and_then (delete_sessions S db3) (\<lambda>db4.
      delete_placements (\<lambda>p. pl_project_placement_id p = placement_id) db4)))))"

definition delete_placement :: "id \<Rightarrow> gate \<Rightarrow> app_error + gate" where
  "delete_placement placement_id g =
     and_then (ok_or (find_placement (gt_db g) placement_id) (NotFound ''placement.not_found'')) (\<lambda>p.
     and_then (delete_placement_rows placement_id (gt_db g)) (\<lambda>db.
     Inr (set_db db (g\<lparr>gt_deleted_bindings :=
       filter (\<lambda>b. b \<noteq> (pl_node_id p, pl_workspace_path p)) (gt_deleted_bindings g) @ [(pl_node_id p, pl_workspace_path p)]\<rparr>))))"

section \<open>Deleting a Node\<close>

definition session_of_node :: "id \<Rightarrow> core_db \<Rightarrow> id \<Rightarrow> bool" where
  "session_of_node node_id db s = list_ex (\<lambda>r. st_session_thread_id r = s
     \<and> list_ex (\<lambda>p. pl_project_placement_id p = st_project_placement_id r \<and> pl_node_id p = node_id) (db_placements db)) (db_sessions db)"

definition event_of_node :: "id \<Rightarrow> core_db \<Rightarrow> event_row \<Rightarrow> bool" where
  "event_of_node node_id db e \<longleftrightarrow> ev_node_id (er_event e) = Some node_id
     \<or> refers (owned_runtime (session_of_node node_id db) db) (ev_runtime_session_id (er_event e))
     \<or> refers (session_of_node node_id db) (er_session_thread_id e)"

definition delete_node_rows :: "id \<Rightarrow> core_db \<Rightarrow> app_error + core_db" where
  "delete_node_rows node_id db =
     (let S = session_of_node node_id db in
      and_then (delete_turns S (delete_conversation S (delete_events (event_of_node node_id db) db))) (\<lambda>db1.
      and_then (delete_runtimes S db1) (\<lambda>db2.
      and_then (delete_sessions S db2) (\<lambda>db3.
      and_then (delete_commands (\<lambda>r. cm_target_node_id r = node_id) (delete_tasks (\<lambda>t. tr_node_id t = node_id) db3)) (\<lambda>db4.
      and_then (delete_placements (\<lambda>p. pl_node_id p = node_id) db4) (\<lambda>db5.
      Inr (db5\<lparr>db_capabilities := delete_where (\<lambda>c. cap_node_id c = node_id) (db_capabilities db5)\<rparr>)))))))"

text \<open>\<open>referenced\<close>: whether an integration of the tool registry names the Node.\<close>

definition delete_node :: "(id \<Rightarrow> bool) \<Rightarrow> id \<Rightarrow> gate \<Rightarrow> app_error + gate" where
  "delete_node referenced node_id g =
     and_then (ensure (find_node (gt_db g) node_id \<noteq> None) (NotFound ''node.not_found'')) (\<lambda>_.
     and_then (delete_node_rows node_id (gt_db g)) (\<lambda>db.
     and_then (ensure (\<not> referenced node_id \<and> \<not> list_ex (\<lambda>d. dy_node_id d = node_id) (db_dependencies db)) Database) (\<lambda>_.
     let st = (gt_core g)\<lparr>co_db := db\<lparr>db_nodes := delete_where (\<lambda>n. nd_node_id n = node_id) (db_nodes db)\<rparr>,
           co_registry := remove_node (co_registry (gt_core g)) node_id\<rparr>
     in Inr (g\<lparr>gt_core := st,
          gt_deleted_bindings := filter (\<lambda>b. fst b \<noteq> node_id) (gt_deleted_bindings g),
          gt_enrollments := delete_where (\<lambda>e. el_claimed_node_id e = Some node_id) (gt_enrollments g),
          gt_observed := delete_where (\<lambda>r. fst r = node_id) (gt_observed g)\<rparr>))))"

end
