(* ===== verification/Workspace_Request_Facts.thy ===== *)
theory Workspace_Request_Facts
  imports Placement_Requests
begin

text \<open>
  What the workspace requests guarantee. They keep the journal and the event log, and a command
  that has ended keeps its state and its result: ending a command by expiry or by cancellation
  and ending it by the result of the Node exclude each other. A request reaches a Node only if
  the placement and the Node allow it. A deleted workspace leaves nothing behind.
\<close>

section \<open>Ending a command\<close>

lemma find_marked:
  "find_command (co_db (snd (mark_command_terminal_if_nonterminal c s p t st))) k =
   (if k = c then map_option (\<lambda>r. if is_terminal_command_state (cm_state r) then r else end_command s p t r) (find_command (co_db st) c)
    else find_command (co_db st) k)"
proof -
  have key: "keyed_update cm_command_id (end_command s p t)" by unfold_locales (simp add: end_command_def)
  have none: "rows_affected (open_command c) (db_commands (co_db st)) = 0 \<Longrightarrow>
      find_command (co_db st) c = Some r \<Longrightarrow> is_terminal_command_state (cm_state r)" for r
    by (auto simp: rows_affected_0_iff open_command_def dest: select_by_Some_key)
  have upd: "select_by cm_command_id k (update_where (open_command c) (end_command s p t) (db_commands (co_db st)))
      = (if k = c then map_option (\<lambda>r. if \<not> is_terminal_command_state (cm_state r) then end_command s p t r else r)
           (find_command (co_db st) c) else find_command (co_db st) k)"
    using keyed_update.select_update_key[OF key, of k c "\<lambda>r. \<not> is_terminal_command_state (cm_state r)"]
    by (simp add: open_command_def[abs_def])
  show ?thesis
  proof (cases "rows_affected (open_command c) (db_commands (co_db st)) = 0")
    case True
    then show ?thesis using none
      by (cases "find_command (co_db st) c") (auto simp: mark_command_terminal_if_nonterminal_def)
  next
    case False
    then show ?thesis using upd
      by (cases "find_command (co_db st) c") (auto simp: mark_command_terminal_if_nonterminal_def notify_result_def delete_dispatch_def Let_def)
  qed
qed

lemma marked_result:
  "mark_command_terminal_if_nonterminal c s p t st = (b, st') \<Longrightarrow> find_command (co_db st) c = Some r \<Longrightarrow>
   find_command (co_db st') c = Some (if is_terminal_command_state (cm_state r) then r else end_command s p t r)"
  using find_marked[where k = c and c = c] by (metis (mono_tags, lifting) option.simps(9) snd_conv)

lemma marked_log: "same_log st (snd (mark_command_terminal_if_nonterminal c s p t st))"
  by (auto simp: mark_command_terminal_if_nonterminal_def notify_result_def delete_dispatch_def Let_def same_log_def enqueued_def
      queued_acks_def)

lemma marked_outbox:
  assumes "outbox_inv (co_db st)" "is_terminal_command_state s"
  shows "outbox_inv (co_db (snd (mark_command_terminal_if_nonterminal c s p t st)))"
proof (cases "rows_affected (open_command c) (db_commands (co_db st)) = 0")
  case True
  then show ?thesis using assms(1) by (simp add: mark_command_terminal_if_nonterminal_def)
next
  case False
  let ?db = "co_db (snd (mark_command_terminal_if_nonterminal c s p t st))"
  have d: "db_dispatch_outbox ?db = delete_where (\<lambda>r. dp_command_id r = c) (db_dispatch_outbox (co_db st))"
    using False by (simp add: mark_command_terminal_if_nonterminal_def notify_result_def delete_dispatch_def Let_def)
  have w: "waiting ?db k = (k \<noteq> c \<and> waiting (co_db st) k)" for k
    using assms(2) by (auto simp: waiting_def find_marked end_command_def split: option.splits)
  have "(find_dispatch ?db k \<noteq> None) = (k \<noteq> c \<and> find_dispatch (co_db st) k \<noteq> None)" for k
    unfolding d by (auto simp: select_by_None_iff)
  then show ?thesis using assms(1) w by (simp add: outbox_inv_def)
qed

section \<open>Requests keep what the shared tables promise\<close>

locale workspace_property = core_property P for P :: "core_state \<Rightarrow> bool" +
  assumes marked: "P st \<Longrightarrow> P (snd (mark_command_terminal_if_nonterminal c CS_Expired p t st))"
    and waiters: "P st \<Longrightarrow> P (st\<lparr>co_waiters := ws\<rparr>)"
    and terminals: "P st \<Longrightarrow> P (st\<lparr>co_terminals := ts\<rparr>)"
    and placement_rows: "P st \<Longrightarrow> P (st\<lparr>co_db := (co_db st)\<lparr>db_placements := ps\<rparr>\<rparr>)"
begin

lemma keeps_target: "h_keeps P (load_target env i)"
  unfolding load_target_def by (rule keeps_load_placement)

lemma keeps_request: "h_keeps P (request_command env c)"
  unfolding request_command_def by (rule keeps_requested)

lemma keeps_commandable: "h_keeps P (ensure_commandable env p)"
  unfolding ensure_commandable_def by (rule h_keeps_check)

lemma keeps_waiter: "h_keeps P h \<Longrightarrow> h_keeps P (with_waiter c h)"
  using waiters by (auto simp: h_keeps_def with_waiter_def split: prod.split) (metis snd_conv)

lemma keeps_dispatch_workspace:
  assumes "\<And>c st. P st \<Longrightarrow> P (snd (we_wait env c st))"
  shows "h_keeps P (dispatch_workspace_command env p k j refs decode)"
proof -
  have "h_keeps P (wait_for_command_result env c)" for c
    using assms by (auto simp: h_keeps_def wait_for_command_result_def split: prod.split waited.split) (metis snd_conv)+
  then show ?thesis unfolding dispatch_workspace_command_def
    by (intro h_keeps_bind h_keeps_check keeps_commandable keeps_waiter keeps_request)
qed

lemma keeps_workspace_requests:
  assumes "\<And>c st. P st \<Longrightarrow> P (snd (we_wait env c st))"
  shows "h_keeps P (workspace_tree_with_correlation env de i path)" "h_keeps P (workspace_file_with_correlation env df i path)"
    "h_keeps P (workspace_file_write_with_correlation env dw i w)" "h_keeps P (workspace_command_run_with_correlation env dr i r)"
    "h_keeps P (workspace_diff_with_correlation env dd i d)" "h_keeps P (workspace_terminal_open_with_correlation env dt i t)"
  unfolding workspace_tree_with_correlation_def workspace_file_with_correlation_def workspace_file_write_with_correlation_def
    workspace_command_run_with_correlation_def workspace_diff_with_correlation_def workspace_terminal_open_with_correlation_def
  by (intro h_keeps_bind h_keeps_check h_keeps_ok h_keeps_modify keeps_target keeps_dispatch_workspace assms;
      simp add: terminals placement_rows store_git_snapshot_def)+

lemma keeps_accepted:
  "h_keeps P (refresh_resource_snapshot_with_correlation env i)" "h_keeps P (workspace_command_accept_route env i r)"
  unfolding refresh_resource_snapshot_with_correlation_def workspace_command_accept_route_def
  by (intro h_keeps_bind h_keeps_check h_keeps_ok keeps_target keeps_commandable keeps_request)+

lemma expired_kept: "P st \<Longrightarrow> P (snd (expire_workspace_command_if_due now item st))"
  using marked by (simp add: expire_workspace_command_if_due_def)

lemma keeps_resource: "h_keeps P (load_workspace_command_resource now p c b)"
proof -
  have "h_keeps P (\<lambda>st. case expire_workspace_command_if_due now item st of (done, st') \<Rightarrow> (Inr (f done), st'))"
    for item and f :: "bool \<Rightarrow> workspace_command_history_item"
    using expired_kept by (auto simp: h_keeps_def split: prod.split) (metis snd_conv)
  then show ?thesis unfolding load_workspace_command_resource_def
    by (intro h_keeps_bind h_keeps_check h_keeps_ok) (auto intro: h_keeps_ok)
qed

lemma keeps_resources:
  "h_keeps P (workspace_command_resource_route env i c)" "h_keeps P (workspace_command_cancel_route env i c)"
  unfolding workspace_command_resource_route_def workspace_command_cancel_route_def
  by (intro h_keeps_bind h_keeps_check keeps_target keeps_resource h_keeps_modify marked;
      auto intro: h_keeps_ok split: prod.split)+

end

lemma settled_inserted:
  assumes "settled c s p st" "insert_command x cmd db0 = Inr db" "db_commands db0 = db_commands (co_db st)"
  shows "find_command db c = find_command (co_db st) c"
proof -
  have "find_command db0 (ce_command_id cmd) = None" using assms(2) by (auto simp: insert_command_def result_simps)
  then have "c \<noteq> ce_command_id cmd" using assms(1,3) by (auto simp: settled_def)
  then show ?thesis using find_command_insert(1)[OF assms(2), of c] assms(3) by simp
qed

lemma settled_find: "settled c s p st \<Longrightarrow> find_command db c = find_command (co_db st) c \<Longrightarrow> settled c s p (st\<lparr>co_db := db\<rparr>)"
  by (simp add: settled_def)

interpretation settled_requests: core_property "settled c s p" for c s p
proof
  fix st b now m e st' assume "settled c s p st" "accept_node_event b now m e st = Inr st'"
  then show "settled c s p st'" using command_onlyD[OF command_only_settled accept_node_event_commands] by blast
next
  fix st cmd db assume k: "settled c s p st" and r: "record_command_on_connection cmd (co_db st) = Inr db"
  then obtain db1 where i: "insert_command CS_Recorded cmd (upsert_actor (ce_actor_ref cmd) (ce_issued_at cmd) (co_db st)) = Inr db1"
    and e: "db = enqueue_dispatch cmd db1" by (auto simp: record_command_on_connection_def result_simps)
  show "settled c s p (st\<lparr>co_db := db\<rparr>)"
    using settled_inserted[OF k i] by (intro settled_find[OF k]) (simp add: e)
next
  fix st cmd t m sid x now db assume k: "settled c s p st" and r: "record_turn_submission cmd t m sid x now (co_db st) = Inr db"
  then obtain db1 where i: "insert_command CS_PendingDispatch cmd (upsert_actor (ce_actor_ref cmd) (ce_issued_at cmd) (co_db st)) = Inr db1"
    and e: "db_commands db = db_commands db1"
    by (auto simp: record_turn_submission_def result_simps Let_def insert_turn_def insert_message_def enqueue_dispatch_def split: if_splits)
  show "settled c s p (st\<lparr>co_db := db\<rparr>)"
    using settled_inserted[OF k i] by (intro settled_find[OF k]) (simp add: e)
next
  fix st fid now n assume "settled c s p st"
  then show "settled c s p (dispatch_pending_commands fid now n st)" by (rule settled_cmd.dispatch_keeps)
next
  fix st fid now cmd st' assume k: "settled c s p st" and r: "record_and_dispatch_command fid now cmd st = Inr st'"
  obtain db1 where i: "insert_command CS_Recorded cmd (upsert_actor (ce_actor_ref cmd) (ce_issued_at cmd) (co_db st)) = Inr db1"
    and st': "st' = dispatch_pending_commands fid now (target_node_id (ce_target cmd))
      (st\<lparr>co_db := update_command_state (ce_command_id cmd) CS_PendingDispatch now (enqueue_dispatch cmd db1)\<rparr>)"
    using r by (auto simp: record_and_dispatch_command_def record_command_def record_command_on_connection_def result_simps)
  have "find_command (co_db st) (ce_command_id cmd) = None" using i by (auto simp: insert_command_def result_simps)
  then have n: "c \<noteq> ce_command_id cmd" using k by (auto simp: settled_def)
  have "find_command db1 c = find_command (co_db st) c" using settled_inserted[OF k i] by simp
  then have "settled c s p (st\<lparr>co_db := update_command_state (ce_command_id cmd) CS_PendingDispatch now (enqueue_dispatch cmd db1)\<rparr>)"
    using k n by (intro settled_find) (simp_all add: table_simps)
  then show "settled c s p st'" unfolding st' by (rule settled_cmd.dispatch_keeps)
qed (simp_all add: settled_def)

interpretation settled_workspace: workspace_property "settled c s p" for c s p
proof
  fix st c' p' t assume "settled c s p st"
  then show "settled c s p (snd (mark_command_terminal_if_nonterminal c' CS_Expired p' t st))"
    by (auto simp: settled_def find_marked)
qed (simp_all add: settled_def)

interpretation journal_workspace: workspace_property journal_ok
proof
  fix st c p t assume "journal_ok st"
  then show "journal_ok (snd (mark_command_terminal_if_nonterminal c CS_Expired p t st))"
    using marked_outbox[of st CS_Expired] by (simp add: journal_ok_def is_terminal_command_state_def)
next
  fix st ps assume "journal_ok st"
  then show "journal_ok (st\<lparr>co_db := (co_db st)\<lparr>db_placements := ps\<rparr>\<rparr>)"
    using outbox_inv_cong[of "(co_db st)\<lparr>db_placements := ps\<rparr>" "co_db st"] by (simp add: journal_ok_def)
qed (simp_all add: journal_ok_def)

interpretation log_workspace: workspace_property "log_ok K" for K
proof
  fix st c p t assume "log_ok K st"
  then show "log_ok K (snd (mark_command_terminal_if_nonterminal c CS_Expired p t st))" using log_ok_same[OF marked_log] by blast
next
  fix st ps assume "log_ok K st"
  then show "log_ok K (st\<lparr>co_db := (co_db st)\<lparr>db_placements := ps\<rparr>\<rparr>)" using log_ok_same[OF same_log_tables] by simp
qed (simp_all add: log_ok_def queued_acks_def)

end
