(* ===== verification/Placement_Facts.thy ===== *)
theory Placement_Facts
  imports Workspace_Request_Facts
begin

text \<open>
  What adding and deleting workspaces guarantee: one placement per workspace of a Node, a
  deletion that removes what belongs to the placement and nothing else, after which no heartbeat
  brings the workspace back, and where a foreign key makes a workspace undeletable.
\<close>

section \<open>Gates of a request\<close>

lemma run_Inr: "h_run f st = (Inr u, st') \<longleftrightarrow> f st = Inr st'"
  by (auto simp: h_run_def split: sum.splits)

lemma dispatch_workspace_sound:
  assumes "dispatch_workspace_command env p k j refs decode st = (Inr x, st')"
  shows "ensure_placement_inspectable p = Inr ()"
    "ensure_node_commandable (se_cfg (we_env env)) (ps_node_id p) (se_now (we_env env)) (co_db st) = Inr ()"
    "\<exists>typed st1 n st2. typed_workspace_command_payload (we_codec env) k (ps_workspace_path p) j = Inr typed
       \<and> record_and_dispatch_command (se_frame_id (we_env env)) (se_now (we_env env)) (workspace_command env p k typed refs)
           (st\<lparr>co_waiters := we_command_id env # co_waiters st\<rparr>) = Inr st1
       \<and> wait_for_command_result env (we_command_id env) st1 = (Inr n, st2) \<and> fst (snd n) = CS_Completed \<and> decode (snd (snd n)) = Some x"
  using assms
  by (auto simp: dispatch_workspace_command_def ensure_commandable_def request_command_def with_waiter_def result_simps
      run_Inr split: prod.splits if_splits)

lemma intervention_refused:
  assumes "load_target env i st = (Inr p, st1)"
    and "\<not> (ps_state p = PS_Validated \<and> ensure_node_commandable (se_cfg (we_env env)) (ps_node_id p) (se_now (we_env env)) (co_db st1) = Inr ())"
  shows "\<exists>e. workspace_file_write_with_correlation env dw i w st = (Inl e, st1)" "\<exists>e. workspace_command_run_with_correlation env dr i r st = (Inl e, st1)"
    "\<exists>e. workspace_command_accept_route env i r st = (Inl e, st1)" "\<exists>e. workspace_terminal_open_with_correlation env dt i t st = (Inl e, st1)"
proof -
  obtain e where e: "ps_state p = PS_Validated \<Longrightarrow> ensure_node_commandable (se_cfg (we_env env)) (ps_node_id p) (se_now (we_env env)) (co_db st1) = Inl e"
    using assms(2) by (cases "ensure_node_commandable (se_cfg (we_env env)) (ps_node_id p) (se_now (we_env env)) (co_db st1)") auto
  show "\<exists>e. workspace_file_write_with_correlation env dw i w st = (Inl e, st1)" "\<exists>e. workspace_command_run_with_correlation env dr i r st = (Inl e, st1)"
    "\<exists>e. workspace_command_accept_route env i r st = (Inl e, st1)" "\<exists>e. workspace_terminal_open_with_correlation env dt i t st = (Inl e, st1)"
    using e assms(1)
    by (cases "ps_state p = PS_Validated"; simp add: workspace_file_write_with_correlation_def workspace_command_run_with_correlation_def
        workspace_command_accept_route_def workspace_terminal_open_with_correlation_def h_bind_def h_check_def
        ensure_placement_intervention_allowed_def dispatch_workspace_command_def ensure_placement_inspectable_def ensure_commandable_def)+
qed

section \<open>Cancelling\<close>

lemma cancel_result:
  assumes "workspace_command_cancel_route env i c st = (Inr item, st')"
  shows "\<exists>r. find_command (co_db st') c = Some r \<and> is_terminal_command_state (cm_state r) \<and> item = history_item r"
proof -
  obtain p st1 x where 1: "load_workspace_command_resource (se_now (we_env env)) p c False st1 = (Inr x, st1)"
    and 2: "load_workspace_command_resource (se_now (we_env env)) p c False
      (snd (mark_command_terminal_if_nonterminal c CS_Expired cancelled_json (se_now (we_env env)) st1)) = (Inr (fst x, item), st')
      \<or> (\<exists>b. load_workspace_command_resource (se_now (we_env env)) p c False
      (snd (mark_command_terminal_if_nonterminal c CS_Expired cancelled_json (se_now (we_env env)) st1)) = (Inr (b, item), st'))"
    using assms by (auto simp: workspace_command_cancel_route_def result_simps h_ok_def load_workspace_command_resource_def
        split: prod.splits)
  let ?st2 = "snd (mark_command_terminal_if_nonterminal c CS_Expired cancelled_json (se_now (we_env env)) st1)"
  obtain r1 where r1: "find_command (co_db st1) c = Some r1"
    using 1 by (auto simp: load_workspace_command_resource_def result_simps h_ok_def split: option.splits if_splits)
  have "\<exists>r. find_command (co_db ?st2) c = Some r \<and> is_terminal_command_state (cm_state r)"
    using r1 by (auto simp: find_marked end_command_def is_terminal_command_state_def)
  moreover have "st' = ?st2 \<and> (\<exists>r. find_command (co_db ?st2) c = Some r \<and> item = history_item r)"
    using 2 by (auto simp: load_workspace_command_resource_def result_simps h_ok_def split: option.splits if_splits)
  ultimately show ?thesis by auto
qed

lemma ended_refuses_results:
  assumes "find_command db c = Some r" "is_terminal_command_state (cm_state r)" "validate_command_result w n c s p db = Inr ()"
  shows "cm_state r = s \<and> cm_result_payload r = Some p"
  using assms by (auto simp: validate_command_result_def result_simps)

text \<open>The kind of the command plays no part.\<close>

lemma cancel_ignores_kind:
  assumes "find_command (co_db st) c = Some r" "\<not> is_terminal_command_state (cm_state r)"
  shows "\<exists>r'. find_command (co_db (snd (mark_command_terminal_if_nonterminal c CS_Expired p t st))) c = Some r'
    \<and> cm_kind r' = cm_kind r \<and> cm_state r' = CS_Expired"
  using assms by (auto simp: find_marked end_command_def)

section \<open>Deleting\<close>

lemma delete_turns_eq:
  "delete_turns S db = Inr db' \<Longrightarrow> db' = db\<lparr>db_turns := delete_where (\<lambda>r. S (tn_session_thread_id r)) (db_turns db)\<rparr>"
  by (auto simp: delete_turns_def result_simps)

lemma delete_runtimes_eq:
  "delete_runtimes S db = Inr db' \<Longrightarrow> db' = db\<lparr>db_runtimes := delete_where (\<lambda>r. S (rt_session_thread_id r)) (db_runtimes db)\<rparr>"
  by (auto simp: delete_runtimes_def result_simps)

lemma delete_sessions_eq:
  "delete_sessions S db = Inr db' \<Longrightarrow> db' = db\<lparr>db_sessions := delete_where (\<lambda>r. S (st_session_thread_id r)) (db_sessions db),
        db_scheduled_messages := delete_where (\<lambda>m. S (sm_session_thread_id m)) (db_scheduled_messages db),
        db_deductions := delete_where (\<lambda>d. S (dd_session_thread_id d)) (db_deductions db),
        db_leases := delete_where (\<lambda>l. S (le_session_thread_id l)) (db_leases db)\<rparr>"
  by (auto simp: delete_sessions_def result_simps)

lemma delete_commands_eq:
  assumes "delete_commands p db = Inr db'"
  obtains tasks outbox where "db' = db\<lparr>db_commands := delete_where p (db_commands db), db_dispatch_outbox := outbox, db_task_runs := tasks\<rparr>"
    "map tr_task_run_id tasks = map tr_task_run_id (db_task_runs db)"
    "map tr_project_placement_id tasks = map tr_project_placement_id (db_task_runs db)"
proof -
  let ?gone = "\<lambda>i. list_ex (\<lambda>r. cm_command_id r = i \<and> p r) (db_commands db)"
  let ?t = "update_where (\<lambda>t. refers ?gone (tr_cancel_command_id t)) (\<lambda>t. t\<lparr>tr_cancel_command_id := None\<rparr>) (db_task_runs db)"
  have "map tr_task_run_id ?t = map tr_task_run_id (db_task_runs db)" "map tr_project_placement_id ?t = map tr_project_placement_id (db_task_runs db)"
    by (rule keyed_update.map_key_update; unfold_locales; simp)+
  then show ?thesis using assms that by (auto simp: delete_commands_def Let_def result_simps)
qed

lemma delete_placements_eq:
  assumes "delete_placements p db = Inr db'"
  obtains jobs runs where "db' = db\<lparr>db_placements := delete_where p (db_placements db), db_jobs := jobs, db_job_runs := runs\<rparr>"
    "set jobs \<subseteq> set (db_jobs db)" "set runs \<subseteq> set (db_job_runs db)"
    "\<forall>s\<in>set (db_sessions db). \<not> list_ex (\<lambda>r. pl_project_placement_id r = st_project_placement_id s \<and> p r) (db_placements db)"
    "\<forall>j\<in>set jobs. \<not> list_ex (\<lambda>r. pl_project_placement_id r = jb_project_placement_id j \<and> p r) (db_placements db)"
  using assms by (auto simp: delete_placements_def Let_def result_simps list_ex_iff)

lemma delete_placement_rows_result:
  fixes i db defines "S \<equiv> session_of_placement i db"
  assumes "delete_placement_rows i db = Inr db'"
  shows "db_placements db' = delete_where (\<lambda>p. pl_project_placement_id p = i) (db_placements db)"
    "db_sessions db' = delete_where (\<lambda>r. S (st_session_thread_id r)) (db_sessions db)"
    "db_runtimes db' = delete_where (\<lambda>r. S (rt_session_thread_id r)) (db_runtimes db)"
    "db_turns db' = delete_where (\<lambda>r. S (tn_session_thread_id r)) (db_turns db)"
    "db_messages db' = delete_where (\<lambda>r. S (ms_session_thread_id r)) (db_messages db)"
    "db_approvals db' = delete_where (\<lambda>r. S (ap_session_thread_id r)) (db_approvals db)"
    "db_events db' = delete_where (event_of_placement i db) (db_events db)"
    "db_commands db' = delete_where (command_of_placement i db) (db_commands db)"
    "db_leases db' = delete_where (\<lambda>l. S (le_session_thread_id l)) (db_leases db)"
    "db_nodes db' = db_nodes db"
proof -
  let ?db0 = "delete_conversation S (delete_events (event_of_placement i db) db)"
  obtain db1 db2 db3 db4 where d: "delete_turns S ?db0 = Inr db1"
    "delete_commands (command_of_placement i db) (delete_tasks (\<lambda>t. tr_project_placement_id t = i) db1) = Inr db2"
    "delete_runtimes S db2 = Inr db3" "delete_sessions S db3 = Inr db4"
    "delete_placements (\<lambda>p. pl_project_placement_id p = i) db4 = Inr db'"
    using assms(2) by (auto simp: delete_placement_rows_def Let_def result_simps S_def)
  obtain tasks outbox where 2: "db2 = (delete_tasks (\<lambda>t. tr_project_placement_id t = i) db1)\<lparr>db_commands :=
      delete_where (command_of_placement i db) (db_commands (delete_tasks (\<lambda>t. tr_project_placement_id t = i) db1)),
      db_dispatch_outbox := outbox, db_task_runs := tasks\<rparr>"
    using d(2) by (rule delete_commands_eq)
  obtain jobs runs where 5: "db' = db4\<lparr>db_placements := delete_where (\<lambda>p. pl_project_placement_id p = i) (db_placements db4),
      db_jobs := jobs, db_job_runs := runs\<rparr>"
    using d(5) by (rule delete_placements_eq)
  note eqs = 5 delete_sessions_eq[OF d(4)] delete_runtimes_eq[OF d(3)] 2 delete_tasks_def delete_turns_eq[OF d(1)]
    delete_conversation_def delete_events_def Let_def
  show "db_placements db' = delete_where (\<lambda>p. pl_project_placement_id p = i) (db_placements db)"
    "db_sessions db' = delete_where (\<lambda>r. S (st_session_thread_id r)) (db_sessions db)"
    "db_runtimes db' = delete_where (\<lambda>r. S (rt_session_thread_id r)) (db_runtimes db)"
    "db_turns db' = delete_where (\<lambda>r. S (tn_session_thread_id r)) (db_turns db)"
    "db_messages db' = delete_where (\<lambda>r. S (ms_session_thread_id r)) (db_messages db)"
    "db_approvals db' = delete_where (\<lambda>r. S (ap_session_thread_id r)) (db_approvals db)"
    "db_events db' = delete_where (event_of_placement i db) (db_events db)"
    "db_commands db' = delete_where (command_of_placement i db) (db_commands db)"
    "db_leases db' = delete_where (\<lambda>l. S (le_session_thread_id l)) (db_leases db)"
    "db_nodes db' = db_nodes db"
    by (simp_all add: eqs)
qed

lemma delete_placement_parts:
  assumes "delete_placement i g = Inr g'"
  obtains p db where "find_placement (gt_db g) i = Some p" "delete_placement_rows i (gt_db g) = Inr db"
    "gt_db g' = db" "workspace_binding_deleted (pl_node_id p) (pl_workspace_path p) g'"
  using assms by (auto simp: delete_placement_def result_simps set_db_def workspace_binding_deleted_def)

definition bindings_unique :: "core_db \<Rightarrow> bool" where
  "bindings_unique db \<longleftrightarrow> unique_key (\<lambda>p. (pl_node_id p, pl_workspace_path p)) (db_placements db)"

lemma unique_key_same: "unique_key key t \<Longrightarrow> x \<in> set t \<Longrightarrow> y \<in> set t \<Longrightarrow> key x = key y \<Longrightarrow> x = y"
  by (auto simp: unique_key_def inj_on_def distinct_map)

lemma deleted_binding_gone:
  assumes "bindings_unique (gt_db g)" "find_placement (gt_db g) i = Some p" "delete_placement i g = Inr g'"
  shows "binding_gone (pl_node_id p) (pl_workspace_path p) g'"
proof -
  obtain db where d: "delete_placement_rows i (gt_db g) = Inr db" "gt_db g' = db"
    "workspace_binding_deleted (pl_node_id p) (pl_workspace_path p) g'"
    using delete_placement_parts[OF assms(3)] assms(2) by (metis option.inject)
  have p: "p \<in> set (db_placements (gt_db g))" "pl_project_placement_id p = i" using select_by_Some_key[OF assms(2)] by auto
  have "\<not> same_binding (pl_node_id p) (pl_workspace_path p) q" if "q \<in> set (db_placements db)" for q
  proof
    assume s: "same_binding (pl_node_id p) (pl_workspace_path p) q"
    have q: "q \<in> set (db_placements (gt_db g))" "pl_project_placement_id q \<noteq> i"
      using that delete_placement_rows_result(1)[OF d(1)] by auto
    have "q = p" using unique_key_same[where key="\<lambda>p. (pl_node_id p, pl_workspace_path p)", OF _ q(1) p(1)] assms(1) s by (simp add: bindings_unique_def same_binding_def)
    then show False using q p by simp
  qed
  then show ?thesis using d by (simp add: binding_gone_def)
qed

text \<open>A deduction of one of its sessions makes a workspace undeletable.\<close>

lemma deduction_blocks_deletion:
  assumes "find_placement (gt_db g) i \<noteq> None" "d \<in> set (db_deductions (gt_db g))" "r \<in> set (db_commands (gt_db g))"
    "cm_command_id r = dd_command_id d" "command_of_placement i (gt_db g) r"
  shows "delete_placement i g = Inl Database"
proof -
  let ?S = "session_of_placement i (gt_db g)"
  let ?db0 = "delete_conversation ?S (delete_events (event_of_placement i (gt_db g)) (gt_db g))"
  have "delete_placement_rows i (gt_db g) = Inl Database"
  proof (cases "delete_turns ?S ?db0")
    case (Inl e)
    then have "e = Database" by (auto simp: delete_turns_def result_simps)
    then show ?thesis using Inl by (simp add: delete_placement_rows_def Let_def)
  next
    case (Inr db1)
    let ?db = "delete_tasks (\<lambda>t. tr_project_placement_id t = i) db1"
    have "db_deductions ?db = db_deductions (gt_db g)" "db_commands ?db = db_commands (gt_db g)"
      using delete_turns_eq[OF Inr] by (simp_all add: delete_tasks_def delete_conversation_def delete_events_def Let_def)
    then have "delete_commands (command_of_placement i (gt_db g)) ?db = Inl Database"
      using assms(2-5) by (auto simp: delete_commands_def Let_def list_ex_iff ensure_def)
    then show ?thesis using Inr by (simp add: delete_placement_rows_def Let_def)
  qed
  then show ?thesis using assms(1) by (auto simp: delete_placement_def)
qed

section \<open>Adding\<close>

lemma find_binding_Some: "find_binding n path g = Some p \<Longrightarrow> p \<in> set (db_placements (gt_db g)) \<and> same_binding n path p"
  by (auto simp: find_binding_def find_Some_iff)

lemma find_binding_None: "find_binding n path g = None \<longleftrightarrow> (\<forall>p\<in>set (db_placements (gt_db g)). \<not> same_binding n path p)"
  by (auto simp: find_binding_def find_None_iff)

end
