(* ===== verification/Placement_Invariant.thy ===== *)
theory Placement_Invariant
  imports Placement_Facts
begin

text \<open>
  One placement per workspace of a Node: placement ids and bindings stay unique under every
  request, event, heartbeat and deletion, so that a binding names at most one placement.
\<close>

definition placements_ok :: "core_state \<Rightarrow> bool" where
  "placements_ok st \<longleftrightarrow> bindings_unique (co_db st) \<and> unique_key pl_project_placement_id (db_placements (co_db st))"

abbreviation binding_of :: "placement_row \<Rightarrow> id \<times> string" where
  "binding_of p \<equiv> (pl_node_id p, pl_workspace_path p)"

lemma placements_ok_cong: "db_placements (co_db st') = db_placements (co_db st) \<Longrightarrow> placements_ok st' = placements_ok st"
  by (simp add: placements_ok_def bindings_unique_def)

section \<open>A validated workspace may move\<close>

lemma unique_key_nth: "unique_key k t \<longleftrightarrow> (\<forall>i<length t. \<forall>j<length t. i \<noteq> j \<longrightarrow> k (t ! i) \<noteq> k (t ! j))"
  by (auto simp: unique_key_def distinct_conv_nth)

lemma moved_bindings:
  assumes "unique_key pl_project_placement_id t" "unique_key binding_of t"
    and free: "\<And>r q. r \<in> set t \<Longrightarrow> q \<in> set t \<Longrightarrow> pl_project_placement_id r = pid \<Longrightarrow> pl_project_placement_id q \<noteq> pid \<Longrightarrow> binding_of q \<noteq> binding_of (f r)"
  shows "unique_key binding_of (update_where (\<lambda>r. pl_project_placement_id r = pid) f t)"
  unfolding unique_key_nth
proof (intro allI impI)
  fix i j assume "i < length (update_where (\<lambda>r. pl_project_placement_id r = pid) f t)"
    "j < length (update_where (\<lambda>r. pl_project_placement_id r = pid) f t)" and n: "i \<noteq> j"
  then have l: "i < length t" "j < length t" by (simp_all add: update_where_def)
  have ids: "pl_project_placement_id (t ! i) \<noteq> pl_project_placement_id (t ! j)" "binding_of (t ! i) \<noteq> binding_of (t ! j)"
    using assms(1,2) l n by (auto simp only: unique_key_nth)
  show "binding_of (update_where (\<lambda>r. pl_project_placement_id r = pid) f t ! i) \<noteq> binding_of (update_where (\<lambda>r. pl_project_placement_id r = pid) f t ! j)"
    using ids free[OF nth_mem nth_mem, OF l] free[OF nth_mem nth_mem, OF l(2,1)] l
    by (cases "pl_project_placement_id (t ! i) = pid"; cases "pl_project_placement_id (t ! j) = pid") (auto simp: update_where_def)
qed

lemma workspace_event_bindings:
  assumes "update_placement_from_workspace_event e db = Inr db'" "bindings_unique db" "unique_key pl_project_placement_id (db_placements db)"
  shows "bindings_unique db' \<and> unique_key pl_project_placement_id (db_placements db')"
proof -
  obtain pid path n st b g t where ok: "placement_identity_ok pid path db"
    and db': "db_placements db' = update_where (\<lambda>r. pl_project_placement_id r = pid) (assign_placement n path st b g t) (db_placements db)"
    using assms(1) by (auto simp: update_placement_from_workspace_event_def result_simps Let_def)
  have key: "keyed_update pl_project_placement_id (assign_placement n path st b g t)" by unfold_locales (simp add: assign_placement_def)
  have "binding_of q \<noteq> binding_of (assign_placement n path st b g t r)"
    if "r \<in> set (db_placements db)" "q \<in> set (db_placements db)" "pl_project_placement_id r = pid" "pl_project_placement_id q \<noteq> pid" for r q
  proof -
    have "find_placement db pid = Some r" using that(1,3) assms(3) by (metis select_by_unique)
    then show ?thesis using ok that(2,4) by (auto simp: placement_identity_ok_def list_all_iff assign_placement_def)
  qed
  then have "unique_key binding_of (db_placements db')"
    unfolding db' using assms(2,3) by (intro moved_bindings) (simp_all add: bindings_unique_def)
  then show ?thesis using assms(3) keyed_update.unique_update[OF key] by (simp add: bindings_unique_def db')
qed

section \<open>Nothing else of an event touches placements\<close>

lemma placement_frames [simp]:
  "db_placements (update_runtimes rid f db) = db_placements db"
  "db_placements (set_session_state sid s t db) = db_placements db"
  "db_placements (touch_runtime_step rid t db) = db_placements db"
  "db_placements (update_turn_from_event e db) = db_placements db"
  "db_placements (upsert_actor a t db) = db_placements db"
  "db_placements (enqueue_event_publication e db) = db_placements db"
  by (simp_all add: update_runtimes_def set_session_state_def touch_runtime_step_def update_turn_from_event_def upsert_actor_def
      enqueue_event_publication_def Let_def split: option.splits prod.splits)

lemma placement_frames_runtime [simp]:
  "db_placements (project_runtime e db) = db_placements db" "db_placements (mark_event_stream_gap e n db) = db_placements db"
  by (simp_all add: project_runtime_def mark_event_stream_gap_def update_runtime_state_def update_runtime_provider_resume_ref_def
      update_session_state_from_event_def Let_def split: option.splits prod.splits)

lemma placement_approval: "update_approval_from_event e db = Inr db' \<Longrightarrow> db_placements db' = db_placements db"
  by (auto simp: update_approval_cases record_approval_request_def record_approval_resolution_def result_simps split: if_splits option.splits)

lemma placement_task_event: "project_task_event_on_connection e db = Inr db' \<Longrightarrow> db_placements db' = db_placements db"
  by (drule project_task_event_frame, erule ssubst) simp

definition db_placements_ok :: "core_db \<Rightarrow> bool" where
  "db_placements_ok db \<longleftrightarrow> bindings_unique db \<and> unique_key pl_project_placement_id (db_placements db)"

lemma db_placements_ok_cong: "db_placements db = db_placements db' \<Longrightarrow> db_placements_ok db = db_placements_ok db'"
  by (simp add: db_placements_ok_def bindings_unique_def)

lemma placements_ok_db: "placements_ok st = db_placements_ok (co_db st)"
  by (simp add: placements_ok_def db_placements_ok_def)

lemma apply_placements:
  assumes "apply_event_projection e db = Inr db'" "db_placements_ok db"
  shows "db_placements_ok db'"
proof -
  let ?db1 = "case ev_runtime_session_id e of None \<Rightarrow> db | Some rid \<Rightarrow> touch_runtime_step rid (ev_happened_at e) db"
  from assms(1) obtain db3 db4 where
    3: "update_approval_from_event e (update_turn_from_event e ?db1) = Inr db3"
    and 4: "project_task_event_on_connection e db3 = Inr db4"
    and 5: "(if ev_kind e \<in> {EK_WorkspaceValidated, EK_ResourceSnapshotUpdated}
         then update_placement_from_workspace_event e db4 else Inr (project_runtime e db4)) = Inr db'"
    by (auto simp only: apply_event_projection_def Let_def result_simps)
  have "db_placements ?db1 = db_placements db" by (simp split: option.splits)
  then have "db_placements_ok db4" using assms(2) placement_approval[OF 3] placement_task_event[OF 4] by (simp cong: db_placements_ok_cong add: db_placements_ok_def bindings_unique_def)
  then show ?thesis using 5 workspace_event_bindings[of e db4 db'] db_placements_ok_cong[of "project_runtime e db4" db4]
    by (auto simp: db_placements_ok_def split: if_splits)
qed

lemma complete_placements: "complete_event_projection m e db = Inr db' \<Longrightarrow> db_placements db' = db_placements db"
  unfolding complete_event_projection_def by (drule insert_durable_message_frame(9)) simp

lemma accept_placements:
  assumes "accept_transaction m e db = Inr (x, db')" "db_placements_ok db"
  shows "db_placements_ok db'"
proof -
  have new: "db_placements_ok db'" if a: "accept_new_event m e db = Inr db'"
  proof -
    obtain db1 db2 where s: "insert_event_record (scope_key (ev_scope_ref e)) (stamp_event e db)
         (upsert_actor (ev_actor_ref e) (ev_happened_at e) db) = Inr db1"
      "apply_event_projection (stamp_event e db) db1 = Inr db2"
      "complete_event_projection m (stamp_event e db)
       (case stream_gap e db of None \<Rightarrow> db2 | Some n \<Rightarrow> mark_event_stream_gap (stamp_event e db) n db2) = Inr db'"
      using accept_new_event_steps[OF a] by blast
    have "db_placements db1 = db_placements db" using s(1) by (auto simp: insert_event_record_def result_simps)
    then have "db_placements_ok db2" using apply_placements[OF s(2)] assms(2) db_placements_ok_cong by metis
    moreover have "db_placements db' = db_placements db2" using complete_placements[OF s(3)] by (simp split: option.splits)
    ultimately show ?thesis using db_placements_ok_cong by metis
  qed
  have retry: "db_placements_ok db'" if r: "retry_projection m r db = Inr db'" for r
  proof -
    let ?db1 = "db\<lparr>db_events := update_where (\<lambda>x. er_event_id x = er_event_id r)
      (\<lambda>x. x\<lparr>er_projection_attempts := Suc (er_projection_attempts x)\<rparr>) (db_events db)\<rparr>"
    obtain db2 where s: "apply_event_projection (er_event r) ?db1 = Inr db2" "complete_event_projection m (er_event r) db2 = Inr db'"
      using r by (auto simp: retry_projection_def Let_def result_simps)
    have "db_placements_ok ?db1" using assms(2) by (subst db_placements_ok_cong[of _ db]) simp_all
    then show ?thesis using apply_placements[OF s(1)] complete_placements[OF s(2)] db_placements_ok_cong by metis
  qed
  show ?thesis using assms new retry db_placements_ok_cong[of "enqueue_event_publication (er_event y) db" db for y]
    by (auto simp: accept_transaction_def result_simps split: option.splits if_splits)
qed

section \<open>Publication and dispatch\<close>

lemma fold_keeps: "(\<And>x s. f (g x s) = f s) \<Longrightarrow> f (fold g xs s) = f s"
  by (induction xs arbitrary: s) auto

lemma drain_placements [simp]: "db_placements (co_db (drain_event_publication_outbox b now st)) = db_placements (co_db st)"
  unfolding drain_event_publication_outbox_def
  by (rule fold_keeps[where f = "\<lambda>st. db_placements (co_db st)"]) (simp add: drain_row_def Let_def)

lemma command_state_placements [simp]: "db_placements (update_command_state c s t db) = db_placements db"
  by (simp add: update_command_state_def delete_dispatch_def Let_def)

lemma dispatch_placements [simp]: "db_placements (co_db (dispatch_pending_commands fid now n st)) = db_placements (co_db st)"
proof -
  have "db_placements (co_db (fold (dispatch_row_step fid now tx) rows st)) = db_placements (co_db st)" for tx rows
    by (rule fold_keeps[where f = "\<lambda>st. db_placements (co_db st)"])
      (auto simp: dispatch_row_step_def mark_attempt_def try_send_def Let_def split: prod.splits if_splits option.splits bool.splits)
  then show ?thesis by (simp add: dispatch_pending_commands_def Let_def split: option.splits)
qed

lemma turn_placements: "record_turn_submission c t m s x now db = Inr db' \<Longrightarrow> db_placements db' = db_placements db"
  by (auto simp: record_turn_submission_def result_simps insert_command_def enqueue_dispatch_def Let_def
      insert_turn_def insert_message_def split: if_splits)

lemma record_dispatch_placements: "record_and_dispatch_command fid now c st = Inr st' \<Longrightarrow> db_placements (co_db st') = db_placements (co_db st)"
  by (auto simp: record_and_dispatch_command_def record_command_def result_simps dest!: record_command_frame)

interpretation placement_requests: core_property placements_ok
proof
  fix st b now m e st' assume p: "placements_ok st" and "accept_node_event b now m e st = Inr st'"
  then obtain x db where a: "accept_transaction m e (co_db st) = Inr (x, db)" and f: "db_placements (co_db st') = db_placements db"
    by (auto simp: accept_node_event_def Let_def result_simps split: option.splits)
  have "db_placements_ok db" using accept_placements[OF a] p by (simp add: placements_ok_db)
  then show "placements_ok st'" using f db_placements_ok_cong by (metis placements_ok_db)
next
  fix st c db assume "placements_ok st" "record_command_on_connection c (co_db st) = Inr db"
  then show "placements_ok (st\<lparr>co_db := db\<rparr>)" using record_command_frame placements_ok_cong[of "st\<lparr>co_db := db\<rparr>" st] by simp
next
  fix st c t m s x now db assume "placements_ok st" "record_turn_submission c t m s x now (co_db st) = Inr db"
  then show "placements_ok (st\<lparr>co_db := db\<rparr>)" using turn_placements placements_ok_cong[of "st\<lparr>co_db := db\<rparr>" st] by simp
next
  fix st fid now n assume "placements_ok st"
  then show "placements_ok (dispatch_pending_commands fid now n st)" using placements_ok_cong[OF dispatch_placements] by simp
next
  fix st fid now c st' assume "placements_ok st" "record_and_dispatch_command fid now c st = Inr st'"
  then show "placements_ok st'" using placements_ok_cong[OF record_dispatch_placements] by blast
next
  fix st au le assume "placements_ok st"
  then show "placements_ok (st\<lparr>co_db := (co_db st)\<lparr>db_audit := au, db_leases := le\<rparr>\<rparr>)" by (subst placements_ok_cong[of _ st]) simp_all
next
  fix st ss rs assume "placements_ok st"
  then show "placements_ok (st\<lparr>co_db := (co_db st)\<lparr>db_sessions := ss, db_runtimes := rs\<rparr>\<rparr>)" by (subst placements_ok_cong[of _ st]) simp_all
qed

section \<open>Adding, reporting and deleting\<close>

lemma db_placements_insert:
  assumes "db_placements_ok db" "find_placement db (pl_project_placement_id r) = None"
    and "\<forall>p\<in>set (db_placements db). \<not> same_binding (pl_node_id r) (pl_workspace_path r) p"
  shows "db_placements_ok (db\<lparr>db_placements := db_placements db @ [r]\<rparr>)"
proof -
  have "binding_of r \<notin> binding_of ` set (db_placements db)" using assms(3) by (auto simp: same_binding_def)
  moreover have "pl_project_placement_id r \<notin> pl_project_placement_id ` set (db_placements db)" using assms(2) by (auto simp: select_by_None_iff)
  ultimately show ?thesis using assms(1) by (simp add: db_placements_ok_def bindings_unique_def unique_key_def)
qed

lemma db_placements_update:
  assumes "db_placements_ok db" "\<And>p. pl_project_placement_id (f p) = pl_project_placement_id p" "\<And>p. binding_of (f p) = binding_of p"
  shows "db_placements_ok (db\<lparr>db_placements := update_where P f (db_placements db)\<rparr>)"
proof -
  have "keyed_update pl_project_placement_id f" "keyed_update binding_of f" using assms(2,3) by unfold_locales auto
  from this[THEN keyed_update.unique_update] show ?thesis using assms(1) by (simp add: db_placements_ok_def bindings_unique_def)
qed

lemma upsert_bindings:
  assumes "upsert_placement sid n w g = Inr g'" "placements_ok (gt_core g)"
  shows "placements_ok (gt_core g')"
proof (cases "rows_affected (same_binding n (ws_workspace_path w)) (db_placements (gt_db g)) = 0")
  case True
  then have "\<forall>p\<in>set (db_placements (gt_db g)). \<not> same_binding n (ws_workspace_path w) p" by (auto simp: rows_affected_0_iff)
  then show ?thesis using assms True
    by (auto simp: upsert_placement_def Let_def result_simps placements_ok_db set_db_def intro!: db_placements_insert)
next
  case False
  then show ?thesis using assms
    by (auto simp: upsert_placement_def Let_def result_simps placements_ok_db set_db_def intro!: db_placements_update)
qed

lemma upsert_project_core [simp]: "gt_core (upsert_project i d t g) = gt_core g"
  by (simp add: upsert_project_def split: option.splits)

lemma heartbeat_bindings: "h_keeps (\<lambda>g. placements_ok (gt_core g)) (upsert_heartbeat_workspaces sid n ws)"
proof (induction ws)
  case (Cons w ws)
  have "h_keeps (\<lambda>g. placements_ok (gt_core g)) (upsert_heartbeat_workspace sid n w)"
    unfolding upsert_heartbeat_workspace_def
    by (intro h_keeps_bind h_keeps_check)
      (auto intro!: h_keeps_ok h_keeps_bind h_keeps_modify h_keeps_run elim: upsert_bindings)
  then show ?case using Cons by (auto intro!: h_keeps_bind)
qed (simp add: h_keeps_ok)

lemma store_bindings:
  assumes "placements_ok (gt_core g)"
  shows "placements_ok (gt_core (snd (store_placement env i p n d path g)))"
proof (cases "find_binding n path g")
  case None
  let ?r = "new_placement_row p i n d path (se_now (we_env env))"
  have ok: "db_placements_ok (gt_db g\<lparr>db_placements := db_placements (gt_db g) @ [?r]\<rparr>)" if "find_placement (gt_db g) p = None"
    using that assms None by (intro db_placements_insert) (simp_all add: placements_ok_db find_binding_None new_placement_row_def)
  have dispatched: "placements_ok (gt_core (on_dispatch env n (set_db db g1)))"
    if "db_placements db = db_placements (gt_db g) @ [?r]" "find_placement (gt_db g) p = None" for db g1
    using ok[OF that(2)] that(1) db_placements_ok_cong[of db "gt_db g\<lparr>db_placements := db_placements (gt_db g) @ [?r]\<rparr>"]
    by (simp add: on_dispatch_def set_db_def placements_ok_cong[OF dispatch_placements]) (simp add: placements_ok_db)
  show ?thesis using assms None dispatched
    by (auto simp: store_placement_def Let_def result_simps ensure_def split: sum.splits dest!: record_command_frame)
qed (use assms in \<open>simp add: store_placement_def\<close>)

lemma core_step_bindings: "h_keeps placements_ok h \<Longrightarrow> h_keeps (\<lambda>g. placements_ok (gt_core g)) (on_gate_core h)"
  unfolding h_keeps_def on_gate_core_def by (auto split: prod.split)

lemma validate_bindings: "h_keeps (\<lambda>g. placements_ok (gt_core g)) (validate_placement_with_correlation env i p r)"
proof -
  have "h_keeps (\<lambda>g. placements_ok (gt_core g)) (store_placement env i p n d path)" for n d path
    using store_bindings by (auto simp: h_keeps_def)
  then show ?thesis
    unfolding validate_placement_with_correlation_def load_target_def
    by (intro h_keeps_bind h_keeps_check; auto intro!: h_keeps_bind h_keeps_check h_keeps_ok core_step_bindings
        placement_requests.keeps_load_placement split: option.splits prod.splits)
qed

lemma filter_unique: "unique_key k t \<Longrightarrow> unique_key k (delete_where p t)"
  by (simp add: unique_key_def delete_where_def distinct_map_filter)

lemma delete_bindings:
  assumes "delete_placement i g = Inr g'" "placements_ok (gt_core g)"
  shows "placements_ok (gt_core g')"
proof -
  obtain p db where "delete_placement_rows i (gt_db g) = Inr db" "gt_db g' = db" using delete_placement_parts[OF assms(1)] by blast
  then show ?thesis using delete_placement_rows_result(1)[of i "gt_db g" db] assms(2)
    by (simp add: placements_ok_def bindings_unique_def filter_unique)
qed

end
