(* ===== verification/Request_Scenarios.thy ===== *)
theory Request_Scenarios
  imports Workspace_Scenarios Placement_Invariant
begin

text \<open>Workspace requests on small states: a Core with one enrolled Node, and one with a read-only placement.\<close>

definition codec0 :: workspace_codec where
  "codec0 = \<lparr>wk_write = (\<lambda>_. JNull), wk_write_of = (\<lambda>_. Some write_request0),
     wk_run = (\<lambda>_. JNull), wk_run_of = (\<lambda>_. None), wk_diff = (\<lambda>_. JNull), wk_diff_of = (\<lambda>_. None),
     wk_terminal = (\<lambda>_. JNull), wk_terminal_of = (\<lambda>_. None)\<rparr>"

definition workspace_env0 :: workspace_env where
  "workspace_env0 = \<lparr>we_env = session_env0, we_command_id = ''w1'', we_correlation_id = ''x1'', we_codec = codec0,
     we_wait = (\<lambda>_ st. (W_Elapsed, st))\<rparr>"

definition request_core :: core_state where
  "request_core = new_core (two_nodes\<lparr>db_nodes := [node_row0],
     db_commands := [(new_command_row CS_Acknowledged command0)\<lparr>cm_project_placement_id := Some ''pa''\<rparr>]\<rparr>)"

definition read_only_core :: core_state where
  "read_only_core = new_core (two_nodes\<lparr>db_nodes := [node_row0], db_placements := [(placement0 ''pa'' ''a'')\<lparr>pl_state := PS_ReadOnly\<rparr>]\<rparr>)"

definition snapshot0 :: workspace_snapshot where
  "snapshot0 = \<lparr>ws_display_name = ''x'', ws_workspace_path = ''/w'', ws_state = PS_Validated, ws_resource_badges = [],
     ws_git_snapshot = None, ws_last_validated_at = 3\<rparr>"

lemma workspace_env0_waits: "P st \<Longrightarrow> P (snd (we_wait workspace_env0 k st))"
  by (simp add: workspace_env0_def)

lemma gate0_bindings: "placements_ok (gt_core gate0)" "bindings_unique (gt_db gate0)"
  by (simp_all add: placements_ok_def bindings_unique_def unique_key_def gate0_def new_core_def two_nodes_def placement0_def)

lemma read_only_state:
  "(case fst (load_target workspace_env0 ''pa'' read_only_core) of Inr p \<Rightarrow> ps_state p = PS_ReadOnly | Inl _ \<Rightarrow> False)"
  by code_simp

lemma read_only_loaded: "\<exists>p st. load_target workspace_env0 ''pa'' read_only_core = (Inr p, st) \<and> ps_state p = PS_ReadOnly"
  using read_only_state by (cases "load_target workspace_env0 ''pa'' read_only_core") (auto split: sum.splits)

lemma cancelled0: "is_ok (fst (workspace_command_cancel_route workspace_env0 ''pa'' ''c1'' request_core))"
  by code_simp

text \<open>The command that was cancelled as a workspace command is a turn.\<close>

lemma cancelled_turn:
  "map (\<lambda>r. (cm_kind r, cm_state r)) (db_commands (co_db (snd (workspace_command_cancel_route workspace_env0 ''pa'' ''c1'' request_core))))
   = [(CK_SendTurn, CS_Expired)]"
  by code_simp

lemma deleted0: "is_ok (delete_placement ''pa'' gate0)"
  by code_simp

definition add_request0 :: create_placement_request where
  "add_request0 = \<lparr>qp_node_id = '' a '', qp_display_name = ''n'', qp_workspace_path = ''/new''\<rparr>"

lemma added0:
  "(case fst (validate_placement_with_correlation workspace_env0 ''pr'' ''pn'' add_request0 gate0) of
      Inr s \<Rightarrow> ps_project_placement_id s = ''pn'' | Inl _ \<Rightarrow> False)"
  by code_simp

end
