(* ===== verification/Plugin_Manifests.thy ===== *)
theory Plugin_Manifests
  imports Core_Support
begin

text \<open>
  Plugin manifests: the contracts of \<open>uprava-protocol/src/plugins.rs\<close> and their validation in
  \<open>application/plugins.rs\<close>. A plugin declares contributions; a contribution that would run code of
  the package needs a trusted package and the permission for its kind. \<open>plugin_env\<close> holds what
  crates outside the repository compute: parsing and ordering of versions (\<open>semver\<close>, the order of
  \<open>'v\<close>), the length of encoded JSON, hashes; and the contrast of two colors, which the code
  computes in floating point.
\<close>

section \<open>Contracts\<close>

datatype (plugins only: code size) generated_ui_layout_intent = GUL_Inline | GUL_Panel | GUL_Canvas
datatype (plugins only: code size) generated_ui_capability =
  GUC_PersistState | GUC_SendAgentInput | GUC_OpenReference | GUC_RequestLayoutChange
datatype (plugins only: code size) generated_ui_action_kind =
  GUA_UpdateArtifactState | GUA_SendAgentInput | GUA_OpenReference

datatype (plugins only: code size) plugin_trust_level =
  TL_DataOnly | TL_TrustedBundled | TL_SandboxedWeb | TL_SandboxedNode | TL_ExternalService
datatype (plugins only: code size) plugin_install_source = PI_Bundled | PI_Local | PI_TeamCatalog | PI_CommunityCatalog
datatype (plugins only: code size) plugin_desired_state = PDS_Disabled | PDS_Enabled
datatype (plugins only: code size) plugin_effective_state = PES_Disabled | PES_Active | PES_Incompatible | PES_Degraded | PES_Error
datatype (plugins only: code size) plugin_compatibility_state = PCS_Compatible | PCS_Incompatible

record plugin_compatibility =
  cy_state :: plugin_compatibility_state
  cy_diagnostics :: "string list"

record plugin_version_range =
  vn_minimum :: "string option"
  vn_maximum_exclusive :: "string option"

record plugin_compatibility_requirements =
  cz_core :: plugin_version_range
  cz_web :: plugin_version_range
  cz_node :: "plugin_version_range option"
  cz_protocol_versions :: "string list"

datatype (plugins only: code size) theme_kind = THK_Light | THK_Dark | THK_HighContrast
datatype (plugins only: code size) theme_color_scheme = THC_Light | THC_Dark

type_synonym palette = "(string \<times> string) list"

record theme_contribution =
  th_theme_id :: string
  th_label :: string
  th_kind :: theme_kind
  th_color_scheme :: theme_color_scheme
  th_semantic_tokens :: palette
  th_monaco_base :: string
  th_monaco_colors :: palette
  th_terminal_colors :: palette

datatype (plugins only: code size) visual_renderer_kind = VRK_Content | VRK_InlineFragment | VRK_Block | VRK_ArtifactViewer
datatype (plugins only: code size) visual_render_scope =
  VRS_ContentEnhancement | VRS_InlineFragment | VRS_Block | VRS_ArtifactViewer | VRS_DetailView
datatype (plugins only: code size) visual_renderer_fallback = VRF_PlainText | VRF_Source | VRF_Metadata
datatype (plugins only: code size) visual_source_matcher = VSM_FencedLanguage "string list" | VSM_StrictColorLiteral "string list"

record visual_renderer_contribution =
  vr_renderer_id :: string
  vr_implementation_id :: string
  vr_renderer_kind :: visual_renderer_kind
  vr_accepted_source_kinds :: "string list"
  vr_render_scopes :: "visual_render_scope list"
  vr_allowed_surfaces :: "string list"
  vr_fallback_strategy :: visual_renderer_fallback
  vr_source_matcher :: "visual_source_matcher option"
  vr_visual_kinds :: "string list"
  vr_actions :: "string list"

record artifact_type_contribution =
  at_artifact_type_id :: string
  at_display_name :: string
  at_description :: string
  at_schema_version :: "16 word"
  at_fallback_strategy :: visual_renderer_fallback

record generated_ui_runtime_contribution =
  gr_runtime_id :: string
  gr_implementation_id :: string
  gr_runtime_version :: string
  gr_sdk_id :: string
  gr_action_bridge_id :: string
  gr_supported_sdk_versions :: "string list"
  gr_supported_layouts :: "generated_ui_layout_intent list"
  gr_sandbox_capabilities :: "generated_ui_capability list"
  gr_allowed_imports :: "string list"
  gr_max_source_bytes :: u64
  gr_max_bundle_bytes :: u64

record generated_ui_sdk_contribution =
  gk_sdk_id :: string
  gk_package_name :: string
  gk_api_version :: string
  gk_design_token_version :: string
  gk_api_schema :: json

record generated_ui_action_bridge_contribution =
  gb_bridge_id :: string
  gb_supported_actions :: "generated_ui_action_kind list"

datatype (plugins only: code size) plugin_contribution =
    PC_UiTheme string "16 word" theme_contribution
  | PC_VisualRenderer string "16 word" visual_renderer_contribution
  | PC_AgentTool string "16 word" id
  | PC_ArtifactType string "16 word" artifact_type_contribution
  | PC_GeneratedUiRuntime string "16 word" generated_ui_runtime_contribution
  | PC_GeneratedUiSdk string "16 word" generated_ui_sdk_contribution
  | PC_GeneratedUiActionBridge string "16 word" generated_ui_action_bridge_contribution

record plugin_manifest =
  mn_manifest_version :: "16 word"
  mn_plugin_id :: id
  mn_version :: string
  mn_display_name :: string
  mn_description :: string
  mn_publisher :: string
  mn_license :: "string option"
  mn_homepage :: "string option"
  mn_install_source :: plugin_install_source
  mn_trust_level :: plugin_trust_level
  mn_compatibility :: plugin_compatibility_requirements
  mn_activation_conditions :: "string list"
  mn_requested_permissions :: "string list"
  mn_configuration_schema :: "json option"
  mn_contributions :: "plugin_contribution list"

definition PLUGIN_MANIFEST_VERSION_V1 :: "16 word" where "PLUGIN_MANIFEST_VERSION_V1 = 1"
definition THEME_CONTRIBUTION_VERSION_V1 :: "16 word" where "THEME_CONTRIBUTION_VERSION_V1 = 1"
definition VISUAL_RENDERER_CONTRIBUTION_VERSION_V1 :: "16 word" where "VISUAL_RENDERER_CONTRIBUTION_VERSION_V1 = 1"
definition VISUAL_RENDERER_CONTRIBUTION_VERSION_V2 :: "16 word" where "VISUAL_RENDERER_CONTRIBUTION_VERSION_V2 = 2"
definition ARTIFACT_TYPE_CONTRIBUTION_VERSION_V1 :: "16 word" where "ARTIFACT_TYPE_CONTRIBUTION_VERSION_V1 = 1"
definition GENERATED_UI_RUNTIME_CONTRIBUTION_VERSION_V1 :: "16 word" where "GENERATED_UI_RUNTIME_CONTRIBUTION_VERSION_V1 = 1"
definition GENERATED_UI_SDK_CONTRIBUTION_VERSION_V1 :: "16 word" where "GENERATED_UI_SDK_CONTRIBUTION_VERSION_V1 = 1"
definition GENERATED_UI_ACTION_BRIDGE_CONTRIBUTION_VERSION_V1 :: "16 word" where
  "GENERATED_UI_ACTION_BRIDGE_CONTRIBUTION_VERSION_V1 = 1"
definition THEME_CONTRIBUTION_PERMISSION :: string where "THEME_CONTRIBUTION_PERMISSION = ''ui.theme.contribute''"
definition VISUAL_RENDERER_CONTRIBUTION_PERMISSION :: string where
  "VISUAL_RENDERER_CONTRIBUTION_PERMISSION = ''visual.renderer.contribute''"
definition ARTIFACT_TYPE_CONTRIBUTION_PERMISSION :: string where "ARTIFACT_TYPE_CONTRIBUTION_PERMISSION = ''artifact.type.contribute''"
definition GENERATED_UI_RUNTIME_CONTRIBUTION_PERMISSION :: string where
  "GENERATED_UI_RUNTIME_CONTRIBUTION_PERMISSION = ''generated_ui.runtime.contribute''"
definition GENERATED_UI_SDK_CONTRIBUTION_PERMISSION :: string where
  "GENERATED_UI_SDK_CONTRIBUTION_PERMISSION = ''generated_ui.sdk.contribute''"
definition GENERATED_UI_ACTION_BRIDGE_CONTRIBUTION_PERMISSION :: string where
  "GENERATED_UI_ACTION_BRIDGE_CONTRIBUTION_PERMISSION = ''generated_ui.action_bridge.contribute''"

datatype (plugins only: code size) contribution_resolution_mode = CRM_Exclusive | CRM_Ordered
datatype (plugins only: code size) effective_contribution_state = ECS_Available | ECS_Disabled

datatype (plugins only: code size) contribution_target =
    CTG_UiTheme string
  | CTG_VisualRenderer string string visual_render_scope "string option"
  | CTG_ArtifactType string
  | CTG_GeneratedUiRuntime string
  | CTG_GeneratedUiSdk string
  | CTG_GeneratedUiActionBridge string

record contribution_ref =
  kr_plugin_id :: id
  kr_contribution_id :: string

record effective_contribution =
  ke_plugin_id :: id
  ke_plugin_version :: string
  ke_contribution_id :: string
  ke_extension_point :: string
  ke_contract_version :: "16 word"
  ke_target :: contribution_target
  ke_effective_state :: effective_contribution_state
  ke_contribution :: plugin_contribution

record contribution_target_resolution =
  kt_target_id :: string
  kt_extension_point :: string
  kt_mode :: contribution_resolution_mode
  kt_target :: contribution_target
  kt_revision :: u64
  kt_conflict :: bool
  kt_contributions :: "effective_contribution list"

record effective_plugin_snapshot =
  kp_contributions :: "effective_contribution list"
  kp_resolutions :: "contribution_target_resolution list"
  kp_generated_at :: time

record update_preferences_request =
  uq_expected_revision :: u64
  uq_ordered :: "contribution_ref list"
  uq_disabled :: "contribution_ref list"

section \<open>The environment\<close>

type_synonym rgb = "nat \<times> nat \<times> nat"

datatype (plugins only: code size) contrast_minimum = Contrast_4_5 | Contrast_3_0

record 'v plugin_env =
  gv_parse_version :: "string \<Rightarrow> 'v option"
  gv_json_len :: "json \<Rightarrow> nat"
  gv_manifest_hash :: "plugin_manifest \<Rightarrow> string"
  gv_target_id :: "contribution_target \<Rightarrow> string"
  gv_configuration_hash :: string
  gv_contrast_below :: "rgb \<Rightarrow> rgb \<Rightarrow> contrast_minimum \<Rightarrow> bool"
  gv_app_version :: string
  gv_now :: time

section \<open>Identifiers, colors, versions\<close>

definition MAX_PLUGIN_ID_CHARS :: nat where "MAX_PLUGIN_ID_CHARS = 128"
definition MAX_PLUGIN_TEXT_CHARS :: nat where "MAX_PLUGIN_TEXT_CHARS = 2000"
definition MAX_PLUGIN_PERMISSIONS :: nat where "MAX_PLUGIN_PERMISSIONS = 64"
definition MAX_PLUGIN_CONTRIBUTIONS :: nat where "MAX_PLUGIN_CONTRIBUTIONS = 128"
definition MAX_THEME_TOKENS :: nat where "MAX_THEME_TOKENS = 128"
definition MAX_THEME_ADAPTER_COLORS :: nat where "MAX_THEME_ADAPTER_COLORS = 128"
definition MAX_RENDERER_TARGETS :: nat where "MAX_RENDERER_TARGETS = 32"
definition MAX_NORMALIZED_RENDERER_TARGETS :: nat where "MAX_NORMALIZED_RENDERER_TARGETS = 128"

definition plugin_manifest_error :: app_error where
  "plugin_manifest_error = BadRequest ''plugin.manifest_invalid''"

definition manifest_check :: "bool \<Rightarrow> app_error + unit" where
  "manifest_check b = ensure b plugin_manifest_error"

definition identifier_char :: "char \<Rightarrow> bool" where
  "identifier_char c = (let n = (of_char c :: nat) in
     (97 \<le> n \<and> n \<le> 122) \<or> (48 \<le> n \<and> n \<le> 57) \<or> c = CHR ''.'' \<or> c = CHR ''-'' \<or> c = CHR ''_'')"

definition validate_namespaced_id :: "string \<Rightarrow> app_error + unit" where
  "validate_namespaced_id v = manifest_check (utf8_len v \<le> MAX_PLUGIN_ID_CHARS \<and> CHR ''.'' \<in> set v \<and> list_all identifier_char v)"

definition valid_selector :: "string \<Rightarrow> bool" where
  "valid_selector v \<longleftrightarrow> v \<noteq> [] \<and> utf8_len v \<le> MAX_PLUGIN_ID_CHARS \<and> list_all identifier_char v"

fun has_duplicates :: "'a list \<Rightarrow> bool" where
  "has_duplicates [] = False"
| "has_duplicates (x # xs) = (x \<in> set xs \<or> has_duplicates xs)"

definition valid_hex_color :: "string \<Rightarrow> bool" where
  "valid_hex_color v = (utf8_len v \<in> {4, 7, 9} \<and> (case v of c # r \<Rightarrow> c = CHR ''#'' \<and> list_all is_ascii_hexdigit r | [] \<Rightarrow> False))"

definition hex_digit :: "char \<Rightarrow> nat option" where
  "hex_digit c = (let n = (of_char c :: nat) in
     if 48 \<le> n \<and> n \<le> 57 then Some (n - 48) else if 97 \<le> n \<and> n \<le> 102 then Some (n - 87)
     else if 65 \<le> n \<and> n \<le> 70 then Some (n - 55) else None)"

text \<open>\<open>u8::from_str_radix\<close> takes a leading plus sign.\<close>

definition hex_pair :: "char \<Rightarrow> char \<Rightarrow> nat option" where
  "hex_pair a b = (if a = CHR ''+'' then hex_digit b
     else Option.bind (hex_digit a) (\<lambda>x. map_option (\<lambda>y. 16 * x + y) (hex_digit b)))"

definition parse_hex_rgb :: "string \<Rightarrow> rgb option" where
  "parse_hex_rgb v = (case v of [] \<Rightarrow> None | p # r \<Rightarrow> if p \<noteq> CHR ''#'' then None else
     (case r of
        [a, b, c] \<Rightarrow> Option.bind (hex_digit a) (\<lambda>x. Option.bind (hex_digit b) (\<lambda>y.
          map_option (\<lambda>z. (x * 17, y * 17, z * 17)) (hex_digit c)))
      | [a, b, c, d, e, f] \<Rightarrow> Option.bind (hex_pair a b) (\<lambda>x. Option.bind (hex_pair c d) (\<lambda>y.
          map_option (\<lambda>z. (x, y, z)) (hex_pair e f)))
      | _ \<Rightarrow> None))"

definition version_in_range :: "('v :: linorder) plugin_env \<Rightarrow> string \<Rightarrow> plugin_version_range \<Rightarrow> bool" where
  "version_in_range env version r = (case gv_parse_version env version of None \<Rightarrow> False
     | Some v \<Rightarrow>
        (case vn_minimum r of None \<Rightarrow> True
         | Some m \<Rightarrow> (case gv_parse_version env m of None \<Rightarrow> False | Some minimum \<Rightarrow> \<not> v < minimum))
      \<and> (case vn_maximum_exclusive r of None \<Rightarrow> True
         | Some m \<Rightarrow> (case gv_parse_version env m of None \<Rightarrow> False | Some maximum \<Rightarrow> v < maximum)))"

definition evaluate_plugin_compatibility :: "('v :: linorder) plugin_env \<Rightarrow> plugin_manifest \<Rightarrow> plugin_compatibility" where
  "evaluate_plugin_compatibility env m =
     (let c = mn_compatibility m;
          diagnostics =
            (if version_in_range env (gv_app_version env) (cz_core c) then [] else [''Core '' @ gv_app_version env @ '' is outside the supported range''])
          @ (if version_in_range env (gv_app_version env) (cz_web c) then [] else [''Web '' @ gv_app_version env @ '' is outside the supported range''])
          @ (if CURRENT_PROTOCOL_VERSION \<in> set (cz_protocol_versions c) then []
             else [''Protocol '' @ CURRENT_PROTOCOL_VERSION @ '' is not supported by the plugin''])
      in \<lparr>cy_state = (if diagnostics = [] then PCS_Compatible else PCS_Incompatible), cy_diagnostics = diagnostics\<rparr>)"

section \<open>Contributions\<close>

definition renderer_selectors :: "visual_renderer_contribution \<Rightarrow> string option list" where
  "renderer_selectors renderer = (case vr_source_matcher renderer of
     Some (VSM_FencedLanguage language_ids) \<Rightarrow> map Some language_ids
   | Some (VSM_StrictColorLiteral formats) \<Rightarrow> map Some formats
   | None \<Rightarrow> [None])"

definition is_supported_visual_renderer_version :: "16 word \<Rightarrow> bool" where
  "is_supported_visual_renderer_version v \<longleftrightarrow>
     v = VISUAL_RENDERER_CONTRIBUTION_VERSION_V1 \<or> v = VISUAL_RENDERER_CONTRIBUTION_VERSION_V2"

definition REQUIRED_THEME_TOKENS :: "string list" where
  "REQUIRED_THEME_TOKENS = [''surface.background'', ''surface.muted'', ''surface.raised'', ''content.primary'', ''content.muted'',
     ''content.inverse'', ''border.default'', ''border.strong'', ''status.risk'', ''status.notice'', ''focus'', ''selection'',
     ''editor.background'', ''editor.foreground'', ''terminal.background'', ''terminal.foreground'']"

definition critical_pairs :: "(string \<times> string \<times> contrast_minimum) list" where
  "critical_pairs = [(''content.primary'', ''surface.background'', Contrast_4_5), (''content.muted'', ''surface.background'', Contrast_3_0),
     (''focus'', ''surface.background'', Contrast_3_0), (''terminal.foreground'', ''terminal.background'', Contrast_4_5)]"

definition token_color :: "palette \<Rightarrow> string \<Rightarrow> rgb option" where
  "token_color tokens name = Option.bind (map_of tokens name) parse_hex_rgb"

definition pair_readable :: "('v :: linorder) plugin_env \<Rightarrow> palette \<Rightarrow> string \<times> string \<times> contrast_minimum \<Rightarrow> bool" where
  "pair_readable env tokens = (\<lambda>(foreground, background, minimum).
     case (token_color tokens foreground, token_color tokens background) of
       (Some f, Some b) \<Rightarrow> \<not> gv_contrast_below env f b minimum
     | _ \<Rightarrow> False)"

definition validate_theme_contribution :: "('v :: linorder) plugin_env \<Rightarrow> theme_contribution \<Rightarrow> app_error + unit" where
  "validate_theme_contribution env theme =
     (let tokens = th_semantic_tokens theme in
      and_then (validate_namespaced_id (th_theme_id theme)) (\<lambda>_.
      and_then (manifest_check (length tokens \<le> MAX_THEME_TOKENS \<and> length (th_monaco_colors theme) \<le> MAX_THEME_ADAPTER_COLORS
          \<and> length (th_terminal_colors theme) \<le> MAX_THEME_ADAPTER_COLORS)) (\<lambda>_.
      and_then (manifest_check (list_all (\<lambda>t. map_of tokens t \<noteq> None) REQUIRED_THEME_TOKENS)) (\<lambda>_.
      and_then (manifest_check (list_all (\<lambda>(_, c). valid_hex_color c) (tokens @ th_monaco_colors theme @ th_terminal_colors theme))) (\<lambda>_.
      and_then (manifest_check (list_all (pair_readable env tokens) critical_pairs)) (\<lambda>_.
      manifest_check (th_monaco_base theme \<in> {''vs'', ''vs-dark'', ''hc-black''})))))))"

definition scope_fits_kind :: "visual_renderer_kind \<Rightarrow> visual_render_scope \<Rightarrow> bool" where
  "scope_fits_kind kind scope = (case kind of
     VRK_Content \<Rightarrow> scope = VRS_ContentEnhancement
   | VRK_InlineFragment \<Rightarrow> scope = VRS_InlineFragment \<or> scope = VRS_DetailView
   | VRK_Block \<Rightarrow> scope = VRS_Block
   | VRK_ArtifactViewer \<Rightarrow> scope = VRS_ArtifactViewer \<or> scope = VRS_DetailView)"

definition validate_ids :: "string list \<Rightarrow> app_error + unit" where
  "validate_ids ids = try_fold (\<lambda>i _. validate_namespaced_id i) ids ()"

text \<open>The product of the four lengths does not overflow before it exceeds the bound.\<close>

definition validate_visual_renderer_contribution :: "16 word \<Rightarrow> visual_renderer_contribution \<Rightarrow> app_error + unit" where
  "validate_visual_renderer_contribution contract_version r =
     (let kinds = vr_accepted_source_kinds r; scopes = vr_render_scopes r; surfaces = vr_allowed_surfaces r;
          selectors = renderer_selectors r; count = length kinds * length scopes * length surfaces * length selectors in
      and_then (validate_namespaced_id (vr_renderer_id r)) (\<lambda>_.
      and_then (validate_namespaced_id (vr_implementation_id r)) (\<lambda>_.
      and_then (manifest_check (list_all (\<lambda>n. 0 < n \<and> n \<le> MAX_RENDERER_TARGETS) [length kinds, length scopes, length surfaces])) (\<lambda>_.
      and_then (manifest_check (count \<le> MAX_NORMALIZED_RENDERER_TARGETS)) (\<lambda>_.
      and_then (manifest_check (count \<noteq> 0 \<and> \<not> has_duplicates kinds \<and> \<not> has_duplicates scopes \<and> \<not> has_duplicates surfaces)) (\<lambda>_.
      and_then (validate_ids kinds) (\<lambda>_.
      and_then (validate_ids surfaces) (\<lambda>_.
      and_then (manifest_check (list_all (scope_fits_kind (vr_renderer_kind r)) scopes)) (\<lambda>_.
      and_then (manifest_check ((vr_renderer_kind r = VRK_InlineFragment) = (vr_source_matcher r \<noteq> None))) (\<lambda>_.
      and_then (manifest_check (\<not> (contract_version = VISUAL_RENDERER_CONTRIBUTION_VERSION_V1
          \<and> (vr_renderer_kind r \<noteq> VRK_Content \<or> scopes \<noteq> [VRS_ContentEnhancement] \<or> vr_source_matcher r \<noteq> None
             \<or> vr_visual_kinds r \<noteq> [] \<or> vr_actions r \<noteq> [])))) (\<lambda>_.
      and_then (manifest_check (\<not> (vr_source_matcher r \<noteq> None \<and> (selectors = [] \<or> MAX_RENDERER_TARGETS < length selectors
          \<or> list_ex (\<lambda>s. case s of None \<Rightarrow> True | Some v \<Rightarrow> \<not> valid_selector v) selectors)))) (\<lambda>_.
      and_then (validate_ids (vr_visual_kinds r)) (\<lambda>_.
      validate_ids (vr_actions r))))))))))))))"

definition validate_artifact_type_contribution :: "artifact_type_contribution \<Rightarrow> app_error + unit" where
  "validate_artifact_type_contribution c =
     and_then (validate_namespaced_id (at_artifact_type_id c)) (\<lambda>_.
     manifest_check (at_display_name c \<noteq> [] \<and> at_description c \<noteq> [] \<and> length (at_display_name c) \<le> MAX_PLUGIN_TEXT_CHARS
       \<and> length (at_description c) \<le> MAX_PLUGIN_TEXT_CHARS \<and> at_schema_version c \<noteq> 0))"

definition require_manifest_permission :: "plugin_manifest \<Rightarrow> string \<Rightarrow> app_error + unit" where
  "require_manifest_permission m permission = manifest_check (permission \<in> set (mn_requested_permissions m))"

definition is_ascii_whitespace :: "char \<Rightarrow> bool" where
  "is_ascii_whitespace c = (let n = (of_char c :: nat) in n = 9 \<or> n = 10 \<or> n = 12 \<or> n = 13 \<or> n = 32)"

definition validate_generated_ui_runtime_contribution ::
  "('v :: linorder) plugin_env \<Rightarrow> generated_ui_runtime_contribution \<Rightarrow> app_error + unit" where
  "validate_generated_ui_runtime_contribution env c =
     and_then (validate_ids [gr_runtime_id c, gr_implementation_id c, gr_sdk_id c, gr_action_bridge_id c]) (\<lambda>_.
     and_then (manifest_check (gv_parse_version env (gr_runtime_version c) \<noteq> None)) (\<lambda>_.
     and_then (manifest_check (gr_supported_sdk_versions c \<noteq> [] \<and> gr_supported_layouts c \<noteq> [] \<and> gr_allowed_imports c \<noteq> []
         \<and> gr_max_source_bytes c \<noteq> 0 \<and> gr_max_source_bytes c \<le> 524288 \<and> gr_max_bundle_bytes c \<noteq> 0 \<and> gr_max_bundle_bytes c \<le> 4194304
         \<and> \<not> has_duplicates (gr_supported_sdk_versions c) \<and> \<not> has_duplicates (gr_supported_layouts c)
         \<and> \<not> has_duplicates (gr_sandbox_capabilities c) \<and> \<not> has_duplicates (gr_allowed_imports c))) (\<lambda>_.
     manifest_check (list_all (\<lambda>v. gv_parse_version env v \<noteq> None) (gr_supported_sdk_versions c)
         \<and> list_all (\<lambda>n. n \<noteq> [] \<and> utf8_len n \<le> MAX_PLUGIN_TEXT_CHARS \<and> \<not> list_ex is_ascii_whitespace n) (gr_allowed_imports c)))))"

definition validate_generated_ui_sdk_contribution ::
  "('v :: linorder) plugin_env \<Rightarrow> generated_ui_sdk_contribution \<Rightarrow> app_error + unit" where
  "validate_generated_ui_sdk_contribution env c =
     and_then (validate_namespaced_id (gk_sdk_id c)) (\<lambda>_.
     manifest_check (gk_package_name c = ''@uprava/ui-sdk'' \<and> gv_parse_version env (gk_api_version c) \<noteq> None
       \<and> gk_design_token_version c \<noteq> [] \<and> (case gk_api_schema c of JObj _ \<Rightarrow> True | _ \<Rightarrow> False)
       \<and> gv_json_len env (gk_api_schema c) \<le> 65536))"

definition validate_generated_ui_action_bridge_contribution :: "generated_ui_action_bridge_contribution \<Rightarrow> app_error + unit" where
  "validate_generated_ui_action_bridge_contribution c =
     and_then (validate_namespaced_id (gb_bridge_id c)) (\<lambda>_.
     manifest_check (gb_supported_actions c \<noteq> [] \<and> \<not> has_duplicates (gb_supported_actions c)))"

fun contribution_id :: "plugin_contribution \<Rightarrow> string" where
  "contribution_id (PC_UiTheme i _ _) = i"
| "contribution_id (PC_VisualRenderer i _ _) = i"
| "contribution_id (PC_AgentTool i _ _) = i"
| "contribution_id (PC_ArtifactType i _ _) = i"
| "contribution_id (PC_GeneratedUiRuntime i _ _) = i"
| "contribution_id (PC_GeneratedUiSdk i _ _) = i"
| "contribution_id (PC_GeneratedUiActionBridge i _ _) = i"

section \<open>Manifests\<close>

fun validate_contribution :: "('v :: linorder) plugin_env \<Rightarrow> plugin_manifest \<Rightarrow> plugin_contribution \<Rightarrow> app_error + unit" where
  "validate_contribution env m (PC_UiTheme _ v c) =
     and_then (manifest_check (v = THEME_CONTRIBUTION_VERSION_V1)) (\<lambda>_.
     and_then (require_manifest_permission m THEME_CONTRIBUTION_PERMISSION) (\<lambda>_. validate_theme_contribution env c))"
| "validate_contribution env m (PC_VisualRenderer _ v c) =
     and_then (manifest_check (is_supported_visual_renderer_version v)) (\<lambda>_.
     and_then (manifest_check (mn_trust_level m = TL_TrustedBundled)) (\<lambda>_.
     and_then (require_manifest_permission m VISUAL_RENDERER_CONTRIBUTION_PERMISSION) (\<lambda>_. validate_visual_renderer_contribution v c)))"
| "validate_contribution env m (PC_ArtifactType _ v c) =
     and_then (manifest_check (v = ARTIFACT_TYPE_CONTRIBUTION_VERSION_V1)) (\<lambda>_.
     and_then (require_manifest_permission m ARTIFACT_TYPE_CONTRIBUTION_PERMISSION) (\<lambda>_. validate_artifact_type_contribution c))"
| "validate_contribution env m (PC_GeneratedUiRuntime _ v c) =
     and_then (manifest_check (v = GENERATED_UI_RUNTIME_CONTRIBUTION_VERSION_V1)) (\<lambda>_.
     and_then (require_manifest_permission m GENERATED_UI_RUNTIME_CONTRIBUTION_PERMISSION) (\<lambda>_. validate_generated_ui_runtime_contribution env c))"
| "validate_contribution env m (PC_GeneratedUiSdk _ v c) =
     and_then (manifest_check (v = GENERATED_UI_SDK_CONTRIBUTION_VERSION_V1)) (\<lambda>_.
     and_then (require_manifest_permission m GENERATED_UI_SDK_CONTRIBUTION_PERMISSION) (\<lambda>_. validate_generated_ui_sdk_contribution env c))"
| "validate_contribution env m (PC_GeneratedUiActionBridge _ v c) =
     and_then (manifest_check (v = GENERATED_UI_ACTION_BRIDGE_CONTRIBUTION_VERSION_V1)) (\<lambda>_.
     and_then (require_manifest_permission m GENERATED_UI_ACTION_BRIDGE_CONTRIBUTION_PERMISSION) (\<lambda>_.
       validate_generated_ui_action_bridge_contribution c))"
| "validate_contribution env m (PC_AgentTool _ _ _) = Inr ()"

fun validate_contributions ::
  "('v :: linorder) plugin_env \<Rightarrow> plugin_manifest \<Rightarrow> string list \<Rightarrow> plugin_contribution list \<Rightarrow> app_error + unit" where
  "validate_contributions env m seen [] = Inr ()"
| "validate_contributions env m seen (c # cs) =
     and_then (validate_namespaced_id (contribution_id c)) (\<lambda>_.
     and_then (manifest_check (contribution_id c \<notin> set seen)) (\<lambda>_.
     and_then (validate_contribution env m c) (\<lambda>_. validate_contributions env m (contribution_id c # seen) cs)))"

definition known_permissions :: "string list" where
  "known_permissions = [THEME_CONTRIBUTION_PERMISSION, VISUAL_RENDERER_CONTRIBUTION_PERMISSION, ARTIFACT_TYPE_CONTRIBUTION_PERMISSION,
     GENERATED_UI_RUNTIME_CONTRIBUTION_PERMISSION, GENERATED_UI_SDK_CONTRIBUTION_PERMISSION, GENERATED_UI_ACTION_BRIDGE_CONTRIBUTION_PERMISSION]"

definition validate_plugin_manifest :: "('v :: linorder) plugin_env \<Rightarrow> plugin_manifest \<Rightarrow> app_error + unit" where
  "validate_plugin_manifest env m =
     and_then (manifest_check (mn_manifest_version m = PLUGIN_MANIFEST_VERSION_V1)) (\<lambda>_.
     and_then (validate_namespaced_id (mn_plugin_id m)) (\<lambda>_.
     and_then (manifest_check (gv_parse_version env (mn_version m) \<noteq> None)) (\<lambda>_.
     and_then (manifest_check (list_all (\<lambda>t. t \<noteq> [] \<and> length t \<le> MAX_PLUGIN_TEXT_CHARS)
         [mn_display_name m, mn_description m, mn_publisher m])) (\<lambda>_.
     and_then (manifest_check (length (mn_requested_permissions m) \<le> MAX_PLUGIN_PERMISSIONS
         \<and> length (mn_contributions m) \<le> MAX_PLUGIN_CONTRIBUTIONS)) (\<lambda>_.
     and_then (manifest_check (mn_install_source m = PI_Bundled \<and> (mn_trust_level m = TL_DataOnly \<or> mn_trust_level m = TL_TrustedBundled))) (\<lambda>_.
     and_then (manifest_check (list_all (\<lambda>p. p \<in> set known_permissions) (mn_requested_permissions m))) (\<lambda>_.
     and_then (manifest_check (take 7 (mn_plugin_id m) = ''uprava.'' \<longrightarrow> mn_install_source m = PI_Bundled)) (\<lambda>_.
     validate_contributions env m [] (mn_contributions m)))))))))"

section \<open>Stored names\<close>

fun format_install_source :: "plugin_install_source \<Rightarrow> string" where
  "format_install_source PI_Bundled = ''bundled''"
| "format_install_source PI_Local = ''local''"
| "format_install_source PI_TeamCatalog = ''team_catalog''"
| "format_install_source PI_CommunityCatalog = ''community_catalog''"

definition parse_install_source :: "string \<Rightarrow> app_error + plugin_install_source" where
  "parse_install_source v = ok_or (map_of (map (\<lambda>x. (format_install_source x, x)) [PI_Bundled, PI_Local, PI_TeamCatalog, PI_CommunityCatalog]) v)
     (Internal ''plugin stored name is invalid'')"

fun format_trust_level :: "plugin_trust_level \<Rightarrow> string" where
  "format_trust_level TL_DataOnly = ''data_only''"
| "format_trust_level TL_TrustedBundled = ''trusted_bundled''"
| "format_trust_level TL_SandboxedWeb = ''sandboxed_web''"
| "format_trust_level TL_SandboxedNode = ''sandboxed_node''"
| "format_trust_level TL_ExternalService = ''external_service''"

definition parse_trust_level :: "string \<Rightarrow> app_error + plugin_trust_level" where
  "parse_trust_level v = ok_or (map_of (map (\<lambda>x. (format_trust_level x, x))
     [TL_DataOnly, TL_TrustedBundled, TL_SandboxedWeb, TL_SandboxedNode, TL_ExternalService]) v) (Internal ''plugin stored name is invalid'')"

fun format_desired_state :: "plugin_desired_state \<Rightarrow> string" where
  "format_desired_state PDS_Disabled = ''disabled''"
| "format_desired_state PDS_Enabled = ''enabled''"

definition parse_desired_state :: "string \<Rightarrow> app_error + plugin_desired_state" where
  "parse_desired_state v = ok_or (map_of (map (\<lambda>x. (format_desired_state x, x)) [PDS_Disabled, PDS_Enabled]) v) (Internal ''plugin stored name is invalid'')"

fun format_effective_state :: "plugin_effective_state \<Rightarrow> string" where
  "format_effective_state PES_Disabled = ''disabled''"
| "format_effective_state PES_Active = ''active''"
| "format_effective_state PES_Incompatible = ''incompatible''"
| "format_effective_state PES_Degraded = ''degraded''"
| "format_effective_state PES_Error = ''error''"

definition parse_effective_state :: "string \<Rightarrow> app_error + plugin_effective_state" where
  "parse_effective_state v = ok_or (map_of (map (\<lambda>x. (format_effective_state x, x))
     [PES_Disabled, PES_Active, PES_Incompatible, PES_Degraded, PES_Error]) v) (Internal ''plugin stored name is invalid'')"

text \<open>What is written is read back.\<close>

lemma stored_plugin_names:
  "parse_install_source (format_install_source s) = Inr s" "parse_trust_level (format_trust_level t) = Inr t"
  "parse_desired_state (format_desired_state d) = Inr d" "parse_effective_state (format_effective_state e) = Inr e"
proof -
  show "parse_install_source (format_install_source s) = Inr s" by (cases s) (simp_all add: parse_install_source_def)
  show "parse_trust_level (format_trust_level t) = Inr t" by (cases t) (simp_all add: parse_trust_level_def)
  show "parse_desired_state (format_desired_state d) = Inr d" by (cases d) (simp_all add: parse_desired_state_def)
  show "parse_effective_state (format_effective_state e) = Inr e" by (cases e) (simp_all add: parse_effective_state_def)
qed

section \<open>What an accepted manifest guarantees\<close>

fun required_permission :: "plugin_contribution \<Rightarrow> string option" where
  "required_permission (PC_UiTheme _ _ _) = Some THEME_CONTRIBUTION_PERMISSION"
| "required_permission (PC_VisualRenderer _ _ _) = Some VISUAL_RENDERER_CONTRIBUTION_PERMISSION"
| "required_permission (PC_ArtifactType _ _ _) = Some ARTIFACT_TYPE_CONTRIBUTION_PERMISSION"
| "required_permission (PC_GeneratedUiRuntime _ _ _) = Some GENERATED_UI_RUNTIME_CONTRIBUTION_PERMISSION"
| "required_permission (PC_GeneratedUiSdk _ _ _) = Some GENERATED_UI_SDK_CONTRIBUTION_PERMISSION"
| "required_permission (PC_GeneratedUiActionBridge _ _ _) = Some GENERATED_UI_ACTION_BRIDGE_CONTRIBUTION_PERMISSION"
| "required_permission (PC_AgentTool _ _ _) = None"

lemma manifest_check_Inr [simp]: "manifest_check b = Inr u \<longleftrightarrow> b"
  by (simp add: manifest_check_def)

lemma has_duplicates_distinct: "has_duplicates xs \<longleftrightarrow> \<not> distinct xs"
  by (induction xs) auto

lemma accepted_contributions:
  "validate_contributions env m seen cs = Inr () \<Longrightarrow>
   distinct (map contribution_id cs) \<and> set (map contribution_id cs) \<inter> set seen = {}
   \<and> (\<forall>c\<in>set cs. validate_namespaced_id (contribution_id c) = Inr () \<and> validate_contribution env m c = Inr ())"
  by (induction cs arbitrary: seen) (fastforce simp: result_simps)+

lemma accepted_permission:
  "validate_contribution env m c = Inr () \<Longrightarrow> required_permission c = Some p \<Longrightarrow> p \<in> set (mn_requested_permissions m)"
  by (cases c) (auto simp: result_simps require_manifest_permission_def)

lemma accepted_renderer_trusted:
  "validate_contribution env m (PC_VisualRenderer i v c) = Inr () \<Longrightarrow> mn_trust_level m = TL_TrustedBundled"
  by (simp add: result_simps)

lemma accepted_manifest:
  assumes "validate_plugin_manifest env m = Inr ()"
  shows "distinct (map contribution_id (mn_contributions m))" "mn_install_source m = PI_Bundled"
    "c \<in> set (mn_contributions m) \<Longrightarrow> validate_contribution env m c = Inr ()"
    "set (mn_requested_permissions m) \<subseteq> set known_permissions"
  using assms accepted_contributions[of env m "[]" "mn_contributions m"]
  by (auto simp: validate_plugin_manifest_def result_simps list_all_iff)

text \<open>The number of targets a renderer expands to is positive and bounded.\<close>

definition renderer_targets :: "visual_renderer_contribution \<Rightarrow> contribution_target list" where
  "renderer_targets r = concat (map (\<lambda>source_kind. concat (map (\<lambda>surface. concat (map (\<lambda>scope.
     map (CTG_VisualRenderer source_kind surface scope) (renderer_selectors r)) (vr_render_scopes r)))
     (vr_allowed_surfaces r))) (vr_accepted_source_kinds r))"

lemma length_product: "(\<And>x. length (f x) = n) \<Longrightarrow> length (concat (map f xs)) = length xs * n"
  by (induction xs) simp_all

lemma length_renderer_targets:
  "length (renderer_targets r) = length (vr_accepted_source_kinds r) * length (vr_render_scopes r) * length (vr_allowed_surfaces r)
     * length (renderer_selectors r)"
  unfolding renderer_targets_def
  by (subst length_product[where n = "length (vr_allowed_surfaces r) * (length (vr_render_scopes r) * length (renderer_selectors r))"])
    (simp_all add: length_product[where n = "length (vr_render_scopes r) * length (renderer_selectors r)"]
      length_product[where n = "length (renderer_selectors r)"])

lemma renderer_targets_bounded:
  "validate_visual_renderer_contribution v r = Inr () \<Longrightarrow>
   renderer_targets r \<noteq> [] \<and> length (renderer_targets r) \<le> MAX_NORMALIZED_RENDERER_TARGETS"
  by (auto simp: validate_visual_renderer_contribution_def Let_def result_simps length_renderer_targets simp flip: length_greater_0_conv)

end
