(* ===== verification/Plugin_Registry.thy ===== *)
theory Plugin_Registry
  imports Plugin_Manifests Scheduling
begin

text \<open>
  The plugin registry of Core (\<open>application/plugins.rs\<close>): packages, their installation, and which
  contribution serves which target. The JSON columns hold their values; the columns of
  \<open>plugin_packages\<close> that repeat a field of the manifest are left out. The bundled manifests
  (\<open>include_str!\<close>) are an argument of the bootstrap.
\<close>

section \<open>State\<close>

record plugin_package_row =
  pp_manifest :: plugin_manifest
  pp_manifest_hash :: string
  pp_discovered_at :: time

definition package_key :: "plugin_package_row \<Rightarrow> id \<times> string" where
  "package_key p = (mn_plugin_id (pp_manifest p), mn_version (pp_manifest p))"

record plugin_installation_row =
  pi_plugin_id :: id
  pi_active_version :: string
  pi_desired_state :: plugin_desired_state
  pi_effective_state :: plugin_effective_state
  pi_compatibility :: plugin_compatibility
  pi_configuration_revision :: int
  pi_installed_at :: time
  pi_updated_at :: time
  pi_last_error_code :: "string option"

record plugin_configuration_row =
  pf_plugin_id :: id
  pf_revision :: int
  pf_values :: json
  pf_values_hash :: string
  pf_updated_at :: time

record plugin_grant_row =
  pg_plugin_id :: id
  pg_permission_id :: string
  pg_decision :: string
  pg_granted_at :: time
  pg_updated_at :: time

record plugin_preference_row =
  py_target_id :: string
  py_target :: contribution_target
  py_revision :: int
  py_ordered :: "contribution_ref list"
  py_disabled :: "contribution_ref list"
  py_updated_at :: time

record plugin_state =
  pz_core :: core_state
  pz_packages :: "plugin_package_row list"
  pz_installations :: "plugin_installation_row list"
  pz_configurations :: "plugin_configuration_row list"
  pz_grants :: "plugin_grant_row list"
  pz_preferences :: "plugin_preference_row list"

abbreviation find_package :: "plugin_state \<Rightarrow> id \<Rightarrow> string \<Rightarrow> plugin_package_row option" where
  "find_package ps plugin_id version \<equiv> select_by package_key (plugin_id, version) (pz_packages ps)"

abbreviation find_installation :: "plugin_state \<Rightarrow> id \<Rightarrow> plugin_installation_row option" where
  "find_installation ps plugin_id \<equiv> select_by pi_plugin_id plugin_id (pz_installations ps)"

definition audit_plugin :: "string \<Rightarrow> string \<Rightarrow> string \<Rightarrow> json \<Rightarrow> time \<Rightarrow> plugin_state \<Rightarrow> plugin_state" where
  "audit_plugin kind origin outcome metadata now ps = ps\<lparr>pz_core := (pz_core ps)\<lparr>co_db := (co_db (pz_core ps))\<lparr>db_audit :=
     db_audit (co_db (pz_core ps)) @ [\<lparr>au_kind = kind, au_node_id = None, au_origin = Some origin, au_outcome = outcome,
       au_metadata = metadata, au_happened_at = now\<rparr>]\<rparr>\<rparr>\<rparr>"

section \<open>Registration\<close>

definition state_for :: "plugin_compatibility \<Rightarrow> plugin_desired_state \<Rightarrow> plugin_effective_state" where
  "state_for compatibility desired = (if cy_state compatibility = PCS_Incompatible then PES_Incompatible
     else if desired = PDS_Enabled then PES_Active else PES_Disabled)"

definition insert_package :: "'v plugin_env \<Rightarrow> plugin_manifest \<Rightarrow> plugin_state \<Rightarrow> plugin_state" where
  "insert_package env m ps = (if find_package ps (mn_plugin_id m) (mn_version m) \<noteq> None then ps
     else ps\<lparr>pz_packages := pz_packages ps @ [\<lparr>pp_manifest = m, pp_manifest_hash = gv_manifest_hash env m, pp_discovered_at = gv_now env\<rparr>]\<rparr>)"

definition insert_installation ::
  "'v plugin_env \<Rightarrow> plugin_manifest \<Rightarrow> plugin_desired_state \<Rightarrow> plugin_compatibility \<Rightarrow> plugin_state \<Rightarrow> plugin_state" where
  "insert_installation env m default_state compatibility ps =
     (if find_installation ps (mn_plugin_id m) \<noteq> None then ps
      else ps\<lparr>pz_installations := pz_installations ps @ [\<lparr>pi_plugin_id = mn_plugin_id m, pi_active_version = mn_version m,
        pi_desired_state = default_state, pi_effective_state = state_for compatibility default_state,
        pi_compatibility = compatibility, pi_configuration_revision = 0, pi_installed_at = gv_now env, pi_updated_at = gv_now env,
        pi_last_error_code = None\<rparr>]\<rparr>)"

definition upgrade_version :: "('v :: linorder) plugin_env \<Rightarrow> plugin_manifest \<Rightarrow> plugin_state \<Rightarrow> app_error + plugin_state" where
  "upgrade_version env m ps =
     and_then (ok_or (find_installation ps (mn_plugin_id m)) Database) (\<lambda>i.
     and_then (ok_or (gv_parse_version env (pi_active_version i)) (Internal ''installed plugin version is not SemVer'')) (\<lambda>active.
     and_then (ok_or (gv_parse_version env (mn_version m)) (Internal ''bundled plugin version is not SemVer'')) (\<lambda>discovered.
     Inr (if active < discovered then ps\<lparr>pz_installations := update_where (\<lambda>r. pi_plugin_id r = mn_plugin_id m)
            (\<lambda>r. r\<lparr>pi_active_version := mn_version m, pi_updated_at := gv_now env\<rparr>) (pz_installations ps)\<rparr>
          else ps))))"

definition insert_configuration :: "'v plugin_env \<Rightarrow> id \<Rightarrow> plugin_state \<Rightarrow> plugin_state" where
  "insert_configuration env plugin_id ps =
     (if select_by pf_plugin_id plugin_id (pz_configurations ps) \<noteq> None then ps
      else ps\<lparr>pz_configurations := pz_configurations ps @ [\<lparr>pf_plugin_id = plugin_id, pf_revision = 0, pf_values = JObj [],
        pf_values_hash = gv_configuration_hash env, pf_updated_at = gv_now env\<rparr>]\<rparr>)"

definition grant_key :: "plugin_grant_row \<Rightarrow> id \<times> string" where
  "grant_key g = (pg_plugin_id g, pg_permission_id g)"

definition insert_grant :: "'v plugin_env \<Rightarrow> id \<Rightarrow> string \<Rightarrow> plugin_grant_row list \<Rightarrow> plugin_grant_row list" where
  "insert_grant env plugin_id permission gs =
     (if select_by grant_key (plugin_id, permission) gs \<noteq> None then gs
      else gs @ [\<lparr>pg_plugin_id = plugin_id, pg_permission_id = permission, pg_decision = ''granted'',
        pg_granted_at = gv_now env, pg_updated_at = gv_now env\<rparr>])"

definition insert_grants :: "'v plugin_env \<Rightarrow> plugin_manifest \<Rightarrow> plugin_state \<Rightarrow> plugin_state" where
  "insert_grants env m ps = ps\<lparr>pz_grants := fold (insert_grant env (mn_plugin_id m)) (mn_requested_permissions m) (pz_grants ps)\<rparr>"

definition reconcile_row :: "'v plugin_env \<Rightarrow> plugin_compatibility \<Rightarrow> plugin_installation_row \<Rightarrow> plugin_installation_row" where
  "reconcile_row env compatibility r = (let s = state_for compatibility (pi_desired_state r) in
     if pi_effective_state r = s \<and> pi_compatibility r = compatibility then r
     else r\<lparr>pi_effective_state := s, pi_compatibility := compatibility, pi_updated_at := gv_now env,
       pi_last_error_code := (if s = PES_Incompatible then Some ''plugin.incompatible'' else None)\<rparr>)"

definition reconcile_installation :: "'v plugin_env \<Rightarrow> id \<Rightarrow> plugin_compatibility \<Rightarrow> plugin_state \<Rightarrow> plugin_state" where
  "reconcile_installation env plugin_id compatibility ps = ps\<lparr>pz_installations :=
     update_where (\<lambda>r. pi_plugin_id r = plugin_id) (reconcile_row env compatibility) (pz_installations ps)\<rparr>"

definition register_rows ::
  "('v :: linorder) plugin_env \<Rightarrow> plugin_manifest \<Rightarrow> plugin_desired_state \<Rightarrow> plugin_state \<Rightarrow> app_error + plugin_state" where
  "register_rows env m default_state ps =
     (let compatibility = evaluate_plugin_compatibility env m in
      and_then (ensure (case find_package ps (mn_plugin_id m) (mn_version m) of None \<Rightarrow> True
          | Some p \<Rightarrow> pp_manifest_hash p = gv_manifest_hash env m) (Internal ''bundled plugin changed without a version bump'')) (\<lambda>_.
      and_then (upgrade_version env m (insert_installation env m default_state compatibility (insert_package env m ps))) (\<lambda>ps1.
      Inr (reconcile_installation env (mn_plugin_id m) compatibility (insert_grants env m (insert_configuration env (mn_plugin_id m) ps1))))))"

definition register_bundled_plugin ::
  "('v :: linorder) plugin_env \<Rightarrow> plugin_manifest \<Rightarrow> plugin_desired_state \<Rightarrow> plugin_state \<Rightarrow> app_error + plugin_state" where
  "register_bundled_plugin env m default_state ps =
     (let is_new = (find_package ps (mn_plugin_id m) (mn_version m) = None) in
      and_then (register_rows env m default_state ps) (\<lambda>ps1.
      Inr (if is_new then audit_plugin ''plugin.discovered'' ''core.bootstrap'' ''registered''
             (JObj [(''plugin_id'', JStr (mn_plugin_id m)), (''version'', JStr (mn_version m)),
               (''manifest_hash'', JStr (gv_manifest_hash env m)), (''install_source'', JStr ''bundled'')]) (gv_now env) ps1
           else ps1)))"

definition bootstrap_bundled_plugins ::
  "('v :: linorder) plugin_env \<Rightarrow> (plugin_manifest \<times> plugin_desired_state) list \<Rightarrow> (plugin_state, unit) stateful" where
  "bootstrap_bundled_plugins env bundled = h_each (\<lambda>(m, d). h_bind (h_check (\<lambda>_. validate_plugin_manifest env m))
     (\<lambda>_. h_run (register_bundled_plugin env m d))) bundled"

section \<open>Installations\<close>

record plugin_package_summary =
  ks_plugin_id :: id
  ks_version :: string
  ks_manifest_hash :: string
  ks_manifest_version :: "16 word"
  ks_display_name :: string
  ks_description :: string
  ks_publisher :: string
  ks_install_source :: plugin_install_source
  ks_trust_level :: plugin_trust_level
  ks_requested_permissions :: "string list"
  ks_contributions :: "plugin_contribution list"
  ks_discovered_at :: time

record plugin_installation_summary =
  ki_package :: plugin_package_summary
  ki_desired_state :: plugin_desired_state
  ki_effective_state :: plugin_effective_state
  ki_compatibility :: plugin_compatibility
  ki_configuration_revision :: u64
  ki_granted_permissions :: "string list"
  ki_installed_at :: time
  ki_updated_at :: time
  ki_last_error_code :: "string option"

definition package_summary :: "plugin_package_row \<Rightarrow> plugin_package_summary" where
  "package_summary p = (let m = pp_manifest p in
     \<lparr>ks_plugin_id = mn_plugin_id m, ks_version = mn_version m, ks_manifest_hash = pp_manifest_hash p,
      ks_manifest_version = mn_manifest_version m, ks_display_name = mn_display_name m, ks_description = mn_description m,
      ks_publisher = mn_publisher m, ks_install_source = mn_install_source m, ks_trust_level = mn_trust_level m,
      ks_requested_permissions = mn_requested_permissions m, ks_contributions = mn_contributions m,
      ks_discovered_at = pp_discovered_at p\<rparr>)"

definition granted_permissions :: "id \<Rightarrow> plugin_state \<Rightarrow> string list" where
  "granted_permissions plugin_id ps = map pg_permission_id (filter (\<lambda>g. pg_decision g = ''granted'')
     (sort_key pg_permission_id (filter (\<lambda>g. pg_plugin_id g = plugin_id) (pz_grants ps))))"

definition installed_package :: "plugin_state \<Rightarrow> plugin_installation_row \<Rightarrow> plugin_package_row option" where
  "installed_package ps i = find_package ps (pi_plugin_id i) (pi_active_version i)"

definition load_plugin_installation :: "id \<Rightarrow> plugin_state \<Rightarrow> app_error + plugin_installation_summary" where
  "load_plugin_installation plugin_id ps =
     and_then (ok_or (Option.bind (find_installation ps plugin_id) (\<lambda>i. map_option (Pair i) (installed_package ps i)))
        (NotFound ''plugin.not_found'')) (\<lambda>(i, p).
     and_then (ensure (0 \<le> pi_configuration_revision i) (Internal ''plugin configuration revision is invalid'')) (\<lambda>_.
     Inr \<lparr>ki_package = package_summary p, ki_desired_state = pi_desired_state i, ki_effective_state = pi_effective_state i,
        ki_compatibility = pi_compatibility i, ki_configuration_revision = word_of_int (pi_configuration_revision i),
        ki_granted_permissions = granted_permissions plugin_id ps, ki_installed_at = pi_installed_at i,
        ki_updated_at = pi_updated_at i, ki_last_error_code = pi_last_error_code i\<rparr>))"

definition list_plugins :: "plugin_state \<Rightarrow> app_error + plugin_installation_summary list" where
  "list_plugins ps = try_fold (\<lambda>i acc. and_then (load_plugin_installation i ps) (\<lambda>s. Inr (acc @ [s])))
     (sort_key id (map pi_plugin_id (pz_installations ps))) []"

definition load_plugin_manifest :: "id \<Rightarrow> string \<Rightarrow> plugin_state \<Rightarrow> app_error + plugin_manifest" where
  "load_plugin_manifest plugin_id version ps =
     map_sum id pp_manifest (ok_or (find_package ps plugin_id version) (NotFound ''plugin.package_not_found''))"

definition activation :: "plugin_desired_state \<Rightarrow> plugin_compatibility \<Rightarrow> bool \<Rightarrow> plugin_effective_state \<times> string option" where
  "activation desired compatibility permitted = (case desired of PDS_Disabled \<Rightarrow> (PES_Disabled, None)
     | PDS_Enabled \<Rightarrow> if cy_state compatibility = PCS_Incompatible then (PES_Incompatible, Some ''plugin.incompatible'')
         else if \<not> permitted then (PES_Error, Some ''plugin.permission_denied'') else (PES_Active, None))"

definition activation_event :: "plugin_desired_state \<Rightarrow> plugin_effective_state \<Rightarrow> string \<times> string" where
  "activation_event desired effective = (case desired of PDS_Disabled \<Rightarrow> (''plugin.disabled'', ''disabled'')
     | PDS_Enabled \<Rightarrow> if effective = PES_Active then (''plugin.enabled'', ''active'')
         else if effective = PES_Incompatible then (''plugin.compatibility_failed'', ''incompatible'')
         else (''plugin.activation_failed'', ''denied''))"

definition store_desired_state ::
  "'v plugin_env \<Rightarrow> id \<Rightarrow> plugin_desired_state \<Rightarrow> plugin_effective_state \<Rightarrow> plugin_compatibility \<Rightarrow> string option \<Rightarrow> plugin_state \<Rightarrow> plugin_state" where
  "store_desired_state env plugin_id desired effective compatibility failure ps = ps\<lparr>pz_installations :=
     update_where (\<lambda>r. pi_plugin_id r = plugin_id) (\<lambda>r. r\<lparr>pi_desired_state := desired, pi_effective_state := effective,
       pi_compatibility := compatibility, pi_updated_at := gv_now env, pi_last_error_code := failure\<rparr>) (pz_installations ps)\<rparr>"

definition set_plugin_desired_state :: "('v :: linorder) plugin_env \<Rightarrow> id \<Rightarrow> plugin_desired_state \<Rightarrow> (plugin_state, unit) stateful" where
  "set_plugin_desired_state env plugin_id desired =
     h_bind (h_check (load_plugin_installation plugin_id)) (\<lambda>current.
     h_bind (h_check (load_plugin_manifest plugin_id (ks_version (ki_package current)))) (\<lambda>m.
     h_bind (h_check (\<lambda>_. validate_plugin_manifest env m)) (\<lambda>_.
     let compatibility = evaluate_plugin_compatibility env m;
         permitted = list_all (\<lambda>p. p \<in> set (ki_granted_permissions current)) (mn_requested_permissions m);
         (effective, failure) = activation desired compatibility permitted;
         (kind, outcome) = activation_event desired effective
     in h_bind (h_modify (store_desired_state env plugin_id desired effective compatibility failure)) (\<lambda>_.
        h_bind (h_modify (audit_plugin kind ''web.local_user'' outcome
          (JObj [(''plugin_id'', JStr plugin_id), (''version'', JStr (mn_version m)), (''manifest_hash'', JStr (ks_manifest_hash (ki_package current))),
             (''effective_state'', JStr (format_effective_state effective)),
             (''error_code'', case failure of None \<Rightarrow> JNull | Some c \<Rightarrow> JStr c)]) (gv_now env))) (\<lambda>_.
        h_check (\<lambda>_. case failure of None \<Rightarrow> Inr () | Some c \<Rightarrow> Inl (BadRequest c)))))))"

definition enable_plugin :: "('v :: linorder) plugin_env \<Rightarrow> id \<Rightarrow> (plugin_state, plugin_installation_summary) stateful" where
  "enable_plugin env plugin_id = h_bind (set_plugin_desired_state env plugin_id PDS_Enabled) (\<lambda>_. h_check (load_plugin_installation plugin_id))"

definition disable_plugin :: "('v :: linorder) plugin_env \<Rightarrow> id \<Rightarrow> (plugin_state, plugin_installation_summary) stateful" where
  "disable_plugin env plugin_id = h_bind (set_plugin_desired_state env plugin_id PDS_Disabled) (\<lambda>_. h_check (load_plugin_installation plugin_id))"

section \<open>The effective contributions\<close>

record target_group =
  tg_extension_point :: string
  tg_target :: contribution_target
  tg_contributions :: "effective_contribution list"

definition active_manifests :: "plugin_state \<Rightarrow> plugin_manifest list" where
  "active_manifests ps = filter_map (\<lambda>i. map_option pp_manifest (installed_package ps i))
     (sort_key pi_plugin_id (filter (\<lambda>i. pi_effective_state i = PES_Active) (pz_installations ps)))"

fun contribution_version :: "plugin_contribution \<Rightarrow> 16 word" where
  "contribution_version (PC_UiTheme _ v _) = v"
| "contribution_version (PC_VisualRenderer _ v _) = v"
| "contribution_version (PC_AgentTool _ v _) = v"
| "contribution_version (PC_ArtifactType _ v _) = v"
| "contribution_version (PC_GeneratedUiRuntime _ v _) = v"
| "contribution_version (PC_GeneratedUiSdk _ v _) = v"
| "contribution_version (PC_GeneratedUiActionBridge _ v _) = v"

definition effective :: "plugin_manifest \<Rightarrow> plugin_contribution \<Rightarrow> string \<Rightarrow> contribution_target \<Rightarrow> effective_contribution" where
  "effective m c extension_point target = \<lparr>ke_plugin_id = mn_plugin_id m, ke_plugin_version = mn_version m,
     ke_contribution_id = contribution_id c, ke_extension_point = extension_point, ke_contract_version = contribution_version c,
     ke_target = target, ke_effective_state = ECS_Available, ke_contribution = c\<rparr>"

text \<open>A theme stands alone; every other contribution competes for its targets.\<close>

fun direct_contribution :: "plugin_manifest \<Rightarrow> plugin_contribution \<Rightarrow> effective_contribution list" where
  "direct_contribution m (PC_UiTheme i v c) =
     (if v = THEME_CONTRIBUTION_VERSION_V1 then [effective m (PC_UiTheme i v c) ''ui.theme'' (CTG_UiTheme (th_theme_id c))] else [])"
| "direct_contribution m _ = []"

fun grouped_targets :: "plugin_contribution \<Rightarrow> (string \<times> contribution_target) list" where
  "grouped_targets (PC_VisualRenderer _ v c) =
     (if is_supported_visual_renderer_version v then map (Pair ''visual.renderer'') (renderer_targets c) else [])"
| "grouped_targets (PC_ArtifactType _ v c) =
     (if v = ARTIFACT_TYPE_CONTRIBUTION_VERSION_V1 then [(''artifact.type'', CTG_ArtifactType (at_artifact_type_id c))] else [])"
| "grouped_targets (PC_GeneratedUiRuntime _ v c) =
     (if v = GENERATED_UI_RUNTIME_CONTRIBUTION_VERSION_V1 then [(''generated_ui.runtime'', CTG_GeneratedUiRuntime (gr_runtime_id c))] else [])"
| "grouped_targets (PC_GeneratedUiSdk _ v c) =
     (if v = GENERATED_UI_SDK_CONTRIBUTION_VERSION_V1 then [(''generated_ui.sdk'', CTG_GeneratedUiSdk (gk_sdk_id c))] else [])"
| "grouped_targets (PC_GeneratedUiActionBridge _ v c) =
     (if v = GENERATED_UI_ACTION_BRIDGE_CONTRIBUTION_VERSION_V1
      then [(''generated_ui.action_bridge'', CTG_GeneratedUiActionBridge (gb_bridge_id c))] else [])"
| "grouped_targets _ = []"

definition grouped_contributions :: "plugin_manifest \<Rightarrow> effective_contribution list" where
  "grouped_contributions m = concat (map (\<lambda>c. map (\<lambda>(e, t). effective m c e t) (grouped_targets c)) (mn_contributions m))"

definition push_exclusive_contribution ::
  "'v plugin_env \<Rightarrow> effective_contribution \<Rightarrow> (string \<times> target_group) list \<Rightarrow> (string \<times> target_group) list" where
  "push_exclusive_contribution env c groups =
     (let i = gv_target_id env (ke_target c);
          g = (case hm_get groups i of Some g \<Rightarrow> g
               | None \<Rightarrow> \<lparr>tg_extension_point = ke_extension_point c, tg_target = ke_target c, tg_contributions = []\<rparr>)
      in hm_insert i (g\<lparr>tg_contributions := tg_contributions g @ [c]\<rparr>) groups)"

definition target_groups :: "'v plugin_env \<Rightarrow> plugin_manifest list \<Rightarrow> (string \<times> target_group) list" where
  "target_groups env ms = sort_key fst (fold (push_exclusive_contribution env) (concat (map grouped_contributions ms)) [])"

definition contribution_matches :: "effective_contribution \<Rightarrow> contribution_ref \<Rightarrow> bool" where
  "contribution_matches c r \<longleftrightarrow> ke_plugin_id c = kr_plugin_id r \<and> ke_contribution_id c = kr_contribution_id r"

definition contribution_ref_key :: "contribution_ref \<Rightarrow> string" where
  "contribution_ref_key r = kr_plugin_id r @ [char_of (31 :: nat)] @ kr_contribution_id r"

definition effective_contribution_key :: "effective_contribution \<Rightarrow> string" where
  "effective_contribution_key c = ke_plugin_id c @ [char_of (31 :: nat)] @ ke_contribution_id c"

fun prefer_listed :: "contribution_ref list \<Rightarrow> effective_contribution list \<Rightarrow> effective_contribution list" where
  "prefer_listed [] cs = cs"
| "prefer_listed (r # rs) cs = (case List.extract (\<lambda>c. contribution_matches c r) cs of
     None \<Rightarrow> prefer_listed rs cs | Some (before, c, after) \<Rightarrow> c # prefer_listed rs (before @ after))"

definition disable_listed :: "contribution_ref list \<Rightarrow> effective_contribution \<Rightarrow> effective_contribution" where
  "disable_listed disabled c = (if effective_contribution_key c \<in> set (map contribution_ref_key disabled)
     then c\<lparr>ke_effective_state := ECS_Disabled\<rparr> else c)"

definition available_count :: "effective_contribution list \<Rightarrow> nat" where
  "available_count cs = length (filter (\<lambda>c. ke_effective_state c = ECS_Available) cs)"

definition resolve_target :: "plugin_preference_row list \<Rightarrow> string \<times> target_group \<Rightarrow> contribution_target_resolution" where
  "resolve_target prefs = (\<lambda>(target_id, g).
     (let pref = select_by py_target_id target_id prefs;
          ordered = map (disable_listed (case pref of None \<Rightarrow> [] | Some p \<Rightarrow> py_disabled p))
            (prefer_listed (case pref of None \<Rightarrow> [] | Some p \<Rightarrow> py_ordered p)
              (sort_key (\<lambda>c. (ke_plugin_id c, ke_contribution_id c)) (tg_contributions g)))
      in \<lparr>kt_target_id = target_id, kt_extension_point = tg_extension_point g, kt_mode = CRM_Exclusive, kt_target = tg_target g,
          kt_revision = (case pref of None \<Rightarrow> 0 | Some p \<Rightarrow> word_of_int (py_revision p)),
          kt_conflict = (1 < available_count ordered), kt_contributions = ordered\<rparr>))"

definition effective_plugin_snapshot :: "'v plugin_env \<Rightarrow> plugin_state \<Rightarrow> app_error + effective_plugin_snapshot" where
  "effective_plugin_snapshot env ps =
     and_then (ensure (list_all (\<lambda>p. 0 \<le> py_revision p) (pz_preferences ps)) (Internal ''plugin preference revision is invalid'')) (\<lambda>_.
     let ms = active_manifests ps; resolutions = map (resolve_target (pz_preferences ps)) (target_groups env ms) in
     Inr \<lparr>kp_contributions = concat (map (\<lambda>m. concat (map (direct_contribution m) (mn_contributions m))) ms)
            @ concat (map kt_contributions resolutions),
          kp_resolutions = resolutions, kp_generated_at = gv_now env\<rparr>)"

definition contribution_kinds :: "string list" where
  "contribution_kinds = [''ui.theme'', ''visual.renderer'', ''artifact.type'', ''generated_ui.runtime'', ''generated_ui.sdk'',
     ''generated_ui.action_bridge'']"

definition plugin_contributions :: "'v plugin_env \<Rightarrow> string option \<Rightarrow> plugin_state \<Rightarrow> app_error + effective_plugin_snapshot" where
  "plugin_contributions env kind ps =
     and_then (ensure (case kind of None \<Rightarrow> True | Some k \<Rightarrow> k \<in> set contribution_kinds) (BadRequest ''plugin.contribution_kind_unsupported'')) (\<lambda>_.
     and_then (effective_plugin_snapshot env ps) (\<lambda>s. Inr (case kind of None \<Rightarrow> s
       | Some k \<Rightarrow> s\<lparr>kp_contributions := filter (\<lambda>c. ke_extension_point c = k) (kp_contributions s),
           kp_resolutions := filter (\<lambda>r. kt_extension_point r = k) (kp_resolutions s)\<rparr>)))"

section \<open>Preferences\<close>

fun references_ok :: "contribution_target_resolution \<Rightarrow> string list \<Rightarrow> contribution_ref list \<Rightarrow> bool" where
  "references_ok resolution seen [] = True"
| "references_ok resolution seen (r # rs) = (contribution_ref_key r \<notin> set seen
     \<and> list_ex (\<lambda>c. contribution_matches c r) (kt_contributions resolution) \<and> references_ok resolution (contribution_ref_key r # seen) rs)"

definition validate_contribution_references :: "contribution_target_resolution \<Rightarrow> contribution_ref list \<Rightarrow> app_error + unit" where
  "validate_contribution_references resolution references =
     ensure (references_ok resolution [] references) (BadRequest ''plugin.contribution_preference_invalid'')"

definition preference_conflict :: app_error where
  "preference_conflict = Conflict ''plugin.contribution_preference_conflict''"

definition store_preference ::
  "'v plugin_env \<Rightarrow> contribution_target_resolution \<Rightarrow> update_preferences_request \<Rightarrow> plugin_state \<Rightarrow> app_error + plugin_state" where
  "store_preference env resolution request ps =
     (let next = uint (uq_expected_revision request) + 1;
          row = \<lparr>py_target_id = kt_target_id resolution, py_target = kt_target resolution, py_revision = next,
            py_ordered = uq_ordered request, py_disabled = uq_disabled request, py_updated_at = gv_now env\<rparr>
      in case select_by py_target_id (kt_target_id resolution) (pz_preferences ps) of
        None \<Rightarrow> Inr (ps\<lparr>pz_preferences := pz_preferences ps @ [row]\<rparr>)
      | Some p \<Rightarrow> and_then (ensure (py_revision p = uint (uq_expected_revision request)) preference_conflict) (\<lambda>_.
          Inr (ps\<lparr>pz_preferences := update_where (\<lambda>r. py_target_id r = kt_target_id resolution) (\<lambda>_. row) (pz_preferences ps)\<rparr>)))"

definition update_contribution_target_preferences ::
  "'v plugin_env \<Rightarrow> string \<Rightarrow> update_preferences_request \<Rightarrow> plugin_state \<Rightarrow> app_error + plugin_state" where
  "update_contribution_target_preferences env target_id request ps =
     and_then (effective_plugin_snapshot env ps) (\<lambda>snapshot.
     and_then (ok_or (List.find (\<lambda>r. kt_target_id r = target_id) (kp_resolutions snapshot))
        (NotFound ''plugin.contribution_target_not_found'')) (\<lambda>resolution.
     and_then (ensure (kt_revision resolution = uq_expected_revision request) preference_conflict) (\<lambda>_.
     and_then (validate_contribution_references resolution (uq_ordered request)) (\<lambda>_.
     and_then (validate_contribution_references resolution (uq_disabled request)) (\<lambda>_.
     and_then (ensure (uint (uq_expected_revision request) + 1 < 2 ^ 63) (BadRequest ''plugin.contribution_revision_invalid'')) (\<lambda>_.
     and_then (store_preference env resolution request ps) (\<lambda>ps1.
     Inr (audit_plugin ''plugin.contribution_preferences_changed'' ''web.local_user'' ''updated''
        (JObj [(''target_id'', JStr target_id), (''revision'', JNum (uint (uq_expected_revision request) + 1)),
           (''ordered_count'', JNum (int (length (uq_ordered request)))), (''disabled_count'', JNum (int (length (uq_disabled request))))])
        (gv_now env) ps1))))))))"

definition update_plugin_contribution_preferences ::
  "'v plugin_env \<Rightarrow> string \<Rightarrow> update_preferences_request \<Rightarrow> (plugin_state, contribution_target_resolution) stateful" where
  "update_plugin_contribution_preferences env target_id request =
     h_bind (h_run (update_contribution_target_preferences env target_id request)) (\<lambda>_.
     h_bind (h_check (effective_plugin_snapshot env)) (\<lambda>snapshot.
     h_check (\<lambda>_. ok_or (List.find (\<lambda>r. kt_target_id r = target_id) (kp_resolutions snapshot))
       (NotFound ''plugin.contribution_target_not_found''))))"

end
