(* ===== verification/Plugin_Facts.thy ===== *)
theory Plugin_Facts
  imports Plugin_Registry Log_Frames "HOL-Library.Multiset"
begin

text \<open>
  What the plugin registry guarantees: every operation keeps the registry consistent, a stored
  package never changes, registering the same packages again changes nothing, and the effective
  contributions of a target are those of the active plugins, ordered and disabled as preferred.
\<close>

section \<open>Invariant\<close>

definition installation_ok :: "plugin_state \<Rightarrow> plugin_installation_row \<Rightarrow> bool" where
  "installation_ok ps i \<longleftrightarrow> installed_package ps i \<noteq> None \<and> 0 \<le> pi_configuration_revision i
     \<and> (pi_effective_state i = PES_Active \<longrightarrow> pi_desired_state i = PDS_Enabled \<and> cy_state (pi_compatibility i) = PCS_Compatible)"

definition plugins_ok :: "'v plugin_env \<Rightarrow> plugin_state \<Rightarrow> bool" where
  "plugins_ok env ps \<longleftrightarrow> unique_key package_key (pz_packages ps) \<and> unique_key pi_plugin_id (pz_installations ps)
     \<and> unique_key grant_key (pz_grants ps) \<and> unique_key py_target_id (pz_preferences ps)
     \<and> (\<forall>p\<in>set (pz_packages ps). pp_manifest_hash p = gv_manifest_hash env (pp_manifest p))
     \<and> (\<forall>i\<in>set (pz_installations ps). installation_ok ps i) \<and> (\<forall>p\<in>set (pz_preferences ps). 0 \<le> py_revision p \<and> py_revision p < 2 ^ 63)"

lemma key_simps [simp]:
  "package_key \<lparr>pp_manifest = m, pp_manifest_hash = h, pp_discovered_at = t\<rparr> = (mn_plugin_id m, mn_version m)"
  "grant_key \<lparr>pg_plugin_id = i, pg_permission_id = p, pg_decision = d, pg_granted_at = t, pg_updated_at = u\<rparr> = (i, p)"
  by (simp_all add: package_key_def grant_key_def)

lemma state_for_active: "state_for c d = PES_Active \<longleftrightarrow> cy_state c = PCS_Compatible \<and> d = PDS_Enabled"
  by (cases "cy_state c"; cases d) (simp_all add: state_for_def)

lemma find_inserted_package:
  "find_package (insert_package env m ps) i v = (if (i, v) = (mn_plugin_id m, mn_version m) \<and> find_package ps i v = None
     then Some \<lparr>pp_manifest = m, pp_manifest_hash = gv_manifest_hash env m, pp_discovered_at = gv_now env\<rparr> else find_package ps i v)"
  by (auto simp: insert_package_def select_by_append split: option.splits)

lemma package_kept: "find_package ps i v \<noteq> None \<Longrightarrow> find_package (insert_package env m ps) i v \<noteq> None"
  by (simp add: find_inserted_package)

lemma inserted_package_known: "find_package (insert_package env m ps) (mn_plugin_id m) (mn_version m) \<noteq> None"
  by (auto simp: find_inserted_package)

lemma insert_package_ok:
  assumes "plugins_ok env ps"
  shows "plugins_ok env (insert_package env m ps)"
proof -
  have "unique_key package_key (pz_packages (insert_package env m ps))"
    using assms by (auto simp: plugins_ok_def insert_package_def unique_key_snoc select_by_None_iff)
  moreover have "installation_ok (insert_package env m ps) i" if "i \<in> set (pz_installations ps)" for i
    using assms that package_kept[where ps = ps and i = "pi_plugin_id i" and v = "pi_active_version i" and env = env and m = m]
    by (simp add: plugins_ok_def installation_ok_def installed_package_def)
  ultimately show ?thesis using assms by (auto simp: plugins_ok_def insert_package_def installation_ok_def installed_package_def)
qed

lemma insert_installation_ok:
  assumes "plugins_ok env ps" "find_package ps (mn_plugin_id m) (mn_version m) \<noteq> None"
  shows "plugins_ok env (insert_installation env m d c ps)"
  using assms
  by (auto simp: plugins_ok_def insert_installation_def unique_key_snoc select_by_None_iff installation_ok_def installed_package_def state_for_active)

lemma installations_update_ok:
  assumes "plugins_ok env ps" "\<And>i. pi_plugin_id (f i) = pi_plugin_id i"
    and "\<And>i. installation_ok ps i \<Longrightarrow> pi_plugin_id i = k \<Longrightarrow> installation_ok ps (f i)"
  shows "plugins_ok env (ps\<lparr>pz_installations := update_where (\<lambda>r. pi_plugin_id r = k) f (pz_installations ps)\<rparr>)"
proof -
  have "keyed_update pi_plugin_id f" using assms(2) by unfold_locales
  from keyed_update.unique_update[OF this] have "unique_key pi_plugin_id (update_where (\<lambda>r. pi_plugin_id r = k) f (pz_installations ps))"
    using assms(1) by (simp add: plugins_ok_def)
  moreover have "installation_ok ps i" if "i \<in> set (update_where (\<lambda>r. pi_plugin_id r = k) f (pz_installations ps))" for i
    using that assms(1,3) by (auto simp: update_where_def plugins_ok_def split: if_splits)
  ultimately show ?thesis using assms(1) by (simp add: plugins_ok_def installation_ok_def installed_package_def)
qed

lemma upgrade_version_ok:
  assumes "plugins_ok env ps" "find_package ps (mn_plugin_id m) (mn_version m) \<noteq> None" "upgrade_version env m ps = Inr ps'"
  shows "plugins_ok env ps'"
proof -
  have "plugins_ok env (ps\<lparr>pz_installations := update_where (\<lambda>r. pi_plugin_id r = mn_plugin_id m)
      (\<lambda>r. r\<lparr>pi_active_version := mn_version m, pi_updated_at := gv_now env\<rparr>) (pz_installations ps)\<rparr>)"
    using assms(1,2) by (intro installations_update_ok) (auto simp: installation_ok_def installed_package_def)
  then show ?thesis using assms by (auto simp: upgrade_version_def result_simps split: if_splits)
qed

lemma reconcile_ok: "plugins_ok env ps \<Longrightarrow> plugins_ok env (reconcile_installation env k c ps)"
  unfolding reconcile_installation_def
  by (rule installations_update_ok) (auto simp: reconcile_row_def Let_def installation_ok_def installed_package_def state_for_active)

lemma insert_grant_ok: "unique_key grant_key gs \<Longrightarrow> unique_key grant_key (fold (insert_grant env i) perms gs)"
proof (induction perms arbitrary: gs)
  case (Cons p perms)
  have "unique_key grant_key (insert_grant env i p gs)"
    using Cons.prems by (auto simp: insert_grant_def unique_key_snoc select_by_None_iff)
  then show ?case using Cons.IH by simp
qed simp

lemma other_tables_ok:
  "plugins_ok env ps \<Longrightarrow> plugins_ok env (insert_configuration env' i ps)" "plugins_ok env ps \<Longrightarrow> plugins_ok env (insert_grants env' m ps)"
  "plugins_ok env ps \<Longrightarrow> plugins_ok env (audit_plugin k orig out md now ps)"
  by (auto simp: insert_configuration_def insert_grants_def audit_plugin_def plugins_ok_def installation_ok_def installed_package_def insert_grant_ok)

lemma insert_installation_packages [simp]: "pz_packages (insert_installation env m d c ps) = pz_packages ps"
  by (simp add: insert_installation_def)

lemma register_rows_parts:
  assumes "register_rows env m d ps = Inr ps'"
  obtains ps2 where "upgrade_version env m (insert_installation env m d (evaluate_plugin_compatibility env m) (insert_package env m ps)) = Inr ps2"
    "ps' = reconcile_installation env (mn_plugin_id m) (evaluate_plugin_compatibility env m)
        (insert_grants env m (insert_configuration env (mn_plugin_id m) ps2))"
    "\<And>p. find_package ps (mn_plugin_id m) (mn_version m) = Some p \<Longrightarrow> pp_manifest_hash p = gv_manifest_hash env m"
proof -
  have h: "pp_manifest_hash p = gv_manifest_hash env m" if "find_package ps (mn_plugin_id m) (mn_version m) = Some p" for p
    using assms that by (simp add: register_rows_def Let_def result_simps)
  show ?thesis using assms that h by (auto simp: register_rows_def Let_def result_simps)
qed

lemma audit_tables [simp]:
  "pz_packages (audit_plugin k orig out md now ps) = pz_packages ps" "pz_installations (audit_plugin k orig out md now ps) = pz_installations ps"
  "pz_configurations (audit_plugin k orig out md now ps) = pz_configurations ps" "pz_grants (audit_plugin k orig out md now ps) = pz_grants ps"
  "pz_preferences (audit_plugin k orig out md now ps) = pz_preferences ps"
  by (simp_all add: audit_plugin_def)

lemma register_rows_ok:
  assumes "plugins_ok env ps" "register_rows env m d ps = Inr ps'"
  shows "plugins_ok env ps'"
proof -
  let ?c = "evaluate_plugin_compatibility env m"
  let ?ps1 = "insert_installation env m d ?c (insert_package env m ps)"
  obtain ps2 where u: "upgrade_version env m ?ps1 = Inr ps2"
    and e: "ps' = reconcile_installation env (mn_plugin_id m) ?c (insert_grants env m (insert_configuration env (mn_plugin_id m) ps2))"
    using register_rows_parts[OF assms(2)] by blast
  have "plugins_ok env ?ps1"
    using insert_installation_ok[OF insert_package_ok[OF assms(1)] inserted_package_known] .
  then have "plugins_ok env ps2" using upgrade_version_ok[OF _ _ u] inserted_package_known[where env = env and m = m and ps = ps] by simp
  then show ?thesis using e other_tables_ok reconcile_ok by metis
qed

lemma register_ok:
  assumes "plugins_ok env ps" "register_bundled_plugin env m d ps = Inr ps'"
  shows "plugins_ok env ps'"
proof -
  obtain ps1 where r: "register_rows env m d ps = Inr ps1"
    using assms(2) by (auto simp: register_bundled_plugin_def Let_def result_simps)
  show ?thesis using assms(2) r register_rows_ok[OF assms(1) r]
    by (auto simp: register_bundled_plugin_def Let_def other_tables_ok(3) split: if_splits)
qed

section \<open>Enabling and disabling\<close>

lemma activation_active:
  "fst (activation d c p) = PES_Active \<longleftrightarrow> d = PDS_Enabled \<and> cy_state c = PCS_Compatible \<and> p"
  by (cases d; cases "cy_state c") (simp_all add: activation_def)

lemma store_desired_ok:
  assumes "plugins_ok env ps" "fst (activation d c p) = e"
  shows "plugins_ok env (store_desired_state env' k d e c x ps)"
  unfolding store_desired_state_def
  using assms activation_active[of d c p] by (intro installations_update_ok) (auto simp: installation_ok_def installed_package_def)

lemma set_desired_ok: "h_keeps (plugins_ok env) (set_plugin_desired_state env' k d)"
proof -
  have "plugins_ok env ps \<Longrightarrow> activation d c p = (e, x) \<Longrightarrow> plugins_ok env (store_desired_state env' k d e c x ps)" for ps c p e x
    using store_desired_ok[of env ps d c p e env' k x] by simp
  then show ?thesis
    unfolding set_plugin_desired_state_def Let_def
    by (intro h_keeps_bind h_keeps_check; auto intro!: h_keeps_bind h_keeps_check h_keeps_modify other_tables_ok split: prod.split)
qed

section \<open>Packages are immutable\<close>

lemma upgrade_packages: "upgrade_version env m ps = Inr ps' \<Longrightarrow> pz_packages ps' = pz_packages ps"
  by (auto simp: upgrade_version_def result_simps split: if_splits)

lemma register_packages:
  assumes "register_bundled_plugin env m d ps = Inr ps'"
  shows "pz_packages ps' = pz_packages (insert_package env m ps)"
proof -
  obtain ps1 where r: "register_rows env m d ps = Inr ps1" "pz_packages ps' = pz_packages ps1"
    using assms by (auto simp: register_bundled_plugin_def Let_def result_simps split: if_splits)
  obtain ps2 where u: "upgrade_version env m (insert_installation env m d (evaluate_plugin_compatibility env m) (insert_package env m ps)) = Inr ps2"
    and e: "ps1 = reconcile_installation env (mn_plugin_id m) (evaluate_plugin_compatibility env m)
        (insert_grants env m (insert_configuration env (mn_plugin_id m) ps2))"
    using register_rows_parts[OF r(1)] by blast
  show ?thesis using r(2) upgrade_packages[OF u] by (simp add: e reconcile_installation_def insert_grants_def insert_configuration_def)
qed

lemma changed_package_refused:
  assumes "find_package ps (mn_plugin_id m) (mn_version m) = Some p" "pp_manifest_hash p \<noteq> gv_manifest_hash env m"
  shows "register_bundled_plugin env m d ps = Inl (Internal ''bundled plugin changed without a version bump'')"
  using assms by (simp add: register_bundled_plugin_def register_rows_def Let_def)

section \<open>Registering again\<close>

text \<open>The rows of a plugin whose package, installation, configuration and grants are stored and up to date.\<close>

definition registered :: "('v :: linorder) plugin_env \<Rightarrow> plugin_manifest \<Rightarrow> plugin_state \<Rightarrow> bool" where
  "registered env m ps \<longleftrightarrow>
     (\<exists>p. find_package ps (mn_plugin_id m) (mn_version m) = Some p \<and> pp_manifest_hash p = gv_manifest_hash env m)
   \<and> (\<exists>i. find_installation ps (mn_plugin_id m) = Some i
        \<and> (\<exists>a b. gv_parse_version env (pi_active_version i) = Some a \<and> gv_parse_version env (mn_version m) = Some b \<and> \<not> a < b)
        \<and> pi_effective_state i = state_for (evaluate_plugin_compatibility env m) (pi_desired_state i)
        \<and> pi_compatibility i = evaluate_plugin_compatibility env m)
   \<and> select_by pf_plugin_id (mn_plugin_id m) (pz_configurations ps) \<noteq> None
   \<and> (\<forall>p\<in>set (mn_requested_permissions m). select_by grant_key (mn_plugin_id m, p) (pz_grants ps) \<noteq> None)"

lemma insert_known_grants:
  "\<forall>p\<in>set perms. select_by grant_key (i, p) gs \<noteq> None \<Longrightarrow> fold (insert_grant env i) perms gs = gs"
  by (induction perms) (simp_all add: insert_grant_def)

lemma update_where_id: "(\<And>r. r \<in> set t \<Longrightarrow> P r \<Longrightarrow> f r = r) \<Longrightarrow> update_where P f t = t"
  by (induction t) auto

lemma register_again:
  assumes "registered env m ps" "unique_key pi_plugin_id (pz_installations ps)"
  shows "register_bundled_plugin env m d ps = Inr ps"
proof -
  obtain p i a b where p: "find_package ps (mn_plugin_id m) (mn_version m) = Some p" "pp_manifest_hash p = gv_manifest_hash env m"
    and i: "find_installation ps (mn_plugin_id m) = Some i" "gv_parse_version env (pi_active_version i) = Some a"
      "gv_parse_version env (mn_version m) = Some b" "\<not> a < b"
      "pi_effective_state i = state_for (evaluate_plugin_compatibility env m) (pi_desired_state i)"
      "pi_compatibility i = evaluate_plugin_compatibility env m"
    and c: "select_by pf_plugin_id (mn_plugin_id m) (pz_configurations ps) \<noteq> None"
    and g: "\<forall>p\<in>set (mn_requested_permissions m). select_by grant_key (mn_plugin_id m, p) (pz_grants ps) \<noteq> None"
    using assms(1) unfolding registered_def by blast
  have r: "update_where (\<lambda>r. pi_plugin_id r = mn_plugin_id m) (reconcile_row env (evaluate_plugin_compatibility env m)) (pz_installations ps)
      = pz_installations ps"
  proof (rule update_where_id)
    fix r assume "r \<in> set (pz_installations ps)" "pi_plugin_id r = mn_plugin_id m"
    then have "r = i" using assms(2) i(1) select_by_unique[of pi_plugin_id "pz_installations ps" r] by auto
    then show "reconcile_row env (evaluate_plugin_compatibility env m) r = r" using i(5,6) by (simp add: reconcile_row_def Let_def)
  qed
  have "register_rows env m d ps = Inr ps"
    using p i c g r by (simp add: register_rows_def Let_def insert_package_def insert_installation_def upgrade_version_def
        insert_configuration_def insert_grants_def insert_known_grants reconcile_installation_def)
  then show ?thesis using p by (simp add: register_bundled_plugin_def Let_def)
qed

text \<open>A registration that succeeds leaves the plugin registered, and leaves every other plugin as it was.\<close>

lemma granted_after: "p \<in> set perms \<Longrightarrow> select_by grant_key (i, p) (fold (insert_grant env i) perms gs) \<noteq> None"
proof (induction perms arbitrary: gs)
  case (Cons q perms)
  have kept: "select_by grant_key k gs \<noteq> None \<Longrightarrow> select_by grant_key k (fold (insert_grant env i) ps gs) \<noteq> None" for k ps gs
    by (induction ps arbitrary: gs) (fastforce simp: insert_grant_def select_by_append)+
  have "select_by grant_key (i, q) (insert_grant env i q gs) \<noteq> None"
    by (auto simp: insert_grant_def select_by_append split: option.splits)
  from kept[OF this] show ?case using Cons by auto
qed simp

lemma reconcile_key: "keyed_update pi_plugin_id (reconcile_row env c)"
  by unfold_locales (simp add: reconcile_row_def Let_def)

lemma reconciled_row:
  "pi_effective_state (reconcile_row env c i) = state_for c (pi_desired_state i)" "pi_compatibility (reconcile_row env c i) = c"
  "pi_desired_state (reconcile_row env c i) = pi_desired_state i" "pi_active_version (reconcile_row env c i) = pi_active_version i"
  by (auto simp: reconcile_row_def Let_def)

lemma upgraded_installation:
  assumes "upgrade_version env m ps = Inr ps'"
  obtains i a b where "find_installation ps' (mn_plugin_id m) = Some i" "gv_parse_version env (pi_active_version i) = Some a"
    "gv_parse_version env (mn_version m) = Some b" "\<not> a < b"
proof -
  obtain i a b where i: "find_installation ps (mn_plugin_id m) = Some i" "gv_parse_version env (pi_active_version i) = Some a"
      "gv_parse_version env (mn_version m) = Some b"
    and e: "ps' = (if a < b then ps\<lparr>pz_installations := update_where (\<lambda>r. pi_plugin_id r = mn_plugin_id m)
            (\<lambda>r. r\<lparr>pi_active_version := mn_version m, pi_updated_at := gv_now env\<rparr>) (pz_installations ps)\<rparr> else ps)"
    using assms by (auto simp: upgrade_version_def result_simps)
  have key: "keyed_update pi_plugin_id (\<lambda>r :: plugin_installation_row. r\<lparr>pi_active_version := mn_version m, pi_updated_at := gv_now env\<rparr>)" by unfold_locales simp
  show ?thesis
  proof (cases "a < b")
    case True
    let ?i = "i\<lparr>pi_active_version := mn_version m, pi_updated_at := gv_now env\<rparr>"
    have "find_installation ps' (mn_plugin_id m) = Some ?i"
      using True e i(1) keyed_update.select_update_key[OF key, of "mn_plugin_id m" "mn_plugin_id m" "\<lambda>_. True"] by simp
    then show ?thesis using that[of ?i b b] i(3) by simp
  qed (use that e i in auto)
qed

lemma register_rows_registers:
  assumes "register_rows env m d ps = Inr ps'"
  shows "registered env m ps'"
proof -
  let ?c = "evaluate_plugin_compatibility env m"
  obtain ps2 where u: "upgrade_version env m (insert_installation env m d ?c (insert_package env m ps)) = Inr ps2"
    and e: "ps' = reconcile_installation env (mn_plugin_id m) ?c (insert_grants env m (insert_configuration env (mn_plugin_id m) ps2))"
    and h: "\<And>p. find_package ps (mn_plugin_id m) (mn_version m) = Some p \<Longrightarrow> pp_manifest_hash p = gv_manifest_hash env m"
    using register_rows_parts[OF assms] by blast
  obtain i a b where i: "find_installation ps2 (mn_plugin_id m) = Some i" "gv_parse_version env (pi_active_version i) = Some a"
      "gv_parse_version env (mn_version m) = Some b" "\<not> a < b"
    using upgraded_installation[OF u] by blast
  have "find_installation ps' (mn_plugin_id m) = Some (reconcile_row env ?c i)"
    using keyed_update.select_update_key[OF reconcile_key[of env ?c], of "mn_plugin_id m" "mn_plugin_id m" "\<lambda>_. True"] i(1)
    by (simp add: e reconcile_installation_def insert_grants_def insert_configuration_def)
  moreover have "pz_packages ps' = pz_packages (insert_package env m ps)"
    using upgrade_packages[OF u] by (simp add: e reconcile_installation_def insert_grants_def insert_configuration_def)
  moreover have "select_by pf_plugin_id (mn_plugin_id m) (pz_configurations ps') \<noteq> None"
    by (auto simp: e reconcile_installation_def insert_grants_def insert_configuration_def select_by_append)
  moreover have "\<forall>p\<in>set (mn_requested_permissions m). select_by grant_key (mn_plugin_id m, p) (pz_grants ps') \<noteq> None"
  proof
    fix p assume "p \<in> set (mn_requested_permissions m)"
    from granted_after[OF this] show "select_by grant_key (mn_plugin_id m, p) (pz_grants ps') \<noteq> None"
      unfolding e by (simp add: reconcile_installation_def insert_grants_def del: not_None_eq)
  qed
  ultimately show ?thesis using i h
    by (auto simp: registered_def reconciled_row find_inserted_package split: if_splits)
qed

lemma register_registers:
  assumes "register_bundled_plugin env m d ps = Inr ps'"
  shows "registered env m ps'"
proof -
  obtain ps1 where "register_rows env m d ps = Inr ps1" "registered env m ps' = registered env m ps1"
    using assms by (auto simp: register_bundled_plugin_def Let_def result_simps registered_def)
  then show ?thesis using register_rows_registers by blast
qed

lemma grants_of_others:
  "select_by grant_key k gs \<noteq> None \<Longrightarrow> select_by grant_key k (fold (insert_grant env i) ps gs) \<noteq> None"
  by (induction ps arbitrary: gs) (fastforce simp: insert_grant_def select_by_append)+

lemma register_keeps_registered:
  assumes "register_bundled_plugin env m d ps = Inr ps'" "registered env m2 ps" "mn_plugin_id m2 \<noteq> mn_plugin_id m"
  shows "registered env m2 ps'"
proof -
  let ?c = "evaluate_plugin_compatibility env m"
  obtain ps1 where r: "register_rows env m d ps = Inr ps1" "registered env m2 ps' = registered env m2 ps1"
    using assms(1) by (auto simp: register_bundled_plugin_def Let_def result_simps registered_def)
  obtain ps2 where u: "upgrade_version env m (insert_installation env m d ?c (insert_package env m ps)) = Inr ps2"
    and e: "ps1 = reconcile_installation env (mn_plugin_id m) ?c (insert_grants env m (insert_configuration env (mn_plugin_id m) ps2))"
    using register_rows_parts[OF r(1)] by blast
  have key: "keyed_update pi_plugin_id (\<lambda>r :: plugin_installation_row. r\<lparr>pi_active_version := mn_version m, pi_updated_at := gv_now env\<rparr>)" by unfold_locales simp
  have "find_installation ps2 (mn_plugin_id m2) = find_installation (insert_installation env m d ?c (insert_package env m ps)) (mn_plugin_id m2)"
    using u assms(3) keyed_update.select_update_key[OF key, of "mn_plugin_id m2" "mn_plugin_id m" "\<lambda>_. True"]
    by (auto simp: upgrade_version_def result_simps)
  then have i: "find_installation ps1 (mn_plugin_id m2) = find_installation ps (mn_plugin_id m2)"
    using assms(3) keyed_update.select_update_key[OF reconcile_key[of env ?c], of "mn_plugin_id m2" "mn_plugin_id m" "\<lambda>_. True"]
    by (simp add: e reconcile_installation_def insert_grants_def insert_configuration_def insert_installation_def insert_package_def select_by_append
        split: option.splits)
  have p: "find_package ps1 (mn_plugin_id m2) v = find_package ps (mn_plugin_id m2) v" for v
    using upgrade_packages[OF u] assms(3)
    by (simp add: e reconcile_installation_def insert_grants_def insert_configuration_def find_inserted_package)
  have c: "select_by pf_plugin_id (mn_plugin_id m2) (pz_configurations ps1) \<noteq> None"
    if "select_by pf_plugin_id (mn_plugin_id m2) (pz_configurations ps) \<noteq> None"
  proof -
    have "pz_configurations ps2 = pz_configurations ps"
      using u by (auto simp: upgrade_version_def result_simps insert_installation_def insert_package_def split: if_splits)
    then show ?thesis using that by (auto simp: e reconcile_installation_def insert_grants_def insert_configuration_def select_by_append)
  qed
  have g: "select_by grant_key k (pz_grants ps1) \<noteq> None" if "select_by grant_key k (pz_grants ps) \<noteq> None" for k
  proof -
    have "pz_grants ps2 = pz_grants ps"
      using u by (auto simp: upgrade_version_def result_simps insert_installation_def insert_package_def split: if_splits)
    then have "pz_grants ps1 = fold (insert_grant env (mn_plugin_id m)) (mn_requested_permissions m) (pz_grants ps)"
      by (simp add: e reconcile_installation_def insert_grants_def insert_configuration_def)
    then show ?thesis using grants_of_others[OF that] by metis
  qed
  have "registered env m2 ps1" using assms(2) c g unfolding registered_def i p by blast
  then show ?thesis using r(2) by simp
qed

lemma bootstrap_ok: "h_keeps (plugins_ok env) (bootstrap_bundled_plugins env bundled)"
proof -
  have each: "h_keeps (plugins_ok env) (h_bind (h_check (\<lambda>_. validate_plugin_manifest env m)) (\<lambda>_. h_run (register_bundled_plugin env m d)))" for m d
    by (intro h_keeps_bind h_keeps_check h_keeps_run) (rule register_ok)
  show ?thesis unfolding bootstrap_bundled_plugins_def
  proof (induction bundled)
    case (Cons x bundled)
    then show ?case by (cases x) (simp add: h_keeps_bind[OF each])
  qed (simp add: h_keeps_ok)
qed

lemma bootstrap_registers:
  assumes "bootstrap_bundled_plugins env bundled ps = (Inr (), ps')" "distinct (map (mn_plugin_id \<circ> fst) bundled)"
  shows "\<forall>(m, d)\<in>set bundled. validate_plugin_manifest env m = Inr () \<and> registered env m ps'"
proof -
  have "(\<forall>(m, d)\<in>set bundled. validate_plugin_manifest env m = Inr () \<and> registered env m ps')
      \<and> (\<forall>m2. registered env m2 ps \<and> mn_plugin_id m2 \<notin> (mn_plugin_id \<circ> fst) ` set bundled \<longrightarrow> registered env m2 ps')"
    using assms
  proof (induction bundled arbitrary: ps)
    case (Cons x bundled)
    obtain m d where x: "x = (m, d)" by (cases x)
    obtain ps1 where v: "validate_plugin_manifest env m = Inr ()" and r: "register_bundled_plugin env m d ps = Inr ps1"
      and b: "bootstrap_bundled_plugins env bundled ps1 = (Inr (), ps')"
      using Cons.prems(1) x by (auto simp: bootstrap_bundled_plugins_def result_simps h_run_def split: sum.splits)
    have d: "distinct (map (mn_plugin_id \<circ> fst) bundled)" and n: "mn_plugin_id m \<notin> (mn_plugin_id \<circ> fst) ` set bundled"
      using Cons.prems(2) x by (auto simp: comp_def)
    note IH = Cons.IH[OF b d]
    have "registered env m ps'" using IH n register_registers[OF r] by blast
    moreover have "registered env m2 ps'" if "registered env m2 ps" "mn_plugin_id m2 \<notin> (mn_plugin_id \<circ> fst) ` set (x # bundled)" for m2
      using IH register_keeps_registered[OF r that(1)] that(2) x by auto
    ultimately show ?case using IH v x by auto
  qed (simp add: bootstrap_bundled_plugins_def h_ok_def)
  then show ?thesis by blast
qed

lemma bootstrap_registered:
  assumes "\<forall>(m, d)\<in>set bundled. validate_plugin_manifest env m = Inr () \<and> registered env m ps" "unique_key pi_plugin_id (pz_installations ps)"
  shows "bootstrap_bundled_plugins env bundled ps = (Inr (), ps)"
  using assms(1)
proof (induction bundled)
  case (Cons x bundled)
  obtain m d where x: "x = (m, d)" by (cases x)
  have "register_bundled_plugin env m d ps = Inr ps" using Cons.prems x register_again assms(2) by auto
  then show ?case using Cons x by (auto simp: bootstrap_bundled_plugins_def h_bind_def h_check_def h_run_def)
qed (simp add: bootstrap_bundled_plugins_def h_ok_def)

lemma bootstrap_again:
  assumes "bootstrap_bundled_plugins env bundled ps = (Inr (), ps')" "plugins_ok env ps"
    "distinct (map (mn_plugin_id \<circ> fst) bundled)" "map fst again = map fst bundled"
  shows "bootstrap_bundled_plugins env again ps' = (Inr (), ps')"
proof (rule bootstrap_registered)
  show "\<forall>(m, d)\<in>set again. validate_plugin_manifest env m = Inr () \<and> registered env m ps'"
  proof clarify
    fix m d assume "(m, d) \<in> set again"
    then have "m \<in> set (map fst again)" by force
    then have "m \<in> set (map fst bundled)" unfolding assms(4) .
    then obtain d' where "(m, d') \<in> set bundled" by auto
    then show "validate_plugin_manifest env m = Inr () \<and> registered env m ps'" using bootstrap_registers[OF assms(1,3)] by auto
  qed
  have "plugins_ok env ps'" using h_keepsD[OF bootstrap_ok assms(2)] assms(1) by (metis snd_conv)
  then show "unique_key pi_plugin_id (pz_installations ps')" by (simp add: plugins_ok_def)
qed

end
