(* ===== verification/Plugin_Resolution.thy ===== *)
theory Plugin_Resolution
  imports Plugin_Facts
begin

text \<open>
  Which contribution serves a target. The candidates of a target are exactly what the active
  plugins contribute to it; a preference only orders and disables them, and what a client stored
  is what the next snapshot shows.
\<close>

definition ref_of :: "effective_contribution \<Rightarrow> contribution_ref" where
  "ref_of c = \<lparr>kr_plugin_id = ke_plugin_id c, kr_contribution_id = ke_contribution_id c\<rparr>"

lemma matches_ref: "contribution_matches c r \<longleftrightarrow> ref_of c = r"
  by (cases r) (auto simp: contribution_matches_def ref_of_def)

lemma key_of_ref: "effective_contribution_key c = contribution_ref_key (ref_of c)"
  by (simp add: effective_contribution_key_def contribution_ref_key_def ref_of_def)

section \<open>Order\<close>

lemma prefer_mset: "mset (prefer_listed rs cs) = mset cs"
proof (induction rs cs rule: prefer_listed.induct)
  case (2 r rs cs)
  show ?case
  proof (cases "List.extract (\<lambda>c. contribution_matches c r) cs")
    case None
    then show ?thesis using 2 by simp
  next
    case (Some x)
    obtain before c after where x: "x = (before, c, after)" by (cases x)
    then have "cs = before @ c # after" using Some by (simp add: extract_Some_iff)
    then show ?thesis using 2(2) Some x by simp
  qed
qed simp

lemma prefer_prefix:
  assumes "distinct rs" "set rs \<subseteq> ref_of ` set cs"
  shows "map ref_of (take (length rs) (prefer_listed rs cs)) = rs"
  using assms
proof (induction rs cs rule: prefer_listed.induct)
  case (2 r rs cs)
  have "\<exists>c\<in>set cs. contribution_matches c r" using 2(4) by (auto simp: matches_ref)
  then obtain before c after where e: "List.extract (\<lambda>c. contribution_matches c r) cs = Some (before, c, after)"
    by (metis extract_None_iff not_None_eq prod_cases3)
  have c: "ref_of c = r" "cs = before @ c # after" using e by (auto simp: extract_Some_iff matches_ref)
  have "set rs \<subseteq> ref_of ` set (before @ after)" using 2(3,4) c by auto
  then show ?case using 2(2)[OF e refl refl] 2(3) e c by simp
qed simp

section \<open>Disabling\<close>

lemma disable_ref [simp]: "ref_of (disable_listed ds c) = ref_of c"
  by (simp add: disable_listed_def ref_of_def)

lemma disable_state:
  "ke_effective_state c = ECS_Available \<Longrightarrow>
   ke_effective_state (disable_listed ds c) = ECS_Disabled \<longleftrightarrow> contribution_ref_key (ref_of c) \<in> contribution_ref_key ` set ds"
  by (auto simp: disable_listed_def key_of_ref)

lemma grouped_available: "c \<in> set (grouped_contributions m) \<Longrightarrow> ke_effective_state c = ECS_Available"
  by (auto simp: grouped_contributions_def effective_def)

section \<open>Groups\<close>

definition groups_of :: "'v plugin_env \<Rightarrow> effective_contribution list \<Rightarrow> (string \<times> target_group) list" where
  "groups_of env cs = fold (push_exclusive_contribution env) cs []"

lemma hm_get_sorted: "hm_wf m \<Longrightarrow> hm_get (sort_key fst m) k = hm_get m k"
proof -
  assume "hm_wf m"
  then have "distinct (map fst m)" by (simp add: hm_wf_def)
  moreover have "distinct (map fst (sort_key fst m))"
    using calculation by (simp add: distinct_map inj_on_def)
  ultimately show ?thesis using map_of_inject_set[of "sort_key fst m" m] by simp
qed

lemma groups_snoc: "groups_of env (cs @ [c]) = push_exclusive_contribution env c (groups_of env cs)"
  by (simp add: groups_of_def)

lemma groups_wf: "hm_wf (groups_of env cs)"
  by (induction cs rule: rev_induct) (auto simp: groups_of_def push_exclusive_contribution_def Let_def)

text \<open>A group holds the contributions of its target, in the order they were pushed.\<close>

lemma group_contents:
  "map_option tg_contributions (hm_get (groups_of env cs) i) =
   (let xs = filter (\<lambda>c. gv_target_id env (ke_target c) = i) cs in if xs = [] then None else Some xs)"
proof (induction cs rule: rev_induct)
  case (snoc c cs)
  show ?case
    using snoc by (cases "hm_get (groups_of env cs) i")
      (auto simp: groups_snoc push_exclusive_contribution_def Let_def split: if_splits option.splits)
qed (simp add: groups_of_def)

lemma target_groups_of: "target_groups env ms = sort_key fst (groups_of env (concat (map grouped_contributions ms)))"
  by (simp add: target_groups_def groups_of_def)

lemma target_groups_distinct: "distinct (map fst (target_groups env ms))"
  using groups_wf[of env "concat (map grouped_contributions ms)"]
  by (simp add: target_groups_of hm_wf_def distinct_map inj_on_def)

section \<open>Resolutions\<close>

lemma resolve_id [simp]: "kt_target_id (resolve_target prefs x) = fst x"
  by (cases x) (simp add: resolve_target_def Let_def)

lemma find_resolution:
  assumes "distinct (map fst gs)"
  shows "List.find (\<lambda>r. kt_target_id r = i) (map (resolve_target prefs) gs) = map_option (\<lambda>g. resolve_target prefs (i, g)) (hm_get gs i)"
  using assms by (induction gs) auto

definition resolution :: "'v plugin_env \<Rightarrow> plugin_state \<Rightarrow> string \<Rightarrow> contribution_target_resolution option" where
  "resolution env ps i = map_option (\<lambda>g. resolve_target (pz_preferences ps) (i, g)) (hm_get (target_groups env (active_manifests ps)) i)"

lemma snapshot_resolution:
  assumes "effective_plugin_snapshot env ps = Inr s"
  shows "List.find (\<lambda>r. kt_target_id r = i) (kp_resolutions s) = resolution env ps i"
  using assms find_resolution[OF target_groups_distinct]
  by (auto simp: effective_plugin_snapshot_def Let_def result_simps resolution_def)

lemma resolved_contributions:
  assumes "resolution env ps i = Some r"
  shows "image_mset ref_of (mset (kt_contributions r)) = image_mset ref_of (mset (filter (\<lambda>c. gv_target_id env (ke_target c) = i)
      (concat (map grouped_contributions (active_manifests ps)))))"
    "kt_conflict r \<longleftrightarrow> 1 < available_count (kt_contributions r)"
proof -
  let ?cs = "filter (\<lambda>c. gv_target_id env (ke_target c) = i) (concat (map grouped_contributions (active_manifests ps)))"
  obtain g where g: "hm_get (target_groups env (active_manifests ps)) i = Some g" "r = resolve_target (pz_preferences ps) (i, g)"
    using assms by (auto simp: resolution_def)
  have "tg_contributions g = ?cs"
    using g(1) group_contents[of env "concat (map grouped_contributions (active_manifests ps))" i]
    by (auto simp: target_groups_of hm_get_sorted[OF groups_wf] Let_def split: if_splits)
  then have "mset (kt_contributions r) = image_mset (disable_listed (case select_by py_target_id i (pz_preferences ps) of None \<Rightarrow> [] | Some p \<Rightarrow> py_disabled p)) (mset ?cs)"
    by (simp add: g(2) resolve_target_def Let_def prefer_mset)
  then show "image_mset ref_of (mset (kt_contributions r)) = image_mset ref_of (mset ?cs)" by (simp add: image_mset.compositionality comp_def)
  show "kt_conflict r \<longleftrightarrow> 1 < available_count (kt_contributions r)" by (simp add: g(2) resolve_target_def Let_def)
qed

section \<open>Preferences take effect\<close>

lemma references_distinct:
  "references_ok r seen rs \<Longrightarrow> distinct rs \<and> contribution_ref_key ` set rs \<inter> set seen = {} \<and> set rs \<subseteq> ref_of ` set (kt_contributions r)"
  by (induction rs arbitrary: seen) (fastforce simp: matches_ref list_ex_iff)+

lemma update_parts:
  assumes "update_contribution_target_preferences env i q ps = Inr ps'"
  obtains r ps1 where "resolution env ps i = Some r" "kt_revision r = uq_expected_revision q"
    "references_ok r [] (uq_ordered q)" "uint (uq_expected_revision q) + 1 < 2 ^ 63"
    "store_preference env r q ps = Inr ps1" "pz_preferences ps' = pz_preferences ps1" "active_manifests ps' = active_manifests ps"
proof -
  obtain s r ps1 k orig out md now where s: "effective_plugin_snapshot env ps = Inr s"
    and r: "List.find (\<lambda>r. kt_target_id r = i) (kp_resolutions s) = Some r"
    and q: "kt_revision r = uq_expected_revision q" "references_ok r [] (uq_ordered q)" "uint (uq_expected_revision q) + 1 < 2 ^ 63"
    and p: "store_preference env r q ps = Inr ps1" "ps' = audit_plugin k orig out md now ps1"
    using assms by (auto simp: update_contribution_target_preferences_def validate_contribution_references_def result_simps)
  have "active_manifests ps1 = active_manifests ps"
    using p(1) by (auto simp: store_preference_def Let_def result_simps active_manifests_def installed_package_def split: option.splits)
  then have "active_manifests ps' = active_manifests ps" using p(2) by (simp add: active_manifests_def installed_package_def)
  then show ?thesis using that[of r ps1] q p r snapshot_resolution[OF s] by simp
qed

definition stored_row :: "'v plugin_env \<Rightarrow> contribution_target_resolution \<Rightarrow> update_preferences_request \<Rightarrow> plugin_preference_row" where
  "stored_row env r q = \<lparr>py_target_id = kt_target_id r, py_target = kt_target r, py_revision = uint (uq_expected_revision q) + 1,
     py_ordered = uq_ordered q, py_disabled = uq_disabled q, py_updated_at = gv_now env\<rparr>"

lemma stored_preferences:
  assumes "store_preference env r q ps = Inr ps'"
  shows "select_by py_target_id k (pz_preferences ps') =
    (if k = kt_target_id r then Some (stored_row env r q) else select_by py_target_id k (pz_preferences ps))"
proof (cases "select_by py_target_id (kt_target_id r) (pz_preferences ps)")
  case None
  then show ?thesis using assms by (auto simp: store_preference_def Let_def select_by_append stored_row_def split: option.splits)
next
  case (Some p)
  have "select_by py_target_id k (update_where (\<lambda>x. py_target_id x = t) (\<lambda>_. row) prefs)
      = (if k = t \<and> select_by py_target_id t prefs \<noteq> None then Some row else select_by py_target_id k prefs)"
    if "py_target_id row = t" for t and row :: plugin_preference_row and prefs
    using that by (induction prefs) auto
  then show ?thesis using assms Some by (auto simp: store_preference_def Let_def result_simps stored_row_def)
qed

lemma resolution_target: "resolution env ps i = Some r \<Longrightarrow> kt_target_id r = i"
  by (auto simp: resolution_def)

lemma updated_resolution:
  assumes "update_contribution_target_preferences env i q ps = Inr ps'"
  obtains r r' where "resolution env ps i = Some r" "resolution env ps' i = Some r'" "kt_revision r = uq_expected_revision q"
    "kt_revision r' = uq_expected_revision q + 1" "uint (uq_expected_revision q) + 1 < 2 ^ 63"
    "image_mset ref_of (mset (kt_contributions r')) = image_mset ref_of (mset (kt_contributions r))"
    "map ref_of (take (length (uq_ordered q)) (kt_contributions r')) = uq_ordered q"
    "\<forall>c\<in>set (kt_contributions r'). ke_effective_state c = ECS_Disabled \<longleftrightarrow> contribution_ref_key (ref_of c) \<in> contribution_ref_key ` set (uq_disabled q)"
proof -
  obtain r ps1 where r: "resolution env ps i = Some r" "kt_revision r = uq_expected_revision q"
    "references_ok r [] (uq_ordered q)" "uint (uq_expected_revision q) + 1 < 2 ^ 63"
    and p: "store_preference env r q ps = Inr ps1" "pz_preferences ps' = pz_preferences ps1" "active_manifests ps' = active_manifests ps"
    using update_parts[OF assms] by metis
  obtain g where g: "hm_get (target_groups env (active_manifests ps)) i = Some g" using r(1) by (auto simp: resolution_def)
  let ?r' = "resolve_target (pz_preferences ps') (i, g)"
  let ?cs = "sort_key (\<lambda>c. (ke_plugin_id c, ke_contribution_id c)) (tg_contributions g)"
  have r': "resolution env ps' i = Some ?r'" using g p(3) by (simp add: resolution_def)
  have row: "select_by py_target_id i (pz_preferences ps') = Some (stored_row env r q)"
    using stored_preferences[OF p(1)] resolution_target[OF r(1)] p(2) by simp
  have cs: "kt_contributions ?r' = map (disable_listed (uq_disabled q)) (prefer_listed (uq_ordered q) ?cs)"
    and rev: "kt_revision ?r' = uq_expected_revision q + 1"
    using row by (simp_all add: resolve_target_def Let_def stored_row_def)
  have same: "image_mset ref_of (mset (kt_contributions ?r')) = image_mset ref_of (mset (kt_contributions r))"
    using resolved_contributions(1)[OF r(1)] resolved_contributions(1)[OF r'] p(3) by simp
  have refs: "image_mset ref_of (mset (kt_contributions ?r')) = image_mset ref_of (mset (tg_contributions g))"
    by (simp add: cs prefer_mset image_mset.compositionality comp_def)
  have "ref_of ` set (kt_contributions r) = ref_of ` set (tg_contributions g)"
    using same refs by (metis (no_types, lifting) mset_map set_map set_mset_mset)
  then have "set (uq_ordered q) \<subseteq> ref_of ` set ?cs" "distinct (uq_ordered q)" using references_distinct[OF r(3)] by auto
  then have ordered: "map ref_of (take (length (uq_ordered q)) (kt_contributions ?r')) = uq_ordered q"
    using prefer_prefix[of "uq_ordered q" ?cs] by (simp add: cs take_map comp_def)
  have avail: "ke_effective_state c = ECS_Available" if "c \<in> set (tg_contributions g)" for c
  proof -
    have "tg_contributions g = filter (\<lambda>c. gv_target_id env (ke_target c) = i) (concat (map grouped_contributions (active_manifests ps)))"
      using g group_contents[of env "concat (map grouped_contributions (active_manifests ps))" i]
      by (auto simp: target_groups_of hm_get_sorted[OF groups_wf] Let_def split: if_splits)
    then show ?thesis using that grouped_available by auto
  qed
  have "set (prefer_listed (uq_ordered q) ?cs) = set (tg_contributions g)" by (metis prefer_mset set_mset_mset mset_sort)
  then have "\<forall>c\<in>set (kt_contributions ?r'). ke_effective_state c = ECS_Disabled \<longleftrightarrow> contribution_ref_key (ref_of c) \<in> contribution_ref_key ` set (uq_disabled q)"
    using disable_state avail by (auto simp: cs)
  then show ?thesis using that[OF r(1) r' r(2) rev r(4) same ordered] by blast
qed

lemma stale_update_refused:
  assumes "resolution env ps i = Some r" "kt_revision r \<noteq> uq_expected_revision q" "\<forall>p\<in>set (pz_preferences ps). 0 \<le> py_revision p"
  shows "update_contribution_target_preferences env i q ps = Inl preference_conflict"
proof -
  obtain s where s: "effective_plugin_snapshot env ps = Inr s" using assms(3) by (auto simp: effective_plugin_snapshot_def Let_def list_all_iff)
  then show ?thesis using assms snapshot_resolution[OF s, of i] by (simp add: update_contribution_target_preferences_def)
qed

lemma word_succ_neq: "x + 1 \<noteq> (x :: 64 word)"
  by simp

lemma store_ok:
  assumes "plugins_ok env ps" "update_contribution_target_preferences env' i q ps = Inr ps'"
  shows "plugins_ok env ps'"
proof -
  obtain r ps1 k orig out md now where p: "store_preference env' r q ps = Inr ps1" "ps' = audit_plugin k orig out md now ps1"
    and b: "uint (uq_expected_revision q) + 1 < 2 ^ 63"
    using assms(2) by (auto simp: update_contribution_target_preferences_def result_simps)
  have "unique_key py_target_id (pz_preferences ps1)"
  proof (cases "select_by py_target_id (kt_target_id r) (pz_preferences ps)")
    case None
    then have "kt_target_id r \<notin> py_target_id ` set (pz_preferences ps)" by (simp add: select_by_None_iff)
    then show ?thesis using None p(1) assms(1) by (auto simp: store_preference_def Let_def plugins_ok_def unique_key_snoc)
  next
    case (Some row)
    have "map py_target_id (update_where (\<lambda>x. py_target_id x = t) (\<lambda>_. new) prefs) = map py_target_id prefs" if "py_target_id new = t" for t and new :: plugin_preference_row and prefs
      using that by (induction prefs) auto
    then show ?thesis using Some p(1) assms(1) by (auto simp: store_preference_def Let_def result_simps plugins_ok_def unique_key_def)
  qed
  moreover have "0 \<le> py_revision x \<and> py_revision x < 2 ^ 63" if "x \<in> set (pz_preferences ps1)" for x
  proof -
    have "x \<in> set (pz_preferences ps) \<or> py_revision x = uint (uq_expected_revision q) + 1"
      using p(1) that by (auto simp: store_preference_def Let_def result_simps update_where_def split: option.splits if_splits)
    then show ?thesis using assms(1) b by (auto simp: plugins_ok_def)
  qed
  moreover have "pz_packages ps1 = pz_packages ps" "pz_installations ps1 = pz_installations ps" "pz_grants ps1 = pz_grants ps"
    using p(1) by (auto simp: store_preference_def Let_def result_simps split: option.splits)
  ultimately have "plugins_ok env ps1" using assms(1) by (simp add: plugins_ok_def installation_ok_def installed_package_def)
  then show ?thesis using p(2) other_tables_ok(3) by simp
qed

end
