(* ===== verification/Plugin_Scenarios.thy ===== *)
theory Plugin_Scenarios
  imports Plugin_Resolution Scenarios
begin

text \<open>A registry with two bundled plugins that contribute the same artifact type, and two versions of one plugin.\<close>

definition versions0 :: "(string \<times> nat) list" where
  "versions0 = [(''1.0.0'', 100), (''1.1.0'', 110), (''0.2.19'', 19), (''0.3.0'', 30)]"

definition plugin_env0 :: "nat plugin_env" where
  "plugin_env0 = \<lparr>gv_parse_version = map_of versions0, gv_json_len = (\<lambda>_. 2), gv_manifest_hash = mn_version,
     gv_target_id = (\<lambda>t. case t of CTG_ArtifactType a \<Rightarrow> a | CTG_VisualRenderer a b s l \<Rightarrow> a @ b @ (case l of None \<Rightarrow> [] | Some x \<Rightarrow> x) | _ \<Rightarrow> []),
     gv_configuration_hash = ''h'', gv_contrast_below = (\<lambda>_ _ _. False), gv_app_version = ''0.2.19'', gv_now = 7\<rparr>"

definition core_range :: "string option \<Rightarrow> plugin_version_range" where
  "core_range m = \<lparr>vn_minimum = m, vn_maximum_exclusive = None\<rparr>"

definition manifest0 :: "id \<Rightarrow> string \<Rightarrow> string option \<Rightarrow> plugin_contribution list \<Rightarrow> plugin_manifest" where
  "manifest0 i v core cs = \<lparr>mn_manifest_version = 1, mn_plugin_id = i, mn_version = v, mn_display_name = ''n'', mn_description = ''d'',
     mn_publisher = ''p'', mn_license = None, mn_homepage = None, mn_install_source = PI_Bundled, mn_trust_level = TL_TrustedBundled,
     mn_compatibility = \<lparr>cz_core = core_range core, cz_web = core_range None, cz_node = None, cz_protocol_versions = [CURRENT_PROTOCOL_VERSION]\<rparr>,
     mn_activation_conditions = [], mn_requested_permissions = [ARTIFACT_TYPE_CONTRIBUTION_PERMISSION, VISUAL_RENDERER_CONTRIBUTION_PERMISSION],
     mn_configuration_schema = None, mn_contributions = cs\<rparr>"

definition artifact0 :: "string \<Rightarrow> plugin_contribution" where
  "artifact0 i = PC_ArtifactType i 1 \<lparr>at_artifact_type_id = ''t.x'', at_display_name = ''n'', at_description = ''d'', at_schema_version = 1,
     at_fallback_strategy = VRF_Metadata\<rparr>"

definition bundled0 :: "(plugin_manifest \<times> plugin_desired_state) list" where
  "bundled0 = [(manifest0 ''p.a'' ''1.0.0'' None [artifact0 ''p.a.t''], PDS_Enabled), (manifest0 ''p.b'' ''1.0.0'' None [artifact0 ''p.b.t''], PDS_Enabled)]"

definition no_plugins :: plugin_state where
  "no_plugins = \<lparr>pz_core = new_core empty_db, pz_packages = [], pz_installations = [], pz_configurations = [], pz_grants = [], pz_preferences = []\<rparr>"

definition plugins0 :: plugin_state where
  "plugins0 = snd (bootstrap_bundled_plugins plugin_env0 bundled0 no_plugins)"

definition first_b :: update_preferences_request where
  "first_b = \<lparr>uq_expected_revision = 0, uq_ordered = [\<lparr>kr_plugin_id = ''p.b'', kr_contribution_id = ''p.b.t''\<rparr>],
     uq_disabled = [\<lparr>kr_plugin_id = ''p.a'', kr_contribution_id = ''p.a.t''\<rparr>]\<rparr>"

lemma no_plugins_ok: "plugins_ok plugin_env0 no_plugins"
  by (simp add: plugins_ok_def no_plugins_def unique_key_def)

lemma bootstrapped0: "is_ok (fst (bootstrap_bundled_plugins plugin_env0 bundled0 no_plugins))"
  by code_simp

lemma bundled0_ids: "distinct (map (mn_plugin_id \<circ> fst) bundled0)"
  by code_simp

lemma manifest0_valid: "validate_plugin_manifest plugin_env0 (manifest0 ''p.a'' ''1.0.0'' None [artifact0 ''p.a.t'']) = Inr ()"
  by code_simp

lemma plugins0_ok: "plugins_ok plugin_env0 plugins0"
  using bootstrap_ok[of plugin_env0 bundled0] no_plugins_ok by (simp add: h_keeps_def plugins0_def)

lemma first_b_accepted: "is_ok (update_contribution_target_preferences plugin_env0 ''t.x'' first_b plugins0)"
  by code_simp

lemma conflicting0: "map kt_conflict (case effective_plugin_snapshot plugin_env0 plugins0 of Inr s \<Rightarrow> kp_resolutions s | Inl _ \<Rightarrow> []) = [True]"
  by code_simp

text \<open>
  An older Core registers the version it bundles and judges the newer, incompatible version that
  stays active by it.
\<close>

definition downgraded :: plugin_state where
  "downgraded = snd (bootstrap_bundled_plugins plugin_env0 [(manifest0 ''p.a'' ''1.0.0'' None [artifact0 ''p.a.t''], PDS_Enabled)]
     (snd (bootstrap_bundled_plugins (plugin_env0\<lparr>gv_app_version := ''0.3.0''\<rparr>)
        [(manifest0 ''p.a'' ''1.1.0'' (Some ''0.3.0'') [artifact0 ''p.a.t''], PDS_Enabled)] no_plugins)))"

lemma downgraded_stays_active:
  "map (\<lambda>i. (pi_active_version i, pi_effective_state i)) (pz_installations downgraded) = [(''1.1.0'', PES_Active)]
   \<and> map (\<lambda>m. cy_state (evaluate_plugin_compatibility plugin_env0 m)) (active_manifests downgraded) = [PCS_Incompatible]"
  by code_simp

text \<open>A renderer that lists a selector twice is in conflict with itself.\<close>

definition twice0 :: plugin_manifest where
  "twice0 = manifest0 ''p.a'' ''1.0.0'' None [PC_VisualRenderer ''p.a.r'' 2 \<lparr>vr_renderer_id = ''p.r'', vr_implementation_id = ''p.i'',
     vr_renderer_kind = VRK_InlineFragment, vr_accepted_source_kinds = [''k.s''], vr_render_scopes = [VRS_InlineFragment],
     vr_allowed_surfaces = [''s.t''], vr_fallback_strategy = VRF_Source, vr_source_matcher = Some (VSM_FencedLanguage [''c'', ''c'']),
     vr_visual_kinds = [], vr_actions = []\<rparr>]"

lemma selector_twice_conflicts:
  "is_ok (validate_plugin_manifest plugin_env0 twice0)
   \<and> map kt_conflict (case effective_plugin_snapshot plugin_env0 (snd (bootstrap_bundled_plugins plugin_env0 [(twice0, PDS_Enabled)] no_plugins))
        of Inr s \<Rightarrow> kp_resolutions s | Inl _ \<Rightarrow> []) = [True]"
  by code_simp

end
