(* ===== verification/Spec2Isabelle.thy ===== *)
theory Spec2Isabelle
  imports Link_Scenarios Frame_Limits Schedule_Scenarios Workspace_Scenarios Tool_Scenarios Request_Scenarios Plugin_Scenarios
begin

text \<open>
  Uprava: a verification development of its control plane and its Node daemon.

  Uprava runs AI agents on many machines. \<open>uprava-server\<close> (Core) keeps the durable state in
  SQLite, decides which command may run where, and serves the API. \<open>uprava-node\<close> (the Node
  daemon) executes commands in the workspaces of one machine and reports what happened as
  events. The two talk over one WebSocket per Node in the frames of \<open>uprava-protocol\<close>. The
  network may drop, repeat and reorder; both sides may crash. What must not happen: an event or
  the outcome of a command is lost, is applied twice, or reaches data of another Node; a command
  leaves the workspace it was sent to; a credential that is spent or revoked works again.

  HOW THE PARTS INTERACT

  A request (\<open>Sessions\<close>, \<open>Runtime_Commands\<close>, \<open>Task_Runs\<close>, \<open>Tool_Calls\<close>,
  \<open>Workspace_Requests\<close>, the scheduler) records a command and its dispatch in one transaction (\<open>Command_Journal\<close>) and queues a
  frame for the Node that \<open>Connection_Registry\<close> names. The Node (\<open>Node_Dispatch\<close>) executes it once,
  saves outcome and events in one image of its state (\<open>Node_State\<close>, \<open>Node_Outbox\<close>), and only then
  reports both. Core takes each frame (\<open>Node_Frames\<close>): the event is appended once and projected on
  the sessions, runtimes, turns, approvals and placements (\<open>Event_Ingest\<close>), acknowledged, and the
  Node forgets it; the result settles the command and moves whatever asked for it
  (\<open>Task_Projection\<close>, \<open>Deductions\<close>, \<open>Tool_Integrations\<close>). \<open>Event_Link\<close> is both sides and the network
  as one transition system.

  THEORIES AND SOURCES (paths below \<open>src/crates\<close>)

  \<^item> \<open>Uprava_Prelude\<close>: results and the question-mark operator, early-exit folds, SQL tables as
    lists, Rust's trimming, saturating sums, JSON values; collections \<open>result_simps\<close> and
    \<open>table_simps\<close>. \<open>Delivery\<close>: the interface of an idempotent sink.
  \<^item> \<open>Domain_Types\<close>, \<open>Control\<close>: the types and wire names of \<open>uprava-protocol/src\<close> (\<open>domain.rs\<close>,
    \<open>control.rs\<close>, \<open>reference.rs\<close>, \<open>projection.rs\<close>, \<open>workspace.rs\<close>, \<open>task.rs\<close>, \<open>api.rs\<close>).
    Identifiers are strings. An enumeration keeps the source's variants, prefixed.
  \<^item> \<open>Core_Support\<close>: \<open>uprava-server/src/runtime/support.rs\<close>. \<open>Core_Db\<close>: one record per table of
    \<open>persistence/migrations.rs\<close>; its keys, unique indexes and foreign keys are checked by the
    operations that insert or delete.
  \<^item> \<open>Connection_Registry\<close>: \<open>runtime/transport/live.rs\<close> and \<open>require_active_generation\<close>.
  \<^item> \<open>Command_Journal\<close>, \<open>Runtime_Commands\<close>, \<open>Event_Ingest\<close>, \<open>Ownership\<close>: \<open>application/coordination.rs\<close>
    with \<open>persistence/event.rs\<close>; \<open>Log_Frames\<close> and \<open>Node_Frames\<close>: the frame handlers of
    \<open>transport/node.rs\<close>; \<open>Frame_Limits\<close>: their size limits.
  \<^item> \<open>Sessions\<close>, \<open>Request_Tables\<close>, \<open>Session_Facts\<close>, \<open>Admission\<close>: \<open>application/session.rs\<close>,
    \<open>persistence/node.rs\<close>, the read model of \<open>application/projection.rs\<close>.
  \<^item> \<open>Scheduling\<close>, \<open>Jobs\<close>, \<open>Scheduled_Store\<close>, \<open>Scheduling_Facts\<close>, \<open>Schedule_Times\<close>:
    \<open>application/scheduling.rs\<close>.
  \<^item> \<open>Task_Projection\<close>, \<open>Task_Runs\<close>: \<open>application/task.rs\<close>. \<open>Deductions\<close>: the validation and the
    projection of a provider's answer.
  \<^item> \<open>Enrollment\<close>, \<open>Node_Access\<close>: enrollment, credentials, heartbeat and deletion of Nodes
    (\<open>transport/node.rs\<close>, \<open>persistence/node.rs\<close>). \<open>Mcp_Leases\<close>: the leases of \<open>tooling.rs\<close>.
  \<^item> \<open>Tool_Values\<close>, \<open>Tool_Registry\<close>, \<open>Tool_Calls\<close>, \<open>Tool_Integrations\<close>, \<open>Tool_Search\<close>, \<open>Tool_Facts\<close>,
    \<open>Tool_Gate\<close>, \<open>Tool_Tables\<close>: \<open>application/tooling.rs\<close>.
  \<^item> \<open>Workspace_Requests\<close>, \<open>Placement_Requests\<close>: \<open>application/workspace.rs\<close> and the deletion of a
    Node (\<open>transport/node.rs\<close>); \<open>Workspace_Request_Facts\<close>, \<open>Placement_Facts\<close>, \<open>Placement_Invariant\<close>: what
    they guarantee.
  \<^item> \<open>Plugin_Manifests\<close>, \<open>Plugin_Registry\<close>: \<open>application/plugins.rs\<close> and \<open>uprava-protocol/src/plugins.rs\<close>;
    \<open>Plugin_Facts\<close>, \<open>Plugin_Resolution\<close>: registration, and which contribution serves a target.
  \<^item> \<open>Node_State\<close>, \<open>Node_Outbox\<close>, \<open>Node_Dispatch\<close>: \<open>uprava-node/src/runtime/persistence/state.rs\<close>,
    \<open>application/execution.rs\<close>, \<open>application/dispatch.rs\<close>.
  \<^item> \<open>Paths\<close>, \<open>File_System\<close>: \<open>std::path\<close> and the system calls behind \<open>std::fs\<close>, over an explicit
    tree with symbolic links. \<open>Workspace_Files\<close>, \<open>Workspace_Processes\<close>, \<open>Git_Status\<close>,
    \<open>Placement_Snapshots\<close>: \<open>uprava-node/src/runtime/workspace.rs\<close> and \<open>support.rs\<close>;
    \<open>Workspace_Facts\<close>, \<open>Workspace_Roundtrip\<close>: what they guarantee.
  \<^item> \<open>Scenarios\<close>, \<open>Link_Scenarios\<close>, \<open>Gate_Scenarios\<close>, \<open>Schedule_Scenarios\<close>, \<open>Workspace_Scenarios\<close>,
    \<open>Tool_Scenarios\<close>, \<open>Request_Scenarios\<close>, \<open>Plugin_Scenarios\<close>: small concrete states; the witnesses evaluate the operations there, and a defect the model
    shows is exhibited there.

  HOW THE MODEL READS

  A handler is a function from a state to \<open>app_error + state\<close>, or to a pair of an answer and
  the state where the code commits in several transactions and a late error leaves the earlier
  ones in place (\<open>h_bind\<close>, \<open>h_txn\<close>, \<open>h_run\<close>, \<open>h_modify\<close>). A SQL statement is a filter, an update or an
  insertion on the list of rows, in the order of insertion, with \<open>order by\<close> as a stable sort. A
  clock, a fresh identifier and whatever a crate outside the repository computes is an argument.
  Times are integers in nanoseconds. Counters of SQLite columns are \<open>int\<close>; where the code converts
  or the width matters they are words (\<open>Node_State\<close>: 64 bits with the round trip through \<open>i64\<close>).
  Interleavings are step relations: \<open>link_step\<close>, \<open>gate_steps\<close>, \<open>schedule_steps\<close>, \<open>reg_step\<close>.

  CONTRACTS

  A locale states each interface: \<open>idempotent_sink\<close>, the properties a handler must keep
  (\<open>core_property\<close>, \<open>scheduler_property\<close>, \<open>tool_property\<close>, \<open>core_contract\<close>) and what the frame
  handlers ask of their collaborators. Each is interpreted on the model's own definitions, and
  the properties below are instances of what is proved inside.

  PARAMETERS

  \<open>wire\<close>: the text and byte lengths \<open>serde_json\<close> gives frames. \<open>executors\<close>: what a Node command does
  beyond the operations modelled here. \<open>hash_secret\<close>, \<open>mac\<close>, \<open>sha256\<close>: the hash crates.
  \<open>stable_id\<close>: UUID version 5. \<open>calendar\<close>: \<open>chrono_tz\<close>. \<open>process_env\<close>, \<open>git_outputs\<close>: the child processes
  a workspace command runs. \<open>tool_env\<close>: the JSON printer, the hash, what the Node answers
  (\<open>tv_wait\<close>), the read models behind the native tools (\<open>tv_native\<close>). \<open>workspace_env\<close>: the JSON of workspace
  requests, and what happens in Core until the wait for a Node ends (\<open>we_wait\<close>). \<open>plugin_env\<close>: versions
  (\<open>semver\<close>), hashes, the length of JSON and the floating point contrast of colors. \<open>cursor_env\<close>: the codec of a
  search cursor; the order of the scores of \<open>bm25_score\<close> (floating point) is its result type.
  A hypothesis on a parameter states documented behaviour (a codec decodes what it encoded, a
  calendar has a next minute, an executor keeps an invariant) and its witness gives an instance.

  BOUNDS AND FUEL

  Resolving a path follows at most 40 links, which is Linux's \<open>MAXSYMLINKS\<close>; \<open>walk\<close> returns ELOOP
  beyond. Every other loop recurses on its data or on the list it consumes. The size limits are
  those of the source and appear under its names.

  NOT MODELLED

  Transports (the HTTP router, WebSocket and SSE loops, the MCP endpoint), process and sandbox
  control (the Codex adapter, OpenSandbox, ToolHive, the terminal PTY), logging, configuration,
  the web application and tests: input and output around the operations above. Threads and locks
  appear as atomic steps in any order, as the code's per-key locks and SQLite's single writer make
  them; timing appears only as \<open>now\<close>.
\<close>





text \<open>
  C3. Terminal command results are final. Whatever frame arrives on whatever connection, a
  command that has a terminal state and a stored result keeps that state and that result; the
  only assumption is that the tool registry, a separate component, does not overwrite settled
  commands.
\<close>

theorem settled_command_immutable:
  assumes "tooling_ok (settled c s p) tools" and "settled c s p st"
  shows "settled c s p (snd (handle_node_control_frame w tools fe ctx frame st))"
  using settled_cmd.handler_keeps[OF assms(1)] assms(2) by (simp add: h_keeps_def)

theorem settled_command_immutable_witness:
  "settled ''c1'' CS_Completed (Some JNull) settled_core
   \<and> settled ''c1'' CS_Completed (Some JNull) (snd (handle_node_control_frame wire0 tooling0 fenv0 ctx_a
       (CF_CommandResult (own_meta fenv0) ''c1'' CS_Failed (JStr ''late'')) settled_core))"
proof -
  have s: "settled ''c1'' CS_Completed (Some JNull) settled_core" by (rule settled_core_settled)
  show ?thesis using settled_command_immutable[OF tooling0_ok s] s by blast
qed

text \<open>
  C4. No command is lost and none is dispatched after it ended: every control frame keeps the
  invariant that the dispatch outbox holds exactly the commands that have not reached a terminal
  state.
\<close>

theorem dispatch_outbox_invariant:
  assumes "tooling_ok journal_ok tools" and "outbox_inv (co_db st)"
  shows "outbox_inv (co_db (snd (handle_node_control_frame w tools fe ctx frame st)))"
  using outbox.handler_keeps[OF assms(1)] assms(2) by (simp add: h_keeps_def journal_ok_def)

theorem dispatch_outbox_invariant_witness:
  "outbox_inv (co_db (new_core two_nodes))
   \<and> outbox_inv (co_db (snd (handle_node_control_frame wire0 tooling0 fenv0 ctx_a
       (CF_CommandAck (own_meta fenv0) ''c1'' CS_Acknowledged) (new_core two_nodes))))"
proof -
  have i: "outbox_inv (co_db (new_core two_nodes))"
    by (simp add: outbox_inv_def waiting_def new_core_def two_nodes_def empty_db_def)
  show ?thesis using dispatch_outbox_invariant[OF tooling0_ok i] i by blast
qed





text \<open>
  C7. Connection fencing. Whatever the order in which connections open, say hello, close and are
  revoked, two connections of one Node are never active together, and a late close of a
  superseded connection does not unregister the connection that replaced it. Generations are
  64-bit; the bound on the connections ever opened keeps the counter from wrapping.
\<close>

theorem single_active_connection:
  assumes "reg_reachable s" and "length (rr_issued s) < 2 ^ 64 - 1"
    and "c \<in> set (rr_issued s)" and "d \<in> set (rr_issued s)" and "c \<noteq> d" and "is_active (rr_reg s) c"
  shows "(nc_node_id c = nc_node_id d \<longrightarrow> \<not> is_active (rr_reg s) d)
     \<and> is_active (snd (remove_if_active (rr_reg s) d)) c"
  using active_unique[OF reg_reachable_inv[OF assms(1,2)] assms(3,4,6)] assms(5)
    late_disconnect_active[OF reg_reachable_inv[OF assms(1,2)] assms(3-6)] by blast

theorem single_active_connection_witness:
  "\<exists>s c d. reg_reachable s \<and> nc_node_id c = nc_node_id d \<and> c \<in> set (rr_issued s) \<and> d \<in> set (rr_issued s)
     \<and> is_active (rr_reg s) c \<and> \<not> is_active (rr_reg s) d \<and> is_active (snd (remove_if_active (rr_reg s) d)) c"
proof -
  let ?d = "\<lparr>nc_node_id = ''a'', nc_generation = 1, nc_sender = 0\<rparr>"
  let ?c = "\<lparr>nc_node_id = ''a'', nc_generation = 2, nc_sender = 1\<rparr>"
  let ?start = "\<lparr>rr_reg = registry_new, rr_issued = []\<rparr>"
  let ?rega = "registry_new\<lparr>next_generation := 2\<rparr>"
  let ?regb = "registry_new\<lparr>next_generation := 3\<rparr>"
  let ?regc = "?regb\<lparr>entries := [(''a'', \<lparr>cn_generation = 2, cn_sender = 1\<rparr>)]\<rparr>"
  let ?s = "\<lparr>rr_reg = ?regc, rr_issued = [?c, ?d]\<rparr>"
  have 1: "reg_step ?start (?start\<lparr>rr_reg := ?rega, rr_issued := ?d # rr_issued ?start\<rparr>)"
    using reg_step.connect[of ?start "''a''" 0 ?d ?rega] by (simp add: registry_context_def registry_new_def)
  have 2: "reg_step \<lparr>rr_reg = ?rega, rr_issued = [?d]\<rparr>
      (\<lparr>rr_reg = ?rega, rr_issued = [?d]\<rparr>\<lparr>rr_reg := ?regb, rr_issued := ?c # rr_issued \<lparr>rr_reg = ?rega, rr_issued = [?d]\<rparr>\<rparr>)"
    using reg_step.connect[of "\<lparr>rr_reg = ?rega, rr_issued = [?d]\<rparr>" "''a''" 1 ?c ?regb]
    by (simp add: registry_context_def registry_new_def)
  have 3: "reg_step \<lparr>rr_reg = ?regb, rr_issued = [?c, ?d]\<rparr> (\<lparr>rr_reg = ?regb, rr_issued = [?c, ?d]\<rparr>\<lparr>rr_reg := ?regc\<rparr>)"
    by (rule reg_step.hello[where c = ?c and b = True]) (simp_all add: activate_def registry_new_def)
  have r: "reg_reachable ?s"
    using reg_reachable.step[OF reg_reachable.step[OF reg_reachable.step[OF reg_reachable.start 1]]] 2 3 by simp
  have a: "is_active (rr_reg ?s) ?c" by (simp add: is_active_def)
  show ?thesis using single_active_connection[OF r, of ?c ?d] r a
    by (intro exI[of _ ?s] exI[of _ ?c] exI[of _ ?d]) simp
qed

text \<open>
  C8. Isolation between Nodes. When an event passes the owner check for a Node and is accepted,
  every runtime and every session thread that belongs to another Node keeps its row.
\<close>

theorem node_isolation:
  assumes "ingest_inv db" and "validate_event_owner n e db = Inr u" and "accept_transaction m e db = Inr (c, db')"
  shows "(\<forall>r. runtime_owner db r \<noteq> Some n \<longrightarrow> find_runtime db' r = find_runtime db r)
     \<and> (\<forall>s. session_owner db s \<noteq> Some n \<longrightarrow> find_session db' s = find_session db s)"
  using accepted_isolation[OF assms] by blast

theorem node_isolation_witness:
  "\<exists>c db'. accept_transaction ''m'' foreign_turn_event two_nodes = Inr (c, db')
     \<and> find_runtime db' ''ra'' = find_runtime two_nodes ''ra'' \<and> find_session db' ''sa'' = find_session two_nodes ''sa''"
proof -
  have "is_ok (accept_transaction ''m'' foreign_turn_event two_nodes)" by code_simp
  then obtain c db' where a: "accept_transaction ''m'' foreign_turn_event two_nodes = Inr (c, db')"
    by (cases "accept_transaction ''m'' foreign_turn_event two_nodes") auto
  have v: "validate_event_owner ''b'' foreign_turn_event two_nodes = Inr ()" by code_simp
  have "runtime_owner two_nodes ''ra'' \<noteq> Some ''b''" "session_owner two_nodes ''sa'' \<noteq> Some ''b''" by code_simp+
  then show ?thesis using node_isolation[OF ingest_inv_two_nodes v a] a by blast
qed

text \<open>
  C9. The event log under the whole control protocol: whichever frame arrives, on whichever
  connection, with whatever payload, the log invariant holds afterwards, no logged event has
  disappeared, and every acknowledgement queued for a Node names events that are in the log.
\<close>

theorem frames_keep_event_log:
  assumes "tooling_ok (log_ok K) tools" and "log_ok K st"
  shows "log_ok K (snd (handle_node_control_frame w tools fe ctx frame st))"
  using h_keepsD[OF handler_keeps_log[OF assms(1)] assms(2)] .

theorem frames_keep_event_log_witness:
  "log_ok {} (active_core two_nodes)
   \<and> log_ok {} (snd (handle_node_control_frame wire0 tooling0 fenv0 ctx_a
        (CF_EventBatch (own_meta fenv0) [ready_event]) (active_core two_nodes)))"
  using frames_keep_event_log[OF tooling0_ok log_ok_active[OF ingest_inv_two_nodes]]
    log_ok_active[OF ingest_inv_two_nodes] by blast

text \<open>
  C10. Crash recovery of the Node. Loading the file that a save of a well-formed state wrote
  succeeds, whatever legacy file lies beside it, and yields the saved state: every map, the
  outbox in order, the identity, the cancelled deductions and the counters are those of the
  compacted state.
\<close>

theorem node_state_recovers:
  assumes "node_state_wf s" and "metrics_in_range s"
  shows "\<exists>d t. save_async s = Inr d \<and> load_async legacy fresh (Some d) = Inr t
     \<and> state_eq t (compact_for_persistence s)"
proof -
  obtain d where d: "save_async s = Inr d" using save_async_wf[OF assms(1)] by auto
  show ?thesis using save_load[OF assms, of legacy fresh] d save_async_Inr[OF d] by auto
qed

theorem node_state_recovers_witness:
  "node_state_wf node1 \<and> metrics_in_range node1 \<and> (\<exists>d t. save_async node1 = Inr d
     \<and> load_async False ''fresh'' (Some d) = Inr t \<and> state_eq t (compact_for_persistence node1))"
  using node_state_recovers[OF node_state_wf_node1] node_state_wf_node1 by blast

text \<open>
  C11. Replay makes progress. Suppose the active connection has room and Core accepts the
  batches the Node cuts its outbox into. Then Core queues exactly one acknowledgement per batch,
  in order, and applying them removes every event from the outbox: after the reconnect nothing
  is left to replay.
\<close>

theorem replay_empties_outbox:
  assumes "log_ok {} st"
    and "deliver_batches w fe ctx 0 (chunks EVENT_DELIVERY_BATCH_SIZE outbox) st = Inr st'"
    and "registry_sender (co_registry st) (nc_node_id ctx) = Some tx"
    and "hm_get (co_channels st) tx = Some ch" and "\<not> ch_closed ch"
    and "length (ch_queue ch) + length (chunks EVENT_DELIVERY_BATCH_SIZE outbox) \<le> CONTROL_QUEUE_CAPACITY"
  shows "\<exists>acks. hm_get (co_channels st') tx = Some (ch\<lparr>ch_queue := ch_queue ch @ acks\<rparr>)
     \<and> fold (\<lambda>f out. snd (remove_acked_events (ack_ids f) out)) acks outbox = []
     \<and> ev_event_id ` set outbox \<subseteq> {i. event_known (co_db st') i}"
proof -
  obtain acks where "hm_get (co_channels st') tx = Some (ch\<lparr>ch_queue := ch_queue ch @ acks\<rparr>)"
    and a: "map ack_ids acks = map (map ev_event_id) (chunks EVENT_DELIVERY_BATCH_SIZE outbox)"
    and l: "log_ok ({} \<union> ev_event_id ` set (concat (chunks EVENT_DELIVERY_BATCH_SIZE outbox))) st'"
    using deliver_batches_acks[OF assms] by blast
  then show ?thesis using acked_batches_empty[OF a] concat_chunks[of EVENT_DELIVERY_BATCH_SIZE outbox]
    by (simp add: EVENT_DELIVERY_BATCH_SIZE_def log_ok_def del: set_concat) blast
qed

theorem replay_empties_outbox_witness:
  "\<exists>st' acks. deliver_batches wire0 (\<lambda>_. fenv0) ctx_a 0 (chunks EVENT_DELIVERY_BATCH_SIZE [ready_event])
       (active_core two_nodes) = Inr st'
     \<and> fold (\<lambda>f out. snd (remove_acked_events (ack_ids f) out)) acks [ready_event] = []"
proof -
  let ?c = "chunks EVENT_DELIVERY_BATCH_SIZE [ready_event]"
  have c: "?c = [[ready_event]]" by (simp add: chunks.simps EVENT_DELIVERY_BATCH_SIZE_def)
  obtain st' where d: "deliver_batches wire0 (\<lambda>_. fenv0) ctx_a 0 ?c (active_core two_nodes) = Inr st'"
    unfolding c using ready_batch_accepted by auto
  have r: "registry_sender (co_registry (active_core two_nodes)) (nc_node_id ctx_a) = Some 0"
    and h: "hm_get (co_channels (active_core two_nodes)) 0 = Some \<lparr>ch_queue = [], ch_closed = False\<rparr>"
    by (simp_all add: active_core_def ctx_a_def registry_sender_def)
  show ?thesis using replay_empties_outbox[OF log_ok_active[OF ingest_inv_two_nodes] d r h] d c
    by (auto simp: CONTROL_QUEUE_CAPACITY_def)
qed

text \<open>
  C12. Whatever is delivered, the log invariant is kept: event ids are unique, sequence numbers
  are unique within a scope, every stored event is projected and enqueued for publication, and
  the cursors of each session are exactly 1, 2, \dots, n in log order.
\<close>

theorem event_log_invariant:
  assumes "ingest_inv db" and "try_fold ingest ds db = Inr db'"
  shows "ingest_inv db'"
  using sink.inv_batch[OF assms] .

theorem event_log_invariant_witness:
  "\<exists>db'. try_fold ingest [(''m'', runtime_ev ''e1'' 1 EK_RuntimeReady (EP_RuntimeReady rd0)),
      (''n'', runtime_ev ''e2'' 2 EK_RuntimeRunning (EP_RuntimeRunning rd0))] two_nodes = Inr db' \<and> ingest_inv db'"
proof -
  let ?ds = "[(''m'', runtime_ev ''e1'' 1 EK_RuntimeReady (EP_RuntimeReady rd0)),
      (''n'', runtime_ev ''e2'' 2 EK_RuntimeRunning (EP_RuntimeRunning rd0))]"
  have "is_ok (try_fold ingest ?ds two_nodes)" by code_simp
  then obtain db' where "try_fold ingest ?ds two_nodes = Inr db'" by (cases "try_fold ingest ?ds two_nodes") auto
  with event_log_invariant[OF ingest_inv_two_nodes this] show ?thesis by blast
qed





text \<open>
  C15. What a workspace command may run. Only a program of the allowed list runs, with at most
  32 arguments, in a canonical directory below a root the Node allows, for 1 to 120 seconds
  whatever timeout the request asks for, and both its outputs are captured within 64 KiB.
\<close>

theorem workspace_command_policy:
  assumes "fs_ok fs" and "run_workspace_command pe allowed command fs = Inr resp"
  shows "wr_command resp \<in> set ALLOWED_WORKSPACE_COMMANDS \<and> length (wr_args resp) \<le> MAX_WORKSPACE_COMMAND_ARGS
     \<and> (\<exists>root t. below_allowed fs allowed root \<and> canonical fs root \<and> 1 \<le> t \<and> t \<le> MAX_WORKSPACE_COMMAND_SECONDS
         \<and> wr_output resp = run_workspace_process pe root (wr_command resp) (wr_args resp) t
             MAX_WORKSPACE_COMMAND_OUTPUT_BYTES MAX_WORKSPACE_COMMAND_OUTPUT_BYTES)"
  using command_runs[OF assms] by blast

theorem workspace_command_policy_witness:
  "\<exists>resp. run_workspace_command process_env0 [''/w''] git_command0 fs0 = Inr resp \<and> wr_command resp \<in> set ALLOWED_WORKSPACE_COMMANDS"
proof -
  obtain resp where r: "run_workspace_command process_env0 [''/w''] git_command0 fs0 = Inr resp"
    using git0 by (cases "run_workspace_command process_env0 [''/w''] git_command0 fs0") (auto simp: is_ok_def)
  with workspace_command_policy[OF fs_ok_fs0 r] show ?thesis by blast
qed

text \<open>
  C16. No intervention in a workspace that is not writable. If the placement is not in state
  Validated, or its Node may not be commanded, then writing a file, running a command, accepting
  one and opening a terminal all answer with an error and leave Core as loading the placement
  left it: no command is recorded, none is sent.
\<close>

theorem intervention_gated:
  assumes "load_target env i st = (Inr p, st1)"
    and "\<not> (ps_state p = PS_Validated \<and> ensure_node_commandable (se_cfg (we_env env)) (ps_node_id p) (se_now (we_env env)) (co_db st1) = Inr ())"
  shows "(\<exists>e. workspace_file_write_with_correlation env dw i w st = (Inl e, st1)) \<and> (\<exists>e. workspace_command_run_with_correlation env dr i r st = (Inl e, st1))
    \<and> (\<exists>e. workspace_command_accept_route env i r st = (Inl e, st1)) \<and> (\<exists>e. workspace_terminal_open_with_correlation env dt i t st = (Inl e, st1))"
  using intervention_refused[OF assms] by blast

theorem intervention_gated_witness:
  "\<exists>e st1. workspace_file_write_with_correlation workspace_env0 (\<lambda>_. Some ()) ''pa'' write_request0 read_only_core = (Inl e, st1)"
proof -
  obtain p st where l: "load_target workspace_env0 ''pa'' read_only_core = (Inr p, st)" and s: "ps_state p = PS_ReadOnly"
    using read_only_loaded by blast
  have "\<not> (ps_state p = PS_Validated \<and> ensure_node_commandable (se_cfg (we_env workspace_env0)) (ps_node_id p)
      (se_now (we_env workspace_env0)) (co_db st) = Inr ())" using s by simp
  from intervention_gated[OF l this] show ?thesis by blast
qed

text \<open>
  C17. A deleted workspace stays deleted. After a deletion that succeeds, the placement is gone,
  with every session, runtime, turn, message, command and event that belonged to it; every other
  placement and session is still there; and whatever workspaces the Node reports in later
  heartbeats, none of them is a placement for the deleted binding.
\<close>

theorem deleted_workspace_stays_gone:
  assumes "bindings_unique (gt_db g)" and "find_placement (gt_db g) i = Some p" and "delete_placement i g = Inr g'"
  shows "db_placements (gt_db g') = filter (\<lambda>q. pl_project_placement_id q \<noteq> i) (db_placements (gt_db g))
    \<and> db_sessions (gt_db g') = filter (\<lambda>r. \<not> session_of_placement i (gt_db g) (st_session_thread_id r)) (db_sessions (gt_db g))
    \<and> db_runtimes (gt_db g') = filter (\<lambda>r. \<not> session_of_placement i (gt_db g) (rt_session_thread_id r)) (db_runtimes (gt_db g))
    \<and> db_turns (gt_db g') = filter (\<lambda>r. \<not> session_of_placement i (gt_db g) (turn_row.tn_session_thread_id r)) (db_turns (gt_db g))
    \<and> db_messages (gt_db g') = filter (\<lambda>r. \<not> session_of_placement i (gt_db g) (ms_session_thread_id r)) (db_messages (gt_db g))
    \<and> db_commands (gt_db g') = filter (\<lambda>r. \<not> command_of_placement i (gt_db g) r) (db_commands (gt_db g))
    \<and> db_events (gt_db g') = filter (\<lambda>e. \<not> event_of_placement i (gt_db g) e) (db_events (gt_db g))
    \<and> binding_gone (pl_node_id p) (pl_workspace_path p) (snd (upsert_heartbeat_workspaces sid (pl_node_id p) ws g'))"
proof -
  obtain db where "delete_placement_rows i (gt_db g) = Inr db" "gt_db g' = db" using delete_placement_parts[OF assms(3)] by blast
  then show ?thesis
    using delete_placement_rows_result[of i "gt_db g" db] deleted_binding_gone[OF assms(1-3)]
      workspace_keeps_gone[of "pl_node_id p" "pl_workspace_path p" sid ws]
    by (simp add: h_keeps_def delete_where_def)
qed

theorem deleted_workspace_stays_gone_witness:
  "case delete_placement ''pa'' gate0 of Inl _ \<Rightarrow> False
   | Inr g \<Rightarrow> binding_gone ''a'' ''/w'' (snd (upsert_heartbeat_workspaces (\<lambda>_ _. ''1'') ''a'' [snapshot0] g))"
proof -
  obtain g' where d: "delete_placement ''pa'' gate0 = Inr g'" using deleted0 by (cases "delete_placement ''pa'' gate0") (auto simp: is_ok_def)
  have "find_placement (gt_db gate0) ''pa'' = Some (placement0 ''pa'' ''a'')"
    by (simp add: gate0_def new_core_def two_nodes_def select_by_def placement0_def)
  from deleted_workspace_stays_gone[OF gate0_bindings(2) this d, of "\<lambda>_ _. ''1''" "[snapshot0]"] d show ?thesis
    by (simp add: placement0_def del: upsert_heartbeat_workspaces.simps)
qed





text \<open>
  C20. The registry implements what the control channel asks of it. Reconciling dependencies on
  a hello and projecting tooling results, as the registry of this model does it, keep the
  journal invariant, keep the event log with every event already in it, and never overwrite a
  settled command; so the theorems about frames hold for the real registry and not only for an
  assumed one.
\<close>

theorem registry_keeps_contracts:
  "tooling_ok journal_ok (core_tooling env fresh ts) \<and> tooling_ok (log_ok K) (core_tooling env fresh ts)
   \<and> tooling_ok (settled c s p) (core_tooling env fresh ts)"
  using journal_tools.core_tooling_ok log_tools.core_tooling_ok settled_tools.core_tooling_ok by blast



text \<open>
  C22. What a client stores is what is served. If an update of the preferences of a target is
  accepted, it named the revision the client had seen; afterwards the resolution of that target
  has the next revision, the same candidates, those the client ordered in front and in that
  order, and disabled exactly those the client disabled; and repeating the request, or any other
  made for the old revision, is refused as a conflict, so no update is lost.
\<close>

theorem preferences_take_effect:
  assumes "update_contribution_target_preferences env i q ps = Inr ps'" and "plugins_ok env ps" and "uq_expected_revision q2 = uq_expected_revision q"
  shows "\<exists>r r'. resolution env ps i = Some r \<and> resolution env ps' i = Some r'
    \<and> kt_revision r = uq_expected_revision q \<and> kt_revision r' = uq_expected_revision q + 1
    \<and> image_mset ref_of (mset (kt_contributions r')) = image_mset ref_of (mset (kt_contributions r))
    \<and> map ref_of (take (length (uq_ordered q)) (kt_contributions r')) = uq_ordered q
    \<and> (\<forall>c\<in>set (kt_contributions r'). ke_effective_state c = ECS_Disabled \<longleftrightarrow> contribution_ref_key (ref_of c) \<in> contribution_ref_key ` set (uq_disabled q))
    \<and> update_contribution_target_preferences env i q2 ps' = Inl preference_conflict"
proof -
  obtain r r' where u: "resolution env ps i = Some r" "resolution env ps' i = Some r'" "kt_revision r = uq_expected_revision q"
    "kt_revision r' = uq_expected_revision q + 1"
    "image_mset ref_of (mset (kt_contributions r')) = image_mset ref_of (mset (kt_contributions r))"
    "map ref_of (take (length (uq_ordered q)) (kt_contributions r')) = uq_ordered q"
    "\<forall>c\<in>set (kt_contributions r'). ke_effective_state c = ECS_Disabled \<longleftrightarrow> contribution_ref_key (ref_of c) \<in> contribution_ref_key ` set (uq_disabled q)"
    using updated_resolution[OF assms(1)] by metis
  have "\<forall>p\<in>set (pz_preferences ps'). 0 \<le> py_revision p" using store_ok[OF assms(2,1)] by (simp add: plugins_ok_def)
  from stale_update_refused[OF u(2) _ this, of q2] have "update_contribution_target_preferences env i q2 ps' = Inl preference_conflict"
    using u(4) assms(3) word_succ_neq by simp
  then show ?thesis using u by blast
qed

theorem preferences_take_effect_witness:
  "\<exists>ps' r'. update_contribution_target_preferences plugin_env0 ''t.x'' first_b plugins0 = Inr ps' \<and> resolution plugin_env0 ps' ''t.x'' = Some r'
    \<and> map ref_of (take 1 (kt_contributions r')) = uq_ordered first_b"
proof -
  obtain ps' where u: "update_contribution_target_preferences plugin_env0 ''t.x'' first_b plugins0 = Inr ps'"
    using first_b_accepted by (cases "update_contribution_target_preferences plugin_env0 ''t.x'' first_b plugins0") auto
  from preferences_take_effect[OF u plugins0_ok refl] have "\<exists>r'. resolution plugin_env0 ps' ''t.x'' = Some r'
    \<and> map ref_of (take (length (uq_ordered first_b)) (kt_contributions r')) = uq_ordered first_b" by blast
  moreover have "length (uq_ordered first_b) = 1" by (simp add: first_b_def)
  ultimately show ?thesis using u by simp
qed





text \<open>
  C25. Write, then read. After a write command that succeeded, reading the same path of the same
  workspace returns exactly the content written, whatever else the tree holds.
\<close>

theorem write_read_roundtrip:
  assumes "fs_ok fs" and "write_workspace_file allowed now fault command fs = (Inr resp, fs')"
    and "ce_payload command = CP_WriteWorkspaceFile w request"
  shows "\<exists>read. build_workspace_file_response allowed now' (command\<lparr>ce_payload := CP_ReadWorkspaceFile w (wfw_path request)\<rparr>) fs'
       = Inr read \<and> wf_content read = Some (as_bytes (wfw_content request)) \<and> wf_path read = ww_path resp"
  using write_then_read[OF assms] .

theorem write_read_roundtrip_witness:
  "\<exists>fs' read. fs' = snd (write_workspace_file [''/w''] 9 No_Fault write_command0 fs0)
     \<and> build_workspace_file_response [''/w''] 10 (write_command0\<lparr>ce_payload := CP_ReadWorkspaceFile ''/w'' ''n.md''\<rparr>) fs' = Inr read
     \<and> wf_content read = Some (as_bytes ''new'')"
proof -
  obtain resp fs' where w: "write_workspace_file [''/w''] 9 No_Fault write_command0 fs0 = (Inr resp, fs')"
    using write0 by (cases "write_workspace_file [''/w''] 9 No_Fault write_command0 fs0"; cases "fst (write_workspace_file [''/w''] 9 No_Fault write_command0 fs0)") (auto simp: is_ok_def)
  have p: "ce_payload write_command0 = CP_WriteWorkspaceFile ''/w'' write_request0"
    by (simp add: write_command0_def workspace_command0_def)
  from write_read_roundtrip[OF fs_ok_fs0 w p, of 10] w show ?thesis by (auto simp: write_request0_def)
qed

text \<open>
  C26. Queued runs are well formed. When a create request succeeds, the run is stored and well
  formed: an immutable base revision, its own branch, times in range with every check within
  them, evidence paths without escapes, listed resources; and the command that runs it is stored
  beside it, addressed to the Node, placement and run of the row.
\<close>

theorem queued_task_well_formed:
  assumes "create_task_run env ids t request st = (Inr d, st')"
  shows "\<exists>r row. find_task (co_db st') t = Some r \<and> task_row_wf r
     \<and> find_command (co_db st') (tr_command_id r) = Some row \<and> ce_kind (cm_command row) = CK_RunTask
     \<and> ce_target (cm_command row) = CT_TaskRun (tr_node_id r) (tr_project_placement_id r) t"
  using create_task_run_queues[OF assms] .

theorem queued_task_well_formed_witness:
  "\<exists>r. find_task (co_db (snd (create_task_run session_env0 ids0 ''t1'' task_request0 task_node0))) ''t1'' = Some r \<and> task_row_wf r"
proof -
  obtain d st' where c: "create_task_run session_env0 ids0 ''t1'' task_request0 task_node0 = (Inr d, st')"
    using create_task0 by (cases "create_task_run session_env0 ids0 ''t1'' task_request0 task_node0"; cases "fst (create_task_run session_env0 ids0 ''t1'' task_request0 task_node0)") (auto simp: is_ok_def)
  from queued_task_well_formed[OF c] c show ?thesis by auto
qed

text \<open>
  C27. Dispatch. If the Node has an active connection whose queue has room for its pending
  commands, dispatch appends exactly one frame per pending command, ordered by time and id, to
  what is queued already; exactly those commands become Dispatched and every other command keeps
  its state.
\<close>

theorem dispatch_delivers_in_order:
  assumes "registry_sender (co_registry st) n = Some tx" and "hm_get (co_channels st) tx = Some ch"
    and "\<not> ch_closed ch" and "length (ch_queue ch) + length (pending_rows n (co_db st)) \<le> CONTROL_QUEUE_CAPACITY"
  shows "hm_get (co_channels (dispatch_pending_commands fid now n st)) tx =
      Some (ch\<lparr>ch_queue := ch_queue ch @ map (dispatch_frame fid now) (pending_rows n (co_db st))\<rparr>)
    \<and> (\<forall>k. map_option cm_state (find_command (co_db (dispatch_pending_commands fid now n st)) k) =
        (if k \<in> dp_command_id ` set (pending_rows n (co_db st))
         then map_option (\<lambda>_. CS_Dispatched) (find_command (co_db st) k)
         else map_option cm_state (find_command (co_db st) k)))"
  using dispatch_fold_room[OF assms(2-4), of fid now] assms(1) by (simp add: dispatch_pending_commands_def)

theorem dispatch_delivers_in_order_witness:
  "let st = active_core (record_core two_nodes) in
     pending_rows ''a'' (co_db st) \<noteq> []
     \<and> map_option cm_state (find_command (co_db (dispatch_pending_commands id 5 ''a'' st)) ''c1'') = Some CS_Dispatched"
proof -
  let ?st = "active_core (record_core two_nodes)"
  have p: "map dp_command_id (pending_rows ''a'' (co_db ?st)) = [''c1'']" by code_simp
  have r: "registry_sender (co_registry ?st) ''a'' = Some 0"
    and h: "hm_get (co_channels ?st) 0 = Some \<lparr>ch_queue = [], ch_closed = False\<rparr>"
    by (simp_all add: active_core_def registry_sender_def)
  have "length (pending_rows ''a'' (co_db ?st)) = 1" using arg_cong[OF p, of length] by simp
  then have "length (ch_queue \<lparr>ch_queue = [], ch_closed = False\<rparr>) + length (pending_rows ''a'' (co_db ?st))
      \<le> CONTROL_QUEUE_CAPACITY" by (simp add: CONTROL_QUEUE_CAPACITY_def)
  from dispatch_delivers_in_order[OF r h _ this, of id 5] have d:
    "hm_get (co_channels (dispatch_pending_commands id 5 ''a'' ?st)) 0 = Some (\<lparr>ch_queue = [], ch_closed = False\<rparr>
       \<lparr>ch_queue := [] @ map (dispatch_frame id 5) (pending_rows ''a'' (co_db ?st))\<rparr>)
     \<and> (\<forall>k. map_option cm_state (find_command (co_db (dispatch_pending_commands id 5 ''a'' ?st)) k) =
        (if k \<in> dp_command_id ` set (pending_rows ''a'' (co_db ?st))
         then map_option (\<lambda>_. CS_Dispatched) (find_command (co_db ?st) k)
         else map_option cm_state (find_command (co_db ?st) k)))" by simp
  have k: "''c1'' \<in> dp_command_id ` set (pending_rows ''a'' (co_db ?st))"
    using arg_cong[OF p, of set] by (simp add: set_eq_iff)
  have "\<not> Option.is_none (find_command (co_db ?st) ''c1'')" by code_simp
  then obtain row where row: "find_command (co_db ?st) ''c1'' = Some row" by (auto simp: Option.is_none_def)
  have "map_option cm_state (find_command (co_db (dispatch_pending_commands id 5 ''a'' ?st)) ''c1'') = Some CS_Dispatched"
    using conjunct2[OF d, THEN spec, of "''c1''"] k by (simp only: if_True row option.map)
  moreover have "pending_rows ''a'' (co_db ?st) \<noteq> []" using p by (metis list.discI list.simps(8))
  ultimately show ?thesis unfolding Let_def by blast
qed

text \<open>
  C28. The outbox loses events only to acknowledgements. Every mutation but an acknowledgement
  appends to the outbox; an acknowledgement removes exactly the events it names and keeps the
  others in order.
\<close>

theorem outbox_shrinks_only_by_ack:
  "((\<nexists>ids. m = PersistEventAck ids) \<longrightarrow> (\<exists>new. nl_event_outbox (mutate_state m s) = nl_event_outbox s @ new))
   \<and> nl_event_outbox (mutate_state (PersistEventAck ids) s)
     = filter (\<lambda>e. ev_event_id e \<notin> set ids) (nl_event_outbox s)"
  using mutation_appends[of m s] by (auto simp: mutate_state_def remove_acked_filter)

theorem outbox_shrinks_only_by_ack_witness:
  "(\<exists>new. nl_event_outbox (mutate_state (MergeCommandState node0 node1) node1) = nl_event_outbox node1 @ new)
   \<and> nl_event_outbox (mutate_state (PersistEventAck [''e1'']) node1)
     = filter (\<lambda>e. ev_event_id e \<notin> {''e1''}) (nl_event_outbox node1)"
  using outbox_shrinks_only_by_ack[of "MergeCommandState node0 node1" node1 "[''e1'']"] by simp







text \<open>
  C32. One credential per enrollment. A claim reads the enrollment, decides, and commits later;
  other requests, further claims included, may run in between. After a commit has returned a
  credential, and after any sequence of operations, no other commit for the same enrollment
  returns one, whatever row it read before. Enrollment ids are not reused; the tool registry is
  assumed to leave the enrollments alone.
\<close>

theorem enrollment_claimed_once:
  assumes "enrollments_keyed g" and "claim_commit h n cred now row g = (Inr r, g1)" and "cr_credential r = Some c"
    and "gate_steps cfg h' sid rp {el_enrollment_id row} g1 g2"
    and "registry_keeps (claimed (el_enrollment_id row)) rp"
    and "el_enrollment_id row' = el_enrollment_id row" and "claim_commit h' n' cred' now' row' g2 = (Inr r', g3)"
  shows "cr_credential r' = None"
proof -
  have "claimed (el_enrollment_id row) g2"
    using claimed.steps_keep[OF assms(4,5)] credential_claims(2)[OF assms(2,3)] assms(1)
    by (simp add: enrollments_keyed_def)
  then show ?thesis using credential_claims(1)[OF assms(7)] assms(6) by (cases "cr_credential r'") auto
qed

theorem enrollment_claimed_once_witness:
  "\<exists>g1 r' g2. claim_commit id ''n1'' ''c1'' 5 enrollment0 gate0 = (Inr \<lparr>cr_accepted = True, cr_pending = False,
       cr_node_id = Some ''n1'', cr_credential = Some ''c1'', cr_message = ''Enrollment claimed''\<rparr>, g1)
     \<and> claim_commit id ''n2'' ''c2'' 6 enrollment0 g1 = (Inr r', g2) \<and> cr_credential r' = None"
proof -
  let ?r = "\<lparr>cr_accepted = True, cr_pending = False, cr_node_id = Some ''n1'', cr_credential = Some ''c1'',
      cr_message = ''Enrollment claimed''\<rparr>"
  let ?g = "snd (claim_commit id ''n1'' ''c1'' 5 enrollment0 gate0)"
  have c: "claim_commit id ''n1'' ''c1'' 5 enrollment0 gate0 = (Inr ?r, ?g)"
    by (simp add: claim_commit_def Let_def gate0_def enrollment0_def node_row0_def new_core_def two_nodes_def
        claimable_def open_status_def rows_affected_def)
  have "is_ok (fst (claim_commit id ''n2'' ''c2'' 6 enrollment0 ?g))" by code_simp
  then obtain r' g2 where d: "claim_commit id ''n2'' ''c2'' 6 enrollment0 ?g = (Inr r', g2)"
    by (cases "claim_commit id ''n2'' ''c2'' 6 enrollment0 ?g") (auto simp: is_ok_def split: sum.splits)
  show ?thesis
    using enrollment_claimed_once[OF enrollments_keyed_gate0 c _ gate_steps.stay quiet_registry_keeps refl d] c d by fastforce
qed











text \<open>
  C38. Redaction hides every listed value. After redaction, each JSON pointer of the list leads
  nowhere or to the redaction mark, also when pointers overlap or one leads into a value another
  has replaced.
\<close>

theorem redaction_hides:
  assumes "p \<in> set pointers" and "pointer_tokens p = Some ts"
  shows "value_at ts (redact_json v pointers redact_all) \<in> {None, Some REDACTED}"
  using redact_json_hides[OF assms] .

theorem redaction_hides_witness:
  "value_at [''a''] (redact_json (JObj [(''a'', JStr ''secret'')]) [''/a/b'', ''/a''] False) \<in> {None, Some REDACTED}"
proof -
  have "pointer_tokens ''/a'' = Some [''a'']" by code_simp
  from redaction_hides[OF _ this, of "[''/a/b'', ''/a'']"] show ?thesis by (simp only: list.set insert_iff simp_thms)
qed

text \<open>
  C39. Following the cursors visits each match once. For every limit within the bounds, a
  visible actor that asks for page after page with the cursor of the page before receives
  exactly the ranking of the query, in order, after at most as many requests as the limit
  requires; the only assumption on the codec of cursors is that it decodes what it encoded.
\<close>

theorem search_pages_complete:
  assumes "cursor_codec ck" and "tool_is_visible_to_actor (tsc_actor_ref (sq_scope q))" and "ranked_tools bm25 env q ts = Inr ranked"
    and "sq_limit q = Some limit" and "1 \<le> limit" and "limit \<le> TOOL_SEARCH_MAX_LIMIT" and "sq_cursor q = None"
    and "0 < n" and "length ranked \<le> n * limit"
  shows "collect_pages bm25 env ck ts n q = Inr (map search_result ranked)"
  using collect_from[OF assms(1-6), of 0 n] assms(7-9) by (simp add: parse_search_cursor_def)

theorem search_pages_complete_witness:
  "\<exists>items. collect_pages (\<lambda>_. 1 :: nat) tool_env0 cursor_env0 search_core0 2 search0 = Inr items \<and> length items = 3"
proof -
  obtain ranked where r: "ranked_tools (\<lambda>_. 1 :: nat) tool_env0 search0 search_core0 = Inr ranked" "length ranked = 3"
    using ranked0 by blast
  from search_pages_complete[OF cursor_codec0 search_shape0(1) r(1) search_shape0(3) _ _ search_shape0(2), of 2] r(2)
  show ?thesis by (simp add: TOOL_SEARCH_MAX_LIMIT_def)
qed

text \<open>
  C40. Cancellation is decisive. If a cancel request answers, the command it names has ended in
  the database and the answer shows that row; a result the Node reports later is accepted only
  if it says the same, and is refused otherwise.
\<close>

theorem cancelled_command_final:
  assumes "workspace_command_cancel_route env i c st = (Inr item, st')"
  shows "settled c (wh_state item) (wh_result_payload item) st'
    \<and> (validate_command_result w n c s p (co_db st') = Inr () \<longrightarrow> s = wh_state item \<and> wh_result_payload item = Some p)"
proof -
  obtain r where r: "find_command (co_db st') c = Some r" "is_terminal_command_state (cm_state r)" "item = history_item r"
    using cancel_result[OF assms] by blast
  then show ?thesis using ended_refuses_results[OF r(1,2), of w n s p] by (auto simp: settled_def history_item_def)
qed

theorem cancelled_command_final_witness:
  "\<exists>s p. settled ''c1'' s p (snd (workspace_command_cancel_route workspace_env0 ''pa'' ''c1'' request_core))"
proof -
  obtain item st' where c: "workspace_command_cancel_route workspace_env0 ''pa'' ''c1'' request_core = (Inr item, st')"
    using cancelled0 by (cases "workspace_command_cancel_route workspace_env0 ''pa'' ''c1'' request_core";
      cases "fst (workspace_command_cancel_route workspace_env0 ''pa'' ''c1'' request_core)") (auto simp: is_ok_def)
  have "settled ''c1'' (wh_state item) (wh_result_payload item) st'" using cancelled_command_final[OF c] by blast
  then show ?thesis using c by auto
qed

section \<open>Further results\<close>

text \<open>
  No request reopens a command. Whatever workspace request runs (tree, file, write, command,
  diff, terminal, accepted command, resource refresh), and whatever command is queried, expired
  or cancelled meanwhile, a command that has ended keeps its state and its result; what else
  happens in Core while a request waits is assumed to keep them too, which the frame handlers
  do.
\<close>

theorem ended_command_final:
  assumes "settled c s p st" and "\<And>k st. settled c s p st \<Longrightarrow> settled c s p (snd (we_wait env k st))"
  shows "settled c s p (snd (workspace_tree_with_correlation env de i path st)) \<and> settled c s p (snd (workspace_file_with_correlation env df i path st))
    \<and> settled c s p (snd (workspace_file_write_with_correlation env dw i w st)) \<and> settled c s p (snd (workspace_command_run_with_correlation env dr i r st))
    \<and> settled c s p (snd (workspace_diff_with_correlation env dd i d st)) \<and> settled c s p (snd (workspace_terminal_open_with_correlation env dt i t st))
    \<and> settled c s p (snd (workspace_command_accept_route env i r st)) \<and> settled c s p (snd (refresh_resource_snapshot_with_correlation env i st))
    \<and> settled c s p (snd (workspace_command_resource_route env i k st)) \<and> settled c s p (snd (workspace_command_cancel_route env i k st))"
  by (intro conjI h_keepsD[where P = "settled c s p"] settled_workspace.keeps_workspace_requests settled_workspace.keeps_accepted
      settled_workspace.keeps_resources assms)

theorem ended_command_final_witness:
  "settled ''c1'' CS_Completed (Some JNull) (snd (workspace_command_cancel_route workspace_env0 ''pa'' ''c1'' settled_core))"
  using ended_command_final[where env = workspace_env0, OF settled_core_settled workspace_env0_waits[where P = "settled ''c1'' CS_Completed (Some JNull)"]] by blast

text \<open>
  Projection of runtime events. When an event of a runtime kind is accepted and no sequence
  number is missing, its runtime has the state the kind names, every other runtime keeps its
  state, and the sessions table changes as the session rule for the event says (a detached
  session is not attached again by a Node event).
\<close>

theorem runtime_event_projected:
  assumes "accept_new_event m e db = Inr db'" and "stream_gap e db = None"
    and "runtime_target (ev_kind e) = Some (rst, sst)"
  shows "map_option rt_state (find_runtime db' k) =
     (if ev_runtime_session_id e = Some k then map_option (\<lambda>_. rst) (find_runtime db k)
      else map_option rt_state (find_runtime db k))
    \<and> db_sessions db' = db_sessions (update_session_state_from_event e sst db)"
  using accept_new_projects[OF assms] by blast

theorem runtime_event_projected_witness:
  "\<exists>db'. accept_new_event ''m'' (runtime_ev ''e1'' 1 EK_RuntimeRunning (EP_RuntimeRunning rd0)) two_nodes = Inr db'
     \<and> map_option rt_state (find_runtime db' ''ra'') = Some RS_Running"
proof -
  let ?e = "runtime_ev ''e1'' 1 EK_RuntimeRunning (EP_RuntimeRunning rd0)"
  have "is_ok (accept_new_event ''m'' ?e two_nodes)" by code_simp
  then obtain db' where a: "accept_new_event ''m'' ?e two_nodes = Inr db'"
    by (cases "accept_new_event ''m'' ?e two_nodes") auto
  have g: "stream_gap ?e two_nodes = None" by code_simp
  have t: "runtime_target (ev_kind ?e) = Some (RS_Running, SS_Active)" by code_simp
  have "map_option (\<lambda>_. RS_Running) (find_runtime two_nodes ''ra'') = Some RS_Running"
    "ev_runtime_session_id ?e = Some ''ra''" by code_simp+
  then have "map_option rt_state (find_runtime db' ''ra'') = Some RS_Running"
    using conjunct1[OF runtime_event_projected[OF a g t, of "''ra''"]] by (simp only: refl if_True)
  then show ?thesis using a by blast
qed

text \<open>
  Gaps are recorded, not hidden. When an event arrives whose sequence number is beyond the
  expected one, the event is stored, the runtime is marked stale with the reason naming the
  expected and received numbers, and the session is degraded.
\<close>

theorem stream_gap_recorded:
  assumes "accept_new_event m e db = Inr db'" and "stream_gap e db = Some n"
    and "ev_runtime_session_id e = Some rid" and "find_runtime db rid \<noteq> None"
    and "ev_session_thread_id e = Some sid" and "find_session db sid \<noteq> None"
  shows "(\<exists>r. find_runtime db' rid = Some r \<and> rt_state r = RS_Stale
           \<and> rt_degraded_reason r = Some (gap_reason n (ev_seq e)))
    \<and> load_session_state sid db' = Some SS_Degraded"
  using accept_new_gap[OF assms] by blast

theorem stream_gap_recorded_witness:
  "\<exists>db'. accept_new_event ''m'' (runtime_ev ''e1'' 5 EK_RuntimeReady (EP_RuntimeReady rd0)) two_nodes = Inr db'
     \<and> load_session_state ''sa'' db' = Some SS_Degraded"
proof -
  let ?e = "runtime_ev ''e1'' 5 EK_RuntimeReady (EP_RuntimeReady rd0)"
  have "is_ok (accept_new_event ''m'' ?e two_nodes)" by code_simp
  then obtain db' where a: "accept_new_event ''m'' ?e two_nodes = Inr db'"
    by (cases "accept_new_event ''m'' ?e two_nodes") auto
  have g: "stream_gap ?e two_nodes = Some 1" by code_simp
  have "find_runtime two_nodes ''ra'' \<noteq> None" "find_session two_nodes ''sa'' \<noteq> None"
    "ev_runtime_session_id ?e = Some ''ra''" "ev_session_thread_id ?e = Some ''sa''" by code_simp+
  then show ?thesis using stream_gap_recorded[OF a g] a by blast
qed

text \<open>
  Task runs end once. However many task events are projected, in whatever order, the row of a
  task run that has reached a terminal state does not change, and the first terminal state it
  reaches is the one it keeps.
\<close>

theorem terminal_task_is_final:
  "(is_terminal (tr_state r) \<longrightarrow> fold apply_task_event es r = r)
   \<and> (is_terminal (tr_state (apply_task_event e r)) \<longrightarrow> fold apply_task_event (e # es) r = apply_task_event e r)"
  using task_events.final_forever task_events.first_final_wins by blast

theorem terminal_task_is_final_witness:
  "is_terminal (tr_state (apply_task_event (TS_Failed, TC_Pending, 5) (task0 ''t'' ''pa'' ''a'')))
   \<and> fold apply_task_event [(TS_Failed, TC_Pending, 5), (TS_Succeeded, TC_Completed, 6)] (task0 ''t'' ''pa'' ''a'')
     = apply_task_event (TS_Failed, TC_Pending, 5) (task0 ''t'' ''pa'' ''a'')"
proof -
  have t: "is_terminal (tr_state (apply_task_event (TS_Failed, TC_Pending, 5) (task0 ''t'' ''pa'' ''a'')))"
    by (simp add: apply_task_event_def task_event_guard_def task0_def is_terminal_def)
  then show ?thesis
    using terminal_task_is_final[of _ _ "(TS_Failed, TC_Pending, 5)"] by blast
qed

text \<open>
  Grounding of deductions. The validation accepts an output, with result r, exactly when it is
  for the requested deduction, evidence snapshot and schema, has no provider error, has a title
  and conclusion, and its 1 to 100 steps have distinct non-blank ids, non-blank summaries of at
  most 2000 characters, cite only references the input package allows, and, when they claim to
  be observed, cite at least one.
\<close>

theorem deduction_grounded:
  "validate_deduction_output output pkg = Inr r \<longleftrightarrow>
     do_deduction_id output = dip_deduction_id pkg
     \<and> do_evidence_snapshot_hash output = dip_evidence_snapshot_hash pkg
     \<and> do_schema_version output = DEDUCTION_SCHEMA_VERSION
     \<and> do_error_code output = None \<and> do_result output = Some r
     \<and> trim (dr_title r) \<noteq> [] \<and> trim (dr_conclusion r) \<noteq> []
     \<and> dr_steps r \<noteq> [] \<and> length (dr_steps r) \<le> 100
     \<and> distinct (map ds_step_id (dr_steps r))
     \<and> (\<forall>s\<in>set (dr_steps r). trim (ds_step_id s) \<noteq> [] \<and> trim (ds_summary s) \<noteq> []
          \<and> length (ds_summary s) \<le> 2000 \<and> set (ds_support_refs s) \<subseteq> set (dip_allowed_refs pkg)
          \<and> (ds_classification s = DC_Observed \<longrightarrow> ds_support_refs s \<noteq> []))"
  unfolding validate_deduction_output_def
  by (auto simp: result_simps check_steps_iff split: option.splits if_splits)

theorem deduction_grounded_witness:
  "validate_deduction_output output0 package0 = Inr deduction0"
proof -
  have "trim ''t'' \<noteq> []" "trim ''c'' \<noteq> []" "trim ''s1'' \<noteq> []" "trim ''sum'' \<noteq> []" by code_simp+
  then show ?thesis
    unfolding deduction_grounded by (simp add: output0_def package0_def deduction0_def DEDUCTION_SCHEMA_VERSION_def)
qed

text \<open>
  Pending approvals. The list folded from the event log has no duplicates and contains exactly
  the approvals whose last request or resolution in the log is a request.
\<close>

theorem pending_approvals_spec:
  "distinct (pending_approvals es) \<and> (a \<in> set (pending_approvals es) \<longleftrightarrow> last_mark a es)"
  using pending_approvals_iff distinct_pending_approvals by blast

text \<open>
  Cancellation. The signal of the execution that begins under a key is raised if the key was
  cancelled before (with the request remembered) and whenever it is cancelled while registered;
  and when an execution that was replaced under its key finishes, the registry is unchanged.
\<close>

theorem cancellation_reaches_execution:
  "(hm_get (cx_senders st) key = None \<longrightarrow>
      (let (g, st') = cancellation_begin key (snd (cancellation_cancel key True st))
       in hm_get (cx_signals st') (cg_channel g) = Some True))
   \<and> (let (g, st') = cancellation_begin key st
       in hm_get (cx_signals (snd (cancellation_cancel key remember st'))) (cg_channel g) = Some True)
   \<and> (hm_get (cx_senders st) (cg_key old) \<noteq> Some (cg_channel old) \<longrightarrow> cancellation_finish old st = st)"
  using cancel_before_begin[of st key] cancel_while_running[of key st] finish_of_replaced_guard[of st old]
  by (auto simp: Let_def split: prod.splits)

theorem cancellation_reaches_execution_witness:
  "let st = \<lparr>cx_senders = [], cx_pending = [], cx_signals = [], cx_next = 0\<rparr>;
       (g, st') = cancellation_begin ''task:t'' (snd (cancellation_cancel ''task:t'' True st))
   in hm_get (cx_signals st') (cg_channel g) = Some True"
  using cancellation_reaches_execution[of "\<lparr>cx_senders = [], cx_pending = [], cx_signals = [], cx_next = 0\<rparr>" "''task:t''"]
  by (simp add: Let_def)

text \<open>
  Column texts. Reading back the text under which Core stores an enrollment, placement, session,
  runtime, command, task or cleanup state or a message role gives that state, turn and approval
  states have distinct texts, and the key that identifies a stream in the log determines its
  scope.
\<close>

theorem stored_names_roundtrip:
  "parse_enrollment_state (format_enrollment_state es) = es \<and> parse_placement_state (format_placement_state ps) = ps
   \<and> parse_session_state (format_session_state ss) = ss \<and> parse_runtime_state (format_runtime_state rs) = rs
   \<and> parse_command_state (format_command_state cs) = cs \<and> parse_message_role (format_message_role mr) = mr
   \<and> parse_task_state (task_run_state_name ts) = Inr ts \<and> parse_task_cleanup_state (task_cleanup_state_name tc) = Inr tc
   \<and> inj format_turn_state \<and> inj format_approval_state \<and> inj scope_key"
  by (simp add: parse_format_enrollment_state parse_format_placement_state parse_format_session_state
      parse_format_runtime_state parse_format_command_state parse_format_message_role parse_task_state_name
      parse_task_cleanup_state_name format_turn_state_inj format_approval_state_inj scope_key_is_inj)

text \<open>
  Frame limits. The check of a frame accepts exactly the frames of at most the maximal size
  whose JSON is nested at most 32 deep and whose string values have at most 65536 characters:
  the recursion with its depth counter computes the depth of the document.
\<close>

theorem control_frame_limits:
  "validate_control_frame_limits w frame = Inr () \<longleftrightarrow> wi_frame_bytes w frame \<le> 1048576
     \<and> json_depth (wi_frame_json w frame) \<le> 32 \<and> (\<forall>s\<in>json_strings (wi_frame_json w frame). length s \<le> 65536)"
  using validate_frame_iff[of w frame]
  by (simp add: MAX_CONTROL_FRAME_BYTES_def MAX_CONTROL_JSON_DEPTH_def MAX_CONTROL_STRING_CHARS_def)

theorem control_frame_limits_witness:
  "validate_control_frame_limits wire0 (CF_Ping (own_meta fenv0)) = Inr ()"
  unfolding control_frame_limits by (simp add: wire0_def json_depth.simps json_strings.simps)

text \<open>
  The byte limit on batches. When the events of a batch together exceed the frame limit, Core
  refuses the batch and its state does not change: no event of it is stored and none
  acknowledged. The Node cuts its outbox into batches of 32 events without regard to bytes, so a
  replay of such an outbox presents the same batch again.
\<close>

theorem oversize_replay_batch_refused:
  assumes "require_active_generation (co_registry st) ctx = Inr ()"
    and "es \<in> set (chunks EVENT_DELIVERY_BATCH_SIZE outbox)"
    and "sum_list (map (wi_event_bytes w) es) > MAX_CONTROL_FRAME_BYTES"
  shows "handle_event_batch w fe ctx es st = (Inl (BadRequest ''control.event_batch_bytes_too_large''), st)"
proof -
  have "length es \<le> MAX_EVENT_BATCH_ITEMS"
    using chunks_size[OF assms(2)] by (simp add: EVENT_DELIVERY_BATCH_SIZE_def MAX_EVENT_BATCH_ITEMS_def)
  then show ?thesis using oversize_batch_rejected[OF assms(1) _ assms(3)] by blast
qed

theorem oversize_replay_batch_refused_witness:
  "handle_event_batch (wire0\<lparr>wi_event_bytes := (\<lambda>_. 600000)\<rparr>) fenv0 ctx_a [ready_event, foreign_turn_event] (active_core two_nodes)
   = (Inl (BadRequest ''control.event_batch_bytes_too_large''), active_core two_nodes)"
proof -
  have g: "require_active_generation (co_registry (active_core two_nodes)) ctx_a = Inr ()" by code_simp
  have c: "[ready_event, foreign_turn_event] \<in> set (chunks EVENT_DELIVERY_BATCH_SIZE [ready_event, foreign_turn_event])"
    by (simp add: chunks.simps EVENT_DELIVERY_BATCH_SIZE_def)
  show ?thesis using oversize_replay_batch_refused[OF g c, of "wire0\<lparr>wi_event_bytes := (\<lambda>_. 600000)\<rparr>"]
    by (simp add: MAX_CONTROL_FRAME_BYTES_def)
qed

text \<open>
  Where isolation stops. A workspace validation event of Node a, in its own scope, that names
  the placement of Node b passes the owner check, is accepted, and replaces the display name,
  the path and the state of b's placement.
\<close>

theorem foreign_placement_rewritten:
  "validate_event_owner ''a'' foreign_placement_event two_nodes = Inr ()
   \<and> (\<exists>c db'. accept_transaction ''m'' foreign_placement_event two_nodes = Inr (c, db')
        \<and> map_option (\<lambda>p. (pl_node_id p, pl_display_name p, pl_workspace_path p, pl_state p)) (find_placement db' ''pb'')
          = Some (''b'', ''hijacked'', ''/evil'', PS_Missing))"
proof -
  let ?look = "\<lambda>db. map_option (\<lambda>p. (pl_node_id p, pl_display_name p, pl_workspace_path p, pl_state p)) (find_placement db ''pb'')"
  have v: "validate_event_owner ''a'' foreign_placement_event two_nodes = Inr ()" by code_simp
  have "case accept_transaction ''m'' foreign_placement_event two_nodes of Inl _ \<Rightarrow> False
      | Inr (c, db') \<Rightarrow> ?look db' = Some (''b'', ''hijacked'', ''/evil'', PS_Missing)" by code_simp
  then show ?thesis using v by (auto split: sum.splits)
qed

text \<open>
  One approval per turn. The approvals table has a unique index on the turn; after a turn has
  one approval request, accepting a second request of that turn with another approval id fails,
  and since the failing event stays in the Node's outbox it fails on every replay.
\<close>

theorem second_approval_of_turn_rejected:
  assumes "find_approval db a = Some r" and "ap_turn_id r = Some t" and "a' \<noteq> a"
    and "event_approval_id e = Some a'" and "ev_session_thread_id e = Some s" and "ev_turn_id e = Some t"
  shows "record_approval_request e db = Inl Database"
proof -
  have "r \<in> set (db_approvals db)" "ap_approval_id r = a"
    using select_by_Some_key[of ap_approval_id a "db_approvals db" r] assms(1) by simp_all
  then have "\<not> approvals_ok a' s (Some t) db" using assms(2,3) by (auto simp: approvals_ok_def list_all_iff)
  then show ?thesis using assms(4-6) by (simp add: record_approval_request_def)
qed

theorem second_approval_of_turn_rejected_witness:
  "\<exists>db'. record_approval_request (approval_ev ''e1'' 1 ''x'') two_nodes = Inr db'
     \<and> record_approval_request (approval_ev ''e2'' 2 ''y'') db' = Inl Database"
proof -
  have "case record_approval_request (approval_ev ''e1'' 1 ''x'') two_nodes of Inl _ \<Rightarrow> False
     | Inr db' \<Rightarrow> map_option ap_turn_id (find_approval db' ''x'') = Some (Some ''ta'')" by code_simp
  then obtain db' r where d: "record_approval_request (approval_ev ''e1'' 1 ''x'') two_nodes = Inr db'"
    and r: "find_approval db' ''x'' = Some r" "ap_turn_id r = Some ''ta''" by (auto split: sum.splits)
  have "event_approval_id (approval_ev ''e2'' 2 ''y'') = Some ''y''" by code_simp
  then show ?thesis using second_approval_of_turn_rejected[OF r, of "''y''" "approval_ev ''e2'' 2 ''y''"] d
    by (simp add: approval_ev_def runtime_ev_def ev0_def)
qed

text \<open>
  Authentication. A request authenticates exactly when it carries a non-empty credential, the
  Node is known and not revoked, the stored hash is that of the credential, and fewer than ten
  failures of the Node lie within the last sixty seconds: beyond the limit even the right
  credential is refused.
\<close>

theorem authentication_decision:
  "is_ok (fst (verify_node_credential h n c now g)) \<longleftrightarrow>
     (\<exists>secret row. c = Some secret \<and> secret \<noteq> [] \<and> length (recent_failures (auth_key n) now g) < 10
        \<and> find_node (gt_db g) n = Some row \<and> nd_presence row \<noteq> NP_Revoked \<and> nd_credential_hash row = Some (h secret))"
  using verify_is_ok[of h n c now g] by (simp add: AUTH_FAILURE_LIMIT_def)

text \<open>
  Workspaces of a heartbeat. Whatever a Node reports, the placements of all other Nodes stay as
  they are, and a workspace binding that was deleted and has no placement gets none back.
\<close>

theorem heartbeat_keeps_foreign_workspaces:
  "placements_of_others n (snd (upsert_heartbeat_workspaces sid n ws g)) = placements_of_others n g
   \<and> (binding_gone n path g \<longrightarrow> binding_gone n path (snd (upsert_heartbeat_workspaces sid n ws g)))"
  using workspace_keeps_others[of n "placements_of_others n g" sid ws] workspace_keeps_gone[of n path sid ws]
  by (simp add: h_keeps_def)

theorem heartbeat_keeps_foreign_workspaces_witness:
  "let g = gate0\<lparr>gt_deleted_bindings := [(''c'', ''/x'')]\<rparr>;
       ws = [\<lparr>ws_display_name = ''x'', ws_workspace_path = ''/x'', ws_state = PS_Validated, ws_resource_badges = [],
              ws_git_snapshot = None, ws_last_validated_at = 3\<rparr>]
   in binding_gone ''c'' ''/x'' g \<and> binding_gone ''c'' ''/x'' (snd (upsert_heartbeat_workspaces (\<lambda>_ _. ''1'') ''c'' ws g))"
proof -
  have "binding_gone ''c'' ''/x'' (gate0\<lparr>gt_deleted_bindings := [(''c'', ''/x'')]\<rparr>)"
    by (simp add: binding_gone_def workspace_binding_deleted_def same_binding_def gate0_def new_core_def two_nodes_def placement0_def)
  then show ?thesis using heartbeat_keeps_foreign_workspaces unfolding Let_def by blast
qed

text \<open>
  Admission of a turn. The check passes exactly when the session is not detached, the runtime is
  ready or running, the Node exists, is not revoked and its last heartbeat is younger than the
  offline limit (or, before the first one, it is not stored as offline), the placement is
  validated and has no hard-blocking badge, and the Node offers the provider.
\<close>

theorem turn_admission:
  "ensure_session_commandable cfg d CK_SendTurn now db = Inr () \<longleftrightarrow>
     sd_state d \<noteq> SS_Detached \<and> rs_state (sd_runtime d) \<in> {RS_Ready, RS_Running}
     \<and> (\<exists>row. find_node db (ps_node_id (sd_placement d)) = Some row \<and> nd_presence row \<noteq> NP_Revoked
         \<and> (case nd_last_heartbeat_at row of None \<Rightarrow> nd_presence row \<noteq> NP_Offline
            | Some t \<Rightarrow> max 0 ((now - t) div 1000000000) < cfg_offline_after_seconds cfg))
     \<and> ps_state (sd_placement d) = PS_Validated
     \<and> (\<forall>b\<in>set (ps_resource_badges (sd_placement d)). rb_severity b \<noteq> WS_HardBlock)
     \<and> node_supports_provider (ps_node_id (sd_placement d)) (rs_provider (sd_runtime d)) db = Inr True"
  unfolding session_commandable_iff node_commandable_iff placement_startable_iff
  by (simp add: runtime_accepts_def command_requires_startable_placement_def command_requires_provider_capability_def)

theorem turn_admission_witness:
  "ensure_session_commandable cfg0 detail0 CK_SendTurn 5 (gt_db gate0) = Inr ()"
  unfolding turn_admission
  by (simp add: detail0_def cfg0_def gate0_def new_core_def two_nodes_def empty_db_def node_row0_def
      node_supports_provider_def capability_is_available_def Let_def)

text \<open>
  Requests and the control channel. Along any sequence of requests, ticks and Node events a
  command waits in the dispatch outbox exactly while it is unsettled, and the event log keeps
  its invariant and every event it already holds.
\<close>

theorem requests_keep_channel:
  assumes "schedule_steps st st'" "outbox_inv (co_db st)" "log_ok K st"
  shows "outbox_inv (co_db st') \<and> log_ok K st'"
  using assms outbox_schedule.steps_keep[of st st'] log_schedule.steps_keep[of st st' K] by (simp add: journal_ok_def)

theorem requests_keep_channel_witness:
  "outbox_inv (co_db (snd (job_scheduler_tick sched_env0 utc job_core)))
   \<and> log_ok {} (snd (job_scheduler_tick sched_env0 utc job_core))"
  by (rule requests_keep_channel[OF job_core_step]) (simp_all add: job_core_outbox job_core_log)

text \<open>
  A claimed message settles. Dispatching a message in the sending state ends with the message
  sent, carrying the id of the recorded command, or failed, carrying an error code; whatever the
  submission of the turn does, the message does not stay in the sending state.
\<close>

theorem claimed_message_settles:
  assumes "find (scheduled_row_is s m) (db_scheduled_messages (co_db st)) = Some r" "sm_state r = SM_Sending"
  shows "fst (dispatch_scheduled_message env s m st) = Inr ()
     \<and> (\<exists>r'. find (scheduled_row_is s m) (db_scheduled_messages (co_db (snd (dispatch_scheduled_message env s m st)))) = Some r'
       \<and> (sm_state r' = SM_Sent \<and> sm_command_id r' = Some (si_command (sc_ids env m))
          \<or> sm_state r' = SM_Failed \<and> sm_failure_code r' \<noteq> None))"
  by (rule dispatch_settles[OF assms surjective_pairing])

theorem claimed_message_settles_witness:
  "fst (dispatch_scheduled_message sched_env0 ''sa'' ''p'' job_core) = Inr ()"
  using claimed_message_settles[of "''sa''" "''p''" job_core sending_message0 sched_env0]
  by (simp add: job_core_def new_core_def scheduled_row_is_def sent_message0_def sending_message0_def new_scheduled_message_def)

text \<open>
  Lease tokens. The token of a lease that was just issued is decoded to its claims by the
  validation at every instant of its ten minutes; no other token of the session is accepted for
  other claims; and once the leases of a session are revoked, no token yields claims of this
  session.
\<close>

theorem lease_tokens:
  assumes "lease_inv db" "issue_mcp_access_lease mac ct lid now s a db = Inr ((token, claims), db')" "CHR ''.'' \<notin> set lid"
  shows "lease_inv db'
     \<and> (t < now + 600000000000 \<longrightarrow> validate_mcp_access_lease mac ct t token db' = Inr claims)
     \<and> (validate_mcp_access_lease mac ct t token' db' = Inr c \<longrightarrow> lc_session_thread_id c = s \<longrightarrow> c = claims)
     \<and> (validate_mcp_access_lease mac ct t token' (revoke_session_mcp_leases s why u db') = Inr c \<longrightarrow> lc_session_thread_id c \<noteq> s)"
proof (intro conjI impI)
  show i: "lease_inv db'" by (rule lease_inv_issue[OF assms(1,2)])
  show "t < now + 600000000000 \<Longrightarrow> validate_mcp_access_lease mac ct t token db' = Inr claims"
    by (rule issued_validates[OF assms(2,3)])
  show "validate_mcp_access_lease mac ct t token' db' = Inr c \<Longrightarrow> lc_session_thread_id c = s \<Longrightarrow> c = claims"
    by (rule only_newest_lease[OF assms(1,2)])
  show "validate_mcp_access_lease mac ct t token' (revoke_session_mcp_leases s why u db') = Inr c \<Longrightarrow> lc_session_thread_id c \<noteq> s"
    by (rule revoked_refused_lease[OF lease_inv_revoke[OF i]]) (simp_all add: live_leases_revoked)
qed

theorem lease_tokens_witness:
  "let claims = le_claims (new_lease ''l'' ''sa'' AR_System
        \<lparr>sy_node_id = ''a'', sy_project_id = None, sy_placement_id = ''pa'', sy_session_state = SS_Active\<rparr> 1 0) in
   \<exists>db'. issue_mcp_access_lease (\<lambda>_. [7]) (\<lambda>_. []) ''l'' 0 ''sa'' AR_System two_nodes
       = Inr ((lease_token (\<lambda>_. [7]) (\<lambda>_. []) claims, claims), db')
     \<and> validate_mcp_access_lease (\<lambda>_. [7]) (\<lambda>_. []) 5 (lease_token (\<lambda>_. [7]) (\<lambda>_. []) claims) db' = Inr claims"
proof -
  let ?claims = "le_claims (new_lease ''l'' ''sa'' AR_System
        \<lparr>sy_node_id = ''a'', sy_project_id = None, sy_placement_id = ''pa'', sy_session_state = SS_Active\<rparr> 1 0)"
  have "\<exists>db'. issue_mcp_access_lease (\<lambda>_. [7]) (\<lambda>_. []) ''l'' 0 ''sa'' AR_System two_nodes
       = Inr ((lease_token (\<lambda>_. [7]) (\<lambda>_. []) ?claims, ?claims), db')"
    by (simp add: issue_mcp_access_lease_def tool_is_visible_to_actor_def load_scoped_identity_for_session_def two_nodes_def
        empty_db_def placement0_def next_credential_version_def revoke_session_mcp_leases_def Let_def)
  then obtain db' where i: "issue_mcp_access_lease (\<lambda>_. [7]) (\<lambda>_. []) ''l'' 0 ''sa'' AR_System two_nodes
       = Inr ((lease_token (\<lambda>_. [7]) (\<lambda>_. []) ?claims, ?claims), db')" by blast
  have "lease_inv two_nodes" by (simp add: lease_inv_def two_nodes_def empty_db_def unique_key_def live_leases_def)
  from lease_tokens[OF this i, of 5] show ?thesis using i by auto
qed

text \<open>
  Bounded capture. However the output of a child is cut into reads, what the loop keeps is the
  first \<open>cap\<close> bytes of the stream up to its end, and it reports truncation exactly
  when the stream is longer.
\<close>

theorem output_within_cap:
  "read_capped cap [] False ks = (let text = concat (takeWhile (\<lambda>k. k \<noteq> []) ks) in (take cap text, cap < length text))"
  using read_capped_spec[of "[]" cap False ks] by (simp add: Let_def)

text \<open>
  Validated means allowed. A snapshot in state Validated, which Core's admission requires before
  it starts anything, names a path that resolves to an existing directory, not read-only, below
  a root the Node allows.
\<close>

theorem validated_workspace_allowed:
  assumes "fs_ok fs" and "ws_state (validate_command_workspace git_of allowed now fs name path) = PS_Validated"
  shows "\<exists>p d. canonicalize fs path = Inr p \<and> below_allowed fs allowed p \<and> entry_at fs p = Some d \<and> is_dir d \<and> \<not> fe_readonly d"
  using validated_workspace[OF assms] .

theorem validated_workspace_allowed_witness:
  "ws_state (validate_command_workspace (\<lambda>_. None) [''/w''] 9 fs0 ''p'' ''/w'') = PS_Validated \<and> below_allowed fs0 [''/w''] [''w'']"
proof -
  from validated_workspace_allowed[OF fs_ok_fs0 validated0] validated0 show ?thesis by auto
qed

text \<open>
  Bounded change lists. Of the changes a porcelain v2 status contains, as its record parser
  reads them, the snapshot lists the first ones up to the limit, is marked truncated exactly
  when there are more, and its conflict, staged and untracked counters count all of them, listed
  or not.
\<close>

theorem git_changes_bounded:
  "let s = parse_git_porcelain_v2 status generated_at; cs = listed (split_on (char_of (0 :: nat)) status)
   in gs_changed_files s = take MAX_GIT_CHANGED_FILES cs \<and> gs_truncated s = (length cs > MAX_GIT_CHANGED_FILES)
    \<and> gs_conflicted_count s = count_changes gf_conflicted cs \<and> gs_staged_count s = count_changes (\<lambda>c. gf_index_status c \<noteq> None) cs
    \<and> gs_untracked_count s = count_changes (\<lambda>c. gf_worktree_status c = Some GC_Untracked) cs"
  unfolding Let_def using parse_snapshot_spec[of status generated_at] by blast

text \<open>
  Cancellation happens once. A cancel request that succeeds found the run neither terminal nor
  already cancelling and left it Cancelling, under the command it recorded; cancelling it again,
  from whatever client, is refused and leaves Core exactly as it is.
\<close>

theorem task_cancelled_once:
  assumes "cancel_task_run env ids t st = (Inr d, st')"
  shows "(\<exists>r. find_task (co_db st) t = Some r \<and> cancellable r \<and> find_task (co_db st') t = Some (mark_cancelling (si_command ids) (se_now env) r))
     \<and> (\<exists>e. cancel_task_run env' ids' t st' = (Inl e, st'))"
proof -
  obtain r where r: "find_task (co_db st) t = Some r" "cancellable r"
    "find_task (co_db st') t = Some (mark_cancelling (si_command ids) (se_now env) r)"
    using cancel_task_run_row[OF assms] by blast
  moreover have "\<not> cancellable (mark_cancelling (si_command ids) (se_now env) r)" by (simp add: cancellable_def mark_cancelling_def)
  ultimately show ?thesis using cancel_refused[OF r(3)] by blast
qed

theorem task_cancelled_once_witness:
  "\<exists>e. cancel_task_run session_env0 ids0 ''tb'' (snd (cancel_task_run session_env0 ids0 ''tb'' task_node0))
     = (Inl e, snd (cancel_task_run session_env0 ids0 ''tb'' task_node0))"
proof -
  obtain d st' where c: "cancel_task_run session_env0 ids0 ''tb'' task_node0 = (Inr d, st')"
    using cancel_task0 by (cases "cancel_task_run session_env0 ids0 ''tb'' task_node0"; cases "fst (cancel_task_run session_env0 ids0 ''tb'' task_node0)") (auto simp: is_ok_def)
  from task_cancelled_once[OF c] c show ?thesis by auto
qed

text \<open>
  What the argument check guarantees. Accepted arguments are an object with every required key;
  when the schema forbids additional properties every key is declared; and every argument whose
  property declares a type has that JSON type.
\<close>

theorem accepted_arguments_conform:
  assumes "validate_arguments schema arguments = Inr ()"
  shows "\<exists>ms. arguments = JObj ms \<and> (\<forall>k\<in>set (schema_required schema). has_member ms k)
    \<and> (json_get_bool schema ''additionalProperties'' = Some False \<longrightarrow>
        (\<exists>ps. schema_properties schema = Some ps \<and> (\<forall>(k, v)\<in>set ms. has_member ps k)) \<or> ms = [])
    \<and> (\<forall>ps t k v. schema_properties schema = Some ps \<longrightarrow> (k, v) \<in> set ms \<longrightarrow> property_type ps k = Some t \<longrightarrow> json_type_matches t v)"
  using arguments_conform[OF assms] .

theorem accepted_arguments_conform_witness:
  "\<exists>ms. JObj [(''path'', JStr ''x'')] = JObj ms \<and> has_member ms ''path''"
proof -
  let ?s = "JObj [(''type'', JStr ''object''), (''required'', JArr [JStr ''path'']),
     (''properties'', JObj [(''path'', JObj [(''type'', JStr ''string'')])]), (''additionalProperties'', JBool False)]"
  have "validate_arguments ?s (JObj [(''path'', JStr ''x'')]) = Inr ()" by code_simp
  from accepted_arguments_conform[OF this] have "\<exists>ms. JObj [(''path'', JStr ''x'')] = JObj ms \<and> (\<forall>k\<in>set (schema_required ?s). has_member ms k)"
    by blast
  moreover have "schema_required ?s = [''path'']" by code_simp
  ultimately show ?thesis by simp
qed

end
